(* ===== verification/Prelude.thy ===== *)
theory Prelude
  imports Complex_Main "HOL-Library.AList"
begin

text \<open>
  Shared vocabulary of the development: JSON-like values (the payload dictionaries the journal
  stores), Python dictionaries as insertion-ordered association lists, Python-style conversions,
  and the small list facts several components use.

  A Python f-string is kept as the list of its parts (\<open>JFmt\<close>), so that two messages are equal
  exactly when they are built from the same parts; \<open>render\<close> flattens one to text. A \<open>Decimal\<close> or
  \<open>float\<close> is kept as the exact rational it denotes (\<open>JNum\<close>), a time stamp as microseconds since
  the epoch (\<open>JTime\<close>); \<open>str\<close>/\<open>isoformat\<close> of those in a payload, and the parse back, are therefore
  the identity.
\<close>

named_theorems wp_simps "symbolic execution of programs"
named_theorems wp_intro "preservation rules for programs"
named_theorems model_defs "definitions unfolded by symbolic execution"

section \<open>JSON values\<close>

datatype jval =
    JNull
  | JBool bool
  | JInt int
  | JNum rat
  | JStr string
  | JTime int
  | JList "jval list"
  | JObj "(string \<times> jval) list"
  | JFmt "jval list"

type_synonym payload = "(string \<times> jval) list"

text \<open>\<open>payload.get(k, default)\<close>.\<close>

definition pget :: "payload \<Rightarrow> string \<Rightarrow> jval \<Rightarrow> jval" where
  "pget p k d = (case map_of p k of None \<Rightarrow> d | Some v \<Rightarrow> v)"

lemma pget_Nil [simp]: "pget [] k d = d"
  by (simp add: pget_def)

lemma pget_Cons [simp]: "pget ((k', v) # p) k d = (if k = k' then v else pget p k d)"
  by (auto simp: pget_def)

section \<open>Decimal text\<close>

fun str_nat :: "nat \<Rightarrow> string" where
  "str_nat n =
     (if n < 10 then [char_of (48 + n)] else str_nat (n div 10) @ [char_of (48 + n mod 10)])"

declare str_nat.simps [simp del]

definition str_int :: "int \<Rightarrow> string" where
  "str_int i = (if i < 0 then CHR ''-'' # str_nat (nat (- i)) else str_nat (nat i))"

definition str_rat :: "rat \<Rightarrow> string" where
  "str_rat r = (case quotient_of r of (n, d) \<Rightarrow>
      if d = 1 then str_int n else str_int n @ ''/'' @ str_int d)"

fun render :: "jval \<Rightarrow> string" where
  "render JNull = ''None''"
| "render (JBool b) = (if b then ''True'' else ''False'')"
| "render (JInt i) = str_int i"
| "render (JNum r) = str_rat r"
| "render (JStr s) = s"
| "render (JTime t) = ''@'' @ str_int t"
| "render (JList xs) = ''['' @ concat (map (\<lambda>x. render x @ '','') xs) @ '']''"
| "render (JObj ps) = ''{'' @ concat (map (\<lambda>(k, x). k @ '':'' @ render x @ '','') ps) @ ''}''"
| "render (JFmt xs) = concat (map render xs)"

text \<open>Python's \<open>int(text)\<close> on plain decimal text; anything else raises.\<close>

fun digits_val :: "int \<Rightarrow> string \<Rightarrow> int option" where
  "digits_val acc [] = Some acc"
| "digits_val acc (ch # s) =
     (if 48 \<le> (of_char ch :: int) \<and> (of_char ch :: int) \<le> 57
      then digits_val (10 * acc + (of_char ch - 48)) s else None)"

definition parse_int :: "string \<Rightarrow> int option" where
  "parse_int s = (case s of
       [] \<Rightarrow> None
     | ch # s' \<Rightarrow>
         if ch = CHR ''-'' then (if s' = [] then None else map_option uminus (digits_val 0 s'))
         else digits_val 0 s)"

section \<open>Rounding\<close>

text \<open>Round half to even (\<open>Decimal.quantize\<close>, \<open>timedelta\<close>) and Python's \<open>int(x)\<close> truncation.\<close>

definition round_half_even :: "rat \<Rightarrow> int" where
  "round_half_even r =
     (let f = floor r; d = r - of_int f
      in if d < 1/2 then f else if d > 1/2 then f + 1 else if even f then f else f + 1)"

definition quantize_cent :: "rat \<Rightarrow> rat" where
  "quantize_cent r = of_int (round_half_even (r * 100)) / 100"

definition trunc_rat :: "rat \<Rightarrow> int" where
  "trunc_rat r = (if r < 0 then - floor (- r) else floor r)"

lemma round_half_even_near: "\<bar>of_int (round_half_even r) - r\<bar> \<le> 1/2"
proof -
  have "of_int (floor r) \<le> r" and "r < of_int (floor r) + 1"
    by linarith+
  then show ?thesis
    by (simp add: round_half_even_def Let_def abs_le_iff)
qed

lemma quantize_cent_near: "\<bar>quantize_cent r - r\<bar> \<le> 1/200"
  using round_half_even_near [of "r * 100"]
  by (simp add: quantize_cent_def abs_le_iff field_simps)

section \<open>Dictionaries in insertion order\<close>

text \<open>
  A Python dictionary whose iteration order matters is an association list: \<open>AList.update\<close>
  overwrites in place or appends, \<open>AList.delete\<close> removes, exactly as \<open>d[k] = v\<close> and
  \<open>d.pop(k, None)\<close> do.
\<close>

abbreviation dput :: "'k \<Rightarrow> 'v \<Rightarrow> ('k \<times> 'v) list \<Rightarrow> ('k \<times> 'v) list" where
  "dput \<equiv> AList.update"

abbreviation dpop :: "'k \<Rightarrow> ('k \<times> 'v) list \<Rightarrow> ('k \<times> 'v) list" where
  "dpop \<equiv> AList.delete"

abbreviation dget :: "('k \<times> 'v) list \<Rightarrow> 'k \<Rightarrow> 'v option" where
  "dget \<equiv> map_of"

definition dget_or :: "('k \<times> 'v) list \<Rightarrow> 'k \<Rightarrow> 'v \<Rightarrow> 'v" where
  "dget_or m k d = (case map_of m k of None \<Rightarrow> d | Some v \<Rightarrow> v)"

lemma dget_dput [simp]: "dget (dput k v m) k' = (if k' = k then Some v else dget m k')"
  by (simp add: update_conv')

lemma dget_dpop [simp]: "dget (dpop k m) k' = (if k' = k then None else dget m k')"
  by (simp add: delete_conv')

lemma dget_or_Nil [simp]: "dget_or [] k d = d"
  by (simp add: dget_or_def)

lemma dget_or_dput [simp]:
  "dget_or (dput k v m) k' d = (if k' = k then v else dget_or m k' d)"
  by (simp add: dget_or_def)

lemma keys_dput [simp]: "fst ` set (dput k v m) = insert k (fst ` set m)"
  by (simp add: dom_update)

lemma distinct_keys_dput: "distinct (map fst m) \<Longrightarrow> distinct (map fst (dput k v m))"
  by (rule distinct_update)

section \<open>Lists as Python sets\<close>

text \<open>\<open>s.add\<close> and \<open>s.discard\<close> on a set whose order is never observed.\<close>

definition set_add :: "'a \<Rightarrow> 'a list \<Rightarrow> 'a list" where
  "set_add x xs = (if x \<in> set xs then xs else xs @ [x])"

definition set_discard :: "'a \<Rightarrow> 'a list \<Rightarrow> 'a list" where
  "set_discard x xs = removeAll x xs"

lemma set_set_add [simp]: "set (set_add x xs) = insert x (set xs)"
  by (auto simp: set_add_def)

lemma set_set_discard [simp]: "set (set_discard x xs) = set xs - {x}"
  by (simp add: set_discard_def)

lemma distinct_set_add: "distinct xs \<Longrightarrow> distinct (set_add x xs)"
  by (simp add: set_add_def)

section \<open>List facts\<close>

lemma distinct_map_filter: "distinct (map f xs) \<Longrightarrow> distinct (map f (filter P xs))"
  by (induction xs) auto

lemma fold_snoc: "fold f (xs @ [x]) s = f x (fold f xs s)"
  by simp

lemma foldl_snoc: "foldl f s (xs @ [x]) = f (foldl f s xs) x"
  by simp

lemma last_filter_snoc:
  "filter P (xs @ [x]) = (if P x then filter P xs @ [x] else filter P xs)"
  by simp

end
