(* ===== verification/Program.thy ===== *)
theory Program
  imports Prelude
begin

text \<open>
  The programs of the model: a computation over a mutable state that returns a value or raises.
  Python keeps every mutation made before an exception, so the state component is returned in both
  cases. \<open>wp m Q E s\<close> says that running \<open>m\<close> from \<open>s\<close> ends in a state satisfying \<open>Q\<close> when it
  returns and \<open>E\<close> when it raises; its equations (collection \<open>wp_simps\<close>) execute a program
  symbolically. \<open>keeps I m\<close> says that every run of \<open>m\<close> keeps the property \<open>I\<close>; the locale
  \<open>prog_order\<close> is the contract of a preorder between the states before and after a program.
\<close>

section \<open>Exceptions\<close>

text \<open>One constructor per exception class of the source; \<open>exn_message\<close> is \<open>str(exc)\<close>.\<close>

datatype exn =
    JournalUnavailable jval
  | JournalOwnershipError jval
  | HaltAcknowledgementConflict jval
  | InvariantViolation int jval
  | RiskRejection string jval
  | RiskSelfTestFailed "jval list"
  | DuplicateDecision string
  | BrokerRejected jval
  | BrokerSendUncertain jval
  | BrokerFault jval
  | WitnessWriteFailed jval
  | WitnessViolation jval
  | FenceWriteFailed jval
  | FenceStillRaised string jval
  | FailureDomainError jval
  | CalendarCoverageError int
  | ClockSkewError rat
  | ValueErr jval
  | TypeErr jval
  | KeyErr jval
  | RuntimeErr jval
  | AssertionErr
  | HostStartupRefused int jval
  | OSErr jval
  | FileNotFound jval

fun exn_message :: "exn \<Rightarrow> jval" where
  "exn_message (InvariantViolation n d) =
     JFmt [JStr ''INVARIANT '', JInt n, JStr '' VIOLATED: '', d]"
| "exn_message (RiskRejection check d) = JFmt [JStr check, JStr '': '', d]"
| "exn_message (RiskSelfTestFailed fs) =
     JFmt [JStr ''risk checks did NOT reject orders they must reject: '', JList fs,
           JStr '' -- refusing to start'']"
| "exn_message (DuplicateDecision d) = JStr d"
| "exn_message (FenceStillRaised st r) =
     JFmt [JStr ''a durable fatal fence is present ('', JStr st, JStr ''): '', r]"
| "exn_message (CalendarCoverageError d) =
     JFmt [JInt d, JStr '' is outside the verified calendar coverage'']"
| "exn_message (ClockSkewError s) =
     JFmt [JStr ''local clock differs from broker by '', JNum s, JStr ''s'']"
| "exn_message (JournalUnavailable d) = d"
| "exn_message (JournalOwnershipError d) = d"
| "exn_message (HaltAcknowledgementConflict d) = d"
| "exn_message (BrokerRejected d) = d"
| "exn_message (BrokerSendUncertain d) = d"
| "exn_message (BrokerFault d) = d"
| "exn_message (WitnessWriteFailed d) = d"
| "exn_message (WitnessViolation d) = d"
| "exn_message (FenceWriteFailed d) = d"
| "exn_message (FailureDomainError d) = d"
| "exn_message (ValueErr d) = d"
| "exn_message (TypeErr d) = d"
| "exn_message (KeyErr d) = d"
| "exn_message (RuntimeErr d) = d"
| "exn_message AssertionErr = JStr []"
| "exn_message (HostStartupRefused code d) = d"
| "exn_message (OSErr d) = d"
| "exn_message (FileNotFound d) = d"

section \<open>Pure computations that may raise\<close>

definition ebind :: "exn + 'a \<Rightarrow> ('a \<Rightarrow> exn + 'b) \<Rightarrow> exn + 'b" where
  "ebind r f = (case r of Inl e \<Rightarrow> Inl e | Inr a \<Rightarrow> f a)"

lemma ebind_simps [simp]: "ebind (Inl e) f = Inl e" "ebind (Inr a) f = f a"
  by (simp_all add: ebind_def)

lemma ebind_Inr_iff: "ebind r f = Inr b \<longleftrightarrow> (\<exists>a. r = Inr a \<and> f a = Inr b)"
  by (cases r) auto

text \<open>\<open>payload[k]\<close> and the conversions \<open>int(v)\<close>, \<open>Decimal(str(v))\<close>, \<open>fromisoformat(str(v))\<close>.\<close>

definition pkey :: "payload \<Rightarrow> string \<Rightarrow> exn + jval" where
  "pkey p k = (case map_of p k of None \<Rightarrow> Inl (KeyErr (JStr k)) | Some v \<Rightarrow> Inr v)"

fun j_int :: "jval \<Rightarrow> exn + int" where
  "j_int (JInt i) = Inr i"
| "j_int (JBool b) = Inr (if b then 1 else 0)"
| "j_int (JNum r) = Inr (trunc_rat r)"
| "j_int (JStr s) = (case parse_int s of
       Some i \<Rightarrow> Inr i
     | None \<Rightarrow> Inl (ValueErr (JFmt [JStr ''invalid literal for int(): '', JStr s])))"
| "j_int v = Inl (TypeErr (JStr ''int() argument must be a string or a number''))"

fun j_dec :: "jval \<Rightarrow> exn + rat" where
  "j_dec (JNum r) = Inr r"
| "j_dec (JInt i) = Inr (of_int i)"
| "j_dec v = Inl (ValueErr (JStr ''invalid decimal''))"

fun j_time :: "jval \<Rightarrow> exn + int" where
  "j_time (JTime t) = Inr t"
| "j_time v = Inl (ValueErr (JStr ''invalid isoformat string''))"

text \<open>Truth value of a payload entry (\<open>if v\<close>).\<close>

fun j_truthy :: "jval \<Rightarrow> bool" where
  "j_truthy JNull = False"
| "j_truthy (JBool b) = b"
| "j_truthy (JInt i) = (i \<noteq> 0)"
| "j_truthy (JNum r) = (r \<noteq> 0)"
| "j_truthy (JStr s) = (s \<noteq> [])"
| "j_truthy (JTime t) = True"
| "j_truthy (JList xs) = (xs \<noteq> [])"
| "j_truthy (JObj ps) = (ps \<noteq> [])"
| "j_truthy (JFmt xs) = (render (JFmt xs) \<noteq> [])"

definition j_opt :: "('a \<Rightarrow> jval) \<Rightarrow> 'a option \<Rightarrow> jval" where
  "j_opt f x = (case x of None \<Rightarrow> JNull | Some a \<Rightarrow> f a)"

lemma j_opt_simps [simp]: "j_opt f None = JNull" "j_opt f (Some a) = f a"
  by (simp_all add: j_opt_def)

text \<open>A fold whose body may raise.\<close>

fun fold_exn :: "('x \<Rightarrow> 'a \<Rightarrow> exn + 'a) \<Rightarrow> 'x list \<Rightarrow> 'a \<Rightarrow> exn + 'a" where
  "fold_exn f [] a = Inr a"
| "fold_exn f (x # xs) a = ebind (f x a) (fold_exn f xs)"

lemma fold_exn_append: "fold_exn f (xs @ ys) a = ebind (fold_exn f xs a) (fold_exn f ys)"
  by (induction xs arbitrary: a) (auto simp: ebind_def split: sum.splits)

section \<open>Programs\<close>

type_synonym ('s, 'a) prog = "'s \<Rightarrow> (exn + 'a) \<times> 's"

definition ret :: "'a \<Rightarrow> ('s, 'a) prog" where
  "ret a = (\<lambda>s. (Inr a, s))"

definition raise :: "exn \<Rightarrow> ('s, 'a) prog" where
  "raise e = (\<lambda>s. (Inl e, s))"

definition bindP :: "('s, 'a) prog \<Rightarrow> ('a \<Rightarrow> ('s, 'b) prog) \<Rightarrow> ('s, 'b) prog" where
  "bindP m f = (\<lambda>s. case m s of (Inl e, t) \<Rightarrow> (Inl e, t) | (Inr a, t) \<Rightarrow> f a t)"

definition seqP :: "('s, 'a) prog \<Rightarrow> ('s, 'b) prog \<Rightarrow> ('s, 'b) prog" where
  "seqP m n = bindP m (\<lambda>_. n)"

text \<open>\<open>reads f k\<close> reads \<open>f\<close> of the current state and continues with it.\<close>

definition reads :: "('s \<Rightarrow> 'x) \<Rightarrow> ('x \<Rightarrow> ('s, 'a) prog) \<Rightarrow> ('s, 'a) prog" where
  "reads f k = (\<lambda>s. k (f s) s)"

definition modP :: "('s \<Rightarrow> 's) \<Rightarrow> ('s, unit) prog" where
  "modP f = (\<lambda>s. (Inr (), f s))"

definition whenP :: "bool \<Rightarrow> ('s, unit) prog \<Rightarrow> ('s, unit) prog" where
  "whenP b m = (if b then m else ret ())"

text \<open>\<open>try: m except Exception as e: h e\<close>; a handler that does not match re-raises.\<close>

definition catchP :: "('s, 'a) prog \<Rightarrow> (exn \<Rightarrow> ('s, 'a) prog) \<Rightarrow> ('s, 'a) prog" where
  "catchP m h = (\<lambda>s. case m s of (Inl e, t) \<Rightarrow> h e t | (Inr a, t) \<Rightarrow> (Inr a, t))"

text \<open>
  \<open>try: m except <classes> as e: ...\<close> where the rest of the block continues with the result:
  \<open>sel\<close> picks the exceptions that are caught.
\<close>

definition attemptP :: "('s, 'a) prog \<Rightarrow> (exn \<Rightarrow> 'x option) \<Rightarrow> ('s, 'x + 'a) prog" where
  "attemptP m sel =
     catchP (bindP m (\<lambda>a. ret (Inr a)))
       (\<lambda>e. case sel e of None \<Rightarrow> raise e | Some x \<Rightarrow> ret (Inl x))"

text \<open>A pure computation that may raise, run inside a program.\<close>

definition liftE :: "exn + 'a \<Rightarrow> ('s, 'a) prog" where
  "liftE r = (\<lambda>s. (r, s))"

fun block :: "('s, unit) prog list \<Rightarrow> ('s, unit) prog" where
  "block [] = ret ()"
| "block (m # ms) = seqP m (block ms)"

fun forP :: "'x list \<Rightarrow> ('x \<Rightarrow> ('s, unit) prog) \<Rightarrow> ('s, unit) prog" where
  "forP [] f = ret ()"
| "forP (x # xs) f = seqP (f x) (forP xs f)"

text \<open>Run a program of a component inside the program of its owner.\<close>

definition zoom :: "('s \<Rightarrow> 't) \<Rightarrow> ('t \<Rightarrow> 's \<Rightarrow> 's) \<Rightarrow> ('t, 'a) prog \<Rightarrow> ('s, 'a) prog" where
  "zoom get put m = (\<lambda>s. case m (get s) of (r, t) \<Rightarrow> (r, put t s))"

section \<open>Symbolic execution\<close>

definition wp ::
  "('s, 'a) prog \<Rightarrow> ('a \<Rightarrow> 's \<Rightarrow> bool) \<Rightarrow> (exn \<Rightarrow> 's \<Rightarrow> bool) \<Rightarrow> 's \<Rightarrow> bool" where
  "wp m Q E s = (case m s of (Inl e, t) \<Rightarrow> E e t | (Inr a, t) \<Rightarrow> Q a t)"

lemma wp_ret [wp_simps]: "wp (ret a) Q E s = Q a s"
  by (simp add: wp_def ret_def)

lemma wp_raise [wp_simps]: "wp (raise e) Q E s = E e s"
  by (simp add: wp_def raise_def)

lemma wp_bindP [wp_simps]: "wp (bindP m f) Q E s = wp m (\<lambda>a. wp (f a) Q E) E s"
  by (simp add: wp_def bindP_def split: prod.splits sum.splits)

lemma wp_seqP [wp_simps]: "wp (seqP m n) Q E s = wp m (\<lambda>_. wp n Q E) E s"
  by (simp add: seqP_def wp_bindP)

lemma wp_reads [wp_simps]: "wp (reads f k) Q E s = wp (k (f s)) Q E s"
  by (simp add: wp_def reads_def)

lemma wp_modP [wp_simps]: "wp (modP f) Q E s = Q () (f s)"
  by (simp add: wp_def modP_def)

lemma wp_whenP [wp_simps]: "wp (whenP b m) Q E s = (if b then wp m Q E s else Q () s)"
  by (simp add: whenP_def wp_ret)

lemma wp_catchP [wp_simps]: "wp (catchP m h) Q E s = wp m Q (\<lambda>e. wp (h e) Q E) s"
  by (simp add: wp_def catchP_def split: prod.splits sum.splits)

lemma wp_liftE [wp_simps]:
  "wp (liftE r) Q E s = (case r of Inl e \<Rightarrow> E e s | Inr a \<Rightarrow> Q a s)"
  by (simp add: wp_def liftE_def split: sum.splits)

lemma wp_attemptP [wp_simps]:
  "wp (attemptP m sel) Q E s =
     wp m (\<lambda>a. Q (Inr a)) (\<lambda>e t. case sel e of None \<Rightarrow> E e t | Some x \<Rightarrow> Q (Inl x) t) s"
  unfolding attemptP_def wp_catchP wp_bindP
  by (rule arg_cong2 [where f = "\<lambda>a b. wp m a b s"])
     (auto simp: fun_eq_iff wp_ret wp_raise split: option.splits)

lemma wp_case_sum [wp_simps]:
  "wp (case x of Inl a \<Rightarrow> f a | Inr b \<Rightarrow> g b) Q E s =
     (case x of Inl a \<Rightarrow> wp (f a) Q E s | Inr b \<Rightarrow> wp (g b) Q E s)"
  by (simp split: sum.splits)

lemma wp_case_prod [wp_simps]:
  "wp (case p of (a, b) \<Rightarrow> f a b) Q E s = (case p of (a, b) \<Rightarrow> wp (f a b) Q E s)"
  by (simp split: prod.splits)

lemma wp_block_Nil [wp_simps]: "wp (block []) Q E s = Q () s"
  by (simp add: wp_ret)

lemma wp_block_Cons [wp_simps]:
  "wp (block (m # ms)) Q E s = wp m (\<lambda>_. wp (block ms) Q E) E s"
  by (simp add: wp_seqP)

lemma wp_forP_Nil [wp_simps]: "wp (forP [] f) Q E s = Q () s"
  by (simp add: wp_ret)

lemma wp_forP_Cons [wp_simps]:
  "wp (forP (x # xs) f) Q E s = wp (f x) (\<lambda>_. wp (forP xs f) Q E) E s"
  by (simp add: wp_seqP)

lemma wp_zoom [wp_simps]:
  "wp (zoom get put m) Q E s = wp m (\<lambda>a t. Q a (put t s)) (\<lambda>e t. E e (put t s)) (get s)"
  by (simp add: wp_def zoom_def split: prod.splits sum.splits)

lemma wp_if [wp_simps]: "wp (if b then m else n) Q E s = (if b then wp m Q E s else wp n Q E s)"
  by simp

lemma wp_case_option [wp_simps]:
  "wp (case x of None \<Rightarrow> m | Some y \<Rightarrow> f y) Q E s =
     (case x of None \<Rightarrow> wp m Q E s | Some y \<Rightarrow> wp (f y) Q E s)"
  by (simp split: option.splits)

lemma wp_Let [wp_simps]: "wp (let x = t in f x) Q E s = (let x = t in wp (f x) Q E s)"
  by simp

text \<open>The same equations where the state is not given yet.\<close>

lemma wp_ret_fun [wp_simps]: "wp (ret a) Q E = Q a"
  by (rule ext) (rule wp_ret)

lemma wp_raise_fun [wp_simps]: "wp (raise e) Q E = E e"
  by (rule ext) (rule wp_raise)

lemma wp_bindP_fun [wp_simps]: "wp (bindP m f) Q E = wp m (\<lambda>a. wp (f a) Q E) E"
  by (rule ext) (rule wp_bindP)

lemma wp_seqP_fun [wp_simps]: "wp (seqP m n) Q E = wp m (\<lambda>_. wp n Q E) E"
  by (rule ext) (rule wp_seqP)

lemma wp_catchP_fun [wp_simps]: "wp (catchP m h) Q E = wp m Q (\<lambda>e. wp (h e) Q E)"
  by (rule ext) (rule wp_catchP)

lemma wp_attempt_fun [wp_simps]:
  "wp (attemptP m sel) Q E =
     wp m (\<lambda>a. Q (Inr a)) (\<lambda>e. case sel e of None \<Rightarrow> E e | Some x \<Rightarrow> Q (Inl x))"
proof
  fix s
  have "(\<lambda>e t. case sel e of None \<Rightarrow> E e t | Some x \<Rightarrow> Q (Inl x) t)
      = (\<lambda>e. case sel e of None \<Rightarrow> E e | Some x \<Rightarrow> Q (Inl x))"
    by (auto simp: fun_eq_iff split: option.splits)
  then show "wp (attemptP m sel) Q E s =
      wp m (\<lambda>a. Q (Inr a)) (\<lambda>e. case sel e of None \<Rightarrow> E e | Some x \<Rightarrow> Q (Inl x)) s"
    by (simp only: wp_attemptP)
qed

lemma wp_block_fun [wp_simps]:
  "wp (block []) Q E = Q ()"
  "wp (block (m # ms)) Q E = wp m (\<lambda>_. wp (block ms) Q E) E"
  "wp (whenP b m) Q E = (if b then wp m Q E else Q ())"
  by (simp_all add: fun_eq_iff wp_simps)

lemma wp_if_fun [wp_simps]: "wp (if b then m else n) Q E = (if b then wp m Q E else wp n Q E)"
  by simp

lemma wp_option_fun [wp_simps]:
  "wp (case x of None \<Rightarrow> m | Some y \<Rightarrow> f y) Q E =
     (case x of None \<Rightarrow> wp m Q E | Some y \<Rightarrow> wp (f y) Q E)"
  by (simp split: option.splits)

lemma wp_sum_fun [wp_simps]:
  "wp (case z of Inl a \<Rightarrow> g a | Inr c \<Rightarrow> h c) Q E =
     (case z of Inl a \<Rightarrow> wp (g a) Q E | Inr c \<Rightarrow> wp (h c) Q E)"
  by (simp split: sum.splits)

lemma wp_mono:
  assumes "wp m Q E s"
    and "\<And>a t. Q a t \<Longrightarrow> Q' a t" and "\<And>e t. E e t \<Longrightarrow> E' e t"
  shows "wp m Q' E' s"
  using assms by (auto simp: wp_def split: prod.splits sum.splits)

lemma wp_conj:
  "wp m Q E s \<Longrightarrow> wp m Q' E' s \<Longrightarrow> wp m (\<lambda>a t. Q a t \<and> Q' a t) (\<lambda>e t. E e t \<and> E' e t) s"
  by (auto simp: wp_def split: prod.splits sum.splits)

lemma wp_result: "wp m Q E s \<Longrightarrow> m s = (Inr a, t) \<Longrightarrow> Q a t"
  by (simp add: wp_def)

lemma wp_raised: "wp m Q E s \<Longrightarrow> m s = (Inl e, t) \<Longrightarrow> E e t"
  by (simp add: wp_def)

lemma wp_final: "wp m (\<lambda>_. P) (\<lambda>_. P) s \<Longrightarrow> P (snd (m s))"
  by (auto simp: wp_def split: prod.splits sum.splits)

lemma wp_finalI: "P (snd (m s)) \<Longrightarrow> wp m (\<lambda>_. P) (\<lambda>_. P) s"
  by (auto simp: wp_def split: prod.splits sum.splits)

lemma wp_forP_inv:
  assumes "I s" and "\<And>x t. x \<in> set xs \<Longrightarrow> I t \<Longrightarrow> wp (f x) (\<lambda>_. I) E t"
  shows "wp (forP xs f) (\<lambda>_. I) E s"
  using assms
proof (induction xs arbitrary: s)
  case Nil
  then show ?case by (simp add: wp_simps)
next
  case (Cons x xs)
  have "wp (f x) (\<lambda>_. I) E s"
    using Cons.prems by simp
  then show ?case
    using Cons.IH Cons.prems(2) by (auto simp: wp_simps elim!: wp_mono)
qed

section \<open>Invariants of programs\<close>

definition keeps :: "('s \<Rightarrow> bool) \<Rightarrow> ('s, 'a) prog \<Rightarrow> bool" where
  "keeps I m \<longleftrightarrow> (\<forall>s. I s \<longrightarrow> wp m (\<lambda>_. I) (\<lambda>_. I) s)"

lemma keepsI: "(\<And>s. I s \<Longrightarrow> wp m (\<lambda>_. I) (\<lambda>_. I) s) \<Longrightarrow> keeps I m"
  by (simp add: keeps_def)

lemma keepsD: "keeps I m \<Longrightarrow> I s \<Longrightarrow> wp m (\<lambda>_. I) (\<lambda>_. I) s"
  by (simp add: keeps_def)

lemma keeps_final: "keeps I m \<Longrightarrow> I s \<Longrightarrow> I (snd (m s))"
  by (blast dest: keepsD wp_final)

lemma keeps_ret [wp_intro]: "keeps I (ret a)"
  by (simp add: keeps_def wp_simps)

lemma keeps_raise [wp_intro]: "keeps I (raise e)"
  by (simp add: keeps_def wp_simps)

lemma keeps_liftE [wp_intro]: "keeps I (liftE r)"
  by (simp add: keeps_def wp_simps split: sum.splits)

lemma keeps_bindP [wp_intro]: "keeps I m \<Longrightarrow> (\<And>a. keeps I (f a)) \<Longrightarrow> keeps I (bindP m f)"
  by (rule keepsI, simp add: wp_simps, rule wp_mono, erule (1) keepsD) (auto dest: keepsD)

lemma keeps_seqP [wp_intro]: "keeps I m \<Longrightarrow> keeps I n \<Longrightarrow> keeps I (seqP m n)"
  by (simp add: seqP_def keeps_bindP)

lemma keeps_reads [wp_intro]: "(\<And>x. keeps I (k x)) \<Longrightarrow> keeps I (reads f k)"
  by (simp add: keeps_def wp_simps)

lemma keeps_whenP [wp_intro]: "(b \<Longrightarrow> keeps I m) \<Longrightarrow> keeps I (whenP b m)"
  by (simp add: whenP_def keeps_ret)

lemma keeps_catchP [wp_intro]: "keeps I m \<Longrightarrow> (\<And>e. keeps I (h e)) \<Longrightarrow> keeps I (catchP m h)"
  by (rule keepsI, simp add: wp_simps, rule wp_mono, erule (1) keepsD) (auto dest: keepsD)

lemma keeps_attemptP [wp_intro]: "keeps I m \<Longrightarrow> keeps I (attemptP m sel)"
  by (rule keepsI, simp add: wp_simps, rule wp_mono, erule (1) keepsD) (auto split: option.splits)

lemma keeps_case_sum [wp_intro]:
  "(\<And>a. x = Inl a \<Longrightarrow> keeps I (f a)) \<Longrightarrow> (\<And>b. x = Inr b \<Longrightarrow> keeps I (g b)) \<Longrightarrow>
     keeps I (case x of Inl a \<Rightarrow> f a | Inr b \<Rightarrow> g b)"
  by (cases x) auto

lemma keeps_if [wp_intro]:
  "(b \<Longrightarrow> keeps I m) \<Longrightarrow> (\<not> b \<Longrightarrow> keeps I n) \<Longrightarrow> keeps I (if b then m else n)"
  by simp

lemma keeps_case_option [wp_intro]:
  "(x = None \<Longrightarrow> keeps I m) \<Longrightarrow> (\<And>y. x = Some y \<Longrightarrow> keeps I (f y)) \<Longrightarrow>
     keeps I (case x of None \<Rightarrow> m | Some y \<Rightarrow> f y)"
  by (cases x) auto

lemma keeps_case_prod [wp_intro]:
  "(\<And>a b. keeps I (f a b)) \<Longrightarrow> keeps I (case p of (a, b) \<Rightarrow> f a b)"
  by (cases p) auto

lemma keeps_Let [wp_intro]: "(\<And>x. keeps I (f x)) \<Longrightarrow> keeps I (let x = t in f x)"
  by simp

lemma keeps_block_Nil [wp_intro]: "keeps I (block [])"
  by (simp add: keeps_ret)

lemma keeps_block_Cons [wp_intro]: "keeps I m \<Longrightarrow> keeps I (block ms) \<Longrightarrow> keeps I (block (m # ms))"
  by (simp add: keeps_seqP)

lemma keeps_forP [wp_intro]: "(\<And>x. x \<in> set xs \<Longrightarrow> keeps I (f x)) \<Longrightarrow> keeps I (forP xs f)"
proof (induction xs)
  case Nil
  then show ?case by (simp add: keeps_ret)
next
  case (Cons x xs)
  then show ?case by (simp add: keeps_seqP)
qed

lemma keeps_modP: "(\<And>s. I s \<Longrightarrow> I (f s)) \<Longrightarrow> keeps I (modP f)"
  by (simp add: keeps_def wp_simps)

lemma keeps_conj: "keeps I m \<Longrightarrow> keeps J m \<Longrightarrow> keeps (\<lambda>s. I s \<and> J s) m"
  by (auto simp: keeps_def intro: wp_conj)

section \<open>Relations between the states before and after\<close>

text \<open>
  The contract of a relation that composes along a program: a preorder. Clients are the facts that
  a log only grows or that a field never changes; each is an interpretation on its own relation.
\<close>

locale prog_order =
  fixes R :: "'s \<Rightarrow> 's \<Rightarrow> bool"
  assumes R_refl: "R s s"
    and R_trans: "R s t \<Longrightarrow> R t u \<Longrightarrow> R s u"
begin

lemma moves_ret: "R s (snd (ret a s))"
  by (simp add: ret_def R_refl)

lemma keeps_above: "(\<And>s. R s (snd (m s))) \<Longrightarrow> keeps (R s0) m"
  by (auto intro!: keepsI wp_finalI intro: R_trans)

lemma above_moves: "(\<And>s0. keeps (R s0) m) \<Longrightarrow> R s (snd (m s))"
  by (blast intro: keeps_final R_refl)

lemma wp_above: "(\<And>s0. keeps (R s0) m) \<Longrightarrow> wp m (\<lambda>_. R s) (\<lambda>_. R s) s"
  by (blast intro: keepsD R_refl)

end

end
