(* ===== verification/Clock.thy ===== *)
theory Clock
  imports Program
begin

text \<open>
  Time (\<open>clock.py\<close> and the parts of \<open>datetime\<close> the source uses). A UTC time stamp is the number of
  microseconds since the epoch, a date the number of days since the epoch; every time stamp of the
  model is tz-aware. The clock of the model is \<open>ManualClock\<close>: time moves only by \<open>advance\<close> and
  \<open>set\<close>, so it is constant within one operation.
\<close>

type_synonym time = int
type_synonym date = int

definition usec :: int where "usec = 1000000"
definition day_us :: int where "day_us = 86400 * usec"

definition seconds_between :: "time \<Rightarrow> time \<Rightarrow> rat" where
  "seconds_between a b = of_int (a - b) / of_int usec"

definition minutes :: "int \<Rightarrow> int" where
  "minutes m = m * 60 * usec"

definition utc_date :: "time \<Rightarrow> date" where
  "utc_date t = t div day_us"

section \<open>Civil dates\<close>

text \<open>Proleptic Gregorian calendar, as \<open>datetime.date\<close>: year, month and day of a day number.\<close>

definition civil :: "date \<Rightarrow> int \<times> int \<times> int" where
  "civil n =
     (let z = n + 719468;
          era = z div 146097;
          doe = z - era * 146097;
          yoe = (doe - doe div 1460 + doe div 36524 - doe div 146096) div 365;
          doy = doe - (365 * yoe + yoe div 4 - yoe div 100);
          mp = (5 * doy + 2) div 153;
          d = doy - (153 * mp + 2) div 5 + 1;
          m = (if mp < 10 then mp + 3 else mp - 9);
          y = yoe + era * 400 + (if m \<le> 2 then 1 else 0)
      in (y, m, d))"

definition days_of :: "int \<Rightarrow> int \<Rightarrow> int \<Rightarrow> date" where
  "days_of y m d =
     (let y' = (if m \<le> 2 then y - 1 else y);
          era = y' div 400;
          yoe = y' - era * 400;
          mp = (if m > 2 then m - 3 else m + 9);
          doy = (153 * mp + 2) div 5 + d - 1;
          doe = yoe * 365 + yoe div 4 - yoe div 100 + doy
      in era * 146097 + doe - 719468)"

definition year_of :: "date \<Rightarrow> int" where
  "year_of n = fst (civil n)"

text \<open>\<open>date.weekday()\<close>: Monday is 0.\<close>

definition weekday :: "date \<Rightarrow> int" where
  "weekday n = (n + 3) mod 7"

definition pad :: "nat \<Rightarrow> int \<Rightarrow> string" where
  "pad w i = (let s = str_int i in replicate (w - length s) CHR ''0'' @ s)"

definition date_isoformat :: "date \<Rightarrow> string" where
  "date_isoformat n =
     (case civil n of (y, m, d) \<Rightarrow> pad 4 y @ ''-'' @ pad 2 m @ ''-'' @ pad 2 d)"

definition isoformat :: "time \<Rightarrow> string" where
  "isoformat t =
     (let s = t mod day_us div usec; u = t mod usec
      in date_isoformat (utc_date t) @ ''T'' @ pad 2 (s div 3600) @ '':'' @
         pad 2 (s mod 3600 div 60) @ '':'' @ pad 2 (s mod 60) @
         (if u = 0 then '''' else ''.'' @ pad 6 u) @ ''+00:00'')"

section \<open>ManualClock\<close>

record manual_clock =
  ck_now :: time
  ck_mono :: int

definition manual_clock :: "time \<Rightarrow> manual_clock" where
  "manual_clock start = \<lparr>ck_now = start, ck_mono = 0\<rparr>"

definition clock_advance :: "rat \<Rightarrow> manual_clock \<Rightarrow> manual_clock" where
  "clock_advance s c = c\<lparr>ck_now := ck_now c + round_half_even (s * of_int usec),
                         ck_mono := ck_mono c + trunc_rat (s * 1000000000)\<rparr>"

definition clock_set :: "time \<Rightarrow> manual_clock \<Rightarrow> manual_clock" where
  "clock_set t c = c\<lparr>ck_now := t\<rparr>"

definition assert_clock_sane :: "time \<Rightarrow> time \<Rightarrow> rat \<Rightarrow> exn + rat" where
  "assert_clock_sane local_now broker_now max_skew =
     (let skew = \<bar>seconds_between local_now broker_now\<bar>
      in if skew > max_skew then Inl (ClockSkewError skew) else Inr skew)"

lemma round_half_even_nonneg: "0 \<le> r \<Longrightarrow> 0 \<le> round_half_even r"
  by (simp add: round_half_even_def Let_def)

lemma clock_advance_mono: "0 \<le> s \<Longrightarrow> ck_now c \<le> ck_now (clock_advance s c)"
  by (simp add: clock_advance_def usec_def round_half_even_nonneg)

lemma seconds_between_mono: "a \<le> a' \<Longrightarrow> seconds_between a b \<le> seconds_between a' b"
  by (simp add: seconds_between_def usec_def divide_right_mono)

lemma seconds_between_less_iff:
  "seconds_between a b < of_int n \<longleftrightarrow> a - b < n * usec"
proof -
  have "(of_int (a - b) / of_int usec < (of_int n :: rat)) \<longleftrightarrow>
      (of_int (a - b) :: rat) < of_int n * of_int usec"
    by (simp add: usec_def field_simps)
  also have "\<dots> \<longleftrightarrow> (of_int (a - b) :: rat) < of_int (n * usec)"
    by simp
  also have "\<dots> \<longleftrightarrow> a - b < n * usec"
    by (simp only: of_int_less_iff)
  finally show ?thesis
    by (simp add: seconds_between_def)
qed

lemma utc_date_mono: "a \<le> b \<Longrightarrow> utc_date a \<le> utc_date b"
  by (simp add: utc_date_def day_us_def usec_def zdiv_mono1)

end
