(* ===== verification/Ascii_Text.thy ===== *)
theory Ascii_Text
  imports Prelude "HOL-Library.List_Lexorder" "HOL-Library.Char_ord"
begin

text \<open>
  Operations on ASCII text that several components use: the order of strings, \<open>lower\<close>, \<open>split\<close>, \<open>join\<close>.
\<close>

definition is_space :: "char \<Rightarrow> bool" where
  "is_space ch = (let n = (of_char ch :: nat) in n = 32 \<or> (9 \<le> n \<and> n \<le> 13) \<or> (28 \<le> n \<and> n \<le> 31))"

definition strip :: "string \<Rightarrow> string" where
  "strip s = rev (dropWhile is_space (rev (dropWhile is_space s)))"

definition sorted_list :: "string list \<Rightarrow> jval" where
  "sorted_list xs = JList (map JStr (sort xs))"

definition lower_char :: "char \<Rightarrow> char" where
  "lower_char ch = (let n = of_char ch :: nat in if 65 \<le> n \<and> n \<le> 90 then char_of (n + 32) else ch)"

fun join :: "string \<Rightarrow> string list \<Rightarrow> string" where
  "join sep [] = []"
| "join sep [x] = x"
| "join sep (x # y # ys) = x @ sep @ join sep (y # ys)"

text \<open>\<open>text.split(sep)\<close>, with the part read so far; lowercase hexadecimal digits.\<close>

fun split_on :: "char \<Rightarrow> string \<Rightarrow> string \<Rightarrow> string list" where
  "split_on sep acc [] = [rev acc]"
| "split_on sep acc (ch # s) = (if ch = sep then rev acc # split_on sep [] s else split_on sep (ch # acc) s)"

definition hex_digit :: "char \<Rightarrow> bool" where
  "hex_digit ch = (let c = of_char ch :: nat in 48 \<le> c \<and> c \<le> 57 \<or> 97 \<le> c \<and> c \<le> 102)"

text \<open>\<open>s in text\<close>.\<close>

fun occurs_in :: "string \<Rightarrow> string \<Rightarrow> bool" where
  "occurs_in s [] = (s = [])"
| "occurs_in s (c # t) = (take (length s) (c # t) = s \<or> occurs_in s t)"

text \<open>\<open>join\<close> on parts that are kept unformatted.\<close>

fun join_fmt :: "string \<Rightarrow> jval list \<Rightarrow> jval list" where
  "join_fmt sep [] = []"
| "join_fmt sep [x] = [x]"
| "join_fmt sep (x # y # ys) = x # JStr sep # join_fmt sep (y # ys)"

end
