(* ===== verification/Models.thy ===== *)
theory Models
  imports Clock Ascii_Text
begin

text \<open>
  The data model (\<open>models.py\<close>): the four dimensions of the state vector, the journal's event
  types, the value objects with their constructor checks, and the durable form of an order intent
  with its reader. \<open>value\<close> functions give the text of an enum member; the readers raise on any
  other text, as the enum constructors do.
\<close>

section \<open>State vector\<close>

datatype link_state = CONNECTED | DEGRADED | DISCONNECTED

datatype sync_state = UNVERIFIED | SYNCING | SYNCED

datatype operating_mode = NORMAL | STOP_NEW | FLATTEN_ONLY | HALTED

datatype order_state =
    IDLE | INTENT_COMMITTED | SUBMISSION_UNCERTAIN | PENDING_ACK | WORKING
  | PENDING_CANCEL | TERMINAL_UNRECONCILED

fun link_value :: "link_state \<Rightarrow> string" where
  "link_value CONNECTED = ''CONNECTED''"
| "link_value DEGRADED = ''DEGRADED''"
| "link_value DISCONNECTED = ''DISCONNECTED''"

fun sync_value :: "sync_state \<Rightarrow> string" where
  "sync_value UNVERIFIED = ''UNVERIFIED''"
| "sync_value SYNCING = ''SYNCING''"
| "sync_value SYNCED = ''SYNCED''"

fun mode_value :: "operating_mode \<Rightarrow> string" where
  "mode_value NORMAL = ''NORMAL''"
| "mode_value STOP_NEW = ''STOP_NEW''"
| "mode_value FLATTEN_ONLY = ''FLATTEN_ONLY''"
| "mode_value HALTED = ''HALTED''"

fun order_state_value :: "order_state \<Rightarrow> string" where
  "order_state_value IDLE = ''IDLE''"
| "order_state_value INTENT_COMMITTED = ''INTENT_COMMITTED''"
| "order_state_value SUBMISSION_UNCERTAIN = ''SUBMISSION_UNCERTAIN''"
| "order_state_value PENDING_ACK = ''PENDING_ACK''"
| "order_state_value WORKING = ''WORKING''"
| "order_state_value PENDING_CANCEL = ''PENDING_CANCEL''"
| "order_state_value TERMINAL_UNRECONCILED = ''TERMINAL_UNRECONCILED''"

definition UNTRUSTWORTHY_ORDER_STATES :: "order_state list" where
  "UNTRUSTWORTHY_ORDER_STATES = [SUBMISSION_UNCERTAIN, TERMINAL_UNRECONCILED]"

definition BLOCKS_NEW_ORDER :: "order_state list" where
  "BLOCKS_NEW_ORDER =
     [INTENT_COMMITTED, SUBMISSION_UNCERTAIN, PENDING_ACK, WORKING, PENDING_CANCEL,
      TERMINAL_UNRECONCILED]"

lemma link_value_inj [simp]: "link_value a = link_value b \<longleftrightarrow> a = b"
  by (cases a; cases b) simp_all

lemma sync_value_inj [simp]: "sync_value a = sync_value b \<longleftrightarrow> a = b"
  by (cases a; cases b) simp_all

lemma mode_value_inj [simp]: "mode_value a = mode_value b \<longleftrightarrow> a = b"
  by (cases a; cases b) simp_all

lemma value_literals [simp]:
  "link_value l = ''CONNECTED'' \<longleftrightarrow> l = CONNECTED"
  "sync_value s = ''SYNCED'' \<longleftrightarrow> s = SYNCED"
  "mode_value m = ''HALTED'' \<longleftrightarrow> m = HALTED"
  "mode_value m = ''NORMAL'' \<longleftrightarrow> m = NORMAL"
  "mode_value m = ''FLATTEN_ONLY'' \<longleftrightarrow> m = FLATTEN_ONLY"
  "mode_value m = ''STOP_NEW'' \<longleftrightarrow> m = STOP_NEW"
proof -
  show "link_value l = ''CONNECTED'' \<longleftrightarrow> l = CONNECTED" by (cases l) simp_all
  show "sync_value s = ''SYNCED'' \<longleftrightarrow> s = SYNCED" by (cases s) simp_all
qed (cases m; simp)+

lemma blocks_iff: "os \<in> set BLOCKS_NEW_ORDER \<longleftrightarrow> os \<noteq> IDLE"
  by (cases os) (simp_all add: BLOCKS_NEW_ORDER_def)

lemma untrustworthy_iff:
  "os \<in> set UNTRUSTWORTHY_ORDER_STATES \<longleftrightarrow> os = SUBMISSION_UNCERTAIN \<or> os = TERMINAL_UNRECONCILED"
  by (cases os) (simp_all add: UNTRUSTWORTHY_ORDER_STATES_def)

text \<open>The modes are ordered by how much they forbid.\<close>

fun strictness :: "operating_mode \<Rightarrow> nat" where
  "strictness NORMAL = 0"
| "strictness STOP_NEW = 1"
| "strictness FLATTEN_ONLY = 2"
| "strictness HALTED = 3"

instantiation operating_mode :: linorder
begin

definition less_eq_operating_mode :: "operating_mode \<Rightarrow> operating_mode \<Rightarrow> bool" where
  "a \<le> b \<longleftrightarrow> strictness a \<le> strictness b"

definition less_operating_mode :: "operating_mode \<Rightarrow> operating_mode \<Rightarrow> bool" where
  "a < b \<longleftrightarrow> strictness a < strictness b"

instance
proof
  fix x y :: operating_mode
  assume "x \<le> y" and "y \<le> x"
  then show "x = y"
    by (cases x; cases y) (simp_all add: less_eq_operating_mode_def)
qed (auto simp: less_eq_operating_mode_def less_operating_mode_def)

end

lemma halted_top [simp]: "m \<le> HALTED"
  by (cases m) (simp_all add: less_eq_operating_mode_def)

lemma halted_le [simp]: "HALTED \<le> m \<longleftrightarrow> m = HALTED"
  by (cases m) (simp_all add: less_eq_operating_mode_def)

section \<open>Orders, reasons\<close>

datatype side = BUY | SELL

datatype order_type = MARKETABLE_LIMIT | MARKET

datatype flatten_reason = EOD_FLATTEN | RISK_FLATTEN | MANUAL_FLATTEN | RECOVERY_FLATTEN

datatype miss_reason =
    MR_DISCONNECTED | MR_NOT_SYNCED | MR_RISK_BLOCKED | MR_EXPIRED | MR_DATA_STALE
  | MR_MODE_BLOCKED | MR_ORDER_STATE_BLOCKED | MR_REPRICE_EXHAUSTED | MR_BROKER_REJECTED

fun side_value :: "side \<Rightarrow> string" where
  "side_value BUY = ''BUY''"
| "side_value SELL = ''SELL''"

fun order_type_value :: "order_type \<Rightarrow> string" where
  "order_type_value MARKETABLE_LIMIT = ''MARKETABLE_LIMIT''"
| "order_type_value MARKET = ''MARKET''"

fun flatten_value :: "flatten_reason \<Rightarrow> string" where
  "flatten_value EOD_FLATTEN = ''EOD_FLATTEN''"
| "flatten_value RISK_FLATTEN = ''RISK_FLATTEN''"
| "flatten_value MANUAL_FLATTEN = ''MANUAL_FLATTEN''"
| "flatten_value RECOVERY_FLATTEN = ''RECOVERY_FLATTEN''"

fun miss_value :: "miss_reason \<Rightarrow> string" where
  "miss_value MR_DISCONNECTED = ''DISCONNECTED''"
| "miss_value MR_NOT_SYNCED = ''NOT_SYNCED''"
| "miss_value MR_RISK_BLOCKED = ''RISK_BLOCKED''"
| "miss_value MR_EXPIRED = ''EXPIRED''"
| "miss_value MR_DATA_STALE = ''DATA_STALE''"
| "miss_value MR_MODE_BLOCKED = ''MODE_BLOCKED''"
| "miss_value MR_ORDER_STATE_BLOCKED = ''ORDER_STATE_BLOCKED''"
| "miss_value MR_REPRICE_EXHAUSTED = ''REPRICE_EXHAUSTED''"
| "miss_value MR_BROKER_REJECTED = ''BROKER_REJECTED''"

definition bad_enum :: "string \<Rightarrow> jval \<Rightarrow> exn" where
  "bad_enum cls v = ValueErr (JFmt [v, JStr '' is not a valid '', JStr cls])"

definition side_of :: "jval \<Rightarrow> exn + side" where
  "side_of v = (if v = JStr ''BUY'' then Inr BUY
     else if v = JStr ''SELL'' then Inr SELL else Inl (bad_enum ''Side'' v))"

definition order_type_of :: "jval \<Rightarrow> exn + order_type" where
  "order_type_of v = (if v = JStr ''MARKETABLE_LIMIT'' then Inr MARKETABLE_LIMIT
     else if v = JStr ''MARKET'' then Inr MARKET else Inl (bad_enum ''OrderType'' v))"

definition flatten_reason_of :: "jval \<Rightarrow> exn + flatten_reason" where
  "flatten_reason_of v =
     (if v = JStr ''EOD_FLATTEN'' then Inr EOD_FLATTEN
      else if v = JStr ''RISK_FLATTEN'' then Inr RISK_FLATTEN
      else if v = JStr ''MANUAL_FLATTEN'' then Inr MANUAL_FLATTEN
      else if v = JStr ''RECOVERY_FLATTEN'' then Inr RECOVERY_FLATTEN
      else Inl (bad_enum ''FlattenReason'' v))"

lemma enum_readers [simp]:
  "side_of (JStr (side_value sd)) = Inr sd"
  "order_type_of (JStr (order_type_value ot)) = Inr ot"
  "flatten_reason_of (JStr (flatten_value fr)) = Inr fr"
proof -
  show "side_of (JStr (side_value sd)) = Inr sd"
    by (cases sd) (simp_all add: side_of_def)
  show "order_type_of (JStr (order_type_value ot)) = Inr ot"
    by (cases ot) (simp_all add: order_type_of_def)
  show "flatten_reason_of (JStr (flatten_value fr)) = Inr fr"
    by (cases fr) (simp_all add: flatten_reason_of_def)
qed

section \<open>Journal event types\<close>

datatype event_type =
    TARGET_RECEIVED | TARGET_REJECTED | TARGET_SUPERSEDED | TARGET_DEFERRED | DECISION_MISSED
  | ORDER_INTENT_COMMITTED | SEND_ATTEMPT_STARTED | SEND_CALL_RETURNED | SEND_CALL_FAILED
  | BROKER_ACK_RECEIVED | ORDER_WORKING | CANCEL_REQUESTED | CANCEL_REJECTED | ORDER_CANCELLED
  | ORDER_REJECTED | ORDER_FILLED | ORDER_ABSENT_CONFIRMED | REPRICE_TRIGGERED | PARTIAL_EXPIRED
  | EXECUTION_RECEIVED | EXECUTION_REVERSAL | EXECUTION_CORRECTED | FEE_RECEIVED
  | EOD_FLATTEN_STARTED | EOD_FLATTEN_COMPLETED | EOD_FLATTEN_FAILED
  | RECONCILIATION_STARTED | RECONCILIATION_COMPLETED | RECONCILIATION_FAILED
  | BROKER_FACT_ADOPTED | LINK_STATE_CHANGED | SYNC_STATE_CHANGED | OPERATING_MODE_CHANGED
  | ORDER_STATE_CHANGED
  | CALLBACK_FAILURE | INVARIANT_VIOLATION | HALT_CAUSE_ADDED | HALT_ACKNOWLEDGED | RISK_REJECTED
  | RISK_CONFIG_LOADED | RISK_SELF_TEST_PASSED | EXTERNAL_ORDER_DETECTED | HEARTBEAT
  | PROCESS_STARTED | PROCESS_STATE_RESTORED | PROCESS_STOPPING | FSYNC_LATENCY_SAMPLE

text \<open>The value of every member is its name.\<close>

fun event_type_value :: "event_type \<Rightarrow> string" where
  "event_type_value TARGET_RECEIVED = ''TARGET_RECEIVED''"
| "event_type_value TARGET_REJECTED = ''TARGET_REJECTED''"
| "event_type_value TARGET_SUPERSEDED = ''TARGET_SUPERSEDED''"
| "event_type_value TARGET_DEFERRED = ''TARGET_DEFERRED''"
| "event_type_value DECISION_MISSED = ''DECISION_MISSED''"
| "event_type_value ORDER_INTENT_COMMITTED = ''ORDER_INTENT_COMMITTED''"
| "event_type_value SEND_ATTEMPT_STARTED = ''SEND_ATTEMPT_STARTED''"
| "event_type_value SEND_CALL_RETURNED = ''SEND_CALL_RETURNED''"
| "event_type_value SEND_CALL_FAILED = ''SEND_CALL_FAILED''"
| "event_type_value BROKER_ACK_RECEIVED = ''BROKER_ACK_RECEIVED''"
| "event_type_value ORDER_WORKING = ''ORDER_WORKING''"
| "event_type_value CANCEL_REQUESTED = ''CANCEL_REQUESTED''"
| "event_type_value CANCEL_REJECTED = ''CANCEL_REJECTED''"
| "event_type_value ORDER_CANCELLED = ''ORDER_CANCELLED''"
| "event_type_value ORDER_REJECTED = ''ORDER_REJECTED''"
| "event_type_value ORDER_FILLED = ''ORDER_FILLED''"
| "event_type_value ORDER_ABSENT_CONFIRMED = ''ORDER_ABSENT_CONFIRMED''"
| "event_type_value REPRICE_TRIGGERED = ''REPRICE_TRIGGERED''"
| "event_type_value PARTIAL_EXPIRED = ''PARTIAL_EXPIRED''"
| "event_type_value EXECUTION_RECEIVED = ''EXECUTION_RECEIVED''"
| "event_type_value EXECUTION_REVERSAL = ''EXECUTION_REVERSAL''"
| "event_type_value EXECUTION_CORRECTED = ''EXECUTION_CORRECTED''"
| "event_type_value FEE_RECEIVED = ''FEE_RECEIVED''"
| "event_type_value EOD_FLATTEN_STARTED = ''EOD_FLATTEN_STARTED''"
| "event_type_value EOD_FLATTEN_COMPLETED = ''EOD_FLATTEN_COMPLETED''"
| "event_type_value EOD_FLATTEN_FAILED = ''EOD_FLATTEN_FAILED''"
| "event_type_value RECONCILIATION_STARTED = ''RECONCILIATION_STARTED''"
| "event_type_value RECONCILIATION_COMPLETED = ''RECONCILIATION_COMPLETED''"
| "event_type_value RECONCILIATION_FAILED = ''RECONCILIATION_FAILED''"
| "event_type_value BROKER_FACT_ADOPTED = ''BROKER_FACT_ADOPTED''"
| "event_type_value LINK_STATE_CHANGED = ''LINK_STATE_CHANGED''"
| "event_type_value SYNC_STATE_CHANGED = ''SYNC_STATE_CHANGED''"
| "event_type_value OPERATING_MODE_CHANGED = ''OPERATING_MODE_CHANGED''"
| "event_type_value ORDER_STATE_CHANGED = ''ORDER_STATE_CHANGED''"
| "event_type_value CALLBACK_FAILURE = ''CALLBACK_FAILURE''"
| "event_type_value INVARIANT_VIOLATION = ''INVARIANT_VIOLATION''"
| "event_type_value HALT_CAUSE_ADDED = ''HALT_CAUSE_ADDED''"
| "event_type_value HALT_ACKNOWLEDGED = ''HALT_ACKNOWLEDGED''"
| "event_type_value RISK_REJECTED = ''RISK_REJECTED''"
| "event_type_value RISK_CONFIG_LOADED = ''RISK_CONFIG_LOADED''"
| "event_type_value RISK_SELF_TEST_PASSED = ''RISK_SELF_TEST_PASSED''"
| "event_type_value EXTERNAL_ORDER_DETECTED = ''EXTERNAL_ORDER_DETECTED''"
| "event_type_value HEARTBEAT = ''HEARTBEAT''"
| "event_type_value PROCESS_STARTED = ''PROCESS_STARTED''"
| "event_type_value PROCESS_STATE_RESTORED = ''PROCESS_STATE_RESTORED''"
| "event_type_value PROCESS_STOPPING = ''PROCESS_STOPPING''"
| "event_type_value FSYNC_LATENCY_SAMPLE = ''FSYNC_LATENCY_SAMPLE''"

definition TERMINAL_ORDER_EVENTS :: "event_type list" where
  "TERMINAL_ORDER_EVENTS =
     [ORDER_FILLED, ORDER_CANCELLED, ORDER_REJECTED, ORDER_ABSENT_CONFIRMED]"

section \<open>TargetPosition\<close>

record target_position =
  tp_strategy_id :: string
  tp_symbol :: string
  tp_target_quantity :: int
  tp_decision_id :: string
  tp_valid_until :: time
  tp_metadata :: payload

text \<open>\<open>__post_init__\<close>: time stamps are aware and quantities integers by type.\<close>

definition mk_target ::
  "string \<Rightarrow> string \<Rightarrow> int \<Rightarrow> string \<Rightarrow> time \<Rightarrow> payload \<Rightarrow> exn + target_position" where
  "mk_target sid symb qty did vu meta =
     (if did = [] then Inl (ValueErr (JStr ''decision_id is required (idempotency key)''))
      else Inr \<lparr>tp_strategy_id = sid, tp_symbol = symb, tp_target_quantity = qty,
                tp_decision_id = did, tp_valid_until = vu, tp_metadata = meta\<rparr>)"

definition is_expired :: "target_position \<Rightarrow> time \<Rightarrow> bool" where
  "is_expired t now \<longleftrightarrow> now \<ge> tp_valid_until t"

section \<open>Quote\<close>

record quote =
  q_symbol :: string
  q_bid :: rat
  q_ask :: rat
  q_bid_size :: int
  q_ask_size :: int
  q_ts :: time
  q_last :: "rat option"
  q_last_size :: "int option"

definition quote_check :: "quote \<Rightarrow> exn + quote" where
  "quote_check q =
     (if q_bid q \<le> 0 \<or> q_ask q \<le> 0 then Inl (ValueErr (JStr ''bid and ask must be positive''))
      else if q_ask q < q_bid q then Inl (ValueErr (JStr ''ask must be >= bid''))
      else if q_bid_size q < 0 \<or> q_ask_size q < 0
        then Inl (ValueErr (JStr ''quote sizes must be non-negative''))
      else if (case q_last q of None \<Rightarrow> False | Some l \<Rightarrow> l \<le> 0)
        then Inl (ValueErr (JStr ''last must be positive when supplied''))
      else if (case q_last_size q of None \<Rightarrow> False | Some l \<Rightarrow> l < 0)
        then Inl (ValueErr (JStr ''last_size must be non-negative when supplied''))
      else Inr q)"

definition mid :: "quote \<Rightarrow> rat" where
  "mid q = (q_bid q + q_ask q) / 2"

definition spread :: "quote \<Rightarrow> rat" where
  "spread q = q_ask q - q_bid q"

definition age_seconds :: "quote \<Rightarrow> time \<Rightarrow> rat" where
  "age_seconds q now = seconds_between now (q_ts q)"

lemma quote_check_mid:
  assumes "quote_check q = Inr q'"
  shows "0 < q_bid q" and "q_bid q \<le> mid q" and "mid q \<le> q_ask q" and "0 \<le> spread q"
  using assms by (simp_all add: quote_check_def mid_def spread_def field_simps split: if_splits)

section \<open>OrderIntent\<close>

record order_intent =
  oi_intent_id :: string
  oi_decision_id :: string
  oi_strategy_id :: string
  oi_symbol :: string
  oi_side :: side
  oi_quantity :: int
  oi_order_type :: order_type
  oi_limit_price :: "rat option"
  oi_target_quantity :: int
  oi_position_snapshot :: int
  oi_working_snapshot :: int
  oi_valid_until :: time
  oi_risk_config_hash :: string
  oi_execution_policy_hash :: string
  oi_order_ref :: string
  oi_attempt :: int
  oi_flatten_reason :: "flatten_reason option"
  oi_broker_order_id :: "int option"
  oi_perm_id :: "int option"

definition is_alnum :: "char \<Rightarrow> bool" where
  "is_alnum ch = (let n = (of_char ch :: int)
     in (48 \<le> n \<and> n \<le> 57) \<or> (65 \<le> n \<and> n \<le> 90) \<or> (97 \<le> n \<and> n \<le> 122))"

text \<open>
  \<open>sha\<close> is \<open>hashlib.sha256(...).hexdigest()\<close> of the canonical serialisation of its argument: a
  parameter of the model.
\<close>

definition build_order_ref :: "(jval \<Rightarrow> string) \<Rightarrow> string \<Rightarrow> string \<Rightarrow> string \<Rightarrow> string" where
  "build_order_ref sha sid did iid =
     (let tag0 = take 8 (filter is_alnum (map lower_char sid));
          tag = (if tag0 = [] then ''strategy'' else tag0);
          digest = take 20 (sha (JStr (sid @ [CHR 0x1F] @ did @ [CHR 0x1F] @ iid)))
      in tag @ ''-'' @ digest)"

definition stable_hash :: "(jval \<Rightarrow> string) \<Rightarrow> jval \<Rightarrow> string" where
  "stable_hash sha obj = take 16 (sha obj)"

definition oi_signed_quantity :: "order_intent \<Rightarrow> int" where
  "oi_signed_quantity i = (if oi_side i = BUY then oi_quantity i else - oi_quantity i)"

definition to_payload :: "order_intent \<Rightarrow> payload" where
  "to_payload i =
    [(''intent_id'', JStr (oi_intent_id i)),
     (''decision_id'', JStr (oi_decision_id i)),
     (''strategy_id'', JStr (oi_strategy_id i)),
     (''symbol'', JStr (oi_symbol i)),
     (''side'', JStr (side_value (oi_side i))),
     (''quantity'', JInt (oi_quantity i)),
     (''order_type'', JStr (order_type_value (oi_order_type i))),
     (''limit_price'', j_opt JNum (oi_limit_price i)),
     (''target_quantity'', JInt (oi_target_quantity i)),
     (''position_snapshot'', JInt (oi_position_snapshot i)),
     (''working_snapshot'', JInt (oi_working_snapshot i)),
     (''valid_until'', JTime (oi_valid_until i)),
     (''risk_config_hash'', JStr (oi_risk_config_hash i)),
     (''execution_policy_hash'', JStr (oi_execution_policy_hash i)),
     (''order_ref'', JStr (oi_order_ref i)),
     (''attempt'', JInt (oi_attempt i)),
     (''flatten_reason'', j_opt (\<lambda>r. JStr (flatten_value r)) (oi_flatten_reason i)),
     (''broker_order_id'', j_opt JInt (oi_broker_order_id i)),
     (''perm_id'', j_opt JInt (oi_perm_id i))]"

text \<open>\<open>f(payload[k]) if payload.get(k) is not None else None\<close>.\<close>

definition opt_field :: "payload \<Rightarrow> string \<Rightarrow> (jval \<Rightarrow> exn + 'a) \<Rightarrow> exn + 'a option" where
  "opt_field p k f =
     (let v = pget p k JNull in if v = JNull then Inr None else ebind (f v) (\<lambda>a. Inr (Some a)))"

definition str_field :: "payload \<Rightarrow> string \<Rightarrow> exn + string" where
  "str_field p k = ebind (pkey p k) (\<lambda>v. Inr (render v))"

definition int_field :: "payload \<Rightarrow> string \<Rightarrow> exn + int" where
  "int_field p k = ebind (pkey p k) j_int"

definition from_payload :: "payload \<Rightarrow> exn + order_intent" where
  "from_payload p =
     ebind (str_field p ''intent_id'') (\<lambda>iid.
     ebind (str_field p ''decision_id'') (\<lambda>did.
     ebind (str_field p ''strategy_id'') (\<lambda>sid.
     ebind (str_field p ''symbol'') (\<lambda>sym.
     ebind (ebind (pkey p ''side'') side_of) (\<lambda>sd.
     ebind (int_field p ''quantity'') (\<lambda>qty.
     ebind (ebind (pkey p ''order_type'') order_type_of) (\<lambda>ot.
     ebind (opt_field p ''limit_price'' j_dec) (\<lambda>lp.
     ebind (int_field p ''target_quantity'') (\<lambda>tq.
     ebind (int_field p ''position_snapshot'') (\<lambda>ps.
     ebind (int_field p ''working_snapshot'') (\<lambda>ws.
     ebind (ebind (pkey p ''valid_until'') j_time) (\<lambda>vu.
     ebind (str_field p ''risk_config_hash'') (\<lambda>rch.
     ebind (str_field p ''execution_policy_hash'') (\<lambda>eph.
     ebind (str_field p ''order_ref'') (\<lambda>ref.
     ebind (j_int (pget p ''attempt'' (JInt 0))) (\<lambda>att.
     ebind (let v = pget p ''flatten_reason'' JNull
            in if j_truthy v then ebind (flatten_reason_of v) (\<lambda>r. Inr (Some r))
               else Inr None) (\<lambda>fr.
     ebind (opt_field p ''broker_order_id'' j_int) (\<lambda>boid.
     ebind (opt_field p ''perm_id'' j_int) (\<lambda>pid.
       Inr \<lparr>oi_intent_id = iid, oi_decision_id = did, oi_strategy_id = sid, oi_symbol = sym,
            oi_side = sd, oi_quantity = qty, oi_order_type = ot, oi_limit_price = lp,
            oi_target_quantity = tq, oi_position_snapshot = ps, oi_working_snapshot = ws,
            oi_valid_until = vu, oi_risk_config_hash = rch, oi_execution_policy_hash = eph,
            oi_order_ref = ref, oi_attempt = att, oi_flatten_reason = fr,
            oi_broker_order_id = boid, oi_perm_id = pid\<rparr>)))))))))))))))))))"

lemma flatten_value_nonempty [simp]: "flatten_value r \<noteq> []"
  by (cases r) simp_all

lemma opt_field_j_opt:
  assumes "map_of p k = Some (j_opt g x)"
    and "\<And>a. g a \<noteq> JNull" and "\<And>a. f (g a) = Inr a"
  shows "opt_field p k f = Inr x"
  using assms by (cases x) (simp_all add: opt_field_def pget_def)

text \<open>
  Extra entries in front of the intent's own (the reader looks keys up by name) do not disturb the
  round trip as long as they do not shadow one; the controller adds \<open>risk_evidence\<close>.
\<close>

lemma from_to_payload_append: "from_payload (to_payload i @ ps) = Inr i"
proof -
  let ?p = "to_payload i @ ps"
  have opt: "opt_field ?p ''limit_price'' j_dec = Inr (oi_limit_price i)"
    "opt_field ?p ''broker_order_id'' j_int = Inr (oi_broker_order_id i)"
    "opt_field ?p ''perm_id'' j_int = Inr (oi_perm_id i)"
    by (rule opt_field_j_opt [where g = JNum], simp_all add: to_payload_def)
       (rule opt_field_j_opt [where g = JInt], simp_all add: to_payload_def)+
  have fr: "(let v = pget ?p ''flatten_reason'' JNull
      in if j_truthy v then ebind (flatten_reason_of v) (\<lambda>r. Inr (Some r)) else Inr None)
      = Inr (oi_flatten_reason i)"
    by (cases "oi_flatten_reason i") (simp_all add: to_payload_def pget_def)
  show ?thesis
    unfolding from_payload_def opt fr
    by (simp add: str_field_def int_field_def pkey_def pget_def to_payload_def)
qed

section \<open>Execution, BrokerOrder, BrokerSnapshot\<close>

record execution =
  ex_exec_id :: string
  ex_order_ref :: string
  ex_perm_id :: "int option"
  ex_symbol :: string
  ex_side :: side
  ex_quantity :: int
  ex_price :: rat
  ex_ts :: time
  ex_is_reversal :: bool
  ex_corrects_exec_id :: "string option"

definition ex_signed_quantity :: "execution \<Rightarrow> int" where
  "ex_signed_quantity ex =
     (let q = (if ex_side ex = BUY then ex_quantity ex else - ex_quantity ex)
      in if ex_is_reversal ex then - q else q)"

record broker_order =
  bo_order_ref :: string
  bo_perm_id :: "int option"
  bo_broker_order_id :: "int option"
  bo_symbol :: string
  bo_side :: side
  bo_total_quantity :: int
  bo_filled_quantity :: int
  bo_status :: string

definition bo_remaining :: "broker_order \<Rightarrow> int" where
  "bo_remaining b = max 0 (bo_total_quantity b - bo_filled_quantity b)"

definition bo_signed_remaining :: "broker_order \<Rightarrow> int" where
  "bo_signed_remaining b = (let r = bo_remaining b in if bo_side b = BUY then r else - r)"

record broker_snapshot =
  bs_positions :: "(string \<times> int) list"
  bs_open_orders :: "broker_order list"
  bs_executions :: "execution list"
  bs_server_time :: time
  bs_is_stable :: bool
  bs_account :: string

lemma bo_signed_remaining_bound:
  "\<bar>bo_signed_remaining b\<bar> = bo_remaining b"
  by (simp add: bo_signed_remaining_def bo_remaining_def Let_def)

end
