(* ===== verification/Journal.thy ===== *)
theory Journal
  imports Models
begin

text \<open>
  The append-only event journal (\<open>journal.py\<close>). A journal handle holds the database (event rows in
  sequence order, the two uniqueness tables, the identity row) and the writer's condition. The
  storage is an adversary: \<open>j_outcomes\<close> scripts what happens to the coming write requests (success,
  error, time-out with or without the row reaching the disk, death of the writer thread); when the
  script is used up every write succeeds. SQLite's transactions and uniqueness constraints are
  modelled by their documented effect. AUTOINCREMENT starts at 1 and rows are never deleted, so the
  next sequence number is one more than the number of rows.

  Not modelled: the latency samples and \<open>fsync_stats\<close>, the process lock behind \<open>owner\<close>, and the
  thread hand-over (a request is one step).
\<close>

section \<open>Rows\<close>

record event =
  ev_seq :: int
  ev_ts :: time
  ev_mono :: int
  ev_type :: event_type
  ev_payload :: payload
  ev_strategy_id :: "string option"
  ev_symbol :: "string option"
  ev_decision_id :: "string option"
  ev_intent_id :: "string option"
  ev_order_ref :: "string option"
  ev_perm_id :: "int option"
  ev_exec_id :: "string option"

text \<open>The arguments of \<open>commit\<close> that are not given default to \<open>None\<close>.\<close>

definition ev :: "event_type \<Rightarrow> payload \<Rightarrow> event" where
  "ev t p = \<lparr>ev_seq = 0, ev_ts = 0, ev_mono = 0, ev_type = t, ev_payload = p,
     ev_strategy_id = None, ev_symbol = None, ev_decision_id = None, ev_intent_id = None,
     ev_order_ref = None, ev_perm_id = None, ev_exec_id = None\<rparr>"

lemma ev_simps [simp]:
  "ev_type (ev t p) = t" "ev_payload (ev t p) = p"
  "ev_strategy_id (ev t p) = None" "ev_symbol (ev t p) = None"
  "ev_decision_id (ev t p) = None" "ev_intent_id (ev t p) = None"
  "ev_order_ref (ev t p) = None" "ev_perm_id (ev t p) = None" "ev_exec_id (ev t p) = None"
  by (simp_all add: ev_def)

datatype write_outcome = W_ok | W_error | W_timeout bool | W_dead

record journal =
  j_rows :: "event list"
  j_consumed :: "(string \<times> int \<times> time) list"
  j_booked :: "(string \<times> int \<times> time) list"
  j_identity :: "string option"
  j_failed :: "jval option"
  j_closed :: bool
  j_alive :: bool
  j_outcomes :: "write_outcome list"

text \<open>A database file that does not exist yet.\<close>

definition empty_db :: journal where
  "empty_db = \<lparr>j_rows = [], j_consumed = [], j_booked = [], j_identity = None, j_failed = None,
     j_closed = True, j_alive = False, j_outcomes = []\<rparr>"

text \<open>\<open>__init__\<close>: create the schema and the identity row when missing, start the writer.\<close>

definition open_journal :: "string \<Rightarrow> write_outcome list \<Rightarrow> journal \<Rightarrow> journal" where
  "open_journal fresh outs db = db\<lparr>
     j_identity := (case j_identity db of None \<Rightarrow> Some fresh | Some i \<Rightarrow> Some i),
     j_failed := None, j_closed := False, j_alive := True, j_outcomes := outs\<rparr>"

definition journal_id :: "journal \<Rightarrow> string" where
  "journal_id j = (case j_identity j of None \<Rightarrow> [] | Some i \<Rightarrow> i)"

definition replay :: "journal \<Rightarrow> event list" where
  "replay j = j_rows j"

definition max_seq :: "journal \<Rightarrow> int" where
  "max_seq j = foldr (\<lambda>e m. max (ev_seq e) m) (j_rows j) 0"

definition event_at :: "journal \<Rightarrow> int \<Rightarrow> event option" where
  "event_at j seq = find (\<lambda>e. ev_seq e = seq) (j_rows j)"

definition events_of :: "journal \<Rightarrow> event_type list \<Rightarrow> event list" where
  "events_of j types = filter (\<lambda>e. ev_type e \<in> set types) (replay j)"

definition count :: "journal \<Rightarrow> int" where
  "count j = int (length (j_rows j))"

definition is_healthy :: "journal \<Rightarrow> bool" where
  "is_healthy j \<longleftrightarrow> \<not> j_closed j \<and> j_failed j = None \<and> j_alive j"

section \<open>The HALT fold\<close>

definition halts_now :: "event \<Rightarrow> bool" where
  "halts_now e \<longleftrightarrow>
     (ev_type e = OPERATING_MODE_CHANGED \<and>
        pget (ev_payload e) ''to'' JNull = JStr (mode_value HALTED))
     \<or> ev_type e = HALT_CAUSE_ADDED"

text \<open>
  The sequence an acknowledgement names, \<open>int(acked)\<close>. A number that cannot be read clears nothing (the
  source raises; the rows it writes hold an integer).
\<close>

definition acked_seq :: "event \<Rightarrow> int option" where
  "acked_seq e = (case j_int (pget (ev_payload e) ''acknowledged_halt_seq'' JNull) of
       Inr i \<Rightarrow> Some i | Inl _ \<Rightarrow> None)"

definition acks_now :: "event \<Rightarrow> int \<Rightarrow> bool" where
  "acks_now e n \<longleftrightarrow> ev_type e = HALT_ACKNOWLEDGED \<and> acked_seq e = Some n"

definition active_halt_step :: "int option \<Rightarrow> event \<Rightarrow> int option" where
  "active_halt_step active e =
     (if ev_type e = OPERATING_MODE_CHANGED
      then (if pget (ev_payload e) ''to'' JNull = JStr ''HALTED'' then Some (ev_seq e) else active)
      else if ev_type e = HALT_CAUSE_ADDED then Some (ev_seq e)
      else if ev_type e = HALT_ACKNOWLEDGED
      then (case active of None \<Rightarrow> None
            | Some n \<Rightarrow> if acked_seq e = Some n then None else active)
      else active)"

definition active_halt_seq :: "event list \<Rightarrow> int option" where
  "active_halt_seq rows = foldl active_halt_step None rows"

section \<open>Transactions\<close>

datatype write_request =
    Append event
  | Claim_decision string time
  | Claim_exec string time
  | Accept_decision string event
  | Book_execution string event
  | Ack_halt int event

datatype write_result = R_seq int | R_bool bool

definition insert_event :: "event \<Rightarrow> journal \<Rightarrow> int \<times> journal" where
  "insert_event e j =
     (let seq = int (length (j_rows j)) + 1
      in (seq, j\<lparr>j_rows := j_rows j @ [e\<lparr>ev_seq := seq\<rparr>]\<rparr>))"

definition do_append :: "event \<Rightarrow> (journal, write_result) prog" where
  "do_append e = (\<lambda>j. case insert_event e j of (seq, j') \<Rightarrow> (Inr (R_seq seq), j'))"

definition do_accept_decision :: "string \<Rightarrow> event \<Rightarrow> (journal, write_result) prog" where
  "do_accept_decision did e = (\<lambda>j.
     if did \<in> fst ` set (j_consumed j) then (Inr (R_bool False), j)
     else case insert_event e j of (seq, j') \<Rightarrow>
       (Inr (R_bool True), j'\<lparr>j_consumed := j_consumed j' @ [(did, seq, ev_ts e)]\<rparr>))"

definition do_book_execution :: "string \<Rightarrow> event \<Rightarrow> (journal, write_result) prog" where
  "do_book_execution xid e = (\<lambda>j.
     if xid \<in> fst ` set (j_booked j) then (Inr (R_bool False), j)
     else case insert_event e j of (seq, j') \<Rightarrow>
       (Inr (R_bool True), j'\<lparr>j_booked := j_booked j' @ [(xid, seq, ev_ts e)]\<rparr>))"

definition do_ack_halt :: "int \<Rightarrow> event \<Rightarrow> (journal, write_result) prog" where
  "do_ack_halt expected e = (\<lambda>j.
     let active = active_halt_seq (j_rows j)
     in if active \<noteq> Some expected
        then (Inl (HaltAcknowledgementConflict
                (JFmt [JStr ''active HALT changed: expected seq '', JInt expected,
                       JStr '', found '', j_opt JInt active])), j)
        else case insert_event e j of (seq, j') \<Rightarrow> (Inr (R_seq seq), j'))"

definition do_claim_decision :: "string \<Rightarrow> time \<Rightarrow> (journal, write_result) prog" where
  "do_claim_decision did ts = (\<lambda>j.
     if did \<in> fst ` set (j_consumed j) then (Inr (R_bool False), j)
     else (Inr (R_bool True), j\<lparr>j_consumed := j_consumed j @ [(did, 0, ts)]\<rparr>))"

definition do_claim_exec :: "string \<Rightarrow> time \<Rightarrow> (journal, write_result) prog" where
  "do_claim_exec xid ts = (\<lambda>j.
     if xid \<in> fst ` set (j_booked j) then (Inr (R_bool False), j)
     else (Inr (R_bool True), j\<lparr>j_booked := j_booked j @ [(xid, 0, ts)]\<rparr>))"

fun apply_write :: "write_request \<Rightarrow> (journal, write_result) prog" where
  "apply_write (Append e) = do_append e"
| "apply_write (Claim_decision did ts) = do_claim_decision did ts"
| "apply_write (Claim_exec xid ts) = do_claim_exec xid ts"
| "apply_write (Accept_decision did e) = do_accept_decision did e"
| "apply_write (Book_execution xid e) = do_book_execution xid e"
| "apply_write (Ack_halt n e) = do_ack_halt n e"

section \<open>Submitting a write\<close>

definition fail_with :: "jval \<Rightarrow> (journal, 'a) prog" where
  "fail_with d = seqP (modP (\<lambda>j. j\<lparr>j_failed := Some d\<rparr>)) (raise (JournalUnavailable d))"

definition next_outcome :: "journal \<Rightarrow> write_outcome" where
  "next_outcome j = (case j_outcomes j of [] \<Rightarrow> W_ok | w # _ \<Rightarrow> w)"

definition is_conflict :: "exn \<Rightarrow> bool" where
  "is_conflict e = (case e of HaltAcknowledgementConflict d \<Rightarrow> True | _ \<Rightarrow> False)"

definition submit :: "write_request \<Rightarrow> (journal, write_result) prog" where
  "submit req =
     reads j_failed (\<lambda>failed. case failed of
       Some d \<Rightarrow> raise (JournalUnavailable (JFmt [JStr ''journal already failed: '', d]))
     | None \<Rightarrow>
     reads j_closed (\<lambda>closed.
     if closed then raise (JournalUnavailable (JStr ''journal is closed'')) else
     reads j_alive (\<lambda>alive.
     if \<not> alive then fail_with (JStr ''journal writer thread is not alive'') else
     reads next_outcome (\<lambda>w.
     seqP (modP (\<lambda>j. j\<lparr>j_outcomes := tl (j_outcomes j)\<rparr>))
     (case w of
        W_ok \<Rightarrow>
          catchP (apply_write req)
            (\<lambda>e. if is_conflict e then raise e
                 else fail_with (JFmt [JStr ''journal write failed: '', exn_message e]))
      | W_error \<Rightarrow> fail_with (JStr ''journal write failed: disk I/O error'')
      | W_timeout applied \<Rightarrow>
          seqP (if applied then catchP (seqP (apply_write req) (ret ())) (\<lambda>_. ret ()) else ret ())
            (fail_with (JStr ''journal write timed out''))
      | W_dead \<Rightarrow>
          seqP (modP (\<lambda>j. j\<lparr>j_alive := False\<rparr>))
            (fail_with (JStr ''journal write failed: writer died'')))))))"

definition event_dict :: "manual_clock \<Rightarrow> event \<Rightarrow> event" where
  "event_dict ck e = e\<lparr>ev_ts := ck_now ck, ev_mono := ck_mono ck\<rparr>"

definition as_seq :: "write_result \<Rightarrow> int" where
  "as_seq r = (case r of R_seq n \<Rightarrow> n | R_bool b \<Rightarrow> if b then 1 else 0)"

definition as_bool :: "write_result \<Rightarrow> bool" where
  "as_bool r = (case r of R_seq n \<Rightarrow> n \<noteq> 0 | R_bool b \<Rightarrow> b)"

definition commit :: "manual_clock \<Rightarrow> event \<Rightarrow> (journal, int) prog" where
  "commit ck e = bindP (submit (Append (event_dict ck e))) (\<lambda>r. ret (as_seq r))"

definition accept_decision ::
  "manual_clock \<Rightarrow> string \<Rightarrow> payload \<Rightarrow> string \<Rightarrow> string \<Rightarrow> (journal, bool) prog" where
  "accept_decision ck did p sid symb =
     bindP (submit (Accept_decision did (event_dict ck
       ((ev TARGET_RECEIVED p)\<lparr>ev_strategy_id := Some sid, ev_symbol := Some symb,
                              ev_decision_id := Some did\<rparr>))))
       (\<lambda>r. ret (as_bool r))"

definition commit_execution_once ::
  "manual_clock \<Rightarrow> string \<Rightarrow> payload \<Rightarrow> string \<Rightarrow> string \<Rightarrow> int option \<Rightarrow> (journal, bool) prog" where
  "commit_execution_once ck xid p symb ref pid =
     bindP (submit (Book_execution xid (event_dict ck
       ((ev EXECUTION_RECEIVED p)\<lparr>ev_symbol := Some symb, ev_order_ref := Some ref,
                                 ev_perm_id := pid, ev_exec_id := Some xid\<rparr>))))
       (\<lambda>r. ret (as_bool r))"

definition acknowledge_halt ::
  "manual_clock \<Rightarrow> int \<Rightarrow> string \<Rightarrow> string \<Rightarrow> (journal, int) prog" where
  "acknowledge_halt ck expected operator resolution =
     (if expected \<le> 0 then raise (ValueErr (JStr ''expected_halt_seq must be positive''))
      else if strip operator = [] \<or> strip resolution = []
      then raise (ValueErr (JStr ''HALT acknowledgement requires operator and resolution''))
      else bindP (submit (Ack_halt expected (event_dict ck
        (ev HALT_ACKNOWLEDGED
           [(''operator'', JStr (strip operator)), (''resolution'', JStr (strip resolution)),
            (''acknowledged_halt_seq'', JInt expected)]))))
        (\<lambda>r. ret (as_seq r)))"

definition claim_decision :: "manual_clock \<Rightarrow> string \<Rightarrow> (journal, unit) prog" where
  "claim_decision ck did =
     bindP (submit (Claim_decision did (ck_now ck)))
       (\<lambda>r. if as_bool r then ret () else raise (DuplicateDecision did))"

definition claim_execution :: "manual_clock \<Rightarrow> string \<Rightarrow> (journal, bool) prog" where
  "claim_execution ck xid =
     bindP (submit (Claim_exec xid (ck_now ck))) (\<lambda>r. ret (as_bool r))"

definition close_journal :: "journal \<Rightarrow> journal" where
  "close_journal j = (if j_closed j then j else j\<lparr>j_closed := True, j_alive := False\<rparr>)"

end
