(* ===== verification/Risk.thy ===== *)
theory Risk
  imports Journal
begin

text \<open>
  Pre-trade risk (\<open>risk.py\<close>): the configuration with its compiled-in ceilings, the daily counters,
  the check every order passes, the counters' reconstruction from the journal, and the start-up
  self-test. \<open>Decimal\<close> and \<open>float\<close> arithmetic is exact rational arithmetic. The detail text of a
  rejection keeps its parts.
\<close>

section \<open>Configuration\<close>

definition HARD_MAX_POSITION_SHARES :: int where "HARD_MAX_POSITION_SHARES = 100"
definition HARD_MAX_ORDER_SHARES :: int where "HARD_MAX_ORDER_SHARES = 200"
definition HARD_MAX_ORDER_NOTIONAL :: rat where "HARD_MAX_ORDER_NOTIONAL = 200000"
definition HARD_MAX_DAILY_SHARES :: int where "HARD_MAX_DAILY_SHARES = 2000"
definition HARD_MAX_DAILY_NOTIONAL :: rat where "HARD_MAX_DAILY_NOTIONAL = 1000000"
definition HARD_MAX_ORDERS_PER_DAY :: int where "HARD_MAX_ORDERS_PER_DAY = 200"
definition HARD_MAX_ORDERS_PER_MINUTE :: int where "HARD_MAX_ORDERS_PER_MINUTE = 10"

lemmas hard_bounds =
  HARD_MAX_POSITION_SHARES_def HARD_MAX_ORDER_SHARES_def HARD_MAX_ORDER_NOTIONAL_def
  HARD_MAX_DAILY_SHARES_def HARD_MAX_DAILY_NOTIONAL_def HARD_MAX_ORDERS_PER_DAY_def
  HARD_MAX_ORDERS_PER_MINUTE_def

record risk_config =
  rc_symbol_whitelist :: "string list"
  rc_strategy_whitelist :: "string list"
  rc_max_position_shares :: int
  rc_max_order_shares :: int
  rc_max_order_notional :: rat
  rc_max_daily_shares :: int
  rc_max_daily_notional :: rat
  rc_max_orders_per_day :: int
  rc_max_orders_per_minute :: int
  rc_allow_short :: bool
  rc_max_quote_age_seconds :: rat
  rc_max_spread_bps :: rat
  rc_max_limit_deviation_bps :: rat
  rc_overnight_gap_stress_pct :: rat
  rc_max_overnight_loss :: rat

definition default_risk_config :: risk_config where
  "default_risk_config = \<lparr>
     rc_symbol_whitelist = [''SPY''],
     rc_strategy_whitelist = [''manual_test'', ''intraday_momentum_spy''],
     rc_max_position_shares = 5, rc_max_order_shares = 10, rc_max_order_notional = 5000,
     rc_max_daily_shares = 200, rc_max_daily_notional = 100000, rc_max_orders_per_day = 50,
     rc_max_orders_per_minute = 4, rc_allow_short = True, rc_max_quote_age_seconds = 5,
     rc_max_spread_bps = 25, rc_max_limit_deviation_bps = 30,
     rc_overnight_gap_stress_pct = 15/100, rc_max_overnight_loss = 500\<rparr>"

text \<open>One message per failed condition, in the source's order.\<close>

definition config_errors :: "risk_config \<Rightarrow> jval list" where
  "config_errors c = concat
    [if rc_max_position_shares c \<le> 0 then [JStr ''max_position_shares must be > 0''] else [],
     if rc_max_position_shares c > HARD_MAX_POSITION_SHARES
       then [JFmt [JStr ''max_position_shares '', JInt (rc_max_position_shares c),
                   JStr '' exceeds hard bound '', JInt HARD_MAX_POSITION_SHARES]] else [],
     if rc_max_order_shares c \<le> 0 then [JStr ''max_order_shares must be > 0''] else [],
     if rc_max_order_shares c > HARD_MAX_ORDER_SHARES
       then [JStr ''max_order_shares exceeds hard bound''] else [],
     if rc_max_order_shares c < 2 * rc_max_position_shares c
       then [JFmt [JStr ''max_order_shares ('', JInt (rc_max_order_shares c),
                   JStr '') < 2 x max_position_shares ('', JInt (rc_max_position_shares c),
                   JStr ''): a full reversal would be unexecutable'']] else [],
     if rc_max_order_notional c \<le> 0 \<or> rc_max_order_notional c > HARD_MAX_ORDER_NOTIONAL
       then [JStr ''max_order_notional out of range''] else [],
     if rc_max_daily_shares c \<le> 0 \<or> rc_max_daily_shares c > HARD_MAX_DAILY_SHARES
       then [JStr ''max_daily_shares out of range''] else [],
     if rc_max_daily_notional c \<le> 0 \<or> rc_max_daily_notional c > HARD_MAX_DAILY_NOTIONAL
       then [JStr ''max_daily_notional out of range''] else [],
     if rc_max_orders_per_day c \<le> 0 \<or> rc_max_orders_per_day c > HARD_MAX_ORDERS_PER_DAY
       then [JStr ''max_orders_per_day out of range''] else [],
     if rc_max_orders_per_minute c \<le> 0 \<or> rc_max_orders_per_minute c > HARD_MAX_ORDERS_PER_MINUTE
       then [JStr ''max_orders_per_minute out of range''] else [],
     if rc_symbol_whitelist c = [] then [JStr ''symbol_whitelist empty''] else [],
     if rc_strategy_whitelist c = [] then [JStr ''strategy_whitelist empty''] else [],
     if rc_max_quote_age_seconds c \<le> 0 then [JStr ''max_quote_age_seconds must be > 0''] else [],
     if rc_max_spread_bps c \<le> 0 then [JStr ''max_spread_bps must be > 0''] else [],
     if rc_max_limit_deviation_bps c \<le> 0
       then [JStr ''max_limit_deviation_bps must be > 0''] else [],
     if rc_overnight_gap_stress_pct c \<le> 0 \<or> rc_overnight_gap_stress_pct c > 1
       then [JStr ''overnight_gap_stress_pct must be in (0, 1]''] else [],
     if rc_max_overnight_loss c \<le> 0 then [JStr ''max_overnight_loss must be > 0''] else []]"

definition validate :: "risk_config \<Rightarrow> exn + risk_config" where
  "validate c = (let errs = config_errors c in
     if errs \<noteq> [] then Inl (ValueErr (JFmt (JStr ''risk config invalid: '' # errs))) else Inr c)"

definition config_payload :: "risk_config \<Rightarrow> jval" where
  "config_payload c = JObj
    [(''symbol_whitelist'', JList (map JStr (rc_symbol_whitelist c))),
     (''strategy_whitelist'', JList (map JStr (rc_strategy_whitelist c))),
     (''max_position_shares'', JInt (rc_max_position_shares c)),
     (''max_order_shares'', JInt (rc_max_order_shares c)),
     (''max_order_notional'', JNum (rc_max_order_notional c)),
     (''max_daily_shares'', JInt (rc_max_daily_shares c)),
     (''max_daily_notional'', JNum (rc_max_daily_notional c)),
     (''max_orders_per_day'', JInt (rc_max_orders_per_day c)),
     (''max_orders_per_minute'', JInt (rc_max_orders_per_minute c)),
     (''allow_short'', JBool (rc_allow_short c)),
     (''max_quote_age_seconds'', JNum (rc_max_quote_age_seconds c)),
     (''max_spread_bps'', JNum (rc_max_spread_bps c)),
     (''max_limit_deviation_bps'', JNum (rc_max_limit_deviation_bps c)),
     (''overnight_gap_stress_pct'', JNum (rc_overnight_gap_stress_pct c)),
     (''max_overnight_loss'', JNum (rc_max_overnight_loss c))]"

definition config_hash :: "(jval \<Rightarrow> string) \<Rightarrow> risk_config \<Rightarrow> string" where
  "config_hash sha c = stable_hash sha (config_payload c)"

section \<open>Counters\<close>

record day_counters =
  dc_day :: "date option"
  dc_orders :: int
  dc_shares :: int
  dc_notional :: rat
  dc_stamps :: "time list"

definition no_counters :: day_counters where
  "no_counters = \<lparr>dc_day = None, dc_orders = 0, dc_shares = 0, dc_notional = 0, dc_stamps = []\<rparr>"

definition roll :: "time \<Rightarrow> day_counters \<Rightarrow> day_counters" where
  "roll now dc =
     (let d = utc_date now
      in if dc_day dc \<noteq> Some d
         then \<lparr>dc_day = Some d, dc_orders = 0, dc_shares = 0, dc_notional = 0, dc_stamps = []\<rparr>
         else dc)"

definition count_send :: "time \<Rightarrow> int \<Rightarrow> rat \<Rightarrow> day_counters \<Rightarrow> day_counters" where
  "count_send now qty price dc0 =
     (let dc = roll now dc0
      in dc\<lparr>dc_orders := dc_orders dc + 1, dc_shares := dc_shares dc + qty,
            dc_notional := dc_notional dc + price * of_int qty,
            dc_stamps := dc_stamps dc @ [now]\<rparr>)"

record risk_engine =
  re_config :: risk_config
  re_counters :: day_counters
  re_config_hash :: string

definition risk_engine :: "(jval \<Rightarrow> string) \<Rightarrow> risk_config \<Rightarrow> risk_engine" where
  "risk_engine sha c =
     \<lparr>re_config = c, re_counters = no_counters, re_config_hash = config_hash sha c\<rparr>"

definition record_sent :: "time \<Rightarrow> order_intent \<Rightarrow> rat \<Rightarrow> risk_engine \<Rightarrow> risk_engine" where
  "record_sent now i price r = r\<lparr>re_counters := count_send now (oi_quantity i) price (re_counters r)\<rparr>"

section \<open>The check\<close>

definition reject :: "string \<Rightarrow> jval \<Rightarrow> exn + 'a" where
  "reject check detail = Inl (RiskRejection check detail)"

text \<open>\<open>limit_price or default\<close>: a missing or zero price is false.\<close>

definition price_or :: "rat option \<Rightarrow> rat \<Rightarrow> rat" where
  "price_or p d = (case p of None \<Rightarrow> d | Some x \<Rightarrow> if x = 0 then d else x)"

text \<open>The quote-dependent checks; the result is the price the notional is computed with.\<close>

definition check_quote ::
  "risk_config \<Rightarrow> time \<Rightarrow> order_intent \<Rightarrow> quote option \<Rightarrow> bool \<Rightarrow> exn + rat" where
  "check_quote c now i q is_closing =
     (case q of
        Some qt \<Rightarrow>
          if age_seconds qt now > rc_max_quote_age_seconds c \<and> \<not> is_closing
          then reject ''quote_stale'' (JFmt [JNum (age_seconds qt now), JStr ''s''])
          else if mid qt > 0 \<and> spread qt / mid qt * 10000 > rc_max_spread_bps c \<and> \<not> is_closing
          then reject ''max_spread_bps'' (JNum (spread qt / mid qt * 10000))
          else if mid qt > 0 \<and> (case oi_limit_price i of None \<Rightarrow> False | Some lp \<Rightarrow>
                 \<bar>lp - mid qt\<bar> / mid qt * 10000
                   > rc_max_limit_deviation_bps c * (if is_closing then 3 else 1))
          then reject ''limit_collar'' (JFmt [j_opt JNum (oi_limit_price i), JStr '' bps from mid''])
          else Inr (price_or (oi_limit_price i) (mid qt))
      | None \<Rightarrow>
          if \<not> is_closing then reject ''no_quote'' (JStr ''quote required for opening orders'')
          else Inr (price_or (oi_limit_price i) 0))"

definition reference_price :: "quote option \<Rightarrow> rat" where
  "reference_price q = (case q of None \<Rightarrow> 0 | Some qt \<Rightarrow> mid qt)"

definition stressed_loss :: "risk_config \<Rightarrow> int \<Rightarrow> quote option \<Rightarrow> rat" where
  "stressed_loss c resulting q =
     of_int \<bar>resulting\<bar> * reference_price q * rc_overnight_gap_stress_pct c"

definition risk_evidence ::
  "string \<Rightarrow> risk_config \<Rightarrow> int \<Rightarrow> quote option \<Rightarrow> bool \<Rightarrow> payload" where
  "risk_evidence chash c resulting q is_closing =
    [(''config_hash'', JStr chash),
     (''is_closing'', JBool is_closing),
     (''resulting_position'', JInt resulting),
     (''reference_price'', JNum (reference_price q)),
     (''overnight_gap_stress_pct'', JNum (rc_overnight_gap_stress_pct c)),
     (''stressed_loss'', JNum (stressed_loss c resulting q)),
     (''max_overnight_loss'', JNum (rc_max_overnight_loss c)),
     (''max_position_shares'', JInt (rc_max_position_shares c)),
     (''max_order_shares'', JInt (rc_max_order_shares c)),
     (''max_order_notional'', JNum (rc_max_order_notional c)),
     (''max_orders_per_minute'', JInt (rc_max_orders_per_minute c)),
     (''max_orders_per_day'', JInt (rc_max_orders_per_day c)),
     (''max_daily_shares'', JInt (rc_max_daily_shares c)),
     (''max_daily_notional'', JNum (rc_max_daily_notional c))]"

definition recent_stamps :: "time \<Rightarrow> time list \<Rightarrow> time list" where
  "recent_stamps now ts = filter (\<lambda>t. now - t < minutes 1) ts"

text \<open>The check after the day roll.\<close>

definition check_order ::
  "string \<Rightarrow> risk_config \<Rightarrow> day_counters \<Rightarrow> time \<Rightarrow> order_intent \<Rightarrow> int \<Rightarrow> quote option \<Rightarrow> bool \<Rightarrow>
   exn + payload" where
  "check_order chash c dc now i current_position q is_closing =
    (let resulting = current_position + oi_signed_quantity i;
         recent = recent_stamps now (dc_stamps dc)
     in
     if oi_symbol i \<notin> set (rc_symbol_whitelist c)
       then reject ''symbol_whitelist'' (JStr (oi_symbol i))
     else if oi_strategy_id i \<notin> set (rc_strategy_whitelist c)
       then reject ''strategy_whitelist'' (JStr (oi_strategy_id i))
     else if oi_quantity i \<le> 0 then reject ''quantity'' (JStr ''must be positive'')
     else if oi_quantity i > rc_max_order_shares c
       then reject ''max_order_shares''
              (JFmt [JInt (oi_quantity i), JStr '' > '', JInt (rc_max_order_shares c)])
     else if \<bar>resulting\<bar> > rc_max_position_shares c
       then reject ''max_position_shares''
              (JFmt [JStr ''resulting '', JInt resulting, JStr '' exceeds '',
                     JInt (rc_max_position_shares c)])
     else if resulting < 0 \<and> \<not> rc_allow_short c
       then reject ''allow_short'' (JStr ''short not permitted'')
     else if dc_orders dc + 1 > rc_max_orders_per_day c
       then reject ''max_orders_per_day'' (JInt (dc_orders dc))
     else if int (length recent) + 1 > rc_max_orders_per_minute c
       then reject ''max_orders_per_minute'' (JInt (int (length recent)))
     else if dc_shares dc + oi_quantity i > rc_max_daily_shares c
       then reject ''max_daily_shares'' (JInt (dc_shares dc))
     else ebind (check_quote c now i q is_closing) (\<lambda>notional.
       let order_notional = notional * of_int (oi_quantity i) in
       if order_notional > rc_max_order_notional c
         then reject ''max_order_notional'' (JNum order_notional)
       else if dc_notional dc + order_notional > rc_max_daily_notional c
         then reject ''max_daily_notional''
                (JFmt [JNum (dc_notional dc + order_notional), JStr '' > '',
                       JNum (rc_max_daily_notional c)])
       else if resulting \<noteq> 0 \<and> q \<noteq> None \<and> stressed_loss c resulting q > rc_max_overnight_loss c
         then reject ''overnight_stress''
                (JFmt [JStr ''stress loss '', JNum (stressed_loss c resulting q),
                       JStr '' > budget '', JNum (rc_max_overnight_loss c)])
       else Inr (risk_evidence chash c resulting q is_closing)))"

definition risk_check ::
  "time \<Rightarrow> order_intent \<Rightarrow> int \<Rightarrow> quote option \<Rightarrow> bool \<Rightarrow> (risk_engine, payload) prog" where
  "risk_check now i current_position q is_closing =
     seqP (modP (\<lambda>r. r\<lparr>re_counters := roll now (re_counters r)\<rparr>))
       (reads (\<lambda>r. check_order (re_config_hash r) (re_config r) (re_counters r) now i
                     current_position q is_closing) liftE)"

section \<open>Counters from the journal\<close>

record restore_state =
  rs_intents :: "(string \<times> payload) list"
  rs_seen :: "string list"
  rs_counters :: day_counters

text \<open>
  The body of the loop for one event: the state after it, and the exception a conversion raised.
\<close>

definition restore_step :: "restore_state \<Rightarrow> event \<Rightarrow> exn option \<times> restore_state" where
  "restore_step st e =
     (case ev_intent_id e of
        None \<Rightarrow> (None, st)
      | Some iid \<Rightarrow>
          if iid = [] then (None, st)
          else if ev_type e = ORDER_INTENT_COMMITTED
          then (None, st\<lparr>rs_intents := dput iid (ev_payload e) (rs_intents st)\<rparr>)
          else if ev_type e = SEND_ATTEMPT_STARTED
          then (if iid \<in> set (rs_seen st) then (None, st) else
            (let p = dget_or (rs_intents st) iid [];
                 px_raw = pget p ''limit_price'' (pget (ev_payload e) ''price'' JNull);
                 st1 = st\<lparr>rs_seen := set_add iid (rs_seen st),
                          rs_counters := roll (ev_ts e) (rs_counters st)\<rparr>
             in case j_int (pget p ''quantity'' (pget (ev_payload e) ''quantity'' (JInt 0))) of
                  Inl x \<Rightarrow> (Some x, st1)
                | Inr qty \<Rightarrow>
                   (case (if px_raw = JNull \<or> px_raw = JStr ''None'' then Inr 0 else j_dec px_raw) of
                      Inl x \<Rightarrow> (Some x, st1)
                    | Inr px \<Rightarrow>
                        (None, st1\<lparr>rs_counters := count_send (ev_ts e) qty px (rs_counters st)\<rparr>))))
          else (None, st))"

fun restore_loop :: "restore_state \<Rightarrow> event list \<Rightarrow> exn option \<times> restore_state" where
  "restore_loop st [] = (None, st)"
| "restore_loop st (e # es) =
     (case restore_step st e of
        (Some x, st') \<Rightarrow> (Some x, st')
      | (None, st') \<Rightarrow> restore_loop st' es)"

definition restore_init :: restore_state where
  "restore_init = \<lparr>rs_intents = [], rs_seen = [], rs_counters = no_counters\<rparr>"

definition restore_from_events :: "event list \<Rightarrow> (risk_engine, unit) prog" where
  "restore_from_events es =
     (case restore_loop restore_init es of (err, st) \<Rightarrow>
        seqP (modP (\<lambda>r. r\<lparr>re_counters := rs_counters st\<rparr>))
          (case err of None \<Rightarrow> ret () | Some x \<Rightarrow> raise x))"

definition risk_snapshot :: "risk_engine \<Rightarrow> payload" where
  "risk_snapshot r =
    [(''day'', j_opt (\<lambda>d. JStr (date_isoformat d)) (dc_day (re_counters r))),
     (''orders'', JInt (dc_orders (re_counters r))),
     (''shares'', JInt (dc_shares (re_counters r))),
     (''notional'', JNum (dc_notional (re_counters r))),
     (''max_daily_notional'', JNum (rc_max_daily_notional (re_config r))),
     (''config_hash'', JStr (re_config_hash r))]"

section \<open>Start-up self-test\<close>

definition probe :: "string \<Rightarrow> string \<Rightarrow> int \<Rightarrow> rat \<Rightarrow> time \<Rightarrow> order_intent" where
  "probe symb strategy qty px now =
     \<lparr>oi_intent_id = ''selftest'', oi_decision_id = ''selftest'', oi_strategy_id = strategy,
      oi_symbol = symb, oi_side = BUY, oi_quantity = qty, oi_order_type = MARKETABLE_LIMIT,
      oi_limit_price = Some px, oi_target_quantity = qty, oi_position_snapshot = 0,
      oi_working_snapshot = 0, oi_valid_until = now + minutes 1,
      oi_risk_config_hash = ''selftest'', oi_execution_policy_hash = ''selftest'',
      oi_order_ref = ''selftest'', oi_attempt = 0, oi_flatten_reason = None,
      oi_broker_order_id = None, oi_perm_id = None\<rparr>"

text \<open>A name outside the list: the candidate grows by one character until it is.\<close>

function grow_until_absent :: "string list \<Rightarrow> string \<Rightarrow> string" where
  "grow_until_absent values cand =
     (if cand \<in> set values then grow_until_absent values (cand @ ''x'') else cand)"
  by pat_completeness auto
termination
proof (relation "measure (\<lambda>(values, cand). card {v \<in> set values. length cand \<le> length v})")
  fix "values" :: "string list" and cand :: string
  assume cand: "cand \<in> set values"
  have "{v \<in> set values. length (cand @ ''x'') \<le> length v} \<subset> {v \<in> set values. length cand \<le> length v}"
  proof (rule psubsetI)
    show "{v \<in> set values. length (cand @ ''x'') \<le> length v} \<subseteq> {v \<in> set values. length cand \<le> length v}"
      by auto
    have "cand \<in> {v \<in> set values. length cand \<le> length v}"
      and "cand \<notin> {v \<in> set values. length (cand @ ''x'') \<le> length v}"
      using cand by auto
    then show "{v \<in> set values. length (cand @ ''x'') \<le> length v} \<noteq> {v \<in> set values. length cand \<le> length v}"
      by blast
  qed
  then have "card {v \<in> set values. length (cand @ ''x'') \<le> length v}
      < card {v \<in> set values. length cand \<le> length v}"
    by (intro psubset_card_mono) auto
  then show "((values, cand @ ''x''), values, cand)
      \<in> measure (\<lambda>(values, cand). card {v \<in> set values. length cand \<le> length v})"
    by simp
qed simp

declare grow_until_absent.simps [simp del]

definition absent_name :: "string list \<Rightarrow> string \<Rightarrow> string" where
  "absent_name values stem = grow_until_absent values (''__not_a_real_'' @ stem @ ''__'')"

definition mk_quote :: "string \<Rightarrow> rat \<Rightarrow> rat \<Rightarrow> time \<Rightarrow> quote" where
  "mk_quote symb bid ask ts =
     \<lparr>q_symbol = symb, q_bid = bid, q_ask = ask, q_bid_size = 100, q_ask_size = 100, q_ts = ts,
      q_last = None, q_last_size = None\<rparr>"

text \<open>The must-reject cases: name, order, current position, quote.\<close>

definition self_test_cases ::
  "risk_config \<Rightarrow> time \<Rightarrow> (string \<times> order_intent \<times> int \<times> quote option) list" where
  "self_test_cases c now =
    (let symb = hd (rc_symbol_whitelist c); strategy = hd (rc_strategy_whitelist c);
         good = Some (mk_quote symb (59998/100) (60002/100) now);
         ok = probe symb strategy 1 600 now
     in [(''symbol_whitelist'',
            probe (absent_name (rc_symbol_whitelist c) ''symbol'') strategy 1 600 now, 0, good),
         (''strategy_whitelist'',
            probe symb (absent_name (rc_strategy_whitelist c) ''strategy'') 1 600 now, 0, good),
         (''max_order_shares'', probe symb strategy (rc_max_order_shares c + 1) 600 now, 0, good),
         (''max_position_shares'', ok, rc_max_position_shares c, good),
         (''quote_stale'', ok, 0,
            Some (mk_quote symb (59998/100) (60002/100)
              (now - round_half_even ((rc_max_quote_age_seconds c + 10) * of_int usec)))),
         (''max_spread_bps'', ok, 0, Some (mk_quote symb 590 610 now)),
         (''limit_collar'', probe symb strategy 1 700 now, 0, good),
         (''no_quote'', ok, 0, None)])"

text \<open>Each case runs on a fresh engine and must be rejected by its own check.\<close>

definition case_verdict ::
  "risk_config \<Rightarrow> time \<Rightarrow> string \<times> order_intent \<times> int \<times> quote option \<Rightarrow> jval option" where
  "case_verdict c now cs = (case cs of (name, i, pos, q) \<Rightarrow>
     (case check_order [] c (roll now no_counters) now i pos q False of
        Inl (RiskRejection check d) \<Rightarrow>
          if check = name then None
          else Some (JFmt [JStr name, JStr '' (rejected by '', JStr check, JStr '' instead)''])
      | _ \<Rightarrow> Some (JStr name)))"

datatype breaker_verdict = Tripped | Baseline_rejected string | Never_tripped

fun breaker_loop ::
  "nat \<Rightarrow> risk_config \<Rightarrow> time \<Rightarrow> order_intent \<Rightarrow> quote option \<Rightarrow> day_counters \<Rightarrow> breaker_verdict" where
  "breaker_loop 0 c now i q dc = Never_tripped"
| "breaker_loop (Suc n) c now i q dc =
     (case check_order [] c (roll now dc) now i 0 q False of
        Inl (RiskRejection check d) \<Rightarrow>
          if check = ''max_orders_per_minute'' then Tripped else Baseline_rejected check
      | Inl e \<Rightarrow> Never_tripped
      | Inr p \<Rightarrow> breaker_loop n c now i q (count_send now (oi_quantity i) 600 dc))"

definition run_self_test :: "risk_config \<Rightarrow> time \<Rightarrow> exn + string list" where
  "run_self_test c now =
     (if rc_symbol_whitelist c = [] \<or> rc_strategy_whitelist c = []
      then Inl (RiskSelfTestFailed [JStr ''empty symbol or strategy whitelist''])
      else
       (let symb = hd (rc_symbol_whitelist c); strategy = hd (rc_strategy_whitelist c);
            good = Some (mk_quote symb (59998/100) (60002/100) now);
            cases = self_test_cases c now;
            failures = List.map_filter (case_verdict c now) cases;
            proven = map fst (filter (\<lambda>cs. case_verdict c now cs = None) cases);
            verdict = breaker_loop (nat (rc_max_orders_per_minute c + 2)) c now
                        (probe symb strategy 1 600 now) good no_counters;
            failures' = failures @ (case verdict of
                Tripped \<Rightarrow> []
              | Baseline_rejected check \<Rightarrow>
                  [JFmt [JStr ''max_orders_per_minute (baseline rejected by '', JStr check, JStr '')'']]
              | Never_tripped \<Rightarrow> [JStr ''max_orders_per_minute''])
        in if failures' \<noteq> [] then Inl (RiskSelfTestFailed failures')
           else Inr (proven @ [''max_orders_per_minute''])))"

end
