(* ===== verification/Calendar.thy ===== *)
theory Calendar
  imports Clock
begin

text \<open>
  The trading calendar (\<open>calendar.py\<close>): the session plan of a day, the end-of-day deadlines, and the
  coverage of the holiday table. Eastern Time is the standard library's \<open>ZoneInfo\<close> for New York under
  the rule in force since 2007: daylight saving from the second Sunday of March to the first
  Sunday of November. Wall-clock times carry \<open>fold = 0\<close>.
\<close>

section \<open>Eastern Time\<close>

definition hours :: "int \<Rightarrow> int" where
  "hours h = h * 3600 * usec"

definition dst_start :: "int \<Rightarrow> date" where
  "dst_start y = (let d = days_of y 3 8 in d + (6 - weekday d))"

definition dst_end :: "int \<Rightarrow> date" where
  "dst_end y = (let d = days_of y 11 1 in d + (6 - weekday d))"

text \<open>The UTC offset at a UTC time, and at a wall-clock time.\<close>

definition et_offset_utc :: "time \<Rightarrow> int" where
  "et_offset_utc t =
     (let y = year_of ((t - hours 5) div day_us)
      in if dst_start y * day_us + hours 7 \<le> t \<and> t < dst_end y * day_us + hours 6
         then - hours 4 else - hours 5)"

definition et_offset_wall :: "time \<Rightarrow> int" where
  "et_offset_wall w =
     (let y = year_of (w div day_us)
      in if dst_start y * day_us + hours 3 \<le> w \<and> w < dst_end y * day_us + hours 2
         then - hours 4 else - hours 5)"

text \<open>\<open>t.astimezone(ET).date()\<close> and \<open>w.astimezone(timezone.utc)\<close>.\<close>

definition et_date :: "time \<Rightarrow> date" where
  "et_date t = (t + et_offset_utc t) div day_us"

definition et_to_utc :: "time \<Rightarrow> time" where
  "et_to_utc w = w - et_offset_wall w"

section \<open>Tables\<close>

definition HOLIDAYS_2026 :: "date list" where
  "HOLIDAYS_2026 =
     [days_of 2026 1 1, days_of 2026 1 19, days_of 2026 2 16, days_of 2026 4 3,
      days_of 2026 5 25, days_of 2026 6 19, days_of 2026 7 3, days_of 2026 9 7,
      days_of 2026 11 26, days_of 2026 12 25]"

definition HALF_DAYS_2026 :: "date list" where
  "HALF_DAYS_2026 = [days_of 2026 11 27, days_of 2026 12 24]"

definition REGULAR_OPEN :: time where "REGULAR_OPEN = hours 9 + minutes 30"
definition REGULAR_CLOSE :: time where "REGULAR_CLOSE = hours 16"
definition HALF_DAY_CLOSE :: time where "HALF_DAY_CLOSE = hours 13"

definition SUPPORTED_YEARS :: "int list" where
  "SUPPORTED_YEARS = [2026]"

section \<open>Plans\<close>

record session_plan =
  sp_session_date :: date
  sp_is_trading_day :: bool
  sp_is_half_day :: bool
  sp_open_utc :: "time option"
  sp_close_utc :: "time option"
  sp_flatten_start_utc :: "time option"
  sp_flatten_hard_utc :: "time option"
  sp_escalation_utc :: "time option"

record trading_calendar =
  cal_holidays :: "date list"
  cal_half_days :: "date list"
  cal_flatten_lead_minutes :: int
  cal_flatten_hard_minutes :: int
  cal_escalation_minutes :: int
  cal_supported_years :: "int list"

text \<open>The constructor: every year claimed as covered has a holiday in the table.\<close>

definition mk_calendar :: "trading_calendar \<Rightarrow> exn + trading_calendar" where
  "mk_calendar c =
     (case find (\<lambda>y. \<not> (\<exists>h \<in> set (cal_holidays c). year_of h = y)) (sort (cal_supported_years c)) of
        Some y \<Rightarrow> Inl (CalendarCoverageError (days_of y 1 1))
      | None \<Rightarrow> Inr c)"

definition default_calendar :: trading_calendar where
  "default_calendar = \<lparr>cal_holidays = HOLIDAYS_2026, cal_half_days = HALF_DAYS_2026,
     cal_flatten_lead_minutes = 20, cal_flatten_hard_minutes = 3, cal_escalation_minutes = 15,
     cal_supported_years = SUPPORTED_YEARS\<rparr>"

definition covers :: "trading_calendar \<Rightarrow> date \<Rightarrow> bool" where
  "covers c d \<longleftrightarrow> year_of d \<in> set (cal_supported_years c)"

definition require_coverage :: "trading_calendar \<Rightarrow> date \<Rightarrow> exn + unit" where
  "require_coverage c d = (if covers c d then Inr () else Inl (CalendarCoverageError d))"

definition is_trading_day :: "trading_calendar \<Rightarrow> date \<Rightarrow> exn + bool" where
  "is_trading_day c d =
     ebind (require_coverage c d) (\<lambda>_. Inr (weekday d < 5 \<and> d \<notin> set (cal_holidays c)))"

definition session_close :: "trading_calendar \<Rightarrow> date \<Rightarrow> time" where
  "session_close c d =
     d * day_us + (if d \<in> set (cal_half_days c) then HALF_DAY_CLOSE else REGULAR_CLOSE)"

definition plan :: "trading_calendar \<Rightarrow> date \<Rightarrow> exn + session_plan" where
  "plan c d =
     ebind (require_coverage c d) (\<lambda>_.
     ebind (is_trading_day c d) (\<lambda>trading.
       if \<not> trading
       then Inr \<lparr>sp_session_date = d, sp_is_trading_day = False, sp_is_half_day = False,
                 sp_open_utc = None, sp_close_utc = None, sp_flatten_start_utc = None,
                 sp_flatten_hard_utc = None, sp_escalation_utc = None\<rparr>
       else
        (let close_et = session_close c d
         in Inr \<lparr>sp_session_date = d, sp_is_trading_day = True,
                 sp_is_half_day = d \<in> set (cal_half_days c),
                 sp_open_utc = Some (et_to_utc (d * day_us + REGULAR_OPEN)),
                 sp_close_utc = Some (et_to_utc close_et),
                 sp_flatten_start_utc =
                   Some (et_to_utc (close_et - minutes (cal_flatten_lead_minutes c))),
                 sp_flatten_hard_utc =
                   Some (et_to_utc (close_et - minutes (cal_flatten_hard_minutes c))),
                 sp_escalation_utc =
                   Some (et_to_utc (close_et - minutes (cal_escalation_minutes c)))\<rparr>)))"

definition plan_for :: "trading_calendar \<Rightarrow> time \<Rightarrow> exn + session_plan" where
  "plan_for c now = plan c (et_date now)"

definition between :: "time option \<Rightarrow> time option \<Rightarrow> time \<Rightarrow> bool" where
  "between a b now = (case (a, b) of (Some x, Some y) \<Rightarrow> x \<le> now \<and> now < y | _ \<Rightarrow> False)"

definition in_session :: "trading_calendar \<Rightarrow> time \<Rightarrow> exn + bool" where
  "in_session c now = ebind (plan_for c now) (\<lambda>p.
     Inr (sp_is_trading_day p \<and> between (sp_open_utc p) (sp_close_utc p) now))"

definition should_start_flatten :: "trading_calendar \<Rightarrow> time \<Rightarrow> exn + bool" where
  "should_start_flatten c now = ebind (plan_for c now) (\<lambda>p.
     Inr (sp_is_trading_day p \<and> between (sp_flatten_start_utc p) (sp_close_utc p) now))"

definition past_escalation :: "trading_calendar \<Rightarrow> time \<Rightarrow> exn + bool" where
  "past_escalation c now = ebind (plan_for c now) (\<lambda>p.
     Inr (sp_is_trading_day p \<and>
          (case sp_escalation_utc p of None \<Rightarrow> False | Some t \<Rightarrow> now \<ge> t)))"

text \<open>\<open>next_trading_day\<close>: the loop over the remaining candidates.\<close>

fun search_day :: "trading_calendar \<Rightarrow> date list \<Rightarrow> exn + date option" where
  "search_day c [] = Inr None"
| "search_day c (d # ds) =
     ebind (require_coverage c d) (\<lambda>_.
     ebind (is_trading_day c d) (\<lambda>t. if t then Inr (Some d) else search_day c ds))"

definition next_trading_day :: "trading_calendar \<Rightarrow> date \<Rightarrow> int \<Rightarrow> exn + date" where
  "next_trading_day c after horizon =
     ebind (search_day c (map (\<lambda>k. after + k) [1..horizon])) (\<lambda>r. case r of
       Some d \<Rightarrow> Inr d
     | None \<Rightarrow> Inl (RuntimeErr (JFmt [JStr ''no trading day within '', JInt horizon,
         JStr '' days after '', JStr (date_isoformat after),
         JStr ''; the holiday table is almost certainly wrong''])))"

definition deadlines :: "session_plan \<Rightarrow> time option list" where
  "deadlines p = [sp_open_utc p, sp_flatten_start_utc p, sp_escalation_utc p,
                  sp_flatten_hard_utc p, sp_close_utc p]"

definition self_test :: "trading_calendar \<Rightarrow> time \<Rightarrow> exn + payload" where
  "self_test c now =
     (let today = et_date now
      in ebind (require_coverage c today) (\<lambda>_.
         ebind (next_trading_day c today 10) (\<lambda>upcoming.
         ebind (plan c today) (\<lambda>p.
           if sp_is_trading_day p \<and> None \<in> set (deadlines p)
           then Inl (CalendarCoverageError today)
           else if sp_is_trading_day p \<and>
                   List.map_filter (\<lambda>x. x) (deadlines p)
                     \<noteq> sort (List.map_filter (\<lambda>x. x) (deadlines p))
           then Inl (ValueErr (JFmt [JStr (date_isoformat today),
                  JStr '': session deadlines are out of order'']))
           else Inr
             [(''today'', JStr (date_isoformat today)),
              (''today_is_trading_day'', JBool (sp_is_trading_day p)),
              (''today_is_half_day'', JBool (sp_is_half_day p)),
              (''next_trading_day'', JStr (date_isoformat upcoming)),
              (''supported_years'', JList (map JInt (sort (cal_supported_years c)))),
              (''close_utc'', j_opt (\<lambda>t. JStr (isoformat t)) (sp_close_utc p)),
              (''flatten_start_utc'', j_opt (\<lambda>t. JStr (isoformat t)) (sp_flatten_start_utc p))]))))"

section \<open>Facts\<close>

lemmas time_units = usec_def day_us_def minutes_def hours_def

text \<open>After three in the morning the offset does not change until midnight.\<close>

lemma same_day_div:
  assumes "d * day_us \<le> w" and "w < (d + 1) * day_us"
  shows "w div day_us = d"
  using assms by (intro int_div_pos_eq [where r = "w - d * day_us"]) (simp_all add: day_us_def usec_def algebra_simps)

lemma offset_after_three:
  assumes "d * day_us + hours 3 \<le> w" and "w < (d + 1) * day_us"
  shows "et_offset_wall w = et_offset_wall (d * day_us + hours 3)"
proof -
  have div: "w div day_us = d" "(d * day_us + hours 3) div day_us = d"
    using assms by (auto intro!: same_day_div simp: time_units)
  have le: "s * day_us \<le> d * day_us" if "s \<le> d" for s
    using that by (simp add: day_us_def usec_def)
  have less: "d * day_us + day_us \<le> s * day_us" if "\<not> s \<le> d" for s
    using that by (simp add: day_us_def usec_def)
  have w: "d * day_us + 10800000000 \<le> w" "w < d * day_us + day_us"
    using assms by (simp_all add: hours_def usec_def algebra_simps)
  have start: "s * day_us + hours 3 \<le> w \<longleftrightarrow> s * day_us + hours 3 \<le> d * day_us + hours 3" for s
    using w le [of s] less [of s] unfolding hours_def usec_def by linarith
  have stop: "w < s * day_us + hours 2 \<longleftrightarrow> d * day_us + hours 3 < s * day_us + hours 2" for s
    using w le [of s] less [of s] unfolding hours_def usec_def day_us_def by linarith
  show ?thesis
    by (simp only: et_offset_wall_def div start stop)
qed

lemma et_to_utc_diff:
  assumes "d * day_us + hours 3 \<le> w" "w < (d + 1) * day_us"
    and "d * day_us + hours 3 \<le> w'" "w' < (d + 1) * day_us"
  shows "et_to_utc w' - et_to_utc w = w' - w"
  using assms by (simp add: et_to_utc_def offset_after_three [of d w] offset_after_three [of d w'])

definition sane_leads :: "trading_calendar \<Rightarrow> bool" where
  "sane_leads c \<longleftrightarrow> 0 \<le> cal_flatten_hard_minutes c
     \<and> cal_flatten_hard_minutes c \<le> cal_escalation_minutes c
     \<and> cal_escalation_minutes c \<le> cal_flatten_lead_minutes c
     \<and> cal_flatten_lead_minutes c \<le> 210"

definition ordered_plan :: "session_plan \<Rightarrow> bool" where
  "ordered_plan p \<longleftrightarrow> (\<exists>o1 f e h k. sp_open_utc p = Some o1 \<and> sp_flatten_start_utc p = Some f
     \<and> sp_escalation_utc p = Some e \<and> sp_flatten_hard_utc p = Some h \<and> sp_close_utc p = Some k
     \<and> o1 \<le> f \<and> f \<le> e \<and> e \<le> h \<and> h \<le> k)"

lemma plan_ordered:
  assumes "plan c d = Inr p" and "sp_is_trading_day p" and "sane_leads c"
  shows "ordered_plan p"
proof -
  let ?close = "session_close c d"
  have close: "d * day_us + hours 13 \<le> ?close" "?close \<le> d * day_us + hours 16"
    by (simp_all add: session_close_def HALF_DAY_CLOSE_def REGULAR_CLOSE_def time_units)
  have mono: "et_to_utc w \<le> et_to_utc w'"
    if "d * day_us + hours 9 \<le> w" "w \<le> w'" "w' \<le> d * day_us + hours 16" for w w'
  proof -
    have "et_to_utc w' - et_to_utc w = w' - w"
      by (rule et_to_utc_diff [of d]) (use that in \<open>simp_all add: time_units\<close>)
    with that show ?thesis by simp
  qed
  let ?f = "?close - minutes (cal_flatten_lead_minutes c)"
  let ?e = "?close - minutes (cal_escalation_minutes c)"
  let ?h = "?close - minutes (cal_flatten_hard_minutes c)"
  have step: "d * day_us + REGULAR_OPEN \<le> ?f" "?f \<le> ?e" "?e \<le> ?h" "?h \<le> ?close"
    "d * day_us + hours 9 \<le> d * day_us + REGULAR_OPEN"
    using assms(3) close by (simp_all add: sane_leads_def REGULAR_OPEN_def time_units)
  have "et_to_utc (d * day_us + REGULAR_OPEN) \<le> et_to_utc ?f" "et_to_utc ?f \<le> et_to_utc ?e"
    "et_to_utc ?e \<le> et_to_utc ?h" "et_to_utc ?h \<le> et_to_utc ?close"
    using step close by (auto intro!: mono)
  with assms(1,2) show ?thesis
    by (auto simp: plan_def ebind_Inr_iff ordered_plan_def Let_def split: if_splits)
qed

lemma search_day_Some:
  assumes "search_day c ds = Inr (Some d)"
  shows "\<exists>xs ys. ds = xs @ d # ys \<and> is_trading_day c d = Inr True
    \<and> (\<forall>x \<in> set xs. is_trading_day c x = Inr False)"
  using assms
proof (induction ds)
  case Nil
  then show ?case by simp
next
  case (Cons x ds)
  from Cons.prems obtain t where t: "is_trading_day c x = Inr t"
    and rest: "if t then x = d else search_day c ds = Inr (Some d)"
    by (auto simp: ebind_Inr_iff split: if_splits)
  show ?case
  proof (cases t)
    case True
    with t rest show ?thesis
      by (intro exI [of _ "[]"] exI [of _ ds]) simp
  next
    case False
    with rest Cons.IH obtain xs ys where "ds = xs @ d # ys" "is_trading_day c d = Inr True"
      "\<forall>x \<in> set xs. is_trading_day c x = Inr False"
      by auto
    with t False show ?thesis
      by (intro exI [of _ "x # xs"] exI [of _ ys]) simp
  qed
qed

lemma is_trading_day_covered: "is_trading_day c d = Inr t \<Longrightarrow> covers c d"
  by (simp add: is_trading_day_def require_coverage_def split: if_splits)

lemma next_trading_day_first:
  assumes "next_trading_day c after horizon = Inr d"
  shows "after < d" and "d \<le> after + horizon" and "is_trading_day c d = Inr True"
    and "after < x \<Longrightarrow> x < d \<Longrightarrow> is_trading_day c x = Inr False"
proof -
  from assms have "search_day c (map (\<lambda>k. after + k) [1..horizon]) = Inr (Some d)"
    by (auto simp: next_trading_day_def ebind_Inr_iff split: option.splits)
  from search_day_Some [OF this] obtain xs ys
    where split: "map (\<lambda>k. after + k) [1..horizon] = xs @ d # ys"
      and d: "is_trading_day c d = Inr True"
      and no: "\<forall>x \<in> set xs. is_trading_day c x = Inr False"
    by blast
  from split obtain us k vs where us: "[1..horizon] = us @ k # vs" "xs = map ((+) after) us" "d = after + k"
    by (auto simp: map_eq_append_conv map_eq_Cons_conv)
  have k: "k \<in> set [1..horizon]"
    by (simp only: us) simp
  then have "1 \<le> k" "k \<le> horizon" by simp_all
  then show "after < d" "d \<le> after + horizon"
    using us(3) by simp_all
  show "is_trading_day c d = Inr True" by fact
  assume "after < x" "x < d"
  with \<open>k \<le> horizon\<close> us(3) have x: "x - after \<in> set [1..horizon]" "x - after < k"
    by simp_all
  have "sorted (us @ k # vs)"
    using sorted_upto [of 1 horizon] by (simp only: us)
  with x have "x - after \<in> set us"
    by (auto simp: us(1) sorted_append simp del: set_upto)
  then have "after + (x - after) \<in> set xs"
    using us(2) by (simp only: set_map) blast
  with no show "is_trading_day c x = Inr False" by simp
qed

end
