(* ===== verification/Sidecar.thy ===== *)
theory Sidecar
  imports Program
begin

text \<open>
  The safety sidecars' storage: the separate-volume check (\<open>failure_domain.py\<close>) and the atomic
  publication of a small file (\<open>durable_io.py\<close>, the POSIX branch). A sidecar is its target file, its
  temporary file and a script of which operating-system calls fail; when the script is used up
  every call succeeds. A file holds a value, is unreadable, or is absent; a file that was created
  but not completely written is unreadable.
\<close>

section \<open>Failure domains\<close>

text \<open>A path is its components from the last to the first; the root is the empty list.\<close>

type_synonym path = "string list"

record file_system =
  fs_exists :: "path \<Rightarrow> bool"
  fs_dev :: "path \<Rightarrow> int option"

fun climb :: "file_system \<Rightarrow> path \<Rightarrow> path" where
  "climb fs [] = []"
| "climb fs (c # p) = (if fs_exists fs (c # p) then c # p else climb fs p)"

definition anchor :: "file_system \<Rightarrow> path \<Rightarrow> path" where
  "anchor fs p = (if fs_exists fs p then p else climb fs (tl p))"

definition show_path :: "path \<Rightarrow> jval" where
  "show_path p = JList (map JStr (rev p))"

definition same_failure_domain :: "file_system \<Rightarrow> path \<Rightarrow> path \<Rightarrow> exn + bool" where
  "same_failure_domain fs a b =
     (case (fs_dev fs (anchor fs a), fs_dev fs (anchor fs b)) of
        (Some x, Some y) \<Rightarrow> Inr (x = y)
      | _ \<Rightarrow> Inl (FailureDomainError (JFmt [JStr ''cannot determine the failure domain of '',
               show_path a, JStr '' or '', show_path b])))"

definition require_separate :: "file_system \<Rightarrow> path \<Rightarrow> path \<Rightarrow> string \<Rightarrow> exn + unit" where
  "require_separate fs guardian protected what =
     ebind (same_failure_domain fs guardian protected) (\<lambda>same.
       if same then Inl (FailureDomainError (JFmt [JStr ''the '', JStr what, JStr '' ('',
           show_path guardian, JStr '') is on the same volume as the journal ('',
           show_path protected, JStr '')'']))
       else Inr ())"

lemma climb_existing:
  "fs_exists fs [] \<Longrightarrow> fs_exists fs (climb fs p)"
  by (induction p) auto

lemma anchor_existing: "fs_exists fs [] \<Longrightarrow> fs_exists fs (anchor fs p)"
  by (simp add: anchor_def climb_existing)

text \<open>The anchor is the nearest existing ancestor: nothing between it and the path exists.\<close>

lemma climb_nearest:
  "\<exists>cs. p = cs @ climb fs p \<and> (\<forall>k<length cs. \<not> fs_exists fs (drop k p))"
proof (induction p)
  case Nil
  then show ?case by simp
next
  case (Cons c p)
  show ?case
  proof (cases "fs_exists fs (c # p)")
    case True
    then show ?thesis by (intro exI [of _ "[]"]) simp
  next
    case False
    from Cons.IH obtain cs where cs: "p = cs @ climb fs p" "\<forall>k<length cs. \<not> fs_exists fs (drop k p)"
      by blast
    have "\<forall>k<length (c # cs). \<not> fs_exists fs (drop k (c # p))"
      using cs(2) False by (auto simp: drop_Cons split: nat.split)
    with cs(1) False show ?thesis
      by (intro exI [of _ "c # cs"]) simp
  qed
qed

lemma require_separate_iff:
  "require_separate fs g p what = Inr () \<longleftrightarrow>
     (\<exists>x y. fs_dev fs (anchor fs g) = Some x \<and> fs_dev fs (anchor fs p) = Some y \<and> x \<noteq> y)"
  by (auto simp: require_separate_def same_failure_domain_def split: option.splits)

section \<open>Atomic publication\<close>

datatype 'a file_content = Absent | Unreadable | Holds 'a

record 'a sidecar =
  sc_target :: "'a file_content"
  sc_tmp :: "'a file_content"
  sc_faults :: "bool list"

definition sidecar :: "'a file_content \<Rightarrow> 'a sidecar" where
  "sidecar c = \<lparr>sc_target = c, sc_tmp = Absent, sc_faults = []\<rparr>"

definition os_fault :: "'a sidecar \<Rightarrow> bool" where
  "os_fault s = (case sc_faults s of [] \<Rightarrow> False | b # _ \<Rightarrow> b)"

text \<open>One operating-system call: it has its effect, or it raises \<open>OSError\<close>.\<close>

definition os_call :: "string \<Rightarrow> ('a sidecar \<Rightarrow> 'a sidecar) \<Rightarrow> ('a sidecar, unit) prog" where
  "os_call what f =
     reads os_fault (\<lambda>failed.
     seqP (modP (\<lambda>s. s\<lparr>sc_faults := tl (sc_faults s)\<rparr>))
       (if failed then raise (OSErr (JStr what)) else modP f))"

definition sync_parent :: "('a sidecar, unit) prog" where
  "sync_parent = os_call ''fsync directory'' (\<lambda>s. s)"

definition durable_replace :: "bool \<Rightarrow> ('a sidecar, unit) prog" where
  "durable_replace source_is_synced = block
     [whenP (\<not> source_is_synced) (os_call ''fsync source'' (\<lambda>s. s)),
      os_call ''replace'' (\<lambda>s. s\<lparr>sc_target := sc_tmp s, sc_tmp := Absent\<rparr>),
      os_call ''fsync target'' (\<lambda>s. s),
      sync_parent]"

definition durable_atomic_write :: "'a \<Rightarrow> ('a sidecar, unit) prog" where
  "durable_atomic_write a = block
     [os_call ''mkdir'' (\<lambda>s. s),
      os_call ''open'' (\<lambda>s. s\<lparr>sc_tmp := Unreadable\<rparr>),
      os_call ''write'' (\<lambda>s. s\<lparr>sc_tmp := Holds a\<rparr>),
      os_call ''fsync'' (\<lambda>s. s),
      catchP (durable_replace True)
        (\<lambda>e. seqP (catchP (os_call ''unlink'' (\<lambda>s. s\<lparr>sc_tmp := Absent\<rparr>)) (\<lambda>_. ret ()))
                  (raise e))]"

definition unlink_target :: "('a sidecar, unit) prog" where
  "unlink_target = os_call ''unlink'' (\<lambda>s. s\<lparr>sc_target := Absent\<rparr>)"

text \<open>
  All or nothing: a write that returns has published the new content; one that raises has left
  either the old or the complete new content. No crash point exposes a partial file.
\<close>

lemma wp_durable_atomic_write:
  assumes "\<And>s'. sc_target s' = Holds a \<Longrightarrow> Q () s'"
    and "\<And>d s'. sc_target s' = sc_target s \<or> sc_target s' = Holds a \<Longrightarrow> E (OSErr d) s'"
  shows "wp (durable_atomic_write a) Q E s"
  using assms
  by (simp add: durable_atomic_write_def durable_replace_def sync_parent_def os_call_def wp_simps)

lemma wp_unlink_target:
  assumes "\<And>s'. sc_target s' = Absent \<Longrightarrow> Q () s'"
    and "\<And>d s'. sc_target s' = sc_target s \<Longrightarrow> E (OSErr d) s'"
  shows "wp unlink_target Q E s"
  using assms by (simp add: unlink_target_def os_call_def wp_simps)

lemma durable_write_no_faults:
  assumes "sc_faults s = []"
  shows "durable_atomic_write a s = (Inr (), s\<lparr>sc_target := Holds a, sc_tmp := Absent\<rparr>)"
  using assms
  by (simp add: durable_atomic_write_def durable_replace_def sync_parent_def os_call_def
      seqP_def bindP_def catchP_def reads_def modP_def os_fault_def ret_def whenP_def)

end
