(* ===== verification/Fence.thy ===== *)
theory Fence
  imports Sidecar Clock
begin

text \<open>
  The durable fatal fence (\<open>fatal_fence.py\<close>): a record on its own volume that blocks every start
  until it went through acknowledgement and reconciliation. The process environment (pid, host,
  wall clock) is an argument.
\<close>

definition STATE_RAISED :: string where "STATE_RAISED = ''RAISED''"
definition STATE_ACKNOWLEDGED :: string where "STATE_ACKNOWLEDGED = ''ACKNOWLEDGED''"

record fence_record =
  fr_state :: string
  fr_reason :: jval
  fr_raised_utc :: "time option"
  fr_pid :: int
  fr_host :: string
  fr_journal_path :: path
  fr_acknowledged_by :: "string option"
  fr_acknowledged_utc :: "time option"
  fr_resolution :: "string option"

record process_env =
  pe_now :: time
  pe_pid :: int
  pe_host :: string

record fatal_fence =
  ff_file :: "fence_record sidecar"
  ff_path :: path
  ff_journal_path :: path
  ff_require_separate_domain :: bool

definition verify_fence_domain :: "file_system \<Rightarrow> fatal_fence \<Rightarrow> exn + unit" where
  "verify_fence_domain fs f =
     (if \<not> ff_require_separate_domain f then Inr ()
      else require_separate fs (ff_path f) (ff_journal_path f) ''fatal fence'')"

text \<open>\<open>read\<close>: an unreadable fence is still a fence.\<close>

definition read_fence :: "fatal_fence \<Rightarrow> fence_record option" where
  "read_fence f = (case sc_target (ff_file f) of
       Absent \<Rightarrow> None
     | Unreadable \<Rightarrow> Some \<lparr>fr_state = STATE_RAISED,
         fr_reason = JFmt [JStr ''fence file at '', show_path (ff_path f),
                           JStr '' exists but could not be parsed''],
         fr_raised_utc = None, fr_pid = 0, fr_host = [], fr_journal_path = ff_journal_path f,
         fr_acknowledged_by = None, fr_acknowledged_utc = None, fr_resolution = None\<rparr>
     | Holds r \<Rightarrow> Some r)"

definition still_raised :: "fence_record \<Rightarrow> exn" where
  "still_raised r = FenceStillRaised (fr_state r) (fr_reason r)"

definition require_clear :: "fatal_fence \<Rightarrow> exn + unit" where
  "require_clear f = (case read_fence f of None \<Rightarrow> Inr () | Some r \<Rightarrow> Inl (still_raised r))"

definition write_fence :: "fence_record \<Rightarrow> (fatal_fence, unit) prog" where
  "write_fence r = zoom ff_file (\<lambda>s f. f\<lparr>ff_file := s\<rparr>) (durable_atomic_write r)"

definition is_os_error :: "exn \<Rightarrow> bool" where
  "is_os_error e = (case e of OSErr d \<Rightarrow> True | _ \<Rightarrow> False)"

definition new_fence :: "process_env \<Rightarrow> jval \<Rightarrow> fatal_fence \<Rightarrow> fence_record" where
  "new_fence env reason f =
     \<lparr>fr_state = STATE_RAISED, fr_reason = reason, fr_raised_utc = Some (pe_now env),
      fr_pid = pe_pid env, fr_host = pe_host env, fr_journal_path = ff_journal_path f,
      fr_acknowledged_by = None, fr_acknowledged_utc = None, fr_resolution = None\<rparr>"

definition raise_fence :: "process_env \<Rightarrow> jval \<Rightarrow> (fatal_fence, fence_record) prog" where
  "raise_fence env reason =
     reads (\<lambda>f. f) (\<lambda>f. case read_fence f of
       Some r \<Rightarrow> ret r
     | None \<Rightarrow>
        (let r = new_fence env reason f
         in seqP (catchP (write_fence r)
              (\<lambda>e. if is_os_error e
                   then raise (FenceWriteFailed (JFmt [JStr ''could not persist the fatal fence at '',
                          show_path (ff_path f), JStr '': '', exn_message e]))
                   else raise e))
              (ret r)))"

definition acknowledge_fence ::
  "process_env \<Rightarrow> string \<Rightarrow> string \<Rightarrow> (fatal_fence, fence_record) prog" where
  "acknowledge_fence env operator resolution =
     (if operator = [] \<or> resolution = []
      then raise (ValueErr (JStr ''acknowledging a fatal fence requires an operator and a resolution''))
      else reads (\<lambda>f. f) (\<lambda>f. case read_fence f of
        None \<Rightarrow> raise (FileNotFound (JFmt [JStr ''no fatal fence at '', show_path (ff_path f)]))
      | Some r \<Rightarrow>
          if fr_state r = STATE_ACKNOWLEDGED then ret r
          else (let u = r\<lparr>fr_state := STATE_ACKNOWLEDGED, fr_acknowledged_by := Some operator,
                          fr_acknowledged_utc := Some (pe_now env),
                          fr_resolution := Some resolution\<rparr>
                in seqP (write_fence u) (ret u))))"

definition retire_fence :: "bool \<Rightarrow> (fatal_fence, unit) prog" where
  "retire_fence reconciled =
     reads (\<lambda>f. f) (\<lambda>f. case read_fence f of
       None \<Rightarrow> ret ()
     | Some r \<Rightarrow>
         if fr_state r \<noteq> STATE_ACKNOWLEDGED then raise (still_raised r)
         else if \<not> reconciled then raise (still_raised r)
         else zoom ff_file (\<lambda>s f. f\<lparr>ff_file := s\<rparr>) unlink_target)"

section \<open>Facts\<close>

definition fenced :: "fatal_fence \<Rightarrow> bool" where
  "fenced f \<longleftrightarrow> read_fence f \<noteq> None"

lemma fenced_iff: "fenced f \<longleftrightarrow> sc_target (ff_file f) \<noteq> Absent"
  by (simp add: fenced_def read_fence_def split: file_content.splits)

lemma require_clear_iff: "require_clear f = Inr () \<longleftrightarrow> \<not> fenced f"
  by (auto simp: require_clear_def fenced_def split: option.splits)

lemma read_fence_put:
  "sc_target s = Holds r \<Longrightarrow> read_fence (f\<lparr>ff_file := s\<rparr>) = Some r"
  "sc_target s = sc_target (ff_file f) \<Longrightarrow> read_fence (f\<lparr>ff_file := s\<rparr>) = read_fence f"
  by (simp_all add: read_fence_def split: file_content.splits)

lemma wp_write_fence:
  assumes "\<And>f'. read_fence f' = Some r \<Longrightarrow> Q () f'"
    and "\<And>d f'. read_fence f' = read_fence f \<or> read_fence f' = Some r \<Longrightarrow> E (OSErr d) f'"
  shows "wp (write_fence r) Q E f"
  unfolding write_fence_def wp_zoom
  by (rule wp_durable_atomic_write) (auto intro!: assms simp: read_fence_put)

lemma wp_raise_fence:
  assumes "\<And>f' r. read_fence f' = Some r \<Longrightarrow> (\<forall>r0. read_fence f = Some r0 \<longrightarrow> f' = f \<and> r = r0) \<Longrightarrow>
      (read_fence f = None \<Longrightarrow> fr_state r = STATE_RAISED \<and> fr_reason r = reason) \<Longrightarrow> Q r f'"
    and "\<And>d f'. read_fence f = None \<Longrightarrow> E (FenceWriteFailed d) f'"
  shows "wp (raise_fence env reason) Q E f"
proof (cases "read_fence f")
  case None
  let ?r = "new_fence env reason f"
  have "wp (write_fence ?r) (\<lambda>_. Q ?r) (\<lambda>e. wp (if is_os_error e
      then raise (FenceWriteFailed (JFmt [JStr ''could not persist the fatal fence at '',
                          show_path (ff_path f), JStr '': '', exn_message e])) else raise e) (\<lambda>_. Q ?r) E) f"
  proof (rule wp_write_fence)
    fix f' assume "read_fence f' = Some ?r"
    then show "Q ?r f'"
      using assms(1) [of f' ?r] None by (simp add: new_fence_def)
  qed (simp add: wp_simps is_os_error_def assms(2) [OF None])
  with None show ?thesis
    by (simp add: raise_fence_def wp_reads wp_seqP wp_catchP wp_ret_fun Let_def)
next
  case (Some r)
  then have "Q r f"
    by (intro assms(1)) simp_all
  with Some show ?thesis
    by (simp add: raise_fence_def wp_simps)
qed

lemma wp_retire_fence:
  assumes "\<And>f'. read_fence f = None \<Longrightarrow> f' = f \<Longrightarrow> Q () f'"
    and "\<And>r f'. read_fence f = Some r \<Longrightarrow> fr_state r = STATE_ACKNOWLEDGED \<Longrightarrow> reconciled \<Longrightarrow>
      \<not> fenced f' \<Longrightarrow> Q () f'"
    and "\<And>r. read_fence f = Some r \<Longrightarrow> fr_state r \<noteq> STATE_ACKNOWLEDGED \<or> \<not> reconciled \<Longrightarrow>
      E (still_raised r) f"
    and "\<And>d f'. read_fence f' = read_fence f \<Longrightarrow> E (OSErr d) f'"
  shows "wp (retire_fence reconciled) Q E f"
proof (cases "read_fence f")
  case None
  with assms(1) show ?thesis by (simp add: retire_fence_def wp_simps)
next
  case (Some r)
  have "wp unlink_target (\<lambda>_ s. Q () (f\<lparr>ff_file := s\<rparr>)) (\<lambda>e s. E e (f\<lparr>ff_file := s\<rparr>)) (ff_file f)"
    if "fr_state r = STATE_ACKNOWLEDGED" reconciled
    by (rule wp_unlink_target)
       (auto intro!: assms(2) [OF Some that] assms(4) simp: fenced_iff read_fence_put)
  with Some assms(3) show ?thesis
    by (simp add: retire_fence_def wp_simps)
qed

lemma wp_acknowledge_fence:
  assumes "\<And>u f'. fenced f \<Longrightarrow> read_fence f' = Some u \<Longrightarrow> fr_state u = STATE_ACKNOWLEDGED \<Longrightarrow> Q u f'"
    and "\<And>e f'. fenced f' = fenced f \<Longrightarrow> E e f'"
  shows "wp (acknowledge_fence env operator resolution) Q E f"
proof (cases "operator = [] \<or> resolution = []")
  case True
  with assms(2) show ?thesis by (simp add: acknowledge_fence_def wp_simps)
next
  case False
  show ?thesis
  proof (cases "read_fence f")
    case None
    with False assms(2) show ?thesis by (simp add: acknowledge_fence_def wp_simps)
  next
    case (Some r)
    then have fenced: "fenced f" by (simp add: fenced_def)
    show ?thesis
    proof (cases "fr_state r = STATE_ACKNOWLEDGED")
      case True
      with fenced Some assms(1) have "Q r f" by blast
      with Some False True show ?thesis
        by (simp add: acknowledge_fence_def wp_simps)
    next
      case not_acked: False
      let ?u = "r\<lparr>fr_state := STATE_ACKNOWLEDGED, fr_acknowledged_by := Some operator,
          fr_acknowledged_utc := Some (pe_now env), fr_resolution := Some resolution\<rparr>"
      have "wp (write_fence ?u) (\<lambda>_. Q ?u) E f"
        by (rule wp_write_fence) (use fenced assms in \<open>auto simp: fenced_def Some\<close>)
      with Some False not_acked show ?thesis
        by (simp add: acknowledge_fence_def wp_reads wp_if wp_seqP wp_ret_fun Let_def)
    qed
  qed
qed

end
