(* ===== verification/Journal_Facts.thy ===== *)
theory Journal_Facts
  imports Journal "HOL-Library.Sublist"
begin

text \<open>
  What the journal promises. \<open>wp_commit\<close> and its companions are the journal's interface to the
  controller: a write that returns has appended exactly its event, a write that raises leaves an
  unhealthy handle on which every later write raises. \<open>journal_wf\<close> (consecutive sequence numbers,
  each decision and each execution id at most once) is kept by every operation. The HALT latch is
  a locale interpreted on each fold of the source.
\<close>

section \<open>Outcome of one write\<close>

definition stamped :: "manual_clock \<Rightarrow> journal \<Rightarrow> event \<Rightarrow> event" where
  "stamped ck j e = (event_dict ck e)\<lparr>ev_seq := int (length (j_rows j)) + 1\<rparr>"

lemma stamped_simps [simp]:
  "ev_seq (stamped ck j e) = int (length (j_rows j)) + 1"
  "ev_ts (stamped ck j e) = ck_now ck"
  "ev_type (stamped ck j e) = ev_type e"
  "ev_payload (stamped ck j e) = ev_payload e"
  "ev_strategy_id (stamped ck j e) = ev_strategy_id e"
  "ev_symbol (stamped ck j e) = ev_symbol e"
  "ev_decision_id (stamped ck j e) = ev_decision_id e"
  "ev_intent_id (stamped ck j e) = ev_intent_id e"
  "ev_order_ref (stamped ck j e) = ev_order_ref e"
  "ev_perm_id (stamped ck j e) = ev_perm_id e"
  "ev_exec_id (stamped ck j e) = ev_exec_id e"
  by (simp_all add: stamped_def event_dict_def)

text \<open>The write was durable: one row more, everything else as it was.\<close>

definition committed :: "event \<Rightarrow> journal \<Rightarrow> journal \<Rightarrow> bool" where
  "committed e j j' \<longleftrightarrow> is_healthy j \<and> is_healthy j' \<and> j_rows j' = j_rows j @ [e]
     \<and> j_consumed j' = j_consumed j \<and> j_booked j' = j_booked j \<and> j_identity j' = j_identity j"

text \<open>The write failed: the handle is dead, and the row may or may not be on disk.\<close>

definition lost :: "event \<Rightarrow> journal \<Rightarrow> journal \<Rightarrow> bool" where
  "lost e j j' \<longleftrightarrow> \<not> is_healthy j' \<and> (j_rows j' = j_rows j \<or> j_rows j' = j_rows j @ [e])
     \<and> j_consumed j' = j_consumed j \<and> j_booked j' = j_booked j \<and> j_identity j' = j_identity j"

lemmas submit_exec =
  submit_def fail_with_def do_append_def do_accept_decision_def do_book_execution_def
  do_ack_halt_def do_claim_decision_def do_claim_exec_def insert_event_def wp_simps
  is_healthy_def is_conflict_def

lemma wp_append_prog: "wp (do_append e) Q E j =
    Q (R_seq (int (length (j_rows j)) + 1))
      (j\<lparr>j_rows := j_rows j @ [e\<lparr>ev_seq := int (length (j_rows j)) + 1\<rparr>]\<rparr>)"
  by (simp add: wp_def do_append_def insert_event_def Let_def)

lemma wp_accept_prog: "wp (do_accept_decision did e) Q E j =
    (if did \<in> fst ` set (j_consumed j) then Q (R_bool False) j
     else Q (R_bool True)
       (j\<lparr>j_rows := j_rows j @ [e\<lparr>ev_seq := int (length (j_rows j)) + 1\<rparr>],
          j_consumed := j_consumed j @ [(did, int (length (j_rows j)) + 1, ev_ts e)]\<rparr>))"
  by (simp add: wp_def do_accept_decision_def insert_event_def Let_def)

lemma wp_book_prog: "wp (do_book_execution xid e) Q E j =
    (if xid \<in> fst ` set (j_booked j) then Q (R_bool False) j
     else Q (R_bool True)
       (j\<lparr>j_rows := j_rows j @ [e\<lparr>ev_seq := int (length (j_rows j)) + 1\<rparr>],
          j_booked := j_booked j @ [(xid, int (length (j_rows j)) + 1, ev_ts e)]\<rparr>))"
  by (simp add: wp_def do_book_execution_def insert_event_def Let_def)

lemma wp_ack_prog: "wp (do_ack_halt n e) Q E j =
    (if active_halt_seq (j_rows j) \<noteq> Some n
     then E (HaltAcknowledgementConflict (JFmt [JStr ''active HALT changed: expected seq '', JInt n,
                JStr '', found '', j_opt JInt (active_halt_seq (j_rows j))])) j
     else Q (R_seq (int (length (j_rows j)) + 1))
       (j\<lparr>j_rows := j_rows j @ [e\<lparr>ev_seq := int (length (j_rows j)) + 1\<rparr>]\<rparr>))"
  by (simp add: wp_def do_ack_halt_def insert_event_def Let_def)

lemma wp_commit:
  assumes "\<And>j'. committed (stamped ck j e) j j' \<Longrightarrow> Q (int (length (j_rows j)) + 1) j'"
    and "\<And>d j'. lost (stamped ck j e) j j' \<Longrightarrow> E (JournalUnavailable d) j'"
  shows "wp (commit ck e) Q E j"
  using assms
  by (simp add: commit_def submit_def fail_with_def wp_simps wp_append_prog is_healthy_def
      as_seq_def committed_def lost_def stamped_def
      split: option.splits write_outcome.splits)

text \<open>The three outcomes of a uniqueness-checked write.\<close>

definition accepted :: "string \<Rightarrow> event \<Rightarrow> journal \<Rightarrow> journal \<Rightarrow> bool" where
  "accepted did e j j' \<longleftrightarrow> did \<notin> fst ` set (j_consumed j) \<and> j_rows j' = j_rows j @ [e]
     \<and> j_consumed j' = j_consumed j @ [(did, ev_seq e, ev_ts e)]
     \<and> j_booked j' = j_booked j \<and> j_identity j' = j_identity j"

definition booked :: "string \<Rightarrow> event \<Rightarrow> journal \<Rightarrow> journal \<Rightarrow> bool" where
  "booked xid e j j' \<longleftrightarrow> xid \<notin> fst ` set (j_booked j) \<and> j_rows j' = j_rows j @ [e]
     \<and> j_booked j' = j_booked j @ [(xid, ev_seq e, ev_ts e)]
     \<and> j_consumed j' = j_consumed j \<and> j_identity j' = j_identity j"

definition unchanged :: "journal \<Rightarrow> journal \<Rightarrow> bool" where
  "unchanged j j' \<longleftrightarrow> j_rows j' = j_rows j \<and> j_consumed j' = j_consumed j
     \<and> j_booked j' = j_booked j \<and> j_identity j' = j_identity j"

definition target_event :: "string \<Rightarrow> payload \<Rightarrow> string \<Rightarrow> string \<Rightarrow> event" where
  "target_event did p sid symb =
     (ev TARGET_RECEIVED p)\<lparr>ev_strategy_id := Some sid, ev_symbol := Some symb,
                            ev_decision_id := Some did\<rparr>"

definition exec_event :: "string \<Rightarrow> payload \<Rightarrow> string \<Rightarrow> string \<Rightarrow> int option \<Rightarrow> event" where
  "exec_event xid p symb ref pid =
     (ev EXECUTION_RECEIVED p)\<lparr>ev_symbol := Some symb, ev_order_ref := Some ref,
                               ev_perm_id := pid, ev_exec_id := Some xid\<rparr>"

lemma wp_accept_decision:
  assumes "\<And>j'. accepted did (stamped ck j (target_event did p sid symb)) j j' \<Longrightarrow>
      is_healthy j \<Longrightarrow> is_healthy j' \<Longrightarrow> Q True j'"
    and "\<And>j'. did \<in> fst ` set (j_consumed j) \<Longrightarrow> unchanged j j' \<Longrightarrow> is_healthy j' \<Longrightarrow> Q False j'"
    and "\<And>d j'. \<not> is_healthy j' \<Longrightarrow>
      unchanged j j' \<or> accepted did (stamped ck j (target_event did p sid symb)) j j' \<Longrightarrow>
      E (JournalUnavailable d) j'"
  shows "wp (accept_decision ck did p sid symb) Q E j"
  using assms
  by (simp add: accept_decision_def submit_def fail_with_def wp_simps wp_accept_prog
      is_healthy_def as_bool_def accepted_def unchanged_def stamped_def event_dict_def
      target_event_def ev_def split: option.splits write_outcome.splits)

lemma wp_commit_execution_once:
  assumes "\<And>j'. booked xid (stamped ck j (exec_event xid p symb ref pid)) j j' \<Longrightarrow>
      is_healthy j \<Longrightarrow> is_healthy j' \<Longrightarrow> Q True j'"
    and "\<And>j'. xid \<in> fst ` set (j_booked j) \<Longrightarrow> unchanged j j' \<Longrightarrow> is_healthy j' \<Longrightarrow> Q False j'"
    and "\<And>d j'. \<not> is_healthy j' \<Longrightarrow>
      unchanged j j' \<or> booked xid (stamped ck j (exec_event xid p symb ref pid)) j j' \<Longrightarrow>
      E (JournalUnavailable d) j'"
  shows "wp (commit_execution_once ck xid p symb ref pid) Q E j"
  using assms
  by (simp add: commit_execution_once_def submit_def fail_with_def wp_simps wp_book_prog
      is_healthy_def as_bool_def booked_def unchanged_def stamped_def event_dict_def
      exec_event_def ev_def split: option.splits write_outcome.splits)

definition ack_event :: "int \<Rightarrow> string \<Rightarrow> string \<Rightarrow> event" where
  "ack_event n operator resolution =
     ev HALT_ACKNOWLEDGED
       [(''operator'', JStr (strip operator)), (''resolution'', JStr (strip resolution)),
        (''acknowledged_halt_seq'', JInt n)]"

lemma wp_acknowledge_halt:
  assumes "\<And>j'. active_halt_seq (j_rows j) = Some n \<Longrightarrow> 0 < n \<Longrightarrow>
      committed (stamped ck j (ack_event n operator resolution)) j j' \<Longrightarrow>
      Q (int (length (j_rows j)) + 1) j'"
    and "\<And>d j'. active_halt_seq (j_rows j) \<noteq> Some n \<Longrightarrow> unchanged j j' \<Longrightarrow> is_healthy j' \<Longrightarrow>
      E (HaltAcknowledgementConflict d) j'"
    and "\<And>d. E (ValueErr d) j"
    and "\<And>d j'. \<not> is_healthy j' \<Longrightarrow> unchanged j j' \<or>
      (active_halt_seq (j_rows j) = Some n \<and>
       lost (stamped ck j (ack_event n operator resolution)) j j') \<Longrightarrow> E (JournalUnavailable d) j'"
  shows "wp (acknowledge_halt ck n operator resolution) Q E j"
  using assms
  by (simp add: acknowledge_halt_def submit_def fail_with_def wp_simps wp_ack_prog
      is_healthy_def as_seq_def unchanged_def stamped_def event_dict_def committed_def lost_def
      ack_event_def ev_def is_conflict_def split: option.splits write_outcome.splits)

lemma submit_unhealthy:
  assumes "\<not> is_healthy j"
  shows "\<exists>d j'. submit req j = (Inl (JournalUnavailable d), j') \<and> \<not> is_healthy j' \<and> unchanged j j'"
proof -
  have "wp (submit req) (\<lambda>_ _. False)
      (\<lambda>e j'. (\<exists>d. e = JournalUnavailable d) \<and> \<not> is_healthy j' \<and> unchanged j j') j"
    using assms
    by (auto simp: submit_def fail_with_def wp_simps is_healthy_def unchanged_def
        split: option.splits)
  then show ?thesis
    by (auto simp: wp_def split: prod.splits sum.splits)
qed

section \<open>Well-formed journals\<close>

definition numbered :: "event list \<Rightarrow> bool" where
  "numbered rows \<longleftrightarrow> map ev_seq rows = map (\<lambda>i. int i + 1) [0..<length rows]"

definition accepted_ids :: "event list \<Rightarrow> string list" where
  "accepted_ids rows = map (\<lambda>e. the (ev_decision_id e))
     (filter (\<lambda>e. ev_type e = TARGET_RECEIVED \<and> ev_decision_id e \<noteq> None) rows)"

definition booked_ids :: "event list \<Rightarrow> string list" where
  "booked_ids rows = map (\<lambda>e. the (ev_exec_id e))
     (filter (\<lambda>e. ev_type e = EXECUTION_RECEIVED \<and> ev_exec_id e \<noteq> None) rows)"

text \<open>Every accepting row has its entry in the uniqueness table, written in the same transaction.\<close>

definition claims_of :: "event_type \<Rightarrow> (event \<Rightarrow> string option) \<Rightarrow> event list \<Rightarrow> (string \<times> int \<times> time) list" where
  "claims_of t key rows = map (\<lambda>e. (the (key e), ev_seq e, ev_ts e))
     (filter (\<lambda>e. ev_type e = t \<and> key e \<noteq> None) rows)"

definition journal_wf :: "journal \<Rightarrow> bool" where
  "journal_wf j \<longleftrightarrow> numbered (j_rows j)
     \<and> distinct (accepted_ids (j_rows j))
     \<and> set (claims_of TARGET_RECEIVED ev_decision_id (j_rows j)) \<subseteq> set (j_consumed j)
     \<and> distinct (booked_ids (j_rows j))
     \<and> set (claims_of EXECUTION_RECEIVED ev_exec_id (j_rows j)) \<subseteq> set (j_booked j)"

text \<open>WAL recovery after damage: the transactions of a prefix of the rows survive.\<close>

definition wal_recover :: "nat \<Rightarrow> journal \<Rightarrow> journal" where
  "wal_recover k j = j\<lparr>j_rows := take k (j_rows j),
     j_consumed := filter (\<lambda>(x, seq, t). seq \<le> int k) (j_consumed j),
     j_booked := filter (\<lambda>(x, seq, t). seq \<le> int k) (j_booked j)\<rparr>"

lemma claims_of_snoc [simp]:
  "claims_of t key (rows @ [e]) = claims_of t key rows @
     (if ev_type e = t \<and> key e \<noteq> None then [(the (key e), ev_seq e, ev_ts e)] else [])"
  by (simp add: claims_of_def)

lemma claims_of_ids:
  "fst ` set (claims_of TARGET_RECEIVED ev_decision_id rows) = set (accepted_ids rows)"
  "fst ` set (claims_of EXECUTION_RECEIVED ev_exec_id rows) = set (booked_ids rows)"
  by (auto simp: claims_of_def accepted_ids_def booked_ids_def image_image)

lemma claimed_ids:
  "set (claims_of TARGET_RECEIVED ev_decision_id rows) \<subseteq> C \<Longrightarrow> x \<notin> fst ` C \<Longrightarrow> x \<notin> set (accepted_ids rows)"
  "set (claims_of EXECUTION_RECEIVED ev_exec_id rows) \<subseteq> C \<Longrightarrow> x \<notin> fst ` C \<Longrightarrow> x \<notin> set (booked_ids rows)"
  by (metis claims_of_ids image_mono subsetD)+

lemma numbered_Nil [simp]: "numbered []"
  by (simp add: numbered_def)

lemma numbered_snoc [simp]:
  "numbered (rows @ [e]) \<longleftrightarrow> numbered rows \<and> ev_seq e = int (length rows) + 1"
  by (auto simp: numbered_def)

lemma accepted_ids_snoc [simp]:
  "accepted_ids (rows @ [e]) = accepted_ids rows @
     (if ev_type e = TARGET_RECEIVED \<and> ev_decision_id e \<noteq> None then [the (ev_decision_id e)] else [])"
  by (simp add: accepted_ids_def)

lemma booked_ids_snoc [simp]:
  "booked_ids (rows @ [e]) = booked_ids rows @
     (if ev_type e = EXECUTION_RECEIVED \<and> ev_exec_id e \<noteq> None then [the (ev_exec_id e)] else [])"
  by (simp add: booked_ids_def)

lemma numbered_nth: "numbered rows \<Longrightarrow> i < length rows \<Longrightarrow> ev_seq (rows ! i) = int i + 1"
proof -
  assume n: "numbered rows" and i: "i < length rows"
  have "map ev_seq rows ! i = map (\<lambda>i. int i + 1) [0..<length rows] ! i"
    using n by (simp only: numbered_def)
  with i show "ev_seq (rows ! i) = int i + 1" by simp
qed

lemma numbered_take:
  assumes "numbered rows"
  shows "numbered (take n rows)"
proof -
  have "map ev_seq (take n rows) = take n (map ev_seq rows)"
    by (rule take_map [symmetric])
  also have "\<dots> = take n (map (\<lambda>i. int i + 1) [0..<length rows])"
    using assms by (simp only: numbered_def)
  also have "\<dots> = map (\<lambda>i. int i + 1) [0..<length (take n rows)]"
    by (cases "n \<le> length rows") (simp_all add: take_map min_def)
  finally show ?thesis by (simp only: numbered_def)
qed

lemma find_numbered:
  assumes "numbered rows" and "i < length rows"
  shows "find (\<lambda>e. ev_seq e = int i + 1) rows = Some (rows ! i)"
proof -
  have "\<exists>k<length rows. ev_seq (rows ! k) = int i + 1"
    using assms numbered_nth by blast
  moreover have "\<And>k. k < length rows \<Longrightarrow> ev_seq (rows ! k) = int i + 1 \<Longrightarrow> k = i"
    using numbered_nth [OF assms(1)] by simp
  ultimately show ?thesis
    using assms numbered_nth
    by (auto simp: find_Some_iff)
qed

lemma max_rows_numbered: "numbered rows \<Longrightarrow> foldr (\<lambda>e m. max (ev_seq e) m) rows 0 = int (length rows)"
proof (induction rows rule: rev_induct)
  case Nil
  then show ?case by simp
next
  case (snoc e rows)
  have shift: "foldr (\<lambda>e m. max (ev_seq e) m) rows (max a b)
      = max a (foldr (\<lambda>e m. max (ev_seq e) m) rows b)" for a b
    by (induction rows) (auto simp: max.left_commute)
  from snoc have "foldr (\<lambda>e m. max (ev_seq e) m) rows 0 = int (length rows)"
    and "ev_seq e = int (length rows) + 1"
    by simp_all
  with shift [of "ev_seq e" 0] show ?case by simp
qed

lemma max_seq_numbered: "numbered (j_rows j) \<Longrightarrow> max_seq j = int (length (j_rows j))"
  by (simp add: max_seq_def max_rows_numbered)

lemma event_at_last:
  assumes "numbered (j_rows j)" and "j_rows j = rows @ [e]"
  shows "event_at j (int (length rows) + 1) = Some e"
  using find_numbered [OF assms(1), of "length rows"] assms(2)
  by (simp add: event_at_def)

lemma event_at_beyond:
  assumes "numbered (j_rows j)" and "int (length (j_rows j)) < n"
  shows "event_at j n = None"
  using assms numbered_nth
  by (force simp: event_at_def find_None_iff in_set_conv_nth)

lemma journal_wf_committed:
  assumes "journal_wf j" and "committed e j j' \<or> lost e j j'"
    and "ev_seq e = int (length (j_rows j)) + 1"
    and "ev_type e \<noteq> TARGET_RECEIVED" and "ev_type e \<noteq> EXECUTION_RECEIVED"
  shows "journal_wf j'"
  using assms by (auto simp: journal_wf_def committed_def lost_def)

lemma journal_wf_accepted:
  "journal_wf j \<Longrightarrow> accepted did (stamped ck j (target_event did p sid symb)) j j' \<Longrightarrow> journal_wf j'"
  by (auto simp: journal_wf_def accepted_def target_event_def dest: claimed_ids)

lemma journal_wf_booked:
  "journal_wf j \<Longrightarrow> booked xid (stamped ck j (exec_event xid p symb ref pid)) j j' \<Longrightarrow> journal_wf j'"
  by (auto simp: journal_wf_def booked_def exec_event_def dest: claimed_ids)

lemma journal_wf_unchanged: "journal_wf j \<Longrightarrow> unchanged j j' \<Longrightarrow> journal_wf j'"
  by (auto simp: journal_wf_def unchanged_def)

lemma keeps_wf_commit [wp_intro]:
  assumes "ev_type e \<noteq> TARGET_RECEIVED" and "ev_type e \<noteq> EXECUTION_RECEIVED"
  shows "keeps journal_wf (commit ck e)"
  using assms by (auto intro!: keepsI wp_commit elim: journal_wf_committed)

lemma keeps_wf_accept [wp_intro]: "keeps journal_wf (accept_decision ck did p sid symb)"
  by (auto intro!: keepsI wp_accept_decision dest: journal_wf_accepted journal_wf_unchanged)

lemma keeps_wf_book [wp_intro]: "keeps journal_wf (commit_execution_once ck xid p symb ref pid)"
  by (auto intro!: keepsI wp_commit_execution_once dest: journal_wf_booked journal_wf_unchanged)

lemma keeps_wf_ack [wp_intro]: "keeps journal_wf (acknowledge_halt ck n operator resolution)"
  by (rule keepsI, rule wp_acknowledge_halt)
     (auto simp: ack_event_def elim: journal_wf_committed journal_wf_unchanged)

lemma journal_wf_open: "journal_wf j \<Longrightarrow> journal_wf (open_journal fresh outs j)"
  by (simp add: journal_wf_def open_journal_def)

lemma journal_wf_empty: "journal_wf empty_db"
  by (simp add: journal_wf_def empty_db_def accepted_ids_def booked_ids_def claims_of_def)

text \<open>A recovered journal is well formed: what is lost is lost from the rows and the tables alike.\<close>

lemma claims_of_take:
  assumes "numbered rows" and "set (claims_of t key rows) \<subseteq> C"
  shows "set (claims_of t key (take k rows)) \<subseteq> {c \<in> C. case c of (x, seq, ts) \<Rightarrow> seq \<le> int k}"
proof -
  have "ev_seq e \<le> int k" if e: "e \<in> set (take k rows)" for e
  proof -
    from e obtain i where i: "i < length (take k rows)" "take k rows ! i = e"
      by (auto simp: in_set_conv_nth)
    then show ?thesis
      using numbered_nth [OF numbered_take [OF assms(1), of k], of i] by simp
  qed
  moreover have "set (claims_of t key (take k rows)) \<subseteq> C"
    using assms(2) set_take_subset [of k rows] by (auto simp: claims_of_def)
  ultimately show ?thesis
    by (auto simp: claims_of_def)
qed

lemma distinct_ids_take:
  "distinct (accepted_ids rows) \<Longrightarrow> distinct (accepted_ids (take k rows))"
  "distinct (booked_ids rows) \<Longrightarrow> distinct (booked_ids (take k rows))"
proof -
  have "accepted_ids rows = accepted_ids (take k rows) @ accepted_ids (drop k rows)"
    "booked_ids rows = booked_ids (take k rows) @ booked_ids (drop k rows)"
    by (simp_all only: accepted_ids_def booked_ids_def flip: map_append filter_append)
       (simp_all only: append_take_drop_id)
  then show "distinct (accepted_ids rows) \<Longrightarrow> distinct (accepted_ids (take k rows))"
    "distinct (booked_ids rows) \<Longrightarrow> distinct (booked_ids (take k rows))"
    by (metis distinct_append)+
qed

lemma journal_wf_recover: "journal_wf j \<Longrightarrow> journal_wf (wal_recover k j)"
  using claims_of_take [of "j_rows j" TARGET_RECEIVED ev_decision_id "set (j_consumed j)" k]
    claims_of_take [of "j_rows j" EXECUTION_RECEIVED ev_exec_id "set (j_booked j)" k]
  by (simp add: journal_wf_def wal_recover_def numbered_take distinct_ids_take)

lemma journal_wf_close: "journal_wf j \<Longrightarrow> journal_wf (close_journal j)"
  by (simp add: journal_wf_def close_journal_def)

section \<open>The HALT latch\<close>

text \<open>
  Several parts of the source fold the same events: an active HALT is latched by a HALT event and
  released only by an acknowledgement that names it. The contract of one step of such a fold, with
  \<open>seq_of\<close> reading the latched sequence number.
\<close>

locale halt_latch =
  fixes latch :: "'h option \<Rightarrow> event \<Rightarrow> 'h option"
    and seq_of :: "'h \<Rightarrow> int"
  assumes latch_halt: "halts_now e \<Longrightarrow> map_option seq_of (latch h e) = Some (ev_seq e)"
    and latch_ack: "\<not> halts_now e \<Longrightarrow> acks_now e n \<Longrightarrow> map_option seq_of h = Some n \<Longrightarrow> latch h e = None"
    and latch_other: "\<not> halts_now e \<Longrightarrow> (\<And>n. map_option seq_of h = Some n \<Longrightarrow> \<not> acks_now e n) \<Longrightarrow>
      map_option seq_of (latch h e) = map_option seq_of h"
begin

lemma latch_none: "\<not> halts_now e \<Longrightarrow> latch None e = None"
  using latch_other [of e None] by simp

text \<open>A HALT stays latched whatever follows, until its own acknowledgement.\<close>

lemma latched_until_ack:
  assumes "map_option seq_of h = Some n" and "\<forall>e \<in> set es. \<not> halts_now e \<and> \<not> acks_now e n"
  shows "map_option seq_of (foldl latch h es) = Some n"
  using assms
proof (induction es arbitrary: h)
  case Nil
  then show ?case by simp
next
  case (Cons e es)
  then have "map_option seq_of (latch h e) = map_option seq_of h"
    by (intro latch_other) auto
  with Cons show ?case by auto
qed

lemma latch_some_was_halt:
  assumes "map_option seq_of (foldl latch None es) = Some n"
  shows "\<exists>e \<in> set es. halts_now e \<and> ev_seq e = n"
  using assms
proof (induction es rule: rev_induct)
  case Nil
  then show ?case by simp
next
  case (snoc e es)
  let ?h = "foldl latch None es"
  consider "halts_now e" | m where "\<not> halts_now e" "acks_now e m" "map_option seq_of ?h = Some m"
    | "\<not> halts_now e" "\<And>m. map_option seq_of ?h = Some m \<Longrightarrow> \<not> acks_now e m"
    by blast
  then show ?case
  proof cases
    case 1
    with snoc.prems show ?thesis by (auto simp: latch_halt)
  next
    case 2
    with snoc.prems show ?thesis by (auto simp: latch_ack)
  next
    case 3
    with snoc.prems have "map_option seq_of ?h = Some n" by (simp add: latch_other)
    with snoc.IH show ?thesis by auto
  qed
qed

end

text \<open>Two latches agree on the active sequence.\<close>

lemma latches_agree:
  assumes f: "halt_latch f sf" and g: "halt_latch g sg"
  shows "map_option sf (foldl f None es) = map_option sg (foldl g None es)"
proof (induction es rule: rev_induct)
  case Nil
  then show ?case by simp
next
  case (snoc e es)
  let ?x = "foldl f None es" and ?y = "foldl g None es"
  consider "halts_now e" | m where "\<not> halts_now e" "acks_now e m" "map_option sf ?x = Some m"
    | "\<not> halts_now e" "\<And>m. map_option sf ?x = Some m \<Longrightarrow> \<not> acks_now e m"
    by blast
  then show ?case
  proof cases
    case 1
    then show ?thesis by (simp add: halt_latch.latch_halt [OF f] halt_latch.latch_halt [OF g])
  next
    case 2
    with snoc.IH show ?thesis
      by (simp add: halt_latch.latch_ack [OF f] halt_latch.latch_ack [OF g])
  next
    case 3
    have "map_option sf (f ?x e) = map_option sf ?x"
      by (rule halt_latch.latch_other [OF f 3])
    moreover have "map_option sg (g ?y e) = map_option sg ?y"
      using 3 snoc.IH by (intro halt_latch.latch_other [OF g]) (auto simp del: map_option_eq_Some)
    ultimately show ?thesis
      using snoc.IH by simp
  qed
qed

interpretation journal_latch: halt_latch active_halt_step id
  by unfold_locales
     (auto simp: active_halt_step_def halts_now_def acks_now_def split: option.splits)

lemma active_halt_snoc: "active_halt_seq (rows @ [e]) = active_halt_step (active_halt_seq rows) e"
  by (simp add: active_halt_seq_def)

lemma active_halt_other:
  "\<not> halts_now e \<Longrightarrow> ev_type e \<noteq> HALT_ACKNOWLEDGED \<Longrightarrow>
     active_halt_seq (rows @ [e]) = active_halt_seq rows"
  by (simp add: active_halt_snoc active_halt_step_def halts_now_def)

lemma active_halt_halts:
  "halts_now e \<Longrightarrow> active_halt_seq (rows @ [e]) = Some (ev_seq e)"
  by (auto simp: active_halt_snoc active_halt_step_def halts_now_def)

end
