(* ===== verification/Witness.thy ===== *)
theory Witness
  imports Sidecar Journal_Facts
begin

text \<open>
  The journal witness (\<open>journal_witness.py\<close>): before a broker write and after a HALT the event behind
  it is pinned in a file on another volume, and the next start refuses a journal that no longer
  holds exactly that event. The hash is the parameter \<open>sha\<close>; what the witness needs of the journal
  is the locale \<open>evidence_log\<close>, interpreted on the model's journal.
\<close>

section \<open>Records\<close>

definition SAFETY_CRITICAL_TYPES :: "event_type list" where
  "SAFETY_CRITICAL_TYPES = [OPERATING_MODE_CHANGED, HALT_CAUSE_ADDED]"

record witness_record =
  wr_journal_id :: string
  wr_seq :: int
  wr_event_type :: string
  wr_digest :: string
  wr_written_utc :: time
  wr_intent_id :: "string option"
  wr_order_ref :: "string option"

text \<open>What the digest covers: the content of the event, not its time stamps.\<close>

definition digest_material :: "event \<Rightarrow> jval" where
  "digest_material e = JObj
    [(''seq'', JInt (ev_seq e)),
     (''event_type'', JStr (event_type_value (ev_type e))),
     (''strategy_id'', j_opt JStr (ev_strategy_id e)),
     (''symbol'', j_opt JStr (ev_symbol e)),
     (''decision_id'', j_opt JStr (ev_decision_id e)),
     (''intent_id'', j_opt JStr (ev_intent_id e)),
     (''order_ref'', j_opt JStr (ev_order_ref e)),
     (''perm_id'', j_opt JInt (ev_perm_id e)),
     (''exec_id'', j_opt JStr (ev_exec_id e)),
     (''payload'', JObj (ev_payload e))]"

definition event_digest :: "(jval \<Rightarrow> string) \<Rightarrow> event \<Rightarrow> string" where
  "event_digest sha e = sha (digest_material e)"

record journal_witness =
  jw_file :: "witness_record sidecar"
  jw_path :: path
  jw_journal_path :: "path option"
  jw_require_separate_domain :: bool

definition verify_witness_domain :: "file_system \<Rightarrow> journal_witness \<Rightarrow> exn + unit" where
  "verify_witness_domain fs w =
     (case jw_journal_path w of
        Some jp \<Rightarrow>
          if jw_require_separate_domain w
          then require_separate fs (jw_path w) jp ''journal witness'' else Inr ()
      | None \<Rightarrow> Inr ())"

definition read_witness :: "journal_witness \<Rightarrow> exn + witness_record option" where
  "read_witness w = (case sc_target (jw_file w) of
       Absent \<Rightarrow> Inr None
     | Unreadable \<Rightarrow> Inl (WitnessViolation (JFmt [JStr ''the journal witness at '',
         show_path (jw_path w), JStr '' exists but could not be read'']))
     | Holds r \<Rightarrow> Inr (Some r))"

section \<open>Recording\<close>

text \<open>\<open>_durable_write\<close>, with \<open>OSError\<close> turned into \<open>WitnessWriteFailed\<close>.\<close>

definition write_witness :: "witness_record \<Rightarrow> (journal_witness, unit) prog" where
  "write_witness r =
     catchP (zoom jw_file (\<lambda>s w. w\<lparr>jw_file := s\<rparr>) (durable_atomic_write r))
       (\<lambda>e. case e of
          OSErr d \<Rightarrow> raise (WitnessWriteFailed (JFmt [JStr ''could not persist the journal witness: '', d]))
        | _ \<Rightarrow> raise e)"

definition witness_of ::
  "(jval \<Rightarrow> string) \<Rightarrow> string \<Rightarrow> int \<Rightarrow> time \<Rightarrow> event \<Rightarrow> witness_record" where
  "witness_of sha jid seq written e =
     \<lparr>wr_journal_id = jid, wr_seq = seq, wr_event_type = event_type_value (ev_type e),
      wr_digest = event_digest sha e, wr_written_utc = written,
      wr_intent_id = ev_intent_id e, wr_order_ref = ev_order_ref e\<rparr>"

text \<open>\<open>record\<close>: the event is read back from the journal; \<open>lookup\<close> is \<open>journal.event_at\<close>.\<close>

definition record_with ::
  "(jval \<Rightarrow> string) \<Rightarrow> string \<Rightarrow> (int \<Rightarrow> event option) \<Rightarrow> time \<Rightarrow> int \<Rightarrow>
   (journal_witness, witness_record) prog" where
  "record_with sha jid lookup written seq =
     (case lookup seq of
        None \<Rightarrow> raise (WitnessWriteFailed (JFmt [JStr ''cannot witness seq '', JInt seq,
                  JStr '': it is not in the journal immediately after being committed'']))
      | Some e \<Rightarrow>
          seqP (write_witness (witness_of sha jid seq written e))
            (ret (witness_of sha jid seq written e)))"

definition record_witness ::
  "(jval \<Rightarrow> string) \<Rightarrow> time \<Rightarrow> journal \<Rightarrow> int \<Rightarrow> (journal_witness, witness_record) prog" where
  "record_witness sha written j seq = record_with sha (journal_id j) (event_at j) written seq"

lemma witness_of_sel [simp]:
  "wr_journal_id (witness_of sha jid n t e) = jid" "wr_seq (witness_of sha jid n t e) = n"
  "wr_digest (witness_of sha jid n t e) = event_digest sha e"
  by (simp_all add: witness_of_def)

section \<open>Verification\<close>

definition verify_with ::
  "(jval \<Rightarrow> string) \<Rightarrow> string \<Rightarrow> int \<Rightarrow> (int \<Rightarrow> event option) \<Rightarrow> journal_witness \<Rightarrow>
   exn + witness_record option" where
  "verify_with sha jid last_seq lookup w =
     ebind (read_witness w) (\<lambda>r0. case r0 of
       None \<Rightarrow> Inr None
     | Some r \<Rightarrow>
         if wr_journal_id r \<noteq> jid
         then Inl (WitnessViolation (JFmt [JStr ''the witness belongs to journal '',
                JStr (wr_journal_id r), JStr '' but this journal is '', JStr jid]))
         else if last_seq < wr_seq r
         then Inl (WitnessViolation (JFmt [JStr ''the journal ends lookup seq '', JInt last_seq,
                JStr '' but a broker write was authorised by seq '', JInt (wr_seq r)]))
         else (case lookup (wr_seq r) of
             None \<Rightarrow> Inl (WitnessViolation (JFmt [JStr ''seq '', JInt (wr_seq r),
                JStr '' authorised a broker write and is no longer in the journal'']))
           | Some e \<Rightarrow>
               if event_digest sha e \<noteq> wr_digest r
               then Inl (WitnessViolation (JFmt [JStr ''seq '', JInt (wr_seq r),
                      JStr '' is present but differs from the event that authorised a broker write'']))
               else Inr (Some r)))"

definition verify_witness ::
  "(jval \<Rightarrow> string) \<Rightarrow> journal \<Rightarrow> journal_witness \<Rightarrow> exn + witness_record option" where
  "verify_witness sha j w = verify_with sha (journal_id j) (max_seq j) (event_at j) w"

section \<open>Facts\<close>

lemma wp_write_witness:
  assumes "\<And>w'. sc_target (jw_file w') = Holds r \<Longrightarrow> Q () w'"
    and "\<And>d w'. sc_target (jw_file w') = sc_target (jw_file w) \<or> sc_target (jw_file w') = Holds r \<Longrightarrow>
      E (WitnessWriteFailed d) w'"
  shows "wp (write_witness r) Q E w"
  unfolding write_witness_def wp_catchP wp_zoom
  by (rule wp_durable_atomic_write) (simp_all add: wp_raise assms)

lemma wp_record_with:
  assumes "\<And>e w'. lookup seq = Some e \<Longrightarrow>
      sc_target (jw_file w') = Holds (witness_of sha jid seq written e) \<Longrightarrow>
      Q (witness_of sha jid seq written e) w'"
    and "\<And>d w'. E (WitnessWriteFailed d) w'"
  shows "wp (record_with sha jid lookup written seq) Q E w"
proof (cases "lookup seq")
  case None
  with assms(2) show ?thesis by (simp add: record_with_def wp_simps)
next
  case (Some e)
  have "wp (write_witness (witness_of sha jid seq written e))
      (\<lambda>_. Q (witness_of sha jid seq written e)) E w"
    by (rule wp_write_witness) (simp_all add: assms Some)
  with Some show ?thesis
    by (simp add: record_with_def wp_seqP wp_ret_fun)
qed

text \<open>The stored record decides: same journal, long enough, same content at that sequence.\<close>

lemma verify_with_Holds:
  assumes "sc_target (jw_file w) = Holds r"
  shows "verify_with sha jid last_seq lookup w = Inr (Some r) \<longleftrightarrow>
      wr_journal_id r = jid \<and> wr_seq r \<le> last_seq
      \<and> (\<exists>e. lookup (wr_seq r) = Some e \<and> event_digest sha e = wr_digest r)"
    and "verify_with sha jid last_seq lookup w \<noteq> Inr (Some r) \<Longrightarrow>
      \<exists>d. verify_with sha jid last_seq lookup w = Inl (WitnessViolation d)"
  using assms
  by (auto simp: verify_with_def read_witness_def split: option.splits if_splits)

text \<open>
  The contract of a log that can be witnessed: it identifies itself, it finds what it holds, and
  growing (\<open>ext\<close>) keeps the identity and the events already there.
\<close>

locale evidence_log =
  fixes ident :: "'j \<Rightarrow> string" and last_seq :: "'j \<Rightarrow> int" and lookup :: "'j \<Rightarrow> int \<Rightarrow> event option"
    and ext :: "'j \<Rightarrow> 'j \<Rightarrow> bool"
  assumes ext_ident: "ext j j' \<Longrightarrow> ident j' = ident j"
    and ext_lookup: "ext j j' \<Longrightarrow> lookup j n = Some e \<Longrightarrow> lookup j' n = Some e"
    and lookup_le_last: "lookup j n = Some e \<Longrightarrow> n \<le> last_seq j"
begin

lemma recorded_verifies:
  assumes "record_with sha (ident j) (lookup j) written n w = (Inr r, w')" and "ext j j'"
  shows "verify_with sha (ident j') (last_seq j') (lookup j') w' = Inr (Some r)"
proof -
  have "wp (record_with sha (ident j) (lookup j) written n)
      (\<lambda>r w'. \<exists>e. lookup j n = Some e \<and> r = witness_of sha (ident j) n written e
        \<and> sc_target (jw_file w') = Holds r) (\<lambda>_ _. True) w"
    by (rule wp_record_with) simp_all
  with assms(1) obtain e where e: "lookup j n = Some e" "r = witness_of sha (ident j) n written e"
    "sc_target (jw_file w') = Holds r"
    by (auto simp: wp_def)
  have "lookup j' n = Some e" by (rule ext_lookup) fact+
  with e ext_ident [OF assms(2)] lookup_le_last [of j' n] show ?thesis
    by (subst verify_with_Holds [OF e(3)]) simp
qed

lemma verified_evidence:
  assumes "record_with sha (ident j) (lookup j) written n w = (Inr r, w')"
    and "verify_with sha (ident j') (last_seq j') (lookup j') w' = Inr v"
  shows "\<exists>e e'. lookup j n = Some e \<and> lookup j' n = Some e' \<and> ident j' = ident j
    \<and> event_digest sha e' = event_digest sha e"
proof -
  have "wp (record_with sha (ident j) (lookup j) written n)
      (\<lambda>r w'. \<exists>e. lookup j n = Some e \<and> r = witness_of sha (ident j) n written e
        \<and> sc_target (jw_file w') = Holds r) (\<lambda>_ _. True) w"
    by (rule wp_record_with) simp_all
  with assms(1) obtain e where e: "lookup j n = Some e" "r = witness_of sha (ident j) n written e"
    "sc_target (jw_file w') = Holds r"
    by (auto simp: wp_def)
  have "verify_with sha (ident j') (last_seq j') (lookup j') w' = Inr (Some r)"
    using verify_with_Holds(2) [OF e(3)] assms(2) by (metis sum.distinct(1))
  then show ?thesis
    unfolding verify_with_Holds(1) [OF e(3)] by (auto simp: e)
qed

end

text \<open>The journal of the model: growth appends rows and keeps the numbering.\<close>

definition journal_ext :: "journal \<Rightarrow> journal \<Rightarrow> bool" where
  "journal_ext j j' \<longleftrightarrow> j_identity j' = j_identity j \<and> (\<exists>es. j_rows j' = j_rows j @ es)"

lemma find_append: "find P (xs @ ys) = (case find P xs of None \<Rightarrow> find P ys | Some x \<Rightarrow> Some x)"
  by (induction xs) auto

lemma event_at_ext: "journal_ext j j' \<Longrightarrow> event_at j n = Some e \<Longrightarrow> event_at j' n = Some e"
  by (auto simp: journal_ext_def event_at_def find_append)

lemma max_seq_ge: "e \<in> set (j_rows j) \<Longrightarrow> ev_seq e \<le> max_seq j"
proof -
  have "x \<in> set rows \<Longrightarrow> ev_seq x \<le> foldr (\<lambda>e m. max (ev_seq e) m) rows 0" for x rows
    by (induction rows) auto
  then show "e \<in> set (j_rows j) \<Longrightarrow> ev_seq e \<le> max_seq j"
    by (simp add: max_seq_def)
qed

interpretation journal_evidence: evidence_log journal_id max_seq event_at journal_ext
proof unfold_locales
  fix j :: journal and n e
  assume "event_at j n = Some e"
  then have "e \<in> set (j_rows j)" and "ev_seq e = n"
    by (auto simp: event_at_def find_Some_iff)
  then show "n \<le> max_seq j"
    using max_seq_ge by blast
qed (simp add: journal_ext_def journal_id_def, rule event_at_ext)

section \<open>Loss of a tail\<close>

lemma verify_after_loss:
  assumes "numbered (j_rows j)" and "record_witness sha written j n w = (Inr r, w')"
  shows "verify_witness sha (wal_recover k j) w' = Inr (Some r) \<longleftrightarrow> n \<le> int k \<or> length (j_rows j) \<le> k"
proof (cases "length (j_rows j) \<le> k")
  case True
  then have "journal_ext j (wal_recover k j)"
    by (simp add: wal_recover_def journal_ext_def)
  then show ?thesis
    using journal_evidence.recorded_verifies [of sha j written n w r w' "wal_recover k j"] assms(2) True
    by (simp add: record_witness_def verify_witness_def)
next
  case False
  let ?j = "wal_recover k j"
  have "wp (record_witness sha written j n)
      (\<lambda>r w'. \<exists>e. event_at j n = Some e \<and> r = witness_of sha (journal_id j) n written e
        \<and> sc_target (jw_file w') = Holds r) (\<lambda>_ _. True) w"
    unfolding record_witness_def by (rule wp_record_with) simp_all
  with assms(2) obtain e where e: "event_at j n = Some e"
    "r = witness_of sha (journal_id j) n written e" "sc_target (jw_file w') = Holds r"
    by (auto simp: wp_def)
  have len: "max_seq ?j = int k"
    using False numbered_take [OF assms(1)] by (simp add: max_seq_numbered wal_recover_def)
  have "event_at ?j n = Some e" if n: "n \<le> int k"
  proof -
    obtain i where i: "i < length (j_rows j)" "j_rows j ! i = e" "ev_seq e = n"
      using e(1) by (auto simp: event_at_def find_Some_iff)
    then have "n = int i + 1"
      using numbered_nth [OF assms(1) i(1)] by simp
    with n i have "find (\<lambda>x. ev_seq x = n) (take k (j_rows j)) = Some e"
      using find_numbered [OF numbered_take [OF assms(1), of k], of i] by simp
    then show ?thesis by (simp add: event_at_def wal_recover_def)
  qed
  moreover have "journal_id ?j = journal_id j"
    by (simp add: wal_recover_def journal_id_def)
  ultimately show ?thesis
    unfolding verify_witness_def verify_with_Holds(1) [OF e(3)] using len False by (auto simp: e(2))
qed

end
