(* ===== verification/Controller_State.thy ===== *)
theory Controller_State
  imports Risk Calendar Fence Witness
begin

text \<open>
  The state of the controller (\<open>controller.py\<close>: \<open>ExecutionPolicy\<close>, \<open>SymbolState\<close>, the fields of
  \<open>Controller\<close>) and the programs over it that every method uses. The broker (\<open>broker_protocol.py\<close>) is
  a record of operations over a state \<open>'b\<close> of its own. Legs live in an insertion-ordered dictionary
  and are passed by key, since a leg object is mutated through every reference to it.

  \<open>ct_wire\<close> is a history variable: what each broker write looked like at the moment of the call. No
  definition reads it. \<open>ct_running\<close> says that the process is up. \<open>ct_uuid\<close> supplies the intent ids of \<open>uuid4\<close>, \<open>ct_sha\<close> is the hash,
  \<open>ct_proc\<close> the process environment. The alert sink keeps what it is given.
\<close>

section \<open>ExecutionPolicy\<close>

record execution_policy =
  ep_initial_collar_bps :: rat
  ep_collar_step_bps :: rat
  ep_max_attempts :: int
  ep_ack_timeout_seconds :: rat
  ep_order_timeout_seconds :: rat
  ep_cancel_timeout_seconds :: rat
  ep_closing_collar_multiplier :: rat

definition default_policy :: execution_policy where
  "default_policy = \<lparr>ep_initial_collar_bps = 2, ep_collar_step_bps = 3, ep_max_attempts = 3,
     ep_ack_timeout_seconds = 10, ep_order_timeout_seconds = 20,
     ep_cancel_timeout_seconds = 10, ep_closing_collar_multiplier = 4\<rparr>"

definition collar_bps :: "execution_policy \<Rightarrow> int \<Rightarrow> bool \<Rightarrow> rat" where
  "collar_bps p attempt is_closing =
     (let base = ep_initial_collar_bps p + ep_collar_step_bps p * of_int attempt
      in base * (if is_closing then ep_closing_collar_multiplier p else 1))"

definition policy_hash :: "(jval \<Rightarrow> string) \<Rightarrow> execution_policy \<Rightarrow> string" where
  "policy_hash sha p = stable_hash sha (JObj
     [(''initial_collar_bps'', JNum (ep_initial_collar_bps p)),
      (''collar_step_bps'', JNum (ep_collar_step_bps p)),
      (''max_attempts'', JInt (ep_max_attempts p)),
      (''ack_timeout_seconds'', JNum (ep_ack_timeout_seconds p)),
      (''order_timeout_seconds'', JNum (ep_order_timeout_seconds p)),
      (''cancel_timeout_seconds'', JNum (ep_cancel_timeout_seconds p)),
      (''closing_collar_multiplier'', JNum (ep_closing_collar_multiplier p))])"

section \<open>Broker\<close>

record 'b broker =
  br_place_order :: "order_intent \<Rightarrow> ('b, int) prog"
  br_cancel_order :: "string \<Rightarrow> ('b, unit) prog"
  br_snapshot :: "('b, broker_snapshot) prog"

section \<open>Legs\<close>

type_synonym leg_key = "string \<times> string"

record leg =
  lg_strategy_id :: string
  lg_symbol :: string
  lg_order_state :: order_state
  lg_desired_target :: "target_position option"
  lg_live_intent :: "order_intent option"
  lg_attempt :: int
  lg_sent_at :: "time option"
  lg_cancel_requested_at :: "time option"
  lg_cancel_reason :: "string option"
  lg_position :: int
  lg_working_signed :: int
  lg_flatten_reason :: "flatten_reason option"
  lg_deferred_reason :: "string option"

definition new_leg :: "leg_key \<Rightarrow> leg" where
  "new_leg k = \<lparr>lg_strategy_id = fst k, lg_symbol = snd k, lg_order_state = IDLE,
     lg_desired_target = None, lg_live_intent = None, lg_attempt = 0, lg_sent_at = None,
     lg_cancel_requested_at = None, lg_cancel_reason = None, lg_position = 0,
     lg_working_signed = 0, lg_flatten_reason = None, lg_deferred_reason = None\<rparr>"

section \<open>Broker writes as observed at the wire\<close>

datatype wire_call = Place order_intent | Cancel string

record wire_entry =
  we_call :: wire_call
  we_link :: link_state
  we_sync :: sync_state
  we_mode :: operating_mode
  we_now :: time
  we_rows :: "event list"
  we_identity :: string
  we_healthy :: bool
  we_witness :: "witness_record file_content option"
  we_config :: risk_config
  we_counters :: day_counters
  we_quotes :: "(string \<times> quote) list"

section \<open>Controller\<close>

record 'b ctl =
  ct_journal :: journal
  ct_broker :: 'b
  ct_ops :: "'b broker"
  ct_risk :: risk_engine
  ct_clock :: manual_clock
  ct_calendar :: trading_calendar
  ct_policy :: execution_policy
  ct_alerts :: "(string \<times> jval) list"
  ct_fence :: "fatal_fence option"
  ct_fence_write_failed :: "jval option"
  ct_witness :: "journal_witness option"
  ct_link :: link_state
  ct_sync :: sync_state
  ct_mode :: operating_mode
  ct_legs :: "(leg_key \<times> leg) list"
  ct_quotes :: "(string \<times> quote) list"
  ct_connection_epoch :: int
  ct_booked_execs :: "string list"
  ct_fees_pending :: "string list"
  ct_violations :: "(int \<times> jval) list"
  ct_journal_failure :: "jval option"
  ct_fatal_shutdown_requested :: bool
  ct_eod_residual_recorded :: "(date \<times> leg_key) list"
  ct_journal_restored :: bool
  ct_restored_positions :: "(string \<times> int) list"
  ct_sha :: "jval \<Rightarrow> string"
  ct_uuid :: "nat \<Rightarrow> string"
  ct_uuid_used :: nat
  ct_proc :: process_env
  ct_running :: bool
  ct_wire :: "wire_entry list"

definition now :: "'b ctl \<Rightarrow> time" where
  "now s = ck_now (ct_clock s)"

section \<open>Elementary programs\<close>

text \<open>Run a program of a component on the controller's own component.\<close>

definition in_journal :: "(journal, 'a) prog \<Rightarrow> ('b ctl, 'a) prog" where
  "in_journal = zoom ct_journal (\<lambda>j s. s\<lparr>ct_journal := j\<rparr>)"

definition in_risk :: "(risk_engine, 'a) prog \<Rightarrow> ('b ctl, 'a) prog" where
  "in_risk = zoom ct_risk (\<lambda>r s. s\<lparr>ct_risk := r\<rparr>)"

definition in_broker :: "('b, 'a) prog \<Rightarrow> ('b ctl, 'a) prog" where
  "in_broker = zoom ct_broker (\<lambda>b s. s\<lparr>ct_broker := b\<rparr>)"

definition in_fence :: "fatal_fence \<Rightarrow> (fatal_fence, 'a) prog \<Rightarrow> ('b ctl, 'a) prog" where
  "in_fence f = zoom (\<lambda>_. f) (\<lambda>f' s. s\<lparr>ct_fence := Some f'\<rparr>)"

definition in_witness :: "journal_witness \<Rightarrow> (journal_witness, 'a) prog \<Rightarrow> ('b ctl, 'a) prog" where
  "in_witness w = zoom (\<lambda>_. w) (\<lambda>w' s. s\<lparr>ct_witness := Some w'\<rparr>)"

text \<open>A journal operation; the journal stamps its events with the clock.\<close>

definition journal_op :: "(manual_clock \<Rightarrow> (journal, 'a) prog) \<Rightarrow> ('b ctl, 'a) prog" where
  "journal_op m = reads ct_clock (\<lambda>ck. in_journal (m ck))"

text \<open>\<open>self.journal.commit(...)\<close>, with and without its result.\<close>

definition emit_seq :: "event \<Rightarrow> ('b ctl, int) prog" where
  "emit_seq e = journal_op (\<lambda>ck. commit ck e)"

definition emit :: "event \<Rightarrow> ('b ctl, unit) prog" where
  "emit e = bindP (emit_seq e) (\<lambda>_. ret ())"

definition alert :: "string \<Rightarrow> jval \<Rightarrow> ('b ctl, unit) prog" where
  "alert level msg = modP (\<lambda>s. s\<lparr>ct_alerts := ct_alerts s @ [(level, msg)]\<rparr>)"

definition leg_of :: "leg_key \<Rightarrow> 'b ctl \<Rightarrow> leg" where
  "leg_of k s = (case dget (ct_legs s) k of Some l \<Rightarrow> l | None \<Rightarrow> new_leg k)"

text \<open>\<open>leg\<close>: create the leg when it is missing.\<close>

definition ensure_leg :: "leg_key \<Rightarrow> ('b ctl, unit) prog" where
  "ensure_leg k = modP (\<lambda>s. if k \<in> fst ` set (ct_legs s) then s
                            else s\<lparr>ct_legs := ct_legs s @ [(k, new_leg k)]\<rparr>)"

definition on_leg :: "leg_key \<Rightarrow> (leg \<Rightarrow> leg) \<Rightarrow> ('b ctl, unit) prog" where
  "on_leg k f = modP (\<lambda>s. s\<lparr>ct_legs := dput k (f (leg_of k s)) (ct_legs s)\<rparr>)"

definition leg_keys :: "'b ctl \<Rightarrow> leg_key list" where
  "leg_keys s = map fst (ct_legs s)"

text \<open>The event arguments \<open>strategy_id=leg.strategy_id, symbol=leg.symbol\<close>.\<close>

definition for_leg :: "leg_key \<Rightarrow> event \<Rightarrow> event" where
  "for_leg k e = e\<lparr>ev_strategy_id := Some (fst k), ev_symbol := Some (snd k)\<rparr>"

definition for_intent :: "string \<Rightarrow> string \<Rightarrow> event \<Rightarrow> event" where
  "for_intent iid ref e = e\<lparr>ev_intent_id := Some iid, ev_order_ref := Some ref\<rparr>"

definition for_decision :: "string \<Rightarrow> event \<Rightarrow> event" where
  "for_decision did e = e\<lparr>ev_decision_id := Some did\<rparr>"

lemma for_simps [simp]:
  "ev_type (for_leg k e) = ev_type e" "ev_payload (for_leg k e) = ev_payload e"
  "ev_intent_id (for_leg k e) = ev_intent_id e" "ev_order_ref (for_leg k e) = ev_order_ref e"
  "ev_decision_id (for_leg k e) = ev_decision_id e" "ev_exec_id (for_leg k e) = ev_exec_id e"
  "ev_type (for_intent i r e) = ev_type e" "ev_payload (for_intent i r e) = ev_payload e"
  "ev_intent_id (for_intent i r e) = Some i" "ev_order_ref (for_intent i r e) = Some r"
  "ev_decision_id (for_intent i r e) = ev_decision_id e" "ev_exec_id (for_intent i r e) = ev_exec_id e"
  "ev_strategy_id (for_intent i r e) = ev_strategy_id e" "ev_symbol (for_intent i r e) = ev_symbol e"
  "ev_type (for_decision d e) = ev_type e" "ev_payload (for_decision d e) = ev_payload e"
  "ev_intent_id (for_decision d e) = ev_intent_id e" "ev_order_ref (for_decision d e) = ev_order_ref e"
  "ev_decision_id (for_decision d e) = Some d" "ev_exec_id (for_decision d e) = ev_exec_id e"
  "ev_strategy_id (for_leg k e) = Some (fst k)" "ev_symbol (for_leg k e) = Some (snd k)"
  "ev_strategy_id (for_decision d e) = ev_strategy_id e" "ev_symbol (for_decision d e) = ev_symbol e"
  by (simp_all add: for_leg_def for_intent_def for_decision_def)

definition wire_entry :: "wire_call \<Rightarrow> 'b ctl \<Rightarrow> wire_entry" where
  "wire_entry c s = \<lparr>we_call = c, we_link = ct_link s, we_sync = ct_sync s, we_mode = ct_mode s,
     we_now = now s, we_rows = j_rows (ct_journal s), we_identity = journal_id (ct_journal s),
     we_healthy = is_healthy (ct_journal s),
     we_witness = map_option (\<lambda>w. sc_target (jw_file w)) (ct_witness s),
     we_config = re_config (ct_risk s), we_counters = re_counters (ct_risk s),
     we_quotes = ct_quotes s\<rparr>"

text \<open>The two broker writes.\<close>

definition place_order :: "order_intent \<Rightarrow> ('b ctl, int) prog" where
  "place_order i =
     seqP (modP (\<lambda>s. s\<lparr>ct_wire := ct_wire s @ [wire_entry (Place i) s]\<rparr>))
       (reads ct_ops (\<lambda>ops. in_broker (br_place_order ops i)))"

definition cancel_order :: "string \<Rightarrow> ('b ctl, unit) prog" where
  "cancel_order ref =
     seqP (modP (\<lambda>s. s\<lparr>ct_wire := ct_wire s @ [wire_entry (Cancel ref) s]\<rparr>))
       (reads ct_ops (\<lambda>ops. in_broker (br_cancel_order ops ref)))"

definition snapshot :: "('b ctl, broker_snapshot) prog" where
  "snapshot = reads ct_ops (\<lambda>ops. in_broker (br_snapshot ops))"

definition is_unavailable :: "exn \<Rightarrow> bool" where
  "is_unavailable e = (case e of JournalUnavailable d \<Rightarrow> True | _ \<Rightarrow> False)"

text \<open>\<open>except JournalUnavailable: pass\<close>.\<close>

definition ignore_unavailable :: "('b ctl, unit) prog \<Rightarrow> ('b ctl, unit) prog" where
  "ignore_unavailable m = catchP m (\<lambda>e. if is_unavailable e then ret () else raise e)"

lemma leg_of_on_leg [simp]:
  "leg_of k' (s\<lparr>ct_legs := dput k l (ct_legs s)\<rparr>) = (if k' = k then l else leg_of k' s)"
  by (simp add: leg_of_def)

end
