(* ===== verification/Controller_Gate.thy ===== *)
theory Controller_Gate
  imports Controller_State
begin

text \<open>
  The safety core of the controller: the durable fence and the witness, failing closed, the setters
  of the state vector with the coupling rule, HALT, the run-time invariant check, the gate every
  broker write passes, and the wrapper of the broker callbacks. Names are those of \<open>Controller\<close>'s
  methods without the leading underscore.
\<close>

section \<open>Durable fence, witness\<close>

definition raise_durable_fence :: "jval \<Rightarrow> ('b ctl, unit) prog" where
  "raise_durable_fence detail =
     reads (\<lambda>s. s) (\<lambda>s. case ct_fence s of
       None \<Rightarrow> ret ()
     | Some f \<Rightarrow>
         bindP (attemptP (in_fence f (raise_fence (ct_proc s) detail)) Some)
           (\<lambda>r. case r of
              Inr _ \<Rightarrow> ret ()
            | Inl e \<Rightarrow> block
                [modP (\<lambda>s. s\<lparr>ct_fence_write_failed := Some (exn_message e)\<rparr>),
                 alert ''CRITICAL''
                   (JFmt [JStr ''engine fenced HALTED and the DURABLE FENCE COULD NOT BE WRITTEN ('',
                          exn_message e, JStr ''): '', detail])]))"

definition fail_closed_runtime :: "jval \<Rightarrow> bool \<Rightarrow> ('b ctl, unit) prog" where
  "fail_closed_runtime detail already_reported = block
     [modP (\<lambda>s. s\<lparr>ct_fatal_shutdown_requested := True, ct_link := DEGRADED,
                  ct_sync := UNVERIFIED, ct_mode := HALTED\<rparr>),
      raise_durable_fence detail,
      whenP (\<not> already_reported)
        (alert ''CRITICAL''
          (JFmt [JStr ''engine fenced HALTED; process shutdown required: '', detail]))]"

definition fail_closed_journal :: "string \<Rightarrow> jval \<Rightarrow> ('b ctl, unit) prog" where
  "fail_closed_journal context exc =
     reads ct_journal_failure (\<lambda>failure.
       (let detail = JFmt [JStr context, JStr '': '', exc]
        in block
         [modP (\<lambda>s. s\<lparr>ct_journal_failure := Some detail\<rparr>),
          fail_closed_runtime
            (JFmt [JStr ''journal unavailable; no further broker writes: '', detail])
            (failure \<noteq> None)]))"

definition witness_event :: "int \<Rightarrow> 'b ctl \<Rightarrow> journal_witness \<Rightarrow> ('b ctl, witness_record) prog" where
  "witness_event seq s w =
     in_witness w (record_witness (ct_sha s) (pe_now (ct_proc s)) (ct_journal s) seq)"

definition witness_or_fence :: "int \<Rightarrow> string \<Rightarrow> ('b ctl, bool) prog" where
  "witness_or_fence seq boundary =
     reads (\<lambda>s. s) (\<lambda>s. case ct_witness s of
       None \<Rightarrow> ret True
     | Some w \<Rightarrow>
         bindP (attemptP (witness_event seq s w) Some)
           (\<lambda>r. case r of
              Inr _ \<Rightarrow> ret True
            | Inl e \<Rightarrow> seqP
                (fail_closed_runtime
                  (JFmt [JStr ''journal witness unavailable before '', JStr boundary,
                         JStr ''; refusing the broker write: '', exn_message e]) False)
                (ret False)))"

definition witness_safety_critical :: "int \<Rightarrow> jval \<Rightarrow> ('b ctl, unit) prog" where
  "witness_safety_critical seq detail =
     reads (\<lambda>s. s) (\<lambda>s. case ct_witness s of
       None \<Rightarrow> ret ()
     | Some w \<Rightarrow>
         bindP (attemptP (witness_event seq s w) Some)
           (\<lambda>r. case r of
              Inr _ \<Rightarrow> ret ()
            | Inl e \<Rightarrow> block
                [alert ''CRITICAL''
                   (JFmt [JStr ''could not witness '', detail,
                          JStr ''; a WAL rollback could hide it from the next start: '',
                          exn_message e]),
                 raise_durable_fence
                   (JFmt [JStr ''safety-critical witness update failed after a durable '', detail,
                          JStr '': '', exn_message e])]))"

section \<open>State vector\<close>

definition change :: "event_type \<Rightarrow> string \<Rightarrow> string \<Rightarrow> jval \<Rightarrow> event" where
  "change t old new why = ev t [(''from'', JStr old), (''to'', JStr new), (''why'', why)]"

lemma change_simps [simp]:
  "ev_type (change t a b c) = t"
  "ev_payload (change t a b c) = [(''from'', JStr a), (''to'', JStr b), (''why'', c)]"
  "ev_intent_id (change t a b c) = None" "ev_exec_id (change t a b c) = None"
  "ev_order_ref (change t a b c) = None" "ev_decision_id (change t a b c) = None"
  by (simp_all add: change_def)

definition set_sync :: "sync_state \<Rightarrow> jval \<Rightarrow> ('b ctl, unit) prog" where
  "set_sync new why =
     reads ct_sync (\<lambda>old. whenP (old \<noteq> new) (block
       [modP (\<lambda>s. s\<lparr>ct_sync := new\<rparr>),
        emit (change SYNC_STATE_CHANGED (sync_value old) (sync_value new) why)]))"

definition set_link :: "link_state \<Rightarrow> jval \<Rightarrow> ('b ctl, unit) prog" where
  "set_link new why =
     reads ct_link (\<lambda>old. whenP (old \<noteq> new) (block
       [modP (\<lambda>s. s\<lparr>ct_link := new\<rparr>),
        emit (change LINK_STATE_CHANGED (link_value old) (link_value new) why)]))"

definition set_mode :: "operating_mode \<Rightarrow> jval \<Rightarrow> ('b ctl, unit) prog" where
  "set_mode new why =
     reads ct_mode (\<lambda>old. whenP (old \<noteq> new)
       (seqP (modP (\<lambda>s. s\<lparr>ct_mode := new\<rparr>))
         (bindP (emit_seq (change OPERATING_MODE_CHANGED (mode_value old) (mode_value new) why))
           (\<lambda>seq. whenP (new = HALTED) (block
              [witness_safety_critical seq (JFmt [JStr ''HALT: '', why]),
               alert ''CRITICAL'' (JFmt [JStr ''HALTED: '', why])])))))"

definition halt :: "jval \<Rightarrow> ('b ctl, unit) prog" where
  "halt why =
     reads ct_mode (\<lambda>mode.
       if mode = HALTED
       then bindP (emit_seq (ev HALT_CAUSE_ADDED [(''why'', why)]))
              (\<lambda>seq. block
                [witness_safety_critical seq (JFmt [JStr ''HALT cause: '', why]),
                 alert ''CRITICAL'' (JFmt [JStr ''HALT cause added: '', why])])
       else set_mode HALTED why)"

definition set_order_state :: "leg_key \<Rightarrow> order_state \<Rightarrow> jval \<Rightarrow> ('b ctl, unit) prog" where
  "set_order_state k new why =
     reads (\<lambda>s. lg_order_state (leg_of k s)) (\<lambda>old. whenP (old \<noteq> new) (block
       [on_leg k (\<lambda>l. l\<lparr>lg_order_state := new\<rparr>),
        emit (for_leg k (change ORDER_STATE_CHANGED (order_state_value old)
          (order_state_value new) why)),
        whenP (new \<in> set UNTRUSTWORTHY_ORDER_STATES)
          (set_sync UNVERIFIED (JFmt [JStr ''order_state='', JStr (order_state_value new)]))]))"

section \<open>Run-time invariant, write gate, callbacks\<close>

definition require :: "bool \<Rightarrow> int \<Rightarrow> jval \<Rightarrow> ('b ctl, unit) prog" where
  "require cond invariant detail = whenP (\<not> cond) (block
     [modP (\<lambda>s. s\<lparr>ct_violations := ct_violations s @ [(invariant, detail)]\<rparr>),
      ignore_unavailable (emit (ev INVARIANT_VIOLATION
        [(''invariant'', JInt invariant), (''detail'', detail)])),
      halt (exn_message (InvariantViolation invariant detail)),
      raise (InvariantViolation invariant detail)])"

definition can_write :: "bool \<Rightarrow> ('b ctl, bool \<times> miss_reason option) prog" where
  "can_write closing =
     reads (\<lambda>s. s) (\<lambda>s.
       if ct_journal_failure s \<noteq> None \<or> \<not> is_healthy (ct_journal s)
       then seqP (fail_closed_journal ''broker write gate''
              (case j_failed (ct_journal s) of
                 Some d \<Rightarrow> d | None \<Rightarrow> JStr ''writer unavailable''))
            (ret (False, Some MR_MODE_BLOCKED))
       else if ct_link s \<noteq> CONNECTED then ret (False, Some MR_DISCONNECTED)
       else if ct_sync s \<noteq> SYNCED then ret (False, Some MR_NOT_SYNCED)
       else if ct_mode s = HALTED then ret (False, Some MR_MODE_BLOCKED)
       else if \<not> closing \<and> ct_mode s \<noteq> NORMAL then ret (False, Some MR_MODE_BLOCKED)
       else ret (True, None))"

text \<open>
  \<open>_guarded\<close>. The stored traceback text is not modelled.
\<close>

definition guarded :: "string \<Rightarrow> ('b ctl, unit) prog \<Rightarrow> ('b ctl, unit) prog" where
  "guarded name fn = catchP fn (\<lambda>e. case e of
     InvariantViolation n d \<Rightarrow> raise e
   | JournalUnavailable d \<Rightarrow> fail_closed_journal name d
   | _ \<Rightarrow> block
       [ignore_unavailable (emit (ev CALLBACK_FAILURE
          [(''callback'', JStr name), (''detail'', exn_message e), (''tb'', JStr ''traceback'')])),
        halt (JFmt [JStr ''callback '', JStr name, JStr '' raised: '', exn_message e])])"

text \<open>\<open>except JournalUnavailable as exc: self._fail_closed_journal(where, exc); raise\<close>.\<close>

definition failing_closed :: "string \<Rightarrow> ('b ctl, 'a) prog \<Rightarrow> ('b ctl, 'a) prog" where
  "failing_closed context m = catchP m (\<lambda>e. case e of
     JournalUnavailable d \<Rightarrow> seqP (fail_closed_journal context d) (raise e)
   | _ \<Rightarrow> raise e)"

end
