(* ===== verification/Controller_Send.thy ===== *)
theory Controller_Send
  imports Controller_Gate
begin

text \<open>
  The sending side of the controller: accepting a target, the single decision point \<open>evaluate\<close>, the
  durable-before-send sequence, and the cancel request.
\<close>

section \<open>Recording what was not traded\<close>

definition target_payload :: "miss_reason \<Rightarrow> jval \<Rightarrow> target_position \<Rightarrow> payload" where
  "target_payload reason detail t =
     [(''reason'', JStr (miss_value reason)), (''detail'', detail),
      (''target_quantity'', JInt (tp_target_quantity t))]"

definition for_target :: "target_position \<Rightarrow> event \<Rightarrow> event" where
  "for_target t e = for_decision (tp_decision_id t) (for_leg (tp_strategy_id t, tp_symbol t) e)"

lemma for_target_simps [simp]:
  "ev_type (for_target t e) = ev_type e" "ev_payload (for_target t e) = ev_payload e"
  "ev_intent_id (for_target t e) = ev_intent_id e" "ev_exec_id (for_target t e) = ev_exec_id e"
  by (simp_all add: for_target_def)

definition miss :: "target_position \<Rightarrow> miss_reason \<Rightarrow> jval \<Rightarrow> ('b ctl, unit) prog" where
  "miss t reason detail = emit (for_target t (ev DECISION_MISSED (target_payload reason detail t)))"

definition defer_target :: "leg_key \<Rightarrow> miss_reason \<Rightarrow> string \<Rightarrow> ('b ctl, unit) prog" where
  "defer_target k reason detail =
     reads (leg_of k) (\<lambda>l. case lg_desired_target l of
       None \<Rightarrow> ret ()
     | Some t \<Rightarrow>
        (let signature = miss_value reason @ '':'' @ detail
         in whenP (lg_deferred_reason l \<noteq> Some signature) (block
           [on_leg k (\<lambda>l. l\<lparr>lg_deferred_reason := Some signature\<rparr>),
            emit (for_target t (ev TARGET_DEFERRED (target_payload reason (JStr detail) t)))])))"

definition drop_target :: "leg_key \<Rightarrow> ('b ctl, unit) prog" where
  "drop_target k = on_leg k (\<lambda>l. l\<lparr>lg_desired_target := None, lg_deferred_reason := None\<rparr>)"

section \<open>Building an order\<close>

definition limit_price :: "string \<Rightarrow> side \<Rightarrow> int \<Rightarrow> bool \<Rightarrow> 'b ctl \<Rightarrow> rat option" where
  "limit_price symb sd attempt closing s =
     (case dget (ct_quotes s) symb of
        None \<Rightarrow> None
      | Some q \<Rightarrow>
         (let collar = collar_bps (ct_policy s) attempt closing / 10000
          in if sd = BUY then Some (quantize_cent (q_ask q * (1 + collar)))
             else Some (quantize_cent (q_bid q * (1 - collar)))))"

definition build_intent ::
  "leg_key \<Rightarrow> target_position \<Rightarrow> int \<Rightarrow> bool \<Rightarrow> string \<Rightarrow> 'b ctl \<Rightarrow> order_intent" where
  "build_intent k t delta closing iid s =
     (let l = leg_of k s; sd = (if delta > 0 then BUY else SELL)
      in \<lparr>oi_intent_id = iid, oi_decision_id = tp_decision_id t,
          oi_strategy_id = fst k, oi_symbol = snd k, oi_side = sd, oi_quantity = \<bar>delta\<bar>,
          oi_order_type = MARKETABLE_LIMIT,
          oi_limit_price = limit_price (snd k) sd (lg_attempt l) closing s,
          oi_target_quantity = tp_target_quantity t, oi_position_snapshot = lg_position l,
          oi_working_snapshot = lg_working_signed l, oi_valid_until = tp_valid_until t,
          oi_risk_config_hash = re_config_hash (ct_risk s),
          oi_execution_policy_hash = policy_hash (ct_sha s) (ct_policy s),
          oi_order_ref = build_order_ref (ct_sha s) (fst k) (tp_decision_id t) iid,
          oi_attempt = lg_attempt l, oi_flatten_reason = lg_flatten_reason l,
          oi_broker_order_id = None, oi_perm_id = None\<rparr>)"

definition new_intent_id :: "('b ctl, string) prog" where
  "new_intent_id = reads (\<lambda>s. ct_uuid s (ct_uuid_used s))
     (\<lambda>iid. seqP (modP (\<lambda>s. s\<lparr>ct_uuid_used := Suc (ct_uuid_used s)\<rparr>)) (ret iid))"

definition accounting_price :: "order_intent \<Rightarrow> 'b ctl \<Rightarrow> rat option" where
  "accounting_price i s = (case oi_limit_price i of
       Some p \<Rightarrow> Some p
     | None \<Rightarrow> map_option mid (dget (ct_quotes s) (oi_symbol i)))"

definition intent_event :: "leg_key \<Rightarrow> order_intent \<Rightarrow> payload \<Rightarrow> event" where
  "intent_event k i evidence =
     for_intent (oi_intent_id i) (oi_order_ref i) (for_decision (oi_decision_id i) (for_leg k
       (ev ORDER_INTENT_COMMITTED (to_payload i @ [(''risk_evidence'', JObj evidence)]))))"

definition send_event :: "leg_key \<Rightarrow> order_intent \<Rightarrow> rat option \<Rightarrow> event" where
  "send_event k i price =
     for_intent (oi_intent_id i) (oi_order_ref i) (for_decision (oi_decision_id i) (for_leg k
       (ev SEND_ATTEMPT_STARTED [(''attempt'', JInt (oi_attempt i)),
          (''quantity'', JInt (oi_quantity i)), (''price'', j_opt JNum price)])))"

lemma intent_event_simps [simp]:
  "ev_type (intent_event k i p) = ORDER_INTENT_COMMITTED"
  "ev_payload (intent_event k i p) = to_payload i @ [(''risk_evidence'', JObj p)]"
  "ev_intent_id (intent_event k i p) = Some (oi_intent_id i)"
  "ev_order_ref (intent_event k i p) = Some (oi_order_ref i)"
  "ev_exec_id (intent_event k i p) = None"
  "ev_decision_id (intent_event k i p) = Some (oi_decision_id i)"
  by (simp_all add: intent_event_def)

lemma send_event_simps [simp]:
  "ev_type (send_event k i pr) = SEND_ATTEMPT_STARTED"
  "ev_payload (send_event k i pr) = [(''attempt'', JInt (oi_attempt i)),
     (''quantity'', JInt (oi_quantity i)), (''price'', j_opt JNum pr)]"
  "ev_intent_id (send_event k i pr) = Some (oi_intent_id i)"
  "ev_order_ref (send_event k i pr) = Some (oi_order_ref i)"
  "ev_exec_id (send_event k i pr) = None"
  "ev_decision_id (send_event k i pr) = Some (oi_decision_id i)"
  by (simp_all add: send_event_def)

section \<open>Sending\<close>

definition write_boundary :: "string \<Rightarrow> ('b ctl, unit) prog" where
  "write_boundary what = reads (\<lambda>s. s) (\<lambda>s.
     require (ct_link s = CONNECTED \<and> ct_sync s = SYNCED) 6
       (JFmt [JStr what, JStr '' while link='', JStr (link_value (ct_link s)),
              JStr '' sync='', JStr (sync_value (ct_sync s))]))"

text \<open>The three outcomes of the broker call.\<close>

definition send_rejected ::
  "leg_key \<Rightarrow> target_position \<Rightarrow> order_intent \<Rightarrow> jval \<Rightarrow> ('b ctl, bool) prog" where
  "send_rejected k t i d = seqP (block
     [emit (for_intent (oi_intent_id i) (oi_order_ref i) (ev SEND_CALL_FAILED
        [(''kind'', JStr ''rejected''), (''detail'', d)])),
      on_leg k (\<lambda>l. l\<lparr>lg_live_intent := None\<rparr>),
      set_order_state k IDLE (JStr ''clean rejection''),
      miss t MR_BROKER_REJECTED d,
      on_leg k (\<lambda>l. l\<lparr>lg_desired_target := None\<rparr>)]) (ret False)"

definition send_uncertain :: "leg_key \<Rightarrow> order_intent \<Rightarrow> jval \<Rightarrow> ('b ctl, bool) prog" where
  "send_uncertain k i d = seqP (block
     [emit (for_intent (oi_intent_id i) (oi_order_ref i) (ev SEND_CALL_FAILED
        [(''kind'', JStr ''uncertain''), (''detail'', d)])),
      set_order_state k SUBMISSION_UNCERTAIN (JStr ''send uncertain''),
      alert ''WARN'' (JFmt [JStr ''send uncertain for '', JStr (oi_order_ref i),
                            JStr '': '', d])]) (ret False)"

definition send_returned ::
  "leg_key \<Rightarrow> order_intent \<Rightarrow> rat option \<Rightarrow> int \<Rightarrow> ('b ctl, bool) prog" where
  "send_returned k i price broker_order_id = seqP (block
     [on_leg k (\<lambda>l. l\<lparr>lg_live_intent :=
        map_option (\<lambda>li. li\<lparr>oi_broker_order_id := Some broker_order_id\<rparr>) (lg_live_intent l)\<rparr>),
      emit (for_intent (oi_intent_id i) (oi_order_ref i) (ev SEND_CALL_RETURNED
        [(''broker_order_id'', JInt broker_order_id), (''quantity'', JInt (oi_quantity i)),
         (''price'', j_opt JNum price)])),
      set_order_state k PENDING_ACK (JStr ''awaiting broker ack''),
      reads now (\<lambda>t. on_leg k (\<lambda>l. l\<lparr>lg_sent_at := Some t,
        lg_working_signed := oi_signed_quantity i, lg_deferred_reason := None\<rparr>))]) (ret True)"

text \<open>The broker exceptions \<open>_send\<close> catches: \<open>True\<close> for a clean refusal.\<close>

definition send_exception :: "exn \<Rightarrow> (bool \<times> jval) option" where
  "send_exception e = (case e of BrokerRejected d \<Rightarrow> Some (True, d)
     | BrokerSendUncertain d \<Rightarrow> Some (False, d) | _ \<Rightarrow> None)"

definition place_and_record ::
  "leg_key \<Rightarrow> target_position \<Rightarrow> order_intent \<Rightarrow> rat option \<Rightarrow> ('b ctl, bool) prog" where
  "place_and_record k t i price =
     bindP (attemptP (place_order i) send_exception)
      (\<lambda>r. case r of
         Inl (clean, d) \<Rightarrow> if clean then send_rejected k t i d else send_uncertain k i d
       | Inr broker_order_id \<Rightarrow> send_returned k i price broker_order_id)"

text \<open>The witness could not be written: nothing was sent.\<close>

definition abandon_send :: "leg_key \<Rightarrow> ('b ctl, bool) prog" where
  "abandon_send k = seqP (block
     [set_order_state k IDLE (JStr ''witness unavailable''),
      on_leg k (\<lambda>l. l\<lparr>lg_live_intent := None\<rparr>),
      defer_target k MR_MODE_BLOCKED []]) (ret False)"

text \<open>The last steps before the broker call, after the send attempt \<open>send_seq\<close> is durable.\<close>

definition cross_boundary ::
  "leg_key \<Rightarrow> target_position \<Rightarrow> order_intent \<Rightarrow> rat option \<Rightarrow> int \<Rightarrow> ('b ctl, bool) prog" where
  "cross_boundary k t i price send_seq = seqP (block
       [set_order_state k PENDING_ACK (JStr ''send attempt started''),
        write_boundary ''place_order'',
        reads now (\<lambda>t. in_risk (modP (record_sent t i (price_or price 0))))])
      (bindP (witness_or_fence send_seq ''place_order'') (\<lambda>ok.
         if \<not> ok then abandon_send k else place_and_record k t i price))"

text \<open>From the durable intent to the broker write.\<close>

definition commit_and_place ::
  "leg_key \<Rightarrow> target_position \<Rightarrow> order_intent \<Rightarrow> payload \<Rightarrow> rat option \<Rightarrow> ('b ctl, bool) prog" where
  "commit_and_place k t i evidence price =
     seqP (block
       [emit (intent_event k i evidence),
        on_leg k (\<lambda>l. l\<lparr>lg_live_intent := Some i\<rparr>),
        set_order_state k INTENT_COMMITTED (JStr ''intent durable'')])
     (bindP (emit_seq (send_event k i price)) (cross_boundary k t i price))"

definition risk_exception :: "exn \<Rightarrow> (string \<times> jval) option" where
  "risk_exception e = (case e of RiskRejection check d \<Rightarrow> Some (check, d) | _ \<Rightarrow> None)"

definition risk_refused ::
  "leg_key \<Rightarrow> target_position \<Rightarrow> order_intent \<Rightarrow> string \<Rightarrow> jval \<Rightarrow> ('b ctl, bool) prog" where
  "risk_refused k t i check d = seqP (block
     [emit ((for_decision (tp_decision_id t) (for_leg k (ev RISK_REJECTED
        [(''check'', JStr check), (''detail'', d), (''quantity'', JInt (oi_quantity i)),
         (''side'', JStr (side_value (oi_side i)))])))\<lparr>ev_intent_id := Some (oi_intent_id i)\<rparr>),
      miss t MR_RISK_BLOCKED (JStr check),
      drop_target k]) (ret False)"

definition send :: "leg_key \<Rightarrow> int \<Rightarrow> bool \<Rightarrow> ('b ctl, bool) prog" where
  "send k delta closing =
     reads (\<lambda>s. lg_desired_target (leg_of k s)) (\<lambda>target. case target of
       None \<Rightarrow> raise AssertionErr
     | Some t \<Rightarrow>
       bindP new_intent_id (\<lambda>iid.
       reads (build_intent k t delta closing iid) (\<lambda>i.
       reads (\<lambda>s. s) (\<lambda>s.
       bindP (attemptP
           (in_risk (risk_check (now s) i (lg_position (leg_of k s))
              (dget (ct_quotes s) (snd k)) closing))
           risk_exception)
        (\<lambda>r. case r of
           Inl (check, d) \<Rightarrow> risk_refused k t i check d
         | Inr evidence \<Rightarrow> commit_and_place k t i evidence (accounting_price i s))))))"

definition cancel_event :: "leg_key \<Rightarrow> order_intent \<Rightarrow> string \<Rightarrow> event" where
  "cancel_event k i why = for_intent (oi_intent_id i) (oi_order_ref i)
     (for_leg k (ev CANCEL_REQUESTED [(''why'', JStr why)]))"

lemma cancel_event_simps [simp]:
  "ev_type (cancel_event k i why) = CANCEL_REQUESTED"
  "ev_order_ref (cancel_event k i why) = Some (oi_order_ref i)"
  "ev_exec_id (cancel_event k i why) = None" "ev_decision_id (cancel_event k i why) = None"
  by (simp_all add: cancel_event_def for_intent_def for_leg_def ev_def)

definition cancel_failed :: "leg_key \<Rightarrow> order_intent \<Rightarrow> exn \<Rightarrow> ('b ctl, bool) prog" where
  "cancel_failed k i e = seqP (block
     [emit ((ev CALLBACK_FAILURE [(''where'', JStr ''cancel_order''),
        (''detail'', exn_message e)])\<lparr>ev_order_ref := Some (oi_order_ref i)\<rparr>),
      set_order_state k TERMINAL_UNRECONCILED (JStr ''cancel call failed'')]) (ret False)"

text \<open>The steps of a cancel after its request \<open>cancel_seq\<close> is durable.\<close>

definition cross_cancel ::
  "leg_key \<Rightarrow> order_intent \<Rightarrow> string \<Rightarrow> int \<Rightarrow> ('b ctl, bool) prog" where
  "cross_cancel k i why cancel_seq = seqP (block
     [set_order_state k PENDING_CANCEL (JStr why),
      reads now (\<lambda>t. on_leg k (\<lambda>l. l\<lparr>lg_cancel_requested_at := Some t,
        lg_cancel_reason := Some why\<rparr>))])
     (bindP (witness_or_fence cancel_seq ''cancel_order'') (\<lambda>ok.
       if \<not> ok then seqP
         (set_order_state k TERMINAL_UNRECONCILED (JStr ''witness unavailable'')) (ret False)
       else bindP (attemptP (cancel_order (oi_order_ref i)) Some) (\<lambda>r. case r of
         Inr _ \<Rightarrow> ret True
       | Inl e \<Rightarrow> cancel_failed k i e)))"

definition request_cancel :: "leg_key \<Rightarrow> string \<Rightarrow> ('b ctl, bool) prog" where
  "request_cancel k why =
     reads (leg_of k) (\<lambda>l. case lg_live_intent l of
       None \<Rightarrow> ret False
     | Some i \<Rightarrow>
       bindP (can_write True) (\<lambda>(ok, m).
         if \<not> ok then seqP
           (alert ''WARN'' (JFmt [JStr ''cancel blocked for '', JStr (snd k), JStr '': '',
              (case m of Some r \<Rightarrow> JStr (miss_value r) | None \<Rightarrow> JStr ''state''),
              JStr ''; broker state must be reconciled before another write''])) (ret False)
         else seqP (write_boundary ''cancel_order'')
          (bindP (emit_seq (cancel_event k i why)) (cross_cancel k i why))))"

section \<open>The decision point\<close>

definition maybe_cancel_for_new_target :: "leg_key \<Rightarrow> ('b ctl, bool) prog" where
  "maybe_cancel_for_new_target k =
     reads (leg_of k) (\<lambda>l. case (lg_live_intent l, lg_desired_target l) of
       (Some i, Some t) \<Rightarrow>
         if oi_target_quantity i = tp_target_quantity t then ret False
         else request_cancel k ''target_changed''
     | _ \<Rightarrow> ret False)"

definition is_closing :: "int \<Rightarrow> int \<Rightarrow> bool" where
  "is_closing desired position \<longleftrightarrow>
     \<bar>desired\<bar> \<le> \<bar>position\<bar> \<and> (desired = 0 \<or> desired * position \<ge> 0)"

definition exhaust_attempts :: "leg_key \<Rightarrow> target_position \<Rightarrow> int \<Rightarrow> ('b ctl, bool) prog" where
  "exhaust_attempts k t attempt = seqP (block
     [miss t MR_REPRICE_EXHAUSTED (JFmt [JStr ''attempt='', JInt attempt]),
      on_leg k (\<lambda>l. l\<lparr>lg_desired_target := None, lg_deferred_reason := None,
                      lg_attempt := 0\<rparr>)]) (ret False)"

text \<open>The decision once the gate has let it pass.\<close>

definition decide :: "leg_key \<Rightarrow> target_position \<Rightarrow> bool \<Rightarrow> ('b ctl, bool) prog" where
  "decide k t closing = reads (\<lambda>s. s) (\<lambda>s.
    (let l = leg_of k s; desired = tp_target_quantity t;
         delta = desired - lg_position l - lg_working_signed l
     in if ct_mode s = FLATTEN_ONLY \<and> desired \<noteq> 0
        then seqP (block
          [miss t MR_MODE_BLOCKED (JStr ''FLATTEN_ONLY permits target=0 only''),
           drop_target k]) (ret False)
        else if lg_order_state l \<in> set BLOCKS_NEW_ORDER
        then if lg_order_state l = WORKING then maybe_cancel_for_new_target k
             else seqP (defer_target k MR_ORDER_STATE_BLOCKED
                    (order_state_value (lg_order_state l))) (ret False)
        else if delta = 0
        then seqP (on_leg k (\<lambda>l. l\<lparr>lg_deferred_reason := None\<rparr>)) (ret False)
        else if lg_attempt l \<ge> ep_max_attempts (ct_policy s)
        then exhaust_attempts k t (lg_attempt l)
        else send k delta closing))"

definition evaluate :: "leg_key \<Rightarrow> ('b ctl, bool) prog" where
  "evaluate k =
     reads (\<lambda>s. s) (\<lambda>s. case lg_desired_target (leg_of k s) of
       None \<Rightarrow> ret False
     | Some t \<Rightarrow>
       if is_expired t (now s)
       then seqP (block [miss t MR_EXPIRED (JStr []), drop_target k]) (ret False)
       else
        (let closing = is_closing (tp_target_quantity t) (lg_position (leg_of k s))
         in bindP (can_write closing) (\<lambda>(ok, m).
           if \<not> ok then seqP
             (defer_target k (case m of Some r \<Rightarrow> r | None \<Rightarrow> MR_MODE_BLOCKED) []) (ret False)
           else decide k t closing)))"

section \<open>The strategy's entrance\<close>

definition quote_snapshot :: "quote \<Rightarrow> time \<Rightarrow> payload" where
  "quote_snapshot q captured =
     [(''bid'', JNum (q_bid q)), (''ask'', JNum (q_ask q)), (''bid_size'', JInt (q_bid_size q)),
      (''ask_size'', JInt (q_ask_size q)), (''last'', j_opt JNum (q_last q)),
      (''last_size'', j_opt JInt (q_last_size q)), (''quote_ts'', JTime (q_ts q)),
      (''captured_at'', JTime captured)]"

definition submit_target_impl :: "target_position \<Rightarrow> ('b ctl, bool) prog" where
  "submit_target_impl t =
    (let k = (tp_strategy_id t, tp_symbol t) in
     reads (\<lambda>s. s) (\<lambda>s.
     bindP (journal_op (\<lambda>ck. accept_decision ck (tp_decision_id t)
         [(''target_quantity'', JInt (tp_target_quantity t)),
          (''valid_until'', JTime (tp_valid_until t)),
          (''metadata'', JObj (tp_metadata t)),
          (''quote_snapshot'', j_opt (\<lambda>q. JObj (quote_snapshot q (now s)))
             (dget (ct_quotes s) (tp_symbol t)))]
         (tp_strategy_id t) (tp_symbol t))) (\<lambda>accepted.
       if \<not> accepted then seqP
         (emit (for_target t (ev TARGET_REJECTED [(''reason'', JStr ''duplicate_decision_id'')])))
         (ret False)
       else if is_expired t (now s) then seqP (miss t MR_EXPIRED (JStr [])) (ret False)
       else seqP (block
         [ensure_leg k,
          reads (leg_of k) (\<lambda>l. case lg_desired_target l of
            None \<Rightarrow> ret ()
          | Some old \<Rightarrow> whenP (tp_decision_id old \<noteq> tp_decision_id t)
              (emit (for_target t (ev TARGET_SUPERSEDED
                 [(''superseded'', JStr (tp_decision_id old))])))),
          on_leg k (\<lambda>l. l\<lparr>lg_desired_target := Some t, lg_deferred_reason := None,
            lg_attempt := (if lg_order_state l = IDLE then 0 else lg_attempt l)\<rparr>)])
         (evaluate k))))"

definition submit_target :: "target_position \<Rightarrow> ('b ctl, bool) prog" where
  "submit_target t = failing_closed ''submit_target'' (submit_target_impl t)"

end
