(* ===== verification/Controller_Reconcile.thy ===== *)
theory Controller_Reconcile
  imports Controller_Send
begin

text \<open>
  Recovery: what the journal says (open intents, expected positions, the unacknowledged HALT, the
  residual of the last session), the restoration of a fresh process, and reconciliation against the
  broker's snapshot. A Python set whose order is visible in the journal (\<open>open_refs\<close>) is kept in
  insertion order.
\<close>

section \<open>Folds over the journal\<close>

text \<open>\<open>event.order_ref\<close> when it is present and not empty.\<close>

definition ref_of :: "event \<Rightarrow> string option" where
  "ref_of e = (case ev_order_ref e of Some r \<Rightarrow> if r = [] then None else Some r | None \<Rightarrow> None)"

definition acknowledge_intent :: "event \<Rightarrow> order_intent \<Rightarrow> exn + order_intent" where
  "acknowledge_intent e i =
    (let i1 = (case ev_perm_id e of None \<Rightarrow> i | Some p \<Rightarrow> i\<lparr>oi_perm_id := Some p\<rparr>);
         v = pget (ev_payload e) ''broker_order_id'' JNull
     in if v = JNull then Inr i1
        else ebind (j_int v) (\<lambda>n. Inr (i1\<lparr>oi_broker_order_id := Some n\<rparr>)))"

definition intents_step ::
  "event \<Rightarrow> (string \<times> order_intent) list \<Rightarrow> exn + (string \<times> order_intent) list" where
  "intents_step e intents = (case ref_of e of
     None \<Rightarrow> Inr intents
   | Some r \<Rightarrow>
       if ev_type e = ORDER_INTENT_COMMITTED
       then ebind (from_payload (ev_payload e)) (\<lambda>i. Inr (dput r i intents))
       else if ev_type e = BROKER_ACK_RECEIVED \<or> ev_type e = ORDER_WORKING
       then (case dget intents r of
               None \<Rightarrow> Inr intents
             | Some i \<Rightarrow> ebind (acknowledge_intent e i) (\<lambda>i'. Inr (dput r i' intents)))
       else Inr intents)"

definition journal_intents_by_ref :: "event list \<Rightarrow> exn + (string \<times> order_intent) list" where
  "journal_intents_by_ref rows = fold_exn intents_step rows []"

definition terminal_now :: "event \<Rightarrow> bool" where
  "terminal_now e \<longleftrightarrow>
     (if ev_type e = SEND_CALL_FAILED
      then pget (ev_payload e) ''kind'' JNull = JStr ''rejected''
      else ev_type e \<in> set TERMINAL_ORDER_EVENTS)"

definition open_refs_step :: "event \<Rightarrow> string list \<Rightarrow> string list" where
  "open_refs_step e refs = (case ref_of e of
     None \<Rightarrow> refs
   | Some r \<Rightarrow>
       if ev_type e = SEND_ATTEMPT_STARTED then set_add r refs
       else if terminal_now e then set_discard r refs
       else refs)"

definition open_refs :: "event list \<Rightarrow> string list" where
  "open_refs rows = fold open_refs_step rows []"

definition journal_open_intents_by_ref :: "event list \<Rightarrow> exn + (string \<times> order_intent) list" where
  "journal_open_intents_by_ref rows =
     ebind (journal_intents_by_ref rows) (\<lambda>intents.
       Inr (List.map_filter (\<lambda>r. map_option (\<lambda>i. (r, i)) (dget intents r)) (open_refs rows)))"

definition is_ours :: "string \<Rightarrow> event list \<Rightarrow> exn + bool" where
  "is_ours ref rows =
     (if ref = [] then Inr False
      else ebind (journal_open_intents_by_ref rows) (\<lambda>m. Inr (ref \<in> fst ` set m)))"

definition expected_step :: "event \<Rightarrow> (string \<times> int) list \<Rightarrow> exn + (string \<times> int) list" where
  "expected_step e pos =
     (if ev_type e = EXECUTION_RECEIVED
      then ebind (str_field (ev_payload e) ''symbol'') (\<lambda>symb.
           ebind (int_field (ev_payload e) ''signed_quantity'') (\<lambda>q.
             Inr (dput symb (dget_or pos symb 0 + q) pos)))
      else Inr pos)"

definition expected_positions :: "event list \<Rightarrow> exn + (string \<times> int) list" where
  "expected_positions rows = fold_exn expected_step rows []"

text \<open>\<open>_unacknowledged_halt\<close>: sequence number, start of the generation, reason.\<close>

record halt_state =
  hs_seq :: int
  hs_started_seq :: int
  hs_why :: jval

definition halt_step :: "halt_state option \<Rightarrow> event \<Rightarrow> halt_state option" where
  "halt_step active e =
     (if ev_type e = OPERATING_MODE_CHANGED \<and>
         pget (ev_payload e) ''to'' JNull = JStr (mode_value HALTED)
      then Some \<lparr>hs_seq = ev_seq e, hs_started_seq = ev_seq e,
                 hs_why = pget (ev_payload e) ''why'' (JStr [])\<rparr>
      else if ev_type e = HALT_CAUSE_ADDED
      then Some \<lparr>hs_seq = ev_seq e,
                 hs_started_seq = (case active of Some h \<Rightarrow> hs_started_seq h | None \<Rightarrow> ev_seq e),
                 hs_why = pget (ev_payload e) ''why'' (JStr [])\<rparr>
      else if ev_type e = HALT_ACKNOWLEDGED
      then (case active of None \<Rightarrow> None
            | Some h \<Rightarrow> if acked_seq e = Some (hs_seq h) then None else active)
      else active)"

definition unacknowledged_halt :: "event list \<Rightarrow> halt_state option" where
  "unacknowledged_halt rows = foldl halt_step None rows"

interpretation boot_latch: halt_latch halt_step hs_seq
  by unfold_locales (auto simp: halt_step_def halts_now_def acks_now_def split: option.splits)

lemma boot_agrees: "map_option hs_seq (unacknowledged_halt rows) = active_halt_seq rows"
  using latches_agree [OF boot_latch.halt_latch_axioms journal_latch.halt_latch_axioms, of rows]
  by (simp add: unacknowledged_halt_def active_halt_seq_def option.map_id)

definition residual_step :: "event \<Rightarrow> (string \<times> int) list \<Rightarrow> exn + (string \<times> int) list" where
  "residual_step e m =
     (if ev_type e = EOD_FLATTEN_FAILED
      then ebind (j_int (pget (ev_payload e) ''residual_quantity'' (JInt 0))) (\<lambda>qty.
           ebind (j_int (pget (ev_payload e) ''working_signed'' (JInt 0))) (\<lambda>working.
           ebind (str_field (ev_payload e) ''symbol'') (\<lambda>symb.
             Inr (dput symb (if qty \<noteq> 0 then qty else working) m))))
      else if ev_type e = EOD_FLATTEN_COMPLETED
      then Inr (dpop (render (pget (ev_payload e) ''symbol'' (JStr []))) m)
      else Inr m)"

definition last_eod_residual :: "event list \<Rightarrow> exn + (string \<times> int) list" where
  "last_eod_residual rows =
     ebind (fold_exn residual_step rows []) (\<lambda>m. Inr (filter (\<lambda>(k, v). v \<noteq> 0) m))"

definition exec_date_step :: "event \<Rightarrow> (string \<times> date) list \<Rightarrow> (string \<times> date) list" where
  "exec_date_step e m =
     (if ev_type e = EXECUTION_RECEIVED
      then dput (render (pget (ev_payload e) ''symbol''
                  (JStr (case ev_symbol e of Some y \<Rightarrow> y | None \<Rightarrow> []))))
             (et_date (ev_ts e)) m
      else m)"

definition overnight_expected_positions ::
  "time \<Rightarrow> event list \<Rightarrow> (string \<times> int) list \<Rightarrow> (string \<times> int) list" where
  "overnight_expected_positions t rows pos =
    (let nonzero = filter (\<lambda>(symb, q). q \<noteq> 0) pos;
         last_exec = fold exec_date_step rows []
     in filter (\<lambda>(symb, q). case dget last_exec symb of
                  None \<Rightarrow> True | Some d \<Rightarrow> d < et_date t) nonzero)"

definition default_strategy :: "'b ctl \<Rightarrow> string" where
  "default_strategy s = (case rc_strategy_whitelist (re_config (ct_risk s)) of
     [] \<Rightarrow> ''unknown'' | x # _ \<Rightarrow> x)"

definition positions_payload :: "(string \<times> int) list \<Rightarrow> jval" where
  "positions_payload m = JObj (map (\<lambda>(k, q). (k, JInt q)) m)"

definition rows_of :: "'b ctl \<Rightarrow> event list" where
  "rows_of s = replay (ct_journal s)"

section \<open>Boot\<close>

definition booked_of :: "event list \<Rightarrow> string list" where
  "booked_of rows = map (\<lambda>e. case ev_exec_id e of
       Some x \<Rightarrow> if x = [] then render (pget (ev_payload e) ''exec_id'' (JStr [])) else x
     | None \<Rightarrow> render (pget (ev_payload e) ''exec_id'' (JStr [])))
     (filter (\<lambda>e. ev_type e = EXECUTION_RECEIVED) rows)"

definition restore_from_journal :: "('b ctl, (string \<times> int) list) prog" where
  "restore_from_journal = reads (\<lambda>s. s) (\<lambda>s0.
     if ct_journal_restored s0 then ret (ct_restored_positions s0)
     else (let events = rows_of s0 in
       seqP (in_risk (restore_from_events events))
       (bindP (liftE (expected_positions events)) (\<lambda>pos.
        bindP (liftE (last_eod_residual events)) (\<lambda>residual.
        seqP (block
          [forP pos (\<lambda>(symb, q). seqP (ensure_leg (default_strategy s0, symb))
             (on_leg (default_strategy s0, symb) (\<lambda>l. l\<lparr>lg_position := q\<rparr>))),
           modP (\<lambda>s. s\<lparr>ct_booked_execs := fold set_add (booked_of events) (ct_booked_execs s)\<rparr>)])
        (let overnight = overnight_expected_positions (now s0) events pos;
             carried = (if residual \<noteq> [] then residual else overnight);
             active = unacknowledged_halt events
         in seqP (block
           [whenP (carried \<noteq> []) (block
              [modP (\<lambda>s. s\<lparr>ct_mode := FLATTEN_ONLY\<rparr>),
               alert ''WARN'' (JFmt [JStr ''starting with known residual exposure '',
                                     positions_payload carried])]),
            (case active of None \<Rightarrow> ret ()
             | Some h \<Rightarrow> block
                [modP (\<lambda>s. s\<lparr>ct_mode := HALTED\<rparr>),
                 alert ''CRITICAL'' (JFmt [JStr ''starting HALTED: a prior HALT at seq '',
                   JInt (hs_seq h), JStr '' was never acknowledged ('', hs_why h, JStr '')''])]),
            reads ct_mode (\<lambda>mode. emit (ev PROCESS_STATE_RESTORED
              [(''operating_mode'', JStr (mode_value mode)),
               (''expected_positions'', positions_payload pos),
               (''residual'', positions_payload carried),
               (''active_halt_seq'', j_opt (\<lambda>h. JInt (hs_seq h)) active)])),
            modP (\<lambda>s. s\<lparr>ct_restored_positions := pos, ct_journal_restored := True\<rparr>)])
           (ret pos)))))))"

definition controller_acknowledge_halt :: "string \<Rightarrow> string \<Rightarrow> ('b ctl, int) prog" where
  "controller_acknowledge_halt operator resolution =
     (if operator = [] \<or> resolution = []
      then raise (ValueErr (JStr ''acknowledging a HALT requires an operator and a resolution''))
      else reads (\<lambda>s. s) (\<lambda>s. case unacknowledged_halt (rows_of s) of
        None \<Rightarrow> raise (ValueErr (JStr ''there is no unacknowledged HALT''))
      | Some h \<Rightarrow>
          bindP (journal_op (\<lambda>ck. acknowledge_halt ck (hs_seq h) operator resolution))
            (\<lambda>seq. seqP (alert ''WARN'' (JFmt [JStr ''HALT seq '', JInt (hs_seq h),
                JStr '' acknowledged by '', JStr operator,
                JStr ''; controller remains HALTED until a manual restart''])) (ret seq))))"

section \<open>Booking executions\<close>

definition execution_payload :: "execution \<Rightarrow> string \<Rightarrow> payload" where
  "execution_payload ex source =
     [(''exec_id'', JStr (ex_exec_id ex)), (''symbol'', JStr (ex_symbol ex)),
      (''side'', JStr (side_value (ex_side ex))), (''quantity'', JInt (ex_quantity ex)),
      (''signed_quantity'', JInt (ex_signed_quantity ex)), (''price'', JNum (ex_price ex)),
      (''is_reversal'', JBool (ex_is_reversal ex)),
      (''corrects_exec_id'', j_opt JStr (ex_corrects_exec_id ex)), (''source'', JStr source)]"

definition execution_type :: "execution \<Rightarrow> event_type" where
  "execution_type ex =
     (if ex_is_reversal ex then EXECUTION_REVERSAL
      else if (case ex_corrects_exec_id ex of None \<Rightarrow> False | Some x \<Rightarrow> x \<noteq> [])
      then EXECUTION_CORRECTED else EXECUTION_RECEIVED)"

definition book_execution :: "execution \<Rightarrow> string \<Rightarrow> ('b ctl, bool) prog" where
  "book_execution ex source =
     bindP (journal_op (\<lambda>ck. commit_execution_once ck (ex_exec_id ex) (execution_payload ex source)
              (ex_symbol ex) (ex_order_ref ex) (ex_perm_id ex))) (\<lambda>booked.
       if \<not> booked then ret False
       else seqP (block
         [modP (\<lambda>s. s\<lparr>ct_booked_execs := set_add (ex_exec_id ex) (ct_booked_execs s)\<rparr>),
          whenP (execution_type ex \<noteq> EXECUTION_RECEIVED)
            (emit ((ev (execution_type ex)
               [(''exec_id'', JStr (ex_exec_id ex)), (''corrects'', j_opt JStr (ex_corrects_exec_id ex))])
               \<lparr>ev_exec_id := Some (ex_exec_id ex), ev_order_ref := Some (ex_order_ref ex)\<rparr>)),
          modP (\<lambda>s. s\<lparr>ct_fees_pending := set_add (ex_exec_id ex) (ct_fees_pending s)\<rparr>)])
         (ret True))"

definition filled_step :: "string \<Rightarrow> event \<Rightarrow> int \<Rightarrow> exn + int" where
  "filled_step ref e acc =
     (if ev_type e = EXECUTION_RECEIVED \<and> ev_order_ref e = Some ref
      then ebind (int_field (ev_payload e) ''signed_quantity'') (\<lambda>q.
        Inr (acc + (if j_truthy (pget (ev_payload e) ''is_reversal'' JNull) then - \<bar>q\<bar> else \<bar>q\<bar>)))
      else Inr acc)"

definition filled_for_intent :: "order_intent \<Rightarrow> event list \<Rightarrow> exn + int" where
  "filled_for_intent i rows = fold_exn (filled_step (oi_order_ref i)) rows 0"

definition maybe_complete_flatten :: "leg_key \<Rightarrow> string \<Rightarrow> ('b ctl, bool) prog" where
  "maybe_complete_flatten k source =
     reads (leg_of k) (\<lambda>l. case lg_flatten_reason l of
       None \<Rightarrow> ret False
     | Some reason \<Rightarrow>
         if lg_position l \<noteq> 0 \<or> lg_working_signed l \<noteq> 0 \<or> lg_order_state l \<noteq> IDLE then ret False
         else seqP (block
           [whenP (reason = EOD_FLATTEN) (emit (for_leg k (ev EOD_FLATTEN_COMPLETED
              [(''symbol'', JStr (snd k)), (''source'', JStr source)]))),
            on_leg k (\<lambda>l. l\<lparr>lg_flatten_reason := None\<rparr>)]) (ret True))"

section \<open>Reconciliation\<close>

text \<open>Exact attribution of the broker's facts to durable intents.\<close>

definition perm_compatible :: "order_intent \<Rightarrow> int option \<Rightarrow> bool" where
  "perm_compatible i p = (case (oi_perm_id i, p) of (Some a, Some b) \<Rightarrow> a = b | _ \<Rightarrow> True)"

definition order_owned :: "(string \<times> order_intent) list \<Rightarrow> broker_order \<Rightarrow> bool" where
  "order_owned open_intents ob = (case dget open_intents (bo_order_ref ob) of
     None \<Rightarrow> False | Some i \<Rightarrow> perm_compatible i (bo_perm_id ob))"

definition known_perm_ids :: "event list \<Rightarrow> int list" where
  "known_perm_ids rows = List.map_filter ev_perm_id
     (filter (\<lambda>e. ev_type e = BROKER_ACK_RECEIVED \<or> ev_type e = ORDER_WORKING) rows)"

definition execution_owned ::
  "(string \<times> order_intent) list \<Rightarrow> int list \<Rightarrow> execution \<Rightarrow> bool" where
  "execution_owned all_intents known ex = (case dget all_intents (ex_order_ref ex) of
     Some i \<Rightarrow> perm_compatible i (ex_perm_id ex)
   | None \<Rightarrow> (case ex_perm_id ex of None \<Rightarrow> False | Some p \<Rightarrow> p \<in> set known))"

text \<open>Adopt the executions the journal is missing; the value is how many were booked.\<close>

fun adopt_executions :: "execution list \<Rightarrow> int \<Rightarrow> ('b ctl, int) prog" where
  "adopt_executions [] n = ret n"
| "adopt_executions (ex # exs) n =
     reads ct_booked_execs (\<lambda>booked.
       if ex_exec_id ex \<in> set booked then adopt_executions exs n
       else bindP (book_execution ex ''reconcile'') (\<lambda>ok.
         adopt_executions exs (if ok then n + 1 else n)))"

definition position_mismatch ::
  "(string \<times> int) list \<Rightarrow> (string \<times> int) list \<Rightarrow> (string \<times> int \<times> int) list" where
  "position_mismatch expected actual =
     List.map_filter (\<lambda>symb.
       (let e = dget_or expected symb 0; a = dget_or actual symb 0
        in if e \<noteq> a then Some (symb, e, a) else None))
       (remdups (map fst expected @ map fst actual))"

definition mismatch_payload :: "(string \<times> int \<times> int) list \<Rightarrow> jval" where
  "mismatch_payload m = JObj (map (\<lambda>(symb, e, a).
     (symb, JObj [(''expected'', JInt e), (''actual'', JInt a)])) m)"

text \<open>An open intent the broker no longer has is filled or proven absent.\<close>

definition close_absent :: "string list \<Rightarrow> string \<times> order_intent \<Rightarrow> ('b ctl, unit) prog" where
  "close_absent broker_open_refs ri = (case ri of (ref, i) \<Rightarrow>
     whenP (ref \<notin> set broker_open_refs)
       (reads rows_of (\<lambda>rows.
        bindP (liftE (filled_for_intent i rows)) (\<lambda>filled.
          if filled \<ge> oi_quantity i
          then emit (for_intent (oi_intent_id i) ref (ev ORDER_FILLED
            [(''quantity'', JInt (oi_quantity i)), (''source'', JStr ''reconcile'')]))
          else emit (for_intent (oi_intent_id i) ref (ev ORDER_ABSENT_CONFIRMED
            [(''filled'', JInt filled), (''ordered'', JInt (oi_quantity i)),
             (''source'', JStr ''reconcile'')]))))))"

text \<open>
  Rehydration of the broker's open orders. The intents are objects of the dictionary, so a change to
  one is seen by a later order with the same reference.
\<close>

fun rehydrate ::
  "(string \<times> int) list \<Rightarrow> broker_order list \<Rightarrow> (string \<times> order_intent) list \<Rightarrow> ('b ctl, unit) prog" where
  "rehydrate actual [] intents = ret ()"
| "rehydrate actual (ob # obs) intents = (case dget intents (bo_order_ref ob) of
     None \<Rightarrow> raise (KeyErr (JStr (bo_order_ref ob)))
   | Some i \<Rightarrow>
      (let ref = bo_order_ref ob; k = (oi_strategy_id i, oi_symbol i);
           i' = i\<lparr>oi_broker_order_id := bo_broker_order_id ob, oi_perm_id := bo_perm_id ob\<rparr>
       in seqP (block
         [whenP (oi_perm_id i = None \<or> oi_broker_order_id i = None) (block
            [emit ((for_intent (oi_intent_id i) ref (ev BROKER_ACK_RECEIVED
               [(''broker_order_id'', j_opt JInt (bo_broker_order_id ob)),
                (''source'', JStr ''reconcile'')]))\<lparr>ev_perm_id := bo_perm_id ob\<rparr>),
             emit ((for_intent (oi_intent_id i) ref (ev ORDER_WORKING
               [(''source'', JStr ''reconcile'')]))\<lparr>ev_perm_id := bo_perm_id ob\<rparr>)]),
          ensure_leg k,
          reads now (\<lambda>t. on_leg k (\<lambda>l. l\<lparr>lg_live_intent := Some i',
            lg_position := dget_or actual (oi_symbol i) 0,
            lg_working_signed := bo_signed_remaining ob, lg_attempt := oi_attempt i,
            lg_sent_at := Some t\<rparr>)),
          set_order_state k WORKING (JStr ''rehydrated from broker snapshot'')])
         (rehydrate actual obs (dput ref i' intents))))"

definition create_position_leg :: "string \<times> int \<Rightarrow> ('b ctl, unit) prog" where
  "create_position_leg sq = (case sq of (symb, q) \<Rightarrow>
     reads (\<lambda>s. s) (\<lambda>s.
       whenP (q \<noteq> 0 \<and> symb \<notin> snd ` set (leg_keys s)) (ensure_leg (default_strategy s, symb))))"

definition resolve_leg :: "(string \<times> int) list \<Rightarrow> string list \<Rightarrow> leg_key \<Rightarrow> ('b ctl, unit) prog" where
  "resolve_leg actual broker_open_refs k =
     seqP (on_leg k (\<lambda>l. l\<lparr>lg_position := dget_or actual (snd k) 0\<rparr>))
     (seqP (reads (leg_of k) (\<lambda>l. case lg_live_intent l of
        Some i \<Rightarrow> whenP (oi_order_ref i \<notin> set broker_open_refs) (block
          [on_leg k (\<lambda>l. l\<lparr>lg_live_intent := None, lg_working_signed := 0\<rparr>),
           set_order_state k IDLE (JStr ''resolved by reconciliation'')])
      | None \<Rightarrow> block
          [on_leg k (\<lambda>l. l\<lparr>lg_working_signed := 0\<rparr>),
           whenP (lg_order_state l \<in> set UNTRUSTWORTHY_ORDER_STATES)
             (set_order_state k IDLE (JStr ''resolved by reconciliation''))]))
      (bindP (maybe_complete_flatten k ''reconcile'') (\<lambda>_. ret ())))"

definition reconcile_failed :: "payload \<Rightarrow> jval \<Rightarrow> ('b ctl, unit) prog" where
  "reconcile_failed detail why = block
     [emit (ev RECONCILIATION_FAILED detail), set_sync UNVERIFIED why]"

text \<open>The part after the snapshot's facts are found to be ours and explained.\<close>

definition accept_snapshot ::
  "bool \<Rightarrow> broker_snapshot \<Rightarrow> (string \<times> order_intent) list \<Rightarrow> ('b ctl, bool) prog" where
  "accept_snapshot evaluate_targets snap open_intents =
    (let actual = bs_positions snap;
         broker_open_refs = map bo_order_ref (bs_open_orders snap)
     in seqP (block
       [forP open_intents (close_absent broker_open_refs),
        rehydrate actual (bs_open_orders snap) open_intents,
        forP actual create_position_leg,
        reads leg_keys (\<lambda>ks. forP ks (resolve_leg actual broker_open_refs)),
        emit (ev RECONCILIATION_COMPLETED
          [(''positions'', positions_payload actual),
           (''open_orders'', JInt (int (length (bs_open_orders snap))))]),
        set_sync SYNCED (JStr ''reconciled against broker''),
        whenP evaluate_targets
          (reads leg_keys (\<lambda>ks. forP ks (\<lambda>k.
             reads (leg_of k) (\<lambda>l. whenP (lg_desired_target l \<noteq> None)
               (bindP (evaluate k) (\<lambda>_. ret ()))))))])
       (ret True))"

text \<open>The snapshot against the journal: foreign facts, missing executions, positions.\<close>

definition judge_snapshot :: "bool \<Rightarrow> broker_snapshot \<Rightarrow> ('b ctl, bool) prog" where
  "judge_snapshot evaluate_targets snap = reads (\<lambda>s. s) (\<lambda>s.
     bindP (liftE (journal_intents_by_ref (rows_of s))) (\<lambda>all_intents.
     bindP (liftE (journal_open_intents_by_ref (rows_of s))) (\<lambda>open_intents.
      (let external_orders = filter (\<lambda>ob. \<not> order_owned open_intents ob) (bs_open_orders snap);
           external_execs = filter (\<lambda>ex. ex_exec_id ex \<notin> set (ct_booked_execs s)
             \<and> \<not> execution_owned all_intents (known_perm_ids (rows_of s)) ex) (bs_executions snap);
           orders = JList (map (\<lambda>ob. JStr (bo_order_ref ob)) external_orders);
           execs = JList (map (\<lambda>ex. JStr (ex_exec_id ex)) external_execs)
       in if external_orders \<noteq> [] \<or> external_execs \<noteq> []
          then seqP (block
            [emit (ev EXTERNAL_ORDER_DETECTED [(''orders'', orders), (''executions'', execs)]),
             reconcile_failed [(''reason'', JStr ''external_broker_fact'')]
               (JStr ''external broker fact''),
             halt (JFmt [JStr ''external order/execution present: orders='', orders,
                         JStr '' executions='', execs])]) (ret False)
          else bindP (adopt_executions (bs_executions snap) 0) (\<lambda>adopted.
            seqP (whenP (adopted \<noteq> 0) (emit (ev BROKER_FACT_ADOPTED [(''executions'', JInt adopted)])))
            (reads rows_of (\<lambda>rows.
             bindP (liftE (expected_positions rows)) (\<lambda>expected.
             (let mismatch = position_mismatch expected (bs_positions snap)
              in if mismatch \<noteq> []
                 then seqP (block
                   [reconcile_failed [(''reason'', JStr ''position_mismatch''),
                                      (''detail'', mismatch_payload mismatch)]
                      (JStr ''position mismatch''),
                    halt (JFmt [JStr ''unexplained position mismatch: '',
                                mismatch_payload mismatch])]) (ret False)
                 else accept_snapshot evaluate_targets snap open_intents))))))))) "

definition reconcile_impl :: "bool \<Rightarrow> ('b ctl, bool) prog" where
  "reconcile_impl evaluate_targets =
     bindP restore_from_journal (\<lambda>_.
     seqP (block [emit (ev RECONCILIATION_STARTED []), set_sync SYNCING (JStr ''reconcile begin'')])
     (bindP (attemptP snapshot Some) (\<lambda>r. case r of
        Inl e \<Rightarrow> seqP (reconcile_failed [(''detail'', exn_message e)] (JStr ''snapshot failed''))
                   (ret False)
      | Inr snap \<Rightarrow>
          if \<not> bs_is_stable snap
          then seqP (reconcile_failed [(''reason'', JStr ''snapshot_not_stable''),
                   (''server_time'', JTime (bs_server_time snap))]
                   (JStr ''broker snapshot barrier incomplete'')) (ret False)
          else judge_snapshot evaluate_targets snap)))"

definition reconcile :: "bool \<Rightarrow> ('b ctl, bool) prog" where
  "reconcile evaluate_targets = failing_closed ''reconcile'' (reconcile_impl evaluate_targets)"

end
