(* ===== verification/Controller_Events.thy ===== *)
theory Controller_Events
  imports Controller_Reconcile
begin

text \<open>
  The broker callbacks, the timers and the end-of-day logic, the status report, and the controller
  as a machine: one \<open>action\<close> per public method plus the environment's steps (time passes, the broker
  changes, the storage behaves, a quote arrives, the process restarts).
\<close>

section \<open>Callbacks\<close>

definition leg_for_ref :: "string \<Rightarrow> 'b ctl \<Rightarrow> leg_key option" where
  "leg_for_ref ref s = map_option fst (find (\<lambda>(k, l). case lg_live_intent l of
     None \<Rightarrow> False | Some i \<Rightarrow> oi_order_ref i = ref) (ct_legs s))"

definition known_broker_intent ::
  "string \<Rightarrow> int option \<Rightarrow> string \<Rightarrow> ('b ctl, order_intent option) prog" where
  "known_broker_intent ref perm what =
     reads rows_of (\<lambda>rows.
     bindP (liftE (journal_intents_by_ref rows)) (\<lambda>intents.
       case (case dget intents ref of None \<Rightarrow> None
             | Some i \<Rightarrow> if perm_compatible i perm then Some i else None) of
         Some i \<Rightarrow> ret (Some i)
       | None \<Rightarrow> seqP (block
           [emit ((ev EXTERNAL_ORDER_DETECTED
              [(''fact'', JStr what), (''order_ref'', JStr ref), (''perm_id'', j_opt JInt perm)])
              \<lparr>ev_order_ref := (if ref = [] then None else Some ref), ev_perm_id := perm\<rparr>),
            set_sync UNVERIFIED (JFmt [JStr ''unknown broker callback: '', JStr what]),
            halt (JFmt [JStr ''unknown broker callback '', JStr what, JStr '': ref='', JStr ref,
                        JStr '' permId='', j_opt JInt perm])]) (ret None)))"

definition known_execution_id :: "string \<Rightarrow> 'b ctl \<Rightarrow> bool" where
  "known_execution_id xid s \<longleftrightarrow> xid \<in> set (ct_booked_execs s)
     \<or> (\<exists>e \<in> set (rows_of s). ev_type e = EXECUTION_RECEIVED \<and> ev_exec_id e = Some xid)"

definition on_connected :: "int \<Rightarrow> ('b ctl, unit) prog" where
  "on_connected epoch = guarded ''on_connected''
     (bindP restore_from_journal (\<lambda>_. block
       [modP (\<lambda>s. s\<lparr>ct_connection_epoch := epoch\<rparr>),
        set_link CONNECTED (JFmt [JStr ''epoch='', JInt epoch]),
        set_sync UNVERIFIED (JStr ''reconnected; must reconcile'')]))"

definition on_disconnected :: "string \<Rightarrow> ('b ctl, unit) prog" where
  "on_disconnected reason = guarded ''on_disconnected'' (block
     [set_link DISCONNECTED (JStr reason), set_sync UNVERIFIED (JStr ''disconnected'')])"

definition on_market_data_lost :: "('b ctl, unit) prog" where
  "on_market_data_lost = guarded ''on_market_data_lost'' (block
     [modP (\<lambda>s. s\<lparr>ct_quotes := []\<rparr>),
      set_link DEGRADED (JStr ''market data subscriptions lost (IB 1101)''),
      set_sync UNVERIFIED (JStr ''IB 1101 requires resubscription and reconcile'')])"

definition on_market_data_restored :: "('b ctl, unit) prog" where
  "on_market_data_restored = guarded ''on_market_data_restored'' (block
     [set_link CONNECTED (JStr ''required market data subscriptions restored''),
      set_sync UNVERIFIED (JStr ''market data restored; reconcile still required'')])"

definition awaiting :: "order_state \<Rightarrow> bool" where
  "awaiting os \<longleftrightarrow> os = PENDING_ACK \<or> os = SUBMISSION_UNCERTAIN"

definition on_live_intent :: "leg_key \<Rightarrow> (order_intent \<Rightarrow> order_intent) \<Rightarrow> ('b ctl, unit) prog" where
  "on_live_intent k f = on_leg k (\<lambda>l. l\<lparr>lg_live_intent := map_option f (lg_live_intent l)\<rparr>)"

definition on_ack :: "string \<Rightarrow> int \<Rightarrow> int option \<Rightarrow> ('b ctl, unit) prog" where
  "on_ack ref broker_order_id perm = guarded ''on_ack''
     (bindP (known_broker_intent ref perm ''ack'') (\<lambda>known. case known of
       None \<Rightarrow> ret ()
     | Some _ \<Rightarrow> reads (\<lambda>s. s) (\<lambda>s. case leg_for_ref ref s of
         None \<Rightarrow> ret ()
       | Some k \<Rightarrow> (case lg_live_intent (leg_of k s) of
           None \<Rightarrow> ret ()
         | Some i \<Rightarrow> block
             [on_live_intent k (\<lambda>i. i\<lparr>oi_perm_id := perm,
                                     oi_broker_order_id := Some broker_order_id\<rparr>),
              emit ((for_intent (oi_intent_id i) ref (ev BROKER_ACK_RECEIVED
                [(''broker_order_id'', JInt broker_order_id)]))\<lparr>ev_perm_id := perm\<rparr>),
              reads (leg_of k) (\<lambda>l. whenP (awaiting (lg_order_state l))
                (set_order_state k PENDING_ACK (JStr ''acked'')))]))))"

definition on_working :: "string \<Rightarrow> int option \<Rightarrow> ('b ctl, unit) prog" where
  "on_working ref perm = guarded ''on_working''
     (bindP (known_broker_intent ref perm ''working'') (\<lambda>known. case known of
       None \<Rightarrow> ret ()
     | Some _ \<Rightarrow> reads (leg_for_ref ref) (\<lambda>found. case found of
         None \<Rightarrow> ret ()
       | Some k \<Rightarrow> block
           [whenP (perm \<noteq> None) (on_live_intent k (\<lambda>i. i\<lparr>oi_perm_id := perm\<rparr>)),
            emit ((ev ORDER_WORKING [])\<lparr>ev_order_ref := Some ref, ev_perm_id := perm\<rparr>),
            reads (leg_of k) (\<lambda>l. whenP (awaiting (lg_order_state l)) (block
              [set_order_state k WORKING (JStr ''broker confirmed''),
               reads ct_sync (\<lambda>sync. whenP (sync = SYNCED)
                 (bindP (maybe_cancel_for_new_target k) (\<lambda>_. ret ())))]))])))"

definition after_terminal :: "leg_key \<Rightarrow> ('b ctl, unit) prog" where
  "after_terminal k = reads (\<lambda>s. s) (\<lambda>s. case lg_desired_target (leg_of k s) of
     None \<Rightarrow> bindP (maybe_complete_flatten k ''terminal'') (\<lambda>_. ret ())
   | Some t \<Rightarrow>
       if is_expired t (now s) then block
         [miss t MR_EXPIRED (JStr []),
          on_leg k (\<lambda>l. l\<lparr>lg_desired_target := None\<rparr>),
          bindP (maybe_complete_flatten k ''terminal_expired'') (\<lambda>_. ret ())]
       else seqP (evaluate k) (bindP (maybe_complete_flatten k ''terminal'') (\<lambda>_. ret ())))"

text \<open>A fill of the live order: what remains, and the end of the order when nothing does.\<close>

definition fill_live_order :: "leg_key \<Rightarrow> order_intent \<Rightarrow> ('b ctl, unit) prog" where
  "fill_live_order k i =
     reads rows_of (\<lambda>rows. bindP (liftE (filled_for_intent i rows)) (\<lambda>filled.
       (let remaining = oi_quantity i - filled
        in seqP (on_leg k (\<lambda>l. l\<lparr>lg_working_signed :=
              (if remaining > 0 then (if oi_side i = BUY then remaining else - remaining) else 0)\<rparr>))
           (whenP (remaining \<le> 0)
             (seqP (emit (for_intent (oi_intent_id i) (oi_order_ref i)
                      (ev ORDER_FILLED [(''quantity'', JInt (oi_quantity i))])))
              (reads (leg_of k) (\<lambda>l.
                 if lg_order_state l = PENDING_CANCEL then block
                   [on_leg k (\<lambda>l. l\<lparr>lg_live_intent := None, lg_working_signed := 0\<rparr>),
                    set_order_state k TERMINAL_UNRECONCILED (JStr ''filled during cancel''),
                    alert ''WARN'' (JFmt [JStr (snd k),
                      JStr '' filled while cancel outstanding; reconciling''])]
                 else block
                   [on_leg k (\<lambda>l. l\<lparr>lg_live_intent := None, lg_attempt := 0\<rparr>),
                    set_order_state k IDLE (JStr ''fully filled''),
                    after_terminal k])))))))"

definition on_execution :: "execution \<Rightarrow> ('b ctl, unit) prog" where
  "on_execution ex = guarded ''on_execution''
     (bindP (known_broker_intent (ex_order_ref ex) (ex_perm_id ex) ''execution'') (\<lambda>known.
       case known of None \<Rightarrow> ret ()
     | Some rec \<Rightarrow>
       reads (leg_for_ref (ex_order_ref ex)) (\<lambda>live.
       bindP (book_execution ex ''callback'') (\<lambda>booked.
         if \<not> booked then ret () else
         (let k = (case live of Some k \<Rightarrow> k | None \<Rightarrow> (oi_strategy_id rec, oi_symbol rec))
          in block
           [ensure_leg k,
            on_leg k (\<lambda>l. l\<lparr>lg_position := lg_position l + ex_signed_quantity ex\<rparr>),
            (if live = None then block
               [set_order_state k TERMINAL_UNRECONCILED (JStr ''execution after local terminal''),
                alert ''WARN'' (JFmt [JStr ''late execution for terminal intent '',
                  JStr (ex_order_ref ex), JStr ''; reconciling''])]
             else reads (leg_of k) (\<lambda>l. case lg_live_intent l of
               None \<Rightarrow> ret () | Some i \<Rightarrow> fill_live_order k i))])))))"

definition on_fee :: "string \<Rightarrow> rat \<Rightarrow> string \<Rightarrow> ('b ctl, unit) prog" where
  "on_fee xid commission currency = guarded ''on_fee''
     (reads (known_execution_id xid) (\<lambda>known.
       if \<not> known then block
         [emit ((ev EXTERNAL_ORDER_DETECTED [(''fact'', JStr ''fee''), (''exec_id'', JStr xid)])
            \<lparr>ev_exec_id := Some xid\<rparr>),
          set_sync UNVERIFIED (JStr ''fee for unknown execution''),
          halt (JFmt [JStr ''fee received for unknown execId '', JStr xid])]
       else block
         [modP (\<lambda>s. s\<lparr>ct_fees_pending := set_discard xid (ct_fees_pending s)\<rparr>),
          emit ((ev FEE_RECEIVED [(''commission'', JNum commission), (''currency'', JStr currency)])
            \<lparr>ev_exec_id := Some xid\<rparr>)]))"

text \<open>The common prologue of the callbacks about one known order with a local leg.\<close>

definition with_known_leg ::
  "string \<Rightarrow> string \<Rightarrow> (leg_key \<Rightarrow> ('b ctl, unit) prog) \<Rightarrow> ('b ctl, unit) prog" where
  "with_known_leg ref what body =
     bindP (known_broker_intent ref None what) (\<lambda>known. case known of
       None \<Rightarrow> ret ()
     | Some _ \<Rightarrow> reads (leg_for_ref ref) (\<lambda>found. case found of
         None \<Rightarrow> ret () | Some k \<Rightarrow> body k))"

definition note_partial_expiry :: "leg_key \<Rightarrow> string \<Rightarrow> ('b ctl, unit) prog" where
  "note_partial_expiry k ref = reads (\<lambda>s. s) (\<lambda>s. case lg_live_intent (leg_of k s) of
     None \<Rightarrow> ret ()
   | Some i \<Rightarrow> bindP (liftE (filled_for_intent i (rows_of s))) (\<lambda>filled.
       whenP (0 < filled \<and> filled < oi_quantity i \<and> now s \<ge> oi_valid_until i)
         (emit (for_intent (oi_intent_id i) ref (ev PARTIAL_EXPIRED
           [(''filled'', JInt filled), (''ordered'', JInt (oi_quantity i))])))))"

definition on_cancelled :: "string \<Rightarrow> ('b ctl, unit) prog" where
  "on_cancelled ref = guarded ''on_cancelled'' (with_known_leg ref ''cancelled'' (\<lambda>k. block
     [emit ((ev ORDER_CANCELLED [])\<lparr>ev_order_ref := Some ref\<rparr>),
      note_partial_expiry k ref,
      on_leg k (\<lambda>l. l\<lparr>lg_live_intent := None, lg_working_signed := 0,
        lg_cancel_requested_at := None, lg_cancel_reason := None,
        lg_attempt := (if lg_cancel_reason l = Some ''reprice_timeout''
                       then lg_attempt l + 1 else 0)\<rparr>),
      set_order_state k TERMINAL_UNRECONCILED (JStr ''cancel confirmed; snapshot required''),
      bindP (reconcile True) (\<lambda>ok. whenP (\<not> ok)
        (alert ''CRITICAL'' (JFmt [JStr ''cancel confirmed for '', JStr ref,
           JStr '' but reconciliation failed; no replacement sent''])))]))"

definition on_cancel_rejected :: "string \<Rightarrow> string \<Rightarrow> ('b ctl, unit) prog" where
  "on_cancel_rejected ref reason = guarded ''on_cancel_rejected''
     (with_known_leg ref ''cancel_rejected'' (\<lambda>k. block
       [emit ((ev CANCEL_REJECTED [(''reason'', JStr reason)])\<lparr>ev_order_ref := Some ref\<rparr>),
        on_leg k (\<lambda>l. l\<lparr>lg_cancel_requested_at := None, lg_cancel_reason := None\<rparr>),
        set_order_state k TERMINAL_UNRECONCILED (JStr ''cancel rejected''),
        bindP (reconcile False) (\<lambda>ok. whenP ok
          (reads (leg_of k) (\<lambda>l.
             if lg_order_state l = IDLE then after_terminal k
             else halt (JFmt [JStr ''cancel rejected and order remains live: '', JStr ref,
                              JStr ''; verify in TWS'']))))]))"

definition on_rejected :: "string \<Rightarrow> string \<Rightarrow> ('b ctl, unit) prog" where
  "on_rejected ref reason = guarded ''on_rejected'' (with_known_leg ref ''rejected'' (\<lambda>k. block
     [emit ((ev ORDER_REJECTED [(''reason'', JStr reason)])\<lparr>ev_order_ref := Some ref\<rparr>),
      on_leg k (\<lambda>l. l\<lparr>lg_live_intent := None, lg_working_signed := 0,
                      lg_attempt := lg_attempt l + 1\<rparr>),
      set_order_state k IDLE (JStr ''order rejected''),
      reads (leg_of k) (\<lambda>l. case lg_desired_target l of
        None \<Rightarrow> ret ()
      | Some t \<Rightarrow> block
          [miss t MR_BROKER_REJECTED (JStr reason),
           on_leg k (\<lambda>l. l\<lparr>lg_desired_target := None\<rparr>)])]))"

definition on_quote :: "quote \<Rightarrow> ('b ctl, unit) prog" where
  "on_quote q = modP (\<lambda>s. s\<lparr>ct_quotes := dput (q_symbol q) q (ct_quotes s)\<rparr>)"

section \<open>Flattening and the end of the day\<close>

definition flatten :: "string \<Rightarrow> string \<Rightarrow> flatten_reason \<Rightarrow> ('b ctl, bool) prog" where
  "flatten sid symb reason =
     seqP (block
       [ensure_leg (sid, symb),
        on_leg (sid, symb) (\<lambda>l. l\<lparr>lg_flatten_reason := Some reason\<rparr>)])
     (reads now (\<lambda>t.
      bindP (liftE (mk_target sid symb 0
               (''flatten-'' @ flatten_value reason @ ''-'' @ isoformat t) (t + minutes 10)
               [(''flatten_reason'', JStr (flatten_value reason))]))
        submit_target))"

definition residual_reason :: "'b ctl \<Rightarrow> jval" where
  "residual_reason s =
     (if ct_link s \<noteq> CONNECTED
      then JStr (''link_'' @ map lower_char (link_value (ct_link s)))
      else if ct_sync s \<noteq> SYNCED
      then JStr (''sync_'' @ map lower_char (sync_value (ct_sync s)))
      else if ct_mode s = HALTED then JStr ''halted''
      else JStr ''not_filled_by_deadline'')"

definition flat_and_idle :: "leg \<Rightarrow> bool" where
  "flat_and_idle l \<longleftrightarrow> lg_position l = 0 \<and> lg_order_state l = IDLE"

definition record_residual_leg :: "date \<Rightarrow> leg_key \<Rightarrow> ('b ctl, unit) prog" where
  "record_residual_leg session k = reads (\<lambda>s. s) (\<lambda>s.
    (let l = leg_of k s in
     if flat_and_idle l then ret ()
     else if (session, k) \<in> set (ct_eod_residual_recorded s) then ret ()
     else block
       [modP (\<lambda>s. s\<lparr>ct_eod_residual_recorded := set_add (session, k) (ct_eod_residual_recorded s)\<rparr>),
        emit (for_leg k (ev EOD_FLATTEN_FAILED
          [(''symbol'', JStr (snd k)), (''residual_quantity'', JInt (lg_position l)),
           (''working_signed'', JInt (lg_working_signed l)),
           (''potential_quantity'', JInt (lg_position l + lg_working_signed l)),
           (''order_state'', JStr (order_state_value (lg_order_state l))),
           (''last_known_order'', j_opt (\<lambda>i. JStr (oi_order_ref i)) (lg_live_intent l)),
           (''failure_reason'', residual_reason s), (''detected_at'', JTime (now s)),
           (''session'', JStr (date_isoformat session))])),
        reads ct_mode (\<lambda>m. whenP (m \<noteq> HALTED)
          (set_mode FLATTEN_ONLY (JStr ''eod residual recorded''))),
        alert ''CRITICAL'' (JFmt [JStr ''EOD flatten did not complete on '', JStr (snd k),
          JStr '': position '', JInt (lg_position l), JStr '', working '',
          JInt (lg_working_signed l), JStr '' ('', residual_reason s, JStr '')''])]))"

definition record_eod_residual :: "('b ctl, unit) prog" where
  "record_eod_residual = reads (\<lambda>s. s) (\<lambda>s.
     bindP (liftE (plan_for (ct_calendar s) (now s))) (\<lambda>p. case sp_flatten_hard_utc p of
       None \<Rightarrow> ret ()
     | Some hard \<Rightarrow>
         if \<not> sp_is_trading_day p \<or> now s < hard then ret ()
         else forP (leg_keys s) (record_residual_leg (sp_session_date p))))"

definition eod_flatten_leg :: "leg_key \<Rightarrow> ('b ctl, unit) prog" where
  "eod_flatten_leg k = reads (leg_of k) (\<lambda>l.
     if flat_and_idle l then ret ()
     else if lg_flatten_reason l = Some EOD_FLATTEN then ret ()
     else block
       [emit (for_leg k (ev EOD_FLATTEN_STARTED [(''position'', JInt (lg_position l))])),
        on_leg k (\<lambda>l. l\<lparr>lg_flatten_reason := Some EOD_FLATTEN\<rparr>),
        set_mode FLATTEN_ONLY (JStr ''eod window''),
        bindP (flatten (fst k) (snd k) EOD_FLATTEN) (\<lambda>_. ret ())])"

definition escalate_leg :: "leg_key \<Rightarrow> ('b ctl, unit) prog" where
  "escalate_leg k = reads (\<lambda>s. s) (\<lambda>s.
     whenP (lg_order_state (leg_of k s) \<in> set UNTRUSTWORTHY_ORDER_STATES \<or> ct_sync s \<noteq> SYNCED)
       (alert ''CRITICAL'' (JFmt
         [JStr ''past escalation deadline with unresolved state on '', JStr (snd k),
          JStr '': order_state='', JStr (order_state_value (lg_order_state (leg_of k s))),
          JStr '' sync='', JStr (sync_value (ct_sync s))])))"

definition check_eod :: "('b ctl, unit) prog" where
  "check_eod =
     seqP record_eod_residual
     (reads (\<lambda>s. s) (\<lambda>s.
      bindP (liftE (should_start_flatten (ct_calendar s) (now s))) (\<lambda>start.
        if \<not> start then ret ()
        else if ct_mode s = HALTED then ret ()
        else seqP (forP (leg_keys s) eod_flatten_leg)
          (bindP (liftE (past_escalation (ct_calendar s) (now s))) (\<lambda>past.
            whenP past (reads leg_keys (\<lambda>ks. forP ks escalate_leg)))))))"

section \<open>Timers\<close>

definition elapsed_at_least :: "time \<Rightarrow> time option \<Rightarrow> rat \<Rightarrow> bool" where
  "elapsed_at_least t since limit = (case since of
     None \<Rightarrow> False | Some u \<Rightarrow> seconds_between t u \<ge> limit)"

definition tick_leg :: "time \<Rightarrow> leg_key \<Rightarrow> ('b ctl, unit) prog" where
  "tick_leg t k = block
     [reads (leg_of k) (\<lambda>l. whenP (lg_order_state l = IDLE \<and> lg_desired_target l \<noteq> None)
        (bindP (evaluate k) (\<lambda>_. ret ()))),
      reads (\<lambda>s. s) (\<lambda>s. let l = leg_of k s in
        whenP (lg_order_state l = PENDING_ACK \<and>
               elapsed_at_least t (lg_sent_at l) (ep_ack_timeout_seconds (ct_policy s)))
          (block
            [set_order_state k SUBMISSION_UNCERTAIN (JStr ''broker ack timeout''),
             alert ''WARN'' (JFmt [JStr ''ack timeout on '', JStr (snd k),
               JStr ''; broker state must be reconciled''])])),
      reads (\<lambda>s. s) (\<lambda>s. let l = leg_of k s in
        if lg_order_state l = WORKING \<and>
           (case lg_live_intent l of None \<Rightarrow> False | Some i \<Rightarrow> t \<ge> oi_valid_until i)
        then bindP (request_cancel k ''target_expired'') (\<lambda>_. ret ())
        else seqP
          (whenP (lg_order_state l = WORKING \<and>
                  elapsed_at_least t (lg_sent_at l) (ep_order_timeout_seconds (ct_policy s)))
            (seqP (emit (for_leg k (ev REPRICE_TRIGGERED [(''attempt'', JInt (lg_attempt l))])))
                  (bindP (request_cancel k ''reprice_timeout'') (\<lambda>_. ret ()))))
          (reads (\<lambda>s. s) (\<lambda>s. let l = leg_of k s in
            whenP (lg_order_state l = PENDING_CANCEL \<and>
                   elapsed_at_least t (lg_cancel_requested_at l)
                     (ep_cancel_timeout_seconds (ct_policy s)))
              (block
                [set_order_state k TERMINAL_UNRECONCILED (JStr ''cancel timeout''),
                 alert ''WARN'' (JFmt [JStr ''cancel timeout on '', JStr (snd k),
                   JStr ''; reconciling''])]))))]"

definition tick_impl :: "('b ctl, unit) prog" where
  "tick_impl =
     seqP (reads (\<lambda>s. s) (\<lambda>s. forP (leg_keys s) (tick_leg (now s)))) check_eod"

definition tick :: "('b ctl, unit) prog" where
  "tick = failing_closed ''tick'' tick_impl"

section \<open>Status\<close>

text \<open>The journal's \<open>fsync_stats\<close> entry is not modelled.\<close>

definition status :: "'b ctl \<Rightarrow> payload" where
  "status s =
    [(''link_state'', JStr (link_value (ct_link s))),
     (''sync_state'', JStr (sync_value (ct_sync s))),
     (''operating_mode'', JStr (mode_value (ct_mode s))),
     (''connection_epoch'', JInt (ct_connection_epoch s)),
     (''legs'', JObj (map (\<lambda>(k, l). (fst k @ ''/'' @ snd k, JObj
        [(''order_state'', JStr (order_state_value (lg_order_state l))),
         (''position'', JInt (lg_position l)),
         (''working_signed'', JInt (lg_working_signed l)),
         (''attempt'', JInt (lg_attempt l)),
         (''desired_target'', j_opt (\<lambda>t. JInt (tp_target_quantity t)) (lg_desired_target l))]))
        (ct_legs s))),
     (''fees_pending'', JInt (int (length (ct_fees_pending s)))),
     (''violations'', JList (map (\<lambda>(n, d). exn_message (InvariantViolation n d)) (ct_violations s))),
     (''fatal_shutdown_requested'', JBool (ct_fatal_shutdown_requested s)),
     (''journal_failure'', j_opt (\<lambda>d. d) (ct_journal_failure s)),
     (''risk'', JObj (risk_snapshot (ct_risk s)))]"

end
