(* ===== verification/Host.thy ===== *)
theory Host
  imports Controller_Events
begin

text \<open>
  The execution host (\<open>execution_host.py\<close>): the start-up gates in their order, the construction of
  the controller, one supervision tick with its exit code, and retirement of the fence. The host's
  configuration carries what the environment answers: the platform check, the volumes, who owns the
  journal, the storage's behaviour. Signals, the content of the status file and the command line are not modelled.
\<close>

definition EXIT_OK :: int where "EXIT_OK = 0"
definition EXIT_FATAL_SHUTDOWN :: int where "EXIT_FATAL_SHUTDOWN = 10"
definition EXIT_NOT_OWNER :: int where "EXIT_NOT_OWNER = 11"
definition EXIT_FENCED :: int where "EXIT_FENCED = 12"
definition EXIT_CALENDAR :: int where "EXIT_CALENDAR = 13"
definition EXIT_STARTUP :: int where "EXIT_STARTUP = 14"
definition EXIT_WITNESS :: int where "EXIT_WITNESS = 15"

lemmas exit_codes =
  EXIT_OK_def EXIT_FATAL_SHUTDOWN_def EXIT_NOT_OWNER_def EXIT_FENCED_def EXIT_CALENDAR_def
  EXIT_STARTUP_def EXIT_WITNESS_def

record host_config =
  hc_platform_refusal :: "jval option"
  hc_file_system :: file_system
  hc_engine_owns :: bool
  hc_fresh_identity :: string
  hc_storage :: "write_outcome list"
  hc_broker_failure :: "exn option"
  hc_order_capable :: bool
  hc_capability_is_order_capable :: bool
  hc_risk_config :: risk_config

section \<open>Constructing the controller\<close>

text \<open>The fields a new \<open>Controller\<close> starts with; the sidecars, the broker and the clock are given.\<close>

definition fresh_fields :: "risk_config \<Rightarrow> 'b ctl \<Rightarrow> 'b ctl" where
  "fresh_fields cfg s = s\<lparr>ct_risk := risk_engine (ct_sha s) cfg, ct_fence_write_failed := None,
     ct_link := DISCONNECTED, ct_sync := UNVERIFIED, ct_mode := NORMAL, ct_legs := [],
     ct_quotes := [], ct_connection_epoch := 0, ct_booked_execs := [], ct_fees_pending := [],
     ct_violations := [], ct_journal_failure := None, ct_fatal_shutdown_requested := False,
     ct_eod_residual_recorded := [], ct_journal_restored := False, ct_restored_positions := []\<rparr>"

definition construct_controller :: "risk_config \<Rightarrow> ('b ctl, unit) prog" where
  "construct_controller cfg =
     seqP (modP (fresh_fields cfg))
     (reads (\<lambda>s. s) (\<lambda>s.
      bindP (liftE (run_self_test (re_config (ct_risk s)) (now s))) (\<lambda>proven. block
        [emit (ev RISK_CONFIG_LOADED
           [(''config_hash'', JStr (re_config_hash (ct_risk s))),
            (''limits'', JObj (risk_snapshot (ct_risk s)))]),
         emit (ev RISK_SELF_TEST_PASSED
           [(''config_hash'', JStr (re_config_hash (ct_risk s))),
            (''proven'', JList (map JStr proven))])])))"

section \<open>Start-up gates\<close>

definition refuse :: "int \<Rightarrow> exn \<Rightarrow> exn" where
  "refuse code e = HostStartupRefused code (exn_message e)"

definition gate_platform_capability :: "host_config \<Rightarrow> exn + unit" where
  "gate_platform_capability hc = (case hc_platform_refusal hc of
     None \<Rightarrow> Inr () | Some d \<Rightarrow> Inl (HostStartupRefused EXIT_STARTUP d))"

definition gate_calendar :: "trading_calendar \<Rightarrow> time \<Rightarrow> exn + payload" where
  "gate_calendar c t = (case self_test c t of
     Inl (CalendarCoverageError d) \<Rightarrow> Inl (refuse EXIT_CALENDAR (CalendarCoverageError d))
   | r \<Rightarrow> r)"

definition gate_domain :: "exn + unit \<Rightarrow> exn + unit" where
  "gate_domain r = (case r of Inl e \<Rightarrow> Inl (refuse EXIT_STARTUP e) | Inr u \<Rightarrow> Inr u)"

definition gate_failure_domains :: "host_config \<Rightarrow> 'b ctl \<Rightarrow> exn + unit" where
  "gate_failure_domains hc s =
     ebind (gate_domain (case ct_fence s of None \<Rightarrow> Inr ()
              | Some f \<Rightarrow> verify_fence_domain (hc_file_system hc) f)) (\<lambda>_.
     gate_domain (case ct_witness s of None \<Rightarrow> Inr ()
              | Some w \<Rightarrow> verify_witness_domain (hc_file_system hc) w))"

definition gate_fence :: "'b ctl \<Rightarrow> exn + unit" where
  "gate_fence s = (case ct_fence s of None \<Rightarrow> Inr () | Some f \<Rightarrow>
     (case require_clear f of Inl e \<Rightarrow> Inl (refuse EXIT_FENCED e) | Inr u \<Rightarrow> Inr u))"

text \<open>Opening the database never fails here: an exception of SQLite at this point is outside the model.\<close>

definition gate_ownership :: "host_config \<Rightarrow> ('b ctl, unit) prog" where
  "gate_ownership hc =
     (if hc_engine_owns hc
      then raise (HostStartupRefused EXIT_NOT_OWNER (JStr ''another process owns the journal''))
      else in_journal (modP (open_journal (hc_fresh_identity hc) (hc_storage hc))))"

text \<open>
  The fence is raised before the refusal; a fence that cannot be written raises in place of it.
\<close>

definition gate_witness :: "('b ctl, unit) prog" where
  "gate_witness = reads (\<lambda>s. s) (\<lambda>s. case ct_witness s of
     None \<Rightarrow> ret ()
   | Some w \<Rightarrow>
      (case verify_witness (ct_sha s) (ct_journal s) w of
         Inr _ \<Rightarrow> ret ()
       | Inl e \<Rightarrow> seqP
           (case ct_fence s of None \<Rightarrow> ret ()
            | Some f \<Rightarrow> bindP (in_fence f (raise_fence (ct_proc s)
                (JFmt [JStr ''journal witness violation: '', exn_message e]))) (\<lambda>_. ret ()))
           (raise (refuse EXIT_WITNESS e))))"

definition is_refusal :: "exn \<Rightarrow> bool" where
  "is_refusal e = (case e of HostStartupRefused c d \<Rightarrow> True | _ \<Rightarrow> False)"

definition close_ctl_journal :: "('b ctl, unit) prog" where
  "close_ctl_journal = in_journal (modP close_journal)"

definition host_start :: "host_config \<Rightarrow> ('b ctl, unit) prog" where
  "host_start hc = reads (\<lambda>s. s) (\<lambda>s.
     seqP (liftE (gate_platform_capability hc))
     (bindP (liftE (gate_calendar (ct_calendar s) (now s))) (\<lambda>calendar_state. block
       [liftE (gate_failure_domains hc s),
        liftE (gate_fence s),
        gate_ownership hc,
        catchP gate_witness
          (\<lambda>e. if is_refusal e then seqP close_ctl_journal (raise e) else raise e),
        (case hc_broker_failure hc of None \<Rightarrow> ret ()
         | Some e \<Rightarrow> seqP close_ctl_journal (raise e)),
        (if hc_order_capable hc \<and> \<not> hc_capability_is_order_capable hc
         then seqP close_ctl_journal (raise (HostStartupRefused EXIT_STARTUP
           (JStr ''order-capable broker cannot run under simulation capability'')))
         else ret ()),
        construct_controller (hc_risk_config hc),
        bindP restore_from_journal (\<lambda>_. ret ()),
        reads ct_mode (\<lambda>m. alert ''INFO'' (JFmt [JStr ''execution host started: session='',
          pget calendar_state ''today'' JNull, JStr '' mode='', JStr (mode_value m)])),
        modP (\<lambda>s. s\<lparr>ct_running := True\<rparr>)])))"

section \<open>Supervision\<close>

text \<open>
  \<open>_heartbeat\<close>: \<open>written\<close> says whether the status file could be written, \<open>failed\<close> whether an earlier
  write already failed; the value is the flag afterwards.
\<close>

definition heartbeat :: "bool \<Rightarrow> bool \<Rightarrow> ('b ctl, bool) prog" where
  "heartbeat written failed =
     (if written \<or> failed then ret failed
      else seqP (alert ''CRITICAL'' (JStr ''cannot write the status file; heartbeat lost'')) (ret True))"

text \<open>\<open>run_once\<close>: the exit code when the host must stop, and the heartbeat's flag.\<close>

definition run_once :: "bool \<Rightarrow> bool \<Rightarrow> bool \<Rightarrow> ('b ctl, int option \<times> bool) prog" where
  "run_once stop written failed = reads (\<lambda>s. s) (\<lambda>s.
     if ct_fatal_shutdown_requested s
     then seqP
       (alert ''CRITICAL'' (case ct_fence_write_failed s of
          Some d \<Rightarrow> JFmt [JStr ''exiting non-zero WITHOUT a durable fence ('', d, JStr '')'']
        | None \<Rightarrow> JFmt [JStr ''exiting non-zero with a durable fence raised: '',
            (case ct_journal_failure s of
               Some d \<Rightarrow> d | None \<Rightarrow> JStr ''fatal shutdown requested'')]))
       (ret (Some EXIT_FATAL_SHUTDOWN, failed))
     else if stop then ret (Some EXIT_OK, failed)
     else bindP (heartbeat written failed) (\<lambda>failed'. ret (None, failed')))"

definition host_close :: "bool \<Rightarrow> ('b ctl, unit) prog" where
  "host_close process_exiting = reads (\<lambda>s. s) (\<lambda>s.
     if process_exiting \<and> ct_fatal_shutdown_requested s then ret () else close_ctl_journal)"

definition retire_fence_after_reconciliation :: "bool \<Rightarrow> ('b ctl, unit) prog" where
  "retire_fence_after_reconciliation reconciled = reads ct_fence (\<lambda>f. case f of
     None \<Rightarrow> ret () | Some f \<Rightarrow> in_fence f (retire_fence reconciled))"

lemma run_once_returns:
  "\<exists>c b t. run_once stop written failed s = (Inr (c, b), t)"
proof -
  have "wp (run_once stop written failed) (\<lambda>_ _. True) (\<lambda>_ _. False) s"
    by (simp add: run_once_def heartbeat_def alert_def wp_simps)
  then show ?thesis by (auto simp: wp_def split: prod.splits sum.splits)
qed

section \<open>The machine\<close>

text \<open>
  What can happen to a process and its surroundings. \<open>Restart\<close> is the death of the process: the
  handle is gone, the storage keeps the first rows, and a new host starts on them. The operator's
  steps work on the stopped process's files.
\<close>

datatype 'b action =
    Submit target_position
  | Flatten string string flatten_reason
  | Tick
  | Reconcile bool
  | Restore
  | Acknowledge string string
  | Connected int
  | Disconnected string
  | Market_data_lost
  | Market_data_restored
  | Acked string int "int option"
  | Is_working string "int option"
  | Executed execution
  | Fee string rat string
  | Was_cancelled string
  | Cancel_was_rejected string string
  | Was_rejected string string
  | Quoted quote
  | Advance rat
  | Set_clock time
  | Broker_moves 'b
  | Storage "write_outcome list"
  | Restart nat host_config
  | Fence_acknowledged string string
  | Fence_retired bool

definition unit_of :: "('s, 'a) prog \<Rightarrow> ('s, unit) prog" where
  "unit_of m = bindP m (\<lambda>_. ret ())"

fun method_of :: "'b action \<Rightarrow> ('b ctl, unit) prog" where
  "method_of (Submit t) = unit_of (submit_target t)"
| "method_of (Flatten sid symb r) = unit_of (flatten sid symb r)"
| "method_of Tick = tick"
| "method_of (Reconcile b) = unit_of (reconcile b)"
| "method_of Restore = unit_of restore_from_journal"
| "method_of (Acknowledge a b) = unit_of (controller_acknowledge_halt a b)"
| "method_of (Connected n) = on_connected n"
| "method_of (Disconnected r) = on_disconnected r"
| "method_of Market_data_lost = on_market_data_lost"
| "method_of Market_data_restored = on_market_data_restored"
| "method_of (Acked r n p) = on_ack r n p"
| "method_of (Is_working r p) = on_working r p"
| "method_of (Executed ex) = on_execution ex"
| "method_of (Fee x c u) = on_fee x c u"
| "method_of (Was_cancelled r) = on_cancelled r"
| "method_of (Cancel_was_rejected r why) = on_cancel_rejected r why"
| "method_of (Was_rejected r why) = on_rejected r why"
| "method_of (Quoted q) = on_quote q"
| "method_of a = ret ()"

fun environment_of :: "'b action \<Rightarrow> ('b ctl, unit) prog" where
  "environment_of (Advance d) = modP (\<lambda>s. s\<lparr>ct_clock := clock_advance d (ct_clock s)\<rparr>)"
| "environment_of (Set_clock t) = modP (\<lambda>s. s\<lparr>ct_clock := clock_set t (ct_clock s)\<rparr>)"
| "environment_of (Broker_moves b) = modP (\<lambda>s. s\<lparr>ct_broker := b\<rparr>)"
| "environment_of (Storage outs) = in_journal (modP (\<lambda>j. j\<lparr>j_outcomes := outs\<rparr>))"
| "environment_of (Restart k hc) = seqP
     (modP (\<lambda>s. s\<lparr>ct_running := False,
                  ct_journal := wal_recover k (close_journal (ct_journal s))\<rparr>))
     (host_start hc)"
| "environment_of (Fence_acknowledged a b) = reads (\<lambda>s. s) (\<lambda>s. case ct_fence s of
     None \<Rightarrow> ret () | Some f \<Rightarrow> unit_of (in_fence f (acknowledge_fence (ct_proc s) a b)))"
| "environment_of (Fence_retired b) = retire_fence_after_reconciliation b"
| "environment_of a = ret ()"

definition run_action :: "'b action \<Rightarrow> ('b ctl, unit) prog" where
  "run_action a = seqP (reads ct_running (\<lambda>up. whenP up (catchP (method_of a) (\<lambda>_. ret ()))))
                       (environment_of a)"

inductive reachable :: "'b ctl \<Rightarrow> 'b ctl \<Rightarrow> bool" for s0 where
  start: "reachable s0 s0"
| step: "reachable s0 s \<Longrightarrow> reachable s0 (snd (run_action a s))"

text \<open>A sequence of the process's own methods, whatever each of them raises; a sequence of actions.\<close>

definition run_methods :: "'b action list \<Rightarrow> 'b ctl \<Rightarrow> 'b ctl" where
  "run_methods acts s = fold (\<lambda>a s. snd (method_of a s)) acts s"

text \<open>
  \<open>run\<close>: supervise for at most so many ticks. What happens before each tick is a list of the process's
  methods, with the stop request and the state of the status file at its end. \<open>run_once\<close> never raises
  (\<open>run_once_returns\<close>), so the branch for an exception is not reached.
\<close>

fun supervise :: "('b action list \<times> bool \<times> bool) list \<Rightarrow> bool \<Rightarrow> 'b ctl \<Rightarrow> int \<times> 'b ctl" where
  "supervise [] failed s = (EXIT_OK, s)"
| "supervise ((acts, stop, written) # ticks) failed s =
     (case run_once stop written failed (run_methods acts s) of
        (Inr (Some code, _), t) \<Rightarrow> (code, t)
      | (Inr (None, failed'), t) \<Rightarrow> supervise ticks failed' t
      | (Inl e, t) \<Rightarrow> (EXIT_STARTUP, t))"

definition run :: "'b action list \<Rightarrow> 'b ctl \<Rightarrow> 'b ctl" where
  "run acts s = fold (\<lambda>a s. snd (run_action a s)) acts s"

lemma run_methods_keeps: "(\<And>a. keeps I (method_of a)) \<Longrightarrow> I s \<Longrightarrow> I (run_methods acts s)"
  unfolding run_methods_def by (induction acts arbitrary: s) (auto intro: keeps_final)

lemma reachable_run: "reachable s0 (run acts s0)"
proof -
  have "reachable s0 s \<Longrightarrow> reachable s0 (run acts s)" for s
    by (induction acts arbitrary: s) (auto simp: run_def intro: reachable.step)
  then show ?thesis by (blast intro: reachable.start)
qed

inductive_cases reachableE: "reachable s0 s"

end
