(* ===== verification/Controller_Steps.thy ===== *)
theory Controller_Steps
  imports Host
begin

text \<open>
  One traversal of the controller for every invariant. \<open>ctl_calm\<close> is the contract of a property that
  survives updates outside the ground of the state, the risk engine and the quotes, going HALTED, and
  quiet journal rows; \<open>ctl_quiet\<close> is its case for properties that do not look at the risk engine's
  counters or at the quotes; \<open>ctl_base\<close> adds the journal's transactions. Its extensions add the steps some
  properties need a reason for: leaving a mode (\<open>ctl_modes\<close>), a broker write (\<open>ctl_wire\<close>), or whole
  methods (\<open>ctl_drive\<close>). Each locale derives that the methods built from its steps keep the property;
  \<open>ctl_drive\<close> ends with every action.
\<close>

text \<open>The updates of everything but the ground are free.\<close>

definition same_ground :: "'b ctl \<Rightarrow> 'b ctl \<Rightarrow> bool" where
  "same_ground s t \<longleftrightarrow> ct_journal t = ct_journal s \<and> ct_clock t = ct_clock s
     \<and> ct_sha t = ct_sha s \<and> ct_uuid t = ct_uuid s \<and> ct_uuid_used s \<le> ct_uuid_used t
     \<and> ct_wire t = ct_wire s \<and> ct_mode t = ct_mode s
     \<and> ct_journal_restored t = ct_journal_restored s \<and> ct_running t = ct_running s
     \<and> re_config (ct_risk t) = re_config (ct_risk s)"

text \<open>The same, with the risk engine and the quotes left alone too.\<close>

definition calm_ground :: "'b ctl \<Rightarrow> 'b ctl \<Rightarrow> bool" where
  "calm_ground s t \<longleftrightarrow> same_ground s t \<and> ct_risk t = ct_risk s \<and> ct_quotes t = ct_quotes s"

lemmas calm_ground_defs = calm_ground_def same_ground_def

definition quiet :: "event \<Rightarrow> bool" where
  "quiet e \<longleftrightarrow> ev_type e \<notin> {TARGET_RECEIVED, EXECUTION_RECEIVED, PROCESS_STARTED}"

lemma quiet_types [simp]:
  "quiet (ev t p) \<longleftrightarrow> t \<notin> {TARGET_RECEIVED, EXECUTION_RECEIVED, PROCESS_STARTED}"
  "quiet (change t a b c) \<longleftrightarrow> t \<notin> {TARGET_RECEIVED, EXECUTION_RECEIVED, PROCESS_STARTED}"
  "quiet (for_leg k e) \<longleftrightarrow> quiet e" "quiet (for_intent i r e) \<longleftrightarrow> quiet e"
  "quiet (for_target t' e) \<longleftrightarrow> quiet e" "quiet (for_decision d e) \<longleftrightarrow> quiet e"
  "quiet (e\<lparr>ev_perm_id := p2\<rparr>) \<longleftrightarrow> quiet e" "quiet (e\<lparr>ev_exec_id := x\<rparr>) \<longleftrightarrow> quiet e"
  "quiet (e\<lparr>ev_order_ref := x\<rparr>) \<longleftrightarrow> quiet e" "quiet (e\<lparr>ev_intent_id := x\<rparr>) \<longleftrightarrow> quiet e"
  "quiet (intent_event k i' p3)" "quiet (send_event k i' pr)" "quiet (cancel_event k i' why)"
  by (simp_all add: quiet_def)

lemma keeps_zoom:
  assumes "\<And>s x. I s \<Longrightarrow> I (put x s)"
  shows "keeps I (zoom get put m)"
proof (rule keepsI)
  fix s assume "I s"
  then show "wp (zoom get put m) (\<lambda>_. I) (\<lambda>_. I) s"
    using assms by (auto simp: wp_def zoom_def split: prod.splits sum.splits)
qed

text \<open>The risk engine's operations change its counters only.\<close>

lemma config_kept:
  "re_config (snd (risk_check t i pos q closing r)) = re_config r"
  "re_config (snd (modP (record_sent t i price) r)) = re_config r"
  "re_config (snd (restore_from_events es r)) = re_config r"
  by (simp_all add: risk_check_def seqP_def bindP_def modP_def reads_def liftE_def record_sent_def
      restore_from_events_def ret_def raise_def split: prod.splits option.splits sum.splits)

section \<open>Elementary steps\<close>

locale ctl_calm =
  fixes I :: "'b ctl \<Rightarrow> bool"
  assumes calm: "I s \<Longrightarrow> calm_ground s t \<Longrightarrow> I t"
    and calm_halted: "I s \<Longrightarrow> I (s\<lparr>ct_mode := HALTED\<rparr>)"
    and calm_emitted: "quiet e \<Longrightarrow> keeps I (emit_seq e)"
begin

lemma keeps_calm: "(\<And>s. calm_ground s (f s)) \<Longrightarrow> keeps I (modP f)"
  by (rule keeps_modP) (rule calm)

lemma keeps_emit_seq [wp_intro]: "quiet e \<Longrightarrow> keeps I (emit_seq e)"
  by (rule calm_emitted)

lemma keeps_emit [wp_intro]: "quiet e \<Longrightarrow> keeps I (emit e)"
  unfolding emit_def by (intro wp_intro keeps_calm)

lemma keeps_alert [wp_intro]: "keeps I (alert level msg)"
  unfolding alert_def by (intro wp_intro keeps_calm) (simp add: calm_ground_defs)

lemma keeps_ensure_leg [wp_intro]: "keeps I (ensure_leg k)"
  unfolding ensure_leg_def by (intro wp_intro keeps_calm) (simp add: calm_ground_defs)

lemma keeps_on_leg [wp_intro]: "keeps I (on_leg k f)"
  unfolding on_leg_def by (intro wp_intro keeps_calm) (simp add: calm_ground_defs)

lemma keeps_in_fence [wp_intro]: "keeps I (in_fence f m)"
  unfolding in_fence_def by (rule keeps_zoom) (erule calm, simp add: calm_ground_defs)

lemma keeps_in_witness [wp_intro]: "keeps I (in_witness w m)"
  unfolding in_witness_def by (rule keeps_zoom) (erule calm, simp add: calm_ground_defs)

lemma keeps_ignore_unavailable [wp_intro]: "keeps I m \<Longrightarrow> keeps I (ignore_unavailable m)"
  unfolding ignore_unavailable_def by (intro wp_intro keeps_calm)

lemma keeps_raise_durable_fence [wp_intro]: "keeps I (raise_durable_fence d)"
  unfolding raise_durable_fence_def by (intro wp_intro keeps_calm) (simp add: calm_ground_defs)

lemma keeps_halted [wp_intro]:
  "(\<And>s. calm_ground (s\<lparr>ct_mode := HALTED\<rparr>) (f s)) \<Longrightarrow> keeps I (modP f)"
  by (rule keeps_modP) (blast intro: calm calm_halted)

lemma keeps_fail_closed_runtime [wp_intro]: "keeps I (fail_closed_runtime d b)"
  unfolding fail_closed_runtime_def
  by (intro keeps_block_Cons keeps_block_Nil keeps_halted keeps_whenP keeps_raise_durable_fence
      keeps_alert) (simp add: calm_ground_defs)

lemma keeps_fail_closed_journal [wp_intro]: "keeps I (fail_closed_journal c d)"
  unfolding fail_closed_journal_def
  by (intro keeps_reads keeps_Let keeps_block_Cons keeps_block_Nil keeps_calm
      keeps_fail_closed_runtime) (simp add: calm_ground_defs)

lemma keeps_witness_or_fence [wp_intro]: "keeps I (witness_or_fence seq b)"
  unfolding witness_or_fence_def witness_event_def by (intro wp_intro keeps_calm)

lemma keeps_witness_safety_critical [wp_intro]: "keeps I (witness_safety_critical seq d)"
  unfolding witness_safety_critical_def witness_event_def by (intro wp_intro keeps_calm)

lemma keeps_set_sync [wp_intro]: "keeps I (set_sync new why)"
  unfolding set_sync_def by (intro wp_intro keeps_calm) (simp_all add: calm_ground_defs)

lemma keeps_set_link [wp_intro]: "keeps I (set_link new why)"
  unfolding set_link_def by (intro wp_intro keeps_calm) (simp_all add: calm_ground_defs)

lemma keeps_set_halted [wp_intro]: "keeps I (set_mode HALTED why)"
  unfolding set_mode_def
  by (intro keeps_reads keeps_whenP keeps_seqP keeps_bindP keeps_halted keeps_block_Cons
      keeps_block_Nil keeps_emit_seq keeps_witness_safety_critical keeps_alert)
     (simp_all add: calm_ground_defs)

lemma keeps_halt [wp_intro]: "keeps I (halt why)"
  unfolding halt_def by (intro wp_intro keeps_calm) simp_all

lemma keeps_set_order_state [wp_intro]: "keeps I (set_order_state k new why)"
  unfolding set_order_state_def by (intro wp_intro keeps_calm) simp_all

lemma keeps_require [wp_intro]: "keeps I (require c n d)"
  unfolding require_def by (intro wp_intro keeps_calm) (simp_all add: calm_ground_defs)

lemma keeps_write_boundary [wp_intro]: "keeps I (write_boundary what)"
  unfolding write_boundary_def by (intro wp_intro keeps_calm)

lemma keeps_can_write [wp_intro]: "keeps I (can_write closing)"
  unfolding can_write_def by (intro wp_intro keeps_calm)

lemma keeps_guarded [wp_intro]:
  assumes "keeps I m"
  shows "keeps I (guarded name m)"
proof -
  have "keeps I (case e of InvariantViolation n d \<Rightarrow> raise e
      | JournalUnavailable d \<Rightarrow> fail_closed_journal name d
      | _ \<Rightarrow> block
       [ignore_unavailable (emit (ev CALLBACK_FAILURE
          [(''callback'', JStr name), (''detail'', exn_message e), (''tb'', JStr ''traceback'')])),
        halt (JFmt [JStr ''callback '', JStr name, JStr '' raised: '', exn_message e])])" for e
    by (cases e; simp; intro wp_intro; simp)
  then show ?thesis
    unfolding guarded_def by (intro keeps_catchP assms)
qed

lemma keeps_failing_closed [wp_intro]:
  assumes "keeps I m"
  shows "keeps I (failing_closed context m)"
proof -
  have "keeps I (case e of JournalUnavailable d \<Rightarrow> seqP (fail_closed_journal context d) (raise e)
      | _ \<Rightarrow> raise e)" for e
    by (cases e; simp; intro wp_intro)
  then show ?thesis
    unfolding failing_closed_def by (intro keeps_catchP assms)
qed

lemma keeps_miss [wp_intro]: "keeps I (miss t r d)"
  unfolding miss_def by (intro wp_intro keeps_calm) simp

lemma keeps_defer_target [wp_intro]: "keeps I (defer_target k r d)"
  unfolding defer_target_def by (intro wp_intro keeps_calm) simp

lemma keeps_drop_target [wp_intro]: "keeps I (drop_target k)"
  unfolding drop_target_def by (intro wp_intro keeps_calm)

lemma keeps_new_intent_id [wp_intro]: "keeps I new_intent_id"
  unfolding new_intent_id_def by (intro wp_intro keeps_calm) (simp add: calm_ground_defs)

lemma keeps_send_outcomes [wp_intro]:
  "keeps I (send_rejected k t i d)" "keeps I (send_uncertain k i d)"
  "keeps I (send_returned k i price n)" "keeps I (abandon_send k)" "keeps I (cancel_failed k i e)"
  unfolding send_rejected_def send_uncertain_def send_returned_def abandon_send_def cancel_failed_def
  by (intro wp_intro; simp)+

lemma keeps_refusals [wp_intro]:
  "keeps I (risk_refused k t i check d)" "keeps I (exhaust_attempts k t n)"
  unfolding risk_refused_def exhaust_attempts_def by (intro wp_intro; simp)+

end

locale ctl_quiet =
  fixes I :: "'b ctl \<Rightarrow> bool"
  assumes soft: "I s \<Longrightarrow> same_ground s t \<Longrightarrow> I t"
    and halted: "I s \<Longrightarrow> I (s\<lparr>ct_mode := HALTED\<rparr>)"
    and emitted: "quiet e \<Longrightarrow> keeps I (emit_seq e)"

sublocale ctl_quiet \<subseteq> ctl_calm
  by unfold_locales (auto simp: calm_ground_def intro: soft halted emitted)

context ctl_quiet
begin

lemma keeps_soft [wp_intro]: "(\<And>s. same_ground s (f s)) \<Longrightarrow> keeps I (modP f)"
  by (rule keeps_modP) (rule soft)

lemma keeps_in_risk:
  assumes "\<And>r. re_config (snd (m r)) = re_config r"
  shows "keeps I (in_risk m)"
proof (rule keepsI)
  fix s assume inv: "I s"
  have "I (s\<lparr>ct_risk := snd (m (ct_risk s))\<rparr>)"
    by (rule soft [OF inv]) (simp add: same_ground_def assms)
  then show "wp (in_risk m) (\<lambda>_. I) (\<lambda>_. I) s"
    by (auto simp: in_risk_def wp_def zoom_def split: prod.splits sum.splits)
qed

lemma keeps_risk [wp_intro]:
  "keeps I (in_risk (risk_check t i pos q closing))" "keeps I (in_risk (modP (record_sent t i price)))"
  "keeps I (in_risk (restore_from_events es))"
  by (rule keeps_in_risk, simp add: config_kept)+

lemma keeps_in_broker [wp_intro]: "keeps I (in_broker m)"
  unfolding in_broker_def by (rule keeps_zoom) (erule soft, simp add: same_ground_def)

lemma keeps_snapshot [wp_intro]: "keeps I snapshot"
  unfolding snapshot_def by (intro wp_intro)

lemma keeps_maybe_complete_flatten [wp_intro]: "keeps I (maybe_complete_flatten k src)"
  unfolding maybe_complete_flatten_def by (intro wp_intro) simp

lemma keeps_known_broker_intent [wp_intro]: "keeps I (known_broker_intent ref perm w)"
  unfolding known_broker_intent_def by (intro wp_intro) simp_all

lemma keeps_reconcile_failed [wp_intro]: "keeps I (reconcile_failed d why)"
  unfolding reconcile_failed_def by (intro wp_intro) simp

lemma keeps_close_absent [wp_intro]: "keeps I (close_absent refs ri)"
  unfolding close_absent_def by (intro wp_intro) simp_all

lemma keeps_rehydrate [wp_intro]: "keeps I (rehydrate actual obs intents)"
proof (induction obs arbitrary: intents)
  case Nil
  then show ?case by (simp add: keeps_ret)
next
  case (Cons ob obs)
  show ?case
    by (simp only: rehydrate.simps, intro wp_intro Cons.IH) simp_all
qed

lemma keeps_create_position_leg [wp_intro]: "keeps I (create_position_leg sq)"
  unfolding create_position_leg_def by (intro wp_intro)

lemma keeps_resolve_leg [wp_intro]: "keeps I (resolve_leg actual refs k)"
  unfolding resolve_leg_def by (intro wp_intro)

end

text \<open>With the journal's three special transactions.\<close>

locale ctl_base = ctl_quiet I for I :: "'b ctl \<Rightarrow> bool" +
  assumes target_accepted: "keeps I (journal_op (\<lambda>ck. accept_decision ck did p sid symb))"
    and execution_booked:
      "keeps I (journal_op (\<lambda>ck. commit_execution_once ck xid p symb ref pid))"
    and halt_acknowledged:
      "keeps I (journal_op (\<lambda>ck. acknowledge_halt ck n operator resolution))"
begin

lemma keeps_book_execution [wp_intro]: "keeps I (book_execution ex source)"
  unfolding book_execution_def
  by (intro wp_intro execution_booked)
     (simp_all add: same_ground_def execution_type_def split: if_splits)

lemma keeps_adopt_executions [wp_intro]: "keeps I (adopt_executions exs n)"
proof (induction exs arbitrary: n)
  case Nil
  then show ?case by (simp add: keeps_ret)
next
  case (Cons ex exs)
  then show ?case by (simp, intro wp_intro)
qed

lemma keeps_acknowledge [wp_intro]: "keeps I (controller_acknowledge_halt operator resolution)"
  unfolding controller_acknowledge_halt_def by (intro wp_intro halt_acknowledged)

end

section \<open>Trading\<close>

locale ctl_trading = ctl_base I for I :: "'b ctl \<Rightarrow> bool" +
  assumes evaluates [wp_intro]: "keeps I (evaluate k)"
    and requests [wp_intro]: "keeps I (request_cancel k why)"
begin

lemma keeps_maybe_cancel [wp_intro]: "keeps I (maybe_cancel_for_new_target k)"
  unfolding maybe_cancel_for_new_target_def by (auto intro!: wp_intro split: option.splits)

lemma keeps_submit_target [wp_intro]: "keeps I (submit_target t)"
  unfolding submit_target_def submit_target_impl_def
  by (intro wp_intro target_accepted) simp_all

lemma keeps_flatten [wp_intro]: "keeps I (flatten sid symb r)"
  unfolding flatten_def by (intro wp_intro)

lemma keeps_after_terminal [wp_intro]: "keeps I (after_terminal k)"
  unfolding after_terminal_def by (intro wp_intro)

lemma keeps_fill_live_order [wp_intro]: "keeps I (fill_live_order k i)"
  unfolding fill_live_order_def by (intro wp_intro) simp

lemma keeps_tick_leg [wp_intro]: "keeps I (tick_leg t k)"
  unfolding tick_leg_def by (intro wp_intro) simp

lemma keeps_accept_snapshot [wp_intro]: "keeps I (accept_snapshot b snap m)"
  unfolding accept_snapshot_def by (intro wp_intro) simp

lemma keeps_judge_snapshot [wp_intro]: "keeps I (judge_snapshot b snap)"
  unfolding judge_snapshot_def by (intro wp_intro) simp_all

lemma keeps_on_live_intent [wp_intro]: "keeps I (on_live_intent k f)"
  unfolding on_live_intent_def by (intro wp_intro)

lemma keeps_note_partial_expiry [wp_intro]: "keeps I (note_partial_expiry k ref)"
  unfolding note_partial_expiry_def by (intro wp_intro) simp

lemma keeps_with_known_leg [wp_intro]:
  "(\<And>k. keeps I (body k)) \<Longrightarrow> keeps I (with_known_leg ref w body)"
  unfolding with_known_leg_def by (intro wp_intro)

lemma keeps_on_ack [wp_intro]: "keeps I (on_ack ref n perm)"
  unfolding on_ack_def by (intro wp_intro) simp

lemma keeps_on_working [wp_intro]: "keeps I (on_working ref perm)"
  unfolding on_working_def by (intro wp_intro) simp

lemma keeps_on_execution [wp_intro]: "keeps I (on_execution ex)"
  unfolding on_execution_def by (intro wp_intro)

lemma keeps_on_fee [wp_intro]: "keeps I (on_fee xid c u)"
  unfolding on_fee_def by (intro wp_intro) (simp_all add: same_ground_def)

lemma keeps_on_rejected [wp_intro]: "keeps I (on_rejected ref reason)"
  unfolding on_rejected_def by (intro wp_intro) simp

lemma keeps_on_disconnected [wp_intro]: "keeps I (on_disconnected reason)"
  unfolding on_disconnected_def by (intro wp_intro)

lemma keeps_on_market_data [wp_intro]:
  "keeps I on_market_data_lost" "keeps I on_market_data_restored"
  unfolding on_market_data_lost_def on_market_data_restored_def
  by (intro wp_intro, simp add: same_ground_def) (intro wp_intro)

lemma keeps_on_quote [wp_intro]: "keeps I (on_quote q)"
  unfolding on_quote_def by (intro wp_intro) (simp add: same_ground_def)

end

text \<open>A property that a broker write keeps for whatever reason it was made.\<close>

locale ctl_wire = ctl_base I for I :: "'b ctl \<Rightarrow> bool" +
  assumes wired: "I s \<Longrightarrow> I (s\<lparr>ct_wire := ct_wire s @ [wire_entry c s]\<rparr>)"
begin

lemma keeps_place_order [wp_intro]: "keeps I (place_order i)"
  unfolding place_order_def by (intro keeps_seqP keeps_reads keeps_in_broker keeps_modP) (rule wired)

lemma keeps_cancel_order [wp_intro]: "keeps I (cancel_order ref)"
  unfolding cancel_order_def by (intro keeps_seqP keeps_reads keeps_in_broker keeps_modP) (rule wired)

lemma keeps_place_and_record [wp_intro]: "keeps I (place_and_record k t i price)"
  unfolding place_and_record_def by (intro wp_intro)

lemma keeps_cross_boundary [wp_intro]: "keeps I (cross_boundary k t i price n)"
  unfolding cross_boundary_def by (intro wp_intro)

lemma keeps_commit_and_place [wp_intro]: "keeps I (commit_and_place k t i evidence price)"
  unfolding commit_and_place_def by (intro wp_intro) simp_all

lemma keeps_send [wp_intro]: "keeps I (send k delta closing)"
  unfolding send_def by (intro wp_intro)

lemma keeps_cross_cancel [wp_intro]: "keeps I (cross_cancel k i why n)"
  unfolding cross_cancel_def by (intro wp_intro)

lemma keeps_request_cancel [wp_intro]: "keeps I (request_cancel k why)"
  unfolding request_cancel_def by (intro wp_intro) simp_all

lemma keeps_decide [wp_intro]: "keeps I (decide k t closing)"
  unfolding decide_def maybe_cancel_for_new_target_def
  by (auto intro!: wp_intro split: option.splits)

lemma keeps_evaluate [wp_intro]: "keeps I (evaluate k)"
  unfolding evaluate_def by (intro wp_intro)

end

sublocale ctl_wire \<subseteq> ctl_trading
  by unfold_locales (rule keeps_evaluate keeps_request_cancel)+

section \<open>Modes, boot, the end of the day\<close>

text \<open>A property that survives any change of mode and the restoration of a process.\<close>

locale ctl_modes = ctl_trading I for I :: "'b ctl \<Rightarrow> bool" +
  assumes moded: "I s \<Longrightarrow> I (s\<lparr>ct_mode := m\<rparr>)"
    and marked: "I s \<Longrightarrow> I (s\<lparr>ct_journal_restored := True\<rparr>)"
begin

lemma keeps_mode: "(\<And>s. \<exists>m. same_ground (s\<lparr>ct_mode := m\<rparr>) (f s)) \<Longrightarrow> keeps I (modP f)"
  by (rule keeps_modP) (metis soft moded)

lemma keeps_set_mode: "keeps I (set_mode new why)"
  unfolding set_mode_def
  by (intro keeps_reads keeps_whenP keeps_seqP keeps_bindP keeps_mode keeps_block_Cons
      keeps_block_Nil keeps_emit_seq keeps_witness_safety_critical keeps_alert)
     (auto simp: same_ground_def)

lemma keeps_restore: "keeps I restore_from_journal"
proof -
  have mode: "keeps I (modP (\<lambda>s. s\<lparr>ct_mode := m\<rparr>))" for m
    by (rule keeps_modP) (rule moded)
  have mark: "keeps I (modP (\<lambda>s. s\<lparr>ct_restored_positions := p, ct_journal_restored := True\<rparr>))" for p
  proof (rule keeps_modP)
    fix s assume "I s"
    from marked [OF this] show "I (s\<lparr>ct_restored_positions := p, ct_journal_restored := True\<rparr>)"
      by (rule soft) (simp add: same_ground_def)
  qed
  show ?thesis
    unfolding restore_from_journal_def
    by (intro keeps_reads keeps_if keeps_Let keeps_seqP keeps_bindP keeps_whenP keeps_case_option
        keeps_case_prod keeps_liftE keeps_ret keeps_risk keeps_forP keeps_ensure_leg keeps_on_leg
        mode mark keeps_alert keeps_emit keeps_block_Cons keeps_block_Nil keeps_soft)
       (simp_all add: same_ground_def)
qed

lemma keeps_record_residual: "keeps I record_eod_residual"
  unfolding record_eod_residual_def record_residual_leg_def
  by (intro wp_intro keeps_set_mode) (simp_all add: same_ground_def)

lemma keeps_check_eod: "keeps I check_eod"
  unfolding check_eod_def eod_flatten_leg_def escalate_leg_def
  by (intro wp_intro keeps_record_residual keeps_set_mode) simp_all

end

section \<open>Every action\<close>

locale ctl_drive = ctl_trading I for I :: "'b ctl \<Rightarrow> bool" +
  assumes restores [wp_intro]: "keeps I restore_from_journal"
    and ends_day [wp_intro]: "keeps I check_eod"
begin

lemma keeps_reconcile [wp_intro]: "keeps I (reconcile b)"
  unfolding reconcile_def reconcile_impl_def by (intro wp_intro) simp_all

lemma keeps_on_connected [wp_intro]: "keeps I (on_connected n)"
  unfolding on_connected_def by (intro wp_intro) (simp add: same_ground_def)

lemma keeps_on_cancelled [wp_intro]: "keeps I (on_cancelled ref)"
  unfolding on_cancelled_def by (intro wp_intro) simp

lemma keeps_on_cancel_rejected [wp_intro]: "keeps I (on_cancel_rejected ref reason)"
  unfolding on_cancel_rejected_def by (intro wp_intro) simp

lemma keeps_tick [wp_intro]: "keeps I tick"
  unfolding tick_def tick_impl_def by (intro wp_intro)

lemma keeps_unit_of [wp_intro]: "keeps I m \<Longrightarrow> keeps I (unit_of m)"
  unfolding unit_of_def by (intro wp_intro)

lemma keeps_method: "keeps I (method_of a)"
  by (cases a) (simp_all, (intro wp_intro)+)

end

sublocale ctl_modes \<subseteq> ctl_drive
  by unfold_locales (rule keeps_restore keeps_check_eod)+

text \<open>With the environment's steps: an invariant of every reachable state.\<close>

locale ctl_machine = ctl_drive I for I :: "'b ctl \<Rightarrow> bool" +
  assumes environment: "keeps I (environment_of a)"
begin

lemma keeps_action: "keeps I (run_action a)"
  unfolding run_action_def by (intro wp_intro keeps_method environment)

lemma invariant: "reachable s0 s \<Longrightarrow> I s0 \<Longrightarrow> I s"
  by (induction rule: reachable.induct) (auto intro: keeps_final [OF keeps_action])

end

text \<open>The environment's steps in terms of the fields they touch.\<close>

locale ctl_process = ctl_drive I for I :: "'b ctl \<Rightarrow> bool" +
  assumes reset: "I s \<Longrightarrow> I (fresh_fields cfg s)"
    and opened: "I s \<Longrightarrow> I (s\<lparr>ct_journal := open_journal f outs (ct_journal s)\<rparr>)"
    and closed: "I s \<Longrightarrow> I (s\<lparr>ct_journal := close_journal (ct_journal s)\<rparr>)"
    and died: "I s \<Longrightarrow> I (s\<lparr>ct_running := False,
      ct_journal := wal_recover n (close_journal (ct_journal s))\<rparr>)"
    and up: "I s \<Longrightarrow> I (s\<lparr>ct_running := True\<rparr>)"
    and clocked: "I s \<Longrightarrow> I (s\<lparr>ct_clock := ck\<rparr>)"
    and scripted: "I s \<Longrightarrow> I (s\<lparr>ct_journal := (ct_journal s)\<lparr>j_outcomes := outs\<rparr>\<rparr>)"
begin

lemma keeps_close_journal [wp_intro]: "keeps I close_ctl_journal"
  by (auto simp: close_ctl_journal_def in_journal_def keeps_def wp_simps intro: closed)

lemma keeps_gate_ownership [wp_intro]: "keeps I (gate_ownership hc)"
  by (auto simp: gate_ownership_def in_journal_def keeps_def wp_simps intro: opened)

lemma keeps_gate_witness [wp_intro]: "keeps I gate_witness"
  unfolding gate_witness_def by (intro wp_intro)

lemma keeps_construct [wp_intro]: "keeps I (construct_controller cfg)"
proof -
  have "keeps I (modP (fresh_fields cfg))"
    by (rule keeps_modP) (rule reset)
  then show ?thesis
    unfolding construct_controller_def
    by (intro keeps_seqP keeps_reads keeps_bindP keeps_liftE keeps_block_Cons keeps_block_Nil
        keeps_emit) simp_all
qed

lemma keeps_host_start [wp_intro]: "keeps I (host_start hc)"
proof -
  have "keeps I (modP (\<lambda>s. s\<lparr>ct_running := True\<rparr>))"
    by (rule keeps_modP) (rule up)
  then show ?thesis
    unfolding host_start_def
    by (intro keeps_reads keeps_seqP keeps_bindP keeps_block_Cons keeps_block_Nil keeps_liftE
        keeps_catchP keeps_if keeps_case_option keeps_ret keeps_raise keeps_alert restores keeps_gate_ownership
        keeps_gate_witness keeps_close_journal keeps_construct)
qed

lemma keeps_environment: "keeps I (environment_of a)"
proof (cases a)
  case (Advance d)
  then show ?thesis by (simp, intro keeps_modP clocked)
next
  case (Set_clock t)
  then show ?thesis by (simp, intro keeps_modP clocked)
next
  case (Broker_moves b)
  then show ?thesis by (simp, intro wp_intro) (simp add: same_ground_def)
next
  case (Storage outs)
  then show ?thesis
    by (auto simp: in_journal_def keeps_def wp_simps intro: scripted)
next
  case (Restart n hc)
  have "keeps I (modP (\<lambda>s. s\<lparr>ct_running := False,
      ct_journal := wal_recover n (close_journal (ct_journal s))\<rparr>))"
    by (rule keeps_modP) (rule died)
  with Restart show ?thesis by (simp, intro keeps_seqP keeps_host_start)
next
  case (Fence_acknowledged x y)
  then show ?thesis by (simp add: unit_of_def, intro wp_intro)
next
  case (Fence_retired b)
  then show ?thesis by (simp add: retire_fence_after_reconciliation_def, intro wp_intro)
qed (simp_all add: keeps_ret)

end

sublocale ctl_process \<subseteq> ctl_machine
  by unfold_locales (rule keeps_environment)

end
