(* ===== verification/Controller_Wire.thy ===== *)
theory Controller_Wire
  imports Controller_Steps
begin

text \<open>
  What every broker write looks like. \<open>entry_ok\<close> is the contract of one entry of the wire history:
  the gate was open, the authorising events were durable in the right order, and the witness, when
  there is one, had pinned exactly the last of them. \<open>wire_inv\<close> says it of the whole history; the
  proof follows a send from the gate to the broker with the context \<open>armed\<close>.
\<close>

section \<open>The contract of a broker write\<close>

definition opens_risk :: "order_intent \<Rightarrow> bool" where
  "opens_risk i \<longleftrightarrow> \<not> is_closing (oi_target_quantity i) (oi_position_snapshot i)"

definition mode_allows :: "order_intent \<Rightarrow> operating_mode \<Rightarrow> bool" where
  "mode_allows i m \<longleftrightarrow> m \<noteq> HALTED \<and> (opens_risk i \<longrightarrow> m = NORMAL)
     \<and> (m = FLATTEN_ONLY \<longrightarrow> oi_target_quantity i = 0)"

definition is_intent_of :: "order_intent \<Rightarrow> event \<Rightarrow> bool" where
  "is_intent_of i e \<longleftrightarrow> ev_type e = ORDER_INTENT_COMMITTED \<and> ev_intent_id e = Some (oi_intent_id i)
     \<and> ev_order_ref e = Some (oi_order_ref i) \<and> from_payload (ev_payload e) = Inr i"

definition is_send_of :: "order_intent \<Rightarrow> event \<Rightarrow> bool" where
  "is_send_of i e \<longleftrightarrow> ev_type e = SEND_ATTEMPT_STARTED \<and> ev_intent_id e = Some (oi_intent_id i)
     \<and> ev_order_ref e = Some (oi_order_ref i)"

definition is_cancel_of :: "string \<Rightarrow> event \<Rightarrow> bool" where
  "is_cancel_of ref e \<longleftrightarrow> ev_type e = CANCEL_REQUESTED \<and> ev_order_ref e = Some ref"

text \<open>The durable intent precedes the durable send attempt \<open>e\<close>.\<close>

definition send_authorised :: "order_intent \<Rightarrow> event \<Rightarrow> event list \<Rightarrow> bool" where
  "send_authorised i e rows \<longleftrightarrow> is_send_of i e \<and>
     (\<exists>a b. rows = a @ e # b \<and> (\<exists>d \<in> set a. is_intent_of i d))"

definition witnessed ::
  "(jval \<Rightarrow> string) \<Rightarrow> string \<Rightarrow> event \<Rightarrow> witness_record file_content option \<Rightarrow> bool" where
  "witnessed sha jid e w \<longleftrightarrow> w = None \<or> (\<exists>t. w = Some (Holds (witness_of sha jid (ev_seq e) t e)))"

definition entry_ok :: "(jval \<Rightarrow> string) \<Rightarrow> wire_entry \<Rightarrow> bool" where
  "entry_ok sha w \<longleftrightarrow> we_link w = CONNECTED \<and> we_sync w = SYNCED \<and> we_healthy w
     \<and> (case we_call w of
          Place i \<Rightarrow> mode_allows i (we_mode w) \<and> we_now w < oi_valid_until i
            \<and> (\<exists>e. send_authorised i e (we_rows w) \<and> witnessed sha (we_identity w) e (we_witness w))
        | Cancel ref \<Rightarrow> we_mode w \<noteq> HALTED
            \<and> (\<exists>e \<in> set (we_rows w). is_cancel_of ref e \<and> witnessed sha (we_identity w) e (we_witness w)))"

definition wire_inv :: "(jval \<Rightarrow> string) \<Rightarrow> 'b ctl \<Rightarrow> bool" where
  "wire_inv sha s \<longleftrightarrow> ct_sha s = sha \<and> numbered (j_rows (ct_journal s))
     \<and> (\<forall>w \<in> set (ct_wire s). entry_ok sha w)"

section \<open>Elementary steps\<close>

lemma wp_emit_seq:
  assumes "\<And>j'. committed (stamped (ct_clock s) (ct_journal s) e) (ct_journal s) j' \<Longrightarrow>
      Q (int (length (j_rows (ct_journal s))) + 1) (s\<lparr>ct_journal := j'\<rparr>)"
    and "\<And>d j'. lost (stamped (ct_clock s) (ct_journal s) e) (ct_journal s) j' \<Longrightarrow>
      E (JournalUnavailable d) (s\<lparr>ct_journal := j'\<rparr>)"
  shows "wp (emit_seq e) Q E s"
  unfolding emit_seq_def journal_op_def in_journal_def wp_reads wp_zoom
  using assms by (intro wp_commit)

lemma wp_emit:
  assumes "\<And>j'. committed (stamped (ct_clock s) (ct_journal s) e) (ct_journal s) j' \<Longrightarrow>
      Q () (s\<lparr>ct_journal := j'\<rparr>)"
    and "\<And>d j'. lost (stamped (ct_clock s) (ct_journal s) e) (ct_journal s) j' \<Longrightarrow>
      E (JournalUnavailable d) (s\<lparr>ct_journal := j'\<rparr>)"
  shows "wp (emit e) Q E s"
  unfolding emit_def wp_bindP
  by (rule wp_emit_seq) (auto simp: wp_ret intro: assms)

lemma wire_inv_journal:
  "wire_inv sha s \<Longrightarrow> j_rows j' = j_rows (ct_journal s) \<or>
     (\<exists>e. j_rows j' = j_rows (ct_journal s) @ [e] \<and> ev_seq e = int (length (j_rows (ct_journal s))) + 1) \<Longrightarrow>
     wire_inv sha (s\<lparr>ct_journal := j'\<rparr>)"
  by (auto simp: wire_inv_def)

interpretation wire_base: ctl_base "wire_inv sha" for sha
proof unfold_locales
  fix s t :: "'b ctl" assume "wire_inv sha s" "same_ground s t"
  then show "wire_inv sha t" by (simp add: wire_inv_def same_ground_def)
next
  fix s :: "'b ctl" assume "wire_inv sha s"
  then show "wire_inv sha (s\<lparr>ct_mode := HALTED\<rparr>)" by (simp add: wire_inv_def)
next
  fix e show "keeps (wire_inv sha) (emit_seq e :: ('b ctl, int) prog)"
    by (rule keepsI, rule wp_emit_seq) (auto simp: committed_def lost_def intro!: wire_inv_journal)
next
  fix did p sid symb
  show "keeps (wire_inv sha) (journal_op (\<lambda>ck. accept_decision ck did p sid symb) :: ('b ctl, bool) prog)"
    unfolding journal_op_def in_journal_def
    by (rule keepsI, simp only: wp_reads wp_zoom, rule wp_accept_decision)
       (auto simp: accepted_def unchanged_def intro!: wire_inv_journal)
next
  fix xid p symb ref pid
  show "keeps (wire_inv sha)
      (journal_op (\<lambda>ck. commit_execution_once ck xid p symb ref pid) :: ('b ctl, bool) prog)"
    unfolding journal_op_def in_journal_def
    by (rule keepsI, simp only: wp_reads wp_zoom, rule wp_commit_execution_once)
       (auto simp: booked_def unchanged_def intro!: wire_inv_journal)
next
  fix n a b
  show "keeps (wire_inv sha) (journal_op (\<lambda>ck. acknowledge_halt ck n a b) :: ('b ctl, int) prog)"
    unfolding journal_op_def in_journal_def
    by (rule keepsI, simp only: wp_reads wp_zoom, rule wp_acknowledge_halt)
       (auto simp: committed_def lost_def unchanged_def intro!: wire_inv_journal)
qed

section \<open>From the gate to the broker\<close>

definition gate_open :: "bool \<Rightarrow> 'b ctl \<Rightarrow> bool" where
  "gate_open closing s \<longleftrightarrow> is_healthy (ct_journal s) \<and> ct_link s = CONNECTED \<and> ct_sync s = SYNCED
     \<and> ct_mode s \<noteq> HALTED \<and> (\<not> closing \<longrightarrow> ct_mode s = NORMAL)"

lemma wp_any: "wp m (\<lambda>_ _. True) (\<lambda>_ _. True) s"
  by (auto simp: wp_def split: prod.splits sum.splits)

lemma wp_can_write:
  assumes "gate_open closing s \<Longrightarrow> Q (True, None) s"
    and "\<And>m t. (I t :: bool) \<Longrightarrow> Q (False, m) t" and "\<And>e t. I t \<Longrightarrow> E e t"
    and "keeps I (can_write closing)" and "I s"
  shows "wp (can_write closing) Q E s"
proof -
  have "wp (can_write closing) 
      (\<lambda>r t. r = (True, None) \<and> gate_open closing s \<and> t = s \<or> (\<exists>m. r = (False, m))) (\<lambda>_ _. True) s"
    by (simp add: can_write_def wp_simps gate_open_def wp_any)
  from wp_conj [OF this keepsD [OF assms(4,5)]] show ?thesis
    by (rule wp_mono) (use assms(1-3) in auto)
qed

text \<open>The context between the gate and the broker; \<open>R\<close> is what is known of the rows.\<close>

definition armed :: "(jval \<Rightarrow> string) \<Rightarrow> (operating_mode \<Rightarrow> bool) \<Rightarrow> time \<Rightarrow> (event list \<Rightarrow> bool) \<Rightarrow> 'b ctl \<Rightarrow> bool" where
  "armed sha M vu R s \<longleftrightarrow> wire_inv sha s \<and> is_healthy (ct_journal s) \<and> ct_link s = CONNECTED
     \<and> ct_sync s = SYNCED \<and> M (ct_mode s) \<and> now s < vu \<and> R (j_rows (ct_journal s))"

definition grows :: "(event list \<Rightarrow> bool) \<Rightarrow> bool" where
  "grows R \<longleftrightarrow> (\<forall>rows e. R rows \<longrightarrow> R (rows @ [e]))"

lemma armed_wire: "armed sha M vu R s \<Longrightarrow> wire_inv sha s"
  by (simp add: armed_def)

lemma armed_emit_seq:
  assumes "armed sha M vu R s"
    and "\<And>e'. ev_type e' = ev_type e \<Longrightarrow> ev_payload e' = ev_payload e \<Longrightarrow>
      ev_intent_id e' = ev_intent_id e \<Longrightarrow> ev_order_ref e' = ev_order_ref e \<Longrightarrow>
      ev_seq e' = int (length (j_rows (ct_journal s))) + 1 \<Longrightarrow> R (j_rows (ct_journal s)) \<Longrightarrow>
      R' (int (length (j_rows (ct_journal s))) + 1) (j_rows (ct_journal s) @ [e'])"
  shows "wp (emit_seq e) (\<lambda>n. armed sha M vu (R' n)) (\<lambda>_. wire_inv sha) s"
proof (rule wp_emit_seq)
  fix j' assume c: "committed (stamped (ct_clock s) (ct_journal s) e) (ct_journal s) j'"
  then have "wire_inv sha (s\<lparr>ct_journal := j'\<rparr>)"
    using assms(1) by (auto simp: armed_def committed_def intro!: wire_inv_journal)
  with c assms show "armed sha M vu (R' (int (length (j_rows (ct_journal s))) + 1)) (s\<lparr>ct_journal := j'\<rparr>)"
    by (auto simp: armed_def committed_def now_def)
next
  fix d j' assume "lost (stamped (ct_clock s) (ct_journal s) e) (ct_journal s) j'"
  then show "wire_inv sha (s\<lparr>ct_journal := j'\<rparr>)"
    using assms(1) by (auto simp: armed_def lost_def intro!: wire_inv_journal)
qed

lemma armed_emit:
  assumes "armed sha M vu R s" and "grows R"
  shows "wp (emit e) (\<lambda>_. armed sha M vu R) (\<lambda>_. wire_inv sha) s"
  unfolding emit_def wp_bindP
  by (rule wp_mono [OF armed_emit_seq [OF assms(1), where R' = "\<lambda>_. R"]])
     (use assms(2) in \<open>auto simp: grows_def wp_ret\<close>)

lemma armed_on_leg:
  assumes "armed sha M vu R s"
  shows "wp (on_leg k f) (\<lambda>_. armed sha M vu R) (\<lambda>_. wire_inv sha) s"
  using assms by (simp add: on_leg_def wp_simps armed_def wire_inv_def now_def)

lemma armed_in_risk:
  assumes "armed sha M vu R s"
  shows "wp (in_risk (modP f)) (\<lambda>_. armed sha M vu R) (\<lambda>_. wire_inv sha) s"
  using assms by (simp add: in_risk_def wp_simps armed_def wire_inv_def now_def)

lemma armed_set_order_state:
  assumes "armed sha M vu R s" and "grows R" and "new \<notin> set UNTRUSTWORTHY_ORDER_STATES"
  shows "wp (set_order_state k new why) (\<lambda>_. armed sha M vu R) (\<lambda>_. wire_inv sha) s"
proof -
  have "wp (on_leg k (\<lambda>l. l\<lparr>lg_order_state := new\<rparr>))
      (\<lambda>_. wp (emit e) (\<lambda>_. armed sha M vu R) (\<lambda>_. wire_inv sha)) (\<lambda>_. wire_inv sha) s" for e
    by (rule wp_mono [OF armed_on_leg [OF assms(1)]]) (auto intro: armed_emit assms(2))
  with assms(1,3) show ?thesis
    by (simp add: set_order_state_def wp_simps)
qed

lemma armed_boundary:
  assumes "armed sha M vu R s"
  shows "wp (write_boundary what) Q E s = Q () s"
  using assms by (simp add: write_boundary_def require_def wp_simps armed_def)

text \<open>A successful witness pins the event at the sequence it was asked for.\<close>

lemma wp_witness_or_fence:
  assumes "wire_inv sha s"
    and "\<And>t. armed sha M vu R s \<Longrightarrow> armed sha M vu R t \<Longrightarrow> ct_journal t = ct_journal s \<Longrightarrow>
      (ct_witness t = None \<or> (\<exists>w e u. ct_witness t = Some w \<and> event_at (ct_journal s) n = Some e
        \<and> sc_target (jw_file w) = Holds (witness_of sha (journal_id (ct_journal s)) n u e))) \<Longrightarrow> Q True t"
    and "\<And>t. wire_inv sha t \<Longrightarrow> Q False t" and "\<And>e t. wire_inv sha t \<Longrightarrow> E e t"
    and "armed sha M vu R s"
  shows "wp (witness_or_fence n b) Q E s"
proof (cases "ct_witness s")
  case None
  then show ?thesis
    using assms(2) [of s] assms(5) by (simp add: witness_or_fence_def wp_simps)
next
  case (Some w)
  have sha: "ct_sha s = sha" using assms(1) by (simp add: wire_inv_def)
  have fail: "wp (fail_closed_runtime d False) (\<lambda>_. Q False) E t" if "wire_inv sha t" for d t
    by (rule wp_mono [OF keepsD [OF wire_base.keeps_fail_closed_runtime that]]) (auto intro: assms(3,4))
  have put: "armed sha M vu R (s\<lparr>ct_witness := Some w'\<rparr>)" for w'
    using assms(5) by (simp add: armed_def wire_inv_def now_def)
  have "wp (witness_event n s w) (\<lambda>_. Q True)
      (\<lambda>e t. wp (fail_closed_runtime (d e) False) (\<lambda>_. Q False) E t) s" for d
    unfolding witness_event_def in_witness_def wp_zoom record_witness_def sha
    by (rule wp_record_with)
       (auto intro!: assms(2) [OF assms(5) put] fail armed_wire [OF put])
  with Some show ?thesis
    by (simp add: witness_or_fence_def wp_simps)
qed

text \<open>What is known of the rows: the intent is durable; then the send attempt \<open>n\<close> as well.\<close>

definition intent_durable :: "order_intent \<Rightarrow> event list \<Rightarrow> bool" where
  "intent_durable i rows \<longleftrightarrow> (\<exists>d \<in> set rows. is_intent_of i d)"

definition send_durable :: "order_intent \<Rightarrow> int \<Rightarrow> event list \<Rightarrow> bool" where
  "send_durable i n rows \<longleftrightarrow> (\<exists>e. find (\<lambda>x. ev_seq x = n) rows = Some e \<and> send_authorised i e rows)"

definition cancel_durable :: "string \<Rightarrow> int \<Rightarrow> event list \<Rightarrow> bool" where
  "cancel_durable ref n rows \<longleftrightarrow>
     (\<exists>e. find (\<lambda>x. ev_seq x = n) rows = Some e \<and> is_cancel_of ref e)"

lemma grows_facts [simp]:
  "grows (intent_durable i)" "grows (send_durable i n)" "grows (cancel_durable ref n)"
  "grows (\<lambda>_. True)"
proof -
  have "send_authorised i e rows \<Longrightarrow> send_authorised i e (rows @ [x])" for e rows x
    unfolding send_authorised_def by (metis append_Cons append_assoc)
  then show "grows (send_durable i n)"
    by (fastforce simp: grows_def send_durable_def find_append)
qed (auto simp: grows_def intent_durable_def cancel_durable_def find_append)

lemma find_last_numbered:
  assumes "numbered rows" and "ev_seq e = int (length rows) + 1"
  shows "find (\<lambda>x. ev_seq x = int (length rows) + 1) (rows @ [e]) = Some e"
  using find_numbered [of "rows @ [e]" "length rows"] assms by simp

lemma is_intent_of_event:
  "ev_type e' = ev_type (intent_event k i p) \<Longrightarrow> ev_payload e' = ev_payload (intent_event k i p) \<Longrightarrow>
   ev_intent_id e' = ev_intent_id (intent_event k i p) \<Longrightarrow>
   ev_order_ref e' = ev_order_ref (intent_event k i p) \<Longrightarrow> is_intent_of i e'"
  by (simp add: is_intent_of_def from_to_payload_append)

lemma wired_ok:
  assumes "wire_inv sha s" and "entry_ok sha (wire_entry c s)"
  shows "wire_inv sha (s\<lparr>ct_wire := ct_wire s @ [wire_entry c s]\<rparr>)"
  using assms by (auto simp: wire_inv_def)

text \<open>The state at the broker call: the context and a witness that agrees with the journal.\<close>

definition pinned :: "(jval \<Rightarrow> string) \<Rightarrow> int \<Rightarrow> 'b ctl \<Rightarrow> bool" where
  "pinned sha n s \<longleftrightarrow> ct_witness s = None \<or>
     (\<exists>w e u. ct_witness s = Some w \<and> event_at (ct_journal s) n = Some e
        \<and> sc_target (jw_file w) = Holds (witness_of sha (journal_id (ct_journal s)) n u e))"

lemma pinned_witnessed:
  assumes "pinned sha n s" and "find (\<lambda>x. ev_seq x = n) (j_rows (ct_journal s)) = Some e"
  shows "witnessed sha (journal_id (ct_journal s)) e (map_option (\<lambda>w. sc_target (jw_file w)) (ct_witness s))"
proof -
  have "ev_seq e = n" using assms(2) by (auto simp: find_Some_iff)
  with assms show ?thesis
    by (auto simp: pinned_def witnessed_def event_at_def)
qed

lemma place_entry_ok:
  assumes "armed sha (mode_allows i) (oi_valid_until i) (send_durable i n) s" and "pinned sha n s"
  shows "entry_ok sha (wire_entry (Place i) s)"
proof -
  obtain e where e: "find (\<lambda>x. ev_seq x = n) (j_rows (ct_journal s)) = Some e"
    "send_authorised i e (j_rows (ct_journal s))"
    using assms(1) by (auto simp: armed_def send_durable_def)
  with pinned_witnessed [OF assms(2) e(1)] assms(1) show ?thesis
    by (auto simp: entry_ok_def wire_entry_def armed_def)
qed

lemma cancel_entry_ok:
  assumes "armed sha (\<lambda>m. m \<noteq> HALTED) vu (cancel_durable ref n) s" and "pinned sha n s"
  shows "entry_ok sha (wire_entry (Cancel ref) s)"
proof -
  obtain e where e: "find (\<lambda>x. ev_seq x = n) (j_rows (ct_journal s)) = Some e" "is_cancel_of ref e"
    using assms(1) by (auto simp: armed_def cancel_durable_def)
  then have "e \<in> set (j_rows (ct_journal s))"
    by (auto simp: find_Some_iff)
  with e pinned_witnessed [OF assms(2) e(1)] assms(1) show ?thesis
    by (auto simp: entry_ok_def wire_entry_def armed_def)
qed

lemma wp_place_order:
  assumes "wire_inv sha s" and "entry_ok sha (wire_entry (Place i) s)"
  shows "wp (place_order i) (\<lambda>_. wire_inv sha) (\<lambda>_. wire_inv sha) s"
  unfolding place_order_def wp_seqP wp_modP wp_reads
  by (rule keepsD [OF wire_base.keeps_in_broker]) (rule wired_ok [OF assms])

lemma wp_cancel_order:
  assumes "wire_inv sha s" and "entry_ok sha (wire_entry (Cancel ref) s)"
  shows "wp (cancel_order ref) (\<lambda>_. wire_inv sha) (\<lambda>_. wire_inv sha) s"
  unfolding cancel_order_def wp_seqP wp_modP wp_reads
  by (rule keepsD [OF wire_base.keeps_in_broker]) (rule wired_ok [OF assms])

lemma wp_place_and_record:
  assumes "armed sha (mode_allows i) (oi_valid_until i) (send_durable i n) s" and "pinned sha n s"
  shows "wp (place_and_record k t i price) (\<lambda>_. wire_inv sha) (\<lambda>_. wire_inv sha) s"
proof -
  have "wp (attemptP (place_order i) send_exception) (\<lambda>_. wire_inv sha) (\<lambda>_. wire_inv sha) s"
    unfolding wp_attemptP
    by (rule wp_mono [OF wp_place_order [OF armed_wire [OF assms(1)] place_entry_ok [OF assms]]])
       (auto split: option.splits)
  then show ?thesis
    unfolding place_and_record_def wp_bindP
    by (rule wp_mono)
       (auto split: sum.splits intro!: keepsD [OF wire_base.keeps_send_outcomes(1)]
          keepsD [OF wire_base.keeps_send_outcomes(2)] keepsD [OF wire_base.keeps_send_outcomes(3)])
qed

lemma wp_cross_boundary:
  assumes "armed sha (mode_allows i) (oi_valid_until i) (send_durable i n) s"
  shows "wp (cross_boundary k t i price n) (\<lambda>_. wire_inv sha) (\<lambda>_. wire_inv sha) s"
proof -
  let ?A = "armed sha (mode_allows i) (oi_valid_until i) (send_durable i n)"
  let ?last = "bindP (witness_or_fence n ''place_order'')
      (\<lambda>ok. if \<not> ok then abandon_send k else place_and_record k t i price)"
  have last: "wp ?last (\<lambda>_. wire_inv sha) (\<lambda>_. wire_inv sha) u" if u: "?A u" for u
    unfolding wp_bindP
  proof (rule wp_witness_or_fence [OF armed_wire [OF u] _ _ _ u])
    fix v assume "?A v" "ct_journal v = ct_journal u"
      "ct_witness v = None \<or> (\<exists>w e x. ct_witness v = Some w \<and> event_at (ct_journal u) n = Some e
        \<and> sc_target (jw_file w) = Holds (witness_of sha (journal_id (ct_journal u)) n x e))"
    then show "wp (if \<not> True then abandon_send k else place_and_record k t i price)
        (\<lambda>_. wire_inv sha) (\<lambda>_. wire_inv sha) v"
      by (simp add: wp_place_and_record pinned_def)
  qed (auto intro: keepsD [OF wire_base.keeps_send_outcomes(4)])
  have risk: "wp (in_risk (modP f)) (\<lambda>_. wp ?last (\<lambda>_. wire_inv sha) (\<lambda>_. wire_inv sha))
      (\<lambda>_. wire_inv sha) u" if "?A u" for u f
    by (rule wp_mono [OF armed_in_risk [OF that]]) (auto intro: last)
  show ?thesis
    unfolding cross_boundary_def wp_seqP wp_block_Cons wp_block_Nil
    by (rule wp_mono [OF armed_set_order_state [OF assms]])
       (auto simp: untrustworthy_iff armed_boundary wp_block_fun wp_reads intro: risk)
qed

lemma wp_commit_and_place:
  assumes "armed sha (mode_allows i) (oi_valid_until i) (\<lambda>_. True) s"
  shows "wp (commit_and_place k t i evidence price) (\<lambda>_. wire_inv sha) (\<lambda>_. wire_inv sha) s"
proof -
  let ?A = "\<lambda>R. armed sha (mode_allows i) (oi_valid_until i) R"
  have send: "wp (emit_seq (send_event k i price)) (\<lambda>n. ?A (send_durable i n)) (\<lambda>_. wire_inv sha) u"
    if u: "?A (intent_durable i) u" for u
  proof (rule armed_emit_seq [OF u])
    fix e' :: event assume e': "ev_type e' = ev_type (send_event k i price)"
      "ev_intent_id e' = ev_intent_id (send_event k i price)"
      "ev_order_ref e' = ev_order_ref (send_event k i price)"
      "ev_seq e' = int (length (j_rows (ct_journal u))) + 1"
      "intent_durable i (j_rows (ct_journal u))"
    have "numbered (j_rows (ct_journal u))"
      using u by (simp add: armed_def wire_inv_def)
    with e' show "send_durable i (int (length (j_rows (ct_journal u))) + 1) (j_rows (ct_journal u) @ [e'])"
      by (auto simp: send_durable_def find_last_numbered send_authorised_def is_send_of_def
          intent_durable_def)
  qed
  have tail: "wp (emit_seq (send_event k i price))
      (\<lambda>n. wp (cross_boundary k t i price n) (\<lambda>_. wire_inv sha) (\<lambda>_. wire_inv sha)) (\<lambda>_. wire_inv sha) u"
    if "?A (intent_durable i) u" for u
    by (rule wp_mono [OF send [OF that]]) (auto intro: wp_cross_boundary)
  have state: "wp (set_order_state k INTENT_COMMITTED why)
      (\<lambda>_. wp (emit_seq (send_event k i price))
        (\<lambda>n. wp (cross_boundary k t i price n) (\<lambda>_. wire_inv sha) (\<lambda>_. wire_inv sha)) (\<lambda>_. wire_inv sha))
      (\<lambda>_. wire_inv sha) u" if "?A (intent_durable i) u" for u why
    by (rule wp_mono [OF armed_set_order_state [OF that]]) (auto simp: untrustworthy_iff intro: tail)
  have leg: "wp (on_leg k f) (\<lambda>_. wp (set_order_state k INTENT_COMMITTED why)
      (\<lambda>_. wp (emit_seq (send_event k i price))
        (\<lambda>n. wp (cross_boundary k t i price n) (\<lambda>_. wire_inv sha) (\<lambda>_. wire_inv sha)) (\<lambda>_. wire_inv sha))
      (\<lambda>_. wire_inv sha)) (\<lambda>_. wire_inv sha) u" if "?A (intent_durable i) u" for u f why
    by (rule wp_mono [OF armed_on_leg [OF that]]) (auto intro: state)
  have "wp (emit_seq (intent_event k i evidence)) (\<lambda>_. ?A (intent_durable i)) (\<lambda>_. wire_inv sha) s"
    by (rule armed_emit_seq [OF assms]) (auto simp: intent_durable_def intro: is_intent_of_event)
  then show ?thesis
    unfolding commit_and_place_def emit_def wp_seqP wp_block_Cons wp_block_fun wp_bindP wp_bindP_fun
    by (rule wp_mono) (auto simp: wp_ret_fun wp_bindP_fun wp_block_fun intro: leg)
qed

section \<open>Sending and cancelling\<close>

lemma wp_send:
  assumes "wire_inv sha s" and "gate_open closing s"
    and "lg_desired_target (leg_of k s) = Some t" and "\<not> is_expired t (now s)"
    and "closing = is_closing (tp_target_quantity t) (lg_position (leg_of k s))"
    and "ct_mode s = FLATTEN_ONLY \<longrightarrow> tp_target_quantity t = 0"
  shows "wp (send k delta closing) (\<lambda>_. wire_inv sha) (\<lambda>_. wire_inv sha) s"
proof -
  define s1 where "s1 = s\<lparr>ct_uuid_used := Suc (ct_uuid_used s)\<rparr>"
  define i where "i = build_intent k t delta closing (ct_uuid s (ct_uuid_used s)) s1"
  have legs: "leg_of k s1 = leg_of k s"
    by (simp add: s1_def leg_of_def)
  have armed: "armed sha (mode_allows i) (oi_valid_until i) (\<lambda>_. True) (s1\<lparr>ct_risk := r\<rparr>)" for r
    using assms
    by (auto simp: armed_def wire_inv_def gate_open_def mode_allows_def opens_risk_def i_def
        build_intent_def Let_def legs [unfolded s1_def] is_expired_def now_def s1_def)
  have risk: "wp (in_risk m) (\<lambda>_ u. \<exists>r. u = s1\<lparr>ct_risk := r\<rparr>) (\<lambda>_ u. \<exists>r. u = s1\<lparr>ct_risk := r\<rparr>) s1" for m :: "(risk_engine, payload) prog"
    by (auto simp: in_risk_def wp_def zoom_def split: prod.splits sum.splits)
  have "wp (attemptP (in_risk m) risk_exception) (\<lambda>x. wp (case x of
        Inl (check, d) \<Rightarrow> risk_refused k t i check d
      | Inr evidence \<Rightarrow> commit_and_place k t i evidence price) (\<lambda>_. wire_inv sha) (\<lambda>_. wire_inv sha))
      (\<lambda>_. wire_inv sha) s1" for m price
    unfolding wp_attemptP
    by (rule wp_mono [OF risk])
       (auto split: option.splits intro!: wp_commit_and_place [OF armed] armed_wire [OF armed]
          keepsD [OF wire_base.keeps_refusals(1)])
  then show ?thesis
    by (simp add: send_def assms(3) wp_bindP wp_reads new_intent_id_def wp_seqP wp_modP wp_ret
        wp_option_fun flip: s1_def i_def)
qed

lemma wp_cross_cancel:
  assumes "armed sha (\<lambda>m. m \<noteq> HALTED) (now s + 1) (cancel_durable (oi_order_ref i) n) s"
  shows "wp (cross_cancel k i why n) (\<lambda>_. wire_inv sha) (\<lambda>_. wire_inv sha) s"
proof -
  let ?A = "armed sha (\<lambda>m. m \<noteq> HALTED) (now s + 1) (cancel_durable (oi_order_ref i) n)"
  let ?done = "\<lambda>r. case r of Inr _ \<Rightarrow> ret True | Inl e \<Rightarrow> cancel_failed k i e"
  let ?last = "bindP (witness_or_fence n ''cancel_order'') (\<lambda>ok.
       if \<not> ok then seqP
         (set_order_state k TERMINAL_UNRECONCILED (JStr ''witness unavailable'')) (ret False)
       else bindP (attemptP (cancel_order (oi_order_ref i)) Some) ?done)"
  have call: "wp (bindP (attemptP (cancel_order (oi_order_ref i)) Some) ?done)
      (\<lambda>_. wire_inv sha) (\<lambda>_. wire_inv sha) v" if "?A v" "pinned sha n v" for v
    unfolding wp_bindP wp_attemptP
    by (rule wp_mono [OF wp_cancel_order [OF armed_wire [OF that(1)] cancel_entry_ok [OF that]]])
       (auto simp: wp_ret intro: keepsD [OF wire_base.keeps_send_outcomes(5)])
  have give_up: "wp (seqP (set_order_state k TERMINAL_UNRECONCILED (JStr ''witness unavailable''))
      (ret False)) (\<lambda>_. wire_inv sha) (\<lambda>_. wire_inv sha) v" if "wire_inv sha v" for v
    by (rule keepsD [OF keeps_seqP [OF wire_base.keeps_set_order_state keeps_ret] that])
  have last: "wp ?last (\<lambda>_. wire_inv sha) (\<lambda>_. wire_inv sha) u" if u: "?A u" for u
    unfolding wp_bindP
  proof (rule wp_witness_or_fence [OF armed_wire [OF u] _ _ _ u])
    fix v assume "?A v" "ct_journal v = ct_journal u"
      "ct_witness v = None \<or> (\<exists>w e x. ct_witness v = Some w \<and> event_at (ct_journal u) n = Some e
        \<and> sc_target (jw_file w) = Holds (witness_of sha (journal_id (ct_journal u)) n x e))"
    then have "?A v" "pinned sha n v"
      by (simp_all add: pinned_def)
    from call [OF this] show "wp (if \<not> True then seqP
         (set_order_state k TERMINAL_UNRECONCILED (JStr ''witness unavailable'')) (ret False)
       else bindP (attemptP (cancel_order (oi_order_ref i)) Some) ?done)
        (\<lambda>_. wire_inv sha) (\<lambda>_. wire_inv sha) v"
      by simp
  qed (simp_all add: give_up)
  have leg: "wp (on_leg k f) (\<lambda>_. wp ?last (\<lambda>_. wire_inv sha) (\<lambda>_. wire_inv sha)) (\<lambda>_. wire_inv sha) u"
    if "?A u" for u f
    by (rule wp_mono [OF armed_on_leg [OF that]]) (auto intro: last)
  show ?thesis
    unfolding cross_cancel_def wp_seqP wp_block_Cons wp_block_Nil
    by (rule wp_mono [OF armed_set_order_state [OF assms]])
       (auto simp: untrustworthy_iff wp_block_fun wp_reads intro: leg)
qed

lemma keeps_wire_request_cancel: "keeps (wire_inv sha) (request_cancel k why)"
proof (rule keepsI)
  fix s :: "'b ctl" assume inv: "wire_inv sha s"
  have send: "wp (emit_seq (cancel_event k i why))
      (\<lambda>n. wp (cross_cancel k i why n) (\<lambda>_. wire_inv sha) (\<lambda>_. wire_inv sha)) (\<lambda>_. wire_inv sha) s"
    if "gate_open True s" for i
  proof -
    have armed: "armed sha (\<lambda>m. m \<noteq> HALTED) (now s + 1) (\<lambda>_. True) s"
      using that inv by (simp add: armed_def gate_open_def)
    have keep_now: "wp (emit_seq (cancel_event k i why)) (\<lambda>_ u. now u = now s) (\<lambda>_ _. True) s"
      by (rule wp_emit_seq) (simp_all add: now_def)
    have "wp (emit_seq (cancel_event k i why))
        (\<lambda>n. armed sha (\<lambda>m. m \<noteq> HALTED) (now s + 1) (cancel_durable (oi_order_ref i) n)) (\<lambda>_. wire_inv sha) s"
      using inv
      by (intro armed_emit_seq [OF armed])
         (auto simp: cancel_durable_def find_last_numbered is_cancel_of_def wire_inv_def)
    from wp_conj [OF this keep_now] show ?thesis
      by (rule wp_mono) (auto intro: wp_cross_cancel)
  qed
  have go: "wp (seqP (write_boundary ''cancel_order'') (bindP (emit_seq (cancel_event k i why))
      (cross_cancel k i why))) (\<lambda>_. wire_inv sha) (\<lambda>_. wire_inv sha) s" if "gate_open True s" for i
    using that send [OF that]
    by (simp add: wp_seqP wp_bindP_fun write_boundary_def require_def wp_reads wp_whenP gate_open_def)
  have blocked: "wp (seqP (alert a b) (ret False)) (\<lambda>_. wire_inv sha) (\<lambda>_. wire_inv sha) u"
    if "wire_inv sha u" for u :: "'b ctl" and a b
    by (rule keepsD [OF keeps_seqP [OF wire_base.keeps_alert keeps_ret] that])
  show "wp (request_cancel k why) (\<lambda>_. wire_inv sha) (\<lambda>_. wire_inv sha) s"
    unfolding request_cancel_def wp_reads
    using inv
    by (auto simp: wp_ret wp_bindP split: option.split
        intro!: wp_can_write [where I = "wire_inv sha"] wire_base.keeps_can_write go blocked)
qed

lemma keeps_wire_evaluate: "keeps (wire_inv sha) (evaluate k)"
proof (rule keepsI)
  fix s :: "'b ctl" assume inv: "wire_inv sha s"
  have keep: "keeps (wire_inv sha) m \<Longrightarrow> wp m (\<lambda>_. wire_inv sha) (\<lambda>_. wire_inv sha) s"
    for m :: "('b ctl, bool) prog"
    using inv by (simp add: keeps_def)
  have maybe: "keeps (wire_inv sha) (maybe_cancel_for_new_target k :: ('b ctl, bool) prog)"
    unfolding maybe_cancel_for_new_target_def
    by (auto intro!: wp_intro keeps_wire_request_cancel split: option.splits)
  have skip: "keeps (wire_inv sha) (seqP (block [miss t r d, drop_target k]) (ret b))"
    "keeps (wire_inv sha) (seqP (defer_target k r w) (ret b))"
    "keeps (wire_inv sha) (seqP (on_leg k f) (ret b))" for t r d b w f
    by (intro wp_intro wire_base.keeps_miss wire_base.keeps_drop_target wire_base.keeps_defer_target
        wire_base.keeps_on_leg)+
  have decide: "wp (decide k t closing) (\<lambda>_. wire_inv sha) (\<lambda>_. wire_inv sha) s"
    if "gate_open closing s" "lg_desired_target (leg_of k s) = Some t" "\<not> is_expired t (now s)"
      "closing = is_closing (tp_target_quantity t) (lg_position (leg_of k s))" for t closing
    unfolding decide_def wp_reads Let_def
    by (auto intro!: wp_send [OF inv that] keep [OF maybe] keep [OF skip(1)] keep [OF skip(2)]
        keep [OF skip(3)] keep [OF wire_base.keeps_refusals(2)] simp del: block.simps)
  show "wp (evaluate k) (\<lambda>_. wire_inv sha) (\<lambda>_. wire_inv sha) s"
  proof (cases "lg_desired_target (leg_of k s)")
    case None
    with inv show ?thesis by (simp add: evaluate_def wp_reads wp_ret)
  next
    case (Some t)
    let ?closing = "is_closing (tp_target_quantity t) (lg_position (leg_of k s))"
    have "wp (can_write ?closing) (\<lambda>r. wp (case r of (ok, m) \<Rightarrow> if \<not> ok then seqP
             (defer_target k (case m of Some r \<Rightarrow> r | None \<Rightarrow> MR_MODE_BLOCKED) []) (ret False)
           else decide k t ?closing) (\<lambda>_. wire_inv sha) (\<lambda>_. wire_inv sha)) (\<lambda>_. wire_inv sha) s"
      if "\<not> is_expired t (now s)"
      by (rule wp_can_write [where I = "wire_inv sha"])
         (auto intro: decide [OF _ Some that refl] keepsD [OF skip(2)] wire_base.keeps_can_write inv)
    with Some show ?thesis
      by (simp add: evaluate_def wp_reads Let_def wp_bindP keep [OF skip(1)] del: block.simps)
  qed
qed

end
