(* ===== verification/Ack_Halt.thy ===== *)
theory Ack_Halt
  imports Journal_Facts
begin

text \<open>
  The operator's tool (\<open>ack_halt.py\<close>): find the unacknowledged HALT and acknowledge exactly it. The
  command-line arguments and the outcome of opening the journal are arguments of \<open>ack_main\<close>; its
  value is the exit code. Printing is not modelled.
\<close>

record halt_info =
  hi_seq :: int
  hi_started_seq :: int
  hi_ts :: time
  hi_why :: jval

definition find_halt_step :: "halt_info option \<Rightarrow> event \<Rightarrow> halt_info option" where
  "find_halt_step halt e =
     (if ev_type e = OPERATING_MODE_CHANGED \<and>
         pget (ev_payload e) ''to'' JNull = JStr (mode_value HALTED)
      then Some \<lparr>hi_seq = ev_seq e, hi_started_seq = ev_seq e, hi_ts = ev_ts e,
                 hi_why = pget (ev_payload e) ''why'' (JStr [])\<rparr>
      else if ev_type e = HALT_CAUSE_ADDED
      then Some \<lparr>hi_seq = ev_seq e,
                 hi_started_seq = (case halt of Some h \<Rightarrow> hi_started_seq h | None \<Rightarrow> ev_seq e),
                 hi_ts = ev_ts e, hi_why = pget (ev_payload e) ''why'' (JStr [])\<rparr>
      else if ev_type e = HALT_ACKNOWLEDGED
      then (case halt of None \<Rightarrow> None
            | Some h \<Rightarrow> if acked_seq e = Some (hi_seq h) then None else halt)
      else halt)"

definition find_unacknowledged_halt :: "event list \<Rightarrow> halt_info option" where
  "find_unacknowledged_halt events = foldl find_halt_step None events"

text \<open>The events shown before the HALT: sequence number, type, and the payload of the telling ones.\<close>

definition context_for :: "journal \<Rightarrow> int \<Rightarrow> int \<Rightarrow> (int \<times> event_type \<times> payload option) list" where
  "context_for j seq before =
     map (\<lambda>e. (ev_seq e, ev_type e,
            if ev_type e \<in> set [INVARIANT_VIOLATION, RECONCILIATION_FAILED, CALLBACK_FAILURE,
                 EXTERNAL_ORDER_DETECTED, OPERATING_MODE_CHANGED, HALT_CAUSE_ADDED]
            then Some (ev_payload e) else None))
       (filter (\<lambda>e. seq - before \<le> ev_seq e \<and> ev_seq e \<le> seq) (replay j))"

definition blank :: "string option \<Rightarrow> bool" where
  "blank x = (case x of None \<Rightarrow> True | Some s \<Rightarrow> s = [])"

definition ack_body ::
  "manual_clock \<Rightarrow> bool \<Rightarrow> string option \<Rightarrow> string option \<Rightarrow> (journal, int) prog" where
  "ack_body ck show_only operator resolution =
     reads (\<lambda>j. find_unacknowledged_halt (replay j)) (\<lambda>halt. case halt of
       None \<Rightarrow> ret 0
     | Some h \<Rightarrow>
         if show_only then ret 0
         else if blank operator \<or> blank resolution then ret 1
         else bindP (attemptP (acknowledge_halt ck (hi_seq h) (the operator) (the resolution))
                (\<lambda>e. if is_conflict e then Some () else None))
              (\<lambda>r. case r of Inl _ \<Rightarrow> ret 3 | Inr _ \<Rightarrow> ret 0))"

text \<open>\<open>main\<close>: the journal is opened for ownership and closed whatever happens.\<close>

definition ack_main ::
  "bool \<Rightarrow> bool \<Rightarrow> string \<Rightarrow> write_outcome list \<Rightarrow> manual_clock \<Rightarrow> bool \<Rightarrow>
   string option \<Rightarrow> string option \<Rightarrow> (journal, int) prog" where
  "ack_main path_exists engine_owns fresh outs ck show_only operator resolution =
     (if \<not> path_exists then ret 2
      else if engine_owns then ret 2
      else seqP (modP (open_journal fresh outs))
        (bindP (attemptP (ack_body ck show_only operator resolution) Some)
          (\<lambda>r. seqP (modP close_journal) (case r of Inl e \<Rightarrow> raise e | Inr code \<Rightarrow> ret code))))"

section \<open>Facts\<close>

interpretation tool_latch: halt_latch find_halt_step hi_seq
  by unfold_locales
     (auto simp: find_halt_step_def halts_now_def acks_now_def split: option.splits)

lemma tool_agrees: "map_option hi_seq (find_unacknowledged_halt rows) = active_halt_seq rows"
  using latches_agree [OF tool_latch.halt_latch_axioms journal_latch.halt_latch_axioms, of rows]
  by (simp add: find_unacknowledged_halt_def active_halt_seq_def option.map_id)

lemma close_rows [simp]: "j_rows (close_journal j) = j_rows j"
  by (simp add: close_journal_def)

lemma open_rows [simp]: "j_rows (open_journal fresh outs j) = j_rows j"
  by (simp add: open_journal_def)

text \<open>An acknowledged HALT is released, and only that event is added.\<close>

lemma active_after_ack:
  "active_halt_seq rows = Some n \<Longrightarrow> active_halt_seq (rows @ [stamped ck j (ack_event n a b)]) = None"
  by (simp add: active_halt_snoc active_halt_step_def ack_event_def acked_seq_def)

lemma wp_ack_body:
  assumes "\<And>j'. j_rows j' = j_rows j \<Longrightarrow> active_halt_seq (j_rows j) = None \<or> show_only \<Longrightarrow> Q 0 j'"
    and "\<And>j'. active_halt_seq (j_rows j') = None \<Longrightarrow> \<not> show_only \<Longrightarrow> Q 0 j'"
    and "\<And>c j'. c \<noteq> 0 \<Longrightarrow> Q c j'" and "\<And>e j'. E e j'"
  shows "wp (ack_body ck show_only operator resolution) Q E j"
proof (cases "find_unacknowledged_halt (replay j)")
  case None
  then have "active_halt_seq (j_rows j) = None"
    using tool_agrees [of "j_rows j"] by (simp add: replay_def)
  with None assms(1) show ?thesis by (simp add: ack_body_def wp_simps)
next
  case (Some h)
  then have active: "active_halt_seq (j_rows j) = Some (hi_seq h)"
    using tool_agrees [of "j_rows j"] by (simp add: replay_def)
  have "wp (acknowledge_halt ck (hi_seq h) (the operator) (the resolution))
      (\<lambda>r. Q 0) (\<lambda>e j'. if is_conflict e then Q 3 j' else E e j') j" if "\<not> show_only"
    by (rule wp_acknowledge_halt)
       (auto simp: is_conflict_def assms(3,4) committed_def active active_after_ack that intro!: assms(2))
  with Some assms(1,3) show ?thesis
    by (auto simp: ack_body_def wp_simps if_distrib elim!: wp_mono split: if_splits)
qed

end
