(* ===== verification/Controller_Safety.thy ===== *)
theory Controller_Safety
  imports Controller_Wire Ack_Halt
begin

text \<open>
  The controller's invariants as interpretations of the traversal: every broker write meets the
  contract of \<open>Controller_Wire\<close>; a dead journal or a HALT stops all writing for the rest of the
  process; the journal stays well formed and only grows; no intent is sent twice.
\<close>

section \<open>The wire contract\<close>

interpretation wire_modes: ctl_modes "wire_inv sha" for sha
proof unfold_locales
  fix s :: "'b ctl" and m assume "wire_inv sha s"
  then show "wire_inv sha (s\<lparr>ct_mode := m\<rparr>)" by (simp add: wire_inv_def)
next
  fix s :: "'b ctl" assume "wire_inv sha s"
  then show "wire_inv sha (s\<lparr>ct_journal_restored := True\<rparr>)" by (simp add: wire_inv_def)
qed (rule keeps_wire_evaluate keeps_wire_request_cancel)+

lemma rows_of_handles [simp]:
  "j_rows (open_journal f outs j) = j_rows j" "j_rows (close_journal j) = j_rows j"
  "j_rows (j\<lparr>j_outcomes := outs\<rparr>) = j_rows j"
  by (simp_all add: open_journal_def close_journal_def)

interpretation wire_process: ctl_process "wire_inv sha" for sha
  by unfold_locales
     (auto simp: wire_inv_def fresh_fields_def wal_recover_def numbered_take)

section \<open>A shut gate\<close>

text \<open>A property under which the gate is shut: whoever has it writes nothing.\<close>

locale ctl_shut = ctl_base I for I :: "'b ctl \<Rightarrow> bool" +
  assumes shut: "I s \<Longrightarrow> \<not> gate_open closing s"
begin

lemma shut_gate:
  assumes "\<And>m. keeps I (f (False, m))"
  shows "keeps I (bindP (can_write closing) f)"
proof (rule keepsI)
  fix s assume "I s"
  then show "wp (bindP (can_write closing) f) (\<lambda>_. I) (\<lambda>_. I) s"
    unfolding wp_bindP
    by (intro wp_can_write [where I = I])
       (auto intro: keepsD [OF assms] keeps_can_write dest: shut)
qed

lemma keeps_evaluate: "keeps I (evaluate k)"
  unfolding evaluate_def
  by (intro keeps_reads keeps_case_option keeps_ret keeps_if keeps_Let shut_gate keeps_seqP
      keeps_block_Cons keeps_block_Nil keeps_miss keeps_drop_target) (simp, intro wp_intro)

lemma keeps_request_cancel: "keeps I (request_cancel k why)"
  unfolding request_cancel_def
  by (intro keeps_reads keeps_case_option keeps_ret shut_gate) (simp, intro wp_intro)

end

sublocale ctl_shut \<subseteq> ctl_trading
  by unfold_locales (rule keeps_evaluate keeps_request_cancel)+

text \<open>A dead journal handle: nothing is written to the broker and nothing revives the handle.\<close>

definition journal_dead :: "wire_entry list \<Rightarrow> 'b ctl \<Rightarrow> bool" where
  "journal_dead w s \<longleftrightarrow> \<not> is_healthy (ct_journal s) \<and> ct_wire s = w"

lemma wp_submit_dead:
  "\<not> is_healthy j \<Longrightarrow> wp (submit req) Q (\<lambda>_ j'. \<not> is_healthy j') j"
  using submit_unhealthy [of j req] by (auto simp: wp_def)

lemma keeps_dead:
  assumes "\<And>ck j. \<not> is_healthy j \<Longrightarrow> wp (m ck) (\<lambda>_ j'. \<not> is_healthy j') (\<lambda>_ j'. \<not> is_healthy j') j"
  shows "keeps (journal_dead w) (journal_op m :: ('b ctl, 'x) prog)"
  using assms
  by (simp add: keeps_def journal_op_def in_journal_def wp_reads wp_zoom journal_dead_def)

interpretation dead: ctl_shut "journal_dead w" for w
proof unfold_locales
  fix s t :: "'b ctl" assume "journal_dead w s" "same_ground s t"
  then show "journal_dead w t" by (simp add: journal_dead_def same_ground_def)
next
  fix s :: "'b ctl" assume "journal_dead w s"
  then show "journal_dead w (s\<lparr>ct_mode := HALTED\<rparr>)" by (simp add: journal_dead_def)
next
  fix e show "keeps (journal_dead w) (emit_seq e :: ('b ctl, int) prog)"
    unfolding emit_seq_def by (rule keeps_dead) (simp add: commit_def wp_bindP wp_submit_dead)
next
  fix did p sid symb
  show "keeps (journal_dead w) (journal_op (\<lambda>ck. accept_decision ck did p sid symb) :: ('b ctl, bool) prog)"
    by (rule keeps_dead) (simp add: accept_decision_def wp_bindP wp_submit_dead)
next
  fix xid p symb ref pid
  show "keeps (journal_dead w)
      (journal_op (\<lambda>ck. commit_execution_once ck xid p symb ref pid) :: ('b ctl, bool) prog)"
    by (rule keeps_dead) (simp add: commit_execution_once_def wp_bindP wp_submit_dead)
next
  fix n a b
  show "keeps (journal_dead w) (journal_op (\<lambda>ck. acknowledge_halt ck n a b) :: ('b ctl, int) prog)"
    by (rule keeps_dead) (simp add: acknowledge_halt_def wp_raise wp_bindP wp_submit_dead)
next
  fix s :: "'b ctl" and closing assume "journal_dead w s"
  then show "\<not> gate_open closing s" by (simp add: journal_dead_def gate_open_def)
qed

interpretation dead_modes: ctl_modes "journal_dead w" for w
  by unfold_locales (simp_all add: journal_dead_def)

text \<open>HALTED in a restored process: no method leaves it, and nothing is written.\<close>

definition halted_still :: "wire_entry list \<Rightarrow> 'b ctl \<Rightarrow> bool" where
  "halted_still w s \<longleftrightarrow> ct_journal_restored s \<and> ct_mode s = HALTED \<and> ct_wire s = w"

lemma halted_still_journal: "halted_still w (s\<lparr>ct_journal := j\<rparr>) = halted_still w s"
  by (simp add: halted_still_def)

lemma keeps_halted_journal: "keeps (halted_still w) (journal_op m :: ('b ctl, 'x) prog)"
  unfolding journal_op_def in_journal_def
  by (intro keeps_reads keeps_zoom) (simp add: halted_still_journal)

interpretation halted: ctl_shut "halted_still w" for w
proof unfold_locales
  fix s t :: "'b ctl" assume "halted_still w s" "same_ground s t"
  then show "halted_still w t" by (simp add: halted_still_def same_ground_def)
next
  fix s :: "'b ctl" and closing assume "halted_still w s"
  then show "\<not> gate_open closing s" by (simp add: halted_still_def gate_open_def)
qed (simp_all add: halted_still_def emit_seq_def keeps_halted_journal)

lemma halted_record_residual: "keeps (halted_still w) (record_residual_leg session k)"
proof (rule keepsI)
  fix s :: "'b ctl" assume inv: "halted_still w s"
  have mode: "wp (reads ct_mode (\<lambda>m. whenP (m \<noteq> HALTED) (set_mode FLATTEN_ONLY why)))
      (\<lambda>_. wp (alert a b) (\<lambda>_. halted_still w) (\<lambda>_. halted_still w)) (\<lambda>_. halted_still w) t"
    if "halted_still w t" for t :: "'b ctl" and why a b
    using that keepsD [OF halted.keeps_alert that]
    by (simp add: wp_reads wp_whenP) (simp add: halted_still_def)
  have emit: "wp (emit e) (\<lambda>_. wp (reads ct_mode (\<lambda>m. whenP (m \<noteq> HALTED) (set_mode FLATTEN_ONLY why)))
      (\<lambda>_. wp (alert a b) (\<lambda>_. halted_still w) (\<lambda>_. halted_still w)) (\<lambda>_. halted_still w))
      (\<lambda>_. halted_still w) t" if "halted_still w t" "quiet e" for t :: "'b ctl" and why a b e
    by (rule wp_mono [OF keepsD [OF halted.keeps_emit [OF that(2)] that(1)]]) (auto intro: mode)
  have mod: "halted_still w (s\<lparr>ct_eod_residual_recorded := x\<rparr>)" for x
    using inv by (simp add: halted_still_def)
  show "wp (record_residual_leg session k) (\<lambda>_. halted_still w) (\<lambda>_. halted_still w) s"
    using inv by (simp add: record_residual_leg_def Let_def wp_reads wp_if wp_ret wp_block_Cons
        wp_modP wp_seqP wp_block_fun emit mod del: block.simps)
qed

lemma keeps_halted_check_eod: "keeps (halted_still w) check_eod"
proof (rule keepsI)
  fix s :: "'b ctl" assume inv: "halted_still w s"
  have residual: "keeps (halted_still w) (record_eod_residual :: ('b ctl, unit) prog)"
    unfolding record_eod_residual_def by (intro wp_intro halted_record_residual)
  show "wp check_eod (\<lambda>_. halted_still w) (\<lambda>_. halted_still w) s"
    unfolding check_eod_def wp_seqP
    by (rule wp_mono [OF keepsD [OF residual inv]])
       (auto simp: wp_reads wp_bindP wp_liftE wp_ret halted_still_def split: sum.splits)
qed

lemma keeps_halted_restore: "keeps (halted_still w) restore_from_journal"
  by (simp add: keeps_def restore_from_journal_def wp_reads wp_ret halted_still_def)

interpretation halted_drive: ctl_drive "halted_still w" for w
  by unfold_locales (rule keeps_halted_restore keeps_halted_check_eod)+

section \<open>The journal\<close>

definition rows_wf :: "'b ctl \<Rightarrow> bool" where
  "rows_wf s \<longleftrightarrow> journal_wf (ct_journal s)"

lemma keeps_rows_wf:
  "(\<And>ck. keeps journal_wf (m ck)) \<Longrightarrow> keeps rows_wf (journal_op m :: ('b ctl, 'x) prog)"
  by (auto simp: keeps_def journal_op_def in_journal_def wp_reads wp_zoom rows_wf_def)

interpretation rows: ctl_wire rows_wf
proof unfold_locales
  fix s t :: "'b ctl" assume "rows_wf s" "same_ground s t"
  then show "rows_wf t" by (simp add: rows_wf_def same_ground_def)
next
  fix e assume "quiet e"
  then show "keeps rows_wf (emit_seq e :: ('b ctl, int) prog)"
    unfolding emit_seq_def by (intro keeps_rows_wf keeps_wf_commit) (simp_all add: quiet_def)
qed (simp_all add: rows_wf_def [abs_def] keeps_rows_wf [unfolded rows_wf_def [abs_def]]
      keeps_wf_accept keeps_wf_book keeps_wf_ack)

interpretation rows_modes: ctl_modes rows_wf
  by unfold_locales (simp_all add: rows_wf_def)

interpretation rows_process: ctl_process rows_wf
  by unfold_locales
     (simp_all add: rows_wf_def fresh_fields_def journal_wf_open journal_wf_close journal_wf_recover,
      simp add: journal_wf_def)

text \<open>Methods only append: whatever was durable stays durable, under the same identity.\<close>

definition grown_from :: "journal \<Rightarrow> 'b ctl \<Rightarrow> bool" where
  "grown_from j s \<longleftrightarrow> journal_ext j (ct_journal s)"

lemma journal_ext_trans: "journal_ext a b \<Longrightarrow> journal_ext b c \<Longrightarrow> journal_ext a c"
  by (auto simp: journal_ext_def)

lemma journal_ext_refl [simp]: "journal_ext j j"
  by (simp add: journal_ext_def)

interpretation growth: prog_order journal_ext
  by unfold_locales (simp, rule journal_ext_trans)

lemma keeps_grown:
  assumes "\<And>ck j. wp (m ck) (\<lambda>_. journal_ext j) (\<lambda>_. journal_ext j) j"
  shows "keeps (grown_from j0) (journal_op m :: ('b ctl, 'x) prog)"
proof (rule keepsI)
  fix s :: "'b ctl" assume "grown_from j0 s"
  then show "wp (journal_op m) (\<lambda>_. grown_from j0) (\<lambda>_. grown_from j0) s"
    unfolding journal_op_def in_journal_def wp_reads wp_zoom
    by (intro wp_mono [OF assms]) (auto simp: grown_from_def intro: journal_ext_trans)
qed

lemma grown_commit: "wp (commit ck e) (\<lambda>_. journal_ext j) (\<lambda>_. journal_ext j) j"
  by (rule wp_commit) (auto simp: committed_def lost_def journal_ext_def)

lemma grown_accept:
  "wp (accept_decision ck did p sid symb) (\<lambda>_. journal_ext j) (\<lambda>_. journal_ext j) j"
  by (rule wp_accept_decision) (auto simp: accepted_def unchanged_def journal_ext_def)

lemma grown_book:
  "wp (commit_execution_once ck xid p symb ref pid) (\<lambda>_. journal_ext j) (\<lambda>_. journal_ext j) j"
  by (rule wp_commit_execution_once) (auto simp: booked_def unchanged_def journal_ext_def)

lemma grown_ack: "wp (acknowledge_halt ck n a b) (\<lambda>_. journal_ext j) (\<lambda>_. journal_ext j) j"
  by (rule wp_acknowledge_halt) (auto simp: committed_def lost_def unchanged_def journal_ext_def)

interpretation grown: ctl_wire "grown_from j" for j
proof unfold_locales
  fix s t :: "'b ctl" assume "grown_from j s" "same_ground s t"
  then show "grown_from j t" by (simp add: grown_from_def same_ground_def)
qed (simp_all add: grown_from_def emit_seq_def keeps_grown grown_commit grown_accept grown_book grown_ack)

interpretation grown_modes: ctl_modes "grown_from j" for j
  by unfold_locales (simp_all add: grown_from_def)

section \<open>From an invariant, through a cleared order, back\<close>

text \<open>\<open>ends J I m\<close>: from \<open>J\<close>, \<open>m\<close> ends in \<open>I\<close> however it ends.\<close>

definition ends :: "('s \<Rightarrow> bool) \<Rightarrow> ('s \<Rightarrow> bool) \<Rightarrow> ('s, 'a) prog \<Rightarrow> bool" where
  "ends J I m \<longleftrightarrow> (\<forall>s. J s \<longrightarrow> wp m (\<lambda>_. I) (\<lambda>_. I) s)"

lemma ends_keeps: "keeps J m \<Longrightarrow> (\<And>s. J s \<Longrightarrow> I s) \<Longrightarrow> ends J I m"
  unfolding ends_def by (blast intro: wp_mono dest: keepsD)

lemma ends_bindP:
  "keeps J m \<Longrightarrow> (\<And>s. J s \<Longrightarrow> I s) \<Longrightarrow> (\<And>a. ends J I (f a)) \<Longrightarrow> ends J I (bindP m f)"
  unfolding ends_def wp_bindP by (blast intro: wp_mono dest: keepsD)

lemma ends_seqP: "keeps J m \<Longrightarrow> (\<And>s. J s \<Longrightarrow> I s) \<Longrightarrow> ends J I n \<Longrightarrow> ends J I (seqP m n)"
  unfolding seqP_def by (rule ends_bindP)

lemma ends_then: "ends J I m \<Longrightarrow> (\<And>a. keeps I (f a)) \<Longrightarrow> ends J I (bindP (attemptP m sel) f)"
  unfolding ends_def wp_bindP wp_attemptP
  by (intro allI impI, rule wp_mono [where Q = "\<lambda>_. I" and E = "\<lambda>_. I"])
     (auto intro: keepsD split: option.splits)

text \<open>\<open>leads J K I m\<close>: from \<open>J\<close>, \<open>m\<close> returns in \<open>K\<close>, or raises in \<open>I\<close>.\<close>

definition leads ::
  "('s \<Rightarrow> bool) \<Rightarrow> ('s \<Rightarrow> bool) \<Rightarrow> ('s \<Rightarrow> bool) \<Rightarrow> ('s, 'a) prog \<Rightarrow> bool" where
  "leads J K I m \<longleftrightarrow> (\<forall>s. J s \<longrightarrow> wp m (\<lambda>_. K) (\<lambda>_. I) s)"

lemma leads_block_Nil: "leads J J I (block [])"
  by (simp add: leads_def wp_ret)

lemma leads_block_Cons: "leads J K I m \<Longrightarrow> leads K L I (block ms) \<Longrightarrow> leads J L I (block (m # ms))"
  unfolding leads_def wp_block_Cons by (blast intro: wp_mono)

lemma leads_keeps: "keeps J m \<Longrightarrow> (\<And>s. J s \<Longrightarrow> I s) \<Longrightarrow> leads J J I m"
  unfolding leads_def by (blast intro: wp_mono dest: keepsD)

lemma ends_leads: "leads J K I m \<Longrightarrow> ends K I n \<Longrightarrow> ends J I (seqP m n)"
  unfolding ends_def leads_def wp_seqP by (blast intro: wp_mono)

text \<open>
  The contract of an order cleared for sending at an accounting price \<open>p\<close>: while \<open>J i p\<close> holds the
  order may be counted, which gives \<open>K i p\<close>, and while \<open>K i p\<close> holds the write of \<open>i\<close> ends in \<open>I\<close>. Two
  clients: the order's id is fresh, and the order passed the risk check and was counted.
\<close>

locale ctl_cleared = ctl_base I for I :: "'b ctl \<Rightarrow> bool" +
  fixes J K :: "order_intent \<Rightarrow> rat option \<Rightarrow> 'b ctl \<Rightarrow> bool"
  assumes cleared: "ctl_calm (J i p)" and counted: "ctl_calm (K i p)"
    and weaker: "J i p s \<Longrightarrow> I s" "K i p s \<Longrightarrow> I s"
    and counts: "J i p s \<Longrightarrow>
      K i p (s\<lparr>ct_risk := record_sent (now s) i (price_or p 0) (ct_risk s)\<rparr>)"
    and placed: "K i p s \<Longrightarrow> I (s\<lparr>ct_wire := ct_wire s @ [wire_entry (Place i) s]\<rparr>)"
begin

lemmas cleared_steps =
  ctl_calm.keeps_emit [OF cleared] ctl_calm.keeps_emit_seq [OF cleared]
  ctl_calm.keeps_on_leg [OF cleared] ctl_calm.keeps_set_order_state [OF cleared]
  ctl_calm.keeps_write_boundary [OF cleared]

lemma leads_record: "leads (J i p) (K i p) I (reads now (\<lambda>t. in_risk (modP (record_sent t i (price_or p 0)))))"
  by (simp add: leads_def wp_reads in_risk_def wp_zoom wp_modP counts)

lemma ends_place_order: "ends (K i p) I (place_order i)"
  unfolding ends_def place_order_def wp_seqP wp_modP wp_reads
  by (blast intro: keepsD keeps_in_broker placed)

lemma ends_place_and_record: "ends (K i p) I (place_and_record k t i price)"
  unfolding place_and_record_def
  by (intro ends_then ends_place_order keeps_case_sum keeps_case_prod keeps_if keeps_send_outcomes)

lemma leads_count: "leads (J i p) (K i p) I (block
    [set_order_state k PENDING_ACK why, write_boundary what,
     reads now (\<lambda>t. in_risk (modP (record_sent t i (price_or p 0))))])"
  by (rule leads_block_Cons [OF leads_keeps], rule cleared_steps, erule weaker,
      rule leads_block_Cons [OF leads_keeps], rule cleared_steps, erule weaker,
      rule leads_block_Cons [OF leads_record leads_block_Nil])

lemma ends_cross_boundary: "ends (J i p) I (cross_boundary k t i p send_seq)"
proof -
  have last: "ends (K i p) I (if \<not> ok then abandon_send k else place_and_record k t i p)" for ok
    by (auto intro: ends_keeps ctl_calm.keeps_send_outcomes [OF counted] weaker ends_place_and_record)
  show ?thesis
    unfolding cross_boundary_def
    by (rule ends_leads [OF leads_count ends_bindP], rule ctl_calm.keeps_witness_or_fence [OF counted],
        erule weaker, rule last)
qed

lemma ends_commit_and_place: "ends (J i p) I (commit_and_place k t i evidence p)"
  unfolding commit_and_place_def
  by (intro ends_seqP ends_bindP ends_cross_boundary; (erule weaker)?; intro keeps_block_Cons
      keeps_block_Nil cleared_steps) simp_all

lemma ends_checked:
  assumes "keeps (J i p) (in_risk (risk_check u i pos q closing))"
  shows "ends (J i p) I (bindP (attemptP (in_risk (risk_check u i pos q closing)) risk_exception)
     (\<lambda>r. case r of Inl (check, d) \<Rightarrow> risk_refused k t i check d
      | Inr evidence \<Rightarrow> commit_and_place k t i evidence p))"
  using ends_commit_and_place [of i p k t] assms
  by (intro ends_bindP keeps_attemptP)
     (auto split: sum.splits intro: ends_keeps ctl_calm.keeps_refusals [OF cleared] weaker)

end

section \<open>No intent twice\<close>

definition placed_ids :: "wire_entry list \<Rightarrow> string list" where
  "placed_ids ws = List.map_filter
     (\<lambda>w. case we_call w of Place i \<Rightarrow> Some (oi_intent_id i) | Cancel r \<Rightarrow> None) ws"

lemma placed_ids_snoc [simp]:
  "placed_ids (ws @ [wire_entry (Place i) s]) = placed_ids ws @ [oi_intent_id i]"
  "placed_ids (ws @ [wire_entry (Cancel r) s]) = placed_ids ws"
  by (simp_all add: placed_ids_def List.map_filter_def wire_entry_def)

definition ids_once :: "(nat \<Rightarrow> string) \<Rightarrow> 'b ctl \<Rightarrow> bool" where
  "ids_once u s \<longleftrightarrow> ct_uuid s = u \<and> distinct (placed_ids (ct_wire s))
     \<and> set (placed_ids (ct_wire s)) \<subseteq> u ` {..<ct_uuid_used s}"

text \<open>An id that was drawn and not placed yet.\<close>

definition id_drawn :: "(nat \<Rightarrow> string) \<Rightarrow> string \<Rightarrow> 'b ctl \<Rightarrow> bool" where
  "id_drawn u iid s \<longleftrightarrow> ids_once u s \<and> iid \<notin> set (placed_ids (ct_wire s))
     \<and> iid \<in> u ` {..<ct_uuid_used s}"

lemma ids_same_ground:
  "same_ground s t \<Longrightarrow> ids_once u s \<Longrightarrow> ids_once u t"
  "same_ground s t \<Longrightarrow> id_drawn u iid s \<Longrightarrow> id_drawn u iid t"
  by (auto simp: ids_once_def id_drawn_def same_ground_def)

lemma keeps_journal_op:
  "(\<And>s j. I s \<Longrightarrow> I (s\<lparr>ct_journal := j\<rparr>)) \<Longrightarrow> keeps I (journal_op m :: ('b ctl, 'x) prog)"
  unfolding journal_op_def in_journal_def by (intro keeps_reads keeps_zoom)

interpretation once: ctl_base "ids_once u" for u
  by unfold_locales
     (auto intro: ids_same_ground, auto simp: ids_once_def emit_seq_def intro!: keeps_journal_op)

interpretation drawn: ctl_base "id_drawn u iid" for u iid
  by unfold_locales
     (auto intro: ids_same_ground, auto simp: id_drawn_def ids_once_def emit_seq_def intro!: keeps_journal_op)

interpretation once_cleared: ctl_cleared "ids_once u" "\<lambda>i p. id_drawn u (oi_intent_id i)"
    "\<lambda>i p. id_drawn u (oi_intent_id i)" for u
  by unfold_locales (auto simp: id_drawn_def ids_once_def intro: drawn.ctl_calm_axioms)

lemma keeps_once_send:
  assumes "inj u"
  shows "keeps (ids_once u) (send k delta closing)"
proof -
  have go: "ends (id_drawn u iid) (ids_once u) (reads (build_intent k t delta closing iid) (\<lambda>i.
       reads (\<lambda>s. s) (\<lambda>s. bindP (attemptP (in_risk (risk_check (now s) i (lg_position (leg_of k s))
              (dget (ct_quotes s) (snd k)) closing)) risk_exception)
        (\<lambda>r. case r of Inl (check, d) \<Rightarrow> risk_refused k t i check d
         | Inr evidence \<Rightarrow> commit_and_place k t i evidence (accounting_price i s)))))" for iid t
    unfolding ends_def wp_reads
  proof (intro allI impI)
    fix s :: "'b ctl" assume "id_drawn u iid s"
    then have "id_drawn u (oi_intent_id (build_intent k t delta closing iid s)) s"
      by (simp add: build_intent_def Let_def)
    then show "wp (bindP (attemptP (in_risk (risk_check (now s) (build_intent k t delta closing iid s)
        (lg_position (leg_of k s)) (dget (ct_quotes s) (snd k)) closing)) risk_exception)
        (\<lambda>r. case r of Inl (check, d) \<Rightarrow> risk_refused k t (build_intent k t delta closing iid s) check d
         | Inr evidence \<Rightarrow> commit_and_place k t (build_intent k t delta closing iid s) evidence
             (accounting_price (build_intent k t delta closing iid s) s)))
        (\<lambda>_. ids_once u) (\<lambda>_. ids_once u) s"
      by (rule once_cleared.ends_checked [OF drawn.keeps_risk(1) [of u], unfolded ends_def, rule_format])
  qed
  have draw: "id_drawn u (u (ct_uuid_used s)) (s\<lparr>ct_uuid_used := Suc (ct_uuid_used s)\<rparr>)"
    if "ids_once u s" for s :: "'b ctl"
    using that assms by (auto simp: ids_once_def id_drawn_def dest: injD)
  show ?thesis
  proof (rule keepsI)
    fix s :: "'b ctl" assume inv: "ids_once u s"
    then have u: "ct_uuid s = u" by (simp add: ids_once_def)
    show "wp (send k delta closing) (\<lambda>_. ids_once u) (\<lambda>_. ids_once u) s"
    proof (cases "lg_desired_target (leg_of k s)")
      case None
      with inv show ?thesis by (simp add: send_def wp_reads wp_raise)
    next
      case (Some t)
      show ?thesis
        unfolding send_def wp_reads Some option.case wp_bindP new_intent_id_def wp_seqP wp_modP wp_ret u
        by (rule go [unfolded ends_def wp_reads wp_bindP, rule_format, OF draw [OF inv]])
    qed
  qed
qed

lemma keeps_once_cancel: "keeps (ids_once u) (request_cancel k why)"
proof -
  have "keeps (ids_once u) (cancel_order ref :: ('b ctl, unit) prog)" for ref
  proof -
    have "keeps (ids_once u) (modP (\<lambda>s :: 'b ctl. s\<lparr>ct_wire := ct_wire s @ [wire_entry (Cancel ref) s]\<rparr>))"
      by (rule keeps_modP) (simp add: ids_once_def)
    then show ?thesis
      unfolding cancel_order_def by (intro keeps_seqP keeps_reads once.keeps_in_broker)
  qed
  then show ?thesis
    unfolding request_cancel_def cross_cancel_def
    by (intro wp_intro once.keeps_can_write once.keeps_alert once.keeps_write_boundary
        once.keeps_emit_seq once.keeps_set_order_state once.keeps_on_leg once.keeps_witness_or_fence
        once.keeps_send_outcomes) simp_all
qed

lemma keeps_once_evaluate: "inj u \<Longrightarrow> keeps (ids_once u) (evaluate k)"
  unfolding evaluate_def decide_def maybe_cancel_for_new_target_def
  by (auto intro!: wp_intro once.keeps_can_write once.keeps_miss once.keeps_drop_target
      once.keeps_defer_target once.keeps_on_leg once.keeps_refusals keeps_once_send
      keeps_once_cancel split: option.splits)

text \<open>The supply of ids is injective: a parameter, so the interpretation is under it.\<close>

definition once_inv :: "(nat \<Rightarrow> string) \<Rightarrow> 'b ctl \<Rightarrow> bool" where
  "once_inv u s \<longleftrightarrow> inj u \<and> ids_once u s"

lemma keeps_once_inv: "(inj u \<Longrightarrow> keeps (ids_once u) m) \<Longrightarrow> keeps (once_inv u) m"
  by (auto simp: keeps_def once_inv_def wp_def split: prod.splits sum.splits)

interpretation once_process: ctl_modes "once_inv u" for u
proof unfold_locales
  fix s t :: "'b ctl" assume "once_inv u s" "same_ground s t"
  then show "once_inv u t" by (auto simp: once_inv_def intro: ids_same_ground)
qed (auto intro!: keeps_once_inv once.emitted once.target_accepted once.execution_booked
      once.halt_acknowledged keeps_once_evaluate keeps_once_cancel simp: once_inv_def ids_once_def)

interpretation once_machine: ctl_process "once_inv u" for u
  by unfold_locales (simp_all add: once_inv_def ids_once_def fresh_fields_def)

end
