(* ===== verification/Controller_Facts.thy ===== *)
theory Controller_Facts
  imports Controller_Safety
begin

text \<open>
  What single operations of the controller and of the host guarantee, as weakest preconditions:
  failing closed, the guard around the broker callbacks, the boot, the start-up gates.
\<close>

section \<open>Failing closed\<close>

text \<open>The fence is on disk, or it is recorded that it could not be written.\<close>

definition fence_settled :: "'b ctl \<Rightarrow> bool" where
  "fence_settled s \<longleftrightarrow> (\<forall>f. ct_fence s = Some f \<longrightarrow> fenced f \<or> ct_fence_write_failed s \<noteq> None)"

definition closed_down :: "'b ctl \<Rightarrow> bool" where
  "closed_down s \<longleftrightarrow> ct_mode s = HALTED \<and> ct_link s = DEGRADED \<and> ct_sync s = UNVERIFIED
     \<and> ct_fatal_shutdown_requested s \<and> fence_settled s"

lemma closed_down_alerts [simp]:
  "closed_down (s\<lparr>ct_alerts := a\<rparr>) = closed_down s"
  by (simp add: closed_down_def fence_settled_def)

text \<open>Raising the fence never raises, and touches the fence, its failure note and the alerts only.\<close>

definition fence_step :: "'b ctl \<Rightarrow> 'b ctl \<Rightarrow> bool" where
  "fence_step s t \<longleftrightarrow> (\<exists>f n a. t = s\<lparr>ct_fence := f, ct_fence_write_failed := n, ct_alerts := a\<rparr>)"

lemma fence_step_fields:
  "fence_step s t \<Longrightarrow> ct_mode t = ct_mode s" "fence_step s t \<Longrightarrow> ct_link t = ct_link s"
  "fence_step s t \<Longrightarrow> ct_sync t = ct_sync s" "fence_step s t \<Longrightarrow> ct_journal t = ct_journal s"
  "fence_step s t \<Longrightarrow> ct_fatal_shutdown_requested t = ct_fatal_shutdown_requested s"
  "fence_step s t \<Longrightarrow> ct_journal_failure t = ct_journal_failure s"
  "fence_step s t \<Longrightarrow> ct_wire t = ct_wire s"
  by (auto simp: fence_step_def)

lemma wp_raise_durable_fence:
  assumes "\<And>t. fence_step s t \<Longrightarrow> fence_settled t \<Longrightarrow> Q () t"
  shows "wp (raise_durable_fence d) Q E s"
proof (cases "ct_fence s")
  case None
  have "Q () s"
  proof (rule assms)
    show "fence_step s s"
      unfolding fence_step_def
      by (intro exI [of _ "ct_fence s"] exI [of _ "ct_fence_write_failed s"] exI [of _ "ct_alerts s"]) simp
  qed (simp add: fence_settled_def None)
  with None show ?thesis by (simp add: raise_durable_fence_def wp_simps)
next
  case (Some f)
  have put: "fence_step s (s\<lparr>ct_fence := Some f'\<rparr>)" for f'
    unfolding fence_step_def
    by (intro exI [of _ "Some f'"] exI [of _ "ct_fence_write_failed s"] exI [of _ "ct_alerts s"]) simp
  have note_failure: "fence_step s (s\<lparr>ct_fence := Some f', ct_fence_write_failed := n, ct_alerts := a\<rparr>)" for f' n a
    unfolding fence_step_def by blast
  show ?thesis
    unfolding raise_durable_fence_def wp_reads Some option.case wp_bindP wp_attemptP in_fence_def wp_zoom
    by (rule wp_raise_fence)
       (auto simp: wp_simps alert_def fence_settled_def fenced_def intro!: assms put note_failure)
qed

lemma wp_fail_closed_runtime:
  assumes "\<And>t. closed_down t \<Longrightarrow> ct_journal t = ct_journal s \<Longrightarrow> ct_wire t = ct_wire s \<Longrightarrow>
      ct_journal_failure t = ct_journal_failure s \<Longrightarrow> Q () t"
  shows "wp (fail_closed_runtime d b) Q E s"
proof -
  let ?s = "s\<lparr>ct_fatal_shutdown_requested := True, ct_link := DEGRADED, ct_sync := UNVERIFIED, ct_mode := HALTED\<rparr>"
  have "Q () (t\<lparr>ct_alerts := a\<rparr>) \<and> Q () t" if "fence_step ?s t" "fence_settled t" for t a
    using that fence_step_fields [OF that(1)] by (intro conjI assms) (simp_all add: closed_down_def fence_settled_def)
  then have "wp (raise_durable_fence d) (\<lambda>_. wp (whenP (\<not> b) (alert ''CRITICAL''
      (JFmt [JStr ''engine fenced HALTED; process shutdown required: '', d]))) Q E) E ?s"
    by (intro wp_raise_durable_fence) (simp add: wp_whenP alert_def wp_modP)
  then show ?thesis
    by (simp add: fail_closed_runtime_def wp_simps del: block.simps)
qed

lemma wp_fail_closed_journal:
  assumes "\<And>t. closed_down t \<Longrightarrow> ct_journal t = ct_journal s \<Longrightarrow> ct_wire t = ct_wire s \<Longrightarrow>
      ct_journal_failure t \<noteq> None \<Longrightarrow> Q () t"
  shows "wp (fail_closed_journal c d) Q E s"
  unfolding fail_closed_journal_def wp_reads Let_def wp_block_Cons wp_modP wp_block_Nil
  by (rule wp_fail_closed_runtime) (rule assms, simp_all)

section \<open>HALT\<close>

lemma active_halt_emitted:
  "committed (stamped ck j e) j j' \<Longrightarrow> halts_now e \<Longrightarrow> active_halt_seq (j_rows j') \<noteq> None"
  by (auto simp: committed_def halts_now_def active_halt_snoc active_halt_step_def)

text \<open>The witness of a HALT touches neither the mode nor the journal.\<close>

lemma wp_witness_safety_critical:
  assumes "\<And>t. ct_mode t = ct_mode s \<Longrightarrow> ct_journal t = ct_journal s \<Longrightarrow> ct_sync t = ct_sync s \<Longrightarrow> Q () t"
  shows "wp (witness_safety_critical n d) Q E s"
proof (cases "ct_witness s")
  case None
  with assms [of s] show ?thesis by (simp add: witness_safety_critical_def wp_simps)
next
  case (Some w)
  have fence: "wp (raise_durable_fence x) Q E u"
    if "ct_mode u = ct_mode s" "ct_journal u = ct_journal s" "ct_sync u = ct_sync s" for x u
    by (rule wp_raise_durable_fence) (use that in \<open>auto intro!: assms simp: fence_step_fields\<close>)
  show ?thesis
    unfolding witness_safety_critical_def wp_reads Some option.case wp_bindP wp_attemptP
      witness_event_def in_witness_def wp_zoom record_witness_def
    by (rule wp_record_with)
       (auto simp: wp_ret wp_block_Cons alert_def wp_modP wp_block_fun wp_block_Nil simp del: block.simps
         intro!: assms fence)
qed

text \<open>
  \<open>halt\<close> leaves the mode HALTED however it ends; it returns only with a HALT durable and active, and it
  raises only when the journal is lost.
\<close>

lemma wp_halt:
  assumes "\<And>t. ct_mode t = HALTED \<Longrightarrow> active_halt_seq (j_rows (ct_journal t)) \<noteq> None \<Longrightarrow>
      ct_sync t = ct_sync s \<Longrightarrow> Q () t"
    and "\<And>d t. ct_mode t = HALTED \<Longrightarrow> \<not> is_healthy (ct_journal t) \<Longrightarrow> E (JournalUnavailable d) t"
  shows "wp (halt why) Q E s"
proof -
  have rest: "wp (block [witness_safety_critical n d, alert a b]) Q E u"
    if "ct_mode u = HALTED" "active_halt_seq (j_rows (ct_journal u)) \<noteq> None" "ct_sync u = ct_sync s"
    for n d a b u
    unfolding wp_block_Cons
    by (rule wp_witness_safety_critical)
       (use that in \<open>auto simp: alert_def wp_simps intro!: assms(1)\<close>)
  show ?thesis
  proof (cases "ct_mode s = HALTED")
    case True
    then show ?thesis
      unfolding halt_def wp_reads if_P [OF True] wp_bindP
      by (intro wp_emit_seq rest)
         (auto simp: lost_def halts_now_def simp del: block.simps intro: assms(2) dest: active_halt_emitted)
  next
    case False
    then show ?thesis
      unfolding halt_def set_mode_def wp_reads if_not_P [OF False] wp_whenP if_P [OF False] wp_seqP
        wp_modP wp_bindP
      by (intro wp_emit_seq)
         (auto simp: lost_def halts_now_def wp_whenP simp del: block.simps intro!: assms(2) rest
           dest: active_halt_emitted)
  qed
qed

section \<open>The guard around the callbacks\<close>

lemma wp_ignore_emit:
  assumes "\<And>t. ct_mode t = ct_mode s \<Longrightarrow> Q () t"
  shows "wp (ignore_unavailable (emit e)) Q E s"
  unfolding ignore_unavailable_def wp_catchP
  by (rule wp_emit) (auto simp: is_unavailable_def wp_simps intro!: assms)

text \<open>
  An exception of a callback ends HALTED: a lost journal closes the process down; anything else is
  recorded and halts. Only an invariant violation, which has halted already, and the loss of the
  journal during that very HALT come out of the guard.
\<close>

lemma wp_guarded_failure:
  assumes raised: "fn s = (Inl e, u)" and "\<And>n d. e \<noteq> InvariantViolation n d"
    and "\<And>t. ct_mode t = HALTED \<Longrightarrow> (\<exists>d. e = JournalUnavailable d) \<Longrightarrow> closed_down t \<Longrightarrow> Q () t"
    and "\<And>t. ct_mode t = HALTED \<Longrightarrow> active_halt_seq (j_rows (ct_journal t)) \<noteq> None \<Longrightarrow> Q () t"
    and "\<And>d t. ct_mode t = HALTED \<Longrightarrow> \<not> is_healthy (ct_journal t) \<Longrightarrow> E (JournalUnavailable d) t"
  shows "wp (guarded name fn) Q E s"
proof -
  have journal: "wp (fail_closed_journal name d) Q E u" if "e = JournalUnavailable d" for d
    by (rule wp_fail_closed_journal) (use that in \<open>auto simp: closed_down_def intro!: assms(3)\<close>)
  have other: "wp (block [ignore_unavailable (emit ev0), halt why]) Q E u" for ev0 why
    unfolding wp_block_Cons wp_block_Nil
    by (intro wp_ignore_emit wp_halt) (auto intro: assms(4,5))
  have no: "e \<noteq> InvariantViolation n d" for n d
    by (rule assms(2))
  show ?thesis
    using journal other no
    by (cases e) (auto simp: guarded_def wp_catchP wp_def [of fn] raised simp del: block.simps)
qed

section \<open>Boot\<close>

text \<open>The mode a process comes up in is a function of the journal and the time.\<close>

definition carried_exposure :: "time \<Rightarrow> event list \<Rightarrow> (string \<times> int) list \<Rightarrow> (string \<times> int) list \<Rightarrow> (string \<times> int) list" where
  "carried_exposure t rows pos residual =
     (if residual \<noteq> [] then residual else overnight_expected_positions t rows pos)"

definition boot_mode :: "time \<Rightarrow> event list \<Rightarrow> (string \<times> int) list \<Rightarrow> (string \<times> int) list \<Rightarrow> operating_mode" where
  "boot_mode t rows pos residual =
     (if active_halt_seq rows \<noteq> None then HALTED
      else if carried_exposure t rows pos residual \<noteq> [] then FLATTEN_ONLY else NORMAL)"

definition boot_position :: "string \<Rightarrow> string \<times> int \<Rightarrow> ('b ctl, unit) prog" where
  "boot_position d = (\<lambda>(symb, q). seqP (ensure_leg (d, symb))
     (on_leg (d, symb) (\<lambda>l. l\<lparr>lg_position := q\<rparr>)))"

lemma wp_boot_positions:
  fixes s :: "'b ctl"
  assumes "distinct (map fst pos)"
    and "\<And>legs. (\<forall>symb q. (symb, q) \<in> set pos \<longrightarrow> lg_position (leg_of (d, symb) (s\<lparr>ct_legs := legs\<rparr>)) = q) \<Longrightarrow>
      Q () (s\<lparr>ct_legs := legs\<rparr>)"
  shows "wp (forP pos (boot_position d)) Q E s"
proof -
  define step where "step = (\<lambda>(symb, q) s. let s1 = (if (d, symb) \<in> fst ` set (ct_legs s) then s
       else s\<lparr>ct_legs := ct_legs s @ [((d, symb), new_leg (d, symb))]\<rparr>)
     in s1\<lparr>ct_legs := dput (d, symb) (leg_of (d, symb) s1\<lparr>lg_position := q\<rparr>) (ct_legs s1)\<rparr> :: 'b ctl)"
  have frame: "\<exists>legs. step p u = u\<lparr>ct_legs := legs\<rparr>" for p u
    by (cases p) (auto simp: step_def Let_def)
  have here: "lg_position (leg_of (d, symb) (step (symb, q) u)) = q" for symb q u
    by (simp add: step_def Let_def)
  have there: "leg_of (d, x) (step (symb, q) u) = leg_of (d, x) u" if "x \<noteq> symb" for x symb q u
    using that by (simp add: step_def Let_def leg_of_def map_add_def split: option.split)
  have run: "wp (forP ps (boot_position d)) Q' E u = Q' () (fold step ps u)" for ps Q' u
    by (induction ps arbitrary: u)
       (auto simp: boot_position_def wp_simps ensure_leg_def on_leg_def step_def Let_def simp del: forP.simps)
  have frames: "\<exists>legs. fold step ps u = u\<lparr>ct_legs := legs\<rparr>" for ps u
  proof (induction ps arbitrary: u)
    case Nil
    have "u = u\<lparr>ct_legs := ct_legs u\<rparr>" by simp
    then show ?case by (metis fold_simps(1))
  next
    case (Cons p ps)
    obtain l where l: "step p u = u\<lparr>ct_legs := l\<rparr>" using frame by blast
    from Cons [of "step p u"] obtain l' where "fold step ps (step p u) = (step p u)\<lparr>ct_legs := l'\<rparr>" by blast
    with l show ?case by auto
  qed
  have later: "leg_of (d, x) (fold step ps u) = leg_of (d, x) u" if "x \<notin> fst ` set ps" for x ps u
    using that by (induction ps arbitrary: u) (auto simp: there)
  have positions: "lg_position (leg_of (d, x) (fold step ps u)) = q"
    if "(x, q) \<in> set ps" "distinct (map fst ps)" for x q ps u
    using that
  proof (induction ps arbitrary: u)
    case (Cons p ps)
    then show ?case
      by (cases "p = (x, q)") (auto simp: later here image_iff)
  qed simp
  obtain legs where "fold step pos s = s\<lparr>ct_legs := legs\<rparr>" using frames by blast
  with positions [OF _ assms(1)] have "Q () (fold step pos s)"
    by (metis assms(2))
  then show ?thesis by (simp only: run)
qed

text \<open>The positions of a journal are one entry per symbol.\<close>

lemma expected_step_keys:
  "expected_step e pos = Inr pos' \<Longrightarrow> distinct (map fst pos) \<Longrightarrow> distinct (map fst pos')"
  by (auto simp: expected_step_def ebind_Inr_iff distinct_keys_dput split: if_splits)

lemma expected_positions_keys: "expected_positions rows = Inr pos \<Longrightarrow> distinct (map fst pos)"
proof -
  have "distinct (map fst pos0) \<Longrightarrow> fold_exn expected_step rows pos0 = Inr pos \<Longrightarrow> distinct (map fst pos)" for pos0
    by (induction rows arbitrary: pos0) (auto simp: ebind_Inr_iff dest: expected_step_keys)
  from this [of "[]"] show "expected_positions rows = Inr pos \<Longrightarrow> distinct (map fst pos)"
    by (simp add: expected_positions_def)
qed

definition restored :: "'b ctl \<Rightarrow> (string \<times> int) list \<Rightarrow> 'b ctl \<Rightarrow> bool" where
  "restored s pos t \<longleftrightarrow> (\<exists>residual. expected_positions (rows_of s) = Inr pos
     \<and> last_eod_residual (rows_of s) = Inr residual
     \<and> ct_mode t = boot_mode (now s) (rows_of s) pos residual)
     \<and> (\<forall>symb q. (symb, q) \<in> set pos \<longrightarrow> lg_position (leg_of (default_strategy s, symb) t) = q)
     \<and> ct_journal_restored t \<and> ct_wire t = ct_wire s \<and> ct_link t = ct_link s \<and> ct_sync t = ct_sync s
     \<and> (\<exists>e. j_rows (ct_journal t) = rows_of s @ [e] \<and> ev_type e = PROCESS_STATE_RESTORED)"

lemma unacknowledged_none: "unacknowledged_halt rows = None \<longleftrightarrow> active_halt_seq rows = None"
  using boot_agrees [of rows] by (metis option.map_disc_iff)

lemma wp_restore:
  fixes s :: "'b ctl"
  assumes "\<not> ct_journal_restored s" and "ct_mode s = NORMAL"
  shows "wp restore_from_journal (restored s) (\<lambda>_ _. True) s"
proof -
  let ?rows = "rows_of s" and ?d = "default_strategy s"
  have last: "wp (block
          [whenP (carried \<noteq> []) (block [modP (\<lambda>s. s\<lparr>ct_mode := FLATTEN_ONLY\<rparr>), alert a b]),
            (case active of None \<Rightarrow> ret ()
             | Some h \<Rightarrow> block [modP (\<lambda>s. s\<lparr>ct_mode := HALTED\<rparr>), alert (a' h) (b' h)]),
            reads ct_mode (\<lambda>mode. emit (ev PROCESS_STATE_RESTORED (p mode))),
            modP (\<lambda>s. s\<lparr>ct_restored_positions := pos, ct_journal_restored := True\<rparr>)])
        (\<lambda>_. restored s pos) (\<lambda>_ _. True) u"
    if "expected_positions ?rows = Inr pos" "last_eod_residual ?rows = Inr residual"
      "carried = carried_exposure (now s) ?rows pos residual" "active = unacknowledged_halt ?rows"
      "ct_journal u = ct_journal s" "ct_mode u = NORMAL" "ct_wire u = ct_wire s" "ct_link u = ct_link s"
      "ct_sync u = ct_sync s" "\<forall>symb q. (symb, q) \<in> set pos \<longrightarrow> lg_position (leg_of (?d, symb) u) = q"
    for a b a' b' p pos residual carried active and u :: "'b ctl"
  proof -
    have final: "restored s pos (v\<lparr>ct_journal := j', ct_restored_positions := pos, ct_journal_restored := True\<rparr>)"
      if "ct_mode v = boot_mode (now s) ?rows pos residual" "ct_legs v = ct_legs u" "ct_wire v = ct_wire u"
        "ct_link v = ct_link u" "ct_sync v = ct_sync u" "ct_journal v = ct_journal s"
        "committed (stamped (ct_clock v) (ct_journal v) (ev PROCESS_STATE_RESTORED q)) (ct_journal v) j'"
      for v j' q
      unfolding restored_def
    proof (intro conjI)
      show "\<exists>residual. expected_positions ?rows = Inr pos \<and> last_eod_residual ?rows = Inr residual \<and>
          ct_mode (v\<lparr>ct_journal := j', ct_restored_positions := pos, ct_journal_restored := True\<rparr>)
            = boot_mode (now s) ?rows pos residual"
        using that \<open>expected_positions ?rows = Inr pos\<close> \<open>last_eod_residual ?rows = Inr residual\<close> by auto
      show "\<exists>e. j_rows (ct_journal (v\<lparr>ct_journal := j', ct_restored_positions := pos, ct_journal_restored := True\<rparr>))
          = ?rows @ [e] \<and> ev_type e = PROCESS_STATE_RESTORED"
        using that(6,7) by (simp add: committed_def rows_of_def replay_def)
    qed (use that \<open>ct_wire u = ct_wire s\<close> \<open>ct_link u = ct_link s\<close> \<open>ct_sync u = ct_sync s\<close>
          \<open>\<forall>symb q. (symb, q) \<in> set pos \<longrightarrow> lg_position (leg_of (?d, symb) u) = q\<close> in
          \<open>simp_all add: leg_of_def\<close>)
    have emit: "wp (emit (ev PROCESS_STATE_RESTORED q))
        (\<lambda>_. wp (modP (\<lambda>s. s\<lparr>ct_restored_positions := pos, ct_journal_restored := True\<rparr>))
          (\<lambda>_. restored s pos) (\<lambda>_ _. True)) (\<lambda>_ _. True) v"
      if "ct_mode v = boot_mode (now s) ?rows pos residual" "ct_legs v = ct_legs u" "ct_wire v = ct_wire u"
        "ct_link v = ct_link u" "ct_sync v = ct_sync u" "ct_journal v = ct_journal s" for v q
      by (rule wp_emit) (use that in \<open>auto simp: wp_modP intro!: final\<close>)
    show ?thesis
      using that unacknowledged_none [of ?rows]
      by (auto simp: wp_block_Cons wp_block_Nil wp_block_fun wp_whenP wp_modP wp_reads alert_def wp_ret
          boot_mode_def simp del: block.simps split: option.split intro!: emit)
  qed
  have risk: "wp (in_risk m) Q (\<lambda>_ _. True) u" if "\<And>a r. Q a (u\<lparr>ct_risk := r\<rparr>)" for m Q and u :: "'b ctl"
    using that by (auto simp: in_risk_def wp_def zoom_def split: prod.splits sum.splits)
  have boot: "(\<lambda>(symb, q). seqP (ensure_leg (?d, symb)) (on_leg (?d, symb) (\<lambda>l. l\<lparr>lg_position := q\<rparr>)))
      = boot_position ?d"
    by (simp add: boot_position_def)
  have active: "carried_exposure (now s) ?rows pos residual
      = (if residual \<noteq> [] then residual else overnight_expected_positions (now s) ?rows pos)" for pos residual
    by (simp add: carried_exposure_def)
  have first: "wp (block [forP pos (boot_position ?d), modP f]) Q E u"
    if "expected_positions ?rows = Inr pos"
      and "\<And>legs. (\<forall>symb q. (symb, q) \<in> set pos \<longrightarrow> lg_position (leg_of (?d, symb) (u\<lparr>ct_legs := legs\<rparr>)) = q) \<Longrightarrow>
        Q () (f (u\<lparr>ct_legs := legs\<rparr>))" for pos f Q E and u :: "'b ctl"
    unfolding wp_block_Cons wp_block_Nil wp_modP
    by (rule wp_boot_positions [OF expected_positions_keys [OF that(1)]]) (simp add: wp_block_fun wp_modP that(2))
  show ?thesis
  proof (cases "expected_positions ?rows")
    case (Inl e)
    show ?thesis
      unfolding restore_from_journal_def wp_reads if_not_P [OF assms(1)] Let_def wp_seqP wp_bindP
        wp_liftE Inl sum.case
      by (rule risk) simp
  next
    case pos: (Inr pos)
    show ?thesis
    proof (cases "last_eod_residual ?rows")
      case (Inl e)
      show ?thesis
        unfolding restore_from_journal_def wp_reads if_not_P [OF assms(1)] Let_def wp_seqP wp_bindP
          wp_liftE pos Inl sum.case
        by (rule risk) simp
    next
      case (Inr residual)
      show ?thesis
        unfolding restore_from_journal_def wp_reads if_not_P [OF assms(1)] Let_def wp_seqP wp_bindP
          wp_liftE pos Inr sum.case boot wp_ret_fun
        by (rule risk, rule first [OF pos], rule last [OF pos Inr active [symmetric] refl])
           (simp_all add: assms(2) leg_of_def)
    qed
  qed
qed

section \<open>Start\<close>

text \<open>Weakest preconditions that do not care how a program raises.\<close>

lemma wp_gate_witness:
  assumes "(\<forall>w. ct_witness s = Some w \<longrightarrow> (\<exists>r. verify_witness (ct_sha s) (ct_journal s) w = Inr r)) \<Longrightarrow> Q () s"
  shows "wp (catchP gate_witness
      (\<lambda>e. if is_refusal e then seqP close_ctl_journal (raise e) else raise e)) Q (\<lambda>_ _. True) s"
proof -
  have quiet: "wp (if is_refusal e then seqP close_ctl_journal (raise e) else raise e) Q (\<lambda>_ _. True) t"
    for e and t :: "'a ctl"
    by (simp add: wp_seqP wp_raise wp_raise_fun wp_any)
  have any: "wp m (\<lambda>_ _. True) (\<lambda>e. wp (if is_refusal e then seqP close_ctl_journal (raise e)
      else raise e) Q (\<lambda>_ _. True)) t" for m :: "('a ctl, unit) prog" and t
    by (rule wp_mono [OF wp_any]) (simp_all add: quiet)
  show ?thesis
  proof (cases "ct_witness s")
    case None
    with assms show ?thesis by (simp add: gate_witness_def wp_catchP wp_reads wp_ret)
  next
    case (Some w)
    show ?thesis
    proof (cases "verify_witness (ct_sha s) (ct_journal s) w")
      case (Inl e)
      show ?thesis
        unfolding gate_witness_def wp_catchP wp_reads Some option.case Inl sum.case wp_seqP wp_raise_fun
        by (rule wp_mono [OF any]) (simp_all add: quiet)
    next
      case (Inr r)
      with Some assms show ?thesis
        by (simp add: gate_witness_def wp_catchP wp_reads wp_ret)
    qed
  qed
qed

lemma wp_emit_quiet:
  assumes "\<And>e' j'. ev_type e' = ev_type e \<Longrightarrow> j_rows j' = j_rows (ct_journal s) @ [e'] \<Longrightarrow>
      Q () (s\<lparr>ct_journal := j'\<rparr>)"
  shows "wp (emit e) Q (\<lambda>_ _. True) s"
  by (rule wp_emit) (auto simp: committed_def intro!: assms [of "stamped (ct_clock s) (ct_journal s) e"])

lemma wp_construct:
  assumes "\<And>e1 e2 j' proven. run_self_test cfg (now s) = Inr proven \<Longrightarrow>
      ev_type e1 = RISK_CONFIG_LOADED \<Longrightarrow> ev_type e2 = RISK_SELF_TEST_PASSED \<Longrightarrow>
      j_rows j' = j_rows (ct_journal s) @ [e1, e2] \<Longrightarrow> Q () (fresh_fields cfg s\<lparr>ct_journal := j'\<rparr>)"
  shows "wp (construct_controller cfg) Q (\<lambda>_ _. True) s"
proof (cases "run_self_test cfg (now s)")
  case (Inl e)
  then show ?thesis
    by (simp add: construct_controller_def wp_seqP wp_modP wp_reads wp_bindP wp_liftE fresh_fields_def
        risk_engine_def now_def)
next
  case (Inr proven)
  have fresh: "run_self_test (re_config (ct_risk (fresh_fields cfg s))) (now (fresh_fields cfg s)) = Inr proven"
    using Inr by (simp add: fresh_fields_def risk_engine_def now_def)
  have rows: "ct_journal (fresh_fields cfg s) = ct_journal s" by (simp add: fresh_fields_def)
  show ?thesis
    unfolding construct_controller_def wp_seqP wp_modP wp_reads wp_bindP wp_liftE fresh sum.case
      wp_block_Cons wp_block_Nil
    by (rule wp_emit_quiet, rule wp_emit_quiet) (auto simp: rows wp_block_fun intro!: assms [OF Inr])
qed

lemma active_halt_quiet:
  "\<not> halts_now e \<Longrightarrow> ev_type e \<noteq> HALT_ACKNOWLEDGED \<Longrightarrow>
     active_halt_seq (rows @ [e]) = active_halt_seq rows"
  by (rule active_halt_other)

definition opened :: "host_config \<Rightarrow> 'b ctl \<Rightarrow> journal" where
  "opened hc s = open_journal (hc_fresh_identity hc) (hc_storage hc) (ct_journal s)"

text \<open>Everything a start that succeeded has established.\<close>

definition cleared_to_start :: "host_config \<Rightarrow> 'b ctl \<Rightarrow> bool" where
  "cleared_to_start hc s \<longleftrightarrow> hc_platform_refusal hc = None \<and> \<not> hc_engine_owns hc
     \<and> (\<exists>p. self_test (ct_calendar s) (now s) = Inr p)
     \<and> (\<forall>f. ct_fence s = Some f \<longrightarrow> verify_fence_domain (hc_file_system hc) f = Inr () \<and> \<not> fenced f)
     \<and> (\<forall>w. ct_witness s = Some w \<longrightarrow> verify_witness_domain (hc_file_system hc) w = Inr ()
          \<and> (\<exists>r. verify_witness (ct_sha s) (opened hc s) w = Inr r))
     \<and> (hc_order_capable hc \<longrightarrow> hc_capability_is_order_capable hc)
     \<and> (\<exists>proven. run_self_test (hc_risk_config hc) (now s) = Inr proven)"

definition started_from :: "'b ctl \<Rightarrow> 'b ctl \<Rightarrow> bool" where
  "started_from s t \<longleftrightarrow> ct_running t \<and> ct_journal_restored t \<and> ct_link t = DISCONNECTED
     \<and> ct_sync t = UNVERIFIED \<and> ct_wire t = ct_wire s
     \<and> (ct_mode t = HALTED \<longleftrightarrow> active_halt_seq (j_rows (ct_journal s)) \<noteq> None)"

lemma domain_gate: "gate_domain r = Inr u \<longleftrightarrow> r = Inr ()"
  by (cases r) (simp_all add: gate_domain_def)

lemma gate_failure_domains_Inr:
  assumes "gate_failure_domains hc s = Inr u"
  shows "ct_fence s = Some f \<Longrightarrow> verify_fence_domain (hc_file_system hc) f = Inr ()"
    and "ct_witness s = Some w \<Longrightarrow> verify_witness_domain (hc_file_system hc) w = Inr ()"
  using assms by (auto simp: gate_failure_domains_def ebind_Inr_iff domain_gate)

lemma gate_fence_Inr: "gate_fence s = Inr u \<Longrightarrow> ct_fence s = Some f \<Longrightarrow> \<not> fenced f"
  by (auto simp: gate_fence_def require_clear_iff [symmetric] split: sum.splits)

lemma gate_calendar_Inr: "gate_calendar c t = Inr p \<Longrightarrow> self_test c t = Inr p"
  by (auto simp: gate_calendar_def split: sum.splits exn.splits)

lemma wp_gate_ownership:
  assumes "\<not> hc_engine_owns hc \<Longrightarrow> Q () (s\<lparr>ct_journal := opened hc s\<rparr>)"
  shows "wp (gate_ownership hc) Q (\<lambda>_ _. True) s"
  using assms by (simp add: gate_ownership_def in_journal_def opened_def wp_simps)

lemma wp_first: "wp p (\<lambda>_ t. wp (block ps) Q E t) E s \<Longrightarrow> wp (block (p # ps)) Q E s"
  by (simp add: wp_seqP)

lemma wp_liftE_ok: "(\<And>a. r = Inr a \<Longrightarrow> Q a s) \<Longrightarrow> wp (liftE r) Q (\<lambda>_ _. True) s"
  by (simp add: wp_liftE split: sum.split)

lemma wp_refusals:
  "(hc_broker_failure hc = None \<Longrightarrow> Q () s) \<Longrightarrow>
     wp (case hc_broker_failure hc of None \<Rightarrow> ret ()
         | Some e \<Rightarrow> seqP close_ctl_journal (raise e)) Q (\<lambda>_ _. True) s"
  "(\<not> b \<Longrightarrow> Q () s) \<Longrightarrow>
     wp (if b then seqP close_ctl_journal (raise x) else ret ()) Q (\<lambda>_ _. True) s"
  by (simp_all add: wp_ret wp_seqP wp_raise_fun wp_any split: option.split)

lemma wp_host_start:
  fixes s :: "'b ctl"
  shows "wp (host_start hc) (\<lambda>_ t. cleared_to_start hc s \<and> started_from s t) (\<lambda>_ _. True) s"
proof -
  let ?s1 = "s\<lparr>ct_journal := opened hc s\<rparr>"
  let ?done = "\<lambda>_ t. cleared_to_start hc s \<and> started_from s t"
  have finish: "wp (block [bindP restore_from_journal (\<lambda>_. ret ()),
        reads ct_mode (\<lambda>m. alert ''INFO'' (msg m)), modP (\<lambda>s. s\<lparr>ct_running := True\<rparr>)])
        ?done (\<lambda>_ _. True) u"
    if "cleared_to_start hc s" "u = fresh_fields cfg ?s1\<lparr>ct_journal := j'\<rparr>"
      "j_rows j' = j_rows (ct_journal s) @ [e1, e2]" "ev_type e1 = RISK_CONFIG_LOADED"
      "ev_type e2 = RISK_SELF_TEST_PASSED" for msg cfg j' e1 e2 u
  proof -
    have active: "active_halt_seq (j_rows j') = active_halt_seq (j_rows (ct_journal s))"
      using that(3-5) active_halt_quiet [of e2 "j_rows (ct_journal s) @ [e1]"]
        active_halt_quiet [of e1 "j_rows (ct_journal s)"]
      by (simp add: halts_now_def)
    have rows: "rows_of u = j_rows j'"
      using that(2) by (simp add: rows_of_def replay_def)
    have start: "\<not> ct_journal_restored u" "ct_mode u = NORMAL" "ct_link u = DISCONNECTED"
      "ct_sync u = UNVERIFIED" "ct_wire u = ct_wire s"
      using that(2) by (simp_all add: fresh_fields_def)
    have "started_from s (t\<lparr>ct_alerts := a, ct_running := True\<rparr>)" if "restored u pos t" for pos t a
      using that start active rows by (auto simp: restored_def started_from_def boot_mode_def split: if_splits)
    then show ?thesis
      using that(1)
      unfolding wp_block_Cons wp_bindP
      by (intro wp_mono [OF wp_restore [OF start(1,2)]])
         (simp_all add: wp_ret wp_block_Cons wp_block_Nil wp_block_fun wp_reads alert_def wp_modP del: block.simps)
  qed
  have cleared: "cleared_to_start hc s"
    if "gate_platform_capability hc = Inr a1" "gate_calendar (ct_calendar s) (now s) = Inr a2"
      "gate_failure_domains hc s = Inr a3" "gate_fence s = Inr a4" "\<not> hc_engine_owns hc"
      "\<forall>w. ct_witness ?s1 = Some w \<longrightarrow> (\<exists>r. verify_witness (ct_sha ?s1) (ct_journal ?s1) w = Inr r)"
      "\<not> (hc_order_capable hc \<and> \<not> hc_capability_is_order_capable hc)"
      "run_self_test (hc_risk_config hc) (now ?s1) = Inr a5" for a1 a2 a3 a4 a5
    using that gate_failure_domains_Inr [OF that(3)] gate_fence_Inr [OF that(4)] gate_calendar_Inr [OF that(2)]
    by (auto simp: cleared_to_start_def gate_platform_capability_def now_def split: option.splits)
  show ?thesis
    unfolding host_start_def wp_reads wp_seqP wp_bindP
    apply (rule wp_liftE_ok, rule wp_liftE_ok)
    apply (rule wp_first, rule wp_liftE_ok)
    apply (rule wp_first, rule wp_liftE_ok)
    apply (rule wp_first, rule wp_gate_ownership)
    apply (rule wp_first, rule wp_gate_witness)
    apply (rule wp_first, rule wp_refusals)
    apply (rule wp_first, rule wp_refusals)
    apply (rule wp_first, rule wp_construct)
    apply (rule finish)
        apply (rule cleared, assumption+)
       apply (rule refl)
      apply (simp add: opened_def open_journal_def)
     apply assumption+
    done
qed

end
