(* ===== verification/Risk_Facts.thy ===== *)
theory Risk_Facts
  imports Risk
begin

text \<open>
  What the risk engine guarantees: an accepted order is within every limit, the runaway breakers
  bound what a process can send, the self-test proves each control live on every configuration
  that admits its baseline order, and the counters rebuilt from the journal follow the sends.
\<close>

section \<open>Configuration and check\<close>

lemma validate_bounds:
  assumes "validate c = Inr c'"
  shows "c' = c"
    and "0 < rc_max_position_shares c" and "rc_max_position_shares c \<le> 100"
    and "2 * rc_max_position_shares c \<le> rc_max_order_shares c" and "rc_max_order_shares c \<le> 200"
    and "0 < rc_max_order_notional c" and "rc_max_order_notional c \<le> 200000"
    and "0 < rc_max_daily_shares c" and "rc_max_daily_shares c \<le> 2000"
    and "0 < rc_max_daily_notional c" and "rc_max_daily_notional c \<le> 1000000"
    and "0 < rc_max_orders_per_day c" and "rc_max_orders_per_day c \<le> 200"
    and "0 < rc_max_orders_per_minute c" and "rc_max_orders_per_minute c \<le> 10"
    and "rc_symbol_whitelist c \<noteq> []" and "rc_strategy_whitelist c \<noteq> []"
    and "0 < rc_max_quote_age_seconds c" and "0 < rc_max_spread_bps c"
    and "0 < rc_max_limit_deviation_bps c"
    and "0 < rc_overnight_gap_stress_pct c" and "rc_overnight_gap_stress_pct c \<le> 1"
    and "0 < rc_max_overnight_loss c"
  using assms
  by (simp_all add: validate_def config_errors_def Let_def hard_bounds split: if_splits)

text \<open>The price the check computes the notional with.\<close>

definition check_price :: "order_intent \<Rightarrow> quote option \<Rightarrow> rat" where
  "check_price i q = price_or (oi_limit_price i) (reference_price q)"

lemma check_quote_Inr:
  assumes "check_quote c now i q closing = Inr n"
  shows "n = check_price i q" and "q = None \<Longrightarrow> closing"
    and "q = Some qt \<Longrightarrow> \<not> closing \<Longrightarrow> age_seconds qt now \<le> rc_max_quote_age_seconds c"
    and "q = Some qt \<Longrightarrow> \<not> closing \<Longrightarrow> 0 < mid qt \<Longrightarrow>
      spread qt / mid qt * 10000 \<le> rc_max_spread_bps c"
    and "q = Some qt \<Longrightarrow> 0 < mid qt \<Longrightarrow> oi_limit_price i = Some lp \<Longrightarrow>
      \<bar>lp - mid qt\<bar> / mid qt * 10000 \<le> rc_max_limit_deviation_bps c * (if closing then 3 else 1)"
  using assms
  by (auto simp: check_quote_def check_price_def reference_price_def reject_def
      split: option.splits if_splits)

lemma check_order_Inr:
  assumes "check_order chash c dc now i pos q closing = Inr p"
  shows "oi_symbol i \<in> set (rc_symbol_whitelist c)"
    and "oi_strategy_id i \<in> set (rc_strategy_whitelist c)"
    and "0 < oi_quantity i" and "oi_quantity i \<le> rc_max_order_shares c"
    and "\<bar>pos + oi_signed_quantity i\<bar> \<le> rc_max_position_shares c"
    and "rc_allow_short c \<or> 0 \<le> pos + oi_signed_quantity i"
    and "dc_orders dc + 1 \<le> rc_max_orders_per_day c"
    and "int (length (recent_stamps now (dc_stamps dc))) + 1 \<le> rc_max_orders_per_minute c"
    and "dc_shares dc + oi_quantity i \<le> rc_max_daily_shares c"
    and "check_quote c now i q closing = Inr (check_price i q)"
    and "check_price i q * of_int (oi_quantity i) \<le> rc_max_order_notional c"
    and "dc_notional dc + check_price i q * of_int (oi_quantity i) \<le> rc_max_daily_notional c"
    and "pos + oi_signed_quantity i \<noteq> 0 \<Longrightarrow> q \<noteq> None \<Longrightarrow>
      stressed_loss c (pos + oi_signed_quantity i) q \<le> rc_max_overnight_loss c"
    and "p = risk_evidence chash c (pos + oi_signed_quantity i) q closing"
  using assms
  by (auto simp: check_order_def reject_def Let_def ebind_Inr_iff dest: check_quote_Inr(1)
      split: if_splits)

section \<open>Runaway breakers\<close>

lemma length_filter_mono: "(\<And>x. P x \<Longrightarrow> Q x) \<Longrightarrow> length (filter P xs) \<le> length (filter Q xs)"
  by (induction xs) auto

lemma dc_day_roll [simp]: "dc_day (roll now dc) = Some (utc_date now)"
  by (simp add: roll_def Let_def)

lemma roll_same_day: "dc_day dc = Some (utc_date now) \<Longrightarrow> roll now dc = dc"
  by (simp add: roll_def Let_def)

lemma roll_idem [simp]: "roll now (roll now dc) = roll now dc"
  by (simp add: roll_same_day)

lemma count_send_roll [simp]: "count_send now qty px (roll now dc) = count_send now qty px dc"
  by (simp add: count_send_def)

lemma roll_count_send [simp]: "roll now (count_send now qty px dc) = count_send now qty px dc"
  by (rule roll_same_day) (simp add: count_send_def Let_def)

text \<open>
  The composition the sender makes of the two operations: check, and on acceptance record at the
  accounting price. The second component lists the orders accepted so far.
\<close>

record attempt =
  at_now :: time
  at_intent :: order_intent
  at_position :: int
  at_quote :: "quote option"
  at_closing :: bool

definition attempt_price :: "attempt \<Rightarrow> rat" where
  "attempt_price a = price_or (case oi_limit_price (at_intent a) of
     Some p \<Rightarrow> Some p | None \<Rightarrow> map_option mid (at_quote a)) 0"

definition attempt_send :: "attempt \<Rightarrow> risk_engine \<times> attempt list \<Rightarrow> risk_engine \<times> attempt list" where
  "attempt_send a st = (case st of (r, acc) \<Rightarrow>
     (case risk_check (at_now a) (at_intent a) (at_position a) (at_quote a) (at_closing a) r of
        (Inl e, r') \<Rightarrow> (r', acc)
      | (Inr p, r') \<Rightarrow> (record_sent (at_now a) (at_intent a) (attempt_price a) r', acc @ [a])))"

lemma risk_check_run:
  "risk_check now i pos q closing r =
     (check_order (re_config_hash r) (re_config r) (roll now (re_counters r)) now i pos q closing,
      r\<lparr>re_counters := roll now (re_counters r)\<rparr>)"
  by (simp add: risk_check_def seqP_def bindP_def modP_def reads_def liftE_def)

lemma attempt_price_checked:
  "attempt_price a = check_price (at_intent a) (at_quote a) \<or> attempt_price a = 0"
  by (auto simp: attempt_price_def check_price_def price_or_def reference_price_def split: option.splits)

text \<open>The accepted orders of one UTC day, and what they may amount to.\<close>

definition on_day :: "date \<Rightarrow> attempt list \<Rightarrow> attempt list" where
  "on_day d acc = filter (\<lambda>a. utc_date (at_now a) = d) acc"

definition order_shares :: "attempt list \<Rightarrow> int" where
  "order_shares acc = (\<Sum>a\<leftarrow>acc. oi_quantity (at_intent a))"

definition order_notional :: "attempt list \<Rightarrow> rat" where
  "order_notional acc = (\<Sum>a\<leftarrow>acc. attempt_price a * of_int (oi_quantity (at_intent a)))"

definition orders_capped :: "risk_config \<Rightarrow> attempt list \<Rightarrow> bool" where
  "orders_capped c acc \<longleftrightarrow> int (length acc) \<le> rc_max_orders_per_day c
     \<and> order_shares acc \<le> rc_max_daily_shares c \<and> order_notional acc \<le> rc_max_daily_notional c
     \<and> (\<forall>w. int (length (filter (\<lambda>a. w - minutes 1 < at_now a \<and> at_now a \<le> w) acc))
            \<le> rc_max_orders_per_minute c)"

text \<open>The counters of a day count at least its accepted orders.\<close>

definition counts_at_least :: "day_counters \<Rightarrow> attempt list \<Rightarrow> bool" where
  "counts_at_least dc acc \<longleftrightarrow> int (length acc) \<le> dc_orders dc \<and> order_shares acc \<le> dc_shares dc
     \<and> order_notional acc \<le> dc_notional dc \<and> (\<exists>pre. dc_stamps dc = pre @ map at_now acc)"

lemma capped_snoc:
  assumes "orders_capped c acc" and "counts_at_least dc acc"
    and "check_order chash c dc (at_now a) (at_intent a) (at_position a) (at_quote a) (at_closing a) = Inr p"
    and "\<forall>b \<in> set acc. at_now b \<le> at_now a"
  shows "orders_capped c (acc @ [a])"
proof -
  note ok = check_order_Inr [OF assms(3)]
  have "order_notional (acc @ [a]) \<le> rc_max_daily_notional c"
    using attempt_price_checked [of a] assms(1,2) ok(12)
    by (auto simp: orders_capped_def counts_at_least_def order_notional_def)
  moreover have "int (length (filter (\<lambda>b. w - minutes 1 < at_now b \<and> at_now b \<le> w) (acc @ [a])))
      \<le> rc_max_orders_per_minute c" for w
  proof (cases "at_now a \<le> w")
    case True
    obtain pre where pre: "dc_stamps dc = pre @ map at_now acc"
      using assms(2) by (auto simp: counts_at_least_def)
    have "length (filter (\<lambda>b. w - minutes 1 < at_now b \<and> at_now b \<le> w) acc)
        \<le> length (filter (\<lambda>b. at_now a - at_now b < minutes 1) acc)"
      using True by (intro length_filter_mono) auto
    also have "\<dots> \<le> length (recent_stamps (at_now a) (dc_stamps dc))"
      by (simp add: pre recent_stamps_def filter_map comp_def)
    finally show ?thesis using ok(8) by auto
  next
    case False
    then show ?thesis using assms(1) by (simp add: orders_capped_def)
  qed
  ultimately show ?thesis
    using assms(1,2) ok(7,9) by (simp add: orders_capped_def counts_at_least_def order_shares_def)
qed

lemma counts_send:
  "counts_at_least dc acc \<Longrightarrow> roll (at_now a) dc = dc \<Longrightarrow>
     counts_at_least (count_send (at_now a) (oi_quantity (at_intent a)) (attempt_price a) dc) (acc @ [a])"
  by (auto simp: counts_at_least_def count_send_def order_shares_def order_notional_def)

lemma on_day_snoc [simp]:
  "on_day d (acc @ [a]) = (if utc_date (at_now a) = d then on_day d acc @ [a] else on_day d acc)"
  by (simp add: on_day_def)

text \<open>The invariant of a run at the time \<open>t\<close>.\<close>

definition run_ok :: "risk_config \<Rightarrow> time \<Rightarrow> day_counters \<Rightarrow> attempt list \<Rightarrow> bool" where
  "run_ok c t dc acc \<longleftrightarrow> (\<forall>d. orders_capped c (on_day d acc))
     \<and> (\<forall>d. dc_day dc = Some d \<longrightarrow> counts_at_least dc (on_day d acc))
     \<and> (\<forall>a \<in> set acc. at_now a \<le> t \<and> (\<exists>d. dc_day dc = Some d \<and> utc_date (at_now a) \<le> d \<and> d \<le> utc_date t))"

lemma run_ok_roll:
  assumes "run_ok c t dc acc" and "t \<le> u"
  shows "run_ok c u (roll u dc) acc"
proof (cases "dc_day dc = Some (utc_date u)")
  case True
  with assms show ?thesis
    by (fastforce simp: run_ok_def roll_same_day)
next
  case False
  have older: "utc_date (at_now a) < utc_date u" if "a \<in> set acc" for a
  proof -
    have "\<forall>b \<in> set acc. \<exists>d. dc_day dc = Some d \<and> utc_date (at_now b) \<le> d \<and> d \<le> utc_date t"
      using assms(1) by (simp add: run_ok_def)
    with that obtain d where "dc_day dc = Some d" "utc_date (at_now a) \<le> d" "d \<le> utc_date t"
      by blast
    with False utc_date_mono [OF assms(2)] show ?thesis by fastforce
  qed
  then have none: "on_day (utc_date u) acc = []"
    by (fastforce simp: on_day_def filter_empty_conv)
  have "counts_at_least (roll u dc) []"
    using False by (simp add: counts_at_least_def order_shares_def order_notional_def roll_def Let_def)
  with assms none older show ?thesis
    by (fastforce simp: run_ok_def dest: less_imp_le)
qed

lemma attempt_send_run_ok:
  assumes "run_ok (re_config r) t (re_counters r) acc" and "t \<le> at_now a"
    and "attempt_send a (r, acc) = (r', acc')"
  shows "re_config r' = re_config r \<and> run_ok (re_config r) (at_now a) (re_counters r') acc'"
proof -
  let ?c = "re_config r" and ?u = "at_now a" and ?dc = "roll (at_now a) (re_counters r)"
  have rolled: "run_ok ?c ?u ?dc acc"
    by (rule run_ok_roll [OF assms(1,2)])
  let ?sent = "count_send ?u (oi_quantity (at_intent a)) (attempt_price a) ?dc"
  have "run_ok ?c ?u ?sent (acc @ [a])"
    if "check_order (re_config_hash r) ?c ?dc ?u (at_intent a) (at_position a) (at_quote a) (at_closing a) = Inr p"
    for p
  proof -
    have counts: "counts_at_least ?dc (on_day (utc_date ?u) acc)"
      and capped: "orders_capped ?c (on_day (utc_date ?u) acc)"
      using rolled by (simp_all add: run_ok_def)
    have "orders_capped ?c (on_day (utc_date ?u) acc @ [a])"
      by (rule capped_snoc [OF capped counts that]) (use rolled in \<open>auto simp: run_ok_def on_day_def\<close>)
    moreover have "counts_at_least ?sent (on_day (utc_date ?u) acc @ [a])"
      by (rule counts_send [OF counts]) simp
    moreover have "dc_day ?sent = Some (utc_date ?u)"
      by (simp add: count_send_def Let_def)
    ultimately show ?thesis
      using rolled by (fastforce simp: run_ok_def)
  qed
  with assms(3) rolled show ?thesis
    by (auto simp: attempt_send_def risk_check_run record_sent_def split: sum.splits)
qed

lemma attempts_run_ok:
  assumes "run_ok (re_config r) t (re_counters r) acc" and "sorted (t # map at_now as)"
    and "fold attempt_send as (r, acc) = (r', acc')"
  shows "run_ok (re_config r) (last (t # map at_now as)) (re_counters r') acc'"
  using assms
proof (induction as arbitrary: t r acc)
  case Nil
  then show ?case by simp
next
  case (Cons a as)
  obtain r1 acc1 where step: "attempt_send a (r, acc) = (r1, acc1)"
    by (cases "attempt_send a (r, acc)")
  have "re_config r1 = re_config r \<and> run_ok (re_config r) (at_now a) (re_counters r1) acc1"
    by (rule attempt_send_run_ok [OF Cons.prems(1) _ step]) (use Cons.prems(2) in simp)
  with Cons.IH [of r1 "at_now a" acc1] Cons.prems step show ?case by simp
qed

text \<open>An engine that has accepted nothing yet, with any day it may have restored.\<close>

lemma run_ok_start:
  assumes "validate c = Inr c'" and "0 \<le> dc_orders dc" and "0 \<le> dc_shares dc" and "0 \<le> dc_notional dc"
  shows "run_ok c t dc []"
  using validate_bounds [OF assms(1)] assms(2-4)
  by (simp add: run_ok_def orders_capped_def counts_at_least_def on_day_def order_shares_def order_notional_def)

section \<open>Self-test\<close>

lemma grow_until_absent_notin: "grow_until_absent values cand \<notin> set values"
proof (induction "values" cand rule: grow_until_absent.induct)
  case (1 "values" cand)
  then show ?case
    by (cases "cand \<in> set values") (simp_all add: grow_until_absent.simps [of "values" cand])
qed

lemma absent_name_notin: "absent_name values stem \<notin> set values"
  by (simp add: absent_name_def grow_until_absent_notin)

text \<open>The limits admit the self-test's baseline order of one share at 600.\<close>

definition admits_baseline :: "risk_config \<Rightarrow> bool" where
  "admits_baseline c \<longleftrightarrow>
     600 \<le> rc_max_order_notional c
     \<and> 600 * of_int (rc_max_orders_per_minute c) \<le> rc_max_daily_notional c
     \<and> rc_max_orders_per_minute c < rc_max_orders_per_day c
     \<and> rc_max_orders_per_minute c \<le> rc_max_daily_shares c
     \<and> 600 * rc_overnight_gap_stress_pct c \<le> rc_max_overnight_loss c
     \<and> 2/3 \<le> rc_max_spread_bps c \<and> rc_max_spread_bps c < 1000/3
     \<and> rc_max_limit_deviation_bps c < 5000/3"

lemma good_quote_values:
  "mid (mk_quote s b a t) = (b + a) / 2" "spread (mk_quote s b a t) = a - b"
  "age_seconds (mk_quote s b a t) now = seconds_between now t"
  by (simp_all add: mid_def spread_def age_seconds_def mk_quote_def)

lemma probe_simps [simp]:
  "oi_symbol (probe s st q px now) = s" "oi_strategy_id (probe s st q px now) = st"
  "oi_quantity (probe s st q px now) = q" "oi_limit_price (probe s st q px now) = Some px"
  "oi_signed_quantity (probe s st q px now) = q"
  by (simp_all add: probe_def oi_signed_quantity_def)

lemma seconds_between_self [simp]: "seconds_between t t = 0"
  by (simp add: seconds_between_def)

lemma stale_age:
  assumes "0 < a"
  shows "a < seconds_between now (now - round_half_even ((a + 10) * of_int usec))"
proof -
  have "(a + 10) * of_int usec - 1/2 \<le> of_int (round_half_even ((a + 10) * of_int usec))"
    using round_half_even_near [of "(a + 10) * of_int usec"] by linarith
  then have "a * of_int usec < of_int (round_half_even ((a + 10) * of_int usec))"
    by (simp add: usec_def algebra_simps)
  then show ?thesis
    by (simp add: seconds_between_def usec_def field_simps)
qed

lemma self_test_cases_rejected:
  assumes "validate c = Inr c'" and "admits_baseline c" and "cs \<in> set (self_test_cases c now)"
  shows "case_verdict c now cs = None"
proof -
  note b = validate_bounds [OF assms(1)] and adm = assms(2) [unfolded admits_baseline_def]
  have hd: "hd (rc_symbol_whitelist c) \<in> set (rc_symbol_whitelist c)"
    "hd (rc_strategy_whitelist c) \<in> set (rc_strategy_whitelist c)"
    using b by simp_all
  note absent = absent_name_notin [of "rc_symbol_whitelist c"]
    absent_name_notin [of "rc_strategy_whitelist c"]
  have fresh: "dc_orders (roll now no_counters) = 0" "dc_shares (roll now no_counters) = 0"
    "dc_notional (roll now no_counters) = 0" "dc_stamps (roll now no_counters) = []"
    by (simp_all add: roll_def no_counters_def Let_def)
  show ?thesis
    using assms(3) b adm hd absent stale_age [of "rc_max_quote_age_seconds c" now]
    by (auto simp: self_test_cases_def Let_def case_verdict_def check_order_def check_quote_def
        reject_def fresh recent_stamps_def good_quote_values price_or_def)
qed

lemma baseline_accepted:
  assumes "validate c = Inr c'" and "admits_baseline c"
    and "dc_orders dc = int k" and "dc_shares dc = int k" and "dc_notional dc = 600 * of_nat k"
    and "int (length (recent_stamps now (dc_stamps dc))) = int k" and "int k < rc_max_orders_per_minute c"
  shows "\<exists>p. check_order [] c dc now
      (probe (hd (rc_symbol_whitelist c)) (hd (rc_strategy_whitelist c)) 1 600 now) 0
      (Some (mk_quote (hd (rc_symbol_whitelist c)) (59998/100) (60002/100) now)) False = Inr p"
proof -
  note b = validate_bounds [OF assms(1)] and adm = assms(2) [unfolded admits_baseline_def]
  have hd: "hd (rc_symbol_whitelist c) \<in> set (rc_symbol_whitelist c)"
    "hd (rc_strategy_whitelist c) \<in> set (rc_strategy_whitelist c)"
    using b by simp_all
  have "600 * of_nat k + 600 \<le> (600::rat) * of_int (rc_max_orders_per_minute c)"
  proof -
    have "int k + 1 \<le> rc_max_orders_per_minute c"
      using assms(7) by simp
    then have "(of_int (int k + 1) :: rat) \<le> of_int (rc_max_orders_per_minute c)"
      by (simp only: of_int_le_iff)
    then show ?thesis by simp
  qed
  with adm have "600 * of_nat k + 600 \<le> rc_max_daily_notional c"
    by linarith
  with b adm hd assms(3-7) show ?thesis
    by (simp add: check_order_def check_quote_def reject_def good_quote_values price_or_def Let_def
        stressed_loss_def reference_price_def)
qed

lemma breaker_trips:
  assumes "validate c = Inr c'" and "admits_baseline c"
    and "roll now dc = dc" and "dc_orders dc = int k" and "dc_shares dc = int k"
    and "dc_notional dc = 600 * of_nat k" and "dc_stamps dc = replicate k now"
    and "int k \<le> rc_max_orders_per_minute c" and "rc_max_orders_per_minute c < int k + int n"
  shows "breaker_loop n c now
      (probe (hd (rc_symbol_whitelist c)) (hd (rc_strategy_whitelist c)) 1 600 now)
      (Some (mk_quote (hd (rc_symbol_whitelist c)) (59998/100) (60002/100) now)) dc = Tripped"
  using assms
proof (induction n arbitrary: k dc)
  case 0
  then show ?case by simp
next
  case (Suc n)
  note b = validate_bounds [OF Suc.prems(1)] and adm = Suc.prems(2) [unfolded admits_baseline_def]
  have rec: "recent_stamps now (dc_stamps dc) = replicate k now"
    using Suc.prems(7) by (simp add: recent_stamps_def minutes_def usec_def)
  show ?case
  proof (cases "int k < rc_max_orders_per_minute c")
    case True
    obtain p where p: "check_order [] c dc now
        (probe (hd (rc_symbol_whitelist c)) (hd (rc_strategy_whitelist c)) 1 600 now) 0
        (Some (mk_quote (hd (rc_symbol_whitelist c)) (59998/100) (60002/100) now)) False = Inr p"
      using baseline_accepted [of c c' dc k now] Suc.prems rec True by auto
    let ?dc = "count_send now 1 600 dc"
    have roll: "roll now ?dc = ?dc"
      by (simp add: roll_count_send)
    have f: "dc_orders ?dc = int (Suc k)" "dc_shares ?dc = int (Suc k)"
      "dc_notional ?dc = 600 * of_nat (Suc k)" "dc_stamps ?dc = replicate (Suc k) now"
      using Suc.prems(3-7) by (simp_all add: count_send_def replicate_append_same)
    have le: "int (Suc k) \<le> rc_max_orders_per_minute c"
      "rc_max_orders_per_minute c < int (Suc k) + int n"
      using True Suc.prems(9) by simp_all
    show ?thesis
      using Suc.IH [OF Suc.prems(1,2) roll f le] p Suc.prems(3) by simp
  next
    case False
    then have "int k = rc_max_orders_per_minute c"
      using Suc.prems(8) by simp
    then show ?thesis
      using Suc.prems b adm rec by (simp add: check_order_def reject_def Let_def)
  qed
qed

lemma map_filter_None: "(\<And>x. x \<in> set xs \<Longrightarrow> f x = None) \<Longrightarrow> List.map_filter f xs = []"
  by (induction xs) (simp_all add: List.map_filter_simps)

lemma self_test_passes:
  assumes "validate c = Inr c'" and "admits_baseline c"
  shows "run_self_test c now = Inr
    [''symbol_whitelist'', ''strategy_whitelist'', ''max_order_shares'', ''max_position_shares'',
     ''quote_stale'', ''max_spread_bps'', ''limit_collar'', ''no_quote'', ''max_orders_per_minute'']"
proof -
  note b = validate_bounds [OF assms(1)]
  let ?cases = "self_test_cases c now"
  have rej: "case_verdict c now cs = None" if "cs \<in> set ?cases" for cs
    using assms that by (rule self_test_cases_rejected)
  have none: "List.map_filter (case_verdict c now) ?cases = []"
    by (rule map_filter_None) (rule rej)
  have all: "filter (\<lambda>cs. case_verdict c now cs = None) ?cases = ?cases"
    using rej by (simp add: filter_id_conv)
  let ?fresh = "roll now no_counters"
  have loop: "breaker_loop n c now i q no_counters = breaker_loop n c now i q ?fresh" for n i q
    by (cases n) (simp_all split: sum.split exn.split)
  have trip: "breaker_loop (nat (rc_max_orders_per_minute c + 2)) c now
      (probe (hd (rc_symbol_whitelist c)) (hd (rc_strategy_whitelist c)) 1 600 now)
      (Some (mk_quote (hd (rc_symbol_whitelist c)) (59998/100) (60002/100) now)) no_counters = Tripped"
    unfolding loop using b
    by (intro breaker_trips [where k = 0, OF assms]) (simp_all add: roll_def no_counters_def Let_def)
  show ?thesis
    using b trip none all
    by (simp add: run_self_test_def Let_def) (simp add: self_test_cases_def Let_def)
qed

end
