(* ===== verification/Controller_Limits.thy ===== *)
theory Controller_Limits
  imports Controller_Safety Risk_Facts
begin

text \<open>
  No order leaves without having passed the whole risk check: every order at the wire is within the
  limits of the configuration its process ran with, for the position the controller computed with, the
  quote it had and the engine's counters at the call, which count the order itself.
\<close>

section \<open>The limits\<close>

text \<open>The limits that do not depend on the day or on the market.\<close>

definition size_limits :: "risk_config \<Rightarrow> order_intent \<Rightarrow> bool" where
  "size_limits c i \<longleftrightarrow>
     oi_symbol i \<in> set (rc_symbol_whitelist c) \<and> oi_strategy_id i \<in> set (rc_strategy_whitelist c)
     \<and> 0 < oi_quantity i \<and> oi_quantity i \<le> rc_max_order_shares c
     \<and> \<bar>oi_position_snapshot i + oi_signed_quantity i\<bar> \<le> rc_max_position_shares c
     \<and> (rc_allow_short c \<or> 0 \<le> oi_position_snapshot i + oi_signed_quantity i)"

text \<open>
  The breakers of the UTC day, on counters whose last stamp is the order's own. An order with a limit
  price of zero is accounted at zero, and checked at the middle of the quote.
\<close>

definition day_limits :: "risk_config \<Rightarrow> time \<Rightarrow> order_intent \<Rightarrow> day_counters \<Rightarrow> bool" where
  "day_limits c t i dc \<longleftrightarrow>
     dc_day dc = Some (utc_date t) \<and> dc_stamps dc \<noteq> [] \<and> last (dc_stamps dc) = t
     \<and> dc_orders dc \<le> rc_max_orders_per_day c \<and> dc_shares dc \<le> rc_max_daily_shares c
     \<and> int (length (recent_stamps t (dc_stamps dc))) \<le> rc_max_orders_per_minute c
     \<and> (oi_limit_price i \<noteq> Some 0 \<longrightarrow> dc_notional dc \<le> rc_max_daily_notional c)"

text \<open>The conditions on the quote. An order that closes needs none, and has three times the collar.\<close>

definition quote_limits ::
  "risk_config \<Rightarrow> time \<Rightarrow> order_intent \<Rightarrow> quote option \<Rightarrow> bool \<Rightarrow> bool" where
  "quote_limits c t i q closing \<longleftrightarrow> (case q of
       None \<Rightarrow> closing
     | Some qt \<Rightarrow>
         (closing \<or> age_seconds qt t \<le> rc_max_quote_age_seconds c)
         \<and> (0 < mid qt \<longrightarrow> (closing \<or> spread qt / mid qt * 10000 \<le> rc_max_spread_bps c)
              \<and> (\<forall>lp. oi_limit_price i = Some lp \<longrightarrow> \<bar>lp - mid qt\<bar> / mid qt * 10000
                   \<le> rc_max_limit_deviation_bps c * (if closing then 3 else 1))))"

text \<open>The order's own notional, and the overnight loss of the position it results in.\<close>

definition loss_limits :: "risk_config \<Rightarrow> order_intent \<Rightarrow> quote option \<Rightarrow> bool" where
  "loss_limits c i q \<longleftrightarrow>
     (let resulting = oi_position_snapshot i + oi_signed_quantity i
      in check_price i q * of_int (oi_quantity i) \<le> rc_max_order_notional c
         \<and> (resulting \<noteq> 0 \<and> q \<noteq> None \<longrightarrow>
              of_int \<bar>resulting\<bar> * reference_price q * rc_overnight_gap_stress_pct c
                \<le> rc_max_overnight_loss c))"

text \<open>Whether the order closes is read off its own fields.\<close>

definition closes_position :: "order_intent \<Rightarrow> bool" where
  "closes_position i \<longleftrightarrow> is_closing (oi_target_quantity i) (oi_position_snapshot i)"

definition within_limits :: "order_intent \<Rightarrow> wire_entry \<Rightarrow> bool" where
  "within_limits i w \<longleftrightarrow>
     (let c = we_config w; q = dget (we_quotes w) (oi_symbol i)
      in size_limits c i \<and> day_limits c (we_now w) i (we_counters w)
         \<and> quote_limits c (we_now w) i q (closes_position i) \<and> loss_limits c i q)"

definition placed_within :: "wire_entry \<Rightarrow> bool" where
  "placed_within w \<longleftrightarrow> (case we_call w of Place i \<Rightarrow> within_limits i w | Cancel r \<Rightarrow> True)"

definition limits_inv :: "'b ctl \<Rightarrow> bool" where
  "limits_inv s \<longleftrightarrow> list_all placed_within (ct_wire s)"

section \<open>From the check to the wire\<close>

text \<open>The check of \<open>i\<close> passes in the state, whose counters belong to the day.\<close>

definition risk_cleared :: "order_intent \<Rightarrow> rat option \<Rightarrow> 'b ctl \<Rightarrow> bool" where
  "risk_cleared i price s \<longleftrightarrow> limits_inv s \<and> price = accounting_price i s
     \<and> (let r = ct_risk s; dc = re_counters r
        in roll (now s) dc = dc
          \<and> (\<exists>p. check_order (re_config_hash r) (re_config r) dc (now s) i (oi_position_snapshot i)
                 (dget (ct_quotes s) (oi_symbol i)) (closes_position i) = Inr p))"

definition risk_counted :: "order_intent \<Rightarrow> rat option \<Rightarrow> 'b ctl \<Rightarrow> bool" where
  "risk_counted i price s \<longleftrightarrow> limits_inv s \<and> within_limits i (wire_entry (Place i) s)"

lemma accounting_price_checked:
  "oi_limit_price i \<noteq> Some 0 \<Longrightarrow>
     price_or (accounting_price i s) 0 = check_price i (dget (ct_quotes s) (oi_symbol i))"
  by (auto simp: accounting_price_def check_price_def price_or_def reference_price_def split: option.splits)

lemma recent_stamps_snoc [simp]: "recent_stamps t (ts @ [t]) = recent_stamps t ts @ [t]"
  by (simp add: recent_stamps_def minutes_def usec_def)

lemma counted_day_limits:
  assumes "check_order chash c dc t i pos q closing = Inr p" and "roll t dc = dc"
    and "oi_limit_price i \<noteq> Some 0 \<Longrightarrow> price = check_price i q"
  shows "day_limits c t i (count_send t (oi_quantity i) price dc)"
  using check_order_Inr [OF assms(1)] assms(2,3) dc_day_roll [of t dc]
  by (simp add: day_limits_def count_send_def)

lemma checked_quote_limits:
  assumes "check_order chash c dc t i pos q closing = Inr p"
  shows "quote_limits c t i q closing"
  using check_quote_Inr [OF check_order_Inr(10) [OF assms]]
  by (auto simp: quote_limits_def split: option.splits)

lemma risk_counts:
  assumes "risk_cleared i price s"
  shows "risk_counted i price (s\<lparr>ct_risk := record_sent (now s) i (price_or price 0) (ct_risk s)\<rparr>)"
proof -
  let ?r = "ct_risk s" and ?q = "dget (ct_quotes s) (oi_symbol i)"
  obtain p where p: "check_order (re_config_hash ?r) (re_config ?r) (re_counters ?r) (now s) i
      (oi_position_snapshot i) ?q (closes_position i) = Inr p"
    using assms by (auto simp: risk_cleared_def Let_def)
  have day: "day_limits (re_config ?r) (now s) i
      (count_send (now s) (oi_quantity i) (price_or price 0) (re_counters ?r))"
    using assms by (intro counted_day_limits [OF p])
      (auto simp: risk_cleared_def Let_def accounting_price_checked)
  show ?thesis
    using assms day checked_quote_limits [OF p] check_order_Inr [OF p]
    by (simp add: risk_counted_def risk_cleared_def limits_inv_def within_limits_def wire_entry_def Let_def
        size_limits_def loss_limits_def stressed_loss_def record_sent_def now_def)
qed

interpretation limits: ctl_base limits_inv
  by unfold_locales
     (simp_all add: limits_inv_def [abs_def] same_ground_def emit_seq_def keeps_journal_op)

text \<open>Both depend on the wire, the risk engine, the quotes and the clock only.\<close>

lemma risk_steps_cong:
  assumes "ct_wire t = ct_wire s" and "ct_risk t = ct_risk s" and "ct_quotes t = ct_quotes s"
    and "ct_clock t = ct_clock s"
  shows "risk_cleared i p t = risk_cleared i p s" and "risk_counted i p t = risk_counted i p s"
proof -
  have "accounting_price i t = accounting_price i s"
    by (simp only: accounting_price_def assms)
  with assms show "risk_cleared i p t = risk_cleared i p s" "risk_counted i p t = risk_counted i p s"
    by (simp_all only: risk_cleared_def risk_counted_def limits_inv_def within_limits_def wire_entry_def
        now_def Let_def wire_entry.simps)
qed

lemma risk_steps_calm:
  "risk_cleared i p s \<Longrightarrow> calm_ground s t \<Longrightarrow> risk_cleared i p t"
  "risk_counted i p s \<Longrightarrow> calm_ground s t \<Longrightarrow> risk_counted i p t"
  using risk_steps_cong [of t s i p] by (auto simp: calm_ground_defs)

lemma risk_steps_fields:
  "risk_cleared i p (s\<lparr>ct_mode := m\<rparr>) = risk_cleared i p s"
  "risk_counted i p (s\<lparr>ct_mode := m\<rparr>) = risk_counted i p s"
  "risk_cleared i p (s\<lparr>ct_journal := j\<rparr>) = risk_cleared i p s"
  "risk_counted i p (s\<lparr>ct_journal := j\<rparr>) = risk_counted i p s"
  by (rule risk_steps_cong; simp)+

lemma keeps_risk_journal:
  "keeps (risk_cleared i p) (journal_op m :: ('b ctl, 'x) prog)"
  "keeps (risk_counted i p) (journal_op m :: ('b ctl, 'x) prog)"
  by (rule keeps_journal_op, simp add: risk_steps_fields)+

interpretation limits_checked: ctl_calm "risk_cleared i price" for i price
  by unfold_locales
     (erule (1) risk_steps_calm, simp_all add: risk_steps_fields emit_seq_def keeps_risk_journal)

interpretation limits_counted: ctl_calm "risk_counted i price" for i price
  by unfold_locales
     (erule (1) risk_steps_calm, simp_all add: risk_steps_fields emit_seq_def keeps_risk_journal)

interpretation limits_cleared: ctl_cleared limits_inv risk_cleared risk_counted
proof unfold_locales
  fix i p and s :: "'b ctl" assume "risk_counted i p s"
  moreover have "we_call (wire_entry (Place i) s) = Place i" by (simp add: wire_entry_def)
  ultimately show "limits_inv (s\<lparr>ct_wire := ct_wire s @ [wire_entry (Place i) s]\<rparr>)"
    by (simp add: risk_counted_def limits_inv_def placed_within_def)
next
  fix i p and s :: "'b ctl" assume "risk_cleared i p s"
  then show "risk_counted i p (s\<lparr>ct_risk := record_sent (now s) i (price_or p 0) (ct_risk s)\<rparr>)"
    by (rule risk_counts)
qed (simp_all add: risk_cleared_def risk_counted_def)

lemma wp_risk_cleared:
  assumes "limits_inv s"
  shows "wp (in_risk (risk_check (now s) i (oi_position_snapshot i) (dget (ct_quotes s) (oi_symbol i))
      (closes_position i))) (\<lambda>_. risk_cleared i (accounting_price i s)) (\<lambda>_. limits_inv) s"
proof -
  have "limits_inv (s\<lparr>ct_risk := r\<rparr>)" for r
    using assms by (simp add: limits_inv_def)
  moreover have "accounting_price i (s\<lparr>ct_risk := r\<rparr>) = accounting_price i s" for r
    by (cases "oi_limit_price i") (simp_all add: accounting_price_def)
  ultimately show ?thesis
    by (auto simp: in_risk_def wp_def zoom_def risk_check_run risk_cleared_def Let_def now_def
        split: sum.splits)
qed

lemma wp_limits_send:
  fixes s :: "'b ctl"
  assumes inv: "limits_inv s"
    and closing: "\<And>t. lg_desired_target (leg_of k s) = Some t \<Longrightarrow>
      closing = is_closing (tp_target_quantity t) (lg_position (leg_of k s))"
  shows "wp (send k delta closing) (\<lambda>_. limits_inv) (\<lambda>_. limits_inv) s"
proof (cases "lg_desired_target (leg_of k s)")
  case None
  with inv show ?thesis by (simp add: send_def wp_reads wp_raise)
next
  case (Some t)
  let ?s = "s\<lparr>ct_uuid_used := Suc (ct_uuid_used s)\<rparr>"
  let ?i = "build_intent k t delta closing (ct_uuid s (ct_uuid_used s)) ?s"
  have built: "oi_position_snapshot ?i = lg_position (leg_of k ?s)" "oi_symbol ?i = snd k"
    "closes_position ?i = closing"
    using closing [OF Some]
    by (simp_all add: build_intent_def Let_def closes_position_def leg_of_def)
  have "limits_inv ?s"
    using inv by (simp add: limits_inv_def)
  from wp_risk_cleared [OF this, of ?i] have checked:
    "wp (in_risk (risk_check (now ?s) ?i (lg_position (leg_of k ?s)) (dget (ct_quotes ?s) (snd k)) closing))
      (\<lambda>_. risk_cleared ?i (accounting_price ?i ?s)) (\<lambda>_. limits_inv) ?s"
    by (simp only: built)
  show ?thesis
    unfolding send_def wp_reads Some option.case new_intent_id_def wp_bindP wp_seqP wp_modP wp_ret
      wp_attemptP
    by (rule wp_mono [OF checked])
       (auto intro: limits_cleared.ends_commit_and_place [unfolded ends_def, rule_format]
          keepsD [OF limits.keeps_refusals(1)] split: option.splits)
qed

lemma keeps_limits_cancel: "keeps limits_inv (request_cancel k why)"
proof -
  have "keeps limits_inv (cancel_order ref :: ('b ctl, unit) prog)" for ref
  proof -
    have "keeps limits_inv (modP (\<lambda>s :: 'b ctl. s\<lparr>ct_wire := ct_wire s @ [wire_entry (Cancel ref) s]\<rparr>))"
      by (rule keeps_modP) (simp add: limits_inv_def placed_within_def wire_entry_def)
    then show ?thesis
      unfolding cancel_order_def by (intro keeps_seqP keeps_reads limits.keeps_in_broker)
  qed
  then show ?thesis
    unfolding request_cancel_def cross_cancel_def
    by (intro wp_intro limits.keeps_can_write limits.keeps_alert limits.keeps_write_boundary
        limits.keeps_emit_seq limits.keeps_set_order_state limits.keeps_on_leg limits.keeps_witness_or_fence
        limits.keeps_send_outcomes) simp_all
qed

lemma wp_limits_decide:
  fixes s :: "'b ctl"
  assumes inv: "limits_inv s" and desired: "lg_desired_target (leg_of k s) = Some t"
    and closing: "closing = is_closing (tp_target_quantity t) (lg_position (leg_of k s))"
  shows "wp (decide k t closing) (\<lambda>_. limits_inv) (\<lambda>_. limits_inv) s"
proof -
  have send: "wp (send k delta closing) (\<lambda>_. limits_inv) (\<lambda>_. limits_inv) s" for delta
    by (rule wp_limits_send [OF inv]) (simp add: desired closing)
  have rest: "keeps limits_inv (maybe_cancel_for_new_target k :: ('b ctl, bool) prog)"
    unfolding maybe_cancel_for_new_target_def
    by (auto intro!: wp_intro keeps_limits_cancel split: option.splits)
  have "keeps limits_inv (seqP (block [miss t m d, drop_target k]) (ret False) :: ('b ctl, bool) prog)"
    "keeps limits_inv (seqP (defer_target k m w) (ret False) :: ('b ctl, bool) prog)"
    "keeps limits_inv (seqP (on_leg k f) (ret False) :: ('b ctl, bool) prog)" for m d w f
    by (intro wp_intro limits.keeps_miss limits.keeps_drop_target limits.keeps_defer_target
        limits.keeps_on_leg)+
  then show ?thesis
    unfolding decide_def wp_reads Let_def
    using send keepsD [OF rest inv] keepsD [OF limits.keeps_refusals(2) inv] inv
    by (simp add: keeps_def)
qed

lemma keeps_limits_evaluate: "keeps limits_inv (evaluate k)"
proof (rule keepsI)
  fix s :: "'b ctl" assume inv: "limits_inv s"
  show "wp (evaluate k) (\<lambda>_. limits_inv) (\<lambda>_. limits_inv) s"
  proof (cases "lg_desired_target (leg_of k s)")
    case None
    with inv show ?thesis by (simp add: evaluate_def wp_reads wp_ret)
  next
    case (Some t)
    have expired: "keeps limits_inv
        (seqP (block [miss t m d, drop_target k]) (ret False) :: ('b ctl, bool) prog)" for m d
      by (intro wp_intro limits.keeps_miss limits.keeps_drop_target)
    have put_off: "keeps limits_inv (seqP (defer_target k m w) (ret False) :: ('b ctl, bool) prog)" for m w
      by (intro wp_intro limits.keeps_defer_target)
    show ?thesis
      unfolding evaluate_def wp_reads Some option.case wp_if Let_def wp_bindP
      using keepsD [OF expired inv]
      by (auto intro!: wp_can_write [where I = limits_inv] inv limits.keeps_can_write keepsD [OF put_off]
          wp_limits_decide [OF inv Some])
  qed
qed

interpretation limits_process: ctl_modes limits_inv
  by unfold_locales
     (simp_all add: keeps_limits_evaluate keeps_limits_cancel, simp_all add: limits_inv_def)

interpretation limits_machine: ctl_process limits_inv
  by unfold_locales (simp_all add: limits_inv_def fresh_fields_def)

end
