(* ===== verification/Demo.thy ===== *)
theory Demo
  imports Host
begin

text \<open>
  Concrete processes for the witnesses: a broker that accepts everything and reports an empty stable
  account, a session in June 2026, and a run that starts the host, connects, reconciles and trades.
\<close>

text \<open>15:00 UTC on 10 June 2026, a trading day.\<close>

definition demo_time :: time where
  "demo_time = 1781103600000000"

lemma demo_time_is: "demo_time = days_of 2026 6 10 * day_us + hours 15"
  by code_simp

definition demo_snapshot :: broker_snapshot where
  "demo_snapshot = \<lparr>bs_positions = [], bs_open_orders = [], bs_executions = [],
     bs_server_time = demo_time, bs_is_stable = True, bs_account = ''DU1''\<rparr>"

definition demo_broker :: "unit broker" where
  "demo_broker = \<lparr>br_place_order = (\<lambda>i. ret 1), br_cancel_order = (\<lambda>r. ret ()),
     br_snapshot = ret demo_snapshot\<rparr>"

definition demo_fence :: fatal_fence where
  "demo_fence = \<lparr>ff_file = sidecar Absent, ff_path = [''fence'', ''b''],
     ff_journal_path = [''journal'', ''a''], ff_require_separate_domain = True\<rparr>"

definition demo_witness :: journal_witness where
  "demo_witness = \<lparr>jw_file = sidecar Absent, jw_path = [''witness'', ''b''],
     jw_journal_path = Some [''journal'', ''a''], jw_require_separate_domain = True\<rparr>"

definition demo_files :: file_system where
  "demo_files = \<lparr>fs_exists = (\<lambda>p. True),
     fs_dev = (\<lambda>p. if p \<noteq> [] \<and> last p = ''a'' then Some 1 else Some 2)\<rparr>"

definition demo_config :: risk_config where
  "demo_config = default_risk_config"

definition demo_host :: host_config where
  "demo_host = \<lparr>hc_platform_refusal = None, hc_file_system = demo_files, hc_engine_owns = False,
     hc_fresh_identity = ''j1'', hc_storage = [], hc_broker_failure = None, hc_order_capable = False,
     hc_capability_is_order_capable = False, hc_risk_config = demo_config\<rparr>"

text \<open>The stopped process before its first start; the hash and the ids are simple functions.\<close>

definition demo_ctl :: "unit ctl" where
  "demo_ctl = \<lparr>ct_journal = empty_db, ct_broker = (), ct_ops = demo_broker,
     ct_risk = risk_engine (\<lambda>_. ''h'') demo_config, ct_clock = manual_clock demo_time,
     ct_calendar = default_calendar, ct_policy = default_policy, ct_alerts = [],
     ct_fence = Some demo_fence, ct_fence_write_failed = None, ct_witness = Some demo_witness,
     ct_link = DISCONNECTED, ct_sync = UNVERIFIED, ct_mode = NORMAL, ct_legs = [], ct_quotes = [],
     ct_connection_epoch = 0, ct_booked_execs = [], ct_fees_pending = [], ct_violations = [],
     ct_journal_failure = None, ct_fatal_shutdown_requested = False,
     ct_eod_residual_recorded = [], ct_journal_restored = False, ct_restored_positions = [],
     ct_sha = (\<lambda>_. ''h''), ct_uuid = (\<lambda>n. replicate n CHR ''x''), ct_uuid_used = 0,
     ct_proc = \<lparr>pe_now = demo_time, pe_pid = 7, pe_host = ''host''\<rparr>, ct_running = False,
     ct_wire = []\<rparr>"

definition demo_quote :: quote where
  "demo_quote = mk_quote ''SPY'' (59998/100) (60002/100) demo_time"

definition demo_calendar :: trading_calendar where
  "demo_calendar = \<lparr>cal_holidays = [], cal_half_days = [], cal_flatten_lead_minutes = 20,
     cal_flatten_hard_minutes = 3, cal_escalation_minutes = 15, cal_supported_years = [2026]\<rparr>"

text \<open>A process that is up, connected and reconciled on an empty journal.\<close>

definition demo_live :: "unit ctl" where
  "demo_live = demo_ctl\<lparr>ct_journal := open_journal ''j1'' [] empty_db, ct_link := CONNECTED,
     ct_sync := SYNCED, ct_quotes := [(''SPY'', demo_quote)], ct_running := True,
     ct_journal_restored := True, ct_calendar := demo_calendar\<rparr>"

definition demo_target :: target_position where
  "demo_target = \<lparr>tp_strategy_id = ''manual_test'', tp_symbol = ''SPY'', tp_target_quantity = 1,
     tp_decision_id = ''d1'', tp_valid_until = demo_time + minutes 5, tp_metadata = []\<rparr>"

definition demo_actions :: "unit action list" where
  "demo_actions = [Restart 0 demo_host, Connected 1, Reconcile True, Quoted demo_quote, Submit demo_target]"

end
