(* ===== verification/Contracts.thy ===== *)
theory Contracts
  imports Controller_Facts Controller_Limits Demo
begin

text \<open>
  The properties of the single components, each with its witness at a concrete input: the journal,
  the HALT folds, the operator's tool, the durable sidecars, risk, the calendar, and the records.
\<close>

section \<open>Journal\<close>

text \<open>
  The journal is fail-stop. On a handle that is closed, failed or without its writer every
  write raises \<open>JournalUnavailable\<close>, changes no durable row and leaves the handle unusable.
\<close>

theorem dead_handle_raises:
  assumes "\<not> is_healthy j" and "submit req j = (r, j')"
  shows "(\<exists>d. r = Inl (JournalUnavailable d)) \<and> \<not> is_healthy j' \<and> j_rows j' = j_rows j
    \<and> j_consumed j' = j_consumed j \<and> j_booked j' = j_booked j"
  using submit_unhealthy [OF assms(1), of req] assms(2) by (auto simp: unchanged_def)

theorem dead_handle_raises_witness:
  "\<not> is_healthy (snd (submit (Append (ev RISK_REJECTED [])) empty_db))
   \<and> j_rows (snd (submit (Append (ev RISK_REJECTED [])) empty_db)) = []"
  using dead_handle_raises [of empty_db "Append (ev RISK_REJECTED [])"
      "fst (submit (Append (ev RISK_REJECTED [])) empty_db)"
      "snd (submit (Append (ev RISK_REJECTED [])) empty_db)"]
  by (simp add: empty_db_def is_healthy_def)

text \<open>
  C30: the acknowledgement is a compare-and-set inside the transaction. When it returns, the HALT
  active in the journal was exactly the expected one, one row was appended, and no HALT is active.
\<close>

theorem acknowledge_is_compare_and_set:
  assumes "acknowledge_halt ck n operator resolution j = (Inr seq, j')"
  shows "active_halt_seq (j_rows j) = Some n \<and> active_halt_seq (j_rows j') = None
    \<and> seq = int (length (j_rows j)) + 1
    \<and> j_rows j' = j_rows j @ [stamped ck j (ack_event n operator resolution)]"
proof -
  have "wp (acknowledge_halt ck n operator resolution)
      (\<lambda>seq j'. active_halt_seq (j_rows j) = Some n \<and> active_halt_seq (j_rows j') = None
        \<and> seq = int (length (j_rows j)) + 1
        \<and> j_rows j' = j_rows j @ [stamped ck j (ack_event n operator resolution)])
      (\<lambda>_ _. True) j"
    by (rule wp_acknowledge_halt) (simp_all add: committed_def active_after_ack)
  from wp_result [OF this assms] show ?thesis .
qed

definition halted_db :: journal where
  "halted_db = (open_journal ''j1'' [] empty_db)\<lparr>j_rows := [(ev HALT_CAUSE_ADDED [])\<lparr>ev_seq := 1\<rparr>]\<rparr>"

theorem acknowledge_is_compare_and_set_witness:
  "active_halt_seq (j_rows (snd (acknowledge_halt (manual_clock 0) 1 ''op'' ''why'' halted_db))) = None
   \<and> active_halt_seq (j_rows halted_db) = Some 1"
proof -
  have "acknowledge_halt (manual_clock 0) 1 ''op'' ''why'' halted_db
      = (Inr 2, snd (acknowledge_halt (manual_clock 0) 1 ''op'' ''why'' halted_db))"
    by code_simp
  from acknowledge_is_compare_and_set [OF this] show ?thesis by blast
qed

text \<open>
  the three HALT folds of the source (the journal's transaction, the operator's tool, and the
  controller's boot) name the same active sequence on every history.
\<close>

theorem halt_folds_agree:
  "map_option hi_seq (find_unacknowledged_halt rows) = active_halt_seq rows
   \<and> map_option hs_seq (unacknowledged_halt rows) = active_halt_seq rows"
  by (simp add: tool_agrees boot_agrees)

text \<open>
  A HALT stays active whatever is appended after it, restarts included, until an
  acknowledgement that names the latest cause.
\<close>

theorem halt_stays_until_acknowledged:
  assumes "halts_now e" and "list_all (\<lambda>x. \<not> acks_now x (ev_seq e)) later"
    and "list_all (\<lambda>x. \<not> halts_now x) later"
  shows "active_halt_seq (rows @ e # later) = Some (ev_seq e)"
proof -
  have "active_halt_step (foldl active_halt_step None rows) e = Some (ev_seq e)"
    using active_halt_halts [OF assms(1), of rows] by (simp add: active_halt_seq_def)
  then show ?thesis
    using journal_latch.latched_until_ack [of "Some (ev_seq e)" "ev_seq e" later] assms(2,3)
    by (simp add: active_halt_seq_def list_all_iff)
qed

theorem halt_stays_until_acknowledged_witness:
  "active_halt_seq ([] @ (ev HALT_CAUSE_ADDED [])\<lparr>ev_seq := 1\<rparr> #
     [(ev HALT_ACKNOWLEDGED [(''acknowledged_halt_seq'', JInt 7)])\<lparr>ev_seq := 2\<rparr>]) = Some 1"
proof -
  have "active_halt_seq ([] @ (ev HALT_CAUSE_ADDED [])\<lparr>ev_seq := 1\<rparr> #
     [(ev HALT_ACKNOWLEDGED [(''acknowledged_halt_seq'', JInt 7)])\<lparr>ev_seq := 2\<rparr>])
     = Some (ev_seq ((ev HALT_CAUSE_ADDED [])\<lparr>ev_seq := 1\<rparr>))"
    by (rule halt_stays_until_acknowledged)
       (simp_all add: halts_now_def acks_now_def acked_seq_def)
  then show ?thesis by simp
qed

text \<open>
  The operator's tool exits 0 without \<open>--show\<close> only when no HALT is left active.
\<close>

theorem ack_tool_success:
  assumes "ack_main True False fresh outs ck False operator resolution j = (Inr 0, j')"
  shows "active_halt_seq (j_rows j') = None"
proof -
  have "wp (ack_main True False fresh outs ck False operator resolution)
      (\<lambda>c j'. c = 0 \<longrightarrow> active_halt_seq (j_rows j') = None) (\<lambda>_ _. True) j"
    by (simp add: ack_main_def wp_simps, rule wp_ack_body)
       (simp_all add: wp_simps)
  from wp_result [OF this assms] show ?thesis by simp
qed

theorem ack_tool_success_witness:
  "active_halt_seq (j_rows (snd (ack_main True False ''j1'' [] (manual_clock 0) False
     (Some ''op'') (Some ''why'') halted_db))) = None"
proof -
  have "ack_main True False ''j1'' [] (manual_clock 0) False (Some ''op'') (Some ''why'') halted_db
      = (Inr 0, snd (ack_main True False ''j1'' [] (manual_clock 0) False
          (Some ''op'') (Some ''why'') halted_db))"
    by code_simp
  from ack_tool_success [OF this] show ?thesis .
qed

section \<open>Sidecars\<close>

text \<open>
  publication of a sidecar is all or nothing. Whichever operating-system calls fail, the target
  afterwards is the old content or the complete new one, and when the write returns it is the new one.
\<close>

theorem publication_is_atomic:
  fixes s :: "'a sidecar"
  assumes "durable_atomic_write a s = (r, s')"
  shows "(sc_target s' = sc_target s \<or> sc_target s' = Holds a)
    \<and> (r = Inr () \<longrightarrow> sc_target s' = Holds a) \<and> (sc_faults s = [] \<longrightarrow> r = Inr () \<and> sc_tmp s' = Absent)"
proof -
  have "wp (durable_atomic_write a)
      (\<lambda>_ t. sc_target t = Holds a) (\<lambda>_ t. sc_target t = sc_target s \<or> sc_target t = Holds a) s"
    by (rule wp_durable_atomic_write) simp_all
  with assms show ?thesis
    using durable_write_no_faults [of s a] by (auto simp: wp_def split: sum.splits)
qed

definition faulty :: "int sidecar" where
  "faulty = \<lparr>sc_target = Holds 0, sc_tmp = Absent,
     sc_faults = [False, False, False, False, False, True]\<rparr>"

theorem publication_is_atomic_witness:
  "sc_target (snd (durable_atomic_write 1 faulty)) = Holds 0
   \<or> sc_target (snd (durable_atomic_write 1 faulty)) = Holds 1"
  using publication_is_atomic [of 1 faulty "fst (durable_atomic_write 1 faulty)"
      "snd (durable_atomic_write 1 faulty)"]
  by (auto simp: faulty_def)

text \<open>
  The separate-volume check accepts exactly when both paths resolve, through their nearest
  existing ancestors, to devices that are known and different.
\<close>

theorem separate_domains_exactly:
  "require_separate fs g p what = Inr () \<longleftrightarrow>
     (\<exists>x y. fs_dev fs (anchor fs g) = Some x \<and> fs_dev fs (anchor fs p) = Some y \<and> x \<noteq> y)"
  by (rule require_separate_iff)

text \<open>
  A fence, once raised, keeps its first record: raising again returns it unchanged, whatever
  the new reason; and after any raise that returns, the start-up gate refuses.
\<close>

theorem fence_keeps_first_reason:
  assumes "raise_fence env reason f = (Inr r, f')"
  shows "read_fence f' = Some r \<and> require_clear f' = Inl (still_raised r)
    \<and> raise_fence env2 reason2 f' = (Inr r, f')"
proof -
  have "wp (raise_fence env reason) (\<lambda>r f'. read_fence f' = Some r) (\<lambda>_ _. True) f"
    by (rule wp_raise_fence) simp_all
  from wp_result [OF this assms] have read: "read_fence f' = Some r" .
  then have "wp (raise_fence env2 reason2) (\<lambda>r2 f2. r2 = r \<and> f2 = f') (\<lambda>_ _. False) f'"
    by (intro wp_raise_fence) auto
  then have "raise_fence env2 reason2 f' = (Inr r, f')"
    by (auto simp: wp_def split: prod.splits sum.splits)
  with read show ?thesis by (simp add: require_clear_def)
qed

abbreviation demo_env :: process_env where
  "demo_env \<equiv> \<lparr>pe_now = 0, pe_pid = 7, pe_host = ''h''\<rparr>"

theorem fence_keeps_first_reason_witness:
  "require_clear (snd (raise_fence demo_env (JStr ''lost'') demo_fence))
     = Inl (still_raised (new_fence demo_env (JStr ''lost'') demo_fence))"
proof -
  have "raise_fence demo_env (JStr ''lost'') demo_fence
      = (Inr (new_fence demo_env (JStr ''lost'') demo_fence),
         snd (raise_fence demo_env (JStr ''lost'') demo_fence))"
    by code_simp
  from fence_keeps_first_reason [OF this] show ?thesis by blast
qed

text \<open>
  a fence is retired only in two phases. If a fence is gone after \<open>retire\<close>, it had been
  acknowledged and the caller had reconciled; in every other case it still blocks the start.
\<close>

theorem fence_retired_in_two_phases:
  assumes "retire_fence reconciled f = (res, f')" and "fenced f"
  shows "(res = Inr () \<longrightarrow> reconciled \<and> \<not> fenced f'
      \<and> (\<exists>r. read_fence f = Some r \<and> fr_state r = STATE_ACKNOWLEDGED))
    \<and> (\<not> reconciled \<or> fr_state (the (read_fence f)) \<noteq> STATE_ACKNOWLEDGED \<longrightarrow> f' = f \<and> res \<noteq> Inr ())"
proof -
  obtain r where r: "read_fence f = Some r" using assms(2) by (auto simp: fenced_def)
  have "wp (retire_fence reconciled)
      (\<lambda>_ f'. reconciled \<and> \<not> fenced f' \<and> fr_state r = STATE_ACKNOWLEDGED)
      (\<lambda>_ f'. reconciled \<and> fr_state r = STATE_ACKNOWLEDGED \<or> f' = f) f"
    by (cases "reconciled \<and> fr_state r = STATE_ACKNOWLEDGED")
       ((rule wp_retire_fence; simp add: r), simp add: retire_fence_def wp_simps r)
  with assms(1) r show ?thesis by (auto simp: wp_def split: sum.splits)
qed

theorem fence_retired_in_two_phases_witness:
  "fst (retire_fence True (demo_fence\<lparr>ff_file := sidecar Unreadable\<rparr>)) \<noteq> Inr ()
   \<and> snd (retire_fence True (demo_fence\<lparr>ff_file := sidecar Unreadable\<rparr>))
      = demo_fence\<lparr>ff_file := sidecar Unreadable\<rparr>"
proof -
  let ?f = "demo_fence\<lparr>ff_file := sidecar Unreadable\<rparr>"
  have "fenced ?f" and "fr_state (the (read_fence ?f)) \<noteq> STATE_ACKNOWLEDGED"
    by (simp_all add: fenced_iff read_fence_def sidecar_def STATE_RAISED_def STATE_ACKNOWLEDGED_def)
  with fence_retired_in_two_phases [of True ?f "fst (retire_fence True ?f)" "snd (retire_fence True ?f)"]
  show ?thesis by simp
qed

text \<open>
  C31: the witness detects the loss of a journal tail exactly. After a recorded broker write, a
  journal recovered to its first \<open>k\<close> rows verifies if and only if the witnessed event survived.
\<close>

theorem witness_detects_tail_loss:
  assumes "numbered (j_rows j)" and "record_witness sha written j n w = (Inr r, w')"
  shows "verify_witness sha (wal_recover k j) w' = Inr (Some r) \<longleftrightarrow> n \<le> int k \<or> length (j_rows j) \<le> k"
  using assms by (rule verify_after_loss)

theorem witness_detects_tail_loss_witness:
  "verify_witness (\<lambda>_. ''h'') (wal_recover 0 halted_db)
     (snd (record_witness (\<lambda>_. ''h'') 0 halted_db 1 demo_witness))
   \<noteq> Inr (Some (witness_of (\<lambda>_. ''h'') ''j1'' 1 0 (hd (j_rows halted_db))))"
proof -
  have "record_witness (\<lambda>_. ''h'') 0 halted_db 1 demo_witness
      = (Inr (witness_of (\<lambda>_. ''h'') ''j1'' 1 0 (hd (j_rows halted_db))),
         snd (record_witness (\<lambda>_. ''h'') 0 halted_db 1 demo_witness))"
    by code_simp
  from witness_detects_tail_loss [OF _ this, of 0] show ?thesis
    by (simp add: halted_db_def numbered_def)
qed

text \<open>
  What a successful verification proves. If a recorded witness verifies against any journal, that
  journal has the same identity and holds, at the witnessed sequence, an event with the same digest;
  and a journal that only grew always verifies.
\<close>

theorem verification_is_evidence:
  assumes "record_witness sha written j n w = (Inr r, w')"
  shows "(verify_witness sha j' w' = Inr v \<longrightarrow> (\<exists>e e'. event_at j n = Some e \<and> event_at j' n = Some e'
      \<and> journal_id j' = journal_id j \<and> event_digest sha e' = event_digest sha e))
    \<and> (journal_ext j j' \<longrightarrow> verify_witness sha j' w' = Inr (Some r))"
  using journal_evidence.verified_evidence [of sha j written n w r w' j' v]
    journal_evidence.recorded_verifies [of sha j written n w r w' j'] assms
  by (simp add: record_witness_def verify_witness_def)

theorem verification_is_evidence_witness:
  "verify_witness (\<lambda>_. ''h'') halted_db (snd (record_witness (\<lambda>_. ''h'') 0 halted_db 1 demo_witness))
   = Inr (Some (witness_of (\<lambda>_. ''h'') ''j1'' 1 0 (hd (j_rows halted_db))))"
proof -
  have "record_witness (\<lambda>_. ''h'') 0 halted_db 1 demo_witness
      = (Inr (witness_of (\<lambda>_. ''h'') ''j1'' 1 0 (hd (j_rows halted_db))),
         snd (record_witness (\<lambda>_. ''h'') 0 halted_db 1 demo_witness))"
    by code_simp
  from verification_is_evidence [OF this, of halted_db] show ?thesis by simp
qed

section \<open>Risk\<close>

text \<open>
  An accepted order is inside every limit of the configuration: whitelists, order and resulting
  position size, the runaway breakers with this order counted, order and daily notional at the price
  the check used, and the stressed overnight loss.
\<close>

theorem accepted_order_within_limits:
  assumes "check_order chash c dc t i pos q closing = Inr p"
  shows "oi_symbol i \<in> set (rc_symbol_whitelist c) \<and> oi_strategy_id i \<in> set (rc_strategy_whitelist c)
    \<and> 0 < oi_quantity i \<and> oi_quantity i \<le> rc_max_order_shares c
    \<and> \<bar>pos + oi_signed_quantity i\<bar> \<le> rc_max_position_shares c
    \<and> dc_orders dc + 1 \<le> rc_max_orders_per_day c
    \<and> int (length (recent_stamps t (dc_stamps dc))) + 1 \<le> rc_max_orders_per_minute c
    \<and> dc_shares dc + oi_quantity i \<le> rc_max_daily_shares c
    \<and> check_price i q * of_int (oi_quantity i) \<le> rc_max_order_notional c
    \<and> dc_notional dc + check_price i q * of_int (oi_quantity i) \<le> rc_max_daily_notional c
    \<and> (pos + oi_signed_quantity i \<noteq> 0 \<longrightarrow> q \<noteq> None \<longrightarrow>
        stressed_loss c (pos + oi_signed_quantity i) q \<le> rc_max_overnight_loss c)"
  using check_order_Inr [OF assms] by blast

abbreviation "demo_order \<equiv> probe ''SPY'' ''manual_test'' 1 600 demo_time"

lemma demo_order_accepted:
  "check_order [] default_risk_config no_counters demo_time demo_order 0 (Some demo_quote) False
   = Inr (risk_evidence [] default_risk_config 1 (Some demo_quote) False)"
  by code_simp

theorem accepted_order_within_limits_witness:
  "oi_quantity demo_order \<le> rc_max_order_shares default_risk_config"
  using accepted_order_within_limits [OF demo_order_accepted] by blast

text \<open>
  C34: a runaway sender is bounded. Of any sequence of orders, at non-decreasing times, that one engine
  checks and counts, those it accepts on one UTC day number at most the orders per day, sum to at most
  the shares and the accounted notional per day, and of them no minute holds more than the orders per
  minute. The engine starts with any counters of a day that are not negative. The minute is bounded within
  a UTC day only: at midnight the code forgets the stamps of the day before.
\<close>

theorem runaway_is_bounded:
  assumes "validate (re_config r) = Inr c'" and "0 \<le> dc_orders (re_counters r)"
    and "0 \<le> dc_shares (re_counters r)" and "0 \<le> dc_notional (re_counters r)"
    and "sorted (map at_now as)" and "fold attempt_send as (r, []) = (r', acc)"
    and "day = filter (\<lambda>a. utc_date (at_now a) = d) acc"
  shows "int (length day) \<le> rc_max_orders_per_day (re_config r)
    \<and> (\<Sum>a\<leftarrow>day. oi_quantity (at_intent a)) \<le> rc_max_daily_shares (re_config r)
    \<and> (\<Sum>a\<leftarrow>day. attempt_price a * of_int (oi_quantity (at_intent a))) \<le> rc_max_daily_notional (re_config r)
    \<and> int (length (filter (\<lambda>a. w - minutes 1 < at_now a \<and> at_now a \<le> w) day))
        \<le> rc_max_orders_per_minute (re_config r)"
proof -
  let ?t = "case as of [] \<Rightarrow> 0 | a # _ \<Rightarrow> at_now a"
  have "sorted (?t # map at_now as)"
    using assms(5) by (cases as) auto
  from attempts_run_ok [OF run_ok_start [OF assms(1-4)] this assms(6)]
  have "orders_capped (re_config r) (on_day d acc)"
    by (simp add: run_ok_def)
  then show ?thesis
    by (simp add: assms(7) orders_capped_def on_day_def order_shares_def order_notional_def)
qed

definition demo_attempts :: "attempt list" where
  "demo_attempts = replicate 6 \<lparr>at_now = demo_time, at_intent = demo_order, at_position = 0,
     at_quote = Some demo_quote, at_closing = False\<rparr>"

lemma demo_config_valid: "validate default_risk_config = Inr default_risk_config"
  by (simp add: validate_def config_errors_def default_risk_config_def hard_bounds)

theorem runaway_is_bounded_witness:
  "\<exists>r' acc. fold attempt_send demo_attempts (risk_engine (\<lambda>_. ''h'') default_risk_config, []) = (r', acc)
     \<and> length acc = 4 \<and> length demo_attempts = 6
     \<and> int (length (filter (\<lambda>a. utc_date (at_now a) = utc_date demo_time) acc)) \<le> 50"
proof -
  let ?r = "risk_engine (\<lambda>_. ''h'') default_risk_config"
  obtain r' acc where run: "fold attempt_send demo_attempts (?r, []) = (r', acc)"
    by (cases "fold attempt_send demo_attempts (?r, [])")
  have "length (snd (fold attempt_send demo_attempts (?r, []))) = 4" "length demo_attempts = 6"
    by code_simp+
  moreover have "sorted (map at_now demo_attempts)"
    by (simp add: demo_attempts_def)
  ultimately show ?thesis
    using runaway_is_bounded [OF _ _ _ _ _ run refl, of default_risk_config "utc_date demo_time"] run
    by (simp add: risk_engine_def demo_config_valid no_counters_def)
       (simp add: default_risk_config_def)
qed

text \<open>
  The start-up self-test is complete. On every validated configuration whose limits admit its
  baseline order it passes and lists every control it proved live; no such configuration is refused.
\<close>

theorem self_test_proves_all_controls:
  assumes "validate c = Inr c'" and "admits_baseline c"
  shows "run_self_test c t = Inr
    [''symbol_whitelist'', ''strategy_whitelist'', ''max_order_shares'', ''max_position_shares'',
     ''quote_stale'', ''max_spread_bps'', ''limit_collar'', ''no_quote'', ''max_orders_per_minute'']"
  using assms by (rule self_test_passes)

theorem self_test_proves_all_controls_witness:
  "run_self_test default_risk_config demo_time = Inr
    [''symbol_whitelist'', ''strategy_whitelist'', ''max_order_shares'', ''max_position_shares'',
     ''quote_stale'', ''max_spread_bps'', ''limit_collar'', ''no_quote'', ''max_orders_per_minute'']"
  by (rule self_test_proves_all_controls [OF demo_config_valid])
     (simp add: admits_baseline_def default_risk_config_def)

text \<open>
  A validated configuration is under the compiled-in ceilings and always lets a full reversal of
  the largest position through one order.
\<close>

theorem validated_config_bounded:
  assumes "validate c = Inr c'"
  shows "c' = c \<and> rc_max_position_shares c \<le> HARD_MAX_POSITION_SHARES
    \<and> 2 * rc_max_position_shares c \<le> rc_max_order_shares c
    \<and> rc_max_order_shares c \<le> HARD_MAX_ORDER_SHARES
    \<and> rc_max_order_notional c \<le> HARD_MAX_ORDER_NOTIONAL
    \<and> rc_max_daily_shares c \<le> HARD_MAX_DAILY_SHARES
    \<and> rc_max_daily_notional c \<le> HARD_MAX_DAILY_NOTIONAL
    \<and> rc_max_orders_per_day c \<le> HARD_MAX_ORDERS_PER_DAY
    \<and> rc_max_orders_per_minute c \<le> HARD_MAX_ORDERS_PER_MINUTE"
  using validate_bounds [OF assms] by (simp add: hard_bounds)

theorem validated_config_bounded_witness:
  "2 * rc_max_position_shares default_risk_config \<le> rc_max_order_shares default_risk_config"
  using validated_config_bounded [OF demo_config_valid] by blast

section \<open>Calendar\<close>

text \<open>
  on a trading day, half days and both clock changes included, the deadlines of the plan are in
  order: open, flatten start, escalation, hard flatten, close, for every choice of leads that is
  itself ordered and leaves the flatten start after the open.
\<close>

theorem session_deadlines_ordered:
  assumes "plan c d = Inr p" and "sp_is_trading_day p" and "sane_leads c"
  shows "ordered_plan p"
  using assms by (rule plan_ordered)

definition half_day :: date where
  "half_day = days_of 2026 11 27"

lemma half_day_plan:
  "plan default_calendar half_day = Inr
    \<lparr>sp_session_date = half_day, sp_is_trading_day = True, sp_is_half_day = True,
     sp_open_utc = Some (half_day * day_us + hours 14 + minutes 30),
     sp_close_utc = Some (half_day * day_us + hours 18),
     sp_flatten_start_utc = Some (half_day * day_us + hours 17 + minutes 40),
     sp_flatten_hard_utc = Some (half_day * day_us + hours 17 + minutes 57),
     sp_escalation_utc = Some (half_day * day_us + hours 17 + minutes 45)\<rparr>"
  by code_simp

theorem session_deadlines_ordered_witness:
  "ordered_plan \<lparr>sp_session_date = half_day, sp_is_trading_day = True, sp_is_half_day = True,
     sp_open_utc = Some (half_day * day_us + hours 14 + minutes 30),
     sp_close_utc = Some (half_day * day_us + hours 18),
     sp_flatten_start_utc = Some (half_day * day_us + hours 17 + minutes 40),
     sp_flatten_hard_utc = Some (half_day * day_us + hours 17 + minutes 57),
     sp_escalation_utc = Some (half_day * day_us + hours 17 + minutes 45)\<rparr>"
  by (rule session_deadlines_ordered [OF half_day_plan])
     (simp_all add: sane_leads_def default_calendar_def)

text \<open>
  The next trading day is the first one: it is after the given day and within the horizon, it
  trades, and every day in between is known to the calendar and does not.
\<close>

theorem next_trading_day_is_first:
  assumes "next_trading_day c after horizon = Inr d"
  shows "after < d \<and> d \<le> after + horizon \<and> is_trading_day c d = Inr True
    \<and> (\<forall>x. after < x \<and> x < d \<longrightarrow> is_trading_day c x = Inr False)"
  using next_trading_day_first [OF assms] by blast

theorem next_trading_day_is_first_witness:
  "is_trading_day default_calendar (days_of 2026 7 3) = Inr False
   \<and> is_trading_day default_calendar (days_of 2026 7 6) = Inr True"
proof -
  have d: "next_trading_day default_calendar (days_of 2026 7 2) 10 = Inr (days_of 2026 7 6)"
    by code_simp
  have "days_of 2026 7 2 < days_of 2026 7 3" "days_of 2026 7 3 < days_of 2026 7 6"
    by code_simp+
  with next_trading_day_is_first [OF d] show ?thesis by blast
qed

section \<open>Records\<close>

text \<open>
  an order intent survives the journal: reading back what was written, with any entries
  appended behind it, gives the intent itself, every field included.
\<close>

theorem intent_round_trip: "from_payload (to_payload i @ extra) = Inr i"
  by (rule from_to_payload_append)

end
