(* ===== verification/Controller_Reconciled.thy ===== *)
theory Controller_Reconciled
  imports Controller_Facts
begin

text \<open>
  What a reconciliation that returned has established: on True, the positions in memory, in the journal
  and in the broker's answer are one, and stay so while the targets are evaluated; on False, the state
  is not synced.
\<close>

section \<open>Running through invariants\<close>

text \<open>One step of a sequence, by what it establishes or by what it keeps.\<close>

lemma wp_then:
  "wp m R (\<lambda>_ _. True) s \<Longrightarrow> (\<And>a t. R a t \<Longrightarrow> wp n Q (\<lambda>_ _. True) t) \<Longrightarrow> wp (seqP m n) Q (\<lambda>_ _. True) s"
  by (simp add: wp_seqP) (erule wp_mono; simp)

lemma wp_then_bind:
  "wp m R (\<lambda>_ _. True) s \<Longrightarrow> (\<And>a t. R a t \<Longrightarrow> wp (f a) Q (\<lambda>_ _. True) t) \<Longrightarrow> wp (bindP m f) Q (\<lambda>_ _. True) s"
  by (simp add: wp_bindP) (erule wp_mono; simp)

lemma wp_then_block:
  "wp m R (\<lambda>_ _. True) s \<Longrightarrow> (\<And>a t. R a t \<Longrightarrow> wp (block ms) Q (\<lambda>_ _. True) t) \<Longrightarrow>
     wp (block (m # ms)) Q (\<lambda>_ _. True) s"
  unfolding block.simps by (rule wp_then)

lemma wp_kept: "keeps I m \<Longrightarrow> I s \<Longrightarrow> wp m (\<lambda>_. I) (\<lambda>_ _. True) s"
  by (rule wp_mono [OF keepsD]) simp_all

section \<open>The journal explains the positions\<close>

definition explains :: "(string \<times> int) list \<Rightarrow> 'b ctl \<Rightarrow> bool" where
  "explains expected s \<longleftrightarrow> expected_positions (rows_of s) = Inr expected"

lemma expected_positions_quiet:
  "quiet e \<Longrightarrow> expected_positions (rows @ [stamped ck j e]) = expected_positions rows"
  by (cases "fold_exn expected_step rows []")
     (simp_all add: expected_positions_def fold_exn_append expected_step_def quiet_def)

interpretation explained: ctl_quiet "explains expected" for expected
proof
  show "keeps (explains expected) (emit_seq e)" if "quiet e" for e
  proof (rule keepsI)
    fix s assume "explains expected s"
    with that show "wp (emit_seq e) (\<lambda>_. explains expected) (\<lambda>_. explains expected) s"
      by (intro wp_emit_seq)
         (auto simp: explains_def rows_of_def replay_def committed_def lost_def expected_positions_quiet)
  qed
qed (auto simp: explains_def rows_of_def replay_def same_ground_def)

lemma map_filter_empty: "List.map_filter f xs = [] \<longleftrightarrow> (\<forall>x \<in> set xs. f x = None)"
  by (induction xs) (auto simp: List.map_filter_simps split: option.splits)

text \<open>No mismatch is agreement on every symbol.\<close>

lemma position_mismatch_empty:
  "position_mismatch expected actual = [] \<longleftrightarrow> (\<forall>symb. dget_or expected symb 0 = dget_or actual symb 0)"
proof -
  have absent: "dget_or m symb (0::int) = 0" if "symb \<notin> fst ` set m" for m :: "(string \<times> int) list" and symb
    using that by (simp add: dget_or_def map_of_eq_None_iff [THEN iffD2])
  show ?thesis
  proof -
    have "dget_or expected symb 0 = dget_or actual symb 0"
      if "\<forall>x\<in>fst ` set expected \<union> fst ` set actual. dget_or expected x 0 = dget_or actual x 0" for symb
      using that absent [of symb expected] absent [of symb actual]
      by (cases "symb \<in> fst ` set expected \<union> fst ` set actual") auto
    then show ?thesis
      unfolding position_mismatch_def Let_def by (auto simp: map_filter_empty)
  qed
qed

section \<open>The legs take the broker's positions\<close>

definition legs_at :: "(string \<times> int) list \<Rightarrow> leg_key list \<Rightarrow> leg_key set \<Rightarrow> 'b ctl \<Rightarrow> bool" where
  "legs_at actual K ks s \<longleftrightarrow> leg_keys s = K
     \<and> (\<forall>k \<in> ks. lg_position (leg_of k s) = dget_or actual (snd k) 0)"

lemma legs_at_dput:
  "k \<in> set K \<Longrightarrow> legs_at actual K ks s \<Longrightarrow> (k \<in> ks \<Longrightarrow> lg_position l = dget_or actual (snd k) 0) \<Longrightarrow>
     legs_at actual K ks (s\<lparr>ct_legs := dput k l (ct_legs s)\<rparr>)"
  by (auto simp: legs_at_def leg_keys_def leg_of_def update_keys)

lemma legs_at_emit_seq: "keeps (legs_at actual K ks) (emit_seq e)"
  by (rule keepsI, rule wp_emit_seq) (simp_all add: legs_at_def leg_keys_def leg_of_def)

lemma legs_at_emit: "keeps (legs_at actual K ks) (emit e)"
  unfolding emit_def by (intro keeps_bindP keeps_ret legs_at_emit_seq)

lemma legs_at_on_leg:
  "k \<in> set K \<Longrightarrow> (\<And>l. lg_position (f l) = lg_position l) \<Longrightarrow> keeps (legs_at actual K ks) (on_leg k f)"
  unfolding on_leg_def
  by (rule keeps_modP, rule legs_at_dput) (simp_all add: legs_at_def)

lemma legs_at_set_sync: "keeps (legs_at actual K ks) (set_sync new why)"
  unfolding set_sync_def
  by (intro keeps_reads keeps_whenP keeps_block_Cons keeps_block_Nil legs_at_emit keeps_modP)
     (simp add: legs_at_def leg_keys_def leg_of_def)

lemma legs_at_set_order_state:
  "k \<in> set K \<Longrightarrow> keeps (legs_at actual K ks) (set_order_state k new why)"
  unfolding set_order_state_def
  by (intro keeps_reads keeps_whenP keeps_block_Cons keeps_block_Nil legs_at_emit legs_at_set_sync
      legs_at_on_leg) simp_all

lemma legs_at_maybe_complete_flatten:
  "k \<in> set K \<Longrightarrow> keeps (legs_at actual K ks) (maybe_complete_flatten k src)"
  unfolding maybe_complete_flatten_def
  by (intro keeps_reads keeps_case_option keeps_if keeps_ret keeps_seqP keeps_whenP keeps_block_Cons
      keeps_block_Nil legs_at_emit legs_at_on_leg) simp_all

lemma wp_resolve_leg:
  assumes "k \<in> set K" and "legs_at actual K ks s"
  shows "wp (resolve_leg actual refs k) (\<lambda>_. legs_at actual K (insert k ks)) (\<lambda>_ _. True) s"
proof -
  have "keeps (legs_at actual K (insert k ks)) (reads (leg_of k) (\<lambda>l. case lg_live_intent l of
        Some i \<Rightarrow> whenP (oi_order_ref i \<notin> set refs) (block
          [on_leg k (\<lambda>l. l\<lparr>lg_live_intent := None, lg_working_signed := 0\<rparr>),
           set_order_state k IDLE (JStr ''resolved by reconciliation'')])
      | None \<Rightarrow> block
          [on_leg k (\<lambda>l. l\<lparr>lg_working_signed := 0\<rparr>),
           whenP (lg_order_state l \<in> set UNTRUSTWORTHY_ORDER_STATES)
             (set_order_state k IDLE (JStr ''resolved by reconciliation''))]))" (is "keeps ?I ?m")
    using assms(1)
    by (intro keeps_reads keeps_case_option keeps_whenP keeps_block_Cons keeps_block_Nil
        legs_at_on_leg legs_at_set_order_state) simp_all
  then have "keeps ?I (seqP ?m (bindP (maybe_complete_flatten k ''reconcile'') (\<lambda>_. ret ())))"
    by (intro keeps_seqP keeps_bindP keeps_ret legs_at_maybe_complete_flatten assms(1))
  moreover have "?I (s\<lparr>ct_legs := dput k (leg_of k s\<lparr>lg_position := dget_or actual (snd k) 0\<rparr>) (ct_legs s)\<rparr>)"
    using assms by (auto simp: legs_at_def leg_keys_def leg_of_def update_keys)
  ultimately show ?thesis
    unfolding resolve_leg_def by (subst wp_seqP) (simp only: on_leg_def [of k] wp_modP, rule wp_kept)
qed

lemma wp_resolve_legs:
  fixes s :: "'b ctl"
  shows "set todo \<subseteq> set K \<Longrightarrow> legs_at actual K ks s \<Longrightarrow>
     wp (forP todo (resolve_leg actual refs)) (\<lambda>_. legs_at actual K (set todo \<union> ks)) (\<lambda>_ _. True) s"
proof (induction todo arbitrary: ks s)
  case Nil
  then show ?case by (simp add: wp_ret)
next
  case (Cons k todo)
  have "wp (forP todo (resolve_leg actual refs)) (\<lambda>_. legs_at actual K (set (k # todo) \<union> ks)) (\<lambda>_ _. True) t"
    if "legs_at actual K (insert k ks) t" for t :: "'b ctl"
    using Cons.IH [OF _ that] Cons.prems(1) by simp
  with Cons.prems show ?case
    unfolding wp_forP_Cons by (intro wp_mono [OF wp_resolve_leg]) auto
qed

section \<open>Evaluating a target\<close>

text \<open>
  The contract of a property that the evaluation of a leg keeps although it may write to the broker: it
  depends on the legs, the journal and the sync state only; sync may only fall to UNVERIFIED, the legs may
  change in anything but their positions.
\<close>

definition same_books :: "'b ctl \<Rightarrow> 'b ctl \<Rightarrow> bool" where
  "same_books s t \<longleftrightarrow> ct_legs t = ct_legs s \<and> ct_journal t = ct_journal s
     \<and> (ct_sync t = ct_sync s \<or> ct_sync t = UNVERIFIED)"

locale ctl_books =
  fixes I :: "'b ctl \<Rightarrow> bool" and k :: leg_key
  assumes elsewhere: "I s \<Longrightarrow> same_books s t \<Longrightarrow> I t"
    and noted: "quiet e \<Longrightarrow> keeps I (emit_seq e)"
    and leg_kept: "(\<And>l. lg_position (f l) = lg_position l) \<Longrightarrow> keeps I (on_leg k f)"
begin

lemma books_mod: "(\<And>s. same_books s (f s)) \<Longrightarrow> keeps I (modP f)"
  by (rule keeps_modP) (rule elsewhere)

lemma books_zoom: "(\<And>s x. same_books s (put x s)) \<Longrightarrow> keeps I (zoom get put m)"
  by (rule keeps_zoom) (erule elsewhere, blast)

lemma books_emit: "quiet e \<Longrightarrow> keeps I (emit e)"
  unfolding emit_def by (intro keeps_bindP keeps_ret noted)

lemma books_components:
  "keeps I (in_risk mr)" "keeps I (in_broker mb)" "keeps I (in_fence f mf)" "keeps I (in_witness w mw)"
  "keeps I (alert lv msg)" "keeps I new_intent_id"
  unfolding in_risk_def in_broker_def in_fence_def in_witness_def alert_def new_intent_id_def
  by (intro wp_intro books_zoom books_mod; simp add: same_books_def)+

lemma books_closing_down:
  "keeps I (raise_durable_fence d)" "keeps I (fail_closed_runtime d b)" "keeps I (fail_closed_journal c d)"
  unfolding fail_closed_journal_def fail_closed_runtime_def raise_durable_fence_def
  by (intro wp_intro books_mod books_components; simp add: same_books_def)+

lemma books_witness:
  "keeps I (witness_or_fence n b)" "keeps I (witness_safety_critical n d)"
  unfolding witness_or_fence_def witness_safety_critical_def witness_event_def
  by (intro wp_intro books_components books_closing_down)+

lemma books_state:
  "keeps I (set_sync UNVERIFIED why)" "keeps I (set_mode md why)" "keeps I (halt why)"
  unfolding set_sync_def halt_def set_mode_def
  by (intro wp_intro noted books_emit books_mod books_components books_witness;
      simp add: same_books_def)+

lemma books_order_state: "keeps I (set_order_state k new why)"
  unfolding set_order_state_def by (intro wp_intro books_emit books_state leg_kept) simp_all

lemma books_gates:
  "keeps I (require c n d)" "keeps I (write_boundary what)" "keeps I (can_write closing)"
  unfolding write_boundary_def require_def can_write_def ignore_unavailable_def
  by (intro wp_intro books_emit books_mod books_state books_closing_down; simp add: same_books_def)+

lemma books_targets:
  "keeps I (miss t r d)" "keeps I (defer_target k r w)" "keeps I (drop_target k)"
  "keeps I (exhaust_attempts k t n)" "keeps I (risk_refused k t i check d)"
  unfolding exhaust_attempts_def risk_refused_def miss_def defer_target_def drop_target_def
  by (intro wp_intro books_emit leg_kept; simp)+

lemma books_outcomes:
  "keeps I (send_rejected k t i d)" "keeps I (send_uncertain k i d)"
  "keeps I (send_returned k i price n)" "keeps I (abandon_send k)" "keeps I (cancel_failed k i e)"
  unfolding send_rejected_def send_uncertain_def send_returned_def abandon_send_def cancel_failed_def
  by (intro wp_intro books_emit leg_kept books_order_state books_components books_targets; simp)+

lemma books_writes: "keeps I (place_order i)" "keeps I (cancel_order ref)"
  unfolding place_order_def cancel_order_def
  by (intro wp_intro books_mod books_components; simp add: same_books_def)+

lemma books_send: "keeps I (send k delta closing)"
  unfolding send_def commit_and_place_def cross_boundary_def place_and_record_def
  by (intro wp_intro noted books_emit leg_kept books_components books_gates books_order_state
      books_witness books_writes books_outcomes books_targets) simp_all

lemma books_request_cancel: "keeps I (request_cancel k why)"
  unfolding request_cancel_def cross_cancel_def
  by (intro wp_intro noted books_components books_gates books_order_state leg_kept books_witness
      books_writes books_outcomes) simp_all

lemma books_decide: "keeps I (decide k t closing)"
  unfolding decide_def maybe_cancel_for_new_target_def
  by (auto intro!: wp_intro books_targets leg_kept books_send books_request_cancel split: option.splits)

lemma books_evaluate: "keeps I (evaluate k)"
  unfolding evaluate_def by (intro wp_intro books_targets books_gates books_decide)

end

section \<open>Accepting the snapshot\<close>

text \<open>The journal's positions, the broker's and those of the legs are one.\<close>

definition books_agree :: "(string \<times> int) list \<Rightarrow> 'b ctl \<Rightarrow> bool" where
  "books_agree actual s \<longleftrightarrow>
     (\<exists>expected. expected_positions (rows_of s) = Inr expected
          \<and> (\<forall>symb. dget_or expected symb 0 = dget_or actual symb 0))
     \<and> (\<forall>k \<in> set (leg_keys s). lg_position (leg_of k s) = dget_or actual (snd k) 0)"

text \<open>What evaluating the leg \<open>k\<close> leaves alone of this.\<close>

definition settled ::
  "(string \<times> int) list \<Rightarrow> (string \<times> int) list \<Rightarrow> leg_key list \<Rightarrow> leg_key \<Rightarrow> 'b ctl \<Rightarrow> bool" where
  "settled actual expected K k s \<longleftrightarrow> k \<in> set K \<and> legs_at actual K (set K) s \<and> explains expected s
     \<and> (ct_sync s = SYNCED \<or> ct_sync s = UNVERIFIED)"

lemma keeps_settled:
  fixes m :: "('b ctl, 'x) prog"
  assumes "k \<in> set K \<Longrightarrow> keeps (legs_at actual K (set K)) m"
    and "keeps (explains expected) m" and "\<And>S. keeps (\<lambda>s. ct_sync s = S) m"
  shows "keeps (settled actual expected K k) m"
proof (rule keepsI)
  fix s :: "'b ctl" assume s: "settled actual expected K k s"
  then have "wp m (\<lambda>_. legs_at actual K (set K)) (\<lambda>_. legs_at actual K (set K)) s"
    "wp m (\<lambda>_. explains expected) (\<lambda>_. explains expected) s"
    "wp m (\<lambda>_ t. ct_sync t = ct_sync s) (\<lambda>_ t. ct_sync t = ct_sync s) s"
    using assms(1) keepsD [OF assms(2)] keepsD [OF assms(3) [of "ct_sync s"]]
    by (auto simp: settled_def dest: keepsD)
  from wp_conj [OF this(1) wp_conj [OF this(2,3)]]
  show "wp m (\<lambda>_. settled actual expected K k) (\<lambda>_. settled actual expected K k) s"
    by (rule wp_mono) (use s in \<open>auto simp: settled_def\<close>)
qed

lemma keeps_sync_emit_seq: "keeps (\<lambda>s. ct_sync s = S) (emit_seq e)"
  by (rule keepsI, rule wp_emit_seq) simp_all

interpretation settling: ctl_books "settled actual expected K k" k for actual expected K k
proof
  fix s t :: "'b ctl" assume "settled actual expected K k s" "same_books s t"
  then show "settled actual expected K k t"
    by (auto simp: settled_def same_books_def legs_at_def leg_keys_def leg_of_def explains_def rows_of_def)
next
  fix e assume "quiet e"
  then show "keeps (settled actual expected K k :: 'b ctl \<Rightarrow> bool) (emit_seq e)"
    by (intro keeps_settled legs_at_emit_seq explained.keeps_emit_seq keeps_sync_emit_seq)
next
  fix f :: "leg \<Rightarrow> leg" assume f: "\<And>l. lg_position (f l) = lg_position l"
  have "keeps (\<lambda>s :: 'b ctl. ct_sync s = S) (on_leg k f)" for S
    unfolding on_leg_def by (rule keeps_modP) simp
  with f show "keeps (settled actual expected K k :: 'b ctl \<Rightarrow> bool) (on_leg k f)"
    by (intro keeps_settled legs_at_on_leg explained.keeps_on_leg)
qed

lemma wp_set_sync:
  "wp (set_sync new why) (\<lambda>_ t. ct_sync t = new) (\<lambda>_ _. True) s"
  unfolding set_sync_def wp_reads
  by (auto simp: wp_whenP wp_seqP wp_modP wp_block_fun wp_ret wp_ret_fun intro!: wp_emit)

text \<open>The books agree, and sync is as a reconciliation that evaluates targets or not may leave it.\<close>

definition accepted_books :: "bool \<Rightarrow> (string \<times> int) list \<Rightarrow> 'b ctl \<Rightarrow> bool" where
  "accepted_books evaluated actual t \<longleftrightarrow>
     books_agree actual t \<and> (ct_sync t = SYNCED \<or> evaluated \<and> ct_sync t = UNVERIFIED)"

definition evaluate_wanted :: "leg_key \<Rightarrow> ('b ctl, unit) prog" where
  "evaluate_wanted k =
     reads (leg_of k) (\<lambda>l. whenP (lg_desired_target l \<noteq> None) (bindP (evaluate k) (\<lambda>_. ret ())))"

lemma keeps_evaluate_wanted: "keeps (settled actual expected K k) (evaluate_wanted k)"
  unfolding evaluate_wanted_def
  by (intro keeps_reads keeps_whenP keeps_bindP keeps_ret settling.books_evaluate)

lemma wp_evaluate_legs:
  fixes t :: "'b ctl"
  assumes "legs_at actual K (set K) t" and "explains expected t" and "ct_sync t = SYNCED"
    and agree: "\<forall>symb. dget_or expected symb 0 = dget_or actual symb 0"
  shows "wp (whenP evaluated (reads leg_keys (\<lambda>ks. forP ks evaluate_wanted)))
    (\<lambda>_. accepted_books evaluated actual) (\<lambda>_ _. True) t"
proof -
  let ?I = "\<lambda>u :: 'b ctl. legs_at actual K (set K) u \<and> explains expected u
     \<and> (ct_sync u = SYNCED \<or> ct_sync u = UNVERIFIED)"
  have books: "accepted_books True actual u" if "?I u" for u
    using that agree by (auto simp: accepted_books_def books_agree_def explains_def legs_at_def)
  have each: "wp (evaluate_wanted k) (\<lambda>_. ?I) (\<lambda>_ _. True) u" if "k \<in> set K" "?I u" for k u
  proof -
    have "settled actual expected K k u"
      using that by (simp add: settled_def)
    from keepsD [OF keeps_evaluate_wanted this] show ?thesis
      by (rule wp_mono) (simp_all add: settled_def)
  qed
  have "wp (forP K evaluate_wanted) (\<lambda>_. ?I) (\<lambda>_ _. True) t"
    using assms(1-3) by (intro wp_forP_inv each) simp_all
  then have "wp (forP K evaluate_wanted) (\<lambda>_. accepted_books True actual) (\<lambda>_ _. True) t"
    by (rule wp_mono) (simp_all add: books)
  moreover have "leg_keys t = K" and "accepted_books False actual t"
    using assms by (auto simp: accepted_books_def books_agree_def explains_def legs_at_def)
  ultimately show ?thesis
    by (cases evaluated) (simp_all add: wp_whenP wp_reads)
qed

lemma wp_accept_snapshot:
  fixes s :: "'b ctl"
  assumes "explains expected s" and "position_mismatch expected (bs_positions snap) = []"
  shows "wp (accept_snapshot evaluated snap m)
    (\<lambda>b t. b \<and> accepted_books evaluated (bs_positions snap) t) (\<lambda>_ _. True) s"
proof -
  let ?a = "bs_positions snap"
  let ?both = "\<lambda>K t. legs_at ?a K (set K) t \<and> explains expected t"
  let ?last = "whenP evaluated (reads leg_keys (\<lambda>ks. forP ks evaluate_wanted))"
  have finish: "wp (block [emit (ev RECONCILIATION_COMPLETED p), set_sync SYNCED why, ?last])
      (\<lambda>_. accepted_books evaluated ?a) (\<lambda>_ _. True) t" if "?both K t" for K t p why
  proof -
    have synced: "wp (set_sync SYNCED why) (\<lambda>_ u. ?both K u \<and> ct_sync u = SYNCED) (\<lambda>_ _. True) u"
      if "?both K u" for u
    proof -
      have "keeps (?both K) (set_sync SYNCED why)"
        by (intro keeps_conj legs_at_set_sync explained.keeps_set_sync)
      from wp_conj [OF wp_kept [where I = "?both K", OF this that] wp_set_sync] show ?thesis
        by (rule wp_mono) simp_all
    qed
    have evaluating: "wp (block [?last]) (\<lambda>_. accepted_books evaluated ?a) (\<lambda>_ _. True) u"
      if "?both K u \<and> ct_sync u = SYNCED" for u
      by (rule wp_then_block [OF wp_evaluate_legs [where K = K and expected = expected]])
        (use that assms(2) in \<open>simp_all add: position_mismatch_empty wp_ret\<close>)
    have "keeps (?both K) (emit (ev RECONCILIATION_COMPLETED p))"
      by (intro keeps_conj legs_at_emit explained.keeps_emit) simp
    from wp_kept [where I = "?both K", OF this that] show ?thesis
      by (rule wp_then_block) (rule wp_then_block [OF synced], assumption, rule evaluating)
  qed
  have resolved: "wp (forP (leg_keys u) (resolve_leg ?a refs)) (\<lambda>_. ?both (leg_keys u)) (\<lambda>_ _. True) u"
    if "explains expected u" for u refs
  proof -
    have "keeps (explains expected) (forP (leg_keys u) (resolve_leg ?a refs))"
      by (intro keeps_forP explained.keeps_resolve_leg)
    from wp_conj [OF wp_resolve_legs [of "leg_keys u" "leg_keys u" ?a "{}" u refs] wp_kept [OF this that]]
    show ?thesis by (rule wp_mono) (simp_all add: legs_at_def)
  qed
  have prefix: "keeps (explains expected) (forP m (close_absent refs))"
      "keeps (explains expected) (rehydrate ?a obs m)"
      "keeps (explains expected) (forP ?a create_position_leg)" for refs obs
    by (intro keeps_forP explained.keeps_close_absent explained.keeps_rehydrate
        explained.keeps_create_position_leg)+
  show ?thesis
    unfolding accept_snapshot_def Let_def evaluate_wanted_def [abs_def, symmetric]
    apply (rule wp_then [where R = "\<lambda>_::unit. accepted_books evaluated ?a :: 'b ctl \<Rightarrow> bool"])
    apply (rule wp_then_block [OF wp_kept [OF prefix(1) assms(1)]])
    apply (rule wp_then_block [OF wp_kept [OF prefix(2)]], assumption)
    apply (rule wp_then_block [OF wp_kept [OF prefix(3)]], assumption)
    apply (rule wp_then_block)
    apply (simp only: wp_reads, erule resolved)
    apply (erule finish)
    apply (simp add: wp_ret)
    done
qed

section \<open>The whole reconciliation\<close>

text \<open>
  The verdict of a reconciliation that started in \<open>s\<close> and ended in \<open>t\<close>, in terms of the broker's
  answer to the snapshot request.
\<close>

definition reconciled :: "bool \<Rightarrow> 'b ctl \<Rightarrow> bool \<Rightarrow> 'b ctl \<Rightarrow> bool" where
  "reconciled evaluated s b t \<longleftrightarrow>
     (if b then \<exists>snap broker'. br_snapshot (ct_ops s) (ct_broker s) = (Inr snap, broker') \<and> bs_is_stable snap
        \<and> accepted_books evaluated (bs_positions snap) t
      else ct_sync t = UNVERIFIED)"

lemma wp_reconcile_failed:
  "wp (reconcile_failed d why) (\<lambda>_ t. ct_sync t = UNVERIFIED) (\<lambda>_ _. True) s"
  unfolding reconcile_failed_def
  by (rule wp_then_block [OF wp_any], rule wp_then_block [OF wp_set_sync]) (simp add: wp_ret)

lemma wp_failed:
  "wp (seqP (reconcile_failed d why) (ret False)) (reconciled evaluated s0) (\<lambda>_ _. True) s"
  by (rule wp_then [OF wp_reconcile_failed]) (simp add: wp_ret reconciled_def)

lemma wp_failed_halt:
  "wp (seqP (block [reconcile_failed d why, halt y]) (ret False)) (reconciled evaluated s0) (\<lambda>_ _. True) s"
proof (rule wp_then [where R = "\<lambda>_::unit. reconciled evaluated s0 False"])
  show "wp (block [reconcile_failed d why, halt y]) (\<lambda>_. reconciled evaluated s0 False) (\<lambda>_ _. True) s"
    by (rule wp_then_block [OF wp_reconcile_failed], rule wp_then_block, rule wp_halt)
       (auto simp: wp_ret reconciled_def)
qed (simp add: wp_ret)

lemma wp_judge_snapshot:
  assumes "br_snapshot (ct_ops s0) (ct_broker s0) = (Inr snap, broker')" and "bs_is_stable snap"
  shows "wp (judge_snapshot evaluated snap) (reconciled evaluated s0) (\<lambda>_ _. True) s"
proof -
  have good: "wp (accept_snapshot evaluated snap m) (reconciled evaluated s0) (\<lambda>_ _. True) t"
    if "expected_positions (rows_of t) = Inr expected" "position_mismatch expected (bs_positions snap) = []"
    for expected m t
    by (rule wp_mono [OF wp_accept_snapshot [OF _ that(2)]])
       (use assms that(1) in \<open>auto simp: explains_def reconciled_def\<close>)
  have foreign: "wp (seqP (block [emit e, reconcile_failed d why, halt y]) (ret False))
      (reconciled evaluated s0) (\<lambda>_ _. True) t" for e d why y t
    using wp_failed_halt [of d why y] unfolding wp_seqP [of _ "ret False"]
    by (rule wp_then_block [OF wp_any])
  show ?thesis
    unfolding judge_snapshot_def wp_reads Let_def
    by (rule wp_then_bind [OF wp_any], rule wp_then_bind [OF wp_any], unfold wp_if, rule if_split [THEN iffD2],
        intro conjI impI, rule foreign, rule wp_then_bind [OF wp_any], rule wp_then [OF wp_any])
      (auto simp: wp_reads wp_bindP wp_liftE wp_if simp del: block.simps intro!: wp_failed_halt good split: sum.split)
qed

text \<open>Up to the snapshot request nothing touches the broker.\<close>

definition broker_is :: "'b broker \<Rightarrow> 'b \<Rightarrow> 'b ctl \<Rightarrow> bool" where
  "broker_is ops b s \<longleftrightarrow> ct_ops s = ops \<and> ct_broker s = b"

lemma broker_is_emit: "keeps (broker_is ops b) (emit e)"
  unfolding emit_def
  by (intro keeps_bindP keeps_ret keepsI, rule wp_emit_seq) (simp_all add: broker_is_def)

lemma broker_is_mod:
  "(\<And>s. ct_ops (f s) = ct_ops s \<and> ct_broker (f s) = ct_broker s) \<Longrightarrow> keeps (broker_is ops b) (modP f)"
  by (rule keeps_modP) (simp add: broker_is_def)

lemma broker_is_set_sync: "keeps (broker_is ops b) (set_sync new why)"
  unfolding set_sync_def by (intro wp_intro broker_is_emit broker_is_mod) simp

lemma broker_is_restore: "keeps (broker_is ops b) restore_from_journal"
  unfolding restore_from_journal_def ensure_leg_def on_leg_def alert_def in_risk_def
  by (intro wp_intro broker_is_emit broker_is_mod keeps_zoom) (simp_all add: broker_is_def)

lemma wp_snapshot:
  assumes "broker_is (ct_ops s0) (ct_broker s0) s"
  shows "wp (attemptP snapshot Some)
    (\<lambda>r t. \<forall>snap. r = Inr snap \<longrightarrow> (\<exists>broker'. br_snapshot (ct_ops s0) (ct_broker s0) = (Inr snap, broker')))
    (\<lambda>_ _. True) s"
  unfolding wp_attemptP snapshot_def wp_reads in_broker_def wp_zoom
  using assms by (auto simp: wp_def broker_is_def split: prod.splits sum.splits)

lemma wp_reconcile: "wp (reconcile evaluated) (reconciled evaluated s) (\<lambda>_ _. True) s"
proof -
  have body: "wp (reconcile_impl evaluated) (reconciled evaluated s) (\<lambda>_ _. True) s"
    unfolding reconcile_impl_def
  proof (rule wp_then_bind, rule wp_kept [where I = "broker_is (ct_ops s) (ct_broker s)", OF broker_is_restore])
    show "broker_is (ct_ops s) (ct_broker s) s" by (simp add: broker_is_def)
  next
    fix a t assume at: "broker_is (ct_ops s) (ct_broker s) t"
    have begun: "keeps (broker_is (ct_ops s) (ct_broker s))
        (block [emit (ev RECONCILIATION_STARTED []), set_sync SYNCING (JStr ''reconcile begin'')])"
      by (intro keeps_block_Cons keeps_block_Nil broker_is_emit broker_is_set_sync)
    show "wp (seqP (block [emit (ev RECONCILIATION_STARTED []), set_sync SYNCING (JStr ''reconcile begin'')])
        (bindP (attemptP snapshot Some) (\<lambda>r. case r of
            Inl e \<Rightarrow> seqP (reconcile_failed [(''detail'', exn_message e)] (JStr ''snapshot failed''))
              (ret False)
          | Inr snap \<Rightarrow>
            if \<not> bs_is_stable snap
            then seqP (reconcile_failed [(''reason'', JStr ''snapshot_not_stable''),
                     (''server_time'', JTime (bs_server_time snap))]
                     (JStr ''broker snapshot barrier incomplete'')) (ret False)
            else judge_snapshot evaluated snap))) (reconciled evaluated s) (\<lambda>_ _. True) t"
      by (rule wp_then [OF wp_kept [OF begun at]], rule wp_then_bind, erule wp_snapshot)
         (auto intro: wp_failed wp_judge_snapshot split: sum.split)
  qed
  show ?thesis
    unfolding reconcile_def failing_closed_def wp_catchP
    by (rule wp_mono [OF body]) (auto simp: wp_seqP wp_raise wp_raise_fun wp_any split: exn.split)
qed

end
