(* ===== verification/Lifecycle.thy ===== *)
theory Lifecycle
  imports Controller_Reconciled Controller_Limits Demo
begin

text \<open>
  The properties of the controller's life: booting from the journal, starting behind the gates,
  reconciling, halting, failing in a callback, pricing.
\<close>

section \<open>Boot and start\<close>

text \<open>
  C12: a fresh controller that restored its state came up in the mode its journal dictates: HALTED
  exactly when an unacknowledged HALT is active, otherwise FLATTEN_ONLY exactly when exposure was
  carried over, otherwise NORMAL; every expected position is in its leg; one row was written, and
  nothing went to the broker.
\<close>

theorem boot_mode_from_journal:
  assumes "restore_from_journal s = (Inr pos, t)"
    and "\<not> ct_journal_restored s" and "ct_mode s = NORMAL"
  shows "(\<exists>residual. last_eod_residual (rows_of s) = Inr residual
      \<and> ct_mode t = boot_mode (now s) (rows_of s) pos residual)
    \<and> expected_positions (rows_of s) = Inr pos
    \<and> list_all (\<lambda>(symb, q). lg_position (leg_of (default_strategy s, symb) t) = q) pos
    \<and> length (rows_of t) = Suc (length (rows_of s)) \<and> ct_wire t = ct_wire s"
proof -
  have "restored s pos t"
    by (rule wp_result [OF wp_restore [OF assms(2,3)] assms(1)])
  then show ?thesis
    by (auto simp: restored_def list_all_iff rows_of_def replay_def)
qed

definition halted_process :: "unit ctl" where
  "halted_process = demo_ctl\<lparr>ct_journal := (open_journal ''j1'' [] empty_db)
     \<lparr>j_rows := [(ev HALT_CAUSE_ADDED [])\<lparr>ev_seq := 1\<rparr>]\<rparr>\<rparr>"

lemma halted_process_fields:
  "\<not> ct_journal_restored halted_process" "ct_mode halted_process = NORMAL"
  "rows_of halted_process = [(ev HALT_CAUSE_ADDED [])\<lparr>ev_seq := 1\<rparr>]"
  by (simp_all add: halted_process_def demo_ctl_def rows_of_def replay_def)

theorem boot_mode_from_journal_witness:
  "ct_mode (snd (restore_from_journal halted_process)) = HALTED"
proof -
  have "fst (restore_from_journal halted_process) = Inr []"
    by code_simp
  then have run: "restore_from_journal halted_process = (Inr [], snd (restore_from_journal halted_process))"
    by (metis prod.collapse)
  have "active_halt_seq (rows_of halted_process) \<noteq> None"
    by code_simp
  with boot_mode_from_journal [OF run halted_process_fields(1,2)] show ?thesis
    by (auto simp: boot_mode_def)
qed

text \<open>
  a host that started passed every gate: the platform is allowed, no other engine owns the journal,
  the calendar covers the day, fence and witness lie on other volumes, no fence exists, the witness
  verifies against the journal, and the risk controls are proven live. It is up, restored, disconnected
  and unverified, has written nothing to the broker, and is HALTED exactly when the journal says so.
\<close>

theorem start_clears_every_gate:
  assumes "host_start hc s = (Inr (), t)"
  shows "cleared_to_start hc s \<and> started_from s t"
  using wp_result [OF wp_host_start assms] .

text \<open>A stopped process on a calendar of one year, on a day that trades.\<close>

definition demo_plan :: session_plan where
  "demo_plan = (let d = days_of 2026 6 10 in
    \<lparr>sp_session_date = d, sp_is_trading_day = True, sp_is_half_day = False,
     sp_open_utc = Some (d * day_us + hours 13 + minutes 30),
     sp_close_utc = Some (d * day_us + hours 20),
     sp_flatten_start_utc = Some (d * day_us + hours 19 + minutes 40),
     sp_flatten_hard_utc = Some (d * day_us + hours 19 + minutes 57),
     sp_escalation_utc = Some (d * day_us + hours 19 + minutes 45)\<rparr>)"

lemma demo_day:
  "et_date demo_time = days_of 2026 6 10"
  "require_coverage demo_calendar (days_of 2026 6 10) = Inr ()"
  "next_trading_day demo_calendar (days_of 2026 6 10) 10 = Inr (days_of 2026 6 11)"
  "plan demo_calendar (days_of 2026 6 10) = Inr demo_plan"
  "None \<notin> set (deadlines demo_plan)" 
  "List.map_filter (\<lambda>x. x) (deadlines demo_plan) = sort (List.map_filter (\<lambda>x. x) (deadlines demo_plan))"
  by code_simp+

definition demo_stopped :: "unit ctl" where
  "demo_stopped = demo_ctl\<lparr>ct_calendar := demo_calendar\<rparr>"

lemma demo_calendar_passes: "\<exists>p. gate_calendar demo_calendar demo_time = Inr p"
  unfolding gate_calendar_def self_test_def Let_def demo_day(1-4) ebind_simps
  using demo_day(5,6) by auto

lemma demo_starts: "host_start demo_host demo_stopped = (Inr (), snd (host_start demo_host demo_stopped))"
proof -
  obtain p where "gate_calendar demo_calendar demo_time = Inr p"
    using demo_calendar_passes ..
  then have gate: "gate_calendar (ct_calendar demo_stopped) (now demo_stopped) = Inr p"
    by (simp add: demo_stopped_def now_def demo_ctl_def manual_clock_def)
  have "fst (host_start demo_host demo_stopped) = Inr ()"
    unfolding host_start_def reads_def gate by code_simp
  then show ?thesis by (metis prod.collapse)
qed

theorem start_clears_every_gate_witness:
  "cleared_to_start demo_host demo_stopped
   \<and> started_from demo_stopped (snd (host_start demo_host demo_stopped))"
  by (rule start_clears_every_gate [OF demo_starts])

text \<open>
  C10: a restart does not launder a HALT. Whatever host starts on a journal with an active HALT, no
  sequence of the new process's methods leaves HALTED or writes to the broker.
\<close>

theorem restart_keeps_a_halt:
  fixes s :: "'b ctl"
  assumes "host_start hc s = (Inr (), t)" and "active_halt_seq (j_rows (ct_journal s)) \<noteq> None"
  shows "ct_mode (run_methods acts t) = HALTED \<and> ct_wire (run_methods acts t) = ct_wire s"
proof -
  have t: "started_from s t"
    using wp_result [OF wp_host_start assms(1)] by simp
  have "halted_still (ct_wire t) (run_methods acts t)"
    by (rule run_methods_keeps [OF halted_drive.keeps_method])
       (use t assms(2) in \<open>simp add: halted_still_def started_from_def\<close>)
  with t show ?thesis by (simp add: halted_still_def started_from_def)
qed

text \<open>The same journal under a host that may start.\<close>

definition halted_demo :: "unit ctl" where
  "halted_demo = demo_stopped\<lparr>ct_journal := empty_db
     \<lparr>j_rows := [(ev HALT_CAUSE_ADDED [])\<lparr>ev_seq := 1\<rparr>], j_identity := Some ''j1''\<rparr>\<rparr>"

theorem restart_keeps_a_halt_witness:
  "ct_mode (run_methods [Acknowledge ''op'' ''why'', Connected 1, Reconcile True, Submit demo_target]
     (snd (host_start demo_host halted_demo))) = HALTED"
proof -
  obtain p where "gate_calendar demo_calendar demo_time = Inr p"
    using demo_calendar_passes ..
  then have gate: "gate_calendar (ct_calendar halted_demo) (now halted_demo) = Inr p"
    by (simp add: halted_demo_def demo_stopped_def now_def demo_ctl_def manual_clock_def)
  have "fst (host_start demo_host halted_demo) = Inr ()"
    unfolding host_start_def reads_def gate by code_simp
  then have run: "host_start demo_host halted_demo = (Inr (), snd (host_start demo_host halted_demo))"
    by (metis prod.collapse)
  have "active_halt_seq (j_rows (ct_journal halted_demo)) \<noteq> None" by code_simp
  from restart_keeps_a_halt [OF run this] show ?thesis by blast
qed

section \<open>Reconciliation\<close>




section \<open>HALT and failing callbacks\<close>

text \<open>
  C13: HALT is sticky in memory and durable on disk: however \<open>halt\<close> ends the mode is HALTED; when it
  returns, an unacknowledged HALT is in the journal; when it raises, the journal is lost.
\<close>

theorem halt_is_durable:
  assumes "halt why s = (r, t)"
  shows "ct_mode t = HALTED \<and>
    (case r of Inr _ \<Rightarrow> active_halt_seq (j_rows (ct_journal t)) \<noteq> None
     | Inl e \<Rightarrow> (\<exists>d. e = JournalUnavailable d) \<and> \<not> is_healthy (ct_journal t))"
proof -
  have "wp (halt why) (\<lambda>_ t. ct_mode t = HALTED \<and> active_halt_seq (j_rows (ct_journal t)) \<noteq> None)
      (\<lambda>e t. ct_mode t = HALTED \<and> (\<exists>d. e = JournalUnavailable d) \<and> \<not> is_healthy (ct_journal t)) s"
    by (rule wp_halt) auto
  with assms show ?thesis by (auto simp: wp_def split: sum.splits)
qed

theorem halt_is_durable_witness:
  "ct_mode (snd (halt (JStr ''why'') demo_live)) = HALTED"
  using halt_is_durable [of "JStr ''why''" demo_live "fst (halt (JStr ''why'') demo_live)"
      "snd (halt (JStr ''why'') demo_live)"] by simp

text \<open>
  C15: no exception of a broker callback is swallowed: unless it is an invariant violation (which has
  halted already), the guard ends HALTED, and either closed down, or with the HALT durable, or with the
  loss of the journal raised to the caller.
\<close>

theorem callback_failure_halts:
  assumes "fn s = (Inl e, u)" and "\<forall>n d. e \<noteq> InvariantViolation n d"
    and "guarded name fn s = (r, t)"
  shows "ct_mode t = HALTED \<and>
    (case r of Inr _ \<Rightarrow> closed_down t \<or> active_halt_seq (j_rows (ct_journal t)) \<noteq> None
     | Inl e' \<Rightarrow> (\<exists>d. e' = JournalUnavailable d) \<and> \<not> is_healthy (ct_journal t))"
proof -
  have "wp (guarded name fn)
      (\<lambda>_ t. ct_mode t = HALTED \<and> (closed_down t \<or> active_halt_seq (j_rows (ct_journal t)) \<noteq> None))
      (\<lambda>e t. ct_mode t = HALTED \<and> (\<exists>d. e = JournalUnavailable d) \<and> \<not> is_healthy (ct_journal t)) s"
    by (rule wp_guarded_failure [where fn = fn and s = s, OF assms(1)]) (use assms(2) in auto)
  with assms(3) show ?thesis by (auto simp: wp_def split: sum.splits)
qed

theorem callback_failure_halts_witness:
  "ct_mode (snd (guarded ''on_quote'' (raise (ValueErr JNull)) demo_live)) = HALTED"
  using callback_failure_halts [of "raise (ValueErr JNull)" demo_live "ValueErr JNull" demo_live "''on_quote''"
      "fst (guarded ''on_quote'' (raise (ValueErr JNull)) demo_live)"
      "snd (guarded ''on_quote'' (raise (ValueErr JNull)) demo_live)"]
  by (simp add: raise_def)

section \<open>Prices\<close>

text \<open>
  A limit price is the far side of the quote moved by the collar of the attempt and rounded to the
  cent: never more than half a cent off, for buys above the ask and for sells below the bid.
\<close>

theorem limit_price_is_collared:
  assumes "dget (ct_quotes s) symb = Some q" and "limit_price symb sd attempt closing s = Some p"
  shows "\<bar>p - (if sd = BUY then q_ask q * (1 + collar_bps (ct_policy s) attempt closing / 10000)
               else q_bid q * (1 - collar_bps (ct_policy s) attempt closing / 10000))\<bar> \<le> 1/200"
  using assms quantize_cent_near by (auto simp: limit_price_def Let_def split: if_splits)

theorem limit_price_is_collared_witness:
  "\<bar>60014/100 - 60002/100 * (1 + 2/10000 :: rat)\<bar> \<le> 1/200"
proof -
  have "limit_price ''SPY'' BUY 0 False demo_live = Some (60014/100)" by code_simp
  moreover have "dget (ct_quotes demo_live) ''SPY'' = Some demo_quote"
    by (simp add: demo_live_def)
  moreover have "collar_bps (ct_policy demo_live) 0 False = 2" "q_ask demo_quote = 60002/100"
    by code_simp+
  ultimately show ?thesis
    using limit_price_is_collared [of demo_live "''SPY''" demo_quote BUY 0 False "60014/100"] by simp
qed

end
