(* ===== verification/Auditor.thy ===== *)
theory Auditor
  imports Journal Ascii_Text
begin

text \<open>
  \<open>auditor.py\<close>: the offline auditor. Every invariant is one pass over the journal's rows with a state of
  its own: a step function under the name of the check, run by \<open>scan\<close>, or by \<open>scan_exn\<close> when a
  conversion in it may raise. The text of payloads is ASCII.
\<close>

record finding =
  fi_invariant :: int
  fi_seq :: int
  fi_detail :: jval

definition finding :: "int \<Rightarrow> event \<Rightarrow> jval list \<Rightarrow> finding" where
  "finding n e parts = \<lparr>fi_invariant = n, fi_seq = ev_seq e, fi_detail = JFmt parts\<rparr>"

fun scan :: "(event \<Rightarrow> 's \<Rightarrow> 's \<times> finding list) \<Rightarrow> event list \<Rightarrow> 's \<Rightarrow> finding list" where
  "scan f [] s = []"
| "scan f (e # es) s = (case f e s of (t, out) \<Rightarrow> out @ scan f es t)"

fun scan_exn ::
  "(event \<Rightarrow> 's \<Rightarrow> exn + ('s \<times> finding list)) \<Rightarrow> event list \<Rightarrow> 's \<Rightarrow> exn + finding list" where
  "scan_exn f [] s = Inr []"
| "scan_exn f (e # es) s = ebind (f e s) (\<lambda>(t, out).
     ebind (scan_exn f es t) (\<lambda>rest. Inr (out @ rest)))"

text \<open>\<open>x or None\<close>, \<open>x or ""\<close> on an optional string.\<close>

definition given :: "string option \<Rightarrow> string option" where
  "given x = (case x of Some (c # cs) \<Rightarrow> Some (c # cs) | _ \<Rightarrow> None)"

definition or_empty :: "string option \<Rightarrow> string" where
  "or_empty x = (case x of Some s \<Rightarrow> s | None \<Rightarrow> [])"

definition terminal :: "event \<Rightarrow> bool" where
  "terminal e \<longleftrightarrow> ev_type e \<in> set TERMINAL_ORDER_EVENTS"

definition cleanly_rejected :: "event \<Rightarrow> bool" where
  "cleanly_rejected e \<longleftrightarrow>
     ev_type e = SEND_CALL_FAILED \<and> pget (ev_payload e) ''kind'' JNull = JStr ''rejected''"

definition halting :: "event \<Rightarrow> bool" where
  "halting e \<longleftrightarrow>
     (ev_type e = OPERATING_MODE_CHANGED \<and> pget (ev_payload e) ''to'' JNull = JStr ''HALTED'')
     \<or> ev_type e = HALT_CAUSE_ADDED"

section \<open>Decisions, intents, executions\<close>

definition i1_step :: "event \<Rightarrow> (string \<times> int) list \<Rightarrow> (string \<times> int) list \<times> finding list" where
  "i1_step e seen =
     (case (if ev_type e = TARGET_RECEIVED then given (ev_decision_id e) else None) of
        None \<Rightarrow> (seen, [])
      | Some d \<Rightarrow> (dput d (ev_seq e) seen,
          (case dget seen d of
             None \<Rightarrow> []
           | Some n \<Rightarrow> [finding 1 e [JStr ''decision_id '', JStr d, JStr '' accepted twice (first at seq '',
                                     JInt n, JStr '')'']])))"

definition i1_decision_once :: "event list \<Rightarrow> finding list" where
  "i1_decision_once rows = scan i1_step rows []"

definition i2_step :: "event \<Rightarrow> string list \<Rightarrow> string list \<times> finding list" where
  "i2_step e committed =
     (if ev_type e = ORDER_INTENT_COMMITTED \<and> given (ev_intent_id e) \<noteq> None
      then (set_add (or_empty (ev_intent_id e)) committed, [])
      else if ev_type e = SEND_ATTEMPT_STARTED
        \<and> (given (ev_intent_id e) = None \<or> or_empty (ev_intent_id e) \<notin> set committed)
      then (committed, [finding 2 e [JStr ''send attempt for intent '', j_opt JStr (ev_intent_id e),
                                     JStr '' with no prior committed intent'']])
      else (committed, []))"

definition i2_durable_before_send :: "event list \<Rightarrow> finding list" where
  "i2_durable_before_send rows = scan i2_step rows []"

text \<open>The key of a leg as the rows carry it.\<close>

type_synonym row_key = "string option \<times> string option"

definition row_key :: "event \<Rightarrow> row_key" where
  "row_key e = (ev_strategy_id e, ev_symbol e)"

definition key_parts :: "row_key \<Rightarrow> jval" where
  "key_parts k = JList [j_opt JStr (fst k), j_opt JStr (snd k)]"

definition i3_step ::
  "event \<Rightarrow> (row_key \<times> string) list \<times> (string \<times> row_key) list \<Rightarrow>
     ((row_key \<times> string) list \<times> (string \<times> row_key) list) \<times> finding list" where
  "i3_step e st = (case st of (live, by_ref0) \<Rightarrow>
     (let by_ref = (if ev_type e = ORDER_INTENT_COMMITTED \<and> given (ev_order_ref e) \<noteq> None
                    then dput (or_empty (ev_order_ref e)) (row_key e) by_ref0 else by_ref0)
      in if ev_type e = SEND_ATTEMPT_STARTED
         then (let key = (if row_key e = (None, None) \<and> given (ev_order_ref e) \<noteq> None
                          then dget_or by_ref (or_empty (ev_order_ref e)) (row_key e) else row_key e)
               in ((dput key (or_empty (ev_intent_id e)) live, by_ref),
                   (case dget live key of
                      None \<Rightarrow> []
                    | Some i \<Rightarrow> if Some i \<noteq> ev_intent_id e
                        then [finding 3 e [JStr ''second live intent '', j_opt JStr (ev_intent_id e),
                                JStr '' for '', key_parts key, JStr '' while '', JStr i, JStr '' still open'']]
                        else [])))
         else if terminal e \<or> cleanly_rejected e
         then ((dpop (dget_or by_ref (or_empty (ev_order_ref e)) (row_key e)) live, by_ref), [])
         else ((live, by_ref), [])))"

definition i3_one_live_intent :: "event list \<Rightarrow> finding list" where
  "i3_one_live_intent rows = scan i3_step rows ([], [])"

definition i4_step :: "event \<Rightarrow> string list \<Rightarrow> string list \<times> finding list" where
  "i4_step e pending =
     (let named = given (ev_intent_id e) \<noteq> None; iid = or_empty (ev_intent_id e)
      in if ev_type e = SEND_ATTEMPT_STARTED \<and> named
         then (set_add iid pending,
               if pending \<noteq> [] then [finding 4 e [JStr ''send while pending ack exists: '', sorted_list pending]]
               else [])
         else if (terminal e \<or> ev_type e = BROKER_ACK_RECEIVED \<or> ev_type e = ORDER_WORKING) \<and> named
         then (set_discard iid pending, [])
         else if ev_type e = SEND_CALL_FAILED \<and> named
         then (if cleanly_rejected e then set_discard iid pending else pending, [])
         else if ev_type e = RECONCILIATION_COMPLETED then ([], [])
         else (pending, []))"

definition i4_no_second_pending_ack :: "event list \<Rightarrow> finding list" where
  "i4_no_second_pending_ack rows = scan i4_step rows []"

definition i5_step :: "event \<Rightarrow> string list \<Rightarrow> string list \<times> finding list" where
  "i5_step e pending =
     (let named = given (ev_order_ref e) \<noteq> None; ref = or_empty (ev_order_ref e)
      in if ev_type e = CANCEL_REQUESTED \<and> named then (set_add ref pending, [])
         else if terminal e \<and> named then (set_discard ref pending, [])
         else if ev_type e = RECONCILIATION_COMPLETED then ([], [])
         else if ev_type e = SEND_ATTEMPT_STARTED \<and> pending \<noteq> []
         then (pending, [finding 5 e [JStr ''order sent while cancel outstanding on '', sorted_list pending]])
         else (pending, []))"

definition i5_no_second_pending_cancel :: "event list \<Rightarrow> finding list" where
  "i5_no_second_pending_cancel rows = scan i5_step rows []"

definition i10_step :: "event \<Rightarrow> bool \<times> bool \<Rightarrow> (bool \<times> bool) \<times> finding list" where
  "i10_step e st = (case st of (armed, reconciled) \<Rightarrow>
     if ev_type e = PROCESS_STARTED then ((True, False), [])
     else if ev_type e = RECONCILIATION_COMPLETED then ((armed, True), [])
     else if ev_type e = SEND_ATTEMPT_STARTED \<and> armed \<and> \<not> reconciled
     then (st, [finding 10 e [JStr ''send after process start with no completed reconciliation'']])
     else (st, []))"

definition i10_reconcile_before_send :: "event list \<Rightarrow> finding list" where
  "i10_reconcile_before_send rows = scan i10_step rows (False, False)"

text \<open>\<open>fromisoformat\<close> raises \<open>ValueError\<close> on text it cannot read, \<open>TypeError\<close> on anything but text.\<close>

definition i11_step :: "event \<Rightarrow> unit \<Rightarrow> exn + (unit \<times> finding list)" where
  "i11_step e st =
     (let vu = pget (ev_payload e) ''valid_until'' JNull
      in if ev_type e \<noteq> ORDER_INTENT_COMMITTED \<or> \<not> j_truthy vu then Inr ((), [])
         else case vu of
           JTime t \<Rightarrow> Inr ((), if t \<le> ev_ts e
             then [finding 11 e [JStr ''intent committed at '', JTime (ev_ts e),
                                 JStr '' after valid_until '', vu]] else [])
         | JStr x \<Rightarrow> Inr ((), [])
         | JFmt xs \<Rightarrow> Inr ((), [])
         | _ \<Rightarrow> Inl (TypeErr (JStr ''fromisoformat: argument must be str'')))"

definition i11_no_expired_sends :: "event list \<Rightarrow> exn + finding list" where
  "i11_no_expired_sends rows = scan_exn i11_step rows ()"

definition i12_step :: "event \<Rightarrow> (string \<times> int) list \<Rightarrow> (string \<times> int) list \<times> finding list" where
  "i12_step e seen =
     (case (if ev_type e = EXECUTION_RECEIVED then given (ev_exec_id e) else None) of
        None \<Rightarrow> (seen, [])
      | Some x \<Rightarrow> (dput x (ev_seq e) seen,
          (case dget seen x of
             None \<Rightarrow> []
           | Some n \<Rightarrow> [finding 12 e [JStr ''execId '', JStr x, JStr '' booked twice (first seq '',
                                      JInt n, JStr '')'']])))"

definition i12_exec_once :: "event list \<Rightarrow> finding list" where
  "i12_exec_once rows = scan i12_step rows []"

section \<open>Gates\<close>

definition i6_step :: "event \<Rightarrow> jval \<times> jval \<Rightarrow> (jval \<times> jval) \<times> finding list" where
  "i6_step e st = (case st of (link, sync) \<Rightarrow>
     if ev_type e = LINK_STATE_CHANGED then ((pget (ev_payload e) ''to'' link, sync), [])
     else if ev_type e = SYNC_STATE_CHANGED then ((link, pget (ev_payload e) ''to'' sync), [])
     else if (ev_type e = SEND_ATTEMPT_STARTED \<or> ev_type e = CANCEL_REQUESTED)
       \<and> (link \<noteq> JStr ''CONNECTED'' \<or> sync \<noteq> JStr ''SYNCED'')
     then (st, [finding 6 e [JStr ''broker write with link='', link, JStr '' sync='', sync]])
     else (st, []))"

definition i6_link_sync_gate :: "event list \<Rightarrow> finding list" where
  "i6_link_sync_gate rows = scan i6_step rows (JStr ''DISCONNECTED'', JStr ''UNVERIFIED'')"

definition is_closing_send :: "int \<Rightarrow> int \<Rightarrow> bool" where
  "is_closing_send target position \<longleftrightarrow>
     \<bar>target\<bar> \<le> \<bar>position\<bar> \<and> (target = 0 \<or> target * position \<ge> 0)"

definition i7_i8_findings :: "event \<Rightarrow> jval \<Rightarrow> int \<Rightarrow> int \<Rightarrow> finding list" where
  "i7_i8_findings e mode target position =
     (if \<not> is_closing_send target position \<and> mode \<noteq> JStr ''NORMAL''
      then [finding 7 e [JStr ''risk-increasing send in mode='', mode]] else [])
     @ (if mode = JStr ''FLATTEN_ONLY'' \<and> target \<noteq> 0
        then [finding 8 e [JStr ''target='', JInt target, JStr '' sent in FLATTEN_ONLY'']] else [])
     @ (if mode = JStr ''HALTED'' then [finding 7 e [JStr ''broker send in HALTED mode'']] else [])"

definition i7_i8_step ::
  "event \<Rightarrow> jval \<times> (string \<times> payload) list \<Rightarrow> exn + ((jval \<times> (string \<times> payload) list) \<times> finding list)" where
  "i7_i8_step e st = (case st of (mode, intents) \<Rightarrow>
     if ev_type e = OPERATING_MODE_CHANGED then Inr ((pget (ev_payload e) ''to'' mode, intents), [])
     else if ev_type e = PROCESS_STATE_RESTORED
     then Inr ((pget (ev_payload e) ''operating_mode'' mode, intents), [])
     else if ev_type e = ORDER_INTENT_COMMITTED \<and> given (ev_intent_id e) \<noteq> None
     then Inr ((mode, dput (or_empty (ev_intent_id e)) (ev_payload e) intents), [])
     else if ev_type e = SEND_ATTEMPT_STARTED \<and> given (ev_intent_id e) \<noteq> None
     then (let p = dget_or intents (or_empty (ev_intent_id e)) []
           in ebind (j_int (pget p ''target_quantity'' (JInt 0))) (\<lambda>target.
              ebind (j_int (pget p ''position_snapshot'' (JInt 0))) (\<lambda>position.
                Inr (st, i7_i8_findings e mode target position))))
     else Inr (st, []))"

definition i7_i8_mode_gate :: "event list \<Rightarrow> exn + finding list" where
  "i7_i8_mode_gate rows = scan_exn i7_i8_step rows (JStr ''NORMAL'', [])"

definition i14_step :: "event \<Rightarrow> int option \<Rightarrow> int option \<times> finding list" where
  "i14_step e armed =
     (if ev_type e = EXTERNAL_ORDER_DETECTED then (Some (ev_seq e), [])
      else case armed of
        None \<Rightarrow> (armed, [])
      | Some n \<Rightarrow>
          if halting e then (None, [])
          else if ev_type e = SEND_ATTEMPT_STARTED
          then (None, [finding 14 e [JStr ''send after external fact at seq '', JInt n, JStr '' before HALT'']])
          else (armed, []))"

definition i14_external_fact_halts :: "event list \<Rightarrow> finding list" where
  "i14_external_fact_halts rows = scan i14_step rows None"

definition i17_step :: "event \<Rightarrow> unit \<Rightarrow> unit \<times> finding list" where
  "i17_step e st = ((),
     if ev_type e = ORDER_INTENT_COMMITTED \<and> \<not> j_truthy (pget (ev_payload e) ''risk_config_hash'' JNull)
     then [finding 17 e [JStr ''intent missing risk_config_hash'']] else [])"

definition i17_config_hash :: "event list \<Rightarrow> finding list" where
  "i17_config_hash rows = scan i17_step rows ()"

definition i18_step :: "event \<Rightarrow> int option \<Rightarrow> int option \<times> finding list" where
  "i18_step e armed =
     (if ev_type e = CALLBACK_FAILURE then (Some (ev_seq e), [])
      else case armed of
        None \<Rightarrow> (armed, [])
      | Some n \<Rightarrow>
          if halting e then (None, [])
          else if ev_type e = SEND_ATTEMPT_STARTED
          then (None, [finding 18 e [JStr ''send after callback failure at seq '', JInt n,
                                     JStr '' with no intervening HALT'']])
          else (armed, []))"

definition i18_fail_closed :: "event list \<Rightarrow> finding list" where
  "i18_fail_closed rows = scan i18_step rows None"

section \<open>Flattening, residuals, fees\<close>

text \<open>\<open>v == 0\<close>.\<close>

fun j_is_zero :: "jval \<Rightarrow> bool" where
  "j_is_zero (JInt i) = (i = 0)"
| "j_is_zero (JNum r) = (r = 0)"
| "j_is_zero (JBool b) = (\<not> b)"
| "j_is_zero v = False"

definition i9_step ::
  "event \<Rightarrow> (string \<times> row_key) list \<times> (string \<times> row_key) list \<Rightarrow>
     ((string \<times> row_key) list \<times> (string \<times> row_key) list) \<times> finding list" where
  "i9_step e st = (case st of (working, ref_key0) \<Rightarrow>
     (let named = given (ev_order_ref e) \<noteq> None; ref = or_empty (ev_order_ref e);
          ref_key = (if ev_type e = ORDER_INTENT_COMMITTED \<and> named
                     then dput ref (row_key e) ref_key0 else ref_key0)
      in if ev_type e = ORDER_WORKING \<and> named
         then ((dput ref (dget_or ref_key ref (row_key e)) working, ref_key), [])
         else if terminal e \<and> named then ((dpop ref working, ref_key), [])
         else if ev_type e = ORDER_INTENT_COMMITTED
           \<and> j_is_zero (pget (ev_payload e) ''target_quantity'' JNull)
         then (let others = map fst (filter (\<lambda>(r, k). Some r \<noteq> ev_order_ref e \<and> k = row_key e) working)
               in ((working, ref_key),
                   if others \<noteq> [] then [finding 9 e [JStr ''flatten intent committed while '',
                       sorted_list others, JStr '' still working'']] else []))
         else ((working, ref_key), [])))"

definition i9_flatten_after_working_resolved :: "event list \<Rightarrow> finding list" where
  "i9_flatten_after_working_resolved rows = scan i9_step rows ([], [])"

text \<open>
  The regular expression \<open>\b(?:fee|commission)\b\<close> on a lowered text: one of the maximal runs of word
  characters is one of the two words.
\<close>

definition word_char :: "char \<Rightarrow> bool" where
  "word_char ch = (let n = of_char ch :: nat
     in (48 \<le> n \<and> n \<le> 57) \<or> (65 \<le> n \<and> n \<le> 90) \<or> n = 95 \<or> (97 \<le> n \<and> n \<le> 122))"

fun words_of :: "string \<Rightarrow> string \<Rightarrow> string list" where
  "words_of acc [] = [rev acc]"
| "words_of acc (ch # s) = (if word_char ch then words_of (ch # acc) s else rev acc # words_of [] s)"

definition mentions_fee :: "string \<Rightarrow> bool" where
  "mentions_fee why \<longleftrightarrow>
     (let ws = words_of [] why in ''fee'' \<in> set ws \<or> ''commission'' \<in> set ws)"

definition i13_step :: "event \<Rightarrow> unit \<Rightarrow> unit \<times> finding list" where
  "i13_step e st = ((),
     if halting e
     then (let why = map lower_char (render (pget (ev_payload e) ''why'' (JStr [])))
           in if mentions_fee why
              then [finding 13 e [JStr ''HALT attributed to a fee condition: '', JStr why]] else [])
     else [])"

definition i13_missing_fee_is_benign :: "event list \<Rightarrow> finding list" where
  "i13_missing_fee_is_benign rows = scan i13_step rows ()"

text \<open>\<open>e.payload.get("symbol", e.symbol or "?")\<close>.\<close>

definition row_symbol :: "event \<Rightarrow> jval" where
  "row_symbol e = pget (ev_payload e) ''symbol''
     (JStr (case given (ev_symbol e) of Some s \<Rightarrow> s | None \<Rightarrow> ''?''))"

record i15_state =
  r_residual :: "(jval \<times> int) list"
  r_armed :: bool
  r_mode :: jval

definition i15_step :: "event \<Rightarrow> i15_state \<Rightarrow> exn + (i15_state \<times> finding list)" where
  "i15_step e st =
     (if ev_type e = EOD_FLATTEN_FAILED
      then ebind (j_int (pget (ev_payload e) ''residual_quantity'' (JInt 0))) (\<lambda>quantity.
           ebind (j_int (pget (ev_payload e) ''working_signed'' (JInt 0))) (\<lambda>working.
             Inr (st\<lparr>r_residual := dput (row_symbol e) (if quantity \<noteq> 0 then quantity else working)
                       (r_residual st)\<rparr>, [])))
      else if ev_type e = EOD_FLATTEN_COMPLETED
      then Inr (st\<lparr>r_residual := dpop (row_symbol e) (r_residual st)\<rparr>, [])
      else if ev_type e = PROCESS_STARTED
      then Inr (st\<lparr>r_armed := (\<exists>v \<in> set (map snd (r_residual st)). v \<noteq> 0), r_mode := JStr ''NORMAL''\<rparr>, [])
      else if ev_type e = OPERATING_MODE_CHANGED
      then Inr (st\<lparr>r_mode := pget (ev_payload e) ''to'' (r_mode st)\<rparr>, [])
      else if ev_type e = PROCESS_STATE_RESTORED
      then Inr (st\<lparr>r_mode := pget (ev_payload e) ''operating_mode'' (r_mode st)\<rparr>, [])
      else if ev_type e = ORDER_INTENT_COMMITTED \<and> r_armed st
        \<and> r_mode st \<noteq> JStr ''FLATTEN_ONLY'' \<and> r_mode st \<noteq> JStr ''HALTED''
      then Inr (st\<lparr>r_armed := False\<rparr>, [finding 15 e [JStr ''order committed in mode '', r_mode st,
             JStr '' while a recorded residual '',
             JList (map (\<lambda>(s, v). JList [s, JInt v]) (r_residual st)), JStr '' was outstanding'']])
      else Inr (st, []))"

definition i15_residual_boots_flatten_only :: "event list \<Rightarrow> exn + finding list" where
  "i15_residual_boots_flatten_only rows =
     scan_exn i15_step rows \<lparr>r_residual = [], r_armed = False, r_mode = JStr ''NORMAL''\<rparr>"

section \<open>Caps\<close>

text \<open>The limits are arguments of the auditor, not read from the log.\<close>

record audit_caps =
  ac_orders_per_minute :: int
  ac_orders_per_day :: int
  ac_daily_shares :: int
  ac_daily_notional :: rat

definition default_caps :: audit_caps where
  "default_caps = \<lparr>ac_orders_per_minute = 4, ac_orders_per_day = 50, ac_daily_shares = 200,
     ac_daily_notional = 100000\<rparr>"

record i16_state =
  y_orders :: "(date \<times> int) list"
  y_shares :: "(date \<times> int) list"
  y_notional :: "(date \<times> rat) list"
  y_stamps :: "time list"

definition sent_quantity :: "event \<Rightarrow> exn + int" where
  "sent_quantity e = ebind (j_int (pget (ev_payload e) ''quantity'' (JInt 0))) (\<lambda>q. Inr \<bar>q\<bar>)"

definition sent_price :: "event \<Rightarrow> exn + rat" where
  "sent_price e = (let raw = pget (ev_payload e) ''price'' JNull
     in if raw = JNull \<or> raw = JStr ''None'' then Inr 0 else j_dec raw)"

definition i16_count :: "event \<Rightarrow> int \<Rightarrow> rat \<Rightarrow> i16_state \<Rightarrow> i16_state" where
  "i16_count e qty price st =
     (let day = utc_date (ev_ts e)
      in \<lparr>y_orders = dput day (dget_or (y_orders st) day 0 + 1) (y_orders st),
          y_shares = dput day (dget_or (y_shares st) day 0 + qty) (y_shares st),
          y_notional = dput day (dget_or (y_notional st) day 0 + price * of_int qty) (y_notional st),
          y_stamps = y_stamps st @ [ev_ts e]\<rparr>)"

definition minute_window :: "time \<Rightarrow> time list \<Rightarrow> time list" where
  "minute_window t stamps = filter (\<lambda>x. seconds_between t x < 60) stamps"

definition i16_findings :: "audit_caps \<Rightarrow> event \<Rightarrow> i16_state \<Rightarrow> finding list" where
  "i16_findings c e st =
     (let day = utc_date (ev_ts e); day_text = JStr (date_isoformat day);
          orders = dget_or (y_orders st) day 0; shares = dget_or (y_shares st) day 0;
          notional = dget_or (y_notional st) day 0;
          window = int (length (minute_window (ev_ts e) (y_stamps st)))
      in (if orders > ac_orders_per_day c
          then [finding 16 e [JInt orders, JStr '' send attempts on '', day_text, JStr '', cap '',
                              JInt (ac_orders_per_day c)]] else [])
       @ (if shares > ac_daily_shares c
          then [finding 16 e [JInt shares, JStr '' submitted shares on '', day_text, JStr '', cap '',
                              JInt (ac_daily_shares c)]] else [])
       @ (if notional > ac_daily_notional c
          then [finding 16 e [JStr ''submitted notional '', JNum notional, JStr '' on '', day_text,
                              JStr '', cap '', JNum (ac_daily_notional c)]] else [])
       @ (if window > ac_orders_per_minute c
          then [finding 16 e [JInt window, JStr '' send attempts within 60s, cap '',
                              JInt (ac_orders_per_minute c)]] else []))"

definition i16_step :: "audit_caps \<Rightarrow> event \<Rightarrow> i16_state \<Rightarrow> exn + (i16_state \<times> finding list)" where
  "i16_step c e st =
     (if ev_type e \<noteq> SEND_ATTEMPT_STARTED then Inr (st, [])
      else ebind (sent_quantity e) (\<lambda>qty. ebind (sent_price e) (\<lambda>price.
        (let st' = i16_count e qty price st in Inr (st', i16_findings c e st')))))"

definition i16_runaway_caps_held :: "audit_caps \<Rightarrow> event list \<Rightarrow> exn + finding list" where
  "i16_runaway_caps_held c rows =
     scan_exn (i16_step c) rows \<lparr>y_orders = [], y_shares = [], y_notional = [], y_stamps = []\<rparr>"

section \<open>Evidence, start-up, HALT\<close>

text \<open>The numbers of the risk evidence: resulting position, price, recorded and recomputed loss, budget.\<close>

definition stress_numbers :: "payload \<Rightarrow> exn + (int \<times> rat \<times> rat \<times> rat \<times> rat)" where
  "stress_numbers p =
     ebind (ebind (pkey p ''resulting_position'') j_int) (\<lambda>resulting.
     ebind (ebind (pkey p ''reference_price'') j_dec) (\<lambda>px.
     ebind (ebind (pkey p ''overnight_gap_stress_pct'') j_dec) (\<lambda>gap.
     ebind (ebind (pkey p ''stressed_loss'') j_dec) (\<lambda>recorded.
     ebind (ebind (pkey p ''max_overnight_loss'') j_dec) (\<lambda>budget.
       Inr (resulting, px, of_int \<bar>resulting\<bar> * px * gap, recorded, budget))))))"

definition i19_findings :: "event \<Rightarrow> event \<Rightarrow> finding list" where
  "i19_findings e intent =
     (case pget (ev_payload intent) ''risk_evidence'' JNull of
        JObj evidence \<Rightarrow>
          (case stress_numbers evidence of
             Inl x \<Rightarrow> [finding 19 e [JStr ''invalid risk_evidence: '', exn_message x]]
           | Inr (resulting, px, recomputed, recorded, budget) \<Rightarrow>
               (if recomputed \<noteq> recorded
                then [finding 19 e [JStr ''stress evidence mismatch '', JNum recorded, JStr '' != '',
                                    JNum recomputed]] else [])
             @ (if resulting \<noteq> 0 \<and> \<not> j_truthy (pget evidence ''is_closing'' JNull) \<and> px \<le> 0
                then [finding 19 e [JStr ''risk-increasing exposure has no stress price'']] else [])
             @ (if recorded > budget
                then [finding 19 e [JStr ''stress loss '', JNum recorded, JStr '' exceeds '', JNum budget]]
                else [])
             @ (if pget evidence ''config_hash'' JNull \<noteq> pget (ev_payload intent) ''risk_config_hash'' JNull
                then [finding 19 e [JStr ''stress evidence/config hash mismatch'']] else []))
      | _ \<Rightarrow> [finding 19 e [JStr ''submitted intent missing risk_evidence'']])"

definition i19_step :: "event \<Rightarrow> (string \<times> event) list \<Rightarrow> (string \<times> event) list \<times> finding list" where
  "i19_step e intents =
     (if ev_type e = ORDER_INTENT_COMMITTED \<and> given (ev_intent_id e) \<noteq> None
      then (dput (or_empty (ev_intent_id e)) e intents, [])
      else if ev_type e = SEND_ATTEMPT_STARTED \<and> given (ev_intent_id e) \<noteq> None
      then (intents, case dget intents (or_empty (ev_intent_id e)) of
              None \<Rightarrow> [] | Some intent \<Rightarrow> i19_findings e intent)
      else (intents, []))"

definition i19_overnight_stress_proven :: "event list \<Rightarrow> finding list" where
  "i19_overnight_stress_proven rows = scan i19_step rows []"

definition audited_invariants :: "int list" where
  "audited_invariants = [1..22]"

definition i20_auditor_coverage_complete :: "event list \<Rightarrow> finding list" where
  "i20_auditor_coverage_complete rows =
     (let expected = [1..22]; actual = audited_invariants
      in if set actual \<noteq> set expected
         then [\<lparr>fi_invariant = 20, fi_seq = (if rows = [] then 0 else ev_seq (last rows)),
                fi_detail = JFmt [JStr ''auditor coverage mismatch missing='',
                  JList (map JInt (filter (\<lambda>n. n \<notin> set actual) expected)), JStr '' extra='',
                  JList (map JInt (filter (\<lambda>n. n \<notin> set expected) actual))]\<rparr>]
         else [])"

definition i21_step ::
  "event \<Rightarrow> string list \<times> string list \<Rightarrow> (string list \<times> string list) \<times> finding list" where
  "i21_step e st = (case st of (loaded, proven) \<Rightarrow>
     (let p = ev_payload e; config_hash = render (pget p ''config_hash'' (JStr []));
          used = render (pget p ''risk_config_hash'' (JStr []))
      in if ev_type e = RISK_CONFIG_LOADED
         then ((if config_hash \<noteq> [] then set_add config_hash loaded else loaded, proven), [])
         else if ev_type e = RISK_SELF_TEST_PASSED
         then ((loaded, if config_hash \<in> set loaded
                  \<and> j_truthy (pget p ''proven'' (pget p ''detail'' JNull))
                then set_add config_hash proven else proven), [])
         else if ev_type e = PROCESS_STARTED \<and> proven = []
         then (st, [finding 21 e [JStr ''process started before a matching risk self-test'']])
         else if ev_type e = ORDER_INTENT_COMMITTED \<and> used \<notin> set proven
         then (st, [finding 21 e [JStr ''intent used config '', JStr used, JStr '' without self-test'']])
         else (st, [])))"

definition i21_startup_self_test_precedes_process :: "event list \<Rightarrow> finding list" where
  "i21_startup_self_test_precedes_process rows = scan i21_step rows ([], [])"

definition unhalting :: "jval \<Rightarrow> bool" where
  "unhalting v \<longleftrightarrow> v = JStr ''NORMAL'' \<or> v = JStr ''STOP_NEW'' \<or> v = JStr ''FLATTEN_ONLY''"

definition i22_step :: "event \<Rightarrow> int option \<Rightarrow> exn + (int option \<times> finding list)" where
  "i22_step e halt_seq =
     (let dest = pget (ev_payload e) ''to'' JNull; acked = pget (ev_payload e) ''acknowledged_halt_seq'' JNull
      in if ev_type e = OPERATING_MODE_CHANGED \<and> dest = JStr ''HALTED'' then Inr (Some (ev_seq e), [])
         else if ev_type e = HALT_CAUSE_ADDED then Inr (Some (ev_seq e), [])
         else if ev_type e = HALT_ACKNOWLEDGED
         then (if halt_seq \<noteq> None \<and> acked \<noteq> JNull
               then ebind (j_int acked) (\<lambda>n. Inr (if Some n = halt_seq then None else halt_seq, []))
               else Inr (halt_seq, []))
         else case halt_seq of
           None \<Rightarrow> Inr (None, [])
         | Some h \<Rightarrow>
             if ev_type e = OPERATING_MODE_CHANGED \<and> unhalting dest
             then Inr (None, [finding 22 e [JStr ''mode left HALTED (-> '', dest,
                    JStr '') with the HALT at seq '', JInt h, JStr '' never acknowledged'']])
             else Inr (halt_seq, []))"

definition i22_halt_survives_restart :: "event list \<Rightarrow> exn + finding list" where
  "i22_halt_survives_restart rows = scan_exn i22_step rows None"

section \<open>The audit\<close>

definition audit :: "audit_caps \<Rightarrow> event list \<Rightarrow> exn + finding list" where
  "audit c rows =
     ebind (i11_no_expired_sends rows) (\<lambda>f11.
     ebind (i7_i8_mode_gate rows) (\<lambda>f7.
     ebind (i15_residual_boots_flatten_only rows) (\<lambda>f15.
     ebind (i16_runaway_caps_held c rows) (\<lambda>f16.
     ebind (i22_halt_survives_restart rows) (\<lambda>f22.
       Inr (sort_key fi_seq (concat
         [i1_decision_once rows, i2_durable_before_send rows, i3_one_live_intent rows,
          i4_no_second_pending_ack rows, i5_no_second_pending_cancel rows,
          i10_reconcile_before_send rows, f11, i12_exec_once rows, i6_link_sync_gate rows, f7,
          i14_external_fact_halts rows, i17_config_hash rows, i18_fail_closed rows,
          i9_flatten_after_working_resolved rows, i13_missing_fee_is_benign rows, f15, f16,
          i19_overnight_stress_proven rows, i20_auditor_coverage_complete rows,
          i21_startup_self_test_precedes_process rows, f22])))))))"

text \<open>The counters of the report.\<close>

fun tally :: "'a list \<Rightarrow> ('a \<times> int) list \<Rightarrow> ('a \<times> int) list" where
  "tally [] m = m"
| "tally (x # xs) m = tally xs (dput x (dget_or m x 0 + 1) m)"

record audit_summary =
  as_events :: int
  as_by_type :: "(string \<times> int) list"
  as_decision_misses :: "(jval \<times> int) list"
  as_audited :: "int list"

definition summary :: "event list \<Rightarrow> audit_summary" where
  "summary rows = \<lparr>as_events = int (length rows),
     as_by_type = sort_key fst (tally (map (\<lambda>e. event_type_value (ev_type e)) rows) []),
     as_decision_misses = tally (map (\<lambda>e. pget (ev_payload e) ''reason'' (JStr ''?''))
       (filter (\<lambda>e. ev_type e = DECISION_MISSED) rows)) [],
     as_audited = audited_invariants\<rparr>"

text \<open>The exit code; \<open>None\<close> stands for a path without a journal.\<close>

definition audit_file :: "journal option \<Rightarrow> exn + int" where
  "audit_file db = (case db of
     None \<Rightarrow> Inr 2
   | Some j \<Rightarrow> ebind (audit default_caps (replay j)) (\<lambda>findings.
       Inr (if as_events (summary (replay j)) = 0 then 2 else if findings = [] then 0 else 1)))"

end
