(* ===== verification/Auditor_Facts.thy ===== *)
theory Auditor_Facts
  imports Auditor Journal_Facts
begin

text \<open>
  What the auditor's checks decide. A check is a scan with a state; when its state tracks the rows read
  so far, and a row makes a finding exactly when it is bad for the rows before it, the scan is clean
  exactly when the journal has no bad row. The locale states this once; the checks interpret it.
\<close>

section \<open>Scans\<close>

text \<open>No row is bad for the rows before it.\<close>

definition no_bad :: "(event list \<Rightarrow> event \<Rightarrow> bool) \<Rightarrow> event list \<Rightarrow> bool" where
  "no_bad bad rows \<longleftrightarrow> (\<forall>pre e post. rows = pre @ e # post \<longrightarrow> \<not> bad pre e)"

lemma no_bad_Nil: "no_bad bad []"
  by (simp add: no_bad_def)

lemma no_bad_snoc: "no_bad bad (rows @ [e]) \<longleftrightarrow> no_bad bad rows \<and> \<not> bad rows e"
proof
  assume all: "no_bad bad (rows @ [e])"
  have "\<not> bad pre x" if "rows = pre @ x # post" for pre x post
    using all that by (simp add: no_bad_def)
  with all show "no_bad bad rows \<and> \<not> bad rows e"
    by (auto simp: no_bad_def)
next
  assume "no_bad bad rows \<and> \<not> bad rows e"
  then show "no_bad bad (rows @ [e])"
    unfolding no_bad_def by (auto simp: append_eq_append_conv2 append_eq_Cons_conv Cons_eq_append_conv)
qed

locale audit_check =
  fixes step :: "event \<Rightarrow> 's \<Rightarrow> exn + ('s \<times> finding list)" and init :: 's
    and tracks :: "event list \<Rightarrow> 's \<Rightarrow> bool" and bad :: "event list \<Rightarrow> event \<Rightarrow> bool"
  assumes tracks_init: "tracks [] init"
    and decides: "tracks rows st \<Longrightarrow> step e st = Inr (st', out) \<Longrightarrow> out = [] \<longleftrightarrow> \<not> bad rows e"
    and tracks_step: "tracks rows st \<Longrightarrow> step e st = Inr (st', out) \<Longrightarrow> \<not> bad rows e \<Longrightarrow> tracks (rows @ [e]) st'"
begin

lemma clean_from:
  assumes "tracks pre st" and "no_bad bad pre" and "scan_exn step rows st = Inr fs"
  shows "fs = [] \<longleftrightarrow> no_bad bad (pre @ rows)"
  using assms
proof (induction rows arbitrary: pre st fs)
  case Nil
  then show ?case by simp
next
  case (Cons e rows)
  from Cons.prems(3) obtain t out rest
    where step: "step e st = Inr (t, out)" and rest: "scan_exn step rows t = Inr rest" and fs: "fs = out @ rest"
    by (auto simp: ebind_Inr_iff)
  show ?case
  proof (cases "bad pre e")
    case True
    then have "\<not> no_bad bad (pre @ e # rows)"
      by (auto simp: no_bad_def)
    with True decides [OF Cons.prems(1) step] fs show ?thesis by simp
  next
    case False
    have "rest = [] \<longleftrightarrow> no_bad bad ((pre @ [e]) @ rows)"
      using Cons.IH [OF tracks_step [OF Cons.prems(1) step False] _ rest] Cons.prems(2) False
      by (simp add: no_bad_snoc)
    with False decides [OF Cons.prems(1) step] fs show ?thesis by simp
  qed
qed

lemma clean: "scan_exn step rows init = Inr fs \<Longrightarrow> fs = [] \<longleftrightarrow> no_bad bad rows"
  using clean_from [OF tracks_init no_bad_Nil] by simp

end

lemma scan_as_exn: "scan_exn (\<lambda>e st. Inr (f e st)) rows st = Inr (scan f rows st)"
  by (induction rows arbitrary: st) (simp_all split: prod.split)

section \<open>Once only\<close>

definition given_ids :: "event_type \<Rightarrow> (event \<Rightarrow> string option) \<Rightarrow> event list \<Rightarrow> string list" where
  "given_ids t field rows = List.map_filter (\<lambda>e. if ev_type e = t then given (field e) else None) rows"

lemma given_ids_snoc [simp]:
  "given_ids t field (rows @ [e]) =
     given_ids t field rows @ (case if ev_type e = t then given (field e) else None of None \<Rightarrow> [] | Some x \<Rightarrow> [x])"
  by (simp add: given_ids_def map_filter_def split: option.split)

lemma given_Some: "given x = Some y \<Longrightarrow> x = Some y"
  by (auto simp: given_def split: option.splits list.splits)

lemma given_or_empty [simp]: "given x = Some y \<Longrightarrow> or_empty x = y"
  by (auto simp: given_def or_empty_def split: option.splits list.splits)

lemma given_ids_iff:
  "y \<in> set (given_ids t field rows) \<longleftrightarrow> (\<exists>x \<in> set rows. ev_type x = t \<and> given (field x) = Some y)"
  by (induction rows) (auto simp: given_ids_def List.map_filter_simps split: option.splits)

lemma dget_key: "dget m k = Some v \<Longrightarrow> k \<in> fst ` set m"
  by (force dest: map_of_SomeD)

definition repeats :: "event_type \<Rightarrow> (event \<Rightarrow> string option) \<Rightarrow> event list \<Rightarrow> event \<Rightarrow> bool" where
  "repeats t field rows e \<longleftrightarrow> ev_type e = t \<and> (\<exists>x. given (field e) = Some x \<and> x \<in> set (given_ids t field rows))"

lemma no_repeats: "no_bad (repeats t field) rows \<longleftrightarrow> distinct (given_ids t field rows)"
proof (induction rows rule: rev_induct)
  case Nil
  then show ?case by (simp add: no_bad_Nil given_ids_def map_filter_def)
next
  case (snoc e rows)
  then show ?case
    by (auto simp: no_bad_snoc repeats_def split: option.split)
qed

interpretation i1: audit_check "\<lambda>e st. Inr (i1_step e st)" "[]"
  "\<lambda>rows seen. fst ` set seen = set (given_ids TARGET_RECEIVED ev_decision_id rows)"
  "repeats TARGET_RECEIVED ev_decision_id"
proof (unfold_locales, goal_cases)
  case 1
  then show ?case by (simp add: given_ids_def map_filter_def)
next
  case (2 rows st e st' out)
  then show ?case
    by (auto simp: i1_step_def repeats_def map_of_eq_None_iff dest: dget_key split: option.splits if_splits)
next
  case (3 rows st e st' out)
  then show ?case
    by (simp add: i1_step_def split: option.splits if_splits) (metis keys_dput)+
qed

interpretation i12: audit_check "\<lambda>e st. Inr (i12_step e st)" "[]"
  "\<lambda>rows seen. fst ` set seen = set (given_ids EXECUTION_RECEIVED ev_exec_id rows)"
  "repeats EXECUTION_RECEIVED ev_exec_id"
proof (unfold_locales, goal_cases)
  case 1
  then show ?case by (simp add: given_ids_def map_filter_def)
next
  case (2 rows st e st' out)
  then show ?case
    by (auto simp: i12_step_def repeats_def map_of_eq_None_iff dest: dget_key split: option.splits if_splits)
next
  case (3 rows st e st' out)
  then show ?case
    by (simp add: i12_step_def split: option.splits if_splits) (metis keys_dput)+
qed

lemma once_checks:
  "i1_decision_once rows = [] \<longleftrightarrow> distinct (given_ids TARGET_RECEIVED ev_decision_id rows)"
  "i12_exec_once rows = [] \<longleftrightarrow> distinct (given_ids EXECUTION_RECEIVED ev_exec_id rows)"
  using i1.clean [OF scan_as_exn, of rows] i12.clean [OF scan_as_exn, of rows]
  by (simp_all add: i1_decision_once_def i12_exec_once_def no_repeats)

text \<open>The ids the auditor looks at are among those the journal keeps unique.\<close>

lemma given_ids_distinct:
  "distinct (accepted_ids rows) \<Longrightarrow> distinct (given_ids TARGET_RECEIVED ev_decision_id rows)"
  "distinct (booked_ids rows) \<Longrightarrow> distinct (given_ids EXECUTION_RECEIVED ev_exec_id rows)"
proof -
  have "distinct (given_ids t field rows) \<and> set (given_ids t field rows)
      \<subseteq> set (map (\<lambda>e. the (field e)) (filter (\<lambda>e. ev_type e = t \<and> field e \<noteq> None) rows))"
    if "distinct (map (\<lambda>e. the (field e)) (filter (\<lambda>e. ev_type e = t \<and> field e \<noteq> None) rows))" for t field
    using that
  proof (induction rows)
    case (Cons e rows)
    then show ?case
      by (auto simp: given_ids_def map_filter_simps dest: given_Some split: option.splits if_splits)
  qed (simp add: given_ids_def map_filter_simps)
  from this [of ev_decision_id TARGET_RECEIVED] this [of ev_exec_id EXECUTION_RECEIVED]
  show "distinct (accepted_ids rows) \<Longrightarrow> distinct (given_ids TARGET_RECEIVED ev_decision_id rows)"
    "distinct (booked_ids rows) \<Longrightarrow> distinct (given_ids EXECUTION_RECEIVED ev_exec_id rows)"
    by (simp_all add: accepted_ids_def booked_ids_def)
qed

section \<open>Durable before send\<close>

definition unbacked :: "event list \<Rightarrow> event \<Rightarrow> bool" where
  "unbacked rows e \<longleftrightarrow> ev_type e = SEND_ATTEMPT_STARTED
     \<and> \<not> (\<exists>x \<in> set rows. ev_type x = ORDER_INTENT_COMMITTED \<and> ev_intent_id x = ev_intent_id e
           \<and> given (ev_intent_id e) \<noteq> None)"

interpretation i2: audit_check "\<lambda>e st. Inr (i2_step e st)" "[]"
  "\<lambda>rows committed. set committed = set (given_ids ORDER_INTENT_COMMITTED ev_intent_id rows)"
  unbacked
proof (unfold_locales, goal_cases)
  case 1
  then show ?case by (simp add: given_ids_def map_filter_def)
next
  case (2 rows st e st' out)
  then show ?case
    by (auto simp: i2_step_def unbacked_def given_ids_iff split: if_splits) (metis given_Some)
next
  case (3 rows st e st' out)
  then show ?case
    by (auto simp: i2_step_def split: if_splits option.splits)
qed

lemma order_check: "i2_durable_before_send rows = [] \<longleftrightarrow> no_bad unbacked rows"
  using i2.clean [OF scan_as_exn, of rows] by (simp add: i2_durable_before_send_def)

section \<open>The runaway caps\<close>

definition sends :: "event list \<Rightarrow> event list" where
  "sends rows = filter (\<lambda>e. ev_type e = SEND_ATTEMPT_STARTED) rows"

definition sends_on :: "date \<Rightarrow> event list \<Rightarrow> event list" where
  "sends_on day rows = filter (\<lambda>e. utc_date (ev_ts e) = day) (sends rows)"

text \<open>What a send row says was sent; nothing when it cannot be read.\<close>

definition quantity_of :: "event \<Rightarrow> int" where
  "quantity_of e = (case sent_quantity e of Inr q \<Rightarrow> q | Inl _ \<Rightarrow> 0)"

definition notional_of :: "event \<Rightarrow> rat" where
  "notional_of e = (case sent_price e of Inr p \<Rightarrow> p | Inl _ \<Rightarrow> 0) * of_int (quantity_of e)"

definition day_within :: "audit_caps \<Rightarrow> date \<Rightarrow> event list \<Rightarrow> bool" where
  "day_within c day rows \<longleftrightarrow> int (length (sends_on day rows)) \<le> ac_orders_per_day c
     \<and> sum_list (map quantity_of (sends_on day rows)) \<le> ac_daily_shares c
     \<and> sum_list (map notional_of (sends_on day rows)) \<le> ac_daily_notional c"

definition minute_within :: "audit_caps \<Rightarrow> event \<Rightarrow> event list \<Rightarrow> bool" where
  "minute_within c e rows \<longleftrightarrow>
     int (length (filter (\<lambda>x. seconds_between (ev_ts e) (ev_ts x) < 60) (sends rows))) \<le> ac_orders_per_minute c"

definition over_caps :: "audit_caps \<Rightarrow> event list \<Rightarrow> event \<Rightarrow> bool" where
  "over_caps c rows e \<longleftrightarrow> ev_type e = SEND_ATTEMPT_STARTED
     \<and> \<not> (day_within c (utc_date (ev_ts e)) (rows @ [e]) \<and> minute_within c e (rows @ [e]))"

definition counted :: "event list \<Rightarrow> i16_state \<Rightarrow> bool" where
  "counted rows st \<longleftrightarrow> (\<forall>day. dget_or (y_orders st) day 0 = int (length (sends_on day rows))
       \<and> dget_or (y_shares st) day 0 = sum_list (map quantity_of (sends_on day rows))
       \<and> dget_or (y_notional st) day 0 = sum_list (map notional_of (sends_on day rows)))
     \<and> y_stamps st = map ev_ts (sends rows)"

lemma sends_snoc [simp]:
  "sends (rows @ [e]) = sends rows @ (if ev_type e = SEND_ATTEMPT_STARTED then [e] else [])"
  "sends_on day (rows @ [e]) = sends_on day rows
     @ (if ev_type e = SEND_ATTEMPT_STARTED \<and> utc_date (ev_ts e) = day then [e] else [])"
  by (simp_all add: sends_def sends_on_def)

lemma counted_send:
  assumes "counted rows st" and "ev_type e = SEND_ATTEMPT_STARTED"
    and "sent_quantity e = Inr q" and "sent_price e = Inr p"
  shows "counted (rows @ [e]) (i16_count e q p st)"
  using assms by (simp add: counted_def i16_count_def Let_def quantity_of_def notional_of_def)

lemma counted_other: "counted rows st \<Longrightarrow> ev_type e \<noteq> SEND_ATTEMPT_STARTED \<Longrightarrow> counted (rows @ [e]) st"
  by (simp add: counted_def)

lemma i16_findings_Nil:
  "counted (rows @ [e]) st \<Longrightarrow> i16_findings c e st = [] \<longleftrightarrow>
     day_within c (utc_date (ev_ts e)) (rows @ [e]) \<and> minute_within c e (rows @ [e])"
  by (simp add: counted_def i16_findings_def Let_def day_within_def minute_within_def minute_window_def
      filter_map comp_def not_less del: sends_snoc)

interpretation i16: audit_check "i16_step c"
  "\<lparr>y_orders = [], y_shares = [], y_notional = [], y_stamps = []\<rparr>" counted "over_caps c" for c
proof (unfold_locales, goal_cases)
  case 1
  then show ?case by (simp add: counted_def sends_on_def sends_def)
next
  case (2 rows st e st' out)
  then show ?case
    by (auto simp: i16_step_def ebind_Inr_iff Let_def over_caps_def split: if_splits
        dest!: i16_findings_Nil [OF counted_send])
next
  case (3 rows st e st' out)
  then show ?case
    by (auto simp: i16_step_def ebind_Inr_iff Let_def intro: counted_send counted_other split: if_splits)
qed

lemma caps_check: "i16_runaway_caps_held c rows = Inr fs \<Longrightarrow> fs = [] \<longleftrightarrow> no_bad (over_caps c) rows"
  unfolding i16_runaway_caps_held_def by (rule i16.clean)

lemma day_within_caps:
  assumes "no_bad (over_caps c) rows" and "sends_on day rows \<noteq> []"
  shows "day_within c day rows"
  using assms
proof (induction rows rule: rev_induct)
  case Nil
  then show ?case by (simp add: sends_on_def sends_def)
next
  case (snoc e rows)
  show ?case
  proof (cases "ev_type e = SEND_ATTEMPT_STARTED \<and> utc_date (ev_ts e) = day")
    case True
    with snoc.prems(1) show ?thesis by (auto simp: no_bad_snoc over_caps_def)
  next
    case False
    then have "sends_on day (rows @ [e]) = sends_on day rows" by auto
    with snoc show ?thesis by (simp add: no_bad_snoc day_within_def)
  qed
qed

section \<open>The HALT latch\<close>

definition leaves_halt :: "event list \<Rightarrow> event \<Rightarrow> bool" where
  "leaves_halt rows e \<longleftrightarrow> ev_type e = OPERATING_MODE_CHANGED
     \<and> unhalting (pget (ev_payload e) ''to'' JNull) \<and> active_halt_seq rows \<noteq> None"

interpretation i22: audit_check i22_step None "\<lambda>rows st. st = active_halt_seq rows" leaves_halt
proof (unfold_locales, goal_cases)
  case 1
  then show ?case by (simp add: active_halt_seq_def)
next
  case (2 rows st e st' out)
  then show ?case
    by (auto simp: i22_step_def Let_def leaves_halt_def unhalting_def ebind_Inr_iff split: if_splits option.splits)
next
  case (3 rows st e st' out)
  then show ?case
    by (auto simp: i22_step_def Let_def leaves_halt_def unhalting_def ebind_Inr_iff active_halt_snoc
        active_halt_step_def acked_seq_def split: if_splits option.splits sum.splits)
qed

lemma latch_check: "i22_halt_survives_restart rows = Inr fs \<Longrightarrow> fs = [] \<longleftrightarrow> no_bad leaves_halt rows"
  unfolding i22_halt_survives_restart_def by (rule i22.clean)

section \<open>Gates\<close>

text \<open>The last value a row of a type recorded.\<close>

definition last_to :: "event_type \<Rightarrow> jval \<Rightarrow> event list \<Rightarrow> jval" where
  "last_to t v0 rows = foldl (\<lambda>v e. if ev_type e = t then pget (ev_payload e) ''to'' v else v) v0 rows"

definition ungated :: "event list \<Rightarrow> event \<Rightarrow> bool" where
  "ungated rows e \<longleftrightarrow> (ev_type e = SEND_ATTEMPT_STARTED \<or> ev_type e = CANCEL_REQUESTED)
     \<and> \<not> (last_to LINK_STATE_CHANGED (JStr ''DISCONNECTED'') rows = JStr ''CONNECTED''
          \<and> last_to SYNC_STATE_CHANGED (JStr ''UNVERIFIED'') rows = JStr ''SYNCED'')"

interpretation i6: audit_check "\<lambda>e st. Inr (i6_step e st)" "(JStr ''DISCONNECTED'', JStr ''UNVERIFIED'')"
  "\<lambda>rows st. st = (last_to LINK_STATE_CHANGED (JStr ''DISCONNECTED'') rows,
                    last_to SYNC_STATE_CHANGED (JStr ''UNVERIFIED'') rows)" ungated
  by unfold_locales (auto simp: i6_step_def last_to_def ungated_def split: if_splits)

lemma gate_check: "i6_link_sync_gate rows = [] \<longleftrightarrow> no_bad ungated rows"
  using i6.clean [OF scan_as_exn, of rows] by (simp add: i6_link_sync_gate_def)

section \<open>Checks armed by a row that is never written\<close>

lemma unarmed_i10:
  "\<forall>e \<in> set rows. ev_type e \<noteq> PROCESS_STARTED \<Longrightarrow> scan i10_step rows (False, r) = []"
  by (induction rows arbitrary: r) (auto simp: i10_step_def)

lemma unarmed_i15:
  "\<forall>e \<in> set rows. ev_type e \<noteq> PROCESS_STARTED \<Longrightarrow> \<not> r_armed st \<Longrightarrow>
     scan_exn i15_step rows st = Inr fs \<Longrightarrow> fs = []"
proof (induction rows arbitrary: st fs)
  case (Cons e rows)
  from Cons.prems(3) obtain t out rest
    where step: "i15_step e st = Inr (t, out)" and rest: "scan_exn i15_step rows t = Inr rest" "fs = out @ rest"
    by (auto simp: ebind_Inr_iff)
  have "out = [] \<and> \<not> r_armed t"
    using step Cons.prems(1,2) by (auto simp: i15_step_def ebind_Inr_iff split: if_splits)
  with Cons rest show ?case by auto
qed simp

end
