(* ===== verification/Audits.thy ===== *)
theory Audits
  imports Auditor_Facts Controller_Safety Demo
begin

text \<open>
  The properties of the offline auditor: what a clean audit proves of a journal, what the journals of
  the process always pass, and which checks those journals can never arm.
\<close>

section \<open>Journals of the process\<close>

text \<open>
  on every journal the process can ever have, storage failures, crashes and restarts included, the
  checks for decisions accepted twice (1) and executions booked twice (12) find nothing.
\<close>

theorem journals_pass_the_once_checks:
  assumes "reachable s0 s" and "journal_wf (ct_journal s0)"
  shows "i1_decision_once (rows_of s) = [] \<and> i12_exec_once (rows_of s) = []"
proof -
  have "rows_wf s"
    using rows_process.invariant [OF assms(1)] assms(2) by (simp add: rows_wf_def)
  then show ?thesis
    by (simp add: once_checks rows_of_def replay_def rows_wf_def journal_wf_def given_ids_distinct)
qed

theorem journals_pass_the_once_checks_witness:
  "i1_decision_once (rows_of (run [Submit demo_target, Submit demo_target] demo_live)) = []"
proof -
  have "journal_wf (ct_journal demo_live)"
    by (simp add: demo_live_def journal_wf_open journal_wf_empty)
  from journals_pass_the_once_checks [OF reachable_run this] show ?thesis by blast
qed

text \<open>No operation of the process writes \<open>PROCESS_STARTED\<close>.\<close>

definition unstarted :: "journal \<Rightarrow> bool" where
  "unstarted j \<longleftrightarrow> (\<forall>e \<in> set (j_rows j). ev_type e \<noteq> PROCESS_STARTED)"

definition unstarted_ctl :: "'b ctl \<Rightarrow> bool" where
  "unstarted_ctl s \<longleftrightarrow> unstarted (ct_journal s)"

lemma keeps_unstarted:
  "ev_type e \<noteq> PROCESS_STARTED \<Longrightarrow> keeps unstarted (commit ck e)"
  "keeps unstarted (accept_decision ck did p sid symb)"
  "keeps unstarted (commit_execution_once ck xid p symb ref pid)"
  "keeps unstarted (acknowledge_halt ck n operator resolution)"
  by (auto intro!: keepsI wp_commit wp_accept_decision wp_commit_execution_once wp_acknowledge_halt
      simp: unstarted_def committed_def lost_def accepted_def booked_def unchanged_def target_event_def
        exec_event_def ack_event_def)

lemma keeps_unstarted_op:
  "(\<And>ck. keeps unstarted (m ck)) \<Longrightarrow> keeps unstarted_ctl (journal_op m :: ('b ctl, 'x) prog)"
  by (auto simp: keeps_def journal_op_def in_journal_def wp_reads wp_zoom unstarted_ctl_def)

interpretation unstarted_rows: ctl_wire unstarted_ctl
proof unfold_locales
  fix s t :: "'b ctl" assume "unstarted_ctl s" "same_ground s t"
  then show "unstarted_ctl t" by (simp add: unstarted_ctl_def same_ground_def)
next
  fix e assume "quiet e"
  then show "keeps unstarted_ctl (emit_seq e :: ('b ctl, int) prog)"
    unfolding emit_seq_def by (intro keeps_unstarted_op keeps_unstarted) (simp add: quiet_def)
qed (simp_all add: unstarted_ctl_def [abs_def] keeps_unstarted_op [unfolded unstarted_ctl_def [abs_def]]
      keeps_unstarted)

interpretation unstarted_modes: ctl_modes unstarted_ctl
  by unfold_locales (simp_all add: unstarted_ctl_def)

interpretation unstarted_process: ctl_process unstarted_ctl
  by unfold_locales
     (auto simp: unstarted_ctl_def unstarted_def fresh_fields_def open_journal_def close_journal_def
       wal_recover_def dest: in_set_takeD)

text \<open>
  The checks that \<open>PROCESS_STARTED\<close> arms are vacuous on every journal of the process: the row is
  never written, so reconciliation before the first send (10) and the boot mode after a residual (15)
  report nothing, whatever the process did.
\<close>

theorem start_checks_are_vacuous:
  assumes "reachable s0 s" and "j_rows (ct_journal s0) = []"
  shows "i10_reconcile_before_send (rows_of s) = []
    \<and> (\<forall>fs. i15_residual_boots_flatten_only (rows_of s) = Inr fs \<longrightarrow> fs = [])"
proof -
  have "unstarted_ctl s0"
    using assms(2) by (simp add: unstarted_ctl_def unstarted_def)
  then have "\<forall>e \<in> set (rows_of s). ev_type e \<noteq> PROCESS_STARTED"
    using unstarted_process.invariant [OF assms(1)]
    by (simp add: unstarted_ctl_def unstarted_def rows_of_def replay_def)
  then show ?thesis
    using unarmed_i15 [of "rows_of s" "\<lparr>r_residual = [], r_armed = False, r_mode = JStr ''NORMAL''\<rparr>"]
    by (simp add: i10_reconcile_before_send_def unarmed_i10 i15_residual_boots_flatten_only_def)
qed

theorem start_checks_are_vacuous_witness:
  "i10_reconcile_before_send (rows_of (run [Submit demo_target, Tick] demo_live)) = []"
proof -
  have "j_rows (ct_journal demo_live) = []"
    by (simp add: demo_live_def open_journal_def empty_db_def)
  from start_checks_are_vacuous [OF reachable_run this] show ?thesis by blast
qed

section \<open>What a clean audit proves\<close>

text \<open>
  Check 2 finds nothing exactly when every send attempt in the journal has an earlier committed
  intent with its own intent id.
\<close>

theorem clean_audit_is_durable_before_send:
  "i2_durable_before_send rows = [] \<longleftrightarrow>
     (\<forall>pre e post. rows = pre @ e # post \<longrightarrow> ev_type e = SEND_ATTEMPT_STARTED \<longrightarrow>
        given (ev_intent_id e) \<noteq> None
        \<and> (\<exists>x \<in> set pre. ev_type x = ORDER_INTENT_COMMITTED \<and> ev_intent_id x = ev_intent_id e))"
  unfolding order_check no_bad_def unbacked_def by blast

definition audit_intent :: event where
  "audit_intent = (ev ORDER_INTENT_COMMITTED [])\<lparr>ev_seq := 1, ev_intent_id := Some ''i1''\<rparr>"

definition audit_send :: event where
  "audit_send = (ev SEND_ATTEMPT_STARTED [(''quantity'', JInt 1), (''price'', JNum 600)])
     \<lparr>ev_seq := 2, ev_ts := demo_time, ev_intent_id := Some ''i1''\<rparr>"

theorem clean_audit_is_durable_before_send_witness:
  "list_ex (\<lambda>x. ev_type x = ORDER_INTENT_COMMITTED \<and> ev_intent_id x = Some ''i1'') [audit_intent]"
proof -
  have "i2_durable_before_send [audit_intent, audit_send] = []" by code_simp
  from this [unfolded clean_audit_is_durable_before_send] show ?thesis
    by (auto simp: audit_intent_def audit_send_def ev_def Cons_eq_append_conv)
qed

text \<open>
  Check 6 finds nothing exactly when every send and every cancel request was written with the last
  recorded link CONNECTED and the last recorded synchronisation SYNCED.
\<close>

theorem clean_audit_is_gated:
  "i6_link_sync_gate rows = [] \<longleftrightarrow>
     (\<forall>pre e post. rows = pre @ e # post \<longrightarrow>
        ev_type e = SEND_ATTEMPT_STARTED \<or> ev_type e = CANCEL_REQUESTED \<longrightarrow>
        last_to LINK_STATE_CHANGED (JStr ''DISCONNECTED'') pre = JStr ''CONNECTED''
        \<and> last_to SYNC_STATE_CHANGED (JStr ''UNVERIFIED'') pre = JStr ''SYNCED'')"
  unfolding gate_check no_bad_def ungated_def by blast

theorem clean_audit_is_gated_witness:
  "i6_link_sync_gate [audit_send] \<noteq> []"
  unfolding clean_audit_is_gated
  by (auto simp: audit_send_def ev_def last_to_def Cons_eq_append_conv)

text \<open>
  C32: a clean runaway check (16) proves the caps: on every day with a send the attempts, the shares and
  the notional are within the daily caps, and at every send the attempts of the last minute, this one
  included, are within the cap per minute.
\<close>

theorem clean_audit_proves_the_caps:
  assumes "i16_runaway_caps_held c rows = Inr []"
  shows "(\<forall>day. sends_on day rows \<noteq> [] \<longrightarrow> day_within c day rows)
    \<and> (\<forall>pre e post. rows = pre @ e # post \<longrightarrow> ev_type e = SEND_ATTEMPT_STARTED \<longrightarrow> minute_within c e (pre @ [e]))"
proof -
  have clean: "no_bad (over_caps c) rows"
    using caps_check [OF assms] by simp
  then show ?thesis
    by (auto intro: day_within_caps simp: no_bad_def over_caps_def)
qed

theorem clean_audit_proves_the_caps_witness:
  "day_within default_caps (utc_date demo_time) [audit_intent, audit_send]"
proof -
  have "i16_runaway_caps_held default_caps [audit_intent, audit_send] = Inr []"
    by (simp add: i16_runaway_caps_held_def i16_step_def audit_intent_def audit_send_def ev_def sent_quantity_def
        sent_price_def i16_count_def i16_findings_def minute_window_def default_caps_def Let_def seconds_between_def)
  moreover have "sends_on (utc_date demo_time) [audit_intent, audit_send] \<noteq> []"
    by (simp add: sends_on_def sends_def audit_intent_def audit_send_def ev_def)
  ultimately show ?thesis
    using clean_audit_proves_the_caps by blast
qed

text \<open>
  C33: check 22 reads the same latch as the journal: it finds nothing exactly when no recorded mode
  change leaves HALTED while a HALT is active in the rows before it.
\<close>

theorem clean_audit_is_the_latch:
  assumes "i22_halt_survives_restart rows = Inr fs"
  shows "fs = [] \<longleftrightarrow>
     (\<forall>pre e post. rows = pre @ e # post \<longrightarrow> ev_type e = OPERATING_MODE_CHANGED \<longrightarrow>
        unhalting (pget (ev_payload e) ''to'' JNull) \<longrightarrow> active_halt_seq pre = None)"
  by (simp only: latch_check [OF assms] no_bad_def leaves_halt_def de_Morgan_conj not_not imp_conv_disj)

definition laundered :: "event list" where
  "laundered = [(ev HALT_CAUSE_ADDED [])\<lparr>ev_seq := 1\<rparr>,
     (ev PROCESS_STATE_RESTORED [(''operating_mode'', JStr ''NORMAL'')])\<lparr>ev_seq := 2\<rparr>]"

theorem clean_audit_is_the_latch_witness:
  "i22_halt_survives_restart laundered = Inr [] \<and> active_halt_seq laundered \<noteq> None
   \<and> i22_halt_survives_restart (laundered @ [ev OPERATING_MODE_CHANGED [(''to'', JStr ''NORMAL'')]]) \<noteq> Inr []"
proof -
  have "active_halt_seq laundered \<noteq> None" by code_simp
  moreover have "i22_halt_survives_restart laundered = Inr []" by code_simp
  moreover have "i22_halt_survives_restart (laundered @ [ev OPERATING_MODE_CHANGED [(''to'', JStr ''NORMAL'')]]) \<noteq> Inr []"
  proof
    assume "i22_halt_survives_restart (laundered @ [ev OPERATING_MODE_CHANGED [(''to'', JStr ''NORMAL'')]]) = Inr []"
    from clean_audit_is_the_latch [OF this] \<open>active_halt_seq laundered \<noteq> None\<close> show False
      by (auto simp: unhalting_def)
  qed
  ultimately show ?thesis by blast
qed

end
