(* ===== verification/Watchdog.thy ===== *)
theory Watchdog
  imports Controller_Events
begin

text \<open>
  \<open>watchdog.py\<close>: the process beside the engine that reads its status file, alerts, and fences it by
  signal. A status is the JSON object of the file, or nothing when the file cannot be read; a file that
  holds JSON other than an object, which no writer of the program produces, is not modelled. The decision
  (\<open>evaluate_status\<close>) and the only action (\<open>kill_engine\<close>) are programs over the
  watchdog's state; what the operating system answers is a record of functions. Time is monotonic, in
  seconds; the numbers of a status are JSON numbers.
\<close>

record watchdog_config =
  wc_heartbeat_timeout_seconds :: rat
  wc_grace_seconds_before_kill :: rat
  wc_poll_seconds :: rat

definition default_watchdog_config :: watchdog_config where
  "default_watchdog_config = \<lparr>wc_heartbeat_timeout_seconds = 30, wc_grace_seconds_before_kill = 30,
     wc_poll_seconds = 5\<rparr>"

record verdict =
  vd_healthy :: bool
  vd_reason :: jval
  vd_should_alert :: bool
  vd_should_kill :: bool
  vd_severity :: string

datatype signal = SIGTERM | SIGKILL

record watchdog =
  wd_config :: watchdog_config
  wd_unhealthy_since :: "rat option"
  wd_alerts :: "(string \<times> jval) list"
  wd_signals :: "(int \<times> signal) list"

definition fine :: "jval \<Rightarrow> verdict" where
  "fine reason = \<lparr>vd_healthy = True, vd_reason = reason, vd_should_alert = False,
     vd_should_kill = False, vd_severity = ''INFO''\<rparr>"

definition wd_alert :: "string \<Rightarrow> jval \<Rightarrow> (watchdog, unit) prog" where
  "wd_alert level msg = modP (\<lambda>s. s\<lparr>wd_alerts := wd_alerts s @ [(level, msg)]\<rparr>)"

section \<open>The decision\<close>

definition degraded :: "rat \<Rightarrow> jval \<Rightarrow> string \<Rightarrow> (watchdog, verdict) prog" where
  "degraded now_mono reason severity = reads wd_unhealthy_since (\<lambda>since. case since of
     None \<Rightarrow> seqP (modP (\<lambda>s. s\<lparr>wd_unhealthy_since := Some now_mono\<rparr>))
       (ret \<lparr>vd_healthy = False, vd_reason = reason, vd_should_alert = True, vd_should_kill = False,
             vd_severity = severity\<rparr>)
   | Some t0 \<Rightarrow> reads wd_config (\<lambda>cfg.
       (let elapsed = now_mono - t0; kill = (elapsed \<ge> wc_grace_seconds_before_kill cfg)
        in ret \<lparr>vd_healthy = False,
             vd_reason = JFmt (reason # (if \<not> kill then [JStr ''; unhealthy for '', JNum elapsed, JStr ''s'']
                                         else [JStr ''; killing engine''])),
             vd_should_alert = True, vd_should_kill = kill, vd_severity = severity\<rparr>)))"

definition recovered :: "(watchdog, unit) prog" where
  "recovered = modP (\<lambda>s. s\<lparr>wd_unhealthy_since := None\<rparr>)"

definition evaluate_finalizing :: "rat \<Rightarrow> payload \<Rightarrow> (watchdog, verdict) prog" where
  "evaluate_finalizing now_mono p =
     (let progress = pget p ''finalize_progress_mono'' JNull; stage = pget p ''finalize_stage'' (JStr ''?'')
      in if progress = JNull
         then degraded now_mono (JStr ''finalizer status has no progress heartbeat'') ''CRITICAL''
         else bindP (liftE (j_dec progress)) (\<lambda>t. reads wd_config (\<lambda>cfg.
           (let age = now_mono - t
            in if age > wc_heartbeat_timeout_seconds cfg
               then degraded now_mono (JFmt [JStr ''finalizer progress stale by '', JNum age,
                      JStr ''s (stage='', stage, JStr '')'']) ''CRITICAL''
               else seqP recovered (ret (fine (JFmt [JStr ''finalizing '', stage, JStr '' rows='',
                      pget p ''finalize_rows_processed'' (JStr ''?'')])))))))"

definition evaluate_running :: "rat \<Rightarrow> payload \<Rightarrow> (watchdog, verdict) prog" where
  "evaluate_running now_mono p =
     (let hb = pget p ''heartbeat_mono'' JNull
      in if hb = JNull then degraded now_mono (JStr ''status file has no heartbeat'') ''CRITICAL''
         else bindP (liftE (j_dec hb)) (\<lambda>t. reads wd_config (\<lambda>cfg.
           (let age = now_mono - t
            in if age > wc_heartbeat_timeout_seconds cfg
               then degraded now_mono (JFmt [JStr ''heartbeat stale by '', JNum age,
                      JStr ''s (position='', pget p ''net_position'' (JStr ''?''), JStr '')'']) ''CRITICAL''
               else seqP recovered
                 (if pget p ''operating_mode'' JNull = JStr ''HALTED''
                  then ret ((fine (JStr ''engine HALTED''))\<lparr>vd_should_alert := True, vd_severity := ''CRITICAL''\<rparr>)
                  else if pget p ''sync_state'' JNull \<noteq> JStr ''SYNCED''
                  then ret ((fine (JFmt [JStr ''engine not synced ('', pget p ''sync_state'' JNull, JStr '')'']))
                         \<lparr>vd_should_alert := True, vd_severity := ''WARN''\<rparr>)
                  else ret (fine (JStr ''ok'')))))))"

text \<open>\<open>phase in {...}\<close> on a value that has no hash.\<close>

definition unhashable :: "jval \<Rightarrow> bool" where
  "unhashable v \<longleftrightarrow> (case v of JList xs \<Rightarrow> True | JObj p \<Rightarrow> True | _ \<Rightarrow> False)"

definition evaluate_status :: "rat \<Rightarrow> payload option \<Rightarrow> (watchdog, verdict) prog" where
  "evaluate_status now_mono st = (case st of
     None \<Rightarrow> degraded now_mono (JStr ''status file missing or unreadable'') ''CRITICAL''
   | Some p \<Rightarrow>
      (let phase = pget p ''phase'' JNull
       in if j_truthy (pget p ''fatal_shutdown_requested'' JNull)
          then ret \<lparr>vd_healthy = False, vd_reason = JFmt [JStr ''engine requested fatal shutdown ('',
                 pget p ''journal_failure'' (JStr ''runtime fault''), JStr '')''],
                 vd_should_alert = True, vd_should_kill = True, vd_severity = ''CRITICAL''\<rparr>
          else if unhashable phase then raise (TypeErr (JStr ''unhashable type''))
          else if phase = JStr ''FINALIZED'' \<or> phase = JStr ''STOPPED''
          then seqP recovered (ret (fine (JFmt [JStr ''recorder terminal phase '', phase])))
          else if phase = JStr ''FINALIZING'' then evaluate_finalizing now_mono p
          else evaluate_running now_mono p))"

section \<open>Fencing\<close>

text \<open>
  The operating system during one call: the creation identity of a process before and after the five
  seconds of grace, and what sending a signal does.
\<close>

datatype signal_result = Delivered | No_such_process | Signal_failed jval

record os_view =
  os_is_nt :: bool
  os_ticks :: "int \<Rightarrow> int option"
  os_ticks_later :: "int \<Rightarrow> int option"
  os_term :: "int \<Rightarrow> signal_result"
  os_kill :: "int \<Rightarrow> signal_result"

definition send_signal :: "int \<Rightarrow> signal \<Rightarrow> signal_result \<Rightarrow> (watchdog, signal_result) prog" where
  "send_signal pid sig r = seqP (modP (\<lambda>s. s\<lparr>wd_signals := wd_signals s @ [(pid, sig)]\<rparr>)) (ret r)"

definition force_kill :: "os_view \<Rightarrow> int \<Rightarrow> (watchdog, signal_result) prog" where
  "force_kill os pid = send_signal pid SIGKILL (os_kill os pid)"

text \<open>The \<open>try\<close> block: what it ended with.\<close>

definition fence_process :: "os_view \<Rightarrow> int \<Rightarrow> (watchdog, signal_result) prog" where
  "fence_process os pid =
     (if os_is_nt os then force_kill os pid
      else bindP (send_signal pid SIGTERM (os_term os pid)) (\<lambda>r.
        if r = Delivered \<and> os_ticks_later os pid \<noteq> None then force_kill os pid else ret r))"

definition kill_engine :: "os_view \<Rightarrow> payload option \<Rightarrow> (watchdog, bool) prog" where
  "kill_engine os st =
     (let p = (case st of None \<Rightarrow> [] | Some q \<Rightarrow> q); pid_raw = pget p ''pid'' JNull;
          recorded = pget p ''pid_start_ticks'' JNull
      in if \<not> j_truthy pid_raw
         then seqP (wd_alert ''CRITICAL'' (JStr ''cannot kill engine: no pid in status file'')) (ret False)
         else bindP (liftE (j_int pid_raw)) (\<lambda>pid.
           (case os_ticks os pid of
              None \<Rightarrow> seqP (wd_alert ''CRITICAL'' (JFmt [JStr ''cannot verify process identity for pid '', pid_raw,
                         JStr ''; refusing to signal it. Verify the engine and broker state manually.'']))
                       (ret False)
            | Some current \<Rightarrow>
                if recorded = JNull
                then seqP (wd_alert ''CRITICAL'' (JFmt [JStr ''cannot verify process identity for pid '', pid_raw,
                         JStr ''; refusing to signal it. Verify the engine and broker state manually.'']))
                       (ret False)
                else bindP (liftE (j_int recorded)) (\<lambda>ticks.
                  if ticks \<noteq> current
                  then seqP (wd_alert ''CRITICAL'' (JFmt [JStr ''pid '', pid_raw,
                         JStr '' was recycled (start time differs); refusing to signal it. '',
                         JStr ''The engine is already dead. Verify broker state manually.''])) (ret False)
                  else bindP (fence_process os pid) (\<lambda>r. case r of
                    Signal_failed d \<Rightarrow> seqP (wd_alert ''CRITICAL'' (JFmt [JStr ''failed to kill engine pid='',
                         pid_raw, JStr '': '', d])) (ret False)
                  | _ \<Rightarrow> seqP (wd_alert ''CRITICAL'' (JFmt [JStr ''engine pid='', pid_raw,
                         JStr '' killed by watchdog. NOT restarting automatically. Position at last known status: '',
                         pget p ''net_position'' (JStr ''?''), JStr ''. Human action required: verify broker state, then '',
                         JStr ''decide whether to run emergency_flatten.''])) (ret True))))))"

definition watchdog_once :: "os_view \<Rightarrow> rat \<Rightarrow> payload option \<Rightarrow> (watchdog, verdict) prog" where
  "watchdog_once os now_mono st =
     bindP (evaluate_status now_mono st) (\<lambda>v. seqP (block
       [whenP (vd_should_alert v) (wd_alert (vd_severity v) (JFmt [JStr ''watchdog: '', vd_reason v])),
        whenP (vd_should_kill v) (bindP (kill_engine os st) (\<lambda>_. ret ()))])
       (ret v))"

text \<open>\<open>write_status\<close>: what the engine publishes.\<close>

definition published_status :: "int \<Rightarrow> int option \<Rightarrow> rat \<Rightarrow> rat \<Rightarrow> payload \<Rightarrow> payload" where
  "published_status pid ticks beat wall p =
     dput ''heartbeat_wall'' (JNum wall) (dput ''heartbeat_mono'' (JNum beat)
       (dput ''pid_start_ticks'' (j_opt JInt ticks) (dput ''pid'' (JInt pid) p)))"

section \<open>Runs\<close>

record cycle =
  cy_os :: os_view
  cy_now :: rat
  cy_status :: "payload option"

text \<open>\<open>run_forever\<close> up to an exception: the state and the verdicts, oldest first.\<close>

fun watch :: "cycle list \<Rightarrow> watchdog \<Rightarrow> (cycle \<times> verdict) list \<times> watchdog" where
  "watch [] s = ([], s)"
| "watch (c # cs) s = (case watchdog_once (cy_os c) (cy_now c) (cy_status c) s of
     (Inl e, t) \<Rightarrow> ([], t)
   | (Inr v, t) \<Rightarrow> (case watch cs t of (vs, u) \<Rightarrow> ((c, v) # vs, u)))"

section \<open>Facts\<close>

lemma degraded_effect:
  "degraded t reason sev s = (Inr v, s') \<Longrightarrow> \<not> vd_healthy v
     \<and> s' = s\<lparr>wd_unhealthy_since := Some (case wd_unhealthy_since s of None \<Rightarrow> t | Some t0 \<Rightarrow> t0)\<rparr>
     \<and> (vd_should_kill v \<longrightarrow> (\<exists>t0. wd_unhealthy_since s = Some t0
          \<and> wc_grace_seconds_before_kill (wd_config s) \<le> t - t0))"
  by (auto simp: degraded_def reads_def seqP_def bindP_def modP_def ret_def Let_def split: option.splits)

lemma degraded_returns: "\<exists>v s'. degraded t reason sev s = (Inr v, s')"
  by (auto simp: degraded_def reads_def seqP_def bindP_def modP_def ret_def Let_def split: option.splits)

text \<open>The three ways a decision can go.\<close>

definition fatal_requested :: "payload option \<Rightarrow> bool" where
  "fatal_requested st \<longleftrightarrow> (\<exists>p. st = Some p \<and> j_truthy (pget p ''fatal_shutdown_requested'' JNull))"

lemma evaluate_cases:
  assumes "evaluate_status t st s = (Inr v, s')"
  shows "fatal_requested st \<and> \<not> vd_healthy v \<and> vd_should_kill v \<and> s' = s
    \<or> vd_healthy v \<and> \<not> vd_should_kill v \<and> s' = s\<lparr>wd_unhealthy_since := None\<rparr>
    \<or> (\<exists>reason. degraded t reason ''CRITICAL'' s = (Inr v, s'))"
proof (cases st)
  case None
  with assms show ?thesis by (auto simp: evaluate_status_def)
next
  case (Some p)
  note ops = ret_def raise_def seqP_def bindP_def modP_def reads_def liftE_def recovered_def fine_def
  have finalizing: ?thesis if "evaluate_finalizing t p s = (Inr v, s')"
    using that by (auto simp: evaluate_finalizing_def Let_def ops split: if_splits sum.splits prod.splits)
  have running: ?thesis if "evaluate_running t p s = (Inr v, s')"
    using that by (auto simp: evaluate_running_def Let_def ops split: if_splits sum.splits prod.splits)
  show ?thesis
    using assms Some finalizing running
    by (auto simp: evaluate_status_def Let_def fatal_requested_def ops split: if_splits)
qed

lemma keeps_signals_apart:
  assumes "\<And>s as. I (s\<lparr>wd_alerts := as\<rparr>) = I s" and "\<And>s ss. I (s\<lparr>wd_signals := ss\<rparr>) = I s"
  shows "keeps I (wd_alert level msg)" "keeps I (send_signal pid sig r)" "keeps I (fence_process os pid)"
    "keeps I (kill_engine os st)"
proof -
  show alert: "keeps I (wd_alert level msg)" for level msg
    unfolding wd_alert_def by (rule keeps_modP) (simp add: assms)
  show signal: "keeps I (send_signal pid sig r)" for pid sig r
    unfolding send_signal_def by (intro keeps_seqP keeps_modP keeps_ret) (simp add: assms)
  show fence: "keeps I (fence_process os pid)" for pid
    unfolding fence_process_def force_kill_def by (intro keeps_if keeps_bindP signal keeps_ret)
  show "keeps I (kill_engine os st)"
    unfolding kill_engine_def Let_def
    by (intro keeps_if keeps_seqP keeps_bindP keeps_liftE keeps_ret alert keeps_case_option)
       (auto split: signal_result.split intro!: keeps_seqP keeps_ret keeps_if keeps_bindP keeps_liftE alert fence)
qed

definition since_config :: "rat option \<Rightarrow> watchdog_config \<Rightarrow> watchdog \<Rightarrow> bool" where
  "since_config since cfg s \<longleftrightarrow> wd_unhealthy_since s = since \<and> wd_config s = cfg"

lemma watchdog_once_evaluates:
  assumes "watchdog_once os t st s = (Inr v, u)"
  shows "\<exists>s'. evaluate_status t st s = (Inr v, s') \<and> wd_unhealthy_since u = wd_unhealthy_since s'
    \<and> wd_config u = wd_config s'"
proof (cases "evaluate_status t st s")
  case (Pair r s')
  with assms obtain w where r: "r = Inr w"
    by (cases r) (auto simp: watchdog_once_def bindP_def)
  let ?I = "since_config (wd_unhealthy_since s') (wd_config s')"
  have kept: "keeps ?I (block [whenP a (wd_alert b c), whenP d (bindP (kill_engine os st) (\<lambda>_. ret ()))])" for a b c d
    by (intro keeps_block_Cons keeps_block_Nil keeps_whenP keeps_bindP keeps_ret keeps_signals_apart)
       (simp_all add: since_config_def)
  have "wp (seqP (block [whenP a (wd_alert b c), whenP d (bindP (kill_engine os st) (\<lambda>_. ret ()))]) (ret w))
      (\<lambda>x u. x = w \<and> ?I u) (\<lambda>_ _. True) s'" for a b c d
    unfolding wp_seqP [of _ "ret w"]
    by (rule wp_mono [OF keepsD [OF kept]]) (simp_all add: wp_ret since_config_def)
  then have "wp (watchdog_once os t st) (\<lambda>x u. x = w \<and> ?I u) (\<lambda>_ _. True) s"
    unfolding watchdog_once_def wp_bindP by (simp add: wp_def [of "evaluate_status t st"] Pair r del: block.simps)
  from wp_result [OF this assms] Pair r show ?thesis by (auto simp: since_config_def)
qed

lemma evaluate_keeps_config: "evaluate_status t st s = (Inr v, s') \<Longrightarrow> wd_config s' = wd_config s"
  using evaluate_cases [of t st s v s'] by (auto dest: degraded_effect)

text \<open>The history behind \<open>_unhealthy_since\<close>: unhealthy ever since that reading.\<close>

definition unhealthy_run :: "(cycle \<times> verdict) list \<Rightarrow> rat option \<Rightarrow> bool" where
  "unhealthy_run hist since \<longleftrightarrow> (\<forall>t0. since = Some t0 \<longrightarrow>
     (\<exists>a b. hist = a @ b \<and> b \<noteq> [] \<and> cy_now (fst (hd b)) = t0 \<and> list_all (\<lambda>(c, v). \<not> vd_healthy v) b))"

lemma unhealthy_run_step:
  assumes "unhealthy_run hist (wd_unhealthy_since s)"
    and "evaluate_status (cy_now c) (cy_status c) s = (Inr v, s')"
  shows "unhealthy_run (hist @ [(c, v)]) (wd_unhealthy_since s')"
proof -
  have grow: "unhealthy_run (hist @ [(c, v)]) (wd_unhealthy_since s)" if "\<not> vd_healthy v"
  proof -
    have "\<exists>a' b'. hist @ [(c, v)] = a' @ b' \<and> b' \<noteq> [] \<and> cy_now (fst (hd b')) = t0
        \<and> list_all (\<lambda>(c, v). \<not> vd_healthy v) b'" if since: "wd_unhealthy_since s = Some t0" for t0
    proof -
      from assms(1) since obtain a b where "hist = a @ b" "b \<noteq> []" "cy_now (fst (hd b)) = t0"
          "list_all (\<lambda>(c, v). \<not> vd_healthy v) b"
        by (auto simp: unhealthy_run_def)
      with \<open>\<not> vd_healthy v\<close> show ?thesis
        by (intro exI [of _ a] exI [of _ "b @ [(c, v)]"]) simp
    qed
    then show ?thesis by (simp add: unhealthy_run_def)
  qed
  have fresh: "unhealthy_run (hist @ [(c, v)]) (Some (cy_now c))" if "\<not> vd_healthy v"
    unfolding unhealthy_run_def
  proof (intro allI impI)
    fix t0 assume "Some (cy_now c) = Some t0"
    with that show "\<exists>a b. hist @ [(c, v)] = a @ b \<and> b \<noteq> [] \<and> cy_now (fst (hd b)) = t0
        \<and> list_all (\<lambda>(c, v). \<not> vd_healthy v) b"
      by (intro exI [of _ hist] exI [of _ "[(c, v)]"]) simp
  qed
  from evaluate_cases [OF assms(2)] show ?thesis
  proof (elim disjE conjE exE)
    assume "s' = s" "\<not> vd_healthy v"
    then show ?thesis by (simp add: grow)
  next
    assume "s' = s\<lparr>wd_unhealthy_since := None\<rparr>"
    then show ?thesis by (simp add: unhealthy_run_def)
  next
    fix reason assume "degraded (cy_now c) reason ''CRITICAL'' s = (Inr v, s')"
    from degraded_effect [OF this] grow fresh show ?thesis
      by (auto split: option.splits)
  qed
qed

lemma watch_grace:
  assumes "unhealthy_run hist (wd_unhealthy_since s)"
    and "watch cs s = (vs, u)" and "vs = a @ (c, v) # b" and "vd_should_kill v"
    and "\<not> fatal_requested (cy_status c)"
  shows "\<exists>p q. hist @ a = p @ q \<and> q \<noteq> [] \<and> list_all (\<lambda>(c, v). \<not> vd_healthy v) q
    \<and> cy_now (fst (hd q)) + wc_grace_seconds_before_kill (wd_config s) \<le> cy_now c"
  using assms
proof (induction cs arbitrary: hist s vs a)
  case Nil
  then show ?case by simp
next
  case (Cons c0 cs)
  from Cons.prems(2,3) obtain v0 t where once: "watchdog_once (cy_os c0) (cy_now c0) (cy_status c0) s = (Inr v0, t)"
    by (auto split: prod.splits sum.splits)
  obtain ws where rest: "watch cs t = (ws, u)" and vs: "vs = (c0, v0) # ws"
    using Cons.prems(2) once by (auto split: prod.splits)
  from watchdog_once_evaluates [OF once] obtain s'
    where ev: "evaluate_status (cy_now c0) (cy_status c0) s = (Inr v0, s')"
      and since: "wd_unhealthy_since t = wd_unhealthy_since s'" and cfg: "wd_config t = wd_config s'"
    by blast
  show ?case
  proof (cases a)
    case Nil
    with vs Cons.prems(3) have c: "c0 = c" "v0 = v" by simp_all
    from evaluate_cases [OF ev] Cons.prems(4,5) c obtain reason
      where "degraded (cy_now c) reason ''CRITICAL'' s = (Inr v, s')"
      by auto
    from degraded_effect [OF this] Cons.prems(4) obtain t0 where "wd_unhealthy_since s = Some t0"
        "wc_grace_seconds_before_kill (wd_config s) \<le> cy_now c - t0"
      by auto
    with Cons.prems(1) Nil show ?thesis
      unfolding unhealthy_run_def by (fastforce simp: algebra_simps)
  next
    case (Cons x a')
    with vs \<open>vs = a @ (c, v) # b\<close> have a: "x = (c0, v0)" "ws = a' @ (c, v) # b" by simp_all
    have "unhealthy_run (hist @ [(c0, v0)]) (wd_unhealthy_since t)"
      unfolding since by (rule unhealthy_run_step [OF \<open>unhealthy_run hist (wd_unhealthy_since s)\<close> ev])
    from Cons.IH [OF this rest a(2) \<open>vd_should_kill v\<close> \<open>\<not> fatal_requested (cy_status c)\<close>]
    show ?thesis
      using Cons a cfg evaluate_keeps_config [OF ev] by simp
  qed
qed

definition fencing_signals :: "os_view \<Rightarrow> int \<Rightarrow> (int \<times> signal) list" where
  "fencing_signals os pid =
     (if os_is_nt os then [(pid, SIGKILL)]
      else (pid, SIGTERM) # (if os_term os pid = Delivered \<and> os_ticks_later os pid \<noteq> None
                             then [(pid, SIGKILL)] else []))"

lemma pget_dput: "pget (dput k v m) k' d = (if k' = k then v else pget m k' d)"
  by (simp add: pget_def)

lemma fence_process_signals:
  "\<exists>r. fence_process os pid s = (Inr r, s\<lparr>wd_signals := wd_signals s @ fencing_signals os pid\<rparr>)"
  by (auto simp: fence_process_def force_kill_def send_signal_def fencing_signals_def seqP_def bindP_def
      modP_def ret_def)

text \<open>A status that names a live process is fenced.\<close>

lemma kill_engine_fences:
  assumes "pget p ''pid'' JNull = JInt pid" and "pget p ''pid_start_ticks'' JNull = JInt ticks"
    and "pid \<noteq> 0" and "os_ticks os pid = Some ticks" and "wd_signals w = sent"
  shows "wp (kill_engine os (Some p)) (\<lambda>_ t. wd_signals t = sent @ fencing_signals os pid) (\<lambda>_ _. False) w"
  using fence_process_signals [of os pid w] assms
  by (auto simp: kill_engine_def Let_def wp_bindP wp_liftE wp_def [of "fence_process os pid"] wd_alert_def
      wp_seqP wp_modP wp_ret wp_ret_fun split: signal_result.split)

lemma watchdog_once_acts:
  assumes "evaluate_status t (Some p) w = (Inr v, w')" and "wd_signals w' = wd_signals w"
    and "pget p ''pid'' JNull = JInt pid" and "pget p ''pid_start_ticks'' JNull = JInt ticks"
    and "pid \<noteq> 0" and "os_ticks os pid = Some ticks"
  shows "wp (watchdog_once os t (Some p))
    (\<lambda>x u. x = v \<and> wd_signals u = wd_signals w @ (if vd_should_kill v then fencing_signals os pid else []))
    (\<lambda>_ _. False) w"
  using assms(1,2) kill_engine_fences [OF assms(3-6), of _ "wd_signals w"]
  by (auto simp: watchdog_once_def wp_bindP wp_def [of "evaluate_status t (Some p)"] wp_seqP wp_whenP
      wd_alert_def wp_modP wp_ret wp_ret_fun wp_block_fun)

end
