(* ===== verification/Supervision.thy ===== *)
theory Supervision
  imports Watchdog Controller_Facts Demo
begin

text \<open>
  The properties of the watchdog: it fences only the engine its status names, only after the grace
  period or on the engine's own request, and an engine that failed closed is fenced.
\<close>

section \<open>Facts\<close>

definition signals_only :: "os_view \<Rightarrow> payload option \<Rightarrow> watchdog \<Rightarrow> watchdog \<Rightarrow> bool" where
  "signals_only os st s t \<longleftrightarrow> (\<exists>sigs. wd_signals t = wd_signals s @ sigs \<and> (sigs = [] \<or>
     (\<exists>p pid ticks. st = Some p \<and> j_int (pget p ''pid'' JNull) = Inr pid
        \<and> j_int (pget p ''pid_start_ticks'' JNull) = Inr ticks \<and> os_ticks os pid = Some ticks
        \<and> list_all (\<lambda>x. fst x = pid) sigs)))"

lemma kill_engine_signals:
  "wp (kill_engine os st) (\<lambda>_ t. wd_signals t = wd_signals s \<or> (\<exists>p pid ticks. st = Some p
       \<and> j_int (pget p ''pid'' JNull) = Inr pid \<and> j_int (pget p ''pid_start_ticks'' JNull) = Inr ticks
       \<and> os_ticks os pid = Some ticks \<and> wd_signals t = wd_signals s @ fencing_signals os pid))
     (\<lambda>_ t. wd_signals t = wd_signals s) s"
proof (cases st)
  case None
  then show ?thesis by (simp add: kill_engine_def wp_seqP wp_ret wp_ret_fun wd_alert_def wp_modP)
next
  case (Some p)
  have tail: "wp (bindP (fence_process os pid) (\<lambda>r. case r of
        Signal_failed d \<Rightarrow> seqP (wd_alert a (f d)) (ret False) | _ \<Rightarrow> seqP (wd_alert b g) (ret True))) Q E s"
    if "\<And>x as. Q x (s\<lparr>wd_signals := wd_signals s @ fencing_signals os pid, wd_alerts := as\<rparr>)" for pid a b f g Q E
    using fence_process_signals [of os pid s] that
    by (auto simp: wp_bindP wp_def [of "fence_process os pid"] wd_alert_def wp_seqP wp_modP wp_ret wp_ret_fun
        split: signal_result.split)
  show ?thesis
    using Some
    by (auto simp: kill_engine_def Let_def wp_seqP wp_modP wp_ret wp_ret_fun wd_alert_def wp_bindP [of "liftE _"]
        wp_liftE wp_if wp_case_option split: option.split sum.split
        intro!: tail [unfolded wd_alert_def])
qed

lemma evaluate_signals:
  "evaluate_status t st s = (r, s') \<Longrightarrow> wd_signals s' = wd_signals s"
proof -
  have "keeps (\<lambda>u. wd_signals u = wd_signals s) (evaluate_status t st)"
    unfolding evaluate_status_def evaluate_finalizing_def evaluate_running_def degraded_def recovered_def Let_def
    by (intro keeps_case_option keeps_if keeps_seqP keeps_bindP keeps_liftE keeps_ret keeps_raise keeps_reads keeps_modP) simp_all
  from keepsD [OF this, of s] show "evaluate_status t st s = (r, s') \<Longrightarrow> wd_signals s' = wd_signals s"
    by (simp add: wp_def split: sum.splits)
qed

lemma no_signals: "wd_signals t = wd_signals s \<Longrightarrow> signals_only os st s t"
  by (simp add: signals_only_def)

lemma watchdog_once_signals:
  assumes "watchdog_once os t st s = (r, u)"
  shows "signals_only os st s u"
proof (cases "evaluate_status t st s")
  case (Pair q s')
  have same: "wd_signals s' = wd_signals s"
    by (rule evaluate_signals [OF Pair])
  have "wp (watchdog_once os t st) (\<lambda>_. signals_only os st s) (\<lambda>_. signals_only os st s) s"
  proof (cases q)
    case (Inl e)
    with Pair same show ?thesis
      by (simp add: watchdog_once_def wp_bindP wp_def [of "evaluate_status t st"] no_signals)
  next
    case (Inr v)
    have kill: "wp (kill_engine os st) (\<lambda>_. signals_only os st s) (\<lambda>_. signals_only os st s) w"
      if "wd_signals w = wd_signals s" for w
      by (rule wp_mono [OF kill_engine_signals])
         (use that in \<open>auto simp: signals_only_def fencing_signals_def list_all_iff\<close>)
    show ?thesis
      using Pair Inr same kill
      by (simp add: watchdog_once_def wp_bindP wp_def [of "evaluate_status t st"] wp_seqP wp_whenP wd_alert_def
          wp_modP wp_ret wp_ret_fun wp_block_fun no_signals)
  qed
  with assms show ?thesis by (auto simp: wp_def split: sum.splits)
qed

section \<open>Properties\<close>

text \<open>
  The watchdog signals nobody but the engine of the status it read: every signal of a cycle goes to
  the process id the status names, and only when the creation identity recorded there is the one the
  operating system reports now, so a recycled process id is never signalled.
\<close>

theorem watchdog_signals_its_engine_only:
  assumes "watchdog_once os t st s = (r, u)" and "wd_signals u \<noteq> wd_signals s"
  shows "\<exists>p pid ticks sigs. st = Some p \<and> j_int (pget p ''pid'' JNull) = Inr pid
    \<and> j_int (pget p ''pid_start_ticks'' JNull) = Inr ticks \<and> os_ticks os pid = Some ticks
    \<and> wd_signals u = wd_signals s @ sigs \<and> list_all (\<lambda>x. fst x = pid) sigs"
  using watchdog_once_signals [OF assms(1)] assms(2) unfolding signals_only_def by fastforce

definition demo_os :: os_view where
  "demo_os = \<lparr>os_is_nt = False, os_ticks = (\<lambda>pid. if pid = 7 then Some 99 else None),
     os_ticks_later = (\<lambda>_. None), os_term = (\<lambda>_. Delivered), os_kill = (\<lambda>_. Delivered)\<rparr>"

definition demo_watchdog :: watchdog where
  "demo_watchdog = \<lparr>wd_config = default_watchdog_config, wd_unhealthy_since = None, wd_alerts = [],
     wd_signals = []\<rparr>"

definition fatal_status :: payload where
  "fatal_status = [(''fatal_shutdown_requested'', JBool True), (''pid'', JInt 7), (''pid_start_ticks'', JInt 99)]"

theorem watchdog_signals_its_engine_only_witness:
  "wd_signals (snd (watchdog_once demo_os 5 (Some fatal_status) demo_watchdog)) = [(7, SIGTERM)]
   \<and> os_ticks demo_os 7 = Some 99"
proof -
  have sent: "wd_signals (snd (watchdog_once demo_os 5 (Some fatal_status) demo_watchdog)) = [(7, SIGTERM)]"
    by code_simp
  have "wd_signals (snd (watchdog_once demo_os 5 (Some fatal_status) demo_watchdog)) \<noteq> wd_signals demo_watchdog"
    by (simp add: sent) (simp add: demo_watchdog_def)
  from watchdog_signals_its_engine_only [OF prod.collapse [symmetric] this]
  show ?thesis using sent by (auto simp: fatal_status_def)
qed

text \<open>
  C20: the watchdog kills only with a reason that lasted: a verdict to kill without the engine's own
  fatal request comes after an unbroken run of unhealthy verdicts, the first of them at least the grace
  period ago. A single healthy reading in between starts the period anew.
\<close>

theorem watchdog_kills_after_grace:
  assumes "watch cs s = (vs, u)" and "wd_unhealthy_since s = None" and "vs = a @ (c, v) # b"
    and "vd_should_kill v" and "\<not> fatal_requested (cy_status c)"
  shows "\<exists>p q. a = p @ q \<and> q \<noteq> [] \<and> list_all (\<lambda>(c, v). \<not> vd_healthy v) q
    \<and> cy_now (fst (hd q)) + wc_grace_seconds_before_kill (wd_config s) \<le> cy_now c"
proof -
  have "unhealthy_run [] (wd_unhealthy_since s)"
    using assms(2) by (simp add: unhealthy_run_def)
  from watch_grace [OF this assms(1,3,4,5)] show ?thesis by simp
qed

definition silent :: "rat \<Rightarrow> cycle" where
  "silent t = \<lparr>cy_os = demo_os, cy_now = t, cy_status = None\<rparr>"

definition silence :: "(cycle \<times> verdict) list" where
  "silence = fst (watch [silent 0, silent 20, silent 40] demo_watchdog)"

lemma silence_kills:
  "map (\<lambda>(c, v). (cy_now c, cy_status c, vd_should_kill v)) silence
     = [(0, None, False), (20, None, False), (40, None, True)]"
  by code_simp

theorem watchdog_kills_after_grace_witness:
  "vd_should_kill (snd (silence ! 2)) \<and> \<not> vd_healthy (snd (silence ! 1))"
proof -
  from silence_kills obtain c1 v1 c2 v2 c3 v3
    where vs: "silence = [(c1, v1), (c2, v2), (c3, v3)]" "vd_should_kill v3" "cy_status c3 = None"
    by (auto simp: map_eq_Cons_conv)
  have "watch [silent 0, silent 20, silent 40] demo_watchdog
      = (silence, snd (watch [silent 0, silent 20, silent 40] demo_watchdog))"
    by (simp only: silence_def prod.collapse)
  from watchdog_kills_after_grace [OF this, of "[(c1, v1), (c2, v2)]" c3 v3 "[]"] vs
  obtain p q where "[(c1, v1), (c2, v2)] = p @ q" "q \<noteq> []" "list_all (\<lambda>(c, v). \<not> vd_healthy v) q"
    by (auto simp: demo_watchdog_def fatal_requested_def)
  then have "last q = (c2, v2)" "last q \<in> set q"
    by (metis last.simps last_appendR list.distinct(1), simp)
  with \<open>list_all _ q\<close> have "\<not> vd_healthy v2"
    by (auto simp: list_all_iff)
  with vs(2) show ?thesis
    unfolding vs(1) by simp
qed

text \<open>
  C19: an engine that failed closed is fenced: whatever the watchdog believed before, one reading of the
  status such an engine publishes signals exactly its process (terminate, then kill if it is still
  there; kill at once on Windows), provided the process is still the one that wrote the status.
\<close>

theorem failed_engine_is_fenced:
  assumes "closed_down c" and "pid \<noteq> 0" and "os_ticks os pid = Some ticks"
    and "watchdog_once os t (Some (published_status pid (Some ticks) beat wall (status c))) w = (r, u)"
  shows "wd_signals u = wd_signals w @ fencing_signals os pid"
proof -
  let ?p = "published_status pid (Some ticks) beat wall (status c)"
  have p: "pget ?p ''fatal_shutdown_requested'' JNull = JBool True" "pget ?p ''pid'' JNull = JInt pid"
    "pget ?p ''pid_start_ticks'' JNull = JInt ticks"
    using assms(1) by (simp_all add: published_status_def pget_dput status_def closed_down_def)
  obtain v where v: "evaluate_status t (Some ?p) w = (Inr v, w)" "vd_should_alert v" "vd_should_kill v"
    by (simp add: evaluate_status_def Let_def p ret_def)
  from watchdog_once_acts [OF v(1) refl p(2,3) assms(2,3)] v(3)
  have "wp (watchdog_once os t (Some ?p)) (\<lambda>_ t. wd_signals t = wd_signals w @ fencing_signals os pid)
      (\<lambda>_ _. False) w"
    by (auto simp: wp_def split: sum.splits prod.splits)
  with assms(4) show ?thesis by (auto simp: wp_def split: sum.splits)
qed

definition failed_engine :: "unit ctl" where
  "failed_engine = snd (fail_closed_journal ''tick'' (JStr ''disk'') demo_live)"

theorem failed_engine_is_fenced_witness:
  "wd_signals (snd (watchdog_once demo_os 5 (Some (published_status 7 (Some 99) 4 0 (status failed_engine)))
     demo_watchdog)) = [(7, SIGTERM)]"
proof -
  have "wp (fail_closed_journal ''tick'' (JStr ''disk'')) (\<lambda>_ t. closed_down t) (\<lambda>_ _. False) demo_live"
    by (rule wp_fail_closed_journal)
  then have closed: "closed_down failed_engine"
    by (auto simp: failed_engine_def wp_def split: prod.splits sum.splits)
  have "os_ticks demo_os 7 = Some 99"
    by (simp add: demo_os_def)
  from failed_engine_is_fenced [OF closed _ this prod.collapse [symmetric], of 5 4 0 demo_watchdog]
  show ?thesis by (simp add: fencing_signals_def demo_os_def demo_watchdog_def)
qed

end
