(* ===== verification/Fake_Broker.thy ===== *)
theory Fake_Broker
  imports Controller_Steps
begin

text \<open>
  \<open>fake_broker.py\<close>: the deterministic broker with fault injection the engine is tested against, as an
  instance of the broker interface. A queued closure is a \<open>pending\<close> value; delivering it is a program of
  the controller over the broker's state. The clock the broker shares with the engine is \<open>fb_now\<close>; the
  callbacks are registered.
\<close>

record faults =
  fl_send_raises_uncertain :: bool
  fl_send_raises_rejected :: bool
  fl_delay_ack :: bool
  fl_duplicate_callbacks :: bool
  fl_reorder_callbacks :: bool
  fl_partial_fill_qty :: "int option"
  fl_fill_before_cancel :: bool
  fl_no_fill :: bool
  fl_cancel_rejects :: bool
  fl_cancel_silent :: bool
  fl_emit_execution_correction :: bool
  fl_correction_price_delta :: rat
  fl_late_fee :: bool
  fl_disconnect_on_next_call :: bool
  fl_stale_snapshot :: bool
  fl_external_position :: int
  fl_external_order :: bool

definition no_faults :: faults where
  "no_faults = \<lparr>fl_send_raises_uncertain = False, fl_send_raises_rejected = False, fl_delay_ack = False,
     fl_duplicate_callbacks = False, fl_reorder_callbacks = False, fl_partial_fill_qty = None,
     fl_fill_before_cancel = False, fl_no_fill = False, fl_cancel_rejects = False,
     fl_cancel_silent = False, fl_emit_execution_correction = False,
     fl_correction_price_delta = 1/100, fl_late_fee = True, fl_disconnect_on_next_call = False,
     fl_stale_snapshot = False, fl_external_position = 0, fl_external_order = False\<rparr>"

datatype pending =
    P_disconnected string
  | P_ack string int
  | P_working string
  | P_fill string int
  | P_fee string
  | P_correct execution
  | P_cancel_rejected string string
  | P_cancelled string

record fake_broker =
  fb_faults :: faults
  fb_symbol :: string
  fb_orders :: "(string \<times> broker_order) list"
  fb_positions :: "(string \<times> int) list"
  fb_executions :: "execution list"
  fb_emitted_fills :: "((string \<times> int) \<times> execution) list"
  fb_queue :: "(pending \<times> string) list"
  fb_order_id :: int
  fb_perm_id :: int
  fb_exec_seq :: int
  fb_epoch :: int
  fb_connected :: bool
  fb_connection_epoch :: int
  fb_now :: time
  fb_place_calls :: "order_intent list"
  fb_cancel_calls :: "string list"

definition fake_broker :: "time \<Rightarrow> faults \<Rightarrow> string \<Rightarrow> fake_broker" where
  "fake_broker t fl symb = \<lparr>fb_faults = fl, fb_symbol = symb, fb_orders = [],
     fb_positions = (if fl_external_position fl \<noteq> 0 then [(symb, fl_external_position fl)] else []),
     fb_executions = [], fb_emitted_fills = [], fb_queue = [], fb_order_id = 1000, fb_perm_id = 900000,
     fb_exec_seq = 1, fb_epoch = 2, fb_connected = True, fb_connection_epoch = 1, fb_now = t,
     fb_place_calls = [], fb_cancel_calls = []\<rparr>"

section \<open>Order entry\<close>

definition enqueue :: "pending \<Rightarrow> string \<Rightarrow> (fake_broker, unit) prog" where
  "enqueue p label = modP (\<lambda>b. b\<lparr>fb_queue := fb_queue b @ (p, label)
     # (if fl_duplicate_callbacks (fb_faults b) then [(p, label @ ''#dup'')] else [])\<rparr>)"

definition create_order :: "order_intent \<Rightarrow> (fake_broker, int) prog" where
  "create_order i = reads fb_order_id (\<lambda>oid. reads fb_perm_id (\<lambda>pid. seqP
     (modP (\<lambda>b. b\<lparr>fb_order_id := oid + 1, fb_perm_id := pid + 1,
        fb_orders := dput (oi_order_ref i) \<lparr>bo_order_ref = oi_order_ref i, bo_perm_id = Some pid,
          bo_broker_order_id = Some oid, bo_symbol = oi_symbol i, bo_side = oi_side i,
          bo_total_quantity = oi_quantity i, bo_filled_quantity = 0, bo_status = ''PreSubmitted''\<rparr>
          (fb_orders b)\<rparr>))
     (ret oid)))"

definition schedule_fill :: "order_intent \<Rightarrow> (fake_broker, unit) prog" where
  "schedule_fill i = reads (\<lambda>b. fl_partial_fill_qty (fb_faults b)) (\<lambda>partial.
     (let qty = (case partial of Some q \<Rightarrow> if q = 0 then oi_quantity i else q | None \<Rightarrow> oi_quantity i)
      in enqueue (P_fill (oi_order_ref i) (min qty (oi_quantity i))) (''fill:'' @ oi_order_ref i)))"

definition fake_place_order :: "order_intent \<Rightarrow> (fake_broker, int) prog" where
  "fake_place_order i =
     seqP (modP (\<lambda>b. b\<lparr>fb_place_calls := fb_place_calls b @ [i]\<rparr>))
     (reads (\<lambda>b. b) (\<lambda>b. let fl = fb_faults b; ref = oi_order_ref i in
        if fl_disconnect_on_next_call fl
        then seqP (block
          [modP (\<lambda>b. b\<lparr>fb_faults := (fb_faults b)\<lparr>fl_disconnect_on_next_call := False\<rparr>, fb_connected := False\<rparr>),
           enqueue (P_disconnected ''injected'') ''disc''])
          (raise (BrokerSendUncertain (JStr ''connection dropped during send'')))
        else if fl_send_raises_uncertain fl
        then bindP (create_order i) (\<lambda>_. raise (BrokerSendUncertain (JStr ''timeout with unknown delivery'')))
        else if fl_send_raises_rejected fl then raise (BrokerRejected (JStr ''injected clean rejection''))
        else if \<not> fb_connected b then raise (BrokerSendUncertain (JStr ''not connected''))
        else bindP (create_order i) (\<lambda>oid. seqP
          (whenP (\<not> fl_delay_ack fl) (block
            [enqueue (P_ack ref oid) (''ack:'' @ ref), enqueue (P_working ref) (''working:'' @ ref),
             whenP (\<not> fl_no_fill fl) (schedule_fill i)]))
          (ret oid))))"

section \<open>Fills and corrections\<close>

definition order_status :: "broker_order \<Rightarrow> int \<Rightarrow> string" where
  "order_status ob qty =
     (if bo_status ob = ''Cancelled'' \<or> bo_status ob = ''Rejected'' then bo_status ob
      else if bo_filled_quantity ob + qty \<ge> bo_total_quantity ob then ''Filled'' else ''Submitted'')"

text \<open>
  The broker's side of \<open>_fill\<close>: the execution to deliver, and whether it is new. \<open>FILL_PRICE\<close> is the
  default of its \<open>price\<close> argument, which no caller gives.
\<close>

definition FILL_PRICE :: rat where
  "FILL_PRICE = 600"

definition book_fill :: "string \<Rightarrow> int \<Rightarrow> (fake_broker, (execution \<times> bool) option) prog" where
  "book_fill ref qty = reads (\<lambda>b. b) (\<lambda>b.
     case dget (fb_emitted_fills b) (ref, qty) of
       Some prior \<Rightarrow> ret (Some (prior, False))
     | None \<Rightarrow> (case dget (fb_orders b) ref of
         None \<Rightarrow> ret None
       | Some ob \<Rightarrow>
           if qty \<le> 0 then ret None
           else (let ex = \<lparr>ex_exec_id = ''E'' @ pad 8 (fb_exec_seq b) @ ''.01'', ex_order_ref = ref,
                    ex_perm_id = bo_perm_id ob, ex_symbol = bo_symbol ob, ex_side = bo_side ob,
                    ex_quantity = qty, ex_price = FILL_PRICE, ex_ts = fb_now b, ex_is_reversal = False,
                    ex_corrects_exec_id = None\<rparr>;
                    signed = (if bo_side ob = BUY then qty else - qty)
                 in seqP (modP (\<lambda>b. b\<lparr>fb_exec_seq := fb_exec_seq b + 1,
                      fb_executions := fb_executions b @ [ex],
                      fb_emitted_fills := dput (ref, qty) ex (fb_emitted_fills b),
                      fb_positions := dput (bo_symbol ob) (dget_or (fb_positions b) (bo_symbol ob) 0 + signed)
                        (fb_positions b),
                      fb_orders := dput ref (ob\<lparr>bo_filled_quantity := bo_filled_quantity ob + qty,
                        bo_status := order_status ob qty\<rparr>) (fb_orders b)\<rparr>))
                    (ret (Some (ex, True))))))"

text \<open>\<open>rsplit(".", 1)[0]\<close>.\<close>

definition before_last_dot :: "string \<Rightarrow> string" where
  "before_last_dot s =
     (if CHR ''.'' \<in> set s then rev (tl (dropWhile (\<lambda>ch. ch \<noteq> CHR ''.'') (rev s))) else s)"

definition correction_of :: "execution \<Rightarrow> fake_broker \<Rightarrow> execution \<times> execution" where
  "correction_of ex b =
     (let base = before_last_dot (ex_exec_id ex)
      in (ex\<lparr>ex_exec_id := base @ ''.02'', ex_ts := fb_now b, ex_is_reversal := True,
             ex_corrects_exec_id := Some (ex_exec_id ex)\<rparr>,
          ex\<lparr>ex_exec_id := base @ ''.03'', ex_price := ex_price ex + fl_correction_price_delta (fb_faults b),
             ex_ts := fb_now b, ex_is_reversal := False, ex_corrects_exec_id := Some (ex_exec_id ex)\<rparr>))"

definition book_correction :: "execution \<Rightarrow> (fake_broker, execution \<times> execution) prog" where
  "book_correction ex = reads (correction_of ex) (\<lambda>(rv, nw).
     seqP (modP (\<lambda>b. b\<lparr>fb_executions := fb_executions b @ [rv, nw]\<rparr>)) (ret (rv, nw)))"

section \<open>Cancels and snapshots\<close>

definition fake_cancel_order :: "string \<Rightarrow> (fake_broker, unit) prog" where
  "fake_cancel_order ref =
     seqP (modP (\<lambda>b. b\<lparr>fb_cancel_calls := fb_cancel_calls b @ [ref]\<rparr>))
     (reads (\<lambda>b. b) (\<lambda>b. let fl = fb_faults b; found = dget (fb_orders b) ref in
        if fl_cancel_silent fl then ret ()
        else seqP (whenP (fl_fill_before_cancel fl)
              (modP (\<lambda>b. b\<lparr>fb_faults := (fb_faults b)\<lparr>fl_fill_before_cancel := False\<rparr>\<rparr>)))
          (case (if fl_fill_before_cancel fl then found else None) of
             Some ob \<Rightarrow> block
               [enqueue (P_fill ref (bo_remaining ob)) ''fill-before-cancel'',
                enqueue (P_cancel_rejected ref ''already filled'') ''cancel-rej'']
           | None \<Rightarrow>
               if fl_cancel_rejects fl then enqueue (P_cancel_rejected ref ''injected'') ''cancel-rej''
               else seqP
                 (case found of None \<Rightarrow> ret ()
                  | Some ob \<Rightarrow> modP (\<lambda>b. b\<lparr>fb_orders := dput ref (ob\<lparr>bo_status := ''Cancelled''\<rparr>) (fb_orders b)\<rparr>))
                 (enqueue (P_cancelled ref) ''cancelled''))))"

definition external_order :: "fake_broker \<Rightarrow> broker_order" where
  "external_order b = \<lparr>bo_order_ref = ''MANUAL-TWS'', bo_perm_id = Some 999999, bo_broker_order_id = Some 42,
     bo_symbol = fb_symbol b, bo_side = BUY, bo_total_quantity = 50, bo_filled_quantity = 0,
     bo_status = ''Submitted''\<rparr>"

definition is_fee_label :: "string \<Rightarrow> bool" where
  "is_fee_label l \<longleftrightarrow> take 4 l = ''fee:''"

definition taken_snapshot :: "fake_broker \<Rightarrow> broker_snapshot" where
  "taken_snapshot b =
     (let execs = fb_executions b; stale = fl_stale_snapshot (fb_faults b) \<and> execs \<noteq> []
      in \<lparr>bs_positions = (if stale then dput (ex_symbol (last execs))
             (dget_or (fb_positions b) (ex_symbol (last execs)) 0 - ex_signed_quantity (last execs))
             (fb_positions b) else fb_positions b),
          bs_open_orders = filter (\<lambda>ob. bo_status ob = ''PreSubmitted'' \<or> bo_status ob = ''Submitted'')
              (map snd (fb_orders b))
            @ (if fl_external_order (fb_faults b) then [external_order b] else []),
          bs_executions = (if stale then butlast execs else execs),
          bs_server_time = fb_now b,
          bs_is_stable = list_all (\<lambda>(p, l). is_fee_label l) (fb_queue b),
          bs_account = []\<rparr>)"

definition fake_snapshot :: "(fake_broker, broker_snapshot) prog" where
  "fake_snapshot = reads (\<lambda>b. b) (\<lambda>b.
     if \<not> fb_connected b then raise (BrokerSendUncertain (JStr ''cannot snapshot while disconnected''))
     else ret (taken_snapshot b))"

definition fake_ops :: "fake_broker broker" where
  "fake_ops = \<lparr>br_place_order = fake_place_order, br_cancel_order = fake_cancel_order,
     br_snapshot = fake_snapshot\<rparr>"

section \<open>Delivery\<close>

definition fee_amount :: rat where
  "fee_amount = 35/100"

text \<open>\<open>_fill\<close>: book, call back, then the fee and the correction.\<close>

definition deliver_fill :: "string \<Rightarrow> int \<Rightarrow> (fake_broker ctl, unit) prog" where
  "deliver_fill ref qty = bindP (in_broker (book_fill ref qty)) (\<lambda>r. case r of
     None \<Rightarrow> ret ()
   | Some (ex, new) \<Rightarrow>
       if \<not> new then on_execution ex
       else seqP (on_execution ex) (reads (\<lambda>s. fb_faults (ct_broker s)) (\<lambda>fl.
         seqP (if fl_late_fee fl then in_broker (enqueue (P_fee (ex_exec_id ex)) (''fee:'' @ ex_exec_id ex))
               else on_fee (ex_exec_id ex) fee_amount ''USD'')
         (reads (\<lambda>s. fb_faults (ct_broker s)) (\<lambda>fl. whenP (fl_emit_execution_correction fl)
           (in_broker (block
             [modP (\<lambda>b. b\<lparr>fb_faults := (fb_faults b)\<lparr>fl_emit_execution_correction := False\<rparr>\<rparr>),
              enqueue (P_correct ex) (''corr:'' @ ex_exec_id ex)])))))))"

definition order_perm :: "string \<Rightarrow> fake_broker ctl \<Rightarrow> exn + int option" where
  "order_perm ref s = (case dget (fb_orders (ct_broker s)) ref of
     None \<Rightarrow> Inl (KeyErr (JStr ref)) | Some ob \<Rightarrow> Inr (bo_perm_id ob))"

fun deliver :: "pending \<Rightarrow> (fake_broker ctl, unit) prog" where
  "deliver (P_disconnected why) = on_disconnected why"
| "deliver (P_ack ref oid) = reads (order_perm ref) (\<lambda>r. bindP (liftE r) (\<lambda>perm. on_ack ref oid perm))"
| "deliver (P_working ref) = reads (order_perm ref) (\<lambda>r. bindP (liftE r) (\<lambda>perm. on_working ref perm))"
| "deliver (P_fill ref qty) = deliver_fill ref qty"
| "deliver (P_fee xid) = on_fee xid fee_amount ''USD''"
| "deliver (P_correct ex) = bindP (in_broker (book_correction ex)) (\<lambda>(rv, nw).
     seqP (on_execution rv) (on_execution nw))"
| "deliver (P_cancel_rejected ref why) = on_cancel_rejected ref why"
| "deliver (P_cancelled ref) = on_cancelled ref"

text \<open>
  \<open>pump\<close>: batch after batch until the queue is empty or the limit is reached. Every round delivers at
  least one callback, so as many rounds as the limit are enough (\<open>pump_rounds_enough\<close>).
\<close>

definition take_batch :: "(fake_broker, pending list) prog" where
  "take_batch = reads (\<lambda>b. b) (\<lambda>b. seqP (modP (\<lambda>b. b\<lparr>fb_queue := []\<rparr>))
     (ret (map fst (if fl_reorder_callbacks (fb_faults b) then rev (fb_queue b) else fb_queue b))))"

fun pump_rounds :: "nat \<Rightarrow> int \<Rightarrow> int \<Rightarrow> (fake_broker ctl, int) prog" where
  "pump_rounds 0 limit n = ret n"
| "pump_rounds (Suc fuel) limit n = reads (\<lambda>s. fb_queue (ct_broker s)) (\<lambda>queue.
     if queue = [] \<or> n \<ge> limit then ret n
     else bindP (in_broker take_batch) (\<lambda>batch.
       seqP (forP batch deliver) (pump_rounds fuel limit (n + int (length batch)))))"

definition pump :: "int \<Rightarrow> (fake_broker ctl, int) prog" where
  "pump limit = pump_rounds (nat limit) limit 0"

definition fake_disconnect :: "string \<Rightarrow> (fake_broker ctl, unit) prog" where
  "fake_disconnect why = seqP (in_broker (modP (\<lambda>b. b\<lparr>fb_connected := False\<rparr>))) (on_disconnected why)"

definition fake_reconnect :: "bool \<Rightarrow> (fake_broker ctl, unit) prog" where
  "fake_reconnect market_data_lost =
     seqP (in_broker (modP (\<lambda>b. b\<lparr>fb_connected := True, fb_connection_epoch := fb_epoch b,
                                 fb_epoch := fb_epoch b + 1\<rparr>)))
     (reads (\<lambda>s. fb_connection_epoch (ct_broker s)) (\<lambda>epoch.
        seqP (on_connected epoch) (whenP market_data_lost on_market_data_lost)))"

definition deliver_ack_now :: "string \<Rightarrow> (fake_broker ctl, unit) prog" where
  "deliver_ack_now ref = reads (\<lambda>s. dget (fb_orders (ct_broker s)) ref) (\<lambda>found. case found of
     None \<Rightarrow> raise (KeyErr (JStr ref))
   | Some ob \<Rightarrow> seqP (on_ack ref (case bo_broker_order_id ob of Some n \<Rightarrow> n | None \<Rightarrow> 0) (bo_perm_id ob))
                   (on_working ref (bo_perm_id ob)))"

section \<open>The pump is total\<close>

lemma pump_rounds_done:
  "limit \<le> n \<Longrightarrow> pump_rounds fuel limit n = ret n"
  by (cases fuel) (auto simp: reads_def)

lemma pump_rounds_enough:
  "nat (limit - n) \<le> fuel \<Longrightarrow> pump_rounds (fuel + k) limit n = pump_rounds fuel limit n"
proof (induction fuel arbitrary: n)
  case 0
  then show ?case by (simp add: pump_rounds_done)
next
  case (Suc fuel)
  have "bindP (in_broker take_batch) (\<lambda>batch. seqP (forP batch deliver) (pump_rounds (fuel + k) limit (n + int (length batch)))) s
      = bindP (in_broker take_batch) (\<lambda>batch. seqP (forP batch deliver) (pump_rounds fuel limit (n + int (length batch)))) s"
    if "fb_queue (ct_broker s) \<noteq> []" for s
  proof -
    have "\<exists>batch t. in_broker take_batch s = (Inr batch, t) \<and> batch \<noteq> []"
      using that by (auto simp: in_broker_def zoom_def take_batch_def reads_def seqP_def bindP_def modP_def ret_def)
    then obtain batch t where b: "in_broker take_batch s = (Inr batch, t)" "0 < length batch" by auto
    then have "pump_rounds (fuel + k) limit (n + int (length batch)) = pump_rounds fuel limit (n + int (length batch))"
      by (intro Suc.IH) (use Suc.prems in linarith)
    with b show ?thesis by (simp add: bindP_def)
  qed
  then show ?case by (auto simp: reads_def fun_eq_iff)
qed

section \<open>Whatever the controller keeps, it keeps under this broker\<close>

lemma keeps_deliver_fill:
  assumes drive: "ctl_drive I"
  shows "keeps I (deliver_fill ref qty)"
proof -
  note trading = ctl_drive.axioms(1) [OF drive]
  note base = ctl_trading.axioms(1) [OF trading]
  note quiet = ctl_base.axioms(1) [OF base]
  show ?thesis
    unfolding deliver_fill_def
    by (intro keeps_bindP keeps_case_option keeps_case_prod keeps_ret keeps_if keeps_seqP keeps_reads keeps_whenP
        ctl_quiet.keeps_in_broker [OF quiet] ctl_trading.keeps_on_execution [OF trading]
        ctl_trading.keeps_on_fee [OF trading])
qed

lemma keeps_deliver:
  assumes drive: "ctl_drive I"
  shows "keeps I (deliver p)"
proof -
  note trading = ctl_drive.axioms(1) [OF drive]
  note base = ctl_trading.axioms(1) [OF trading]
  note quiet = ctl_base.axioms(1) [OF base]
  show ?thesis
    by (cases p) (auto intro!: keeps_bindP keeps_case_prod keeps_ret keeps_seqP keeps_reads keeps_liftE
        keeps_deliver_fill [OF drive] ctl_quiet.keeps_in_broker [OF quiet]
        ctl_trading.keeps_on_execution [OF trading] ctl_trading.keeps_on_fee [OF trading]
        ctl_trading.keeps_on_ack [OF trading] ctl_trading.keeps_on_working [OF trading]
        ctl_trading.keeps_on_disconnected [OF trading] ctl_drive.keeps_on_cancelled [OF drive]
        ctl_drive.keeps_on_cancel_rejected [OF drive])
qed

lemma keeps_pump_rounds:
  assumes drive: "ctl_drive I"
  shows "keeps I (pump_rounds fuel limit n)"
proof (induction fuel arbitrary: n)
  case 0
  then show ?case by (simp add: keeps_ret)
next
  case (Suc fuel)
  note quiet = ctl_base.axioms(1) [OF ctl_trading.axioms(1) [OF ctl_drive.axioms(1) [OF drive]]]
  show ?case
    unfolding pump_rounds.simps
    by (intro keeps_reads keeps_if keeps_ret keeps_bindP keeps_seqP keeps_forP keeps_deliver [OF drive]
        ctl_quiet.keeps_in_broker [OF quiet] Suc.IH)
qed

text \<open>A session of the engine against this broker: methods, deliveries, lost and restored connections.\<close>

datatype session_step = Method "fake_broker action" | Pump int | Drop string | Reconnect bool

fun session_prog :: "session_step \<Rightarrow> (fake_broker ctl, unit) prog" where
  "session_prog (Method a) = method_of a"
| "session_prog (Pump limit) = unit_of (pump limit)"
| "session_prog (Drop why) = fake_disconnect why"
| "session_prog (Reconnect lost_data) = fake_reconnect lost_data"

definition session :: "session_step list \<Rightarrow> fake_broker ctl \<Rightarrow> fake_broker ctl" where
  "session steps s = fold (\<lambda>x s. snd (session_prog x s)) steps s"

lemma keeps_session_prog:
  assumes drive: "ctl_drive I"
  shows "keeps I (session_prog x)"
proof -
  note trading = ctl_drive.axioms(1) [OF drive]
  note quiet = ctl_base.axioms(1) [OF ctl_trading.axioms(1) [OF trading]]
  show ?thesis
    by (cases x) (auto simp: pump_def fake_disconnect_def fake_reconnect_def
        intro!: ctl_drive.keeps_method [OF drive] ctl_drive.keeps_unit_of [OF drive] keeps_pump_rounds [OF drive]
          keeps_seqP keeps_reads keeps_whenP ctl_quiet.keeps_in_broker [OF quiet]
          ctl_trading.keeps_on_disconnected [OF trading] ctl_drive.keeps_on_connected [OF drive]
          ctl_trading.keeps_on_market_data(1) [OF trading])
qed

lemma session_keeps: "ctl_drive I \<Longrightarrow> I s \<Longrightarrow> I (session steps s)"
  unfolding session_def
  by (induction steps arbitrary: s) (auto intro: keeps_final [OF keeps_session_prog])

section \<open>The broker's books\<close>

definition net_executed :: "string \<Rightarrow> execution list \<Rightarrow> int" where
  "net_executed symb exs = sum_list (map ex_signed_quantity (filter (\<lambda>ex. ex_symbol ex = symb) exs))"

definition balanced :: "(string \<Rightarrow> int) \<Rightarrow> (string \<times> int) list \<Rightarrow> execution list \<Rightarrow> bool" where
  "balanced base pos exs \<longleftrightarrow> (\<forall>symb. dget_or pos symb 0 = base symb + net_executed symb exs)"

definition books :: "(string \<Rightarrow> int) \<Rightarrow> fake_broker \<Rightarrow> bool" where
  "books base b \<longleftrightarrow> balanced base (fb_positions b) (fb_executions b)"

lemma net_executed_append: "net_executed symb (xs @ ys) = net_executed symb xs + net_executed symb ys"
  by (simp add: net_executed_def)

lemma books_apart:
  assumes "\<And>b. fb_positions (f b) = fb_positions b" and "\<And>b. fb_executions (f b) = fb_executions b"
  shows "keeps (books base) (modP f)"
  by (rule keeps_modP) (simp add: books_def assms)

lemma keeps_enqueue: "keeps (books base) (enqueue p l)"
  unfolding enqueue_def by (rule books_apart) simp_all

lemma keeps_create_order: "keeps (books base) (create_order i)"
  unfolding create_order_def by (intro keeps_reads keeps_seqP keeps_ret books_apart) simp_all

lemma keeps_fake_place_order: "keeps (books base) (fake_place_order i)"
  unfolding fake_place_order_def schedule_fill_def Let_def
  by (intro keeps_reads keeps_seqP keeps_if keeps_bindP keeps_whenP keeps_block_Cons keeps_block_Nil keeps_ret
      keeps_raise keeps_enqueue keeps_create_order books_apart) simp_all

lemma keeps_fake_cancel_order: "keeps (books base) (fake_cancel_order ref)"
  unfolding fake_cancel_order_def Let_def
  by (intro keeps_reads keeps_seqP keeps_if keeps_whenP keeps_block_Cons keeps_block_Nil keeps_ret
      keeps_case_option keeps_enqueue books_apart) simp_all

lemma keeps_take_batch: "keeps (books base) take_batch"
  unfolding take_batch_def by (intro keeps_reads keeps_seqP keeps_ret books_apart) simp_all

lemma keeps_book_fill: "keeps (books base) (book_fill ref qty)"
proof (rule keepsI)
  fix b assume "books base b"
  then show "wp (book_fill ref qty) (\<lambda>_. books base) (\<lambda>_. books base) b"
    by (auto simp: book_fill_def Let_def wp_reads wp_seqP wp_modP wp_ret wp_ret_fun books_def balanced_def
        net_executed_append net_executed_def ex_signed_quantity_def split: option.splits)
qed

lemma keeps_book_correction: "keeps (books base) (book_correction ex)"
proof (rule keepsI)
  fix b assume "books base b"
  then show "wp (book_correction ex) (\<lambda>_. books base) (\<lambda>_. books base) b"
    by (auto simp: book_correction_def correction_of_def Let_def wp_reads wp_seqP wp_modP wp_ret wp_ret_fun
        books_def balanced_def net_executed_append net_executed_def ex_signed_quantity_def)
qed

text \<open>Every state the broker reaches by its own operations, in any order.\<close>

inductive fb_reachable :: "fake_broker \<Rightarrow> fake_broker \<Rightarrow> bool" for b0 where
  start: "fb_reachable b0 b0"
| place: "fb_reachable b0 b \<Longrightarrow> fb_reachable b0 (snd (fake_place_order i b))"
| cancel: "fb_reachable b0 b \<Longrightarrow> fb_reachable b0 (snd (fake_cancel_order ref b))"
| fill: "fb_reachable b0 b \<Longrightarrow> fb_reachable b0 (snd (book_fill ref qty b))"
| correct: "fb_reachable b0 b \<Longrightarrow> fb_reachable b0 (snd (book_correction ex b))"
| batch: "fb_reachable b0 b \<Longrightarrow> fb_reachable b0 (snd (take_batch b))"
| queued: "fb_reachable b0 b \<Longrightarrow> fb_reachable b0 (snd (enqueue p l b))"
| link: "fb_reachable b0 b \<Longrightarrow> fb_reachable b0 (b\<lparr>fb_connected := c, fb_connection_epoch := n, fb_epoch := m\<rparr>)"
| time: "fb_reachable b0 b \<Longrightarrow> fb_reachable b0 (b\<lparr>fb_now := t\<rparr>)"
| faulty: "fb_reachable b0 b \<Longrightarrow> fb_reachable b0 (b\<lparr>fb_faults := fl\<rparr>)"

lemma books_fields:
  "books base (b\<lparr>fb_connected := c, fb_connection_epoch := n, fb_epoch := m\<rparr>) = books base b"
  "books base (b\<lparr>fb_now := t\<rparr>) = books base b" "books base (b\<lparr>fb_faults := fl\<rparr>) = books base b"
  by (simp_all add: books_def)

lemma fb_reachable_books: "fb_reachable b0 b \<Longrightarrow> books base b0 \<Longrightarrow> books base b"
  by (induction rule: fb_reachable.induct)
     (auto intro: keeps_final [OF keeps_fake_place_order] keeps_final [OF keeps_fake_cancel_order]
       keeps_final [OF keeps_book_fill] keeps_final [OF keeps_book_correction] keeps_final [OF keeps_take_batch]
       keeps_final [OF keeps_enqueue] simp: books_fields)

lemma snapshot_balanced:
  assumes "books base b" and "fake_snapshot b = (Inr snap, b')"
  shows "balanced base (bs_positions snap) (bs_executions snap)"
proof (cases "fb_executions b" rule: rev_cases)
  case Nil
  with assms show ?thesis
    by (auto simp: fake_snapshot_def reads_def ret_def raise_def taken_snapshot_def Let_def books_def split: if_splits)
next
  case (snoc exs ex)
  with assms show ?thesis
    by (auto simp: fake_snapshot_def reads_def ret_def raise_def taken_snapshot_def Let_def balanced_def books_def
        net_executed_def split: if_splits) (metis (no_types, lifting))+
qed

end
