(* ===== verification/Sessions.thy ===== *)
theory Sessions
  imports Fake_Broker Controller_Limits Demo
begin

text \<open>
  The broker of \<open>fake_broker.py\<close>, its books, and the engine with this broker behind it: a closed system, in which
  the callbacks come from the broker's own queue, faults included.
\<close>

text \<open>
  In a session against the fault-injecting broker, whatever its faults (lost connections, unknown
  deliveries, duplicated and reordered callbacks, fills against cancels, stale snapshots) and in whatever
  order methods and deliveries come, every broker write is authorised, every order is within the limits,
  no intent is placed twice, and the journal stays well formed.
\<close>

theorem session_is_safe:
  fixes s :: "fake_broker ctl"
  assumes "journal_wf (ct_journal s)" and "inj (ct_uuid s)" and "ct_wire s = []"
  shows "list_all (entry_ok (ct_sha s)) (ct_wire (session steps s))
    \<and> list_all placed_within (ct_wire (session steps s))
    \<and> distinct (placed_ids (ct_wire (session steps s)))
    \<and> journal_wf (ct_journal (session steps s))"
proof -
  have "wire_inv (ct_sha s) (session steps s)"
    by (rule session_keeps [OF wire_modes.ctl_drive_axioms])
       (use assms in \<open>simp add: wire_inv_def journal_wf_def\<close>)
  moreover have "limits_inv (session steps s)"
    by (rule session_keeps [OF limits_process.ctl_drive_axioms]) (use assms in \<open>simp add: limits_inv_def\<close>)
  moreover have "once_inv (ct_uuid s) (session steps s)"
    by (rule session_keeps [OF once_process.ctl_drive_axioms])
       (use assms in \<open>simp add: once_inv_def ids_once_def placed_ids_def List.map_filter_def\<close>)
  moreover have "rows_wf (session steps s)"
    by (rule session_keeps [OF rows_modes.ctl_drive_axioms]) (use assms in \<open>simp add: rows_wf_def\<close>)
  ultimately show ?thesis
    by (simp add: wire_inv_def limits_inv_def once_inv_def ids_once_def rows_wf_def list_all_iff)
qed

definition fake_live :: "fake_broker ctl" where
  "fake_live = \<lparr>ct_journal = open_journal ''j1'' [] empty_db,
     ct_broker = fake_broker demo_time (no_faults\<lparr>fl_duplicate_callbacks := True\<rparr>) ''SPY'', ct_ops = fake_ops,
     ct_risk = risk_engine (\<lambda>_. ''h'') demo_config, ct_clock = manual_clock demo_time,
     ct_calendar = demo_calendar, ct_policy = default_policy, ct_alerts = [],
     ct_fence = Some demo_fence, ct_fence_write_failed = None, ct_witness = Some demo_witness,
     ct_link = CONNECTED, ct_sync = SYNCED, ct_mode = NORMAL, ct_legs = [], ct_quotes = [(''SPY'', demo_quote)],
     ct_connection_epoch = 1, ct_booked_execs = [], ct_fees_pending = [], ct_violations = [],
     ct_journal_failure = None, ct_fatal_shutdown_requested = False,
     ct_eod_residual_recorded = [], ct_journal_restored = True, ct_restored_positions = [],
     ct_sha = (\<lambda>_. ''h''), ct_uuid = (\<lambda>n. replicate n CHR ''x''), ct_uuid_used = 0,
     ct_proc = \<lparr>pe_now = demo_time, pe_pid = 7, pe_host = ''host''\<rparr>, ct_running = True,
     ct_wire = []\<rparr>"

lemma fake_uuid: "ct_uuid fake_live = (\<lambda>n. replicate n CHR ''x'')"
  by (simp add: fake_live_def)

lemma session_trades: "length (ct_wire (session [Method (Submit demo_target)] fake_live)) = 1"
  by code_simp

theorem session_is_safe_witness:
  "list_all (entry_ok (ct_sha fake_live)) (ct_wire (session [Method (Submit demo_target)] fake_live))
   \<and> length (ct_wire (session [Method (Submit demo_target)] fake_live)) = 1
   \<and> distinct (placed_ids (ct_wire (session [Method (Submit demo_target), Pump 10, Drop ''x'', Reconnect True] fake_live)))"
proof -
  have start: "journal_wf (ct_journal fake_live)" "ct_wire fake_live = []"
    by (simp_all add: fake_live_def journal_wf_open journal_wf_empty)
  have inj: "inj (ct_uuid fake_live)"
    by (rule injI) (metis fake_uuid length_replicate)
  show ?thesis
    using session_is_safe [OF start(1) inj start(2)] session_trades by blast
qed




end
