(* ===== verification/Market_Liveness.thy ===== *)
theory Market_Liveness
  imports Program Clock Ascii_Text
begin

text \<open>
  \<open>market_liveness.py\<close>: whether a silent feed is dead or quiet, from the cadence of the five-second bars
  and the broker's status codes; and the tracker that turns assessments into incidents. Times are
  monotonic seconds; every operation takes the time it would read. A number that is not a number is
  \<open>None\<close>.
\<close>

section \<open>Vocabulary\<close>

definition BAR_PERIOD_SECONDS :: rat where "BAR_PERIOD_SECONDS = 5"

definition HEARTBEAT_STREAM :: string where "HEARTBEAT_STREAM = ''BAR_5S''"

definition DEFAULT_BAR_TIMEOUT_SECONDS :: rat where "DEFAULT_BAR_TIMEOUT_SECONDS = 12"

definition MIN_BAR_TIMEOUT_SECONDS :: rat where "MIN_BAR_TIMEOUT_SECONDS = 2 * BAR_PERIOD_SECONDS"

definition DEFAULT_ADVISORY_THRESHOLDS :: "(string \<times> rat) list" where
  "DEFAULT_ADVISORY_THRESHOLDS = [(''BID_ASK'', 30), (''ALL_LAST'', 30)]"

definition CONNECTIVITY_LOST :: int where "CONNECTIVITY_LOST = 1100"

definition CONNECTIVITY_RESTORED_DATA_LOST :: int where "CONNECTIVITY_RESTORED_DATA_LOST = 1101"

definition CONNECTIVITY_RESTORED_DATA_KEPT :: int where "CONNECTIVITY_RESTORED_DATA_KEPT = 1102"

definition REALTIME_BARS_RESET :: int where "REALTIME_BARS_RESET = 10225"

definition REALTIME_FARM_BROKEN :: int where "REALTIME_FARM_BROKEN = 2103"

definition REALTIME_FARM_OK :: int where "REALTIME_FARM_OK = 2104"

definition HISTORICAL_FARM_CODES :: "int list" where "HISTORICAL_FARM_CODES = [2105, 2106]"

definition SECDEF_FARM_CODES :: "int list" where "SECDEF_FARM_CODES = [2157, 2158]"

definition FARM_INACTIVE_CODE :: int where "FARM_INACTIVE_CODE = 2108"

text \<open>
  The text after the last colon, when it is a farm name; leading and trailing space does not count.
\<close>

definition farm_char :: "char \<Rightarrow> bool" where
  "farm_char ch = (let n = of_char ch :: nat
     in (48 \<le> n \<and> n \<le> 57) \<or> (65 \<le> n \<and> n \<le> 90) \<or> (97 \<le> n \<and> n \<le> 122) \<or> n = 95 \<or> n = 46 \<or> n = 45)"

definition realtime_farm_identity :: "string \<Rightarrow> string" where
  "realtime_farm_identity message =
     (let m = strip message; tail = rev (takeWhile (\<lambda>ch. ch \<noteq> CHR '':'') (rev m))
      in if CHR '':'' \<in> set m \<and> tail \<noteq> [] \<and> list_all farm_char tail
         then map lower_char tail else ''__unspecified__'')"

datatype liveness_action = CONTINUE | WAIT | RECOVER_SUBSCRIPTION

fun action_value :: "liveness_action \<Rightarrow> string" where
  "action_value CONTINUE = ''continue''"
| "action_value WAIT = ''wait''"
| "action_value RECOVER_SUBSCRIPTION = ''recover_subscription''"

datatype incident_kind = FEED_OUTAGE | EXPECTED_SILENCE | GAP_SUSPECTED

fun kind_value :: "incident_kind \<Rightarrow> string" where
  "kind_value FEED_OUTAGE = ''FEED_OUTAGE''"
| "kind_value EXPECTED_SILENCE = ''EXPECTED_SILENCE''"
| "kind_value GAP_SUSPECTED = ''GAP_SUSPECTED''"

datatype recovery_hint = BARS_ONLY | ALL_MARKET_STREAMS

fun hint_value :: "recovery_hint \<Rightarrow> string" where
  "hint_value BARS_ONLY = ''bars_only''"
| "hint_value ALL_MARKET_STREAMS = ''all_market_streams''"

record liveness_state =
  ls_action :: liveness_action
  ls_reason :: jval
  ls_heartbeat_age :: "rat option"
  ls_heartbeat_lost :: bool
  ls_expected_silence :: "string option"
  ls_advisory_ages :: "(string \<times> rat) list"
  ls_incident_kind :: "incident_kind option"
  ls_heartbeat_last_mono :: "rat option"
  ls_recovery_hint :: "recovery_hint option"

definition mk_state :: "liveness_action \<Rightarrow> jval \<Rightarrow> liveness_state" where
  "mk_state a r = \<lparr>ls_action = a, ls_reason = r, ls_heartbeat_age = None, ls_heartbeat_lost = False,
     ls_expected_silence = None, ls_advisory_ages = [], ls_incident_kind = None,
     ls_heartbeat_last_mono = None, ls_recovery_hint = None\<rparr>"

definition optional :: "'a option \<Rightarrow> ('a \<Rightarrow> jval list) \<Rightarrow> jval list" where
  "optional x f = (case x of None \<Rightarrow> [] | Some a \<Rightarrow> [JFmt (f a)])"

definition seconds_text :: "string \<Rightarrow> rat \<Rightarrow> jval list" where
  "seconds_text name t = [JStr name, JStr ''='', JNum t, JStr ''s'']"

definition as_marker :: "liveness_state \<Rightarrow> jval" where
  "as_marker st = JFmt (join_fmt '';''
     ([JFmt [JStr ''action='', JStr (action_value (ls_action st))], JFmt [JStr ''reason='', ls_reason st]]
      @ optional (ls_incident_kind st) (\<lambda>k. [JStr ''incident_kind='', JStr (kind_value k)])
      @ optional (ls_heartbeat_age st) (seconds_text ''bar_age'')
      @ optional (case ls_expected_silence st of Some (c # cs) \<Rightarrow> Some (c # cs) | _ \<Rightarrow> None)
          (\<lambda>s. [JStr ''expected_silence='', JStr s])
      @ optional (ls_recovery_hint st) (\<lambda>h. [JStr ''recovery_hint='', JStr (hint_value h)])
      @ map (\<lambda>(stream, age). JFmt (seconds_text (stream @ ''_age'') age)) (sort_key fst (ls_advisory_ages st))))"

section \<open>The incident tracker\<close>

record open_incident =
  in_id :: string
  in_kind :: incident_kind
  in_started_mono :: rat
  in_last_emitted_mono :: rat
  in_signature :: "string \<times> string option"
  in_max_heartbeat_age :: "rat option"

record tracker =
  tr_checkpoint_seconds :: rat
  tr_open :: "open_incident option"
  tr_next_id :: int
  tr_incident_by_kind :: "(string \<times> int) list"
  tr_completed_by_kind :: "(string \<times> int) list"
  tr_total_seconds_by_kind :: "(string \<times> rat) list"
  tr_max_seconds_by_kind :: "(string \<times> rat) list"

definition mk_tracker :: "rat \<Rightarrow> exn + tracker" where
  "mk_tracker checkpoint =
     (if checkpoint \<le> 0 then Inl (ValueErr (JStr ''checkpoint_seconds must be positive''))
      else Inr \<lparr>tr_checkpoint_seconds = checkpoint, tr_open = None, tr_next_id = 0, tr_incident_by_kind = [],
        tr_completed_by_kind = [], tr_total_seconds_by_kind = [], tr_max_seconds_by_kind = []\<rparr>)"

definition signature :: "liveness_state \<Rightarrow> string \<times> string option" where
  "signature st = (action_value (ls_action st), ls_expected_silence st)"

definition max_age :: "rat option \<Rightarrow> rat option \<Rightarrow> rat option" where
  "max_age current candidate = (case candidate of None \<Rightarrow> current
     | Some c \<Rightarrow> Some (case current of None \<Rightarrow> c | Some x \<Rightarrow> max x c))"

definition marker :: "string \<Rightarrow> open_incident \<Rightarrow> liveness_state \<Rightarrow> rat \<Rightarrow> jval option \<Rightarrow> jval" where
  "marker phase inc st t recovery = JFmt [JStr (kind_value (in_kind inc) @ ''_'' @ phase), JStr '':'',
     JFmt (join_fmt '';''
       ([JFmt [JStr ''incident_id='', JStr (in_id inc)],
         JFmt (seconds_text ''duration'' (max 0 (t - in_started_mono inc)))]
        @ optional (in_max_heartbeat_age inc) (seconds_text ''max_bar_age'')
        @ optional recovery (\<lambda>r. [JStr ''recovery_reason='', r])
        @ [as_marker st]))]"

text \<open>\<open>_end\<close> on the open incident.\<close>

definition end_incident ::
  "open_incident \<Rightarrow> liveness_state \<Rightarrow> rat \<Rightarrow> jval \<Rightarrow> tracker \<Rightarrow> jval \<times> tracker" where
  "end_incident inc0 st t recovery tr =
     (let inc = inc0\<lparr>in_max_heartbeat_age := max_age (in_max_heartbeat_age inc0) (ls_heartbeat_age st)\<rparr>;
          duration = max 0 (t - in_started_mono inc); k = kind_value (in_kind inc)
      in (marker ''END'' inc st t (Some recovery),
          tr\<lparr>tr_completed_by_kind := dput k (dget_or (tr_completed_by_kind tr) k 0 + 1) (tr_completed_by_kind tr),
             tr_total_seconds_by_kind := dput k (dget_or (tr_total_seconds_by_kind tr) k 0 + duration)
               (tr_total_seconds_by_kind tr),
             tr_max_seconds_by_kind := dput k (max (dget_or (tr_max_seconds_by_kind tr) k 0) duration)
               (tr_max_seconds_by_kind tr),
             tr_open := None\<rparr>))"

definition start_incident :: "incident_kind \<Rightarrow> liveness_state \<Rightarrow> rat \<Rightarrow> tracker \<Rightarrow> jval \<times> tracker" where
  "start_incident kind st t tr =
     (let n = tr_next_id tr + 1; k = kind_value kind;
          inc = \<lparr>in_id = map lower_char k @ ''-'' @ pad 4 n, in_kind = kind, in_started_mono = t,
            in_last_emitted_mono = t, in_signature = signature st, in_max_heartbeat_age = ls_heartbeat_age st\<rparr>
      in (marker ''START'' inc st t None,
          tr\<lparr>tr_next_id := n, tr_open := Some inc,
             tr_incident_by_kind := dput k (dget_or (tr_incident_by_kind tr) k 0 + 1) (tr_incident_by_kind tr)\<rparr>))"

definition continue_incident :: "open_incident \<Rightarrow> liveness_state \<Rightarrow> rat \<Rightarrow> tracker \<Rightarrow> jval list \<times> tracker" where
  "continue_incident inc0 st t tr =
     (let inc = inc0\<lparr>in_max_heartbeat_age := max_age (in_max_heartbeat_age inc0) (ls_heartbeat_age st)\<rparr>
      in if signature st \<noteq> in_signature inc
         then (let inc' = inc\<lparr>in_signature := signature st, in_last_emitted_mono := t\<rparr>
               in ([marker ''UPDATE'' inc' st t None], tr\<lparr>tr_open := Some inc'\<rparr>))
         else if t - in_last_emitted_mono inc \<ge> tr_checkpoint_seconds tr
         then (let inc' = inc\<lparr>in_last_emitted_mono := t\<rparr>
               in ([marker ''CHECKPOINT'' inc' st t None], tr\<lparr>tr_open := Some inc'\<rparr>))
         else ([], tr\<lparr>tr_open := Some inc\<rparr>))"

text \<open>No bar since the incident began: a reset is not recovery.\<close>

definition no_new_bar :: "liveness_state \<Rightarrow> open_incident \<Rightarrow> bool" where
  "no_new_bar st inc = (case ls_heartbeat_last_mono st of None \<Rightarrow> True | Some b \<Rightarrow> b < in_started_mono inc)"

definition observe :: "liveness_state \<Rightarrow> rat \<Rightarrow> tracker \<Rightarrow> jval list \<times> tracker" where
  "observe st t tr = (case (tr_open tr, ls_incident_kind st) of
     (None, None) \<Rightarrow> ([], tr)
   | (None, Some kind) \<Rightarrow> (case start_incident kind st t tr of (m, tr') \<Rightarrow> ([m], tr'))
   | (Some inc, None) \<Rightarrow>
       if no_new_bar st inc
       then ([], tr\<lparr>tr_open := Some (inc\<lparr>in_max_heartbeat_age :=
              max_age (in_max_heartbeat_age inc) (ls_heartbeat_age st)\<rparr>)\<rparr>)
       else (case end_incident inc st t (ls_reason st) tr of (m, tr') \<Rightarrow> ([m], tr'))
   | (Some inc, Some kind) \<Rightarrow>
       if in_kind inc \<noteq> kind
       then (case end_incident inc st t (ls_reason st) tr of (m, tr1) \<Rightarrow>
             (case start_incident kind st t tr1 of (m', tr2) \<Rightarrow> ([m, m'], tr2)))
       else continue_incident inc st t tr)"

definition close_tracker :: "string \<Rightarrow> rat \<Rightarrow> tracker \<Rightarrow> jval list \<times> tracker" where
  "close_tracker reason t tr = (case tr_open tr of
     None \<Rightarrow> ([], tr)
   | Some inc \<Rightarrow> (case end_incident inc (mk_state CONTINUE (JStr reason)) t (JStr reason) tr of
       (m, tr') \<Rightarrow> ([m], tr')))"

definition tracker_manifest :: "rat \<Rightarrow> tracker \<Rightarrow> payload" where
  "tracker_manifest t tr =
     [(''checkpoint_seconds'', JNum (tr_checkpoint_seconds tr)),
      (''incident_count'', JInt (sum_list (map snd (tr_incident_by_kind tr)))),
      (''incident_by_kind'', JObj (map (\<lambda>(k, n). (k, JInt n)) (sort_key fst (tr_incident_by_kind tr)))),
      (''completed_incident_count'', JInt (sum_list (map snd (tr_completed_by_kind tr)))),
      (''completed_by_kind'', JObj (map (\<lambda>(k, n). (k, JInt n)) (sort_key fst (tr_completed_by_kind tr)))),
      (''total_seconds_by_kind'', JObj (map (\<lambda>(k, r). (k, JNum r)) (sort_key fst (tr_total_seconds_by_kind tr)))),
      (''max_seconds_by_kind'', JObj (map (\<lambda>(k, r). (k, JNum r)) (sort_key fst (tr_max_seconds_by_kind tr)))),
      (''open_incident_count'', JInt (if tr_open tr = None then 0 else 1)),
      (''open_incident'', j_opt (\<lambda>inc. JObj
         [(''incident_id'', JStr (in_id inc)), (''kind'', JStr (kind_value (in_kind inc))),
          (''duration_seconds'', JNum (max 0 (t - in_started_mono inc))),
          (''max_heartbeat_age_seconds'', j_opt JNum (in_max_heartbeat_age inc))]) (tr_open tr))]"

section \<open>The judge\<close>

record liveness =
  lv_bar_timeout_seconds :: rat
  lv_advisory_thresholds :: "(string \<times> rat) list"
  lv_started_mono :: "rat option"
  lv_last_event_mono :: "(string \<times> rat) list"
  lv_halted :: "int option"
  lv_outages :: "(int \<times> string) list"
  lv_realtime_farms_degraded :: "(string \<times> string) list"
  lv_farm_advisories :: "(string \<times> string) list"
  lv_calendar_silence :: "string option"
  lv_pending_recover :: "(incident_kind \<times> jval \<times> recovery_hint option) option"
  lv_transport_evidence :: bool
  lv_suppressed_assessments :: int
  lv_heartbeat_losses :: int
  lv_halt_state_available :: "bool option"
  lv_halt_state_note :: "string option"

definition mk_liveness :: "rat \<Rightarrow> (string \<times> rat) list option \<Rightarrow> exn + liveness" where
  "mk_liveness bar_timeout thresholds =
     (if bar_timeout < MIN_BAR_TIMEOUT_SECONDS
      then Inl (ValueErr (JFmt [JStr ''bar_timeout_seconds must be at least '', JNum MIN_BAR_TIMEOUT_SECONDS,
             JStr '' (two bar periods); got '', JNum bar_timeout]))
      else Inr \<lparr>lv_bar_timeout_seconds = bar_timeout,
        lv_advisory_thresholds = (case thresholds of None \<Rightarrow> DEFAULT_ADVISORY_THRESHOLDS | Some d \<Rightarrow> d),
        lv_started_mono = None, lv_last_event_mono = [], lv_halted = None, lv_outages = [],
        lv_realtime_farms_degraded = [], lv_farm_advisories = [], lv_calendar_silence = None,
        lv_pending_recover = None, lv_transport_evidence = False, lv_suppressed_assessments = 0,
        lv_heartbeat_losses = 0, lv_halt_state_available = None, lv_halt_state_note = None\<rparr>)"

subsection \<open>Observations\<close>

definition subscription_started :: "rat \<Rightarrow> liveness \<Rightarrow> liveness" where
  "subscription_started t lv = lv\<lparr>lv_started_mono := Some t, lv_last_event_mono := [],
     lv_pending_recover := None, lv_transport_evidence := True\<rparr>"

definition note_event :: "string \<Rightarrow> rat \<Rightarrow> liveness \<Rightarrow> liveness" where
  "note_event stream t lv =
     lv\<lparr>lv_last_event_mono := dput stream t (lv_last_event_mono lv), lv_transport_evidence := True\<rparr>"

definition note_transport_activity :: "liveness \<Rightarrow> liveness" where
  "note_transport_activity lv = lv\<lparr>lv_transport_evidence := True\<rparr>"

text \<open>\<open>None\<close> is both Python's \<open>None\<close> and NaN.\<close>

definition note_halted :: "rat option \<Rightarrow> liveness \<Rightarrow> liveness" where
  "note_halted v lv = (case v of None \<Rightarrow> lv
     | Some x \<Rightarrow> lv\<lparr>lv_halted := Some (trunc_rat x), lv_halt_state_available := Some True,
         lv_halt_state_note := Some ''tick 49 observed''\<rparr>)"

definition text_or :: "string \<Rightarrow> string \<Rightarrow> string" where
  "text_or s d = (if s = [] then d else s)"

definition note_halt_state_source :: "bool \<Rightarrow> string \<Rightarrow> liveness \<Rightarrow> liveness" where
  "note_halt_state_source requested detail lv =
     (if requested
      then (if lv_halt_state_available lv = None
            then lv\<lparr>lv_halt_state_note := Some (text_or detail ''tick 49 requested; awaiting first value'')\<rparr>
            else lv)
      else lv\<lparr>lv_halt_state_available := Some False,
             lv_halt_state_note := Some (text_or detail ''tick 49 not requested'')\<rparr>)"

definition note_halt_state_unavailable :: "string \<Rightarrow> liveness \<Rightarrow> liveness" where
  "note_halt_state_unavailable detail lv =
     lv\<lparr>lv_halt_state_available := Some False, lv_halt_state_note := Some detail\<rparr>"

text \<open>\<open>f"{what} ({code}): {detail}".strip()\<close>.\<close>

definition farm_text :: "string \<Rightarrow> int \<Rightarrow> string \<Rightarrow> string" where
  "farm_text what code detail = strip (what @ '' ('' @ str_int code @ ''): '' @ detail)"

definition note_status :: "int \<Rightarrow> string \<Rightarrow> liveness \<Rightarrow> liveness" where
  "note_status code message lv0 =
     (let lv = lv0\<lparr>lv_transport_evidence := True\<rparr>; detail = strip message
      in if code = CONNECTIVITY_LOST
         then lv\<lparr>lv_outages := dput code (''connectivity lost ('' @ str_int code @ '')'') (lv_outages lv)\<rparr>
         else if code = CONNECTIVITY_RESTORED_DATA_LOST
         then lv\<lparr>lv_outages := dpop CONNECTIVITY_LOST (lv_outages lv),
                lv_pending_recover := Some (FEED_OUTAGE,
                  JStr (''connectivity restored, market data lost ('' @ str_int code @ '')''),
                  Some ALL_MARKET_STREAMS)\<rparr>
         else if code = CONNECTIVITY_RESTORED_DATA_KEPT
         then lv\<lparr>lv_outages := dpop CONNECTIVITY_LOST (lv_outages lv), lv_pending_recover := None\<rparr>
         else if code = REALTIME_BARS_RESET
         then lv\<lparr>lv_pending_recover := Some (GAP_SUSPECTED,
                  JStr (''real-time bars reset by IB ('' @ str_int code @ '')''), Some BARS_ONLY)\<rparr>
         else if code = REALTIME_FARM_BROKEN
         then lv\<lparr>lv_realtime_farms_degraded := dput (realtime_farm_identity detail)
                  (farm_text ''real-time market data farm down'' code detail) (lv_realtime_farms_degraded lv)\<rparr>
         else if code = REALTIME_FARM_OK
         then lv\<lparr>lv_realtime_farms_degraded :=
                  dpop (realtime_farm_identity detail) (lv_realtime_farms_degraded lv)\<rparr>
         else if code \<in> set HISTORICAL_FARM_CODES
         then lv\<lparr>lv_farm_advisories := dput ''historical''
                  (farm_text ''historical data farm status'' code detail) (lv_farm_advisories lv)\<rparr>
         else if code \<in> set SECDEF_FARM_CODES
         then lv\<lparr>lv_farm_advisories := dput ''security_definition''
                  (farm_text ''security definition farm status'' code detail) (lv_farm_advisories lv)\<rparr>
         else if code = FARM_INACTIVE_CODE
         then lv\<lparr>lv_farm_advisories := dput ''inactive''
                  (farm_text ''farm inactive/on-demand'' code detail) (lv_farm_advisories lv)\<rparr>
         else lv)"

definition note_transport_idle :: "rat \<Rightarrow> liveness \<Rightarrow> liveness" where
  "note_transport_idle idle lv = lv\<lparr>lv_transport_evidence := False,
     lv_pending_recover := Some (GAP_SUSPECTED,
       JFmt [JStr ''no data of any kind from TWS for '', JNum idle, JStr ''s''], None)\<rparr>"

definition enter_calendar_silence :: "string \<Rightarrow> liveness \<Rightarrow> liveness" where
  "enter_calendar_silence reason lv = lv\<lparr>lv_calendar_silence := Some reason\<rparr>"

definition leave_calendar_silence :: "liveness \<Rightarrow> liveness" where
  "leave_calendar_silence lv = lv\<lparr>lv_calendar_silence := None\<rparr>"

subsection \<open>The question\<close>

definition expected_silence_details :: "liveness \<Rightarrow> (incident_kind \<times> string) option" where
  "expected_silence_details lv =
     (if lv_halted lv = Some 1 \<or> lv_halted lv = Some 2
      then Some (EXPECTED_SILENCE,
             ''instrument '' @ (if lv_halted lv = Some 2 then ''volatility pause'' else ''halted'')
             @ '' (tick 49 = '' @ str_int (the (lv_halted lv)) @ '')'')
      else case dget (lv_outages lv) CONNECTIVITY_LOST of
        Some d \<Rightarrow> Some (FEED_OUTAGE, d)
      | None \<Rightarrow> (case lv_calendar_silence lv of
          Some (c # cs) \<Rightarrow> Some (EXPECTED_SILENCE, c # cs)
        | _ \<Rightarrow> None))"

definition expected_silence :: "liveness \<Rightarrow> string option" where
  "expected_silence lv = map_option snd (expected_silence_details lv)"

definition heartbeat_age :: "rat \<Rightarrow> liveness \<Rightarrow> rat option" where
  "heartbeat_age t lv = (case lv_started_mono lv of None \<Rightarrow> None
     | Some started \<Rightarrow> Some (max 0 (t - dget_or (lv_last_event_mono lv) HEARTBEAT_STREAM started)))"

definition last_market_event_age :: "rat \<Rightarrow> liveness \<Rightarrow> rat option" where
  "last_market_event_age t lv = (case lv_started_mono lv of None \<Rightarrow> None
     | Some started \<Rightarrow> Some (max 0 (t - (case map snd (lv_last_event_mono lv) of
         [] \<Rightarrow> started | x # xs \<Rightarrow> fold max xs x))))"

definition advisory_ages :: "rat \<Rightarrow> liveness \<Rightarrow> (string \<times> rat) list" where
  "advisory_ages t lv = (case lv_started_mono lv of None \<Rightarrow> []
     | Some started \<Rightarrow> List.map_filter (\<lambda>(stream, threshold).
         let age = max 0 (t - dget_or (lv_last_event_mono lv) stream started)
         in if age > threshold then Some (stream, age) else None) (lv_advisory_thresholds lv))"

definition degraded_text :: "liveness \<Rightarrow> string" where
  "degraded_text lv = join '' | '' (map snd (sort_key fst (lv_realtime_farms_degraded lv)))"

text \<open>The assessment, and the state after it: a pending recovery is consumed, polls are counted.\<close>

definition assess :: "rat \<Rightarrow> liveness \<Rightarrow> liveness_state \<times> liveness" where
  "assess t lv =
     (let advisory = advisory_ages t lv; age = heartbeat_age t lv;
          last_bar = dget (lv_last_event_mono lv) HEARTBEAT_STREAM;
          lost = (case age of None \<Rightarrow> False | Some a \<Rightarrow> a > lv_bar_timeout_seconds lv);
          base = (\<lambda>a r. (mk_state a r)\<lparr>ls_heartbeat_age := age, ls_advisory_ages := advisory,
            ls_heartbeat_last_mono := last_bar\<rparr>)
      in if lv_started_mono lv = None
         then ((mk_state CONTINUE (JStr ''not subscribed''))\<lparr>ls_advisory_ages := advisory\<rparr>, lv)
         else case expected_silence_details lv of
           Some (kind, why) \<Rightarrow>
             ((base WAIT (JStr ''silence explained by an explicit IB signal''))
                \<lparr>ls_heartbeat_lost := lost, ls_expected_silence := Some why, ls_incident_kind := Some kind\<rparr>,
              lv\<lparr>lv_suppressed_assessments := lv_suppressed_assessments lv + 1\<rparr>)
         | None \<Rightarrow> (case lv_pending_recover lv of
           Some (kind, why, hint) \<Rightarrow>
             ((base RECOVER_SUBSCRIPTION why)\<lparr>ls_incident_kind := Some kind, ls_recovery_hint := hint\<rparr>,
              lv\<lparr>lv_pending_recover := None\<rparr>)
         | None \<Rightarrow>
             if lost
             then (let lv1 = lv\<lparr>lv_heartbeat_losses := lv_heartbeat_losses lv + 1\<rparr>
                   in if lv_realtime_farms_degraded lv \<noteq> []
                      then ((base WAIT (JStr ''BAR heartbeat lost while real-time market data farm is degraded''))
                              \<lparr>ls_heartbeat_lost := True, ls_expected_silence := Some (degraded_text lv),
                               ls_incident_kind := Some FEED_OUTAGE\<rparr>,
                            lv1\<lparr>lv_suppressed_assessments := lv_suppressed_assessments lv1 + 1\<rparr>)
                      else ((base RECOVER_SUBSCRIPTION (JFmt [JStr ''no 5-second bar for '', JNum (the age),
                                JStr ''s (> '', JNum (lv_bar_timeout_seconds lv),
                                JStr ''s) with no explanation from IB'']))
                              \<lparr>ls_heartbeat_lost := True, ls_incident_kind := Some GAP_SUSPECTED\<rparr>, lv1))
             else (base CONTINUE (JStr ''bar cadence intact''), lv)))"

definition str_obj :: "(string \<times> string) list \<Rightarrow> jval" where
  "str_obj d = JObj (map (\<lambda>(k, v). (k, JStr v)) d)"

definition liveness_manifest :: "liveness \<Rightarrow> payload" where
  "liveness_manifest lv =
     [(''heartbeat_stream'', JStr HEARTBEAT_STREAM), (''bar_period_seconds'', JNum BAR_PERIOD_SECONDS),
      (''bar_timeout_seconds'', JNum (lv_bar_timeout_seconds lv)),
      (''advisory_thresholds'', JObj (map (\<lambda>(k, r). (k, JNum r)) (lv_advisory_thresholds lv))),
      (''advisory_streams_never_stop_the_run'', JBool True),
      (''halt_state'', j_opt JInt (lv_halted lv)),
      (''halt_state_available'', j_opt JBool (lv_halt_state_available lv)),
      (''halt_state_note'', j_opt JStr (lv_halt_state_note lv)),
      (''open_outages'', JList (map (JStr \<circ> snd) (sort_key fst (lv_outages lv)))),
      (''realtime_market_data_farm_degraded'',
        if lv_realtime_farms_degraded lv = [] then JNull else JStr (degraded_text lv)),
      (''realtime_market_data_farms_degraded'', str_obj (sort_key fst (lv_realtime_farms_degraded lv))),
      (''farm_advisories'', str_obj (sort_key fst (lv_farm_advisories lv))),
      (''suppressed_assessments'', JInt (lv_suppressed_assessments lv)),
      (''suppressed_assessments_are_poll_count'', JBool True),
      (''heartbeat_losses'', JInt (lv_heartbeat_losses lv)),
      (''transport_evidence'', JBool (lv_transport_evidence lv))]"

end
