(* ===== verification/Health_V4.thy ===== *)
theory Health_V4
  imports Market_Liveness
begin

text \<open>
  \<open>recorder_health_v4.py\<close>: the verdict on a recorded session, from its raw rows. Instants of the rows are
  nanoseconds; \<open>iso\<close> is the text of one, kept as the microsecond it names. The staging database keeps its
  two tables as lists in insertion order. The constants that \<open>market_liveness.py\<close> declares with the same
  name and value are those of \<open>Market_Liveness\<close>.
\<close>

section \<open>Vocabulary\<close>

definition BAR_STREAM :: string where "BAR_STREAM = ''BAR_5S''"

definition EVENT_DRIVEN_STREAMS :: "string list" where "EVENT_DRIVEN_STREAMS = [''BID_ASK'', ''ALL_LAST'']"

definition MARKET_STREAMS :: "string list" where "MARKET_STREAMS = EVENT_DRIVEN_STREAMS @ [BAR_STREAM]"

definition BAR_GAP_SECONDS :: rat where "BAR_GAP_SECONDS = 15"

definition EVENT_OBSERVATION_SECONDS :: rat where "EVENT_OBSERVATION_SECONDS = 30"

definition LEGACY_GAP_SECONDS :: "string \<Rightarrow> rat" where
  "LEGACY_GAP_SECONDS stream = (if stream = ''BID_ASK'' then 5 else if stream = ''ALL_LAST'' then 30 else 15)"

definition HISTORICAL_FARM_BROKEN :: int where "HISTORICAL_FARM_BROKEN = 2105"

definition HISTORICAL_FARM_OK :: int where "HISTORICAL_FARM_OK = 2106"

definition FARM_INACTIVE :: int where "FARM_INACTIVE = 2108"

definition SECDEF_FARM_BROKEN :: int where "SECDEF_FARM_BROKEN = 2157"

definition SECDEF_FARM_OK :: int where "SECDEF_FARM_OK = 2158"

definition AUXILIARY_FARM_CODES :: "int list" where
  "AUXILIARY_FARM_CODES =
     [HISTORICAL_FARM_BROKEN, HISTORICAL_FARM_OK, FARM_INACTIVE, SECDEF_FARM_BROKEN, SECDEF_FARM_OK]"

definition FATAL_MARKET_DATA_CODES :: "int list" where "FATAL_MARKET_DATA_CODES = [354, 10089, 10189, 10197]"

record health_finding =
  hf_stream :: string
  hf_classification :: string
  hf_start_utc :: time
  hf_end_utc :: time
  hf_duration_seconds :: rat
  hf_evidence :: "jval list"

record stream_metrics =
  sm_stream :: string
  sm_rows :: int
  sm_first_utc :: "time option"
  sm_last_utc :: "time option"
  sm_max_gap_seconds :: rat
  sm_observation_threshold_seconds :: rat
  sm_gaps_over_observation_threshold :: int
  sm_legacy_v3_threshold_seconds :: rat
  sm_legacy_v3_gaps_over_threshold :: int

record status_event =
  se_wall_ns :: int
  se_code :: int
  se_message :: string

definition iso :: "int \<Rightarrow> time" where
  "iso ns = round_half_even (of_int ns / 1000)"

definition duration_seconds :: "int \<Rightarrow> int \<Rightarrow> rat" where
  "duration_seconds start_ns end_ns = max 0 (of_int (end_ns - start_ns) / 1000000000)"

section \<open>Staging\<close>

text \<open>
  \<open>_ERROR_RE\<close>: \<open>IB_ERROR:code:req:message\<close>. The message ends at the end of the text, or at a line feed
  that ends it.
\<close>

fun after :: "string \<Rightarrow> string \<Rightarrow> string option" where
  "after [] s = Some s"
| "after (p # ps) [] = None"
| "after (p # ps) (ch # s) = (if p = ch then after ps s else None)"

definition is_digit :: "char \<Rightarrow> bool" where
  "is_digit ch = (let n = of_char ch :: nat in 48 \<le> n \<and> n \<le> 57)"

definition match_error :: "string \<Rightarrow> (int \<times> string) option" where
  "match_error s = (case after ''IB_ERROR:'' s of None \<Rightarrow> None
     | Some r \<Rightarrow>
       (let sign = takeWhile (\<lambda>ch. ch = CHR ''-'') (take 1 r); r1 = drop (length sign) r;
            digits = takeWhile is_digit r1; r2 = dropWhile is_digit r1
        in if digits = [] then None
           else case after '':'' r2 of None \<Rightarrow> None
           | Some r3 \<Rightarrow> (case after '':'' (dropWhile (\<lambda>ch. ch \<noteq> CHR '':'') r3) of None \<Rightarrow> None
             | Some r4 \<Rightarrow>
               (let message = takeWhile (\<lambda>ch. ch \<noteq> CHR 0x0A) r4; end_text = dropWhile (\<lambda>ch. ch \<noteq> CHR 0x0A) r4
                in if end_text = [] \<or> end_text = [CHR 0x0A]
                   then map_option (\<lambda>code. (code, message)) (parse_int (sign @ digits)) else None))))"

record staging =
  sg_stream_times :: "(string \<times> int) list"
  sg_statuses :: "status_event list"
  sg_events :: int
  sg_market_data_types :: "string list"
  sg_recorder_errors :: "(int \<times> string) list"
  sg_auxiliary_farm_statuses :: "status_event list"

definition new_staging :: staging where
  "new_staging = \<lparr>sg_stream_times = [], sg_statuses = [], sg_events = 0, sg_market_data_types = [],
     sg_recorder_errors = [], sg_auxiliary_farm_statuses = []\<rparr>"

text \<open>The fields of a validated row, read as \<open>int(row.get(k) or 0)\<close> and \<open>str(row.get(k) or d)\<close>.\<close>

definition row_int :: "payload \<Rightarrow> string \<Rightarrow> int" where
  "row_int row k = (case pget row k JNull of JInt n \<Rightarrow> n | _ \<Rightarrow> 0)"

definition row_text :: "payload \<Rightarrow> string \<Rightarrow> string \<Rightarrow> string" where
  "row_text row k d = (case pget row k JNull of JStr (ch # s) \<Rightarrow> ch # s | _ \<Rightarrow> d)"

definition stage_row :: "payload \<Rightarrow> staging \<Rightarrow> staging" where
  "stage_row row sg0 =
     (let sg = sg0\<lparr>sg_events := sg_events sg0 + 1\<rparr>; wall_ns = row_int row ''local_wall_ns'';
          event_type = row_text row ''event_type'' []
      in if event_type \<in> set MARKET_STREAMS
         then sg\<lparr>sg_stream_times := sg_stream_times sg @ [(event_type, wall_ns)],
                sg_market_data_types :=
                  set_add (row_text row ''market_data_type'' ''UNKNOWN'') (sg_market_data_types sg)\<rparr>
         else if event_type \<noteq> ''SYSTEM'' then sg
         else (let condition = row_text row ''special_conditions'' [];
                   sg1 = (if after ''RECORDER_ERROR:'' condition \<noteq> None
                          then sg\<lparr>sg_recorder_errors := sg_recorder_errors sg @ [(wall_ns, condition)]\<rparr> else sg)
               in case match_error condition of None \<Rightarrow> sg1
                  | Some (code, message) \<Rightarrow>
                    (let status = \<lparr>se_wall_ns = wall_ns, se_code = code, se_message = message\<rparr>;
                         sg2 = sg1\<lparr>sg_statuses := sg_statuses sg1 @ [status]\<rparr>
                     in if code \<in> set AUXILIARY_FARM_CODES
                        then sg2\<lparr>sg_auxiliary_farm_statuses := sg_auxiliary_farm_statuses sg2 @ [status]\<rparr>
                        else sg2)))"

definition add_rows :: "payload list \<Rightarrow> staging \<Rightarrow> staging" where
  "add_rows rows sg = fold stage_row rows sg"

text \<open>\<open>ORDER BY wall_ns\<close>; \<open>ORDER BY wall_ns, rowid\<close>.\<close>

definition stream_stamps :: "string \<Rightarrow> staging \<Rightarrow> int list" where
  "stream_stamps stream sg = sort (map snd (filter (\<lambda>p. fst p = stream) (sg_stream_times sg)))"

definition statuses :: "staging \<Rightarrow> status_event list" where
  "statuses sg = sort_key se_wall_ns (sg_statuses sg)"

text \<open>\<open>_batched\<close>: the rows in lists of at most \<open>n\<close>.\<close>

fun batch_from :: "nat \<Rightarrow> 'a list \<Rightarrow> 'a list \<Rightarrow> 'a list list" where
  "batch_from n batch [] = (if batch = [] then [] else [batch])"
| "batch_from n batch (row # rows) =
     (if length (batch @ [row]) \<ge> n then (batch @ [row]) # batch_from n [] rows
      else batch_from n (batch @ [row]) rows)"

definition batched :: "'a list \<Rightarrow> 'a list list" where
  "batched rows = batch_from 50000 [] rows"

section \<open>Gaps\<close>

record gap_scan =
  gs_first :: "int option"
  gs_previous :: "int option"
  gs_last :: "int option"
  gs_rows :: int
  gs_gaps :: "(int \<times> int) list"

definition gap_step :: "int \<Rightarrow> int \<Rightarrow> int \<Rightarrow> gap_scan \<Rightarrow> gap_scan" where
  "gap_step open_ns close_ns stamp g =
     (let clipped = min (max stamp open_ns) close_ns;
          g1 = (if gs_first g = None
                then g\<lparr>gs_first := Some clipped,
                       gs_gaps := gs_gaps g @ (if clipped > open_ns then [(open_ns, clipped)] else [])\<rparr>
                else g);
          g2 = (case gs_previous g1 of None \<Rightarrow> g1
                | Some p \<Rightarrow> if clipped > p then g1\<lparr>gs_gaps := gs_gaps g1 @ [(p, clipped)]\<rparr> else g1)
      in g2\<lparr>gs_previous := Some clipped, gs_last := Some clipped, gs_rows := gs_rows g2 + 1\<rparr>)"

definition gap_list :: "int \<Rightarrow> int \<Rightarrow> int list \<Rightarrow> gap_scan" where
  "gap_list open_ns close_ns stamps =
     (let g = fold (gap_step open_ns close_ns) stamps
                \<lparr>gs_first = None, gs_previous = None, gs_last = None, gs_rows = 0, gs_gaps = []\<rparr>
      in case gs_last g of
           None \<Rightarrow> if close_ns > open_ns then g\<lparr>gs_gaps := gs_gaps g @ [(open_ns, close_ns)]\<rparr> else g
         | Some l \<Rightarrow> if l < close_ns then g\<lparr>gs_gaps := gs_gaps g @ [(l, close_ns)]\<rparr> else g)"

definition gaps ::
  "int list \<Rightarrow> int \<Rightarrow> int \<Rightarrow> int \<times> time option \<times> time option \<times> rat \<times> (int \<times> int) list" where
  "gaps stamps open_ns close_ns =
     (let g = gap_list open_ns close_ns stamps
      in (gs_rows g, map_option iso (gs_first g), map_option iso (gs_last g),
          fold (\<lambda>(a, b) m. max m (duration_seconds a b)) (gs_gaps g) 0, gs_gaps g))"

section \<open>What the statuses say\<close>

type_synonym feed_state = "bool \<times> (string \<times> status_event) list"

definition status_step :: "status_event \<Rightarrow> feed_state \<Rightarrow> feed_state" where
  "status_step status fs = (case fs of (lost, broken) \<Rightarrow>
     if se_code status = CONNECTIVITY_LOST then (True, broken)
     else if se_code status = CONNECTIVITY_RESTORED_DATA_LOST \<or> se_code status = CONNECTIVITY_RESTORED_DATA_KEPT
     then (False, broken)
     else if se_code status = REALTIME_FARM_BROKEN
     then (lost, dput (realtime_farm_identity (se_message status)) status broken)
     else if se_code status = REALTIME_FARM_OK
     then (lost, dpop (realtime_farm_identity (se_message status)) broken)
     else (lost, broken))"

definition status_state_at :: "status_event list \<Rightarrow> int \<Rightarrow> feed_state" where
  "status_state_at sts target_ns =
     fold status_step (takeWhile (\<lambda>status. se_wall_ns status \<le> target_ns) sts) (False, [])"

definition status_text :: "status_event \<Rightarrow> jval" where
  "status_text status = JFmt [JStr ''IB '', JInt (se_code status), JStr '': '', JStr (se_message status)]"

definition mk_finding :: "string \<Rightarrow> string \<Rightarrow> int \<Rightarrow> int \<Rightarrow> jval list \<Rightarrow> health_finding" where
  "mk_finding stream classification start_ns end_ns evidence =
     \<lparr>hf_stream = stream, hf_classification = classification, hf_start_utc = iso start_ns,
      hf_end_utc = iso end_ns, hf_duration_seconds = duration_seconds start_ns end_ns, hf_evidence = evidence\<rparr>"

definition at_instant :: "string \<Rightarrow> string \<Rightarrow> int \<Rightarrow> jval list \<Rightarrow> health_finding" where
  "at_instant stream classification ns evidence =
     \<lparr>hf_stream = stream, hf_classification = classification, hf_start_utc = iso ns, hf_end_utc = iso ns,
      hf_duration_seconds = 0, hf_evidence = evidence\<rparr>"

definition link_restored :: "status_event \<Rightarrow> bool" where
  "link_restored status \<longleftrightarrow>
     se_code status = CONNECTIVITY_RESTORED_DATA_LOST \<or> se_code status = CONNECTIVITY_RESTORED_DATA_KEPT"

text \<open>\<open>_connectivity_outages\<close>: the loop with its open outage, then what is still open at the close.\<close>

definition unrestored :: "int \<Rightarrow> int \<Rightarrow> status_event option \<Rightarrow> health_finding list" where
  "unrestored open_ns close_ns opened = (case opened of None \<Rightarrow> []
     | Some st \<Rightarrow>
       if se_wall_ns st < close_ns \<and> close_ns > max (se_wall_ns st) open_ns
       then [mk_finding BAR_STREAM ''FEED_OUTAGE'' (max (se_wall_ns st) open_ns) close_ns
               [status_text st, JStr ''no connectivity restoration before session close'']]
       else [])"

fun outages_from ::
  "int \<Rightarrow> int \<Rightarrow> status_event option \<Rightarrow> status_event list \<Rightarrow> health_finding list" where
  "outages_from open_ns close_ns opened [] = unrestored open_ns close_ns opened"
| "outages_from open_ns close_ns opened (status # sts) =
     (if se_wall_ns status > close_ns then unrestored open_ns close_ns opened
      else if se_code status = CONNECTIVITY_LOST
      then outages_from open_ns close_ns (case opened of None \<Rightarrow> Some status | Some st \<Rightarrow> Some st) sts
      else case opened of None \<Rightarrow> outages_from open_ns close_ns None sts
      | Some st \<Rightarrow>
        if \<not> link_restored status then outages_from open_ns close_ns (Some st) sts
        else (let end_ns = min (se_wall_ns status) close_ns; start_ns = max (se_wall_ns st) open_ns
              in (if end_ns > start_ns
                  then [mk_finding BAR_STREAM ''FEED_OUTAGE'' start_ns end_ns [status_text st, status_text status]]
                  else [])
                 @ outages_from open_ns close_ns None sts))"

definition connectivity_outages :: "status_event list \<Rightarrow> int \<Rightarrow> int \<Rightarrow> health_finding list" where
  "connectivity_outages sts open_ns close_ns = outages_from open_ns close_ns None sts"

definition transition_codes :: "int list" where
  "transition_codes = [CONNECTIVITY_LOST, CONNECTIVITY_RESTORED_DATA_LOST, CONNECTIVITY_RESTORED_DATA_KEPT,
     REALTIME_FARM_BROKEN, REALTIME_FARM_OK]"

text \<open>\<open>_bar_gap_findings\<close>: the boundaries, then one finding per piece that an outage does not explain.\<close>

definition gap_boundaries :: "status_event list \<Rightarrow> int \<Rightarrow> int \<Rightarrow> int list" where
  "gap_boundaries sts start_ns end_ns =
     sort (remdups (start_ns # end_ns # map se_wall_ns (filter (\<lambda>status. start_ns < se_wall_ns status
       \<and> se_wall_ns status < end_ns \<and> se_code status \<in> set transition_codes) sts)))"

definition gap_text :: "rat \<Rightarrow> jval" where
  "gap_text secs = JFmt [JStr ''BAR_5S gap '', JNum secs, JStr ''s > '', JNum BAR_GAP_SECONDS, JStr ''s'']"

definition piece_findings :: "status_event list \<Rightarrow> rat \<Rightarrow> int \<times> int \<Rightarrow> health_finding list" where
  "piece_findings sts total_gap piece = (case piece of (sub_start, sub_end) \<Rightarrow>
     if sub_end \<le> sub_start then []
     else case status_state_at sts sub_start of (lost, broken) \<Rightarrow>
       if lost then []
       else if broken \<noteq> []
       then [mk_finding BAR_STREAM ''FEED_OUTAGE'' sub_start sub_end
               ([gap_text total_gap,
                 JStr ''BAR heartbeat is absent during a real-time market-data farm degradation'']
                @ map (status_text \<circ> snd) (sort_key fst broken))]
       else [mk_finding BAR_STREAM ''GAP_SUSPECTED'' sub_start sub_end
               [gap_text total_gap,
                JStr ''no IB connectivity or real-time farm outage explains this subinterval'']])"

definition pieces :: "int list \<Rightarrow> (int \<times> int) list" where
  "pieces ordered = zip ordered (tl ordered)"

definition bar_gap_findings :: "status_event list \<Rightarrow> int \<Rightarrow> int \<Rightarrow> health_finding list" where
  "bar_gap_findings sts start_ns end_ns =
     concat (map (piece_findings sts (duration_seconds start_ns end_ns))
       (pieces (gap_boundaries sts start_ns end_ns)))"


text \<open>\<open>_paired_auxiliary_advisories\<close> and \<open>_auxiliary_advisories\<close>.\<close>

definition not_spy :: jval where
  "not_spy = JStr ''auxiliary farm state is not evidence about SPY real-time feed liveness''"

definition unpaired :: "string \<Rightarrow> int \<Rightarrow> int \<Rightarrow> status_event option \<Rightarrow> health_finding list" where
  "unpaired stream open_ns close_ns opened = (case opened of None \<Rightarrow> []
     | Some st \<Rightarrow>
       if se_wall_ns st < close_ns
       then [mk_finding stream ''AUXILIARY_FARM_DEGRADED'' (max (se_wall_ns st) open_ns) close_ns
               [status_text st, JStr ''no auxiliary-farm restoration observed before session close'', not_spy]]
       else [])"

fun paired_from ::
  "int \<Rightarrow> int \<Rightarrow> string \<Rightarrow> int \<Rightarrow> int \<Rightarrow> status_event option \<Rightarrow> status_event list \<Rightarrow> health_finding list"
where
  "paired_from broken_code ok_code stream open_ns close_ns opened [] = unpaired stream open_ns close_ns opened"
| "paired_from broken_code ok_code stream open_ns close_ns opened (status # sts) =
     (if se_wall_ns status > close_ns then unpaired stream open_ns close_ns opened
      else if se_code status = broken_code
      then paired_from broken_code ok_code stream open_ns close_ns
             (case opened of None \<Rightarrow> Some status | Some st \<Rightarrow> Some st) sts
      else case opened of None \<Rightarrow> paired_from broken_code ok_code stream open_ns close_ns None sts
      | Some st \<Rightarrow>
        if se_code status \<noteq> ok_code then paired_from broken_code ok_code stream open_ns close_ns (Some st) sts
        else (let start_ns = max (se_wall_ns st) open_ns; end_ns = min (se_wall_ns status) close_ns
              in (if end_ns \<ge> start_ns
                  then [mk_finding stream ''AUXILIARY_FARM_DEGRADED'' start_ns end_ns
                          [status_text st, status_text status, not_spy]]
                  else [])
                 @ paired_from broken_code ok_code stream open_ns close_ns None sts))"

definition paired_auxiliary_advisories ::
  "status_event list \<Rightarrow> int \<Rightarrow> int \<Rightarrow> string \<Rightarrow> int \<Rightarrow> int \<Rightarrow> health_finding list" where
  "paired_auxiliary_advisories sts broken_code ok_code stream open_ns close_ns =
     paired_from broken_code ok_code stream open_ns close_ns None sts"

definition inactive_advisory :: "int \<Rightarrow> int \<Rightarrow> status_event \<Rightarrow> health_finding list" where
  "inactive_advisory open_ns close_ns status =
     (if se_code status = FARM_INACTIVE \<and> open_ns \<le> se_wall_ns status \<and> se_wall_ns status \<le> close_ns
      then [at_instant ''AUXILIARY_FARM'' ''AUXILIARY_FARM_INACTIVE'' (se_wall_ns status)
              [status_text status, JStr ''inactive/on-demand auxiliary farm status is advisory only'']]
      else [])"

definition auxiliary_advisories :: "status_event list \<Rightarrow> int \<Rightarrow> int \<Rightarrow> health_finding list" where
  "auxiliary_advisories sts open_ns close_ns =
     sort_key hf_start_utc (sort_key hf_stream
       (paired_auxiliary_advisories sts HISTORICAL_FARM_BROKEN HISTORICAL_FARM_OK ''HISTORICAL_DATA_FARM''
          open_ns close_ns
        @ paired_auxiliary_advisories sts SECDEF_FARM_BROKEN SECDEF_FARM_OK ''SECURITY_DEFINITION_FARM''
          open_ns close_ns
        @ concat (map (inactive_advisory open_ns close_ns) sts)))"

section \<open>The verdict\<close>

fun contains :: "string \<Rightarrow> string \<Rightarrow> bool" where
  "contains p [] \<longleftrightarrow> p = []"
| "contains p (ch # s) \<longleftrightarrow> after p (ch # s) \<noteq> None \<or> contains p s"

definition fatal_market_data_status :: "status_event \<Rightarrow> bool" where
  "fatal_market_data_status status \<longleftrightarrow>
     se_code status \<in> set FATAL_MARKET_DATA_CODES
     \<or> se_code status = 420 \<and> contains ''market data permissions'' (map lower_char (se_message status))"

definition observation_threshold :: "string \<Rightarrow> rat" where
  "observation_threshold stream = (if stream = BAR_STREAM then BAR_GAP_SECONDS else EVENT_OBSERVATION_SECONDS)"

definition over :: "rat \<Rightarrow> (int \<times> int) list \<Rightarrow> (int \<times> int) list" where
  "over threshold gs = filter (\<lambda>(a, b). duration_seconds a b > threshold) gs"

definition metrics_of :: "string \<Rightarrow> int list \<Rightarrow> int \<Rightarrow> int \<Rightarrow> stream_metrics" where
  "metrics_of stream stamps open_ns close_ns = (case gaps stamps open_ns close_ns of
     (rows, first_at, last_at, max_gap, gs) \<Rightarrow>
       \<lparr>sm_stream = stream, sm_rows = rows, sm_first_utc = first_at, sm_last_utc = last_at, sm_max_gap_seconds = max_gap,
        sm_observation_threshold_seconds = observation_threshold stream,
        sm_gaps_over_observation_threshold = int (length (over (observation_threshold stream) gs)),
        sm_legacy_v3_threshold_seconds = LEGACY_GAP_SECONDS stream,
        sm_legacy_v3_gaps_over_threshold = int (length (over (LEGACY_GAP_SECONDS stream) gs))\<rparr>)"

definition stream_gaps :: "string \<Rightarrow> staging \<Rightarrow> int \<Rightarrow> int \<Rightarrow> (int \<times> int) list" where
  "stream_gaps stream sg open_ns close_ns =
     over (observation_threshold stream) (gs_gaps (gap_list open_ns close_ns (stream_stamps stream sg)))"

definition event_gap_advisory :: "string \<Rightarrow> int \<times> int \<Rightarrow> health_finding" where
  "event_gap_advisory stream gap = (case gap of (start_ns, end_ns) \<Rightarrow>
     mk_finding stream ''EVENT_DRIVEN_GAP'' start_ns end_ns
       [JFmt [JStr stream, JStr '' had no event for '', JNum (duration_seconds start_ns end_ns), JStr ''s''],
        JStr ''event-driven silence alone does not prove feed loss''])"

definition stream_advisories :: "staging \<Rightarrow> int \<Rightarrow> int \<Rightarrow> string \<Rightarrow> health_finding list" where
  "stream_advisories sg open_ns close_ns stream =
     (if stream \<in> set EVENT_DRIVEN_STREAMS
      then map (event_gap_advisory stream) (stream_gaps stream sg open_ns close_ns) else [])"

definition stream_problems :: "staging \<Rightarrow> int \<Rightarrow> int \<Rightarrow> string \<Rightarrow> health_finding list" where
  "stream_problems sg open_ns close_ns stream =
     (if stream \<in> set EVENT_DRIVEN_STREAMS then []
      else concat (map (\<lambda>(a, b). bar_gap_findings (statuses sg) a b) (stream_gaps stream sg open_ns close_ns)))"

definition status_problem :: "status_event \<Rightarrow> health_finding list" where
  "status_problem status =
     (if fatal_market_data_status status
      then [at_instant ''MARKET_DATA'' ''SUBSCRIPTION_ERROR'' (se_wall_ns status) [status_text status]]
      else if se_code status = REALTIME_BARS_RESET
      then [at_instant BAR_STREAM ''SUBSCRIPTION_RESET'' (se_wall_ns status) [status_text status]] else [])"

definition market_data_type :: "staging \<Rightarrow> string" where
  "market_data_type sg =
     (if sg_market_data_types sg = [''LIVE''] then ''LIVE''
      else if sg_market_data_types sg = [] then ''UNKNOWN''
      else ''MIXED:'' @ join '','' (sort (sg_market_data_types sg)))"

definition whole_session :: "string \<Rightarrow> string \<Rightarrow> time \<Rightarrow> time \<Rightarrow> jval list \<Rightarrow> health_finding" where
  "whole_session stream classification session_open session_close evidence =
     \<lparr>hf_stream = stream, hf_classification = classification, hf_start_utc = session_open,
      hf_end_utc = session_close, hf_duration_seconds = seconds_between session_close session_open,
      hf_evidence = evidence\<rparr>"

definition type_problem :: "staging \<Rightarrow> time \<Rightarrow> time \<Rightarrow> health_finding list" where
  "type_problem sg session_open session_close =
     (if market_data_type sg \<noteq> ''LIVE''
      then [whole_session ''MARKET_DATA'' ''MARKET_DATA_TYPE'' session_open session_close
              [JFmt [JStr ''observed market data type is '', JStr (market_data_type sg), JStr '', not LIVE'']]]
      else [])"

definition incomplete :: "payload \<Rightarrow> bool" where
  "incomplete item \<longleftrightarrow>
     (case pget item ''read_error'' JNull of JNull \<Rightarrow> False | JStr s \<Rightarrow> s \<noteq> [] | _ \<Rightarrow> True)
     \<or> pget item ''salvaged'' JNull = JBool True"

definition integrity_problem :: "time \<Rightarrow> time \<Rightarrow> payload \<Rightarrow> health_finding list" where
  "integrity_problem session_open session_close item =
     (if incomplete item
      then [whole_session ''RAW'' ''RAW_SEGMENT_INCOMPLETE'' session_open session_close
              [JFmt [JObj (sort_key fst item)]]]
      else [])"

definition ns_of :: "time \<Rightarrow> int" where
  "ns_of t = t * 1000"

definition problems_v4 :: "staging \<Rightarrow> time \<Rightarrow> time \<Rightarrow> payload list \<Rightarrow> health_finding list" where
  "problems_v4 sg session_open session_close integrity =
     (let o_ns = ns_of session_open; c_ns = ns_of session_close
      in connectivity_outages (statuses sg) o_ns c_ns
         @ concat (map (stream_problems sg o_ns c_ns) MARKET_STREAMS)
         @ concat (map status_problem (statuses sg))
         @ map (\<lambda>(ns, error). at_instant ''RECORDER'' ''RECORDER_ERROR'' ns [JStr error]) (sg_recorder_errors sg)
         @ type_problem sg session_open session_close
         @ concat (map (integrity_problem session_open session_close) integrity))"

definition advisories_v4 :: "staging \<Rightarrow> time \<Rightarrow> time \<Rightarrow> health_finding list" where
  "advisories_v4 sg session_open session_close =
     (let o_ns = ns_of session_open; c_ns = ns_of session_close
      in auxiliary_advisories (statuses sg) o_ns c_ns
         @ concat (map (stream_advisories sg o_ns c_ns) MARKET_STREAMS))"

record health_report =
  hr_session_open :: time
  hr_session_close :: time
  hr_events :: int
  hr_market_data_type :: string
  hr_health_ok :: bool
  hr_problems :: "health_finding list"
  hr_advisories :: "health_finding list"
  hr_stream_metrics :: "(string \<times> stream_metrics) list"
  hr_auxiliary_farm_statuses :: "status_event list"
  hr_input :: payload

text \<open>
  The result is a dictionary in the source; its constant entries (schema version, semantics, the digest of
  the analyzer's own file) are left out of the record.
\<close>

definition analyze_rows_v4 ::
  "payload list \<Rightarrow> time \<Rightarrow> time \<Rightarrow> payload \<Rightarrow> payload list \<Rightarrow> exn + health_report" where
  "analyze_rows_v4 rows session_open session_close input integrity =
     (if session_close \<le> session_open then Inl (ValueErr (JStr ''session_close must be after session_open''))
      else (let sg = fold add_rows (batched rows) new_staging;
                o_ns = ns_of session_open; c_ns = ns_of session_close;
                problems = problems_v4 sg session_open session_close integrity
            in Inr \<lparr>hr_session_open = session_open, hr_session_close = session_close, hr_events = sg_events sg,
                 hr_market_data_type = market_data_type sg, hr_health_ok = (problems = []),
                 hr_problems = problems, hr_advisories = advisories_v4 sg session_open session_close,
                 hr_stream_metrics = sort_key fst (map (\<lambda>stream.
                   (stream, metrics_of stream (stream_stamps stream sg) o_ns c_ns)) MARKET_STREAMS),
                 hr_auxiliary_farm_statuses = sg_auxiliary_farm_statuses sg, hr_input = input\<rparr>))"

end
