(* ===== verification/Health_Facts.thy ===== *)
theory Health_Facts
  imports Health_V4
begin

text \<open>
  The recorded session as a function of its rows, the cover of the session by bars and gaps, the pieces
  of a gap, and what the statuses of other farms do not change.
\<close>

section \<open>Staging\<close>

lemma concat_batch_from: "concat (batch_from n batch rows) = batch @ rows"
  by (induction n batch rows rule: batch_from.induct) simp_all

lemma fold_batches: "fold add_rows (batched rows) sg = fold stage_row rows sg"
proof -
  have "fold add_rows bs sg = fold stage_row (concat bs) sg" for bs
    by (induction bs arbitrary: sg) (simp_all add: add_rows_def)
  then show ?thesis by (simp add: batched_def concat_batch_from)
qed

definition row_stream :: "payload \<Rightarrow> string" where
  "row_stream row = row_text row ''event_type'' []"

definition row_status :: "payload \<Rightarrow> (int \<times> string) option" where
  "row_status row = (if row_stream row = ''SYSTEM'' then match_error (row_text row ''special_conditions'' [])
     else None)"

definition status_of :: "payload \<Rightarrow> status_event list" where
  "status_of row = (case row_status row of None \<Rightarrow> []
     | Some (code, message) \<Rightarrow>
         [\<lparr>se_wall_ns = row_int row ''local_wall_ns'', se_code = code, se_message = message\<rparr>])"

definition error_of :: "payload \<Rightarrow> (int \<times> string) list" where
  "error_of row =
     (if row_stream row = ''SYSTEM'' \<and> after ''RECORDER_ERROR:'' (row_text row ''special_conditions'' []) \<noteq> None
      then [(row_int row ''local_wall_ns'', row_text row ''special_conditions'' [])] else [])"

definition time_of :: "payload \<Rightarrow> (string \<times> int) list" where
  "time_of row = (if row_stream row \<in> set MARKET_STREAMS
     then [(row_stream row, row_int row ''local_wall_ns'')] else [])"

definition type_of :: "payload \<Rightarrow> string list \<Rightarrow> string list" where
  "type_of row ts = (if row_stream row \<in> set MARKET_STREAMS
     then set_add (row_text row ''market_data_type'' ''UNKNOWN'') ts else ts)"

lemmas stage_defs = stage_row_def row_stream_def row_status_def status_of_def error_of_def time_of_def
  type_of_def Let_def

lemma system_is_no_stream [simp]: "''SYSTEM'' \<notin> set MARKET_STREAMS"
  by (simp add: MARKET_STREAMS_def EVENT_DRIVEN_STREAMS_def BAR_STREAM_def)

lemma stage_row_fields:
  "sg_stream_times (stage_row row sg) = sg_stream_times sg @ time_of row"
  "sg_statuses (stage_row row sg) = sg_statuses sg @ status_of row"
  "sg_recorder_errors (stage_row row sg) = sg_recorder_errors sg @ error_of row"
  "sg_market_data_types (stage_row row sg) = type_of row (sg_market_data_types sg)"
  "sg_events (stage_row row sg) = sg_events sg + 1"
  by (auto simp: stage_defs split: option.splits)

definition staged :: "payload list \<Rightarrow> staging" where
  "staged rows = fold stage_row rows new_staging"

lemma staged_gen:
  "sg_stream_times (fold stage_row rows sg) = sg_stream_times sg @ concat (map time_of rows)"
  "sg_statuses (fold stage_row rows sg) = sg_statuses sg @ concat (map status_of rows)"
  "sg_recorder_errors (fold stage_row rows sg) = sg_recorder_errors sg @ concat (map error_of rows)"
  "sg_market_data_types (fold stage_row rows sg) = fold type_of rows (sg_market_data_types sg)"
  by (induction rows arbitrary: sg) (simp_all add: stage_row_fields)

lemmas staged_fields = staged_gen [of _ new_staging, folded staged_def, simplified new_staging_def, simplified]

lemma staged_alt:
  "sg_stream_times (staged rows) = concat (map time_of rows)"
  "sg_statuses (staged rows) = concat (map status_of rows)"
  "sg_recorder_errors (staged rows) = concat (map error_of rows)"
  "sg_market_data_types (staged rows) = fold type_of rows []"
  by (simp_all add: staged_def staged_gen new_staging_def)

lemma stream_stamps_staged:
  assumes "stream \<in> set MARKET_STREAMS"
  shows "set (stream_stamps stream (staged rows))
           = {row_int row ''local_wall_ns'' | row. row \<in> set rows \<and> row_stream row = stream}"
  using assms by (force simp: stream_stamps_def staged_alt time_of_def split: if_splits)

lemma sorted_statuses [simp]: "sorted (map se_wall_ns (statuses sg))"
  by (simp add: statuses_def)

section \<open>The gaps cover what the stamps do not\<close>

definition covered :: "int \<Rightarrow> int \<Rightarrow> (int \<times> int) list \<Rightarrow> bool" where
  "covered a b gs \<longleftrightarrow> list_ex (\<lambda>(p, q). p \<le> a \<and> b \<le> q) gs"

lemma covered_append [simp]: "covered a b (xs @ ys) \<longleftrightarrow> covered a b xs \<or> covered a b ys"
  by (simp add: covered_def)

lemma covered_simps [simp]: "covered a b [] \<longleftrightarrow> False" "covered a b [(p, q)] \<longleftrightarrow> p \<le> a \<and> b \<le> q"
  by (simp_all add: covered_def)

lemma gap_step_keeps: "covered a b (gs_gaps g) \<Longrightarrow> covered a b (gs_gaps (gap_step o_ns c_ns x g))"
  by (auto simp: gap_step_def Let_def split: option.splits)

lemma gap_fold_keeps: "covered a b (gs_gaps g) \<Longrightarrow> covered a b (gs_gaps (fold (gap_step o_ns c_ns) xs g))"
  by (induction xs arbitrary: g) (simp_all add: gap_step_keeps)

lemma gap_step_later:
  assumes "gs_first g \<noteq> None" and "gs_previous g = Some p"
  shows "gap_step o_ns c_ns x g = g\<lparr>gs_previous := Some (min (max x o_ns) c_ns), gs_last := Some (min (max x o_ns) c_ns),
     gs_rows := gs_rows g + 1,
     gs_gaps := gs_gaps g @ (if min (max x o_ns) c_ns > p then [(p, min (max x o_ns) c_ns)] else [])\<rparr>"
  using assms by (simp add: gap_step_def Let_def)

lemma gap_fold_covers:
  assumes "o_ns \<le> a" "a < b" "b \<le> c_ns" and "\<forall>x\<in>set xs. x < a \<or> b < x"
    and "gs_first g \<noteq> None" "gs_previous g = Some p" "gs_last g = Some p" "p \<le> a"
  shows "covered a b (gs_gaps (fold (gap_step o_ns c_ns) xs g))
         \<or> (\<exists>l. gs_last (fold (gap_step o_ns c_ns) xs g) = Some l \<and> l \<le> a)"
  using assms(4-)
proof (induction xs arbitrary: g p)
  case (Cons x xs)
  show ?case
  proof (cases "x < a")
    case True
    let ?g = "gap_step o_ns c_ns x g" and ?c = "min (max x o_ns) c_ns"
    have "gs_first ?g \<noteq> None" "gs_previous ?g = Some ?c" "gs_last ?g = Some ?c"
      using Cons.prems by (simp_all add: gap_step_later)
    moreover have "?c \<le> a" using True assms(1) by simp
    ultimately show ?thesis using Cons.IH [of ?g ?c] Cons.prems(1) by simp
  next
    case False
    then have "b < x" using Cons.prems(1) by auto
    then have "covered a b (gs_gaps (gap_step o_ns c_ns x g))"
      using Cons.prems assms(1-3) by (auto simp: gap_step_later)
    then show ?thesis by (simp add: gap_fold_keeps)
  qed
qed simp

lemma gap_list_covers:
  assumes "o_ns \<le> a" "a < b" "b \<le> c_ns" and "\<forall>x\<in>set xs. x < a \<or> b < x"
  shows "covered a b (gs_gaps (gap_list o_ns c_ns xs))"
proof -
  let ?start = "\<lparr>gs_first = None, gs_previous = None, gs_last = None, gs_rows = 0, gs_gaps = []\<rparr> :: gap_scan"
  let ?last = "fold (gap_step o_ns c_ns) xs ?start"
  have *: "covered a b (gs_gaps ?last) \<or> (case gs_last ?last of None \<Rightarrow> True | Some l \<Rightarrow> l \<le> a)"
  proof (cases xs)
    case (Cons x ys)
    let ?c = "min (max x o_ns) c_ns" and ?next = "gap_step o_ns c_ns x ?start"
    have g1: "gs_first ?next \<noteq> None" "gs_previous ?next = Some ?c" "gs_last ?next = Some ?c"
      by (simp_all add: gap_step_def Let_def)
    show ?thesis
    proof (cases "x < a")
      case True
      then have "?c \<le> a" using assms(1) by simp
      then show ?thesis
        using gap_fold_covers [OF assms(1-3) _ g1, of ys] assms(4) Cons by auto
    next
      case False
      then have "b < x" using assms(4) Cons by auto
      then have "covered a b (gs_gaps ?next)"
        using assms(1-3) by (auto simp: gap_step_def Let_def)
      then show ?thesis using gap_fold_keeps Cons by simp
    qed
  qed simp
  show ?thesis
    using * assms(1-3) by (auto simp: gap_list_def Let_def split: option.splits)
qed

lemma gap_step_inside:
  assumes "o_ns \<le> c_ns" "\<forall>(p, q)\<in>set (gs_gaps g). o_ns \<le> p \<and> q \<le> c_ns"
    and "\<forall>p. gs_previous g = Some p \<longrightarrow> o_ns \<le> p" and "gs_last g = gs_previous g"
  shows "\<forall>(p, q)\<in>set (gs_gaps (gap_step o_ns c_ns x g)). o_ns \<le> p \<and> q \<le> c_ns"
    and "\<forall>p. gs_previous (gap_step o_ns c_ns x g) = Some p \<longrightarrow> o_ns \<le> p"
    and "gs_last (gap_step o_ns c_ns x g) = gs_previous (gap_step o_ns c_ns x g)"
  using assms by (auto simp: gap_step_def Let_def split: option.splits)

lemma gap_list_inside:
  assumes "(p, q) \<in> set (gs_gaps (gap_list o_ns c_ns xs))" "o_ns \<le> c_ns"
  shows "o_ns \<le> p \<and> q \<le> c_ns"
proof -
  let ?start = "\<lparr>gs_first = None, gs_previous = None, gs_last = None, gs_rows = 0, gs_gaps = []\<rparr> :: gap_scan"
  have "(\<forall>(p, q)\<in>set (gs_gaps (fold (gap_step o_ns c_ns) xs g)). o_ns \<le> p \<and> q \<le> c_ns)
      \<and> (\<forall>p. gs_previous (fold (gap_step o_ns c_ns) xs g) = Some p \<longrightarrow> o_ns \<le> p)
      \<and> gs_last (fold (gap_step o_ns c_ns) xs g) = gs_previous (fold (gap_step o_ns c_ns) xs g)"
    if "\<forall>(p, q)\<in>set (gs_gaps g). o_ns \<le> p \<and> q \<le> c_ns" "\<forall>p. gs_previous g = Some p \<longrightarrow> o_ns \<le> p"
      "gs_last g = gs_previous g" for g
    using that
  proof (induction xs arbitrary: g)
    case (Cons x xs)
    show ?case
      using Cons.IH [OF gap_step_inside [OF assms(2) Cons.prems]] by simp
  qed simp
  from this [of ?start] show ?thesis
    using assms by (auto simp: gap_list_def Let_def split: option.splits if_splits)
qed

section \<open>An outage that began is reported\<close>

lemma mk_finding_outage: "outages_from o_ns c_ns (Some st) sts \<noteq> []"
  if "se_wall_ns st \<le> t" "o_ns \<le> t" "t < c_ns" "\<forall>x\<in>set sts. t < se_wall_ns x"
  using that by (induction sts) (auto simp: unrestored_def Let_def)

lemma fst_status_step:
  "fst (status_step x (l, broken)) = (if se_code x = CONNECTIVITY_LOST then True else if link_restored x then False else l)"
  by (simp add: status_step_def link_restored_def)

lemma outage_reported:
  assumes "sorted (map se_wall_ns sts)" "o_ns \<le> t" "t < c_ns"
    and "\<forall>st. opened = Some st \<longrightarrow> se_wall_ns st \<le> t"
    and "fst (fold status_step (takeWhile (\<lambda>x. se_wall_ns x \<le> t) sts) (opened \<noteq> None, broken))"
  shows "outages_from o_ns c_ns opened sts \<noteq> []"
  using assms(1,4,5)
proof (induction sts arbitrary: opened broken)
  case Nil
  then show ?case using assms(2,3) by (auto simp: unrestored_def)
next
  case (Cons x sts)
  show ?case
  proof (cases "se_wall_ns x \<le> t")
    case False
    then obtain st where "opened = Some st" "se_wall_ns st \<le> t"
      using Cons.prems by auto
    moreover have "\<forall>y\<in>set (x # sts). t < se_wall_ns y"
      using False Cons.prems(1) by auto
    ultimately show ?thesis
      using mk_finding_outage [of st t o_ns c_ns "x # sts"] assms(2,3) by blast
  next
    case True
    then have wall: "\<not> se_wall_ns x > c_ns" using assms(3) by simp
    have srt: "sorted (map se_wall_ns sts)" using Cons.prems(1) by simp
    have step: "fst (fold status_step (takeWhile (\<lambda>x. se_wall_ns x \<le> t) sts)
        (status_step x (opened \<noteq> None, broken)))"
      using Cons.prems(3) True by simp
    let ?lost = "if se_code x = CONNECTIVITY_LOST then True else if link_restored x then False else opened \<noteq> None"
    obtain b where "status_step x (opened \<noteq> None, broken) = (?lost, b)"
      by (cases "status_step x (opened \<noteq> None, broken)")
        (use fst_status_step [of x "opened \<noteq> None" broken] in simp)
    note step' = step [unfolded this]
    note IH = Cons.IH [OF srt, of _ b]
    consider (lost) "se_code x = CONNECTIVITY_LOST" | (again) "se_code x \<noteq> CONNECTIVITY_LOST" "link_restored x"
      | (other) "se_code x \<noteq> CONNECTIVITY_LOST" "\<not> link_restored x" by blast
    then show ?thesis
    proof cases
      case lost
      then show ?thesis
        using wall IH [of "case opened of None \<Rightarrow> Some x | Some st \<Rightarrow> Some st"] step' Cons.prems(2) True
        by (cases opened) simp_all
    next
      case again
      then show ?thesis
        using wall IH [of None] step' by (cases opened) (simp_all add: Let_def)
    next
      case other
      then show ?thesis
        using wall IH [of opened] step' Cons.prems(2) by (cases opened) simp_all
    qed
  qed
qed

lemma lost_is_reported:
  assumes "sorted (map se_wall_ns sts)" "o_ns \<le> t" "t < c_ns" "fst (status_state_at sts t)"
  shows "connectivity_outages sts o_ns c_ns \<noteq> []"
  using outage_reported [OF assms(1-3), of None "[]"] assms(4)
  by (simp add: connectivity_outages_def status_state_at_def)

section \<open>The pieces of a gap\<close>

lemma boundaries:
  assumes "a < b"
  shows "sorted (gap_boundaries sts a b)" and "distinct (gap_boundaries sts a b)"
    and "a \<in> set (gap_boundaries sts a b)" and "b \<in> set (gap_boundaries sts a b)"
    and "\<forall>x\<in>set (gap_boundaries sts a b). a \<le> x \<and> x \<le> b"
  using assms by (auto simp: gap_boundaries_def)

lemma pieces_simps [simp]: "pieces [] = []" "pieces [x] = []" "pieces (x # y # zs) = (x, y) # pieces (y # zs)"
  by (simp_all add: pieces_def)

lemma pieces_sum:
  "sorted (x # xs) \<Longrightarrow> sum_list (map (\<lambda>(p, q). duration_seconds p q) (pieces (x # xs)))
     = duration_seconds x (last (x # xs))"
proof (induction xs arbitrary: x)
  case (Cons y ys)
  then have "y \<le> last (y # ys)"
    by (metis last_in_set list.set_intros(1) list.simps(3) set_ConsD sorted_simps(2) order_refl)
  moreover have "sum_list (map (\<lambda>(p, q). duration_seconds p q) (pieces (y # ys))) = duration_seconds y (last (y # ys))"
    using Cons by simp
  ultimately show ?case
    using Cons.prems by (simp add: duration_seconds_def max_def field_simps split: if_splits)
qed (simp add: duration_seconds_def)

lemma piece_at:
  "sorted (x # xs) \<Longrightarrow> x \<le> t \<Longrightarrow> t < last (x # xs)
     \<Longrightarrow> \<exists>p q. (p, q) \<in> set (pieces (x # xs)) \<and> p \<le> t \<and> t < q"
proof (induction xs arbitrary: x)
  case (Cons y ys)
  then show ?case
  proof (cases "t < y")
    case False
    then show ?thesis using Cons.IH [of y] Cons.prems by fastforce
  qed fastforce
qed simp

lemma pieces_in: "(p, q) \<in> set (pieces xs) \<Longrightarrow> p \<in> set xs \<and> q \<in> set xs"
  by (induction xs rule: induct_list012) auto

lemma pieces_consecutive:
  "sorted xs \<Longrightarrow> (p, q) \<in> set (pieces xs) \<Longrightarrow> z \<in> set xs \<Longrightarrow> z \<le> p \<or> q \<le> z"
proof (induction xs rule: induct_list012)
  case (3 x y zs)
  then show ?case using pieces_in [of p q "y # zs"] by auto
qed auto

lemma boundaries_ends:
  assumes "a < b"
  obtains y ys where "gap_boundaries sts a b = a # y # ys" "a < y" "last (y # ys) = b"
proof -
  let ?l = "gap_boundaries sts a b"
  note bs = boundaries [OF assms, of sts]
  obtain x xs where l: "?l = x # xs" using bs(3) by (cases ?l) auto
  have x: "x = a" using bs l by (auto intro: antisym)
  obtain y ys where ys: "xs = y # ys" using bs(4) l x assms by (cases xs) auto
  have "a < y" using bs(1,2) l x ys by auto
  moreover have "last (y # ys) = b"
  proof (rule antisym)
    show "last (y # ys) \<le> b" using bs(5) l ys by (metis last_ConsR last_in_set list.simps(3))
    have "sorted (y # ys)" "b \<in> set (y # ys)" using bs(1,4) l ys x assms by auto
    then show "b \<le> last (y # ys)"
      by (metis in_set_conv_nth last_conv_nth length_pos_if_in_set less_Suc_eq_le list.simps(3)
          Suc_pred' sorted_nth_mono diff_less zero_less_one)
  qed
  ultimately show thesis using that l x ys by simp
qed

lemma first_piece_explained:
  assumes "a < b" "bar_gap_findings sts a b = []"
  shows "fst (status_state_at sts a)"
proof -
  obtain y ys where l: "gap_boundaries sts a b = a # y # ys" "a < y"
    using boundaries_ends [OF assms(1)] by blast
  show ?thesis
  proof (rule ccontr)
    assume "\<not> fst (status_state_at sts a)"
    then have "piece_findings sts d (a, y) \<noteq> []" for d
      using l(2) by (auto simp: piece_findings_def split: prod.splits)
    then show False using assms(2) l(1) by (simp add: bar_gap_findings_def)
  qed
qed

lemma status_step_other: "se_code x \<notin> set transition_codes \<Longrightarrow> status_step x fs = fs"
  by (auto simp: status_step_def transition_codes_def split: prod.splits)

lemma fold_status_other: "\<forall>x\<in>set xs. se_code x \<notin> set transition_codes \<Longrightarrow> fold status_step xs fs = fs"
  by (induction xs) (simp_all add: status_step_other)

lemma takeWhile_split:
  fixes p t :: int
  assumes "p \<le> t"
  shows "takeWhile (\<lambda>x. f x \<le> t) xs
    = takeWhile (\<lambda>x. f x \<le> p) xs @ takeWhile (\<lambda>x. f x \<le> t) (dropWhile (\<lambda>x. f x \<le> p) xs)"
  using assms by (induction xs) auto

lemma sorted_after_dropWhile:
  fixes p :: int
  shows "sorted (map f xs) \<Longrightarrow> x \<in> set (dropWhile (\<lambda>x. f x \<le> p) xs) \<Longrightarrow> p < f x"
  by (induction xs) (auto split: if_splits)

lemma state_is_constant:
  assumes "sorted (map se_wall_ns sts)" "a < b" "(p, q) \<in> set (pieces (gap_boundaries sts a b))" "p \<le> t" "t < q"
  shows "status_state_at sts t = status_state_at sts p"
proof -
  let ?new = "takeWhile (\<lambda>x. se_wall_ns x \<le> t) (dropWhile (\<lambda>x. se_wall_ns x \<le> p) sts)"
  note bs = boundaries [OF assms(2), of sts]
  have "se_code x \<notin> set transition_codes" if "x \<in> set ?new" for x
  proof
    assume "se_code x \<in> set transition_codes"
    have x: "x \<in> set sts" "p < se_wall_ns x" "se_wall_ns x < q"
      using that assms(1,5) sorted_after_dropWhile [of se_wall_ns sts x p]
      by (auto dest: set_takeWhileD set_dropWhileD)
    moreover have "a \<le> p" "q \<le> b"
      using pieces_in [OF assms(3)] bs(5) by auto
    ultimately have "se_wall_ns x \<in> set (gap_boundaries sts a b)"
      using \<open>se_code x \<in> set transition_codes\<close> by (auto simp: gap_boundaries_def)
    then show False
      using pieces_consecutive [OF bs(1) assms(3)] x by force
  qed
  then have "fold status_step ?new fs = fs" for fs
    by (simp add: fold_status_other)
  then show ?thesis
    using takeWhile_split [OF assms(4), of se_wall_ns sts] by (simp add: status_state_at_def)
qed

definition explained :: "status_event list \<Rightarrow> int \<Rightarrow> int \<Rightarrow> (int \<times> int) list" where
  "explained sts a b = filter (\<lambda>(p, q). fst (status_state_at sts p)) (pieces (gap_boundaries sts a b))"

lemma piece_durations:
  assumes "sorted xs"
  shows "sum_list (map hf_duration_seconds (concat (map (piece_findings sts d) (pieces xs))))
     + sum_list (map (\<lambda>(p, q). duration_seconds p q)
         (filter (\<lambda>(p, q). fst (status_state_at sts p)) (pieces xs)))
     = sum_list (map (\<lambda>(p, q). duration_seconds p q) (pieces xs))"
  using assms
proof (induction xs rule: induct_list012)
  case (3 x y zs)
  then show ?case
    by (auto simp: piece_findings_def mk_finding_def duration_seconds_def split: prod.splits)
qed simp_all

lemma gap_durations:
  assumes "a < b"
  shows "sum_list (map hf_duration_seconds (bar_gap_findings sts a b))
     + sum_list (map (\<lambda>(p, q). duration_seconds p q) (explained sts a b)) = duration_seconds a b"
proof -
  obtain y ys where l: "gap_boundaries sts a b = a # y # ys" "last (y # ys) = b"
    using boundaries_ends [OF assms] by metis
  have srt: "sorted (gap_boundaries sts a b)" by (rule boundaries(1) [OF assms])
  then have "sum_list (map (\<lambda>(p, q). duration_seconds p q) (pieces (gap_boundaries sts a b))) = duration_seconds a b"
    using pieces_sum [of a "y # ys"] l by simp
  then show ?thesis
    using piece_durations [OF srt] by (simp add: bar_gap_findings_def explained_def)
qed

lemma gap_piece_at:
  assumes "sorted (map se_wall_ns sts)" "a \<le> t" "t < b"
  shows "\<exists>p q. (p, q) \<in> set (pieces (gap_boundaries sts a b)) \<and> p \<le> t \<and> t < q
    \<and> status_state_at sts p = status_state_at sts t"
proof -
  have ab: "a < b" using assms by simp
  obtain y ys where l: "gap_boundaries sts a b = a # y # ys" "last (y # ys) = b"
    using boundaries_ends [OF ab] by metis
  then obtain p q where "(p, q) \<in> set (pieces (gap_boundaries sts a b))" "p \<le> t" "t < q"
    using piece_at [of a "y # ys" t] boundaries(1) [OF ab, of sts] assms by auto
  then show ?thesis
    using state_is_constant [OF assms(1) ab] by metis
qed

section \<open>Other farms\<close>

definition auxiliary :: "status_event \<Rightarrow> bool" where
  "auxiliary x \<longleftrightarrow> se_code x \<in> set AUXILIARY_FARM_CODES"

definition auxiliary_row :: "payload \<Rightarrow> bool" where
  "auxiliary_row row \<longleftrightarrow>
     (case row_status row of None \<Rightarrow> False | Some (code, message) \<Rightarrow> code \<in> set AUXILIARY_FARM_CODES)"

abbreviation spy_rows :: "payload list \<Rightarrow> payload list" where
  "spy_rows rows \<equiv> filter (\<lambda>row. \<not> auxiliary_row row) rows"

abbreviation spy :: "status_event list \<Rightarrow> status_event list" where
  "spy sts \<equiv> filter (\<lambda>x. \<not> auxiliary x) sts"

lemmas code_defs = AUXILIARY_FARM_CODES_def HISTORICAL_FARM_BROKEN_def HISTORICAL_FARM_OK_def FARM_INACTIVE_def
  SECDEF_FARM_BROKEN_def SECDEF_FARM_OK_def CONNECTIVITY_LOST_def CONNECTIVITY_RESTORED_DATA_LOST_def
  CONNECTIVITY_RESTORED_DATA_KEPT_def REALTIME_FARM_BROKEN_def REALTIME_FARM_OK_def REALTIME_BARS_RESET_def

lemma auxiliary_other:
  assumes "auxiliary x"
  shows "se_code x \<notin> set transition_codes" and "se_code x \<noteq> CONNECTIVITY_LOST" and "\<not> link_restored x"
    and "status_problem x = []"
  using assms
  by (auto simp: auxiliary_def transition_codes_def link_restored_def status_problem_def fatal_market_data_status_def
      FATAL_MARKET_DATA_CODES_def code_defs)

lemma status_of_spy: "concat (map status_of (spy_rows rows)) = spy (concat (map status_of rows))"
  by (induction rows) (auto simp: auxiliary_row_def status_of_def auxiliary_def split: option.splits)

lemma error_and_status: "match_error s \<noteq> None \<Longrightarrow> after ''RECORDER_ERROR:'' s = None"
  by (cases s) (auto simp: match_error_def)

lemma auxiliary_row_other:
  assumes "auxiliary_row row"
  shows "time_of row = []" and "error_of row = []" and "type_of row ts = ts"
proof -
  have sys: "row_stream row = ''SYSTEM''" "match_error (row_text row ''special_conditions'' []) \<noteq> None"
    using assms by (auto simp: auxiliary_row_def row_status_def split: if_splits option.splits)
  then show "time_of row = []" and "type_of row ts = ts"
    by (simp_all add: time_of_def type_of_def)
  show "error_of row = []"
    using error_and_status [OF sys(2)] by (simp add: error_of_def)
qed

lemma staged_spy:
  "concat (map time_of (spy_rows rows)) = concat (map time_of rows)"
  "concat (map error_of (spy_rows rows)) = concat (map error_of rows)"
  "fold type_of (spy_rows rows) ts = fold type_of rows ts"
  by (induction rows arbitrary: ts) (simp_all add: auxiliary_row_other)

lemma statuses_spy: "statuses (staged (spy_rows rows)) = spy (statuses (staged rows))"
  by (simp add: statuses_def staged_alt status_of_spy filter_sort)

lemma unrestored_late: "\<forall>x\<in>set sts. c_ns < se_wall_ns x \<Longrightarrow>
    outages_from o_ns c_ns opened sts = unrestored o_ns c_ns opened"
  by (cases sts) simp_all

lemma outages_spy:
  "sorted (map se_wall_ns sts) \<Longrightarrow> outages_from o_ns c_ns opened (spy sts) = outages_from o_ns c_ns opened sts"
proof (induction sts arbitrary: opened)
  case (Cons x sts)
  have srt: "sorted (map se_wall_ns sts)" using Cons.prems by simp
  show ?case
  proof (cases "se_wall_ns x > c_ns")
    case True
    then have "\<forall>y\<in>set (spy (x # sts)). c_ns < se_wall_ns y"
      using Cons.prems by (auto simp: order.strict_trans2)
    then have "outages_from o_ns c_ns opened (spy (x # sts)) = unrestored o_ns c_ns opened"
      by (rule unrestored_late)
    then show ?thesis using True by simp
  next
    case False
    then show ?thesis
      by (cases opened; cases "auxiliary x")
        (simp_all add: Cons.IH [OF srt] auxiliary_other Let_def)
  qed
qed simp

lemma takeWhile_sorted:
  fixes t :: int
  shows "sorted (map f xs) \<Longrightarrow> takeWhile (\<lambda>x. f x \<le> t) xs = filter (\<lambda>x. f x \<le> t) xs"
    by (rule takeWhile_eq_filter) (auto dest: sorted_after_dropWhile)

lemma state_spy:
  assumes "sorted (map se_wall_ns sts)"
  shows "status_state_at (spy sts) t = status_state_at sts t"
proof -
  have fold_spy: "fold status_step (spy xs) fs = fold status_step xs fs" for xs fs
    by (induction xs arbitrary: fs) (simp_all add: status_step_other auxiliary_other)
  have "sorted (map se_wall_ns (spy sts))"
    using assms by (rule sorted_filter)
  with assms have "takeWhile (\<lambda>x. se_wall_ns x \<le> t) (spy sts) = spy (takeWhile (\<lambda>x. se_wall_ns x \<le> t) sts)"
    by (simp add: takeWhile_sorted conj_commute)
  then show ?thesis by (simp add: status_state_at_def fold_spy)
qed

lemma boundaries_spy: "gap_boundaries (spy sts) a b = gap_boundaries sts a b"
proof -
  have "filter (\<lambda>x. P x \<and> se_code x \<in> set transition_codes) (spy sts)
      = filter (\<lambda>x. P x \<and> se_code x \<in> set transition_codes) sts" for P
    by (induction sts) (auto simp: auxiliary_other)
  from this [of "\<lambda>x. a < se_wall_ns x \<and> se_wall_ns x < b"] show ?thesis
    by (simp add: gap_boundaries_def)
qed

lemma bar_gap_spy:
  "sorted (map se_wall_ns sts) \<Longrightarrow> bar_gap_findings (spy sts) = bar_gap_findings sts"
proof -
  assume "sorted (map se_wall_ns sts)"
  then have "piece_findings (spy sts) d = piece_findings sts d" for d
    by (simp add: piece_findings_def fun_eq_iff state_spy)
  then have "bar_gap_findings (spy sts) a b = bar_gap_findings sts a b" for a b
    by (simp add: bar_gap_findings_def boundaries_spy del: split_paired_All)
  then show ?thesis by (simp add: fun_eq_iff)
qed

lemma problems_spy:
  "problems_v4 (staged (spy_rows rows)) session_open session_close integrity
     = problems_v4 (staged rows) session_open session_close integrity"
proof -
  have conn: "connectivity_outages (spy sts) a b = connectivity_outages sts a b"
    if "sorted (map se_wall_ns sts)" for sts a b
    using that by (simp add: connectivity_outages_def outages_spy)
  have stamps: "stream_stamps s (staged (spy_rows rows)) = stream_stamps s (staged rows)" for s
    by (simp add: stream_stamps_def staged_alt staged_spy)
  have status: "concat (map status_problem (spy sts)) = concat (map status_problem sts)" for sts
    by (induction sts) (simp_all add: auxiliary_other)
  have type: "market_data_type (staged (spy_rows rows)) = market_data_type (staged rows)"
    by (simp add: market_data_type_def staged_alt staged_spy)
  have streams: "stream_problems (staged (spy_rows rows)) a b = stream_problems (staged rows) a b" for a b
    by (simp add: fun_eq_iff stream_problems_def stream_gaps_def stamps statuses_spy bar_gap_spy)
  show ?thesis
    by (simp add: problems_v4_def Let_def statuses_spy conn streams status type_problem_def type staged_alt staged_spy)
qed

section \<open>The report\<close>

lemma analyze_Inr:
  assumes "analyze_rows_v4 rows session_open session_close input integrity = Inr r"
  shows "session_open < session_close"
    and "hr_problems r = problems_v4 (staged rows) session_open session_close integrity"
    and "hr_health_ok r \<longleftrightarrow> hr_problems r = []"
  using assms by (auto simp: analyze_rows_v4_def Let_def fold_batches staged_def split: if_splits)

lemma no_problems_no_gaps:
  assumes "problems_v4 sg session_open session_close integrity = []" and "session_open \<le> session_close"
  shows "stream_gaps BAR_STREAM sg (ns_of session_open) (ns_of session_close) = []"
proof (rule ccontr)
  let ?o = "ns_of session_open" and ?c = "ns_of session_close"
  assume "stream_gaps BAR_STREAM sg ?o ?c \<noteq> []"
  then obtain a b gs where gs: "stream_gaps BAR_STREAM sg ?o ?c = (a, b) # gs"
    by (metis neq_Nil_conv surj_pair)
  then have big: "(a, b) \<in> set (gs_gaps (gap_list ?o ?c (stream_stamps BAR_STREAM sg)))" "duration_seconds a b > BAR_GAP_SECONDS"
    by (auto simp: stream_gaps_def over_def observation_threshold_def filter_eq_Cons_iff)
  then have ab: "a < b" by (auto simp: duration_seconds_def BAR_GAP_SECONDS_def max_def split: if_splits)
  have "stream_problems sg ?o ?c BAR_STREAM = []" and conn: "connectivity_outages (statuses sg) ?o ?c = []"
    using assms(1) by (auto simp: problems_v4_def Let_def MARKET_STREAMS_def)
  then have "bar_gap_findings (statuses sg) a b = []"
    using gs by (simp add: stream_problems_def EVENT_DRIVEN_STREAMS_def BAR_STREAM_def split: if_splits)
  then have lost: "fst (status_state_at (statuses sg) a)"
    by (rule first_piece_explained [OF ab])
  have "?o \<le> a \<and> b \<le> ?c"
    using gap_list_inside [OF big(1)] assms(2) by (simp add: ns_of_def)
  then show False
    using lost_is_reported [OF sorted_statuses _ _ lost, of ?o ?c] conn ab
    by simp
qed

end
