(* ===== verification/Liveness_Facts.thy ===== *)
theory Liveness_Facts
  imports Market_Liveness
begin

text \<open>
  Histories of the judge and of the incident tracker: which inputs a decision can depend on, what an
  outage verdict rests on, and the accounts of the tracker.
\<close>

section \<open>Histories\<close>

datatype lv_input =
    Subscribed rat
  | Event string rat
  | Transport
  | Halt_tick "rat option"
  | Halt_source bool string
  | Halt_unavailable string
  | Status int string
  | Transport_idle rat
  | Silence string
  | Silence_over
  | Poll rat

fun lv_step :: "lv_input \<Rightarrow> liveness \<Rightarrow> liveness_state list \<times> liveness" where
  "lv_step (Subscribed t) lv = ([], subscription_started t lv)"
| "lv_step (Event s t) lv = ([], note_event s t lv)"
| "lv_step Transport lv = ([], note_transport_activity lv)"
| "lv_step (Halt_tick v) lv = ([], note_halted v lv)"
| "lv_step (Halt_source r d) lv = ([], note_halt_state_source r d lv)"
| "lv_step (Halt_unavailable d) lv = ([], note_halt_state_unavailable d lv)"
| "lv_step (Status c m) lv = ([], note_status c m lv)"
| "lv_step (Transport_idle i) lv = ([], note_transport_idle i lv)"
| "lv_step (Silence r) lv = ([], enter_calendar_silence r lv)"
| "lv_step Silence_over lv = ([], leave_calendar_silence lv)"
| "lv_step (Poll t) lv = (case assess t lv of (st, lv') \<Rightarrow> ([st], lv'))"

fun lv_run :: "lv_input list \<Rightarrow> liveness \<Rightarrow> liveness_state list \<times> liveness" where
  "lv_run [] lv = ([], lv)"
| "lv_run (i # is) lv = (case lv_step i lv of (out, lv1) \<Rightarrow>
     (case lv_run is lv1 of (outs, lv2) \<Rightarrow> (out @ outs, lv2)))"

abbreviation verdicts :: "lv_input list \<Rightarrow> liveness \<Rightarrow> liveness_state list" where
  "verdicts is lv \<equiv> fst (lv_run is lv)"

lemma verdicts_Cons: "verdicts (i # is) lv = fst (lv_step i lv) @ verdicts is (snd (lv_step i lv))"
  by (simp split: prod.splits)

declare lv_run.simps(2) [simp del]
declare verdicts_Cons [simp]

section \<open>What a decision can depend on\<close>

text \<open>A verdict without its report-only part.\<close>

definition decision :: "liveness_state \<Rightarrow> liveness_state" where
  "decision st = st\<lparr>ls_advisory_ages := []\<rparr>"

fun evidence :: "lv_input \<Rightarrow> bool" where
  "evidence (Event s t) \<longleftrightarrow> s = HEARTBEAT_STREAM"
| "evidence Transport \<longleftrightarrow> False"
| "evidence (Halt_source r d) \<longleftrightarrow> False"
| "evidence (Halt_unavailable d) \<longleftrightarrow> False"
| "evidence (Status c m) \<longleftrightarrow>
     c \<in> {CONNECTIVITY_LOST, CONNECTIVITY_RESTORED_DATA_LOST, CONNECTIVITY_RESTORED_DATA_KEPT,
          REALTIME_BARS_RESET, REALTIME_FARM_BROKEN, REALTIME_FARM_OK}"
| "evidence _ \<longleftrightarrow> True"

definition agree :: "liveness \<Rightarrow> liveness \<Rightarrow> bool" where
  "agree lv lv' \<longleftrightarrow>
     lv_bar_timeout_seconds lv = lv_bar_timeout_seconds lv' \<and> lv_started_mono lv = lv_started_mono lv'
     \<and> dget (lv_last_event_mono lv) HEARTBEAT_STREAM = dget (lv_last_event_mono lv') HEARTBEAT_STREAM
     \<and> lv_halted lv = lv_halted lv' \<and> lv_outages lv = lv_outages lv'
     \<and> lv_realtime_farms_degraded lv = lv_realtime_farms_degraded lv'
     \<and> lv_calendar_silence lv = lv_calendar_silence lv' \<and> lv_pending_recover lv = lv_pending_recover lv'"

lemma agree_details: "agree lv lv' \<Longrightarrow> expected_silence_details lv = expected_silence_details lv'"
  by (auto simp: agree_def expected_silence_details_def split: option.splits list.splits)

lemma agree_degraded: "agree lv lv' \<Longrightarrow> degraded_text lv = degraded_text lv'"
  by (simp add: agree_def degraded_text_def)

lemma agree_age: "agree lv lv' \<Longrightarrow> heartbeat_age t lv = heartbeat_age t lv'"
  by (auto simp: agree_def heartbeat_age_def dget_or_def split: option.splits)

lemma agree_assess:
  assumes "agree lv lv'"
  shows "decision (fst (assess t lv)) = decision (fst (assess t lv'))"
    and "agree (snd (assess t lv)) (snd (assess t lv'))"
  using assms agree_details [OF assms] agree_degraded [OF assms] agree_age [OF assms, of t]
  by (auto simp: assess_def Let_def agree_def decision_def mk_state_def split: option.splits prod.splits)

lemmas lv_defs = subscription_started_def note_event_def note_transport_activity_def note_halted_def
  note_halt_state_source_def note_halt_state_unavailable_def note_status_def note_transport_idle_def
  enter_calendar_silence_def leave_calendar_silence_def Let_def

lemma agree_idle: "\<not> evidence i \<Longrightarrow> agree lv lv' \<Longrightarrow> fst (lv_step i lv) = [] \<and> agree (snd (lv_step i lv)) lv'"
  by (cases i) (auto simp: agree_def lv_defs split: option.splits)

lemma agree_step:
  assumes "agree lv lv'"
  shows "map decision (fst (lv_step i lv)) = map decision (fst (lv_step i lv'))
    \<and> agree (snd (lv_step i lv)) (snd (lv_step i lv'))"
proof (cases i)
  case (Poll t)
  then show ?thesis using agree_assess [OF assms, of t] by (auto split: prod.splits)
qed (use assms in \<open>auto simp: agree_def lv_defs split: option.splits\<close>)

lemma agree_run:
  "agree lv lv' \<Longrightarrow> map decision (verdicts is lv) = map decision (verdicts (filter evidence is) lv')"
proof (induction "is" arbitrary: lv lv')
  case (Cons i "is")
  show ?case
  proof (cases "evidence i")
    case True
    then show ?thesis
      using agree_step [OF Cons.prems, of i] Cons.IH [of "snd (lv_step i lv)" "snd (lv_step i lv')"]
      by simp
  next
    case False
    then show ?thesis
      using agree_idle [OF False Cons.prems] Cons.IH [of "snd (lv_step i lv)" lv'] by simp
  qed
qed simp

section \<open>What an outage verdict rests on\<close>

definition seen :: "int \<Rightarrow> lv_input list \<Rightarrow> bool" where
  "seen code is \<longleftrightarrow> list_ex (\<lambda>i. case i of Status c m \<Rightarrow> c = code | _ \<Rightarrow> False) is"

definition outage_inv :: "lv_input list \<Rightarrow> liveness \<Rightarrow> bool" where
  "outage_inv past lv \<longleftrightarrow>
     (dget (lv_outages lv) CONNECTIVITY_LOST \<noteq> None \<longrightarrow> seen CONNECTIVITY_LOST past)
     \<and> (\<forall>why hint. lv_pending_recover lv = Some (FEED_OUTAGE, why, hint)
          \<longrightarrow> seen CONNECTIVITY_RESTORED_DATA_LOST past)
     \<and> (lv_realtime_farms_degraded lv \<noteq> [] \<longrightarrow> seen REALTIME_FARM_BROKEN past)"

definition outage_evidence :: "lv_input list \<Rightarrow> liveness_state \<Rightarrow> bool" where
  "outage_evidence past st \<longleftrightarrow>
     seen CONNECTIVITY_LOST past \<or> seen CONNECTIVITY_RESTORED_DATA_LOST past
     \<or> seen REALTIME_FARM_BROKEN past \<and> ls_heartbeat_lost st"

lemma seen_snoc [simp]: "seen c (past @ [i]) \<longleftrightarrow> seen c past \<or> (case i of Status c' m \<Rightarrow> c' = c | _ \<Rightarrow> False)"
  by (simp add: seen_def)

lemma assess_outage:
  assumes "outage_inv past lv"
  shows "outage_inv past (snd (assess t lv))"
    and "ls_incident_kind (fst (assess t lv)) = Some FEED_OUTAGE \<Longrightarrow> outage_evidence past (fst (assess t lv))"
  using assms
  by (auto simp: assess_def Let_def outage_inv_def outage_evidence_def mk_state_def expected_silence_details_def
      split: option.splits prod.splits if_splits list.splits)

lemma dpop_nonempty: "dpop k d \<noteq> [] \<Longrightarrow> d \<noteq> []"
  by auto

lemma step_outage_inv: "outage_inv past lv \<Longrightarrow> outage_inv (past @ [i]) (snd (lv_step i lv))"
proof (cases i)
  case (Poll t)
  assume "outage_inv past lv"
  from assess_outage(1) [OF this, of t] Poll show ?thesis
    by (simp add: outage_inv_def split: prod.splits)
next
  case (Status c m)
  assume "outage_inv past lv"
  with Status show ?thesis
    by (auto simp: outage_inv_def lv_defs dest: dpop_nonempty)
qed (auto simp: outage_inv_def lv_defs split: option.splits)

lemma run_outage:
  "outage_inv past lv \<Longrightarrow> st \<in> set (verdicts is lv) \<Longrightarrow> ls_incident_kind st = Some FEED_OUTAGE
     \<Longrightarrow> outage_evidence (past @ is) st"
proof (induction "is" arbitrary: past lv)
  case (Cons i "is")
  have mono: "outage_evidence past st \<Longrightarrow> outage_evidence (past @ later) st" for later
    by (auto simp: outage_evidence_def seen_def)
  have "st \<in> set (fst (lv_step i lv)) \<or> st \<in> set (verdicts is (snd (lv_step i lv)))"
    using Cons.prems(2) by auto
  then show ?case
  proof
    assume "st \<in> set (fst (lv_step i lv))"
    then obtain t where "st = fst (assess t lv)"
      by (cases i) (auto split: prod.splits, metis fst_conv)
    then show ?thesis
      using assess_outage(2) [OF Cons.prems(1), of t] Cons.prems(3) mono by blast
  next
    assume "st \<in> set (verdicts is (snd (lv_step i lv)))"
    from Cons.IH [OF step_outage_inv [OF Cons.prems(1)] this Cons.prems(3)]
    show ?thesis by simp
  qed
qed simp

section \<open>The accounts of the tracker\<close>

datatype tr_input = Observe liveness_state rat | Close string rat

fun tr_step :: "tr_input \<Rightarrow> tracker \<Rightarrow> jval list \<times> tracker" where
  "tr_step (Observe st t) tr = observe st t tr"
| "tr_step (Close r t) tr = close_tracker r t tr"

definition tr_run :: "tr_input list \<Rightarrow> tracker \<Rightarrow> tracker" where
  "tr_run is tr = fold (\<lambda>i tr. snd (tr_step i tr)) is tr"

definition total :: "(string \<times> int) list \<Rightarrow> int" where
  "total d = sum_list (map snd d)"

definition open_count :: "tracker \<Rightarrow> string \<Rightarrow> int" where
  "open_count tr k = (case tr_open tr of None \<Rightarrow> 0 | Some inc \<Rightarrow> if kind_value (in_kind inc) = k then 1 else 0)"

definition seconds_ok :: "(string \<times> rat) list \<Rightarrow> (string \<times> rat) list \<Rightarrow> bool" where
  "seconds_ok longest summed \<longleftrightarrow> (\<forall>k. 0 \<le> dget_or longest k 0 \<and> dget_or longest k 0 \<le> dget_or summed k 0)"

lemma seconds_ok_put:
  "seconds_ok longest summed \<Longrightarrow> 0 \<le> d
     \<Longrightarrow> seconds_ok (dput k (max (dget_or longest k 0) d) longest) (dput k (dget_or summed k 0 + d) summed)"
  by (auto simp: seconds_ok_def intro: add_increasing add_increasing2 order_trans)

definition accounts :: "tracker \<Rightarrow> bool" where
  "accounts tr \<longleftrightarrow>
     distinct (map fst (tr_incident_by_kind tr)) \<and> distinct (map fst (tr_completed_by_kind tr))
     \<and> (\<forall>k. dget_or (tr_incident_by_kind tr) k 0 = dget_or (tr_completed_by_kind tr) k 0 + open_count tr k)
     \<and> total (tr_incident_by_kind tr) = tr_next_id tr
     \<and> total (tr_incident_by_kind tr) = total (tr_completed_by_kind tr) + (if tr_open tr = None then 0 else 1)
     \<and> seconds_ok (tr_max_seconds_by_kind tr) (tr_total_seconds_by_kind tr)"

lemma total_dput:
  "distinct (map fst d) \<Longrightarrow> total (dput k v d) = total d - dget_or d k 0 + v"
proof (induction d)
  case (Cons p d)
  then show ?case
    by (cases p) (auto simp: total_def dget_or_def map_of_eq_None_iff)
qed (simp add: total_def)

lemma end_accounts:
  assumes "accounts tr" "tr_open tr = Some inc" "in_kind inc' = in_kind inc" "in_started_mono inc' = in_started_mono inc"
  shows "accounts (snd (end_incident inc' st t r tr))" and "tr_open (snd (end_incident inc' st t r tr)) = None"
  using assms
  by (auto simp: accounts_def end_incident_def Let_def open_count_def total_dput distinct_keys_dput seconds_ok_put
      split: if_splits)

lemma start_accounts:
  assumes "accounts tr" "tr_open tr = None"
  shows "accounts (snd (start_incident k st t tr))"
  using assms
  by (auto simp: accounts_def start_incident_def Let_def open_count_def total_dput distinct_keys_dput)

lemma reopen_accounts:
  assumes "accounts tr" "tr_open tr = Some inc" "in_kind inc' = in_kind inc"
  shows "accounts (tr\<lparr>tr_open := Some inc'\<rparr>)"
  using assms by (auto simp: accounts_def open_count_def)

lemma step_accounts: "accounts tr \<Longrightarrow> accounts (snd (tr_step i tr))"
proof (cases i)
  case (Close r t)
  assume "accounts tr"
  then show ?thesis
    using Close end_accounts(1) [OF \<open>accounts tr\<close> _ refl refl]
    by (auto simp: close_tracker_def case_prod_beta split: option.splits)
next
  case (Observe st t)
  assume ac: "accounts tr"
  show ?thesis
  proof (cases "tr_open tr")
    case None
    then show ?thesis
      using Observe ac start_accounts [OF ac None]
      by (auto simp: observe_def case_prod_beta split: option.splits)
  next
    case (Some inc)
    note e = end_accounts [OF ac Some refl refl]
    note s = start_accounts [OF e]
    note r = reopen_accounts [OF ac Some]
    show ?thesis
    proof (cases "ls_incident_kind st")
      case None
      then show ?thesis
        using Observe Some e(1) [of st t "ls_reason st"] r
        by (auto simp: observe_def case_prod_beta)
    next
      case k: (Some kind)
      have "accounts (snd (start_incident kind st t (snd (end_incident inc st t (ls_reason st) tr))))"
        by (rule s)
      then show ?thesis
        using Observe Some k r
        by (auto simp: observe_def continue_incident_def Let_def case_prod_beta)
    qed
  qed
qed

lemma run_accounts: "accounts tr \<Longrightarrow> accounts (tr_run is tr)"
  unfolding tr_run_def by (induction "is" arbitrary: tr) (simp_all add: step_accounts)

lemma new_accounts: "mk_tracker c = Inr tr \<Longrightarrow> accounts tr"
  by (auto simp: mk_tracker_def accounts_def open_count_def total_def seconds_ok_def split: if_splits)

end
