(* ===== verification/Recording.thy ===== *)
theory Recording
  imports Health_Facts Liveness_Facts
begin

text \<open>
  The properties of market-data recording: the live judge and its incident tracker
  (\<open>market_liveness.py\<close>), and the verdict on a recorded session (\<open>recorder_health_v4.py\<close>).
\<close>

section \<open>The recorded session\<close>

text \<open>
  No hidden hole in a healthy session: every window longer than the bar threshold holds a bar.
\<close>

lemma healthy_rows_have_bars:
  assumes "analyze_rows_v4 rows session_open session_close input integrity = Inr r" and "hr_health_ok r"
    and "ns_of session_open \<le> a" and "b \<le> ns_of session_close" and "duration_seconds a b > BAR_GAP_SECONDS"
  shows "list_ex (\<lambda>row. row_stream row = BAR_STREAM \<and> a \<le> row_int row ''local_wall_ns''
           \<and> row_int row ''local_wall_ns'' \<le> b) rows"
proof (rule ccontr)
  let ?o = "ns_of session_open" and ?c = "ns_of session_close"
  let ?xs = "stream_stamps BAR_STREAM (staged rows)"
  assume "\<not> ?thesis"
  then have out: "\<forall>x\<in>set ?xs. x < a \<or> b < x"
    by (auto simp: stream_stamps_staged MARKET_STREAMS_def list_ex_iff)
  have ab: "a < b"
    using assms(5) by (auto simp: duration_seconds_def BAR_GAP_SECONDS_def max_def split: if_splits)
  obtain p q where pq: "(p, q) \<in> set (gs_gaps (gap_list ?o ?c ?xs))" "p \<le> a" "b \<le> q"
    using gap_list_covers [OF assms(3) ab assms(4) out] by (auto simp: covered_def list_ex_iff)
  then have "duration_seconds p q \<ge> duration_seconds a b"
    by (auto simp: duration_seconds_def max_def divide_right_mono)
  then have "(p, q) \<in> set (stream_gaps BAR_STREAM (staged rows) ?o ?c)"
    using pq(1) assms(5) by (auto simp: stream_gaps_def over_def observation_threshold_def)
  moreover have "stream_gaps BAR_STREAM (staged rows) ?o ?c = []"
    by (rule no_problems_no_gaps [of _ _ _ integrity])
      (use analyze_Inr [OF assms(1)] assms(2) in simp_all)
  ultimately show False by simp
qed

text \<open>
  the statuses of the historical and the security-definition farms, and those of inactive farms,
  neither create nor hide a problem: without their rows the session has the same problems and the same
  verdict.
\<close>

theorem other_farms_change_no_verdict:
  "map_sum id (\<lambda>r. (hr_problems r, hr_health_ok r)) (analyze_rows_v4 rows session_open session_close input integrity)
   = map_sum id (\<lambda>r. (hr_problems r, hr_health_ok r))
       (analyze_rows_v4 (spy_rows rows) session_open session_close input integrity)"
  using problems_spy [of rows session_open session_close integrity]
  by (simp add: analyze_rows_v4_def Let_def fold_batches staged_def)

text \<open>
  C22: a hole of the bars is partitioned exactly: the durations of its findings and of the pieces that a
  lost connection explains sum to the hole, and the piece around any instant is judged by the state at
  that instant: nothing when the connection is lost (reported separately), an outage when a real-time
  farm is degraded, a suspected gap otherwise.
\<close>

definition verdict_at :: "status_event list \<Rightarrow> int \<Rightarrow> string list" where
  "verdict_at sts t = (case status_state_at sts t of (lost, broken) \<Rightarrow>
     if lost then [] else if broken \<noteq> [] then [''FEED_OUTAGE''] else [''GAP_SUSPECTED''])"

theorem bar_gap_is_partitioned:
  assumes "sorted (map se_wall_ns sts)" and "start_ns \<le> t" and "t < end_ns"
  shows "sum_list (map hf_duration_seconds (bar_gap_findings sts start_ns end_ns))
           + sum_list (map (\<lambda>(p, q). duration_seconds p q) (explained sts start_ns end_ns))
         = duration_seconds start_ns end_ns
     \<and> (\<exists>p q. (p, q) \<in> set (pieces (gap_boundaries sts start_ns end_ns)) \<and> p \<le> t \<and> t < q
          \<and> map hf_classification (piece_findings sts (duration_seconds start_ns end_ns) (p, q)) = verdict_at sts t)"
proof
  show "sum_list (map hf_duration_seconds (bar_gap_findings sts start_ns end_ns))
      + sum_list (map (\<lambda>(p, q). duration_seconds p q) (explained sts start_ns end_ns))
      = duration_seconds start_ns end_ns"
    by (rule gap_durations) (use assms in simp)
  obtain p q where pq: "(p, q) \<in> set (pieces (gap_boundaries sts start_ns end_ns))" "p \<le> t" "t < q"
      "status_state_at sts p = status_state_at sts t"
    using gap_piece_at [OF assms] by blast
  then have "map hf_classification (piece_findings sts d (p, q)) = verdict_at sts t" for d
    by (auto simp: piece_findings_def verdict_at_def mk_finding_def split: prod.splits)
  then show "\<exists>p q. (p, q) \<in> set (pieces (gap_boundaries sts start_ns end_ns)) \<and> p \<le> t \<and> t < q
      \<and> map hf_classification (piece_findings sts (duration_seconds start_ns end_ns) (p, q)) = verdict_at sts t"
    using pq by blast
qed

definition demo_statuses :: "status_event list" where
  "demo_statuses = [\<lparr>se_wall_ns = 1000000000, se_code = 2103, se_message = ''broken:usfarm''\<rparr>,
     \<lparr>se_wall_ns = 9000000000, se_code = 2104, se_message = ''ok:usfarm''\<rparr>]"

theorem bar_gap_is_partitioned_witness:
  "sum_list (map hf_duration_seconds (bar_gap_findings demo_statuses 0 20000000000)) = 20
   \<and> verdict_at demo_statuses 5000000000 = [''FEED_OUTAGE'']"
proof -
  have e: "explained demo_statuses 0 20000000000 = []" "verdict_at demo_statuses 5000000000 = [''FEED_OUTAGE'']"
    by code_simp+
  have "sorted (map se_wall_ns demo_statuses)"
    by (simp add: demo_statuses_def)
  from bar_gap_is_partitioned [OF this, of 0 5000000000 20000000000] e show ?thesis
    by (simp add: duration_seconds_def)
qed

section \<open>The live judge\<close>

text \<open>
  the tape is advisory: whatever trades and quotes arrive, whatever the statuses of other farms say and
  whatever the advisory thresholds are, the judge takes the same decisions as on the history stripped to
  bars, subscriptions, halts, session boundaries, polls and the six codes of the connection and the
  real-time farm.
\<close>

theorem tape_is_advisory:
  "map decision (verdicts is lv) = map decision (verdicts (filter evidence is) (lv\<lparr>lv_advisory_thresholds := thresholds\<rparr>))"
  by (rule agree_run) (simp add: agree_def)

text \<open>
  An outage is never inferred from silence alone: over any history of a fresh judge, an assessment of
  kind FEED_OUTAGE comes after a lost connection, after a connection restored with data lost, or after a
  broken real-time farm and then only with the bar heartbeat missing as well.
\<close>

theorem outage_needs_evidence:
  assumes "mk_liveness bar_timeout thresholds = Inr lv" and "st \<in> set (verdicts is lv)"
    and "ls_incident_kind st = Some FEED_OUTAGE"
  shows "seen CONNECTIVITY_LOST is \<or> seen CONNECTIVITY_RESTORED_DATA_LOST is
    \<or> seen REALTIME_FARM_BROKEN is \<and> ls_heartbeat_lost st"
proof -
  have "outage_inv [] lv"
    using assms(1) by (auto simp: mk_liveness_def outage_inv_def split: if_splits)
  from run_outage [OF this assms(2,3)] show ?thesis
    by (simp add: outage_evidence_def)
qed

definition demo_inputs :: "lv_input list" where
  "demo_inputs = [Subscribed 0, Event ''BAR_5S'' 5, Status 2103 ''Market data farm connection is broken:usfarm'',
     Poll 10, Poll 20]"

definition demo_judge :: liveness where
  "demo_judge = \<lparr>lv_bar_timeout_seconds = 12, lv_advisory_thresholds = DEFAULT_ADVISORY_THRESHOLDS,
     lv_started_mono = None, lv_last_event_mono = [], lv_halted = None, lv_outages = [],
     lv_realtime_farms_degraded = [], lv_farm_advisories = [], lv_calendar_silence = None,
     lv_pending_recover = None, lv_transport_evidence = False, lv_suppressed_assessments = 0,
     lv_heartbeat_losses = 0, lv_halt_state_available = None, lv_halt_state_note = None\<rparr>"

lemma demo_judge_new: "mk_liveness 12 None = Inr demo_judge"
  by (simp add: mk_liveness_def demo_judge_def MIN_BAR_TIMEOUT_SECONDS_def BAR_PERIOD_SECONDS_def)

lemma demo_outage: "map ls_incident_kind (verdicts demo_inputs demo_judge) = [None, Some FEED_OUTAGE]"
  by code_simp

theorem outage_needs_evidence_witness: "ls_heartbeat_lost (verdicts demo_inputs demo_judge ! 1)"
proof -
  let ?vs = "verdicts demo_inputs demo_judge"
  have "length ?vs = 2" using arg_cong [OF demo_outage, of length] by simp
  then have st: "?vs ! 1 \<in> set ?vs" "ls_incident_kind (?vs ! 1) = Some FEED_OUTAGE"
    using nth_map [of 1 ?vs ls_incident_kind] demo_outage by (simp_all add: nth_Cons')
  have "\<not> seen CONNECTIVITY_LOST demo_inputs" "\<not> seen CONNECTIVITY_RESTORED_DATA_LOST demo_inputs"
    by code_simp+
  with outage_needs_evidence [OF demo_judge_new st] show ?thesis by simp
qed

text \<open>
  The incident accounts balance: after any assessments and closings, every kind has as many incidents
  begun as completed, plus the open one, ids are numbered by the count of incidents, the manifest's counts
  add up, and no kind's longest incident exceeds its total.
\<close>

theorem incidents_balance:
  assumes "mk_tracker checkpoint = Inr tr0" and "tr = tr_run is tr0"
  shows "dget_or (tr_incident_by_kind tr) k 0 = dget_or (tr_completed_by_kind tr) k 0 + open_count tr k
    \<and> tr_next_id tr = sum_list (map snd (tr_incident_by_kind tr))
    \<and> sum_list (map snd (tr_incident_by_kind tr))
        = sum_list (map snd (tr_completed_by_kind tr)) + (if tr_open tr = None then 0 else 1)
    \<and> dget_or (tr_max_seconds_by_kind tr) k 0 \<le> dget_or (tr_total_seconds_by_kind tr) k 0"
  using run_accounts [OF new_accounts [OF assms(1)], of "is"] assms(2)
  by (simp add: accounts_def total_def seconds_ok_def)

definition demo_tracker :: tracker where
  "demo_tracker = \<lparr>tr_checkpoint_seconds = 60, tr_open = None, tr_next_id = 0, tr_incident_by_kind = [],
     tr_completed_by_kind = [], tr_total_seconds_by_kind = [], tr_max_seconds_by_kind = []\<rparr>"

definition demo_observations :: "tr_input list" where
  "demo_observations =
     [Observe ((mk_state WAIT (JStr ''x''))\<lparr>ls_incident_kind := Some FEED_OUTAGE\<rparr>) 10,
      Observe ((mk_state CONTINUE (JStr ''y''))\<lparr>ls_heartbeat_last_mono := Some 15\<rparr>) 15,
      Observe ((mk_state WAIT (JStr ''z''))\<lparr>ls_incident_kind := Some FEED_OUTAGE\<rparr>) 30]"

theorem incidents_balance_witness:
  "dget_or (tr_completed_by_kind (tr_run demo_observations demo_tracker)) ''FEED_OUTAGE'' 0 = 1
   \<and> dget_or (tr_incident_by_kind (tr_run demo_observations demo_tracker)) ''FEED_OUTAGE'' 0 = 2"
proof -
  have "mk_tracker 60 = Inr demo_tracker"
    by (simp add: mk_tracker_def demo_tracker_def)
  note b = incidents_balance [OF this refl, of demo_observations "''FEED_OUTAGE''"]
  have "dget_or (tr_completed_by_kind (tr_run demo_observations demo_tracker)) ''FEED_OUTAGE'' 0 = 1"
    "open_count (tr_run demo_observations demo_tracker) ''FEED_OUTAGE'' = 1"
    by code_simp+
  with b show ?thesis by simp
qed

end
