(* ===== verification/Health_Evidence.thy ===== *)
theory Health_Evidence
  imports Health_V4
begin

text \<open>
  \<open>recorder_health_v4.py\<close>, the evidence around the analysis: validation of raw rows, the inventory of raw
  segments before and after, reading them, and the one-time publication of the verdict. A directory is the
  list of its files; a decompressed segment is its decoded lines and the error that ends it, if any. What
  \<open>datetime.fromisoformat\<close> makes of a text (an error, a naive or an aware time) is a parameter, as are the
  hashes. A number of a row that is not finite is the value \<open>JFmt\<close>; an integer beyond the range of floats
  is not modelled.
\<close>

section \<open>Raw rows\<close>

definition RAW_EVENT_KEYS :: "string list" where
  "RAW_EVENT_KEYS =
     [''event_id'', ''recorder_run_id'', ''connection_epoch'', ''contract_id'', ''event_type'',
      ''broker_timestamp'', ''local_wall_ns'', ''local_monotonic_ns'', ''market_data_type'',
      ''receive_sequence'', ''bid'', ''ask'', ''bid_size'', ''ask_size'', ''last'', ''last_size'', ''exchange'',
      ''special_conditions'', ''open'', ''high'', ''low'', ''close'', ''volume'', ''wap'', ''trade_count'']"

definition RAW_INTEGER_FIELDS :: "(string \<times> int) list" where
  "RAW_INTEGER_FIELDS =
     [(''event_id'', 1), (''connection_epoch'', 0), (''contract_id'', 0), (''local_wall_ns'', 1),
      (''local_monotonic_ns'', 0), (''receive_sequence'', 1)]"

definition RAW_OPTIONAL_NUMBER_FIELDS :: "string list" where
  "RAW_OPTIONAL_NUMBER_FIELDS =
     [''bid'', ''ask'', ''bid_size'', ''ask_size'', ''last'', ''last_size'', ''open'', ''high'', ''low'', ''close'',
      ''volume'', ''wap'']"

definition names_without :: "string list \<Rightarrow> string list \<Rightarrow> jval" where
  "names_without xs ys = sorted_list (filter (\<lambda>x. x \<notin> set ys) xs)"

definition bad_row :: "jval \<Rightarrow> jval list \<Rightarrow> exn" where
  "bad_row location parts = ValueErr (JFmt (location # JStr '': '' # parts))"

text \<open>A check that fails raises; \<open>checks\<close> raises the first failure.\<close>

fun checks :: "(bool \<times> exn) list \<Rightarrow> exn + unit" where
  "checks [] = Inr ()"
| "checks ((ok, e) # cs) = (if ok then checks cs else Inl e)"

definition non_empty_text :: "jval \<Rightarrow> bool" where
  "non_empty_text v = (case v of JStr s \<Rightarrow> strip s \<noteq> [] | _ \<Rightarrow> False)"

definition int_at_least :: "int \<Rightarrow> jval \<Rightarrow> bool" where
  "int_at_least lowest v = (case v of JInt n \<Rightarrow> lowest \<le> n | _ \<Rightarrow> False)"

fun is_number :: "jval \<Rightarrow> bool" where
  "is_number (JInt n) = True"
| "is_number (JNum r) = True"
| "is_number (JFmt ps) = True"
| "is_number v = False"

fun is_finite :: "jval \<Rightarrow> bool" where
  "is_finite (JFmt ps) = False"
| "is_finite v = True"

definition number_checks :: "jval \<Rightarrow> string \<Rightarrow> jval \<Rightarrow> (bool \<times> exn) list" where
  "number_checks location name v =
     [(v = JNull \<or> is_number v, bad_row location [JStr name, JStr '' must be numeric or null'']),
      (is_finite v, bad_row location [JStr name, JStr '' must be finite''])]"

definition null_or_text :: "jval \<Rightarrow> bool" where
  "null_or_text v = (case v of JNull \<Rightarrow> True | JStr s \<Rightarrow> True | _ \<Rightarrow> False)"

definition known_event_type :: "jval \<Rightarrow> bool" where
  "known_event_type v = (case v of JStr s \<Rightarrow> s \<in> set (MARKET_STREAMS @ [''SYSTEM'']) | _ \<Rightarrow> False)"

definition timestamp_checks :: "(string \<Rightarrow> bool option) \<Rightarrow> jval \<Rightarrow> jval \<Rightarrow> (bool \<times> exn) list" where
  "timestamp_checks parse location v = (case v of
     JStr s \<Rightarrow>
       [(parse s \<noteq> None, bad_row location [JStr ''broker_timestamp is not ISO-8601: '', v]),
        (parse s = Some True, bad_row location [JStr ''broker_timestamp must include UTC offset''])]
   | _ \<Rightarrow> [(False, bad_row location [JStr ''broker_timestamp must be a string''])])"

definition field_checks :: "(string \<Rightarrow> bool option) \<Rightarrow> jval \<Rightarrow> payload \<Rightarrow> (bool \<times> exn) list" where
  "field_checks parse location row =
     (let get = (\<lambda>k. pget row k JNull)
      in [(known_event_type (get ''event_type''),
             bad_row location [JStr ''unknown event_type '', get ''event_type'']),
          (non_empty_text (get ''recorder_run_id''),
             bad_row location [JStr ''recorder_run_id must be non-empty'']),
          (non_empty_text (get ''market_data_type''),
             bad_row location [JStr ''market_data_type must be non-empty''])]
         @ map (\<lambda>(name, lowest). (int_at_least lowest (get name),
             bad_row location [JStr name, JStr '' must be an integer >= '', JInt lowest, JStr ''; got '', get name]))
             RAW_INTEGER_FIELDS
         @ timestamp_checks parse location (get ''broker_timestamp'')
         @ concat (map (\<lambda>name. number_checks location name (get name)) RAW_OPTIONAL_NUMBER_FIELDS)
         @ [(get ''trade_count'' = JNull \<or> int_at_least 0 (get ''trade_count''),
              bad_row location [JStr ''trade_count must be a nonnegative integer or null''])]
         @ map (\<lambda>name. (null_or_text (get name),
             bad_row location [JStr name, JStr '' must be a string or null''])) [''exchange'', ''special_conditions''])"

definition validate_raw_row ::
  "(string \<Rightarrow> bool option) \<Rightarrow> string \<Rightarrow> int \<Rightarrow> jval \<Rightarrow> exn + payload" where
  "validate_raw_row parse segment line_number v =
     (let location = JFmt [JStr segment, JStr '':'', JInt line_number]
      in case v of
        JObj row \<Rightarrow>
          (let keys = map fst row
           in if set keys \<noteq> set RAW_EVENT_KEYS
              then Inl (bad_row location [JStr ''raw schema mismatch; missing='', names_without RAW_EVENT_KEYS keys,
                     JStr ''; unknown='', names_without keys RAW_EVENT_KEYS])
              else ebind (checks (field_checks parse location row)) (\<lambda>_. Inr row))
      | _ \<Rightarrow> Inl (bad_row location [JStr ''raw row must be a JSON object'']))"

section \<open>Raw segments\<close>

record raw_state =
  rs_size :: int
  rs_mtime_ns :: int
  rs_ctime_ns :: int
  rs_device :: int
  rs_inode :: int
  rs_sha256 :: string

datatype raw_line = Decoded jval | Undecodable jval

text \<open>
  A file: whether it is a regular file, its \<open>stat\<close> before and after the hashing (the entry \<open>rs_sha256\<close> of the
  two is the digest read), its lines, and the error that stops the reading (its class and its text).
\<close>

record raw_file =
  rf_name :: string
  rf_regular :: bool
  rf_before :: raw_state
  rf_after :: raw_state
  rf_lines :: "raw_line list"
  rf_error :: "(string \<times> jval) option"

definition ends_with :: "string \<Rightarrow> string \<Rightarrow> bool" where
  "ends_with e s \<longleftrightarrow> after (rev e) (rev s) \<noteq> None"

text \<open>The glob \<open>p*.jsonl.gz\<close>.\<close>

definition matches_glob :: "string \<Rightarrow> string \<Rightarrow> bool" where
  "matches_glob p name =
     (case after p name of None \<Rightarrow> False | Some r \<Rightarrow> ends_with ''.jsonl.gz'' r)"

definition raw_segments :: "raw_file list \<Rightarrow> raw_file list" where
  "raw_segments dir = sort_key rf_name
     (filter (\<lambda>f. matches_glob ''segment-'' (rf_name f) \<or> matches_glob ''crashed-'' (rf_name f)) dir)"

definition same_identity :: "raw_state \<Rightarrow> raw_state \<Rightarrow> bool" where
  "same_identity a b \<longleftrightarrow>
     (rs_size a, rs_mtime_ns a, rs_ctime_ns a, rs_device a, rs_inode a)
       = (rs_size b, rs_mtime_ns b, rs_ctime_ns b, rs_device b, rs_inode b)"

definition capture_file ::
  "raw_file \<Rightarrow> (string \<times> raw_state) list \<Rightarrow> exn + (string \<times> raw_state) list" where
  "capture_file f states =
     (if \<not> rf_regular f
      then Inl (ValueErr (JFmt [JStr ''raw segment must be a regular non-symlink file: '', JStr (rf_name f)]))
      else if \<not> same_identity (rf_before f) (rf_after f)
      then Inl (ValueErr (JFmt [JStr ''raw segment changed while hashing: '', JStr (rf_name f)]))
      else Inr (states @ [(rf_name f, rf_after f)]))"

definition capture_raw_state :: "raw_file list \<Rightarrow> exn + (raw_file list \<times> (string \<times> raw_state) list)" where
  "capture_raw_state dir =
     (if raw_segments dir = [] then Inl (FileNotFound (JStr ''no raw Recorder segments found''))
      else ebind (fold_exn capture_file (raw_segments dir) []) (\<lambda>states. Inr (raw_segments dir, states)))"

definition is_hex :: "nat \<Rightarrow> string \<Rightarrow> bool" where
  "is_hex n s \<longleftrightarrow> length s = n
     \<and> list_all (\<lambda>ch. let c = of_char ch :: nat in 48 \<le> c \<and> c \<le> 57 \<or> 97 \<le> c \<and> c \<le> 102) s"

definition is_raw_name :: "string \<Rightarrow> bool" where
  "is_raw_name name \<longleftrightarrow>
     (after ''segment-'' name \<noteq> None \<or> after ''crashed-'' name \<noteq> None) \<and> ends_with ''.jsonl.gz'' name"

definition manifest_raw_hashes :: "payload \<Rightarrow> exn + (string \<times> string) list" where
  "manifest_raw_hashes p = (case pget p ''files'' JNull of
     JObj files \<Rightarrow>
       (let hashes = map (\<lambda>(name, v). (name, render v)) (filter (\<lambda>(name, v). is_raw_name name) files);
            invalid = map fst (filter (\<lambda>(name, v). \<not> is_hex 64 v) hashes)
        in if hashes = [] then Inl (ValueErr (JStr ''original v3 manifest has no raw segment hashes''))
           else if invalid \<noteq> []
           then Inl (ValueErr (JFmt [JStr ''original v3 manifest has invalid raw SHA-256 values: '',
                  sorted_list invalid]))
           else Inr (sort_key fst hashes))
   | _ \<Rightarrow> Inl (ValueErr (JStr ''original v3 manifest is missing files mapping'')))"

definition describe_state_change ::
  "(string \<times> raw_state) list \<Rightarrow> (string \<times> raw_state) list \<Rightarrow> jval" where
  "describe_state_change before later =
     JFmt [JStr ''added='', names_without (map fst later) (map fst before),
       JStr ''; removed='', names_without (map fst before) (map fst later),
       JStr ''; changed='', sorted_list (filter (\<lambda>name. name \<in> set (map fst later)
         \<and> dget before name \<noteq> dget later name) (map fst before))]"

text \<open>
  \<open>iter_raw_rows\<close> on one segment: its rows up to the first error, and its integrity record. \<open>reading\<close> gives a
  captured file as it is when it is read, which is later. The errors of a file are those the code catches; a line
  that is not UTF-8 (\<open>UnicodeDecodeError\<close>) and a broken stream (\<open>zlib.error\<close>) are not among them: they end the
  reanalysis with an exception and no report, and are outside the model.
\<close>

fun read_lines ::
  "(string \<Rightarrow> bool option) \<Rightarrow> string \<Rightarrow> (string \<times> jval) option \<Rightarrow> raw_line list \<Rightarrow> int
     \<Rightarrow> payload list \<times> int \<times> jval option"
where
  "read_lines parse name last_error [] n =
     ([], n, map_option (\<lambda>(cls, text). JFmt [JStr cls, JStr '': '', text]) last_error)"
| "read_lines parse name last_error (Undecodable d # ls) n = ([], n + 1, Some (JFmt [JStr ''JSONDecodeError: '', d]))"
| "read_lines parse name last_error (Decoded v # ls) n =
     (case validate_raw_row parse name (n + 1) v of
        Inl e \<Rightarrow> ([], n + 1, Some (JFmt [JStr ''RawRowValidationError: '', exn_message e]))
      | Inr row \<Rightarrow> (case read_lines parse name last_error ls (n + 1) of (rows, m, err) \<Rightarrow> (row # rows, m, err)))"

definition read_segment ::
  "(string \<Rightarrow> bool option) \<Rightarrow> (raw_file \<Rightarrow> raw_file) \<Rightarrow> raw_file \<Rightarrow> payload list \<times> payload" where
  "read_segment parse reading f =
     (case read_lines parse (rf_name f) (rf_error (reading f)) (rf_lines (reading f)) 0 of (rows, n, err) \<Rightarrow>
       (rows, [(''segment'', JStr (rf_name f)), (''rows_read'', JInt n),
               (''compressed_bytes'', JInt (rs_size (rf_after (reading f)))), (''read_error'', j_opt id err),
               (''salvaged'', JBool (after ''crashed-'' (rf_name f) \<noteq> None))]))"

definition iter_raw_rows ::
  "(string \<Rightarrow> bool option) \<Rightarrow> (raw_file \<Rightarrow> raw_file) \<Rightarrow> raw_file list \<Rightarrow> payload list \<times> payload list" where
  "iter_raw_rows parse reading segments =
     (concat (map (fst \<circ> read_segment parse reading) segments), map (snd \<circ> read_segment parse reading) segments)"

section \<open>Reanalysis\<close>

definition hashes_of :: "(string \<times> raw_state) list \<Rightarrow> (string \<times> string) list" where
  "hashes_of states = map (\<lambda>(name, st). (name, rs_sha256 st)) states"

definition same_dict :: "(string \<times> 'v) list \<Rightarrow> (string \<times> 'v) list \<Rightarrow> bool" where
  "same_dict a b \<longleftrightarrow> list_all (\<lambda>k. dget a k = dget b k) (map fst a @ map fst b)"

definition inventory_error :: "(string \<times> string) list \<Rightarrow> (string \<times> string) list \<Rightarrow> exn" where
  "inventory_error expected found =
     ValueErr (JFmt [JStr ''raw segment inventory/hash does not match original v3 manifest; manifest_only='',
       names_without (map fst expected) (map fst found), JStr ''; raw_only='',
       names_without (map fst found) (map fst expected), JStr ''; hash_mismatch='',
       sorted_list (filter (\<lambda>name. name \<in> set (map fst expected) \<and> dget found name \<noteq> dget expected name)
         (map fst found))])"

definition verification_note :: jval where
  "verification_note = JObj [(''segment_inventory_stable'', JBool True), (''pre_and_post_sha256_match'', JBool True),
     (''compressed_sha256_scan_passes'', JInt 2), (''semantic_decode_passes'', JInt 1)]"

text \<open>
  \<open>dir\<close> and \<open>dir'\<close> are the directory as it is found before and after the analysis, \<open>reading\<close> what is read in between.
\<close>

definition reanalyze_raw_v4 ::
  "(string \<Rightarrow> bool option) \<Rightarrow> ((string \<times> string) list \<Rightarrow> string) \<Rightarrow> raw_file list \<Rightarrow> (raw_file \<Rightarrow> raw_file)
     \<Rightarrow> raw_file list \<Rightarrow> time \<Rightarrow> time \<Rightarrow> (string \<times> string) list option \<Rightarrow> exn + (health_report \<times> payload)" where
  "reanalyze_raw_v4 parse digest dir reading dir' session_open session_close expected =
     ebind (capture_raw_state dir) (\<lambda>(segments, before).
     (let hashes = hashes_of before
      in case (case expected of None \<Rightarrow> None | Some x \<Rightarrow> if same_dict hashes x then None else Some x) of
        Some x \<Rightarrow> Inl (inventory_error x hashes)
      | None \<Rightarrow>
        (case iter_raw_rows parse reading segments of (rows, integrity) \<Rightarrow>
         (let input = [(''raw_segment_count'', JInt (int (length segments))),
                (''raw_file_sha256'', JObj (map (\<lambda>(k, v). (k, JStr v)) hashes)),
                (''raw_input_sha256'', JStr (digest (sort_key fst hashes))),
                (''original_manifest_inventory_match'', JBool (expected \<noteq> None))]
          in ebind (analyze_rows_v4 rows session_open session_close input integrity) (\<lambda>health.
             ebind (capture_raw_state dir') (\<lambda>(_, later).
               if \<not> same_dict before later
               then Inl (ValueErr (JFmt [JStr ''raw evidence changed between attestation and semantic analysis; '',
                      describe_state_change before later]))
               else (let input' = input @ [(''verification'', verification_note)]
                     in Inr (health\<lparr>hr_input := input'\<rparr>,
                          (''integrity'', JList (map JObj integrity)) # input'))))))))"

section \<open>Publication\<close>

datatype document = Health_file health_report | Amendment_file string bool

datatype 'a out_file = Missing | Partial | Complete 'a

record out_dir =
  od_health :: "document out_file"
  od_amendment :: "document out_file"
  od_faults :: "bool list"

definition od_call :: "string \<Rightarrow> (out_dir \<Rightarrow> out_dir) \<Rightarrow> (out_dir, unit) prog" where
  "od_call what f =
     reads od_faults (\<lambda>fs.
     seqP (modP (\<lambda>d. d\<lparr>od_faults := tl fs\<rparr>))
       (if fs \<noteq> [] \<and> hd fs then raise (OSErr (JStr what)) else modP f))"

text \<open>
  \<open>_create_durable\<close> on one of the two targets: exclusive creation, the writes, the two flushes.
\<close>

definition create_durable ::
  "(out_dir \<Rightarrow> document out_file) \<Rightarrow> (document out_file \<Rightarrow> out_dir \<Rightarrow> out_dir) \<Rightarrow> document \<Rightarrow> (out_dir, unit) prog" where
  "create_durable get put payload = reads get (\<lambda>present.
     if present \<noteq> Missing then raise (OSErr (JStr ''file exists''))
     else block
       [od_call ''open'' (put Partial), od_call ''write'' (put (Complete payload)), od_call ''fsync'' id,
        od_call ''fsync directory'' id])"

abbreviation put_health :: "document out_file \<Rightarrow> out_dir \<Rightarrow> out_dir" where
  "put_health x d \<equiv> d\<lparr>od_health := x\<rparr>"

abbreviation put_amendment :: "document out_file \<Rightarrow> out_dir \<Rightarrow> out_dir" where
  "put_amendment x d \<equiv> d\<lparr>od_amendment := x\<rparr>"

text \<open>The originals are their decoded JSON values, \<open>None\<close> where the text is not JSON.\<close>

definition original_hashes :: "jval option \<Rightarrow> jval option \<Rightarrow> exn + (string \<times> string) list" where
  "original_hashes health manifest = (case (health, manifest) of
     (Some (JObj h), Some (JObj m)) \<Rightarrow> manifest_raw_hashes m
   | (Some _, Some _) \<Rightarrow> Inl (ValueErr (JStr ''original v3 health and manifest must be JSON objects''))
   | _ \<Rightarrow> Inl (ValueErr (JStr ''original v3 health/manifest is not valid JSON'')))"

definition write_reanalysis_v4 ::
  "(string \<Rightarrow> bool option) \<Rightarrow> ((string \<times> string) list \<Rightarrow> string) \<Rightarrow> (health_report \<Rightarrow> string) \<Rightarrow> raw_file list
     \<Rightarrow> (raw_file \<Rightarrow> raw_file) \<Rightarrow> raw_file list \<Rightarrow> time \<Rightarrow> time \<Rightarrow> jval option \<Rightarrow> jval option \<Rightarrow> (out_dir, unit) prog" where
  "write_reanalysis_v4 parse digest sha dir reading dir' session_open session_close health manifest =
     reads (\<lambda>d. (od_health d, od_amendment d)) (\<lambda>present.
       if present \<noteq> (Missing, Missing)
       then raise (OSErr (JStr ''v4 reanalysis target already exists (or a prior attempt is incomplete)''))
       else bindP (liftE (original_hashes health manifest)) (\<lambda>expected.
            bindP (liftE (reanalyze_raw_v4 parse digest dir reading dir' session_open session_close (Some expected)))
              (\<lambda>(report, _). block
                [create_durable od_health put_health (Health_file report),
                 create_durable od_amendment put_amendment (Amendment_file (sha report) (hr_health_ok report))])))"

end
