(* ===== verification/Reanalysis.thy ===== *)
theory Reanalysis
  imports Recording Health_Evidence
begin

text \<open>
  The properties of the offline reanalysis of a recorded session: what a healthy verdict says of the
  recorded files, and how the verdict is published.
\<close>

section \<open>Reading and capturing\<close>

lemma checks_Inr: "checks cs = Inr () \<longleftrightarrow> list_all fst cs"
  by (induction cs rule: checks.induct) auto

lemma field_checks_place: "map fst (field_checks parse loc row) = map fst (field_checks parse loc' row)"
  by (auto simp: field_checks_def timestamp_checks_def Let_def RAW_INTEGER_FIELDS_def RAW_OPTIONAL_NUMBER_FIELDS_def
      number_checks_def split: jval.splits)

definition valid_line :: "(string \<Rightarrow> bool option) \<Rightarrow> raw_line \<Rightarrow> bool" where
  "valid_line parse l = (case l of
     Decoded (JObj row) \<Rightarrow> set (map fst row) = set RAW_EVENT_KEYS \<and> list_all fst (field_checks parse JNull row)
   | _ \<Rightarrow> False)"

lemma valid_row:
  assumes "validate_raw_row parse segment n v = Inr row"
  shows "v = JObj row" and "valid_line parse (Decoded v)"
proof -
  let ?loc = "JFmt [JStr segment, JStr '':'', JInt n]"
  show v: "v = JObj row"
    using assms by (auto simp: validate_raw_row_def Let_def ebind_Inr_iff split: jval.splits if_splits)
  have "set (map fst row) = set RAW_EVENT_KEYS" "list_all fst (field_checks parse ?loc row)"
    using assms v by (auto simp: validate_raw_row_def Let_def ebind_Inr_iff checks_Inr split: if_splits)
  moreover have "list_all id (map fst (field_checks parse ?loc row)) = list_all id (map fst (field_checks parse JNull row))"
    using field_checks_place [of parse ?loc row JNull] by simp
  ultimately show "valid_line parse (Decoded v)"
    using v by (simp add: valid_line_def list.pred_map)
qed

text \<open>A segment that can be read to its end: every line decodes to a valid row, and no error ends it.\<close>

definition intact :: "(string \<Rightarrow> bool option) \<Rightarrow> raw_file \<Rightarrow> bool" where
  "intact parse f \<longleftrightarrow> rf_error f = None \<and> list_all (valid_line parse) (rf_lines f)"

lemma read_lines_complete:
  "read_lines parse name err ls n = (rows, m, None) \<Longrightarrow>
     err = None \<and> map (Decoded \<circ> JObj) rows = ls \<and> list_all (valid_line parse) ls"
proof (induction ls arbitrary: n rows)
  case (Cons l ls)
  show ?case
  proof (cases l)
    case (Decoded v)
    then obtain row rest where "validate_raw_row parse name (n + 1) v = Inr row" "rows = row # rest"
        "read_lines parse name err ls (n + 1) = (rest, m, None)"
      using Cons.prems by (auto split: sum.splits prod.splits)
    then show ?thesis
      using Cons.IH [of "n + 1" rest] Decoded valid_row [of parse name "n + 1" v row] by auto
  qed (use Cons.prems in simp)
qed simp

lemma read_lines_error: "read_lines parse name err ls n = (rows, m, Some d) \<Longrightarrow> \<exists>ps. d = JFmt ps"
proof (induction ls arbitrary: n rows)
  case (Cons l ls)
  then show ?case by (cases l) (auto split: sum.splits prod.splits)
qed auto

lemma read_segment_intact:
  assumes "\<not> incomplete (snd (read_segment parse reading f))"
  shows "intact parse (reading f)" and "after ''crashed-'' (rf_name f) = None"
    and "map (Decoded \<circ> JObj) (fst (read_segment parse reading f)) = rf_lines (reading f)"
proof -
  obtain rows n err where r: "read_lines parse (rf_name f) (rf_error (reading f)) (rf_lines (reading f)) 0 = (rows, n, err)"
    by (metis surj_pair)
  have item: "pget (snd (read_segment parse reading f)) ''read_error'' JNull = j_opt id err"
    "pget (snd (read_segment parse reading f)) ''salvaged'' JNull = JBool (after ''crashed-'' (rf_name f) \<noteq> None)"
    by (simp_all add: read_segment_def r)
  show "after ''crashed-'' (rf_name f) = None"
    using assms item by (auto simp: incomplete_def)
  have "err = None"
    using assms item(1) read_lines_error r by (cases err) (fastforce simp: incomplete_def)+
  with r have fin: "read_lines parse (rf_name f) (rf_error (reading f)) (rf_lines (reading f)) 0 = (rows, n, None)"
    by simp
  from read_lines_complete [OF this] show "intact parse (reading f)"
    by (simp add: intact_def)
  have "fst (read_segment parse reading f) = rows"
    by (simp add: read_segment_def r)
  with read_lines_complete [OF fin] show "map (Decoded \<circ> JObj) (fst (read_segment parse reading f)) = rf_lines (reading f)"
    by simp
qed

lemma capture_files:
  "fold_exn capture_file fs states = Inr states' \<Longrightarrow>
     states' = states @ map (\<lambda>f. (rf_name f, rf_after f)) fs \<and> list_all rf_regular fs"
proof (induction fs arbitrary: states)
  case (Cons f fs)
  obtain st where st: "capture_file f states = Inr st" "fold_exn capture_file fs st = Inr states'"
    using Cons.prems by (auto simp: ebind_Inr_iff)
  then have "rf_regular f" "fold_exn capture_file fs (states @ [(rf_name f, rf_after f)]) = Inr states'"
    by (auto simp: capture_file_def split: if_splits)
  with Cons.IH [OF this(2)] show ?case by simp
qed simp

lemma capture_Inr:
  assumes "capture_raw_state dir = Inr (segments, states)"
  shows "segments = raw_segments dir" and "states = map (\<lambda>f. (rf_name f, rf_after f)) (raw_segments dir)"
    and "list_all rf_regular (raw_segments dir)"
  using assms capture_files [of "raw_segments dir" "[]"]
  by (auto simp: capture_raw_state_def ebind_Inr_iff split: if_splits)

lemma dget_states:
  assumes "distinct (map rf_name fs)" "f \<in> set fs"
  shows "dget (map (\<lambda>f. (rf_name f, g f)) fs) (rf_name f) = Some (g f)"
  using assms by (induction fs) (auto simp: image_iff)

lemma distinct_raw_segments: "distinct (map rf_name dir) \<Longrightarrow> distinct (map rf_name (raw_segments dir))"
  by (auto simp: raw_segments_def distinct_map inj_on_def)

section \<open>The verdict\<close>

lemma reanalyze_Inr:
  assumes "reanalyze_raw_v4 parse digest dir reading dir' session_open session_close (Some expected) = Inr (report, meta)"
  obtains input health where
    "analyze_rows_v4 (fst (iter_raw_rows parse reading (raw_segments dir))) session_open session_close input
       (snd (iter_raw_rows parse reading (raw_segments dir))) = Inr health"
    and "hr_health_ok report = hr_health_ok health"
    and "same_dict (hashes_of (map (\<lambda>f. (rf_name f, rf_after f)) (raw_segments dir))) expected"
    and "same_dict (map (\<lambda>f. (rf_name f, rf_after f)) (raw_segments dir))
           (map (\<lambda>f. (rf_name f, rf_after f)) (raw_segments dir'))"
proof -
  let ?states = "\<lambda>d. map (\<lambda>f. (rf_name f, rf_after f)) (raw_segments d)"
  obtain segments before where c: "capture_raw_state dir = Inr (segments, before)"
    using assms(1) by (cases "capture_raw_state dir") (auto simp: reanalyze_raw_v4_def)
  have seg: "segments = raw_segments dir" "before = ?states dir"
    using capture_Inr [OF c] by simp_all
  have inv: "same_dict (hashes_of before) expected"
    using assms(1) c by (auto simp: reanalyze_raw_v4_def Let_def split: if_splits)
  obtain input health segments' later where h:
      "analyze_rows_v4 (fst (iter_raw_rows parse reading segments)) session_open session_close input
         (snd (iter_raw_rows parse reading segments)) = Inr health"
      "capture_raw_state dir' = Inr (segments', later)" "same_dict before later" "hr_health_ok report = hr_health_ok health"
    using assms(1) c inv
    by (auto simp: reanalyze_raw_v4_def Let_def ebind_Inr_iff case_prod_beta split: if_splits)
  have "later = ?states dir'"
    using capture_Inr(2) [OF h(2)] .
  then show thesis
    using that [of _ health] h inv seg by simp
qed

definition bar_line :: "int \<Rightarrow> int \<Rightarrow> raw_line \<Rightarrow> bool" where
  "bar_line a b l = (case l of
     Decoded (JObj row) \<Rightarrow> row_stream row = BAR_STREAM \<and> a \<le> row_int row ''local_wall_ns'' \<and> row_int row ''local_wall_ns'' \<le> b
   | _ \<Rightarrow> False)"

definition bound :: "(string \<Rightarrow> bool option) \<Rightarrow> (raw_file \<Rightarrow> raw_file) \<Rightarrow> (string \<times> string) list \<Rightarrow> raw_file list \<Rightarrow> raw_file \<Rightarrow> bool" where
  "bound parse reading expected later f \<longleftrightarrow>
     intact parse (reading f) \<and> after ''crashed-'' (rf_name f) = None \<and> rf_regular f
     \<and> dget expected (rf_name f) = Some (rs_sha256 (rf_after f))
     \<and> dget (map (\<lambda>g. (rf_name g, rf_after g)) (raw_segments later)) (rf_name f) = Some (rf_after f)"

text \<open>
  C21: a healthy reanalysis is evidence about the recorded files: every raw segment is a regular file that
  decoded, when it was read, to its end into rows of the frozen schema, is not a salvaged one, carries the hash of the original
  manifest and is unchanged after the analysis; and every window of the session longer than the bar
  threshold has a five-second bar on some line of those segments.
\<close>

theorem healthy_reanalysis_is_evidence:
  assumes "reanalyze_raw_v4 parse digest dir reading dir' session_open session_close (Some expected) = Inr (report, meta)"
    and "hr_health_ok report" and "distinct (map rf_name dir)"
    and "ns_of session_open \<le> a" and "b \<le> ns_of session_close" and "duration_seconds a b > BAR_GAP_SECONDS"
  shows "list_all (bound parse reading expected dir') (raw_segments dir)
    \<and> list_ex (\<lambda>f. list_ex (bar_line a b) (rf_lines (reading f))) (raw_segments dir)"
proof -
  let ?fs = "raw_segments dir" and ?item = "\<lambda>f. snd (read_segment parse reading f)"
  let ?states = "\<lambda>fs. map (\<lambda>f. (rf_name f, rf_after f)) fs"
  obtain input health where
    health: "analyze_rows_v4 (fst (iter_raw_rows parse reading ?fs)) session_open session_close input (snd (iter_raw_rows parse reading ?fs))
        = Inr health" "hr_health_ok report = hr_health_ok health"
    and dicts: "same_dict (hashes_of (?states ?fs)) expected" "same_dict (?states ?fs) (?states (raw_segments dir'))"
    using reanalyze_Inr [OF assms(1)] by blast
  have regular: "list_all rf_regular ?fs"
    using assms(1) by (auto simp: reanalyze_raw_v4_def ebind_Inr_iff dest!: capture_Inr(3))
  have ok: "hr_health_ok health" using assms(2) health(2) by simp
  have whole: "\<not> incomplete (?item f)" if "f \<in> set ?fs" for f
  proof -
    have "problems_v4 (staged (fst (iter_raw_rows parse reading ?fs))) session_open session_close (snd (iter_raw_rows parse reading ?fs)) = []"
      using analyze_Inr [OF health(1)] ok by simp
    then show ?thesis
      using that by (auto simp: problems_v4_def Let_def iter_raw_rows_def integrity_problem_def split: if_splits)
  qed
  note dist = distinct_raw_segments [OF assms(3)]
  have "bound parse reading expected dir' f" if f: "f \<in> set ?fs" for f
  proof -
    have "dget (hashes_of (?states ?fs)) (rf_name f) = Some (rs_sha256 (rf_after f))"
      using dget_states [OF dist f, of "\<lambda>f. rs_sha256 (rf_after f)"] by (simp add: hashes_of_def comp_def)
    moreover have "dget (hashes_of (?states ?fs)) (rf_name f) = dget expected (rf_name f)"
      using dicts(1) f by (auto simp: same_dict_def list_all_iff hashes_of_def)
    moreover have "dget (?states ?fs) (rf_name f) = Some (rf_after f)"
      by (rule dget_states [OF dist f])
    moreover have "dget (?states ?fs) (rf_name f) = dget (?states (raw_segments dir')) (rf_name f)"
      using dicts(2) f by (auto simp: same_dict_def list_all_iff)
    ultimately show ?thesis
      using read_segment_intact [OF whole [OF f]] regular f by (simp add: bound_def list_all_iff)
  qed
  moreover have "list_ex (\<lambda>f. list_ex (bar_line a b) (rf_lines (reading f))) ?fs"
  proof -
    from healthy_rows_have_bars [OF health(1) ok assms(4-6)]
    obtain f row where f: "f \<in> set ?fs" "row \<in> set (fst (read_segment parse reading f))"
      and row: "row_stream row = BAR_STREAM" "a \<le> row_int row ''local_wall_ns''" "row_int row ''local_wall_ns'' \<le> b"
      by (auto simp: list_ex_iff iter_raw_rows_def)
    have "Decoded (JObj row) \<in> set (map (Decoded \<circ> JObj) (fst (read_segment parse reading f)))"
      using f(2) by simp
    then have "Decoded (JObj row) \<in> set (rf_lines (reading f))"
      using read_segment_intact(3) [OF whole [OF f(1)]] by simp
    moreover have "bar_line a b (Decoded (JObj row))" using row by (simp add: bar_line_def)
    ultimately show ?thesis using f(1) by (auto simp: list_ex_iff)
  qed
  ultimately show ?thesis by (simp add: list_all_iff)
qed

definition demo_raw_row :: "string \<Rightarrow> int \<Rightarrow> payload" where
  "demo_raw_row stream ns =
     [(''event_id'', JInt 1), (''recorder_run_id'', JStr ''r''), (''connection_epoch'', JInt 0),
      (''contract_id'', JInt 756733), (''event_type'', JStr stream), (''broker_timestamp'', JStr ''t''),
      (''local_wall_ns'', JInt ns), (''local_monotonic_ns'', JInt ns), (''market_data_type'', JStr ''LIVE''),
      (''receive_sequence'', JInt 1), (''bid'', JNull), (''ask'', JNull), (''bid_size'', JNull), (''ask_size'', JNull),
      (''last'', JNull), (''last_size'', JNull), (''exchange'', JNull), (''special_conditions'', JNull),
      (''open'', JInt 1), (''high'', JInt 1), (''low'', JInt 1), (''close'', JInt 1), (''volume'', JInt 1), (''wap'', JInt 1),
      (''trade_count'', JInt 1)]"

definition demo_sha :: string where
  "demo_sha = replicate 64 CHR ''a''"

definition demo_file :: raw_file where
  "demo_file =
     (let st = \<lparr>rs_size = 1, rs_mtime_ns = 1, rs_ctime_ns = 1, rs_device = 1, rs_inode = 1, rs_sha256 = demo_sha\<rparr>
      in \<lparr>rf_name = ''segment-1.jsonl.gz'', rf_regular = True, rf_before = st, rf_after = st,
          rf_lines = map (\<lambda>n. Decoded (JObj (demo_raw_row ''BAR_5S'' (n * 1000000000)))) [5, 15, 25], rf_error = None\<rparr>)"

definition demo_hashes :: "(string \<times> string) list" where
  "demo_hashes = [(''segment-1.jsonl.gz'', demo_sha)]"

abbreviation demo_reanalysis :: "exn + (health_report \<times> payload)" where
  "demo_reanalysis \<equiv> reanalyze_raw_v4 (\<lambda>_. Some True) (\<lambda>_. ''d'') [demo_file] id [demo_file] 0 30000000 (Some demo_hashes)"

lemma demo_captured:
  "capture_raw_state [demo_file] = Inr ([demo_file], [(''segment-1.jsonl.gz'', rf_after demo_file)])"
  by code_simp

lemma demo_read:
  "iter_raw_rows (\<lambda>_. Some True) id [demo_file]
     = (map (\<lambda>n. demo_raw_row ''BAR_5S'' (n * 1000000000)) [5, 15, 25],
        [[(''segment'', JStr ''segment-1.jsonl.gz''), (''rows_read'', JInt 3), (''compressed_bytes'', JInt 1),
          (''read_error'', JNull), (''salvaged'', JBool False)]])"
  by code_simp

lemma demo_no_problems:
  "problems_v4 (staged (map (\<lambda>n. demo_raw_row ''BAR_5S'' (n * 1000000000)) [5, 15, 25])) 0 30000000
     [[(''segment'', JStr ''segment-1.jsonl.gz''), (''rows_read'', JInt 3), (''compressed_bytes'', JInt 1),
       (''read_error'', JNull), (''salvaged'', JBool False)]] = []"
  by code_simp

lemma demo_healthy: "\<exists>report meta. demo_reanalysis = Inr (report, meta) \<and> hr_health_ok report"
proof -
  have "rs_sha256 (rf_after demo_file) = demo_sha" by (simp add: demo_file_def Let_def)
  with demo_captured demo_read demo_no_problems show ?thesis
    by (simp add: reanalyze_raw_v4_def Let_def hashes_of_def demo_hashes_def same_dict_def analyze_rows_v4_def
        fold_batches flip: staged_def)
qed

theorem healthy_reanalysis_is_evidence_witness:
  "list_all (bound (\<lambda>_. Some True) id demo_hashes [demo_file]) (raw_segments [demo_file])
   \<and> list_ex (\<lambda>f. list_ex (bar_line 6000000000 24000000000) (rf_lines (id f))) (raw_segments [demo_file])"
proof -
  obtain report meta where "demo_reanalysis = Inr (report, meta)" "hr_health_ok report"
    using demo_healthy by blast
  then show ?thesis
    by (rule healthy_reanalysis_is_evidence) (simp_all add: ns_of_def duration_seconds_def BAR_GAP_SECONDS_def)
qed

section \<open>Publication\<close>

lemmas od_simps = create_durable_def od_call_def write_reanalysis_v4_def

text \<open>
  C23: the verdict is published once and in order, whichever system calls fail: if either file exists the
  run changes nothing; otherwise an amendment, even a partial one, is only there with the complete verdict
  of a successful reanalysis next to it, and a complete amendment carries that verdict's digest.
\<close>

definition published :: "(health_report \<Rightarrow> string) \<Rightarrow> (exn + (health_report \<times> payload)) \<Rightarrow> out_dir \<Rightarrow> bool" where
  "published sha verdict d \<longleftrightarrow>
     od_amendment d = Missing
     \<or> (case verdict of Inl e \<Rightarrow> False
        | Inr (report, meta) \<Rightarrow> od_health d = Complete (Health_file report)
            \<and> od_amendment d \<in> {Partial, Complete (Amendment_file (sha report) (hr_health_ok report))})"

theorem verdict_published_once:
  assumes "original_hashes health manifest = Inr expected"
    and "d' = snd (write_reanalysis_v4 parse digest sha dir reading dir' session_open session_close health manifest d)"
  shows "if (od_health d, od_amendment d) \<noteq> (Missing, Missing)
         then d' = d
         else published sha (reanalyze_raw_v4 parse digest dir reading dir' session_open session_close (Some expected)) d'"
proof (cases "(od_health d, od_amendment d) = (Missing, Missing)")
  case False
  then show ?thesis using assms(2) by (simp add: write_reanalysis_v4_def reads_def raise_def)
next
  case True
  let ?r = "reanalyze_raw_v4 parse digest dir reading dir' session_open session_close (Some expected)"
  have "wp (write_reanalysis_v4 parse digest sha dir reading dir' session_open session_close health manifest)
      (\<lambda>_. published sha ?r) (\<lambda>_. published sha ?r) d"
    using True assms(1) by (auto simp: od_simps wp_simps published_def split: sum.splits prod.splits)
  then show ?thesis
    using True assms(2) by (simp add: wp_final)
qed

definition demo_manifest :: jval where
  "demo_manifest = JObj [(''files'', JObj [(''segment-1.jsonl.gz'', JStr demo_sha)])]"

theorem verdict_published_once_witness:
  "published (\<lambda>_. ''s'') demo_reanalysis
     (snd (write_reanalysis_v4 (\<lambda>_. Some True) (\<lambda>_. ''d'') (\<lambda>_. ''s'') [demo_file] id [demo_file] 0 30000000
       (Some (JObj [])) (Some demo_manifest)
       \<lparr>od_health = Missing, od_amendment = Missing, od_faults = replicate 5 False @ [True]\<rparr>))"
proof -
  have "original_hashes (Some (JObj [])) (Some demo_manifest) = Inr demo_hashes"
    by code_simp
  from verdict_published_once [OF this refl] show ?thesis by fastforce
qed

end
