(* ===== verification/Raw_Log.thy ===== *)
theory Raw_Log
  imports Program Ascii_Text "HOL-Library.Sublist"
begin

text \<open>
  The recorder's raw event log (\<open>quote_recorder.py\<close>, \<open>RawEventLog\<close>): a bounded queue, the writer that
  drains it in batches into rolling segments, and the publication of segments. One round of the writer's
  loop is one step; the calls of the owner interleave with the rounds. Every operating-system call consults
  a script of faults. A segment is its name without the prefix, the prefix, and its rows; the
  statistics of latencies are not modelled.
\<close>

section \<open>State\<close>

datatype segment_kind = Seg_partial | Seg_final | Seg_crashed

record segment =
  se_stem :: string
  se_kind :: segment_kind
  se_rows :: "payload list"

datatype queue_item = Queued payload rat | Barrier nat bool | Stop

record raw_log =
  rl_run_id :: string
  rl_roll_seconds :: rat
  rl_queue_capacity :: nat
  rl_batch_records :: nat
  rl_older :: "segment list"
  rl_segments :: "segment list"
  rl_fh :: bool
  rl_current :: "string option"
  rl_opened_at :: "rat option"
  rl_seq :: nat
  rl_count :: int
  rl_queue :: "queue_item list"
  rl_failure :: "exn option"
  rl_accepting :: bool
  rl_closed :: bool
  rl_accepted :: int
  rl_dropped :: int
  rl_queue_high_water :: int
  rl_accepted_by_stream :: "(string \<times> int) list"
  rl_persisted_by_stream :: "(string \<times> int) list"
  rl_accepted_by_run_id :: "(string \<times> int) list"
  rl_persisted_by_run_id :: "(string \<times> int) list"
  rl_stopped :: bool
  rl_done :: "(nat \<times> exn option) list"
  rl_barriers :: nat
  rl_faults :: "bool list"

definition text_field :: "payload \<Rightarrow> string \<Rightarrow> string" where
  "text_field row k = (case pget row k JNull of JStr s \<Rightarrow> s | _ \<Rightarrow> [])"

definition bump :: "string \<Rightarrow> (string \<times> int) list \<Rightarrow> (string \<times> int) list" where
  "bump k d = dput k (dget_or d k 0 + 1) d"

text \<open>
  Construction: a segment of the directory that is still partial belongs to a process that died, since the
  session lock is held; it is kept under the prefix of crashed segments.
\<close>

definition recover_segment :: "segment \<Rightarrow> segment" where
  "recover_segment sg = (if se_kind sg = Seg_partial then sg\<lparr>se_kind := Seg_crashed\<rparr> else sg)"

definition mk_raw_log :: "string \<Rightarrow> rat \<Rightarrow> int \<Rightarrow> int \<Rightarrow> rat \<Rightarrow> rat \<Rightarrow> segment list \<Rightarrow> bool list \<Rightarrow> exn + raw_log" where
  "mk_raw_log run_id roll capacity batch latency timeout dir faults =
     (if capacity \<le> 0 \<or> batch \<le> 0
      then Inl (ValueErr (JStr ''recorder queue_capacity and batch_records must be positive''))
      else if latency \<le> 0 \<or> timeout \<le> 0
      then Inl (ValueErr (JStr ''recorder batch/close timeouts must be positive''))
      else Inr \<lparr>rl_run_id = run_id, rl_roll_seconds = roll, rl_queue_capacity = nat capacity,
        rl_batch_records = nat batch, rl_older = map recover_segment dir, rl_segments = [], rl_fh = False,
        rl_current = None, rl_opened_at = None, rl_seq = 0, rl_count = 0, rl_queue = [], rl_failure = None,
        rl_accepting = True, rl_closed = False, rl_accepted = 0, rl_dropped = 0, rl_queue_high_water = 0,
        rl_accepted_by_stream = [], rl_persisted_by_stream = [], rl_accepted_by_run_id = [],
        rl_persisted_by_run_id = [], rl_stopped = False, rl_done = [], rl_barriers = 0, rl_faults = faults\<rparr>)"

section \<open>Files\<close>

type_synonym 'a raw_prog = "(raw_log, 'a) prog"

definition raw_call :: "string \<Rightarrow> (raw_log \<Rightarrow> raw_log) \<Rightarrow> unit raw_prog" where
  "raw_call what f =
     reads rl_faults (\<lambda>fs.
     seqP (modP (\<lambda>rl. rl\<lparr>rl_faults := tl fs\<rparr>))
       (if fs \<noteq> [] \<and> hd fs then raise (OSErr (JStr what)) else modP f))"

text \<open>The current segment is the last one of this process.\<close>

definition on_last :: "(segment \<Rightarrow> segment) \<Rightarrow> raw_log \<Rightarrow> raw_log" where
  "on_last f rl = rl\<lparr>rl_segments := butlast (rl_segments rl) @ [f (last (rl_segments rl))]\<rparr>"

definition close_segment :: "unit raw_prog" where
  "close_segment = reads (\<lambda>rl. rl_fh rl \<and> rl_current rl \<noteq> None) (\<lambda>open.
     if \<not> open then ret ()
     else block
       [raw_call ''close'' id, raw_call ''open'' id, raw_call ''fsync'' id,
        raw_call ''replace'' (on_last (\<lambda>sg. sg\<lparr>se_kind := Seg_final\<rparr>)),
        raw_call ''fsync target'' id, raw_call ''fsync directory'' id,
        modP (\<lambda>rl. rl\<lparr>rl_fh := False, rl_current := None\<rparr>)])"

definition segment_stem :: "string \<Rightarrow> string \<Rightarrow> nat \<Rightarrow> string" where
  "segment_stem stamp run_id seq =
     stamp @ ''-'' @ run_id @ ''-''
     @ (let ds = str_nat seq in replicate (5 - length ds) CHR ''0'' @ ds) @ ''.jsonl.gz''"

definition open_segment :: "string \<Rightarrow> rat \<Rightarrow> unit raw_prog" where
  "open_segment stamp t = block
     [close_segment,
      modP (\<lambda>rl. rl\<lparr>rl_current := Some (segment_stem stamp (rl_run_id rl) (rl_seq rl))\<rparr>),
      raw_call ''gzip open'' (\<lambda>rl. rl\<lparr>rl_fh := True, rl_segments := rl_segments rl @
        [\<lparr>se_stem = the (rl_current rl), se_kind = Seg_partial, se_rows = []\<rparr>]\<rparr>),
      modP (\<lambda>rl. rl\<lparr>rl_opened_at := Some t, rl_seq := rl_seq rl + 1\<rparr>)]"

text \<open>\<open>_flush_file\<close>: whether it also forces a sync depends on the clock; either way it may fail.\<close>

definition flush_file :: "unit raw_prog" where
  "flush_file = reads rl_fh (\<lambda>fh. if fh then block [raw_call ''flush'' id, raw_call ''fsync'' id] else ret ())"

section \<open>The writer\<close>

definition needs_roll :: "rat \<Rightarrow> raw_log \<Rightarrow> bool" where
  "needs_roll t rl \<longleftrightarrow>
     \<not> rl_fh rl \<or> (case rl_opened_at rl of None \<Rightarrow> False | Some o_at \<Rightarrow> t - o_at \<ge> rl_roll_seconds rl)"

definition write_item :: "string \<Rightarrow> payload \<times> rat \<Rightarrow> unit raw_prog" where
  "write_item stamp item = (case item of (row, t) \<Rightarrow> block
     [reads (needs_roll t) (\<lambda>roll. whenP roll (open_segment stamp t)),
      raw_call ''write'' (on_last (\<lambda>sg. sg\<lparr>se_rows := se_rows sg @ [row]\<rparr>))])"

definition count_row :: "payload \<times> rat \<Rightarrow> raw_log \<Rightarrow> raw_log" where
  "count_row item rl = rl\<lparr>rl_count := rl_count rl + 1,
     rl_persisted_by_stream := bump (text_field (fst item) ''event_type'') (rl_persisted_by_stream rl),
     rl_persisted_by_run_id := bump (text_field (fst item) ''recorder_run_id'') (rl_persisted_by_run_id rl)\<rparr>"

definition write_batch :: "string \<Rightarrow> (payload \<times> rat) list \<Rightarrow> unit raw_prog" where
  "write_batch stamp batch = block
     [forP batch (write_item stamp), flush_file, modP (fold count_row batch)]"

definition finish_control :: "queue_item \<Rightarrow> unit raw_prog" where
  "finish_control control = (case control of
     Barrier b publish \<Rightarrow>
       catchP (block [flush_file, whenP publish close_segment,
                      modP (\<lambda>rl. rl\<lparr>rl_done := rl_done rl @ [(b, None)]\<rparr>)])
         (\<lambda>e. seqP (modP (\<lambda>rl. rl\<lparr>rl_done := rl_done rl @ [(b, Some e)]\<rparr>)) (raise e))
   | _ \<Rightarrow> block [close_segment, modP (\<lambda>rl. rl\<lparr>rl_stopped := True\<rparr>)])"

text \<open>The ticks a round takes: up to the batch size, up to the first control.\<close>

fun next_batch :: "nat \<Rightarrow> queue_item list \<Rightarrow> (payload \<times> rat) list \<times> queue_item option \<times> queue_item list" where
  "next_batch n [] = ([], None, [])"
| "next_batch 0 q = ([], None, q)"
| "next_batch (Suc n) (Queued row t # q) = (case next_batch n q of (b, c, r) \<Rightarrow> ((row, t) # b, c, r))"
| "next_batch (Suc n) (control # q) = ([], Some control, q)"

definition latch_failure :: "exn \<Rightarrow> raw_log \<Rightarrow> raw_log" where
  "latch_failure e rl = (case rl_failure rl of None \<Rightarrow> rl\<lparr>rl_failure := Some e\<rparr> | Some x \<Rightarrow> rl)"

definition drain :: "exn \<Rightarrow> raw_log \<Rightarrow> raw_log" where
  "drain e rl = rl\<lparr>rl_queue := [],
     rl_done := rl_done rl @ List.map_filter (\<lambda>i. case i of Barrier b p \<Rightarrow> Some (b, Some e) | _ \<Rightarrow> None) (rl_queue rl),
     rl_stopped := True\<rparr>"

text \<open>One round of \<open>_writer_loop\<close>; an exception stops the writer for good.\<close>

definition round_body :: "string \<Rightarrow> unit raw_prog" where
  "round_body stamp = reads (\<lambda>rl. (rl_queue rl, rl_batch_records rl)) (\<lambda>(q, n).
     if q = [] then flush_file
     else (case next_batch n q of (batch, control, rest) \<Rightarrow> block
       [modP (\<lambda>rl. rl\<lparr>rl_queue := rest\<rparr>),
        whenP (batch \<noteq> []) (write_batch stamp batch),
        (case control of None \<Rightarrow> ret () | Some c \<Rightarrow> finish_control c)]))"

definition writer_round :: "string \<Rightarrow> unit raw_prog" where
  "writer_round stamp = reads rl_stopped (\<lambda>stopped.
     if stopped then ret ()
     else catchP (round_body stamp) (\<lambda>e. modP (\<lambda>rl. drain e (latch_failure e rl))))"

section \<open>The owner's calls\<close>

definition raise_if_failed :: "unit raw_prog" where
  "raise_if_failed = reads rl_failure (\<lambda>f. case f of None \<Rightarrow> ret ()
     | Some e \<Rightarrow> raise (RuntimeErr (JFmt [JStr ''raw event writer failed: '', exn_message e])))"

definition queue_full :: "nat \<Rightarrow> exn" where
  "queue_full capacity = RuntimeErr (JFmt [JStr ''raw event queue reached capacity '', JInt (int capacity),
     JStr ''; capture is incomplete''])"

definition append_tick :: "payload \<Rightarrow> rat \<Rightarrow> unit raw_prog" where
  "append_tick row t = reads (\<lambda>rl. (rl_accepting rl, length (rl_queue rl) \<ge> rl_queue_capacity rl, rl_queue_capacity rl))
     (\<lambda>(accepting, full, capacity).
       if \<not> accepting then raise (RuntimeErr (JStr ''raw event log is closing or closed''))
       else seqP raise_if_failed
         (if full
          then seqP (modP (\<lambda>rl. rl\<lparr>rl_dropped := rl_dropped rl + 1, rl_failure := Some (queue_full capacity)\<rparr>))
                 (raise (queue_full capacity))
          else modP (\<lambda>rl. rl\<lparr>rl_queue := rl_queue rl @ [Queued row t], rl_accepted := rl_accepted rl + 1,
                 rl_accepted_by_stream := bump (text_field row ''event_type'') (rl_accepted_by_stream rl),
                 rl_accepted_by_run_id := bump (text_field row ''recorder_run_id'') (rl_accepted_by_run_id rl),
                 rl_queue_high_water := max (rl_queue_high_water rl) (int (length (rl_queue rl) + 1))\<rparr>)))"

text \<open>
  \<open>flush\<close> up to its barrier in the queue, and the wait for it. Waiting for room, or for the barrier, ends in
  a time-out when the environment says so. The result is the barrier, none when the log is closed.
\<close>

definition flush_begin :: "bool \<Rightarrow> (raw_log, nat option) prog" where
  "flush_begin publish = seqP raise_if_failed
     (reads (\<lambda>rl. (rl_closed rl, rl_accepting rl, length (rl_queue rl) \<ge> rl_queue_capacity rl, rl_barriers rl))
       (\<lambda>(closed, accepting, full, b).
         if closed then ret None
         else if \<not> accepting then raise (RuntimeErr (JStr ''raw event log is already closing''))
         else if full then raise (RuntimeErr (JStr ''timed out enqueueing raw writer flush barrier''))
         else seqP (modP (\<lambda>rl. rl\<lparr>rl_queue := rl_queue rl @ [Barrier b publish], rl_barriers := b + 1\<rparr>))
                (ret (Some b))))"

definition flush_timeout :: exn where
  "flush_timeout = RuntimeErr (JStr ''raw event writer flush timed out'')"

definition flush_end :: "nat \<Rightarrow> unit raw_prog" where
  "flush_end b = reads (\<lambda>rl. dget (rl_done rl) b) (\<lambda>d. case d of
     None \<Rightarrow> seqP (modP (latch_failure flush_timeout)) (raise flush_timeout)
   | Some (Some e) \<Rightarrow> raise (RuntimeErr (JFmt [JStr ''raw event writer flush failed: '', exn_message e]))
   | Some None \<Rightarrow> raise_if_failed)"

definition close_begin :: "unit raw_prog" where
  "close_begin = reads rl_closed (\<lambda>closed.
     if closed then ret ()
     else seqP (modP (\<lambda>rl. rl\<lparr>rl_accepting := False\<rparr>))
       (reads (\<lambda>rl. length (rl_queue rl) \<ge> rl_queue_capacity rl) (\<lambda>full.
         if full
         then modP (latch_failure (RuntimeErr (JStr ''raw event writer queue did not drain before close timeout'')))
         else modP (\<lambda>rl. rl\<lparr>rl_queue := rl_queue rl @ [Stop]\<rparr>))))"

definition close_end :: "unit raw_prog" where
  "close_end = reads (\<lambda>rl. (rl_closed rl, rl_stopped rl)) (\<lambda>(closed, stopped).
     if closed then ret ()
     else if \<not> stopped
     then seqP (modP (latch_failure (RuntimeErr (JStr ''raw event writer did not stop before close timeout''))))
            raise_if_failed
     else seqP (modP (\<lambda>rl. rl\<lparr>rl_closed := True\<rparr>)) raise_if_failed)"

definition segment_name :: "segment \<Rightarrow> string" where
  "segment_name sg = (case se_kind sg of Seg_partial \<Rightarrow> ''.partial-'' | Seg_final \<Rightarrow> ''segment-'' | Seg_crashed \<Rightarrow> ''crashed-'')
     @ se_stem sg"

definition segments :: "segment list \<Rightarrow> string list" where
  "segments dir = sort (map segment_name (filter (\<lambda>sg. se_kind sg \<noteq> Seg_partial) dir))"

section \<open>The machine\<close>

datatype raw_action = Append payload rat | Round string | Flush bool | Flush_wait nat | Close_begin | Close_end

text \<open>An action, and the rows it accepted.\<close>

definition raw_step :: "raw_action \<Rightarrow> raw_log \<Rightarrow> payload list \<times> raw_log" where
  "raw_step a rl = (case a of
     Append row t \<Rightarrow> (case append_tick row t rl of (Inr u, rl') \<Rightarrow> ([row], rl') | (Inl e, rl') \<Rightarrow> ([], rl'))
   | Round stamp \<Rightarrow> ([], snd (writer_round stamp rl))
   | Flush publish \<Rightarrow> ([], snd (flush_begin publish rl))
   | Flush_wait b \<Rightarrow> ([], snd (flush_end b rl))
   | Close_begin \<Rightarrow> ([], snd (close_begin rl))
   | Close_end \<Rightarrow> ([], snd (close_end rl)))"

fun raw_run :: "raw_action list \<Rightarrow> raw_log \<Rightarrow> payload list \<times> raw_log" where
  "raw_run [] rl = ([], rl)"
| "raw_run (a # as) rl = (case raw_step a rl of (rows, rl1) \<Rightarrow>
     (case raw_run as rl1 of (others, rl2) \<Rightarrow> (rows @ others, rl2)))"

text \<open>
  A death of the process: a partial segment keeps some readable prefix of its rows, a published one is
  as it was; the next process finds both.
\<close>

definition crash_segment :: "nat \<Rightarrow> segment \<Rightarrow> segment" where
  "crash_segment k sg = (if se_kind sg = Seg_partial then sg\<lparr>se_rows := take k (se_rows sg)\<rparr> else sg)"

definition directory_after :: "nat \<Rightarrow> raw_log \<Rightarrow> segment list" where
  "directory_after k rl = rl_older rl @ map (crash_segment k) (rl_segments rl)"

end
