(* ===== verification/Raw_Log_Facts.thy ===== *)
theory Raw_Log_Facts
  imports Raw_Log
begin

text \<open>
  What the raw event log keeps: it is a queue whose served part is on disk. The contents of the segments are
  what was accepted, in order, up to the rows still waiting; a publication that was reported done covers
  everything accepted before it.
\<close>

section \<open>The abstraction\<close>

definition contents :: "raw_log \<Rightarrow> payload list" where
  "contents rl = concat (map se_rows (rl_segments rl))"

definition published_rows :: "raw_log \<Rightarrow> payload list" where
  "published_rows rl = concat (map se_rows (filter (\<lambda>sg. se_kind sg = Seg_final) (rl_segments rl)))"

fun item_rows :: "queue_item \<Rightarrow> payload list" where
  "item_rows (Queued row t) = [row]"
| "item_rows (Barrier b p) = []"
| "item_rows Stop = []"

definition rows_in :: "queue_item list \<Rightarrow> payload list" where
  "rows_in q = concat (map item_rows q)"

lemma rows_in_simps [simp]:
  "rows_in [] = []" "rows_in (i # q) = item_rows i @ rows_in q" "rows_in (q @ q') = rows_in q @ rows_in q'"
  by (simp_all add: rows_in_def)

text \<open>Every segment but the last is published; while a file is open it is the last, still partial.\<close>

definition settled :: "raw_log \<Rightarrow> bool" where
  "settled rl \<longleftrightarrow> (\<forall>sg \<in> set (butlast (rl_segments rl)). se_kind sg = Seg_final)"

definition well_shaped :: "raw_log \<Rightarrow> bool" where
  "well_shaped rl \<longleftrightarrow> settled rl \<and>
     (if rl_fh rl then rl_current rl \<noteq> None \<and> rl_segments rl \<noteq> [] \<and> se_kind (last (rl_segments rl)) = Seg_partial
      else \<forall>sg \<in> set (rl_segments rl). se_kind sg = Seg_final)"

text \<open>The fields the writing of segments leaves alone.\<close>

definition same_books :: "raw_log \<Rightarrow> raw_log \<Rightarrow> bool" where
  "same_books rl rl' \<longleftrightarrow> rl_queue rl' = rl_queue rl \<and> rl_failure rl' = rl_failure rl
     \<and> rl_accepting rl' = rl_accepting rl \<and> rl_accepted rl' = rl_accepted rl \<and> rl_count rl' = rl_count rl
     \<and> rl_stopped rl' = rl_stopped rl \<and> rl_done rl' = rl_done rl \<and> rl_barriers rl' = rl_barriers rl
     \<and> rl_older rl' = rl_older rl \<and> rl_closed rl' = rl_closed rl"

lemma same_books_refl [simp]: "same_books rl rl"
  by (simp add: same_books_def)

lemma same_books_trans: "same_books r1 r2 \<Longrightarrow> same_books r2 r3 \<Longrightarrow> same_books r1 r3"
  by (simp add: same_books_def)

lemma wp_raw_call:
  "wp (raw_call what f) Q E rl =
     (let rl1 = rl\<lparr>rl_faults := tl (rl_faults rl)\<rparr>
      in if rl_faults rl \<noteq> [] \<and> hd (rl_faults rl) then E (OSErr (JStr what)) rl1 else Q () (f rl1))"
  by (simp add: raw_call_def wp_simps Let_def)

lemma wp_modP_fun: "wp (modP f) Q E = (\<lambda>rl. Q () (f rl))"
  by (rule ext) (rule wp_modP)

lemma shape_cases:
  assumes "well_shaped rl"
  obtains (shut) "\<not> rl_fh rl" "\<forall>sg \<in> set (rl_segments rl). se_kind sg = Seg_final"
    | (opened) old sg cur where "rl_fh rl" "rl_current rl = Some cur" "rl_segments rl = old @ [sg]"
        "se_kind sg = Seg_partial" "\<forall>s \<in> set old. se_kind s = Seg_final"
proof (cases "rl_fh rl")
  case True
  with assms obtain old sg cur where "rl_segments rl = old @ [sg]" "rl_current rl = Some cur"
    by (auto simp: well_shaped_def) (metis append_butlast_last_id)
  with True assms that(2) show thesis by (simp add: well_shaped_def settled_def)
next
  case False
  with assms that(1) show thesis by (simp add: well_shaped_def)
qed

lemma all_final_filter: "\<forall>sg \<in> set xs. se_kind sg = Seg_final \<Longrightarrow> filter (\<lambda>sg. se_kind sg = Seg_final) xs = xs"
  by (simp add: filter_id_conv)

section \<open>Segments\<close>

text \<open>After a part of the writing: what is on disk grew by \<open>added\<close>, nothing published changed.\<close>

definition wrote :: "payload list \<Rightarrow> raw_log \<Rightarrow> raw_log \<Rightarrow> bool" where
  "wrote added rl rl' \<longleftrightarrow> same_books rl rl' \<and> settled rl' \<and> contents rl' = contents rl @ added
     \<and> prefix (published_rows rl) (published_rows rl')"

lemma wrote_trans: "wrote a r1 r2 \<Longrightarrow> wrote b r2 r3 \<Longrightarrow> wrote (a @ b) r1 r3"
  by (auto simp: wrote_def intro: same_books_trans)

lemma wrote_nothing: "settled rl \<Longrightarrow> wrote [] rl rl"
  by (simp add: wrote_def)

lemma well_shaped_settled: "well_shaped rl \<Longrightarrow> settled rl"
  by (simp add: well_shaped_def)

lemmas wrote_defs = wrote_def same_books_def settled_def contents_def published_rows_def

lemma close_segment_ok:
  assumes "well_shaped rl"
  shows "wp close_segment
    (\<lambda>u rl'. wrote [] rl rl' \<and> well_shaped rl' \<and> \<not> rl_fh rl' \<and> published_rows rl' = contents rl')
    (\<lambda>e. wrote [] rl) rl"
  using assms
proof (cases rule: shape_cases)
  case shut
  with assms show ?thesis
    by (simp add: close_segment_def wp_simps wrote_nothing well_shaped_settled all_final_filter contents_def published_rows_def)
next
  case opened
  then show ?thesis
    by (simp add: close_segment_def wp_simps wp_raw_call Let_def on_last_def wrote_defs well_shaped_def all_final_filter)
qed

lemma open_segment_ok:
  assumes "well_shaped rl"
  shows "wp (open_segment stamp t)
    (\<lambda>u rl'. wrote [] rl rl' \<and> well_shaped rl' \<and> rl_fh rl') (\<lambda>e. wrote [] rl) rl"
proof -
  have step: "wp (block [modP (\<lambda>rl. rl\<lparr>rl_current := Some (segment_stem stamp (rl_run_id rl) (rl_seq rl))\<rparr>),
      raw_call ''gzip open'' (\<lambda>rl. rl\<lparr>rl_fh := True, rl_segments := rl_segments rl @
        [\<lparr>se_stem = the (rl_current rl), se_kind = Seg_partial, se_rows = []\<rparr>]\<rparr>),
      modP (\<lambda>rl. rl\<lparr>rl_opened_at := Some t, rl_seq := rl_seq rl + 1\<rparr>)])
      (\<lambda>u rl'. wrote [] rl rl' \<and> well_shaped rl' \<and> rl_fh rl') (\<lambda>e. wrote [] rl) rl1"
    if "wrote [] rl rl1" "well_shaped rl1" "\<not> rl_fh rl1" for rl1
    using that by (auto simp: wp_simps wp_raw_call Let_def wrote_defs well_shaped_def)
  show ?thesis
    unfolding open_segment_def wp_block_Cons
    by (rule wp_mono [OF close_segment_ok [OF assms]]) (use step in \<open>simp_all add: wp_simps\<close>)
qed

lemma flush_file_ok: "wp flush_file (\<lambda>u rl'. \<exists>fs. rl' = rl\<lparr>rl_faults := fs\<rparr>) (\<lambda>e rl'. \<exists>fs. rl' = rl\<lparr>rl_faults := fs\<rparr>) rl"
proof (cases "rl_fh rl")
  case True
  then show ?thesis by (simp add: flush_file_def wp_simps wp_raw_call Let_def) blast
next
  case False
  have "rl = rl\<lparr>rl_faults := rl_faults rl\<rparr>" by simp
  with False show ?thesis by (simp only: flush_file_def wp_simps if_False) blast
qed

lemma faults_irrelevant [simp]:
  "wrote a rl (rl'\<lparr>rl_faults := fs\<rparr>) = wrote a rl rl'" "well_shaped (rl'\<lparr>rl_faults := fs\<rparr>) = well_shaped rl'"
  "wrote a (rl'\<lparr>rl_faults := fs\<rparr>) rl = wrote a rl' rl"
  "contents (rl'\<lparr>rl_faults := fs\<rparr>) = contents rl'" "published_rows (rl'\<lparr>rl_faults := fs\<rparr>) = published_rows rl'"
  by (simp_all add: wrote_defs well_shaped_def)

lemma write_item_ok:
  assumes "well_shaped rl"
  shows "wp (write_item stamp item)
    (\<lambda>u rl'. wrote [fst item] rl rl' \<and> well_shaped rl') (\<lambda>e. wrote [] rl) rl"
proof -
  have put: "wp (raw_call ''write'' (on_last (\<lambda>sg. sg\<lparr>se_rows := se_rows sg @ [fst item]\<rparr>)))
      (\<lambda>u rl'. wrote [fst item] rl rl' \<and> well_shaped rl') (\<lambda>e. wrote [] rl) rl1"
    if "wrote [] rl rl1" "well_shaped rl1" "rl_fh rl1" for rl1
    using that(2)
  proof (cases rule: shape_cases)
    case opened
    then show ?thesis
      using that(1) by (simp add: wp_raw_call Let_def on_last_def wrote_defs well_shaped_def)
  qed (use that in simp)
  show ?thesis
  proof (cases "needs_roll (snd item) rl")
    case True
    have "wp (open_segment stamp (snd item)) (\<lambda>u. wp (raw_call ''write'' (on_last (\<lambda>sg. sg\<lparr>se_rows := se_rows sg @ [fst item]\<rparr>)))
      (\<lambda>u rl'. wrote [fst item] rl rl' \<and> well_shaped rl') (\<lambda>e. wrote [] rl)) (\<lambda>e. wrote [] rl) rl"
      by (rule wp_mono [OF open_segment_ok [OF assms]]) (use put in auto)
    with True show ?thesis
      by (simp add: write_item_def wp_simps case_prod_beta)
  next
    case False
    then have "rl_fh rl" by (simp add: needs_roll_def)
    with False put [of rl] assms show ?thesis
      by (simp add: write_item_def wp_simps case_prod_beta wrote_nothing well_shaped_settled)
  qed
qed

lemma write_items_ok:
  "well_shaped rl \<Longrightarrow> wp (forP batch (write_item stamp))
     (\<lambda>u rl'. wrote (map fst batch) rl rl' \<and> well_shaped rl')
     (\<lambda>e rl'. \<exists>k. wrote (take k (map fst batch)) rl rl') rl"
proof (induction batch arbitrary: rl)
  case Nil
  then show ?case by (simp add: wp_simps wrote_nothing well_shaped_settled)
next
  case (Cons item batch)
  show ?case
    unfolding wp_forP_Cons
  proof (rule wp_mono [OF write_item_ok [OF Cons.prems]])
    fix u rl1
    assume 1: "wrote [fst item] rl rl1 \<and> well_shaped rl1"
    show "wp (forP batch (write_item stamp)) (\<lambda>u rl'. wrote (map fst (item # batch)) rl rl' \<and> well_shaped rl')
        (\<lambda>e rl'. \<exists>k. wrote (take k (map fst (item # batch))) rl rl') rl1"
    proof (rule wp_mono [OF Cons.IH])
      fix e rl'
      assume "\<exists>k. wrote (take k (map fst batch)) rl1 rl'"
      then obtain k where "wrote (take k (map fst batch)) rl1 rl'" ..
      with 1 have "wrote (take (Suc k) (map fst (item # batch))) rl rl'"
        using wrote_trans [of "[fst item]"] by fastforce
      then show "\<exists>k. wrote (take k (map fst (item # batch))) rl rl'" ..
    qed (use 1 wrote_trans [of "[fst item]"] in auto)
  next
    fix e rl'
    assume "wrote [] rl rl'"
    then have "wrote (take 0 (map fst (item # batch))) rl rl'" by simp
    then show "\<exists>k. wrote (take k (map fst (item # batch))) rl rl'" ..
  qed
qed

section \<open>A round of the writer\<close>

definition made :: "payload list \<Rightarrow> queue_item list \<Rightarrow> raw_log \<Rightarrow> raw_log \<Rightarrow> bool" where
  "made added left rl rl' \<longleftrightarrow> settled rl' \<and> contents rl' = contents rl @ added
     \<and> prefix (published_rows rl) (published_rows rl') \<and> rl_queue rl' = left \<and> rl_accepting rl' = rl_accepting rl
     \<and> rl_accepted rl' = rl_accepted rl \<and> rl_barriers rl' = rl_barriers rl \<and> rl_older rl' = rl_older rl
     \<and> rl_failure rl' = rl_failure rl"

definition answers :: "exn option \<Rightarrow> queue_item option \<Rightarrow> (nat \<times> exn option) list" where
  "answers r control = (case control of Some (Barrier b p) \<Rightarrow> [(b, r)] | _ \<Rightarrow> [])"

lemma wrote_made: "wrote added rl rl' \<Longrightarrow> made added (rl_queue rl) rl rl'"
  by (simp add: wrote_def made_def same_books_def)

lemma take_batch_split:
  "next_batch n q = (batch, control, rest) \<Longrightarrow>
     q = map (\<lambda>(row, t). Queued row t) batch @ (case control of None \<Rightarrow> [] | Some i \<Rightarrow> [i]) @ rest
     \<and> (\<forall>row t. control \<noteq> Some (Queued row t))"
  by (induction n q arbitrary: batch control rest rule: next_batch.induct) (auto split: prod.splits)

lemma rows_in_batch [simp]: "rows_in (map (\<lambda>(row, t). Queued row t) batch) = map fst batch"
  by (induction batch) auto

lemma take_batch_rows:
  assumes "next_batch n q = (batch, control, rest)"
  shows "rows_in q = map fst batch @ rows_in rest"
proof -
  have "item_rows i = []" if "\<forall>row t. i \<noteq> Queued row t" for i
    using that by (cases i) auto
  with take_batch_split [OF assms] show ?thesis by (auto split: option.splits)
qed

lemma fold_count_row:
  "\<exists>a b. fold count_row batch rl = rl\<lparr>rl_count := rl_count rl + int (length batch),
     rl_persisted_by_stream := a, rl_persisted_by_run_id := b\<rparr>"
proof (induction batch arbitrary: rl)
  case Nil
  have "rl = rl\<lparr>rl_count := rl_count rl, rl_persisted_by_stream := rl_persisted_by_stream rl,
      rl_persisted_by_run_id := rl_persisted_by_run_id rl\<rparr>" by simp
  then show ?case by (metis fold_simps(1) int_ops(1) list.size(3) add.right_neutral)
next
  case (Cons item batch)
  from Cons.IH [of "count_row item rl"] show ?case
    by (auto simp: count_row_def ac_simps)
qed

text \<open>What a part of the round did to the books: the rows it wrote, and how many of them it counted.\<close>

definition put_down :: "payload list \<Rightarrow> nat \<Rightarrow> raw_log \<Rightarrow> raw_log \<Rightarrow> bool" where
  "put_down added n rl rl' \<longleftrightarrow> made added (rl_queue rl) rl rl' \<and> rl_count rl' = rl_count rl + int n
     \<and> rl_stopped rl' = rl_stopped rl \<and> rl_done rl' = rl_done rl"

lemma wrote_booked: "wrote added rl rl' \<Longrightarrow> put_down added 0 rl rl'"
  by (simp add: put_down_def wrote_made) (simp add: wrote_def same_books_def)

lemma write_batch_ok:
  assumes "well_shaped rl"
  shows "wp (write_batch stamp batch)
    (\<lambda>u rl'. put_down (map fst batch) (length batch) rl rl' \<and> well_shaped rl')
    (\<lambda>e rl'. \<exists>k. put_down (take k (map fst batch)) 0 rl rl') rl"
proof -
  have flush: "wp flush_file (\<lambda>u. wp (block [modP (fold count_row batch)])
        (\<lambda>u rl'. put_down (map fst batch) (length batch) rl rl' \<and> well_shaped rl')
        (\<lambda>e rl'. \<exists>k. put_down (take k (map fst batch)) 0 rl rl'))
      (\<lambda>e rl'. \<exists>k. put_down (take k (map fst batch)) 0 rl rl') rl1"
    if w: "wrote (map fst batch) rl rl1" "well_shaped rl1" for rl1
  proof (rule wp_mono [OF flush_file_ok])
    fix u rl2
    assume "\<exists>fs. rl2 = rl1\<lparr>rl_faults := fs\<rparr>"
    then obtain fs where fs: "rl2 = rl1\<lparr>rl_faults := fs\<rparr>" ..
    obtain a b where "fold count_row batch rl2 = rl2\<lparr>rl_count := rl_count rl2 + int (length batch),
        rl_persisted_by_stream := a, rl_persisted_by_run_id := b\<rparr>"
      using fold_count_row by blast
    then show "wp (block [modP (fold count_row batch)])
        (\<lambda>u rl'. put_down (map fst batch) (length batch) rl rl' \<and> well_shaped rl')
        (\<lambda>e rl'. \<exists>k. put_down (take k (map fst batch)) 0 rl rl') rl2"
      using w by (simp add: wp_simps put_down_def made_def wrote_defs well_shaped_def fs)
  next
    fix e rl2
    assume "\<exists>fs. rl2 = rl1\<lparr>rl_faults := fs\<rparr>"
    then have "wrote (take (length batch) (map fst batch)) rl rl2"
      using w(1) by auto
    then show "\<exists>k. put_down (take k (map fst batch)) 0 rl rl2"
      using wrote_booked by blast
  qed
  show ?thesis
    unfolding write_batch_def wp_block_Cons
    by (rule wp_mono [OF write_items_ok [OF assms]]) (use flush in \<open>auto simp: wp_simps intro: wrote_booked\<close>)
qed

definition answered :: "queue_item \<Rightarrow> raw_log \<Rightarrow> raw_log \<Rightarrow> bool" where
  "answered control rl rl' \<longleftrightarrow> made [] (rl_queue rl) rl rl' \<and> well_shaped rl' \<and> rl_count rl' = rl_count rl
     \<and> rl_stopped rl' = (rl_stopped rl \<or> control = Stop) \<and> rl_done rl' = rl_done rl @ answers None (Some control)
     \<and> (control = Stop \<or> (\<exists>b. control = Barrier b True) \<longrightarrow> published_rows rl' = contents rl')"

definition broke :: "exn \<Rightarrow> queue_item \<Rightarrow> raw_log \<Rightarrow> raw_log \<Rightarrow> bool" where
  "broke e control rl rl' \<longleftrightarrow> made [] (rl_queue rl) rl rl' \<and> rl_count rl' = rl_count rl
     \<and> rl_stopped rl' = rl_stopped rl
     \<and> (rl_done rl' = rl_done rl \<or> rl_done rl' = rl_done rl @ answers (Some e) (Some control))"

lemma publish_ok:
  assumes "well_shaped rl"
  shows "wp (whenP publish close_segment)
    (\<lambda>u rl'. wrote [] rl rl' \<and> well_shaped rl' \<and> (publish \<longrightarrow> published_rows rl' = contents rl')) (\<lambda>e. wrote [] rl) rl"
  by (cases publish)
     (auto simp: wp_simps wrote_nothing well_shaped_settled assms intro: wp_mono [OF close_segment_ok [OF assms]])

lemma finish_control_ok:
  assumes "well_shaped rl" and "\<forall>row t. control \<noteq> Queued row t"
  shows "wp (finish_control control) (\<lambda>u. answered control rl) (\<lambda>e. broke e control rl) rl"
proof (cases control)
  case (Barrier b publish)
  have shut: "wp (whenP publish close_segment)
      (\<lambda>u rl'. answered control rl (rl'\<lparr>rl_done := rl_done rl' @ [(b, None)]\<rparr>))
      (\<lambda>e rl'. broke e control rl (rl'\<lparr>rl_done := rl_done rl' @ [(b, Some e)]\<rparr>)) (rl\<lparr>rl_faults := fs\<rparr>)" for fs
    using assms(1) Barrier
    by (intro wp_mono [OF publish_ok])
       (auto simp: answered_def broke_def answers_def made_def wrote_defs well_shaped_def)
  have torn: "broke e control rl (rl\<lparr>rl_faults := fs, rl_done := rl_done rl @ [(b, Some e)]\<rparr>)" for e fs
    using assms(1) Barrier by (simp add: broke_def answers_def made_def wrote_defs well_shaped_def)
  show ?thesis
    unfolding Barrier finish_control_def queue_item.case wp_catchP wp_block_Cons
    by (rule wp_mono [OF flush_file_ok]) (use shut torn in \<open>auto simp: wp_simps wp_modP_fun Barrier\<close>)
next
  case Stop
  show ?thesis
    unfolding Stop finish_control_def queue_item.case wp_block_Cons
    by (rule wp_mono [OF close_segment_ok [OF assms(1)]])
       (auto simp: wp_simps answered_def broke_def answers_def made_def wrote_defs well_shaped_def)
qed (use assms in simp)

definition round_done :: "nat \<Rightarrow> raw_log \<Rightarrow> raw_log \<Rightarrow> bool" where
  "round_done n rl rl' \<longleftrightarrow> (case next_batch n (rl_queue rl) of (batch, control, rest) \<Rightarrow>
     made (map fst batch) rest rl rl' \<and> well_shaped rl' \<and> rl_count rl' = rl_count rl + int (length batch)
     \<and> rl_stopped rl' = (rl_stopped rl \<or> control = Some Stop) \<and> rl_done rl' = rl_done rl @ answers None control
     \<and> (control = Some Stop \<or> (\<exists>b. control = Some (Barrier b True)) \<longrightarrow> published_rows rl' = contents rl'))"

definition round_broke :: "exn \<Rightarrow> nat \<Rightarrow> raw_log \<Rightarrow> raw_log \<Rightarrow> bool" where
  "round_broke e n rl rl' \<longleftrightarrow> (case next_batch n (rl_queue rl) of (batch, control, rest) \<Rightarrow>
     \<exists>k. made (take k (map fst batch)) rest rl rl' \<and> rl_count rl' \<le> rl_count rl + int (min k (length batch))
     \<and> rl_stopped rl' = rl_stopped rl
     \<and> (rl_done rl' = rl_done rl \<or> rl_done rl' = rl_done rl @ answers (Some e) control))"

lemma batch_part_ok:
  assumes "well_shaped rl"
  shows "wp (whenP (batch \<noteq> []) (write_batch stamp batch))
    (\<lambda>u rl'. put_down (map fst batch) (length batch) rl rl' \<and> well_shaped rl')
    (\<lambda>e rl'. \<exists>k. put_down (take k (map fst batch)) 0 rl rl') rl"
  using write_batch_ok [OF assms] assms
  by (cases "batch = []") (simp_all add: wp_simps put_down_def made_def well_shaped_settled)

lemma control_part_ok:
  assumes "well_shaped rl" and "\<forall>row t. control \<noteq> Some (Queued row t)"
  shows "wp (case control of None \<Rightarrow> ret () | Some c \<Rightarrow> finish_control c)
    (\<lambda>u rl'. case control of None \<Rightarrow> rl' = rl | Some c \<Rightarrow> answered c rl rl')
    (\<lambda>e rl'. \<exists>c. control = Some c \<and> broke e c rl rl') rl"
  using finish_control_ok [OF assms(1)] assms(2)
  by (cases control) (auto simp: wp_simps elim!: wp_mono)

lemma made_trans: "made a q r1 r2 \<Longrightarrow> made b q' r2 r3 \<Longrightarrow> made (a @ b) q' r1 r3"
  by (auto simp: made_def)

lemma booked_then_answered:
  assumes "next_batch n (rl_queue rl) = (batch, control, rest)"
    and "put_down (map fst batch) (length batch) (rl\<lparr>rl_queue := rest\<rparr>) rl1" and "well_shaped rl1"
    and "case control of None \<Rightarrow> rl2 = rl1 | Some c \<Rightarrow> answered c rl1 rl2"
  shows "round_done n rl rl2"
  using assms by (cases control) (auto simp: round_done_def put_down_def answered_def answers_def made_def contents_def
      published_rows_def)

lemma booked_then_broke:
  assumes "next_batch n (rl_queue rl) = (batch, control, rest)"
    and "put_down (map fst batch) (length batch) (rl\<lparr>rl_queue := rest\<rparr>) rl1" and "control = Some c" and "broke e c rl1 rl2"
  shows "round_broke e n rl rl2"
proof -
  have "made (take (length batch) (map fst batch)) rest rl rl2 \<and> rl_count rl2 \<le> rl_count rl + int (min (length batch) (length batch))
     \<and> rl_stopped rl2 = rl_stopped rl \<and> (rl_done rl2 = rl_done rl \<or> rl_done rl2 = rl_done rl @ answers (Some e) control)"
    using assms(2-4) by (auto simp: put_down_def broke_def made_def contents_def published_rows_def)
  then show ?thesis
    unfolding round_broke_def assms(1) prod.case by blast
qed

lemma partly_booked:
  assumes "next_batch n (rl_queue rl) = (batch, control, rest)"
    and "put_down (take k (map fst batch)) 0 (rl\<lparr>rl_queue := rest\<rparr>) rl1"
  shows "round_broke e n rl rl1"
proof -
  have "made (take k (map fst batch)) rest rl rl1 \<and> rl_count rl1 \<le> rl_count rl + int (min k (length batch))
     \<and> rl_stopped rl1 = rl_stopped rl \<and> (rl_done rl1 = rl_done rl \<or> rl_done rl1 = rl_done rl @ answers (Some e) control)"
    using assms(2) by (auto simp: put_down_def made_def contents_def published_rows_def)
  then show ?thesis
    unfolding round_broke_def assms(1) prod.case by blast
qed

lemma round_body_ok:
  assumes "well_shaped rl"
  shows "wp (round_body stamp) (\<lambda>u. round_done (rl_batch_records rl) rl) (\<lambda>e. round_broke e (rl_batch_records rl) rl) rl"
proof (cases "rl_queue rl = []")
  case True
  have idle: "round_done n rl (rl\<lparr>rl_faults := fs\<rparr>)" "round_broke e n rl (rl\<lparr>rl_faults := fs\<rparr>)" for n e fs
    using assms True
    by (simp_all add: round_done_def round_broke_def answers_def made_def contents_def published_rows_def well_shaped_def settled_def)
  have "wp flush_file (\<lambda>u. round_done (rl_batch_records rl) rl) (\<lambda>e. round_broke e (rl_batch_records rl) rl) rl"
    by (rule wp_mono [OF flush_file_ok]) (use idle in auto)
  then show ?thesis
    using True by (simp add: round_body_def wp_simps)
next
  case False
  obtain batch control rest where t: "next_batch (rl_batch_records rl) (rl_queue rl) = (batch, control, rest)"
    by (metis prod_cases3)
  let ?rl = "rl\<lparr>rl_queue := rest\<rparr>"
  have "well_shaped ?rl" using assms by (simp add: well_shaped_def settled_def)
  have second: "wp (case control of None \<Rightarrow> ret () | Some c \<Rightarrow> finish_control c)
      (\<lambda>u. round_done (rl_batch_records rl) rl) (\<lambda>e. round_broke e (rl_batch_records rl) rl) rl1"
    if "put_down (map fst batch) (length batch) ?rl rl1" "well_shaped rl1" for rl1
    by (rule wp_mono [OF control_part_ok])
       (use that take_batch_split [OF t] booked_then_answered [OF t that] booked_then_broke [OF t that(1)] in auto)
  have "wp (whenP (batch \<noteq> []) (write_batch stamp batch))
      (\<lambda>u. wp (case control of None \<Rightarrow> ret () | Some c \<Rightarrow> finish_control c)
        (\<lambda>u. round_done (rl_batch_records rl) rl) (\<lambda>e. round_broke e (rl_batch_records rl) rl))
      (\<lambda>e. round_broke e (rl_batch_records rl) rl) ?rl"
    by (rule wp_mono [OF batch_part_ok [OF \<open>well_shaped ?rl\<close>]]) (use second partly_booked [OF t] in auto)
  with False t show ?thesis
    by (simp add: round_body_def wp_reads wp_modP wp_ret_fun wp_seqP wp_seqP_fun)
qed

section \<open>The invariant of a run\<close>

text \<open>
  The rows accepted so far are those on disk, then those still waiting; only a writer stopped by a failure
  leaves some out, and then always a suffix.
\<close>

definition no_tick_after_stop :: "queue_item list \<Rightarrow> bool" where
  "no_tick_after_stop q \<longleftrightarrow> (\<forall>q1 q2. q = q1 @ Stop # q2 \<longrightarrow> rows_in q2 = [])"

definition raw_inv :: "payload list \<Rightarrow> raw_log \<Rightarrow> bool" where
  "raw_inv accepted rl \<longleftrightarrow> settled rl \<and> (\<not> rl_stopped rl \<longrightarrow> well_shaped rl)
     \<and> (\<exists>lost. accepted = contents rl @ lost \<and> (\<not> rl_stopped rl \<or> rl_failure rl = None \<longrightarrow> lost = rows_in (rl_queue rl)))
     \<and> rl_accepted rl = int (length accepted) \<and> rl_count rl \<le> int (length (contents rl))
     \<and> (\<not> rl_stopped rl \<or> rl_failure rl = None \<longrightarrow> rl_count rl = int (length (contents rl)))
     \<and> (Stop \<in> set (rl_queue rl) \<or> rl_stopped rl \<and> rl_failure rl = None \<longrightarrow> \<not> rl_accepting rl)
     \<and> no_tick_after_stop (rl_queue rl)
     \<and> (\<forall>b p. Barrier b p \<in> set (rl_queue rl) \<longrightarrow> b < rl_barriers rl)
     \<and> (\<forall>b \<in> fst ` set (rl_done rl). b < rl_barriers rl)"

lemma writer_round_cases:
  assumes "\<not> rl_stopped rl" and "well_shaped rl"
  obtains (worked) "round_done (rl_batch_records rl) rl (snd (writer_round stamp rl))"
    | (failed) e rl1 where "round_broke e (rl_batch_records rl) rl rl1"
        "snd (writer_round stamp rl) = drain e (latch_failure e rl1)"
proof (cases "round_body stamp rl")
  case (Pair r rl1)
  with assms(1) have "snd (writer_round stamp rl) = (case r of Inl e \<Rightarrow> drain e (latch_failure e rl1) | Inr u \<Rightarrow> rl1)"
    by (simp add: writer_round_def reads_def catchP_def modP_def split: sum.splits)
  with Pair round_body_ok [OF assms(2), of stamp] that show thesis
    by (cases r) (auto simp: wp_def)
qed

lemma drained:
  "contents (drain e (latch_failure e rl)) = contents rl" "published_rows (drain e (latch_failure e rl)) = published_rows rl"
  "settled (drain e (latch_failure e rl)) = settled rl" "rl_stopped (drain e (latch_failure e rl))"
  "rl_failure (drain e (latch_failure e rl)) \<noteq> None" "rl_queue (drain e (latch_failure e rl)) = []"
  "rl_count (drain e (latch_failure e rl)) = rl_count rl" "rl_accepted (drain e (latch_failure e rl)) = rl_accepted rl"
  "rl_barriers (drain e (latch_failure e rl)) = rl_barriers rl" "rl_older (drain e (latch_failure e rl)) = rl_older rl"
  by (auto simp: drain_def latch_failure_def contents_def published_rows_def settled_def split: option.splits)

lemma drained_done: "\<exists>xs. rl_done (drain e (latch_failure e rl)) = rl_done rl @ xs \<and>
   (\<forall>b r. (b, r) \<in> set xs \<longrightarrow> r = Some e \<and> (\<exists>p. Barrier b p \<in> set (rl_queue rl)))"
  by (auto simp: drain_def latch_failure_def List.map_filter_def split: option.splits queue_item.splits)

lemma no_tick_suffix: "no_tick_after_stop (q1 @ q2) \<Longrightarrow> no_tick_after_stop q2"
  unfolding no_tick_after_stop_def by (metis append.assoc)

lemma no_tick_after_this: "no_tick_after_stop (q1 @ Stop # q2) \<Longrightarrow> rows_in q2 = []"
  by (auto simp: no_tick_after_stop_def)

lemma no_tick_more:
  assumes "no_tick_after_stop q" and "item_rows i = [] \<or> Stop \<notin> set q"
  shows "no_tick_after_stop (q @ [i])"
  unfolding no_tick_after_stop_def
proof (intro allI impI)
  fix q1 q2
  assume "q @ [i] = q1 @ Stop # q2"
  then consider "q2 = []" | q2' where "q = q1 @ Stop # q2'" "q2 = q2' @ [i]"
    by (cases q2 rule: rev_cases) auto
  then show "rows_in q2 = []"
    using assms by cases (auto simp: no_tick_after_stop_def)
qed

lemma raw_inv_round:
  assumes "raw_inv accepted rl"
  shows "raw_inv accepted (snd (writer_round stamp rl))"
proof (cases "rl_stopped rl")
  case True
  then show ?thesis using assms by (simp add: writer_round_def reads_def ret_def)
next
  case False
  obtain batch control rest where t: "next_batch (rl_batch_records rl) (rl_queue rl) = (batch, control, rest)"
    by (metis prod_cases3)
  note q = take_batch_split [OF t]
  have shaped: "well_shaped rl" using assms False by (simp add: raw_inv_def)
  have rows: "accepted = contents rl @ map fst batch @ rows_in rest"
    using assms False take_batch_rows [OF t] by (auto simp: raw_inv_def)
  have calm: "no_tick_after_stop rest"
    using assms q by (metis raw_inv_def no_tick_suffix append.assoc)
  have ids: "b < rl_barriers rl" if "Barrier b p \<in> set rest \<or> control = Some (Barrier b p)" for b p
    using assms q that by (auto simp: raw_inv_def split: option.splits)
  have asked: "fst ` set (answers r control) \<subseteq> {b. b < rl_barriers rl}" for r
    using ids by (fastforce simp: answers_def split: option.splits queue_item.splits)
  show ?thesis
  proof (cases rule: writer_round_cases [OF False shaped, of stamp, case_names worked failed])
    case worked
    have stop: "rows_in rest = [] \<and> \<not> rl_accepting rl" if "control = Some Stop"
      using that q assms no_tick_after_this
      by (auto simp: raw_inv_def)
    show ?thesis
      using worked t assms rows calm ids asked [of None] stop False q
      by (auto simp: raw_inv_def round_done_def made_def split: option.splits)
  next
    case (failed e rl1)
    obtain xs where xs: "rl_done (drain e (latch_failure e rl1)) = rl_done rl1 @ xs"
        "\<forall>b r. (b, r) \<in> set xs \<longrightarrow> r = Some e \<and> (\<exists>p. Barrier b p \<in> set (rl_queue rl1))"
      using drained_done by blast
    obtain k where k: "made (take k (map fst batch)) rest rl rl1"
        "rl_count rl1 \<le> rl_count rl + int (min k (length batch))"
        "rl_done rl1 = rl_done rl \<or> rl_done rl1 = rl_done rl @ answers (Some e) control"
      using failed(1) t by (auto simp: round_broke_def)
    have "accepted = contents rl1 @ drop k (map fst batch) @ rows_in rest"
      using rows k(1) append_take_drop_id [of k "map fst batch"] by (simp add: made_def)
    moreover have "rl_count rl1 \<le> int (length (contents rl1))"
      using k assms by (auto simp: raw_inv_def made_def)
    moreover have "\<forall>b \<in> fst ` set (rl_done rl1 @ xs). b < rl_barriers rl"
    proof -
      have "fst ` set (rl_done rl) \<subseteq> {b. b < rl_barriers rl}"
        using assms by (auto simp: raw_inv_def)
      moreover have "fst ` set xs \<subseteq> {b. b < rl_barriers rl}"
        using xs(2) ids k(1) by (fastforce simp: made_def)
      ultimately show ?thesis
        using k(3) asked [of "Some e"] unfolding set_append image_Un by (elim disjE) (simp_all add: image_Un, blast+)
    qed
    ultimately show ?thesis
      using failed(2) k(1) xs(1) assms by (simp add: raw_inv_def drained made_def no_tick_after_stop_def)
  qed
qed

lemma raw_inv_append:
  assumes "raw_inv accepted rl" and "append_tick row t rl = (r, rl')"
  shows "raw_inv (accepted @ (case r of Inr u \<Rightarrow> [row] | Inl e \<Rightarrow> [])) rl'"
proof -
  have room: "raw_inv (accepted @ [row]) rl'"
    if rl': "rl' = rl\<lparr>rl_queue := rl_queue rl @ [Queued row t], rl_accepted := rl_accepted rl + 1,
        rl_accepted_by_stream := a, rl_accepted_by_run_id := b, rl_queue_high_water := h\<rparr>"
      and calm: "rl_accepting rl" "rl_failure rl = None" for a b h
  proof -
    have "Stop \<notin> set (rl_queue rl)" "no_tick_after_stop (rl_queue rl)"
      using assms(1) calm by (auto simp: raw_inv_def)
    then have "no_tick_after_stop (rl_queue rl @ [Queued row t])"
      by (intro no_tick_more) auto
    with assms(1) calm show ?thesis
      unfolding rl' by (auto simp: raw_inv_def settled_def well_shaped_def contents_def)
  qed
  have same: "raw_inv accepted (rl\<lparr>rl_dropped := d, rl_failure := Some e\<rparr>)" if "rl_accepting rl" for d e
    using assms(1) that by (auto simp: raw_inv_def settled_def well_shaped_def contents_def)
  show ?thesis
    using assms room same
    by (auto simp: append_tick_def reads_def seqP_def bindP_def raise_if_failed_def raise_def ret_def modP_def
        split: if_splits option.splits)
qed

lemma raw_inv_latch: "raw_inv accepted rl \<Longrightarrow> raw_inv accepted (latch_failure e rl)"
  by (auto simp: raw_inv_def latch_failure_def settled_def well_shaped_def contents_def split: option.splits)

lemma raw_inv_control:
  assumes "raw_inv accepted rl" and "item_rows i = []" and "\<forall>b p. i = Barrier b p \<longrightarrow> b < n"
    and "rl_barriers rl \<le> n" and "i = Stop \<longrightarrow> \<not> rl_accepting rl"
  shows "raw_inv accepted (rl\<lparr>rl_queue := rl_queue rl @ [i], rl_barriers := n\<rparr>)"
proof -
  have "no_tick_after_stop (rl_queue rl @ [i])"
    using assms(1,2) by (intro no_tick_more) (auto simp: raw_inv_def)
  with assms show ?thesis
    by (auto simp: raw_inv_def settled_def well_shaped_def contents_def)
qed

lemma raw_inv_step:
  assumes "raw_inv accepted rl"
  shows "raw_inv (accepted @ fst (raw_step a rl)) (snd (raw_step a rl))"
proof (cases a)
  case (Append row t)
  then show ?thesis
    using raw_inv_append [OF assms, of row t] by (cases "append_tick row t rl") (auto simp: raw_step_def split: sum.splits)
next
  case (Round stamp)
  then show ?thesis using raw_inv_round [OF assms] by (simp add: raw_step_def)
next
  case (Flush publish)
  then show ?thesis
    using assms raw_inv_control [OF assms, of "Barrier (rl_barriers rl) publish" "rl_barriers rl + 1"]
    by (auto simp: raw_step_def flush_begin_def raise_if_failed_def seqP_def bindP_def reads_def raise_def ret_def modP_def
        split: option.splits)
next
  case (Flush_wait b)
  then show ?thesis
    using assms raw_inv_latch [OF assms]
    by (auto simp: raw_step_def flush_end_def raise_if_failed_def seqP_def bindP_def reads_def raise_def ret_def modP_def
        split: option.splits)
next
  case Close_begin
  have shut: "raw_inv accepted (rl\<lparr>rl_accepting := False\<rparr>)"
    using assms by (auto simp: raw_inv_def settled_def well_shaped_def contents_def)
  with Close_begin show ?thesis
    using assms raw_inv_latch [OF shut] raw_inv_control [OF shut, of Stop "rl_barriers rl"]
    by (auto simp: raw_step_def close_begin_def seqP_def bindP_def reads_def ret_def modP_def)
next
  case Close_end
  have shut: "raw_inv accepted (rl\<lparr>rl_closed := True\<rparr>)"
    using assms by (auto simp: raw_inv_def settled_def well_shaped_def contents_def)
  with Close_end show ?thesis
    using assms raw_inv_latch [OF assms]
    by (auto simp: raw_step_def close_end_def raise_if_failed_def seqP_def bindP_def reads_def raise_def ret_def modP_def
        split: option.splits)
qed

lemma raw_inv_run: "raw_inv accepted rl \<Longrightarrow> raw_inv (accepted @ fst (raw_run as rl)) (snd (raw_run as rl))"
proof (induction "as" arbitrary: accepted rl)
  case (Cons a "as")
  show ?case
    using Cons.IH [OF raw_inv_step [OF Cons.prems, of a]] by (simp add: case_prod_beta)
qed simp

lemma new_raw_log_inv: "mk_raw_log run_id roll capacity batch latency timeout dir faults = Inr rl \<Longrightarrow> raw_inv [] rl"
  by (auto simp: mk_raw_log_def raw_inv_def settled_def well_shaped_def contents_def published_rows_def no_tick_after_stop_def split: if_splits)

text \<open>A writer that stopped without a failure left nothing waiting and nothing unpublished.\<close>

definition stopped_clean :: "raw_log \<Rightarrow> bool" where
  "stopped_clean rl \<longleftrightarrow> rl_stopped rl \<and> rl_failure rl = None \<longrightarrow> rows_in (rl_queue rl) = [] \<and> published_rows rl = contents rl"

lemma stopped_clean_round:
  assumes "raw_inv accepted rl" and "stopped_clean rl"
  shows "stopped_clean (snd (writer_round stamp rl))"
proof (cases "rl_stopped rl")
  case True
  then show ?thesis using assms(2) by (simp add: writer_round_def reads_def ret_def)
next
  case False
  obtain batch control rest where t: "next_batch (rl_batch_records rl) (rl_queue rl) = (batch, control, rest)"
    by (metis prod_cases3)
  have shaped: "well_shaped rl" and calm: "no_tick_after_stop (rl_queue rl)"
    using assms(1) False by (simp_all add: raw_inv_def)
  have stop: "rows_in rest = []" if "control = Some Stop"
    using that take_batch_split [OF t] calm no_tick_after_this by auto
  show ?thesis
    using shaped
    by (cases rule: writer_round_cases [OF False _, of stamp, case_names shape worked failed])
       (use t stop False in \<open>auto simp: stopped_clean_def drained round_done_def made_def\<close>)
qed

lemma stopped_clean_owner:
  assumes "stopped_clean rl" and "\<not> rl_stopped rl \<or> rl_failure rl \<noteq> None \<or> rows_in q = []"
    and "rl_queue rl' = rl_queue rl @ q" and "rl_segments rl' = rl_segments rl" and "rl_stopped rl' = rl_stopped rl"
    and "rl_failure rl' = rl_failure rl \<or> rl_failure rl' \<noteq> None"
  shows "stopped_clean rl'"
  using assms by (auto simp: stopped_clean_def contents_def published_rows_def)

lemma stopped_clean_step:
  assumes "raw_inv accepted rl" and "stopped_clean rl"
  shows "stopped_clean (snd (raw_step a rl))"
proof -
  note owner = stopped_clean_owner [OF assms(2)]
  note execute = raise_if_failed_def seqP_def bindP_def reads_def raise_def ret_def modP_def latch_failure_def
  show ?thesis
  proof (cases a)
    case (Append row t)
    have "\<not> rl_stopped rl \<or> rl_failure rl \<noteq> None" if "rl_accepting rl"
      using assms(1) that by (auto simp: raw_inv_def)
    with Append show ?thesis
      by (auto simp: raw_step_def append_tick_def execute split: option.splits
          intro: owner [of "[]"] owner [of "[Queued row t]"])
  next
    case (Round stamp)
    then show ?thesis using stopped_clean_round [OF assms] by (simp add: raw_step_def)
  qed (auto simp: raw_step_def flush_begin_def flush_end_def close_begin_def close_end_def execute split: option.splits
        intro: owner [of "[]"] owner [of "[Barrier (rl_barriers rl) publish]" for publish] owner [of "[Stop]"])
qed

lemma raw_run_clean:
  "raw_inv accepted rl \<Longrightarrow> stopped_clean rl \<Longrightarrow> stopped_clean (snd (raw_run as rl))"
proof (induction "as" arbitrary: accepted rl)
  case (Cons a "as")
  show ?case
    using Cons.IH [OF raw_inv_step [OF Cons.prems(1), of a] stopped_clean_step [OF Cons.prems, of a]]
    by (simp add: case_prod_beta)
qed simp

lemma new_raw_log_clean: "mk_raw_log run_id roll capacity batch latency timeout dir faults = Inr rl \<Longrightarrow> stopped_clean rl"
  by (auto simp: mk_raw_log_def stopped_clean_def split: if_splits)

end
