(* ===== verification/Capture.thy ===== *)
theory Capture
  imports Raw_Log_Facts
begin

text \<open>
  The properties of the raw event log over any run: the interleavings of the owner's calls with the rounds
  of the writer, whatever system calls fail.
\<close>

section \<open>A queue on disk\<close>

text \<open>
  C25: the log is a queue. Whatever system calls fail, what the segments hold is what was accepted, in
  order and without gaps or duplicates, up to a rest; the rest is what still waits, unless a failure
  stopped the writer; the counters say so; and a writer that stopped without a failure has published
  everything.
\<close>

theorem raw_log_is_a_queue:
  assumes "mk_raw_log run_id roll capacity batch latency timeout dir faults = Inr rl0"
    and "raw_run acts rl0 = (accepted, rl)"
  shows "\<exists>lost. accepted = contents rl @ lost
    \<and> (lost = rows_in (rl_queue rl) \<or> rl_stopped rl \<and> rl_failure rl \<noteq> None)
    \<and> rl_accepted rl = int (length accepted) \<and> rl_count rl \<le> int (length (contents rl))
    \<and> (rl_stopped rl \<and> rl_failure rl = None \<longrightarrow> published_rows rl = accepted)"
proof -
  have "raw_inv accepted rl"
    using raw_inv_run [OF new_raw_log_inv [OF assms(1)], of acts] assms(2) by simp
  moreover have "stopped_clean rl"
    using raw_run_clean [OF new_raw_log_inv [OF assms(1)] new_raw_log_clean [OF assms(1)], of acts] assms(2) by simp
  ultimately show ?thesis by (auto simp: raw_inv_def stopped_clean_def)
qed

definition demo_row :: "nat \<Rightarrow> payload" where
  "demo_row n = [(''event_type'', JStr ''BAR_5S''), (''recorder_run_id'', JStr ''r''), (''n'', JInt (int n))]"

definition demo_log :: raw_log where
  "demo_log = (case mk_raw_log ''r'' 300 4 2 1 30 [] [] of Inr rl \<Rightarrow> rl | Inl e \<Rightarrow> undefined)"

definition demo_capture :: "raw_action list" where
  "demo_capture = [Append (demo_row 1) 0, Append (demo_row 2) 1, Append (demo_row 3) 2, Round ''090000'']"

lemma demo_log_new: "mk_raw_log ''r'' 300 4 2 1 30 [] [] = Inr demo_log"
  by (simp add: demo_log_def mk_raw_log_def)

lemma demo_log_run:
  "raw_run demo_capture demo_log = (map demo_row [1, 2, 3], snd (raw_run demo_capture demo_log))"
  by code_simp

lemma demo_log_state:
  "rl_queue (snd (raw_run demo_capture demo_log)) = [Queued (demo_row 3) 2]" "\<not> rl_stopped (snd (raw_run demo_capture demo_log))"
  by code_simp+

theorem raw_log_is_a_queue_witness:
  "contents (snd (raw_run demo_capture demo_log)) = map demo_row [1, 2]"
  using raw_log_is_a_queue [OF demo_log_new demo_log_run] demo_log_state
  by auto

section \<open>Publication\<close>

text \<open>
  What is known of a publication asked for when the rows \<open>due_rows\<close> had been accepted: while its barrier
  waits, those rows are on disk or in front of it; once it is answered without an error, they are published.
\<close>

definition barrier_ok :: "payload list \<Rightarrow> nat \<Rightarrow> payload list \<Rightarrow> queue_item list \<Rightarrow> bool" where
  "barrier_ok due_rows b stored q \<longleftrightarrow>
     (\<forall>q1 p q2. q = q1 @ Barrier b p # q2 \<longrightarrow> p \<and> due_rows = stored @ rows_in q1)"

lemma barrier_okI:
  "(\<And>q1 p q2. q = q1 @ Barrier b p # q2 \<Longrightarrow> p \<and> due_rows = stored @ rows_in q1) \<Longrightarrow> barrier_ok due_rows b stored q"
  unfolding barrier_ok_def by blast

lemma barrier_okD: "barrier_ok due_rows b stored (q1 @ Barrier b p # q2) \<Longrightarrow> p \<and> due_rows = stored @ rows_in q1"
  unfolding barrier_ok_def by blast

definition promised :: "payload list \<Rightarrow> nat \<Rightarrow> raw_log \<Rightarrow> bool" where
  "promised due_rows b rl \<longleftrightarrow> b < rl_barriers rl
     \<and> (dget (rl_done rl) b = Some None \<longrightarrow> prefix due_rows (published_rows rl))
     \<and> barrier_ok due_rows b (contents rl) (rl_queue rl)"

lemma promised_more:
  assumes "promised due_rows b rl" and "\<forall>p. i \<noteq> Barrier b p" and "rl_queue rl' = rl_queue rl @ [i]"
    and "rl_barriers rl \<le> rl_barriers rl'" and "rl_done rl' = rl_done rl" and "rl_segments rl' = rl_segments rl"
  shows "promised due_rows b rl'"
proof -
  have same: "contents rl' = contents rl" "published_rows rl' = published_rows rl"
    using assms(6) by (simp_all add: contents_def published_rows_def)
  have "barrier_ok due_rows b (contents rl) (rl_queue rl @ [i])"
  proof (rule barrier_okI)
    fix q1 p q2
    assume "rl_queue rl @ [i] = q1 @ Barrier b p # q2"
    with assms(2) obtain q2' where "rl_queue rl = q1 @ Barrier b p # q2'"
      by (cases q2 rule: rev_cases) auto
    with assms(1) have "barrier_ok due_rows b (contents rl) (q1 @ Barrier b p # q2')"
      by (simp add: promised_def)
    then show "p \<and> due_rows = contents rl @ rows_in q1"
      by (rule barrier_okD)
  qed
  with assms same show ?thesis by (simp add: promised_def)
qed

lemma promised_same:
  assumes "promised due_rows b rl" and "rl_queue rl' = rl_queue rl" and "rl_barriers rl' = rl_barriers rl"
    and "rl_done rl' = rl_done rl" and "rl_segments rl' = rl_segments rl"
  shows "promised due_rows b rl'"
  using assms by (simp add: promised_def contents_def published_rows_def)

lemma promised_round:
  assumes inv: "raw_inv accepted rl" and pin: "promised due_rows b rl"
  shows "promised due_rows b (snd (writer_round stamp rl))"
proof (cases "rl_stopped rl")
  case True
  then show ?thesis using pin by (simp add: writer_round_def reads_def ret_def)
next
  case False
  obtain batch control rest where t: "next_batch (rl_batch_records rl) (rl_queue rl) = (batch, control, rest)"
    by (metis prod_cases3)
  note q = take_batch_split [OF t]
  have shaped: "well_shaped rl" using inv False by (simp add: raw_inv_def)
  have due_now: "p \<and> due_rows = contents rl @ map fst batch" if "control = Some (Barrier b p)" for p
  proof -
    have "rl_queue rl = map (\<lambda>(row, t). Queued row t) batch @ Barrier b p # rest" using q that by simp
    with pin have "barrier_ok due_rows b (contents rl) (map (\<lambda>(row, t). Queued row t) batch @ Barrier b p # rest)"
      by (simp add: promised_def)
    from barrier_okD [OF this] show ?thesis by simp
  qed
  have due_later: "barrier_ok due_rows b (contents rl @ map fst batch) rest"
  proof (rule barrier_okI)
    fix q1 p q2
    assume that: "rest = q1 @ Barrier b p # q2"
    let ?pre = "map (\<lambda>(row, t). Queued row t) batch @ (case control of None \<Rightarrow> [] | Some i \<Rightarrow> [i])"
    have "rows_in (?pre @ rest) = map fst batch @ rows_in rest"
      using take_batch_rows [OF t] q by simp
    then have "rows_in ?pre = map fst batch" by simp
    moreover have "rl_queue rl = (?pre @ q1) @ Barrier b p # q2" using q that by simp
    then have "barrier_ok due_rows b (contents rl) ((?pre @ q1) @ Barrier b p # q2)"
      using pin by (simp only: promised_def)
    note barrier_okD [OF this]
    ultimately show "p \<and> due_rows = (contents rl @ map fst batch) @ rows_in q1"
      by simp
  qed
  show ?thesis
  proof (cases rule: writer_round_cases [OF False shaped, of stamp, case_names worked failed])
    case worked
    let ?rl = "snd (writer_round stamp rl)"
    have m: "contents ?rl = contents rl @ map fst batch" "prefix (published_rows rl) (published_rows ?rl)" "rl_queue ?rl = rest"
        "rl_barriers ?rl = rl_barriers rl" "rl_done ?rl = rl_done rl @ answers None control"
        "(\<exists>b. control = Some (Barrier b True)) \<Longrightarrow> published_rows ?rl = contents ?rl"
      using worked t by (auto simp: round_done_def made_def)
    have "prefix due_rows (published_rows ?rl)" if "dget (rl_done ?rl) b = Some None"
    proof (cases "dget (rl_done rl) b = Some None")
      case True
      then show ?thesis using pin m(2) by (auto simp: promised_def)
    next
      case False
      with that m(5) have "control = Some (Barrier b True)"
        using due_now by (auto simp: answers_def map_add_def split: option.splits queue_item.splits if_splits)
      then show ?thesis using due_now m(1,6) by auto
    qed
    with pin m due_later show ?thesis by (simp add: promised_def)
  next
    case (failed e rl1)
    obtain xs where xs: "rl_done (drain e (latch_failure e rl1)) = rl_done rl1 @ xs" "\<forall>b r. (b, r) \<in> set xs \<longrightarrow> r = Some e"
      using drained_done by blast
    have m: "prefix (published_rows rl) (published_rows rl1)" "rl_barriers rl1 = rl_barriers rl"
        "rl_done rl1 = rl_done rl \<or> rl_done rl1 = rl_done rl @ answers (Some e) control"
      using failed(1) t by (auto simp: round_broke_def made_def)
    have "dget (rl_done rl) b = Some None" if "dget (rl_done rl1 @ xs) b = Some None"
    proof -
      have "dget xs b \<noteq> Some None" using xs(2) by (auto dest: map_of_SomeD)
      moreover have "dget (answers (Some e) control) b \<noteq> Some None"
        by (auto simp: answers_def split: option.splits queue_item.splits)
      ultimately show ?thesis
        using that m(3) by (auto simp: map_add_def split: option.splits)
    qed
    then have "prefix due_rows (published_rows rl1)" if "dget (rl_done rl1 @ xs) b = Some None"
      using that pin m(1) by (auto simp: promised_def)
    with failed(2) xs(1) m(2) pin show ?thesis
      by (simp add: promised_def drained barrier_ok_def del: map_of_append)
  qed
qed

lemma promised_step:
  assumes "raw_inv accepted rl" and "promised due_rows b rl"
  shows "promised due_rows b (snd (raw_step a rl))"
proof (cases a)
  case (Append row t)
  then show ?thesis
    by (auto simp: raw_step_def append_tick_def raise_if_failed_def seqP_def bindP_def reads_def raise_def ret_def modP_def
        split: option.splits intro: promised_same [OF assms(2)] promised_more [OF assms(2), of "Queued row t"])
next
  case (Round stamp)
  then show ?thesis using promised_round [OF assms] by (simp add: raw_step_def)
next
  case (Flush publish)
  have "rl_barriers rl \<noteq> b" using assms(2) by (simp add: promised_def)
  with Flush show ?thesis
    by (auto simp: raw_step_def flush_begin_def raise_if_failed_def seqP_def bindP_def reads_def raise_def ret_def modP_def
        assms(2) split: option.splits intro: promised_more [OF assms(2), of "Barrier (rl_barriers rl) publish"])
next
  case (Flush_wait b)
  then show ?thesis
    by (auto simp: raw_step_def flush_end_def raise_if_failed_def seqP_def bindP_def reads_def raise_def ret_def modP_def
        latch_failure_def assms(2) split: option.splits intro: promised_same [OF assms(2)])
next
  case Close_begin
  then show ?thesis
    by (auto simp: raw_step_def close_begin_def seqP_def bindP_def reads_def ret_def modP_def latch_failure_def assms(2)
        split: option.splits intro: promised_same [OF assms(2)] promised_more [OF assms(2), of Stop])
next
  case Close_end
  then show ?thesis
    by (auto simp: raw_step_def close_end_def raise_if_failed_def seqP_def bindP_def reads_def raise_def ret_def modP_def
        latch_failure_def assms(2) split: option.splits intro: promised_same [OF assms(2)])
qed

lemma promised_run:
  "raw_inv accepted rl \<Longrightarrow> promised due_rows b rl \<Longrightarrow>
     raw_inv (accepted @ fst (raw_run as rl)) (snd (raw_run as rl)) \<and> promised due_rows b (snd (raw_run as rl))"
proof (induction "as" arbitrary: accepted rl)
  case (Cons a "as")
  show ?case
    using Cons.IH [OF raw_inv_step [OF Cons.prems(1), of a] promised_step [OF Cons.prems, of a]]
    by (simp add: case_prod_beta)
qed simp

lemma promised_new:
  assumes "raw_inv accepted rl" and "flush_begin True rl = (Inr (Some b), rl')"
  shows "raw_inv accepted rl' \<and> promised accepted b rl'"
proof
  have fine: "rl_failure rl = None" and b: "b = rl_barriers rl"
    and rl': "rl' = rl\<lparr>rl_queue := rl_queue rl @ [Barrier b True], rl_barriers := b + 1\<rparr>"
    using assms(2) by (auto simp: flush_begin_def raise_if_failed_def seqP_def bindP_def reads_def raise_def ret_def modP_def
        split: if_splits option.splits)
  show "raw_inv accepted rl'"
    using raw_inv_control [OF assms(1), of "Barrier b True" "b + 1"] by (simp add: b rl')
  have "dget (rl_done rl) b = None"
    using assms(1) unfolding b raw_inv_def map_of_eq_None_iff by blast
  moreover have "barrier_ok accepted b (contents rl) (rl_queue rl @ [Barrier b True])"
  proof (rule barrier_okI)
    fix q1 p q2
    assume that: "rl_queue rl @ [Barrier b True] = q1 @ Barrier b p # q2"
    show "p \<and> accepted = contents rl @ rows_in q1"
    proof (cases q2 rule: rev_cases)
    case Nil
    then show ?thesis using that assms(1) fine by (auto simp: raw_inv_def)
  next
    case (snoc q2' i)
    then have "Barrier b p \<in> set (rl_queue rl)" using that by auto
    then show ?thesis using assms(1) unfolding b raw_inv_def by blast
    qed
  qed
  ultimately show "promised accepted b rl'"
    by (simp add: promised_def rl' contents_def)
qed

lemma crash_keeps_published:
  assumes "settled rl"
  shows "prefix (published_rows rl) (concat (map se_rows (map recover_segment (map (crash_segment k) (rl_segments rl)))))"
proof (cases "rl_segments rl" rule: rev_cases)
  case (snoc old sg)
  with assms have old: "\<forall>s \<in> set old. se_kind s = Seg_final" by (simp add: settled_def)
  then have same: "map recover_segment (map (crash_segment k) old) = old"
    by (simp add: map_idI recover_segment_def crash_segment_def)
  have "published_rows rl = concat (map se_rows old) @ (if se_kind sg = Seg_final then se_rows sg else [])"
    using old by (simp add: published_rows_def snoc all_final_filter)
  then show ?thesis
    unfolding snoc map_append same by (simp add: recover_segment_def crash_segment_def)
qed (simp add: published_rows_def)

text \<open>
  C24: a publication is durable. When a flush with publication has returned, whatever was recorded around
  it and whatever failed since, every row accepted before the flush survives the death of the process at
  any moment: the next recorder of the session finds those rows, first and in order, behind the segments
  that were there before.
\<close>

theorem publication_survives_a_crash:
  assumes "mk_raw_log run_id roll capacity batch latency timeout dir faults = Inr rl0"
    and "raw_run before rl0 = (accepted, rl1)" and "flush_begin True rl1 = (Inr (Some b), rl2)"
    and "raw_run since rl2 = (others, rl3)" and "flush_end b rl3 = (Inr (), rl4)"
    and "mk_raw_log run_id' roll' capacity' batch' latency' timeout' (directory_after k rl4) faults' = Inr rl'"
  shows "\<exists>found. rl_older rl' = map recover_segment (rl_older rl4) @ found
    \<and> prefix accepted (concat (map se_rows found))"
proof -
  have "raw_inv accepted rl1"
    using raw_inv_run [OF new_raw_log_inv [OF assms(1)], of before] assms(2) by simp
  with promised_new assms(3) have "raw_inv accepted rl2 \<and> promised accepted b rl2" by blast
  with promised_run [of accepted rl2 accepted b since] assms(4)
  have inv: "raw_inv (accepted @ others) rl3" "promised accepted b rl3" by simp_all
  have "rl4 = rl3" and "dget (rl_done rl3) b = Some None"
    using assms(5) by (auto simp: flush_end_def raise_if_failed_def seqP_def bindP_def reads_def raise_def ret_def modP_def
        split: option.splits)
  with inv have "settled rl4" "prefix accepted (published_rows rl4)"
    by (simp_all add: raw_inv_def promised_def)
  with crash_keeps_published have
    "prefix accepted (concat (map se_rows (map recover_segment (map (crash_segment k) (rl_segments rl4)))))"
    by (metis prefix_order.trans)
  moreover have "rl_older rl' = map recover_segment (rl_older rl4)
      @ map recover_segment (map (crash_segment k) (rl_segments rl4))"
    using assms(6) by (auto simp: mk_raw_log_def directory_after_def split: if_splits)
  ultimately show ?thesis by blast
qed

definition demo_flushed :: raw_log where
  "demo_flushed = snd (raw_run [Append (demo_row 4) 9, Round ''090000'', Round ''090001''] (snd (flush_begin True
     (snd (raw_run demo_capture demo_log)))))"

theorem publication_survives_a_crash_witness:
  "\<exists>rl'. mk_raw_log ''s'' 300 4 2 1 30 (directory_after 0 demo_flushed) [] = Inr rl'
     \<and> prefix (map demo_row [1, 2, 3]) (concat (map se_rows (rl_older rl')))"
proof -
  let ?rl1 = "snd (raw_run demo_capture demo_log)"
  let ?rl2 = "snd (flush_begin True ?rl1)"
  let ?acts = "[Append (demo_row 4) 9, Round ''090000'', Round ''090001'']"
  have f: "flush_begin True ?rl1 = (Inr (Some 0), ?rl2)" by code_simp
  have r: "raw_run ?acts ?rl2 = ([demo_row 4], demo_flushed)" by code_simp
  have e: "flush_end 0 demo_flushed = (Inr (), demo_flushed)" by code_simp
  have "rl_older demo_flushed = []" by code_simp
  moreover obtain rl' where n: "mk_raw_log ''s'' 300 4 2 1 30 (directory_after 0 demo_flushed) [] = Inr rl'"
    by (simp add: mk_raw_log_def)
  ultimately show ?thesis
    using publication_survives_a_crash [OF demo_log_new demo_log_run f r e n] n by auto
qed

end
