(* ===== verification/Recovery.thy ===== *)
theory Recovery
  imports Program
begin

text \<open>
  The pacing of the recorder's repairs (\<open>quote_recorder.py\<close>): the request limiter, the recovery scheduler
  and the reconnect budget. Times are monotonic seconds given with each operation; below the operations,
  their histories and what they bound.
\<close>

section \<open>Subscription limiter\<close>

record limiter =
  li_rate :: rat
  li_capacity :: rat
  li_tokens :: rat
  li_last :: rat

definition mk_limiter :: "rat \<Rightarrow> int \<Rightarrow> rat \<Rightarrow> limiter" where
  "mk_limiter rate burst t = \<lparr>li_rate = rate, li_capacity = of_int burst, li_tokens = of_int burst, li_last = t\<rparr>"

definition refill :: "rat \<Rightarrow> limiter \<Rightarrow> limiter" where
  "refill t li = li\<lparr>li_tokens := min (li_capacity li) (li_tokens li + (t - li_last li) * li_rate li), li_last := t\<rparr>"

definition nap :: "limiter \<Rightarrow> rat" where
  "nap li = max (1/100) ((1 - li_tokens li) / li_rate li)"

text \<open>
  \<open>wait\<close> on the times its loop reads, one per round: the sleeps it asked for, and the limiter with the
  request granted, or \<open>None\<close> when the readings end first.
\<close>

fun limiter_wait :: "rat list \<Rightarrow> limiter \<Rightarrow> rat list \<times> limiter option" where
  "limiter_wait [] li = ([], None)"
| "limiter_wait (t # ts) li =
     (let li1 = refill t li
      in if li_tokens li1 \<ge> 1 then ([], Some (li1\<lparr>li_tokens := li_tokens li1 - 1\<rparr>))
         else (case limiter_wait ts li1 of (naps, r) \<Rightarrow> (nap li1 # naps, r)))"

section \<open>Recovery scheduler\<close>

datatype recovery_plan = RP_NONE | RP_BARS_ONLY | RP_ALL_MARKET_STREAMS | RP_FULL_RECONNECT

fun plan_value :: "recovery_plan \<Rightarrow> string" where
  "plan_value RP_NONE = ''none''"
| "plan_value RP_BARS_ONLY = ''bars_only''"
| "plan_value RP_ALL_MARKET_STREAMS = ''all_market_streams''"
| "plan_value RP_FULL_RECONNECT = ''full_reconnect''"

fun plan_text :: "recovery_plan \<Rightarrow> string" where
  "plan_text RP_NONE = ''RecoveryPlan.NONE''"
| "plan_text RP_BARS_ONLY = ''RecoveryPlan.BARS_ONLY''"
| "plan_text RP_ALL_MARKET_STREAMS = ''RecoveryPlan.ALL_MARKET_STREAMS''"
| "plan_text RP_FULL_RECONNECT = ''RecoveryPlan.FULL_RECONNECT''"

record scheduler =
  rs_fast_attempts :: int
  rs_bars_only_seconds :: rat
  rs_slow_base_seconds :: rat
  rs_slow_max_seconds :: rat
  rs_fast_used :: int
  rs_fast_full_attempts :: int
  rs_bars_only_attempts :: int
  rs_all_market_stream_attempts :: int
  rs_slow_full_attempts :: int
  rs_slow_delay :: rat
  rs_next_bars :: "rat option"
  rs_next_full :: "rat option"

definition mk_scheduler :: "int \<Rightarrow> rat \<Rightarrow> rat \<Rightarrow> rat \<Rightarrow> exn + scheduler" where
  "mk_scheduler fast bars base longest =
     (if fast < 0 then Inl (ValueErr (JStr ''fast_attempts must not be negative''))
      else if min bars base \<le> 0 then Inl (ValueErr (JStr ''recovery intervals must be positive''))
      else if longest < base then Inl (ValueErr (JStr ''slow_max_seconds must not be below slow_base_seconds''))
      else Inr \<lparr>rs_fast_attempts = fast, rs_bars_only_seconds = bars, rs_slow_base_seconds = base,
        rs_slow_max_seconds = longest, rs_fast_used = 0, rs_fast_full_attempts = 0, rs_bars_only_attempts = 0,
        rs_all_market_stream_attempts = 0, rs_slow_full_attempts = 0, rs_slow_delay = base, rs_next_bars = None,
        rs_next_full = None\<rparr>)"

definition note_recovered :: "scheduler \<Rightarrow> scheduler" where
  "note_recovered rs = rs\<lparr>rs_fast_used := 0, rs_slow_delay := rs_slow_base_seconds rs, rs_next_bars := None,
     rs_next_full := None\<rparr>"

definition note_activity :: "rat option \<Rightarrow> scheduler \<Rightarrow> scheduler" where
  "note_activity t rs =
     (let rs1 = rs\<lparr>rs_slow_delay := rs_slow_base_seconds rs\<rparr>
      in case (t, rs_next_full rs1) of
           (Some n, Some f) \<Rightarrow> rs1\<lparr>rs_next_full := Some (min f (n + rs_slow_base_seconds rs1))\<rparr>
         | _ \<Rightarrow> rs1)"

definition targeted :: "recovery_plan \<Rightarrow> rat \<Rightarrow> scheduler \<Rightarrow> (exn + recovery_plan) \<times> scheduler" where
  "targeted p t rs =
     (let rs1 = rs\<lparr>rs_next_bars := Some (t + rs_bars_only_seconds rs)\<rparr>
      in if p = RP_BARS_ONLY then (Inr p, rs1\<lparr>rs_bars_only_attempts := rs_bars_only_attempts rs1 + 1\<rparr>)
         else if p = RP_ALL_MARKET_STREAMS
         then (Inr p, rs1\<lparr>rs_all_market_stream_attempts := rs_all_market_stream_attempts rs1 + 1\<rparr>)
         else (Inl (ValueErr (JFmt [JStr ''not a targeted recovery plan: '', JStr (plan_text p)])), rs1))"

definition due :: "rat option \<Rightarrow> rat \<Rightarrow> bool" where
  "due next_at t = (case next_at of None \<Rightarrow> True | Some n \<Rightarrow> t \<ge> n)"

definition recovery_plan_for ::
  "bool \<Rightarrow> rat \<Rightarrow> bool \<Rightarrow> recovery_plan option \<Rightarrow> scheduler \<Rightarrow> (exn + recovery_plan) \<times> scheduler" where
  "recovery_plan_for alive t transport requested rs = (case requested of
     Some p \<Rightarrow> targeted p t rs
   | None \<Rightarrow>
       if alive then (if due (rs_next_bars rs) t then targeted RP_BARS_ONLY t rs else (Inr RP_NONE, rs))
       else if transport
       then (if due (rs_next_bars rs) t then targeted RP_ALL_MARKET_STREAMS t rs else (Inr RP_NONE, rs))
       else if rs_fast_used rs < rs_fast_attempts rs
       then (Inr RP_FULL_RECONNECT, rs\<lparr>rs_fast_used := rs_fast_used rs + 1,
               rs_fast_full_attempts := rs_fast_full_attempts rs + 1,
               rs_next_full := Some (t + rs_slow_delay rs)\<rparr>)
       else if due (rs_next_full rs) t
       then (Inr RP_FULL_RECONNECT, rs\<lparr>rs_slow_full_attempts := rs_slow_full_attempts rs + 1,
               rs_next_full := Some (t + rs_slow_delay rs),
               rs_slow_delay := min (rs_slow_max_seconds rs) (rs_slow_delay rs * 2)\<rparr>)
       else (Inr RP_NONE, rs))"

definition scheduler_manifest :: "scheduler \<Rightarrow> payload" where
  "scheduler_manifest rs =
     [(''fast_attempts_allowed'', JInt (rs_fast_attempts rs)), (''bars_only_seconds'', JNum (rs_bars_only_seconds rs)),
      (''slow_base_seconds'', JNum (rs_slow_base_seconds rs)), (''slow_max_seconds'', JNum (rs_slow_max_seconds rs)),
      (''fast_full_reconnect_attempts'', JInt (rs_fast_full_attempts rs)),
      (''bars_only_attempts'', JInt (rs_bars_only_attempts rs)),
      (''all_market_stream_attempts'', JInt (rs_all_market_stream_attempts rs)),
      (''slow_full_reconnect_attempts'', JInt (rs_slow_full_attempts rs)),
      (''exits_on_unexplained_silence'', JBool False)]"

section \<open>Reconnect budget\<close>

record reconnect_budget =
  rb_short_window_seconds :: rat
  rb_short_limit :: int
  rb_session_limit :: int
  rb_recent :: "rat list"
  rb_session_total :: int

definition mk_budget :: "rat \<Rightarrow> int \<Rightarrow> int \<Rightarrow> reconnect_budget" where
  "mk_budget window short_limit session_limit =
     \<lparr>rb_short_window_seconds = window, rb_short_limit = short_limit, rb_session_limit = session_limit,
      rb_recent = [], rb_session_total = 0\<rparr>"

definition budget_record :: "rat \<Rightarrow> reconnect_budget \<Rightarrow> (exn + unit) \<times> reconnect_budget" where
  "budget_record t rb =
     (let recent = filter (\<lambda>x. t - x < rb_short_window_seconds rb) (rb_recent rb) @ [t];
          rb1 = rb\<lparr>rb_recent := recent, rb_session_total := rb_session_total rb + 1\<rparr>
      in if int (length recent) > rb_short_limit rb
         then (Inl (RuntimeErr (JFmt [JInt (int (length recent)), JStr '' reconnects within '',
                JInt (round_half_even (rb_short_window_seconds rb)), JStr ''s (limit '', JInt (rb_short_limit rb), JStr '')''])), rb1)
         else if rb_session_total rb1 > rb_session_limit rb
         then (Inl (RuntimeErr (JFmt [JInt (rb_session_total rb1), JStr '' reconnects this session (limit '',
                JInt (rb_session_limit rb), JStr '')''])), rb1)
         else (Inr (), rb1))"

definition budget_recent :: "rat \<Rightarrow> reconnect_budget \<Rightarrow> int" where
  "budget_recent t rb = int (length (filter (\<lambda>x. t - x < rb_short_window_seconds rb) (rb_recent rb)))"

section \<open>What the limiter bounds\<close>

lemma refill_fields [simp]:
  "li_rate (refill t li) = li_rate li" "li_capacity (refill t li) = li_capacity li" "li_last (refill t li) = t"
  by (simp_all add: refill_def)

lemma wait_cases:
  assumes "limiter_wait ts li = (naps, Some li')"
  obtains (granted) t us where "ts = t # us" "li' = (refill t li)\<lparr>li_tokens := li_tokens (refill t li) - 1\<rparr>"
      "1 \<le> li_tokens (refill t li)"
    | (slept) t us ns where "ts = t # us" "limiter_wait us (refill t li) = (ns, Some li')"
  using assms by (cases ts) (auto simp: Let_def split: if_splits prod.splits)

lemma wait_granted_fields:
  "limiter_wait ts li = (naps, Some li') \<Longrightarrow> li_rate li' = li_rate li \<and> li_capacity li' = li_capacity li"
proof (induction ts arbitrary: li naps)
  case (Cons t ts)
  from Cons.prems show ?case
  proof (cases rule: wait_cases)
    case (slept u us ns)
    then show ?thesis using Cons.IH [of "refill t li" ns] by simp
  qed simp
qed simp

text \<open>
  The accounting of the bucket: a grant costs one token, and tokens only come at the rate of the clock.
\<close>

lemma wait_accounts:
  assumes "limiter_wait ts li = (naps, Some li')" and "0 \<le> li_rate li"
  shows "li_tokens li' + 1 \<le> li_tokens li + li_rate li * (li_last li' - li_last li) \<and> 0 \<le> li_tokens li'"
  using assms
proof (induction ts arbitrary: li naps)
  case (Cons t ts)
  let ?li = "refill t li"
  have r: "li_tokens ?li \<le> li_tokens li + (t - li_last li) * li_rate li"
    by (simp add: refill_def)
  from Cons.prems(1) show ?case
  proof (cases rule: wait_cases)
    case (granted u us)
    then have "li_tokens li' = li_tokens ?li - 1" "li_last li' = t" "1 \<le> li_tokens ?li" by simp_all
    then show ?thesis using r by (simp add: mult.commute [of "li_rate li"])
  next
    case (slept u us ns)
    have split: "li_rate li * (li_last li' - li_last li) = li_rate li * (li_last li' - t) + (t - li_last li) * li_rate li"
      by (simp add: algebra_simps)
    have "limiter_wait ts ?li = (ns, Some li')" using slept by simp
    from Cons.IH [OF this] Cons.prems(2)
    have "li_tokens li' + 1 \<le> li_tokens ?li + li_rate li * (li_last li' - t)" "0 \<le> li_tokens li'"
      by simp_all
    then show ?thesis using r split by (intro conjI) linarith+
  qed
qed simp

text \<open>A sequence of requests, each granted after the readings given for it.\<close>

fun requests :: "rat list list \<Rightarrow> limiter \<Rightarrow> limiter option" where
  "requests [] li = Some li"
| "requests (ts # tss) li = (case snd (limiter_wait ts li) of None \<Rightarrow> None | Some li' \<Rightarrow> requests tss li')"

lemma requests_accounts:
  "requests tss li = Some li' \<Longrightarrow> 0 \<le> li_rate li \<Longrightarrow> 0 \<le> li_tokens li \<Longrightarrow>
     li_tokens li' + of_nat (length tss) \<le> li_tokens li + li_rate li * (li_last li' - li_last li) \<and> 0 \<le> li_tokens li'"
proof (induction tss arbitrary: li)
  case (Cons ts tss)
  then obtain naps li1 where w: "limiter_wait ts li = (naps, Some li1)" "requests tss li1 = Some li'"
    by (cases "limiter_wait ts li") (auto split: option.splits)
  show ?case
    using Cons.IH [OF w(2)] wait_accounts [OF w(1) Cons.prems(2)] wait_granted_fields [OF w(1)] Cons.prems(2)
    by (simp add: algebra_simps)
qed simp

text \<open>
  C36: the limiter limits and lets through: over any sequence of granted requests their number is at most
  the burst plus the rate times the time that passed; and a request is granted after at most one sleep when
  the clock advances by what was asked of the sleeper.
\<close>

theorem limiter_is_a_token_bucket:
  assumes "0 < rate" and "1 \<le> burst" and "requests tss (mk_limiter rate burst t0) = Some li"
    and "t1 \<le> t2 - nap (refill t1 li)"
  shows "of_nat (length tss) \<le> of_int burst + rate * (li_last li - t0)
    \<and> (\<exists>naps li'. limiter_wait [t1, t2] li = (naps, Some li') \<and> length naps \<le> 1)"
proof
  have start: "0 \<le> li_rate (mk_limiter rate burst t0)" "0 \<le> li_tokens (mk_limiter rate burst t0)"
    using assms(1,2) by (simp_all add: mk_limiter_def)
  from requests_accounts [OF assms(3) start] assms(1)
  show "of_nat (length tss) \<le> of_int burst + rate * (li_last li - t0)"
    by (simp add: mk_limiter_def)
  have fields: "li_rate li = rate \<and> li_capacity li = of_int burst"
  proof -
    have "requests tss li0 = Some li \<Longrightarrow> li_rate li = li_rate li0 \<and> li_capacity li = li_capacity li0" for li0
    proof (induction tss arbitrary: li0)
      case (Cons ts tss)
      then obtain naps li1 where "limiter_wait ts li0 = (naps, Some li1)" "requests tss li1 = Some li"
        by (cases "limiter_wait ts li0") (auto split: option.splits)
      with Cons.IH [of li1] wait_granted_fields show ?case by metis
    qed simp
    from this [OF assms(3)] show ?thesis by (simp add: mk_limiter_def)
  qed
  show "\<exists>naps li'. limiter_wait [t1, t2] li = (naps, Some li') \<and> length naps \<le> 1"
  proof (cases "li_tokens (refill t1 li) \<ge> 1")
    case False
    let ?l = "refill t1 li"
    have "(1 - li_tokens ?l) / rate \<le> t2 - t1"
      using assms(4) fields by (simp add: nap_def refill_def)
    then have "1 - li_tokens ?l \<le> (t2 - t1) * rate"
      using assms(1) by (simp add: field_simps)
    then have "li_tokens (refill t2 ?l) \<ge> 1"
      using fields assms(2) by (simp add: refill_def)
    with False show ?thesis by (simp add: Let_def)
  qed (simp add: Let_def)
qed

theorem limiter_is_a_token_bucket_witness:
  "\<exists>naps li'. limiter_wait [0, 1] (\<lparr>li_rate = 2, li_capacity = 4, li_tokens = 0, li_last = 0\<rparr>) = (naps, Some li') \<and> length naps \<le> 1"
proof -
  have "requests [[0], [0], [0], [0]] (mk_limiter 2 4 0) = Some \<lparr>li_rate = 2, li_capacity = 4, li_tokens = 0, li_last = 0\<rparr>"
    by code_simp
  from limiter_is_a_token_bucket [OF _ _ this, of 0 1] show ?thesis
    by (simp add: nap_def refill_def)
qed

section \<open>What the scheduler spaces\<close>

datatype recovery_input = Plan bool rat bool "recovery_plan option" | Activity "rat option" | Recovered

fun input_time :: "recovery_input \<Rightarrow> rat option" where
  "input_time (Plan alive t transport requested) = Some t"
| "input_time (Activity t) = t"
| "input_time Recovered = None"

text \<open>A step, and the time of the full reconnect it decides on, if any.\<close>

fun recovery_step :: "recovery_input \<Rightarrow> scheduler \<Rightarrow> rat list \<times> scheduler" where
  "recovery_step (Plan alive t transport requested) rs =
     (case recovery_plan_for alive t transport requested rs of (r, rs') \<Rightarrow>
       (if r = Inr RP_FULL_RECONNECT then [t] else [], rs'))"
| "recovery_step (Activity t) rs = ([], note_activity t rs)"
| "recovery_step Recovered rs = ([], note_recovered rs)"

fun recovery_run :: "recovery_input list \<Rightarrow> scheduler \<Rightarrow> rat list \<times> scheduler" where
  "recovery_run [] rs = ([], rs)"
| "recovery_run (i # is) rs = (case recovery_step i rs of (out, rs1) \<Rightarrow>
     (case recovery_run is rs1 of (outs, rs2) \<Rightarrow> (out @ outs, rs2)))"

lemma recovery_run_Cons:
  "recovery_run (i # is) rs = (fst (recovery_step i rs) @ fst (recovery_run is (snd (recovery_step i rs))),
     snd (recovery_run is (snd (recovery_step i rs))))"
  by (simp add: case_prod_beta)

fun spaced :: "rat \<Rightarrow> rat list \<Rightarrow> bool" where
  "spaced d (x # y # ys) \<longleftrightarrow> d \<le> y - x \<and> spaced d (y # ys)"
| "spaced d _ \<longleftrightarrow> True"

lemma spaced_snoc: "spaced d (xs @ [y]) \<longleftrightarrow> spaced d xs \<and> (xs \<noteq> [] \<longrightarrow> d \<le> y - last xs)"
  by (induction d xs rule: spaced.induct) auto

lemma spaced_drop_snoc:
  "spaced d (drop k xs) \<Longrightarrow> (k < length xs \<Longrightarrow> d \<le> y - last xs) \<Longrightarrow> spaced d (drop k (xs @ [y]))"
  by (cases "k \<le> length xs") (auto simp: spaced_snoc)

definition paced :: "scheduler \<Rightarrow> rat list \<Rightarrow> rat \<Rightarrow> scheduler \<Rightarrow> bool" where
  "paced rs0 past at_time rs \<longleftrightarrow>
     rs_fast_attempts rs = rs_fast_attempts rs0 \<and> rs_slow_base_seconds rs = rs_slow_base_seconds rs0
     \<and> rs_slow_max_seconds rs = rs_slow_max_seconds rs0
     \<and> 0 < rs_slow_base_seconds rs \<and> rs_slow_base_seconds rs \<le> rs_slow_max_seconds rs
     \<and> rs_slow_base_seconds rs \<le> rs_slow_delay rs
     \<and> 0 \<le> rs_fast_used rs \<and> rs_fast_used rs \<le> rs_fast_attempts rs
     \<and> (rs_fast_used rs < rs_fast_attempts rs \<longrightarrow> length past = nat (rs_fast_used rs))
     \<and> spaced (rs_slow_base_seconds rs) (drop (nat (rs_fast_attempts rs - 1)) past)
     \<and> (past \<noteq> [] \<longrightarrow> last past \<le> at_time \<and> (\<exists>n. rs_next_full rs = Some n \<and> last past + rs_slow_base_seconds rs \<le> n))"

lemma paced_activity:
  assumes "paced rs0 past at_time rs" "case t of None \<Rightarrow> True | Some n \<Rightarrow> at_time \<le> n"
  shows "paced rs0 past (case t of None \<Rightarrow> at_time | Some n \<Rightarrow> n) (note_activity t rs)"
  using assms by (auto simp: paced_def note_activity_def Let_def split: option.splits)

lemma targeted_fields:
  "paced rs0 past at_time (snd (targeted p t rs)) \<longleftrightarrow> paced rs0 past at_time rs"
  "fst (targeted p t rs) \<noteq> Inr RP_FULL_RECONNECT"
  by (auto simp: targeted_def paced_def Let_def)

lemma paced_later: "paced rs0 past at_time rs \<Longrightarrow> at_time \<le> t \<Longrightarrow> paced rs0 past t rs"
  by (auto simp: paced_def)

lemma paced_plan:
  assumes p: "paced rs0 past at_time rs" and "at_time \<le> t"
  shows "paced rs0 (past @ fst (recovery_step (Plan alive t transport requested) rs)) t
    (snd (recovery_step (Plan alive t transport requested) rs))"
proof -
  note later = paced_later [OF assms]
  have gentle: "paced rs0 past t (snd (targeted q t rs))" for q
    using later by (simp add: targeted_fields)
  consider "requested \<noteq> None \<or> alive \<or> transport"
    | (fast) "requested = None" "\<not> alive" "\<not> transport" "rs_fast_used rs < rs_fast_attempts rs"
    | (slow) "requested = None" "\<not> alive" "\<not> transport" "\<not> rs_fast_used rs < rs_fast_attempts rs"
    by blast
  then show ?thesis
  proof cases
    case 1
    then show ?thesis
      using later gentle targeted_fields(2)
      by (cases requested) (auto simp: recovery_plan_for_def case_prod_beta)
  next
    case fast
    then have "spaced (rs_slow_base_seconds rs) (drop (nat (rs_fast_attempts rs - 1)) (past @ [t]))"
      using p by (intro spaced_drop_snoc) (auto simp: paced_def)
    then show ?thesis
      using fast p by (auto simp: recovery_plan_for_def paced_def nat_add_distrib)
  next
    case slow
    show ?thesis
    proof (cases "due (rs_next_full rs) t")
      case True
      then have "past \<noteq> [] \<longrightarrow> rs_slow_base_seconds rs \<le> t - last past"
        using p by (auto simp: paced_def due_def)
      then have "spaced (rs_slow_base_seconds rs) (drop (nat (rs_fast_attempts rs - 1)) (past @ [t]))"
        using p by (intro spaced_drop_snoc) (auto simp: paced_def)
      then show ?thesis
        using slow True p by (auto simp: recovery_plan_for_def paced_def)
    qed (use slow later in \<open>simp add: recovery_plan_for_def\<close>)
  qed
qed

fun clock_from :: "rat \<Rightarrow> recovery_input list \<Rightarrow> bool" where
  "clock_from t [] \<longleftrightarrow> True"
| "clock_from t (i # is) \<longleftrightarrow> (case input_time i of None \<Rightarrow> clock_from t is | Some n \<Rightarrow> t \<le> n \<and> clock_from n is)"

lemma paced_run:
  "paced rs0 past at_time rs \<Longrightarrow> clock_from at_time is \<Longrightarrow> Recovered \<notin> set is
     \<Longrightarrow> \<exists>t. paced rs0 (past @ fst (recovery_run is rs)) t (snd (recovery_run is rs))"
proof (induction "is" arbitrary: past at_time rs)
  case (Cons i "is")
  show ?case
  proof (cases i)
    case (Plan alive t transport requested)
    then have "paced rs0 (past @ fst (recovery_step i rs)) t (snd (recovery_step i rs))"
      using paced_plan [OF Cons.prems(1)] Cons.prems(2) by simp
    from Cons.IH [OF this] Plan Cons.prems(2,3) show ?thesis
      by (simp add: recovery_run_Cons del: recovery_run.simps recovery_step.simps)
  next
    case (Activity t)
    have "paced rs0 past (case t of None \<Rightarrow> at_time | Some n \<Rightarrow> n) (note_activity t rs)"
      by (rule paced_activity [OF Cons.prems(1)]) (use Activity Cons.prems(2) in \<open>auto split: option.splits\<close>)
    from Cons.IH [OF this] Activity Cons.prems(2,3) show ?thesis
      by (auto simp: recovery_run_Cons simp del: recovery_run.simps split: option.splits)
  qed (use Cons.prems(3) in simp)
qed auto

text \<open>
  C35: full reconnects are paced: until the feed recovers, and however noisy the peer is, all full reconnects
  after the fast allowance are at least one base interval apart, from each other and from the last fast one.
\<close>

theorem full_reconnects_are_paced:
  assumes "mk_scheduler fast bars base longest = Inr rs" and "clock_from t0 is" and "Recovered \<notin> set is"
  shows "spaced base (drop (nat (fast - 1)) (fst (recovery_run is rs)))"
proof -
  have "paced rs [] t0 rs" and base: "rs_slow_base_seconds rs = base" "rs_fast_attempts rs = fast"
    using assms(1) by (auto simp: mk_scheduler_def paced_def split: if_splits)
  from paced_run [OF this(1) assms(2,3)] base show ?thesis
    by (auto simp: paced_def)
qed

definition demo_silence :: "recovery_input list" where
  "demo_silence = [Plan False 0 False None, Plan False 1 False None, Activity (Some 2), Plan False 200 False None,
     Plan False 302 False None, Activity (Some 310), Plan False 400 False None, Plan False 700 False None]"

definition demo_scheduler :: scheduler where
  "demo_scheduler = \<lparr>rs_fast_attempts = 2, rs_bars_only_seconds = 120, rs_slow_base_seconds = 300,
     rs_slow_max_seconds = 1800, rs_fast_used = 0, rs_fast_full_attempts = 0, rs_bars_only_attempts = 0,
     rs_all_market_stream_attempts = 0, rs_slow_full_attempts = 0, rs_slow_delay = 300, rs_next_bars = None,
     rs_next_full = None\<rparr>"

theorem full_reconnects_are_paced_witness:
  "spaced 300 (drop 1 (fst (recovery_run demo_silence demo_scheduler)))
   \<and> fst (recovery_run demo_silence demo_scheduler) = [0, 1, 302, 700]"
proof
  have "mk_scheduler 2 120 300 1800 = Inr demo_scheduler"
    by (simp add: mk_scheduler_def demo_scheduler_def)
  from full_reconnects_are_paced [OF this, of 0 demo_silence]
  show "spaced 300 (drop 1 (fst (recovery_run demo_silence demo_scheduler)))"
    by (simp add: demo_silence_def)
  show "fst (recovery_run demo_silence demo_scheduler) = [0, 1, 302, 700]"
    by code_simp
qed

section \<open>What the budget bounds\<close>

fun budget_run :: "rat list \<Rightarrow> reconnect_budget \<Rightarrow> reconnect_budget option" where
  "budget_run [] rb = Some rb"
| "budget_run (t # ts) rb = (case budget_record t rb of (Inl e, rb') \<Rightarrow> None | (Inr u, rb') \<Rightarrow> budget_run ts rb')"

definition budget_ok :: "reconnect_budget \<Rightarrow> bool" where
  "budget_ok rb \<longleftrightarrow> rb_session_total rb \<le> rb_session_limit rb \<and> int (length (rb_recent rb)) \<le> rb_short_limit rb"

lemma budget_record_ok: "budget_record t rb = (Inr u, rb') \<Longrightarrow> budget_ok rb'"
  by (auto simp: budget_record_def budget_ok_def Let_def split: if_splits)

lemma budget_run_ok: "budget_run ts rb = Some rb' \<Longrightarrow> budget_ok rb \<Longrightarrow> budget_ok rb'"
  by (induction ts arbitrary: rb) (auto dest: budget_record_ok split: prod.splits sum.splits)

end
