(* ===== verification/Recorder_Modes.thy ===== *)
theory Recorder_Modes
  imports Program
begin

text \<open>
  \<open>recorder_modes.py\<close>: which handled market events enter the raw log. Minus infinity, the start value of the
  two monotonic times, is \<open>None\<close>. Below the operations: what a sampled log keeps of the quotes.
\<close>

datatype data_mode = EXECUTION_MINIMAL | EVIDENCE_SAMPLED | RESEARCH_FULL

fun data_mode_value :: "data_mode \<Rightarrow> string" where
  "data_mode_value EXECUTION_MINIMAL = ''execution_minimal''"
| "data_mode_value EVIDENCE_SAMPLED = ''evidence_sampled''"
| "data_mode_value RESEARCH_FULL = ''research_full''"

record capture_policy =
  cp_mode :: data_mode
  cp_bidask_sample_interval_seconds :: rat
  cp_bidask_on_price_change :: bool
  cp_decision_pre_window_seconds :: rat
  cp_decision_window_seconds :: rat
  cp_last_bidask_mono :: "rat option"
  cp_last_bidask :: "(rat \<times> rat) option"
  cp_full_fidelity_until_mono :: "rat option"

definition mk_policy :: "data_mode \<Rightarrow> rat \<Rightarrow> bool \<Rightarrow> rat \<Rightarrow> rat \<Rightarrow> exn + capture_policy" where
  "mk_policy mode interval on_change pre_window window =
     (if interval \<le> 0 then Inl (ValueErr (JStr ''bidask sample interval must be positive''))
      else if pre_window < 0 \<or> window < 0 then Inl (ValueErr (JStr ''decision windows must not be negative''))
      else Inr \<lparr>cp_mode = mode, cp_bidask_sample_interval_seconds = interval,
        cp_bidask_on_price_change = on_change, cp_decision_pre_window_seconds = pre_window,
        cp_decision_window_seconds = window, cp_last_bidask_mono = None, cp_last_bidask = None,
        cp_full_fidelity_until_mono = None\<rparr>)"

definition open_decision_window :: "rat \<Rightarrow> rat option \<Rightarrow> capture_policy \<Rightarrow> exn + capture_policy" where
  "open_decision_window t seconds cp =
     (let duration = (case seconds of None \<Rightarrow> cp_decision_window_seconds cp | Some s \<Rightarrow> s)
      in if duration < 0 then Inl (ValueErr (JStr ''decision window must not be negative''))
         else Inr (cp\<lparr>cp_full_fidelity_until_mono :=
                Some (case cp_full_fidelity_until_mono cp of None \<Rightarrow> t + duration | Some u \<Rightarrow> max u (t + duration))\<rparr>))"

text \<open>The quote of an event, \<open>None\<close> when a side is missing.\<close>

definition quote_of :: "rat option \<Rightarrow> rat option \<Rightarrow> (rat \<times> rat) option" where
  "quote_of bid ask = (case (bid, ask) of (Some b, Some a) \<Rightarrow> Some (b, a) | _ \<Rightarrow> None)"

definition keeps_quote :: "capture_policy \<Rightarrow> rat \<Rightarrow> (rat \<times> rat) option \<Rightarrow> bool" where
  "keeps_quote cp t q \<longleftrightarrow>
     (cp_bidask_on_price_change cp \<and> q \<noteq> cp_last_bidask cp)
     \<or> (case cp_last_bidask_mono cp of None \<Rightarrow> True | Some l \<Rightarrow> t - l \<ge> cp_bidask_sample_interval_seconds cp)
     \<or> (case cp_full_fidelity_until_mono cp of None \<Rightarrow> False | Some u \<Rightarrow> t \<le> u)"

definition should_persist ::
  "string \<Rightarrow> rat \<Rightarrow> rat option \<Rightarrow> rat option \<Rightarrow> capture_policy \<Rightarrow> bool \<times> capture_policy" where
  "should_persist event_type t bid ask cp =
     (if event_type = ''SYSTEM'' then (True, cp)
      else if cp_mode cp = EXECUTION_MINIMAL then (False, cp)
      else if cp_mode cp = RESEARCH_FULL \<or> event_type \<noteq> ''BID_ASK'' then (True, cp)
      else if keeps_quote cp t (quote_of bid ask)
      then (True, cp\<lparr>cp_last_bidask_mono := Some t, cp_last_bidask := quote_of bid ask\<rparr>)
      else (False, cp))"

definition policy_manifest :: "capture_policy \<Rightarrow> payload" where
  "policy_manifest cp =
     (let rest = (if cp_mode cp \<noteq> EXECUTION_MINIMAL then ''all'' else ''none'')
      in [(''mode'', JStr (data_mode_value (cp_mode cp))), (''all_last'', JStr rest), (''bar_5s'', JStr rest),
          (''bidask'', JStr (case cp_mode cp of EXECUTION_MINIMAL \<Rightarrow> ''none'' | RESEARCH_FULL \<Rightarrow> ''all''
              | EVIDENCE_SAMPLED \<Rightarrow> ''interval_or_price_change_or_decision_window'')),
          (''bidask_sample_interval_seconds'', JNum (cp_bidask_sample_interval_seconds cp)),
          (''bidask_on_price_change'', JBool (cp_bidask_on_price_change cp)),
          (''decision_pre_window_seconds'', JNum (cp_decision_pre_window_seconds cp)),
          (''decision_window_seconds'', JNum (cp_decision_window_seconds cp))])"

section \<open>What the log keeps\<close>

datatype capture_input = Window rat "rat option" | Market string rat "rat option" "rat option"

text \<open>A run, with its log: every market event and whether it was kept. A refused window changes nothing.\<close>

fun capture_step :: "capture_input \<Rightarrow> capture_policy \<Rightarrow> (capture_input \<times> bool) list \<times> capture_policy" where
  "capture_step (Window t secs) cp =
     ([], case open_decision_window t secs cp of Inl e \<Rightarrow> cp | Inr cp' \<Rightarrow> cp')"
| "capture_step (Market ev t bid ask) cp =
     (case should_persist ev t bid ask cp of (keep, cp') \<Rightarrow> ([(Market ev t bid ask, keep)], cp'))"

fun capture_run :: "capture_input list \<Rightarrow> capture_policy \<Rightarrow> (capture_input \<times> bool) list \<times> capture_policy" where
  "capture_run [] cp = ([], cp)"
| "capture_run (i # is) cp = (case capture_step i cp of (out, cp1) \<Rightarrow>
     (case capture_run is cp1 of (outs, cp2) \<Rightarrow> (out @ outs, cp2)))"

text \<open>A kept quote of the log: same bid and ask, at \<open>l\<close>.\<close>

definition kept_at :: "(capture_input \<times> bool) list \<Rightarrow> rat \<Rightarrow> (rat \<times> rat) option \<Rightarrow> bool" where
  "kept_at seen_rows l q \<longleftrightarrow> list_ex (\<lambda>(i, keep). case i of
     Market ev t bid ask \<Rightarrow> keep \<and> ev = ''BID_ASK'' \<and> t = l \<and> quote_of bid ask = q | _ \<Rightarrow> False) seen_rows"

definition capture_inv :: "(capture_input \<times> bool) list \<Rightarrow> capture_policy \<Rightarrow> capture_policy \<Rightarrow> bool" where
  "capture_inv seen_rows cp0 cp \<longleftrightarrow>
     cp_mode cp = cp_mode cp0 \<and> cp_bidask_on_price_change cp = cp_bidask_on_price_change cp0
     \<and> cp_bidask_sample_interval_seconds cp = cp_bidask_sample_interval_seconds cp0
     \<and> (\<forall>l. cp_last_bidask_mono cp = Some l \<longrightarrow> cp_mode cp = EVIDENCE_SAMPLED
          \<longrightarrow> kept_at seen_rows l (cp_last_bidask cp))"

lemma kept_at_append [simp]: "kept_at (a @ b) l q \<longleftrightarrow> kept_at a l q \<or> kept_at b l q"
  by (simp add: kept_at_def)

lemma kept_at_one [simp]:
  "kept_at [(Market ev t bid ask, keep)] l q \<longleftrightarrow> keep \<and> ev = ''BID_ASK'' \<and> t = l \<and> quote_of bid ask = q"
  "kept_at [] l q \<longleftrightarrow> False"
  by (simp_all add: kept_at_def)

lemma window_fields:
  assumes "open_decision_window t secs cp = Inr cp'"
  shows "cp_mode cp' = cp_mode cp" "cp_bidask_on_price_change cp' = cp_bidask_on_price_change cp"
    "cp_bidask_sample_interval_seconds cp' = cp_bidask_sample_interval_seconds cp"
    "cp_last_bidask_mono cp' = cp_last_bidask_mono cp" "cp_last_bidask cp' = cp_last_bidask cp"
  using assms by (auto simp: open_decision_window_def Let_def split: if_splits)

lemma capture_step_inv:
  assumes "capture_inv past cp0 cp"
  shows "capture_inv (past @ fst (capture_step i cp)) cp0 (snd (capture_step i cp))"
proof (cases i)
  case (Window t secs)
  then show ?thesis
    using assms by (cases "open_decision_window t secs cp") (simp_all add: capture_inv_def window_fields)
next
  case (Market ev t bid ask)
  then show ?thesis
    using assms by (auto simp: capture_inv_def should_persist_def)
qed

lemma capture_run_inv:
  "capture_inv past cp0 cp \<Longrightarrow> capture_inv (past @ fst (capture_run is cp)) cp0 (snd (capture_run is cp))"
proof (induction "is" arbitrary: past cp)
  case (Cons i "is")
  show ?case
    using Cons.IH [OF capture_step_inv [OF Cons.prems, of i]] by (simp add: case_prod_beta)
qed simp

lemma new_policy_inv: "mk_policy mode interval on_change pre window = Inr cp \<Longrightarrow> capture_inv [] cp cp"
  by (auto simp: mk_policy_def capture_inv_def split: if_splits)

lemma dropped_quote:
  assumes "capture_inv past cp0 cp" "cp_mode cp0 = EVIDENCE_SAMPLED" "cp_bidask_on_price_change cp0"
    and "\<not> fst (should_persist ''BID_ASK'' t bid ask cp)"
  shows "\<exists>l. kept_at past l (quote_of bid ask) \<and> t - l < cp_bidask_sample_interval_seconds cp0"
  using assms
  by (auto simp: capture_inv_def should_persist_def keeps_quote_def split: if_splits option.splits)

text \<open>
  a sampled log that keeps price changes determines the quotes: whenever, after any run, a quote is
  left out of the log, the log has a kept event with the same bid and ask less than one sample interval
  before it.
\<close>

theorem sampled_log_determines_quotes:
  assumes "mk_policy EVIDENCE_SAMPLED interval True pre_window window = Inr cp0"
    and "capture_run is cp0 = (seen_rows, cp)"
    and "\<not> fst (should_persist ''BID_ASK'' t bid ask cp)"
  shows "\<exists>l. kept_at seen_rows l (quote_of bid ask) \<and> t - l < interval"
proof -
  have "cp_mode cp0 = EVIDENCE_SAMPLED" "cp_bidask_on_price_change cp0" "cp_bidask_sample_interval_seconds cp0 = interval"
    using assms(1) by (auto simp: mk_policy_def split: if_splits)
  moreover have "capture_inv seen_rows cp0 cp"
    using capture_run_inv [OF new_policy_inv [OF assms(1)], of "is"] assms(2) by simp
  ultimately show ?thesis using dropped_quote assms(3) by metis
qed

definition demo_policy :: capture_policy where
  "demo_policy = \<lparr>cp_mode = EVIDENCE_SAMPLED, cp_bidask_sample_interval_seconds = 1, cp_bidask_on_price_change = True,
     cp_decision_pre_window_seconds = 30, cp_decision_window_seconds = 30, cp_last_bidask_mono = None,
     cp_last_bidask = None, cp_full_fidelity_until_mono = None\<rparr>"

theorem sampled_log_determines_quotes_witness:
  "\<exists>l. kept_at (fst (capture_run [Market ''BID_ASK'' 5 (Some 10) (Some 11)] demo_policy)) l (Some (10, 11)) \<and> 11/2 - l < 1"
proof -
  let ?run = "capture_run [Market ''BID_ASK'' 5 (Some 10) (Some 11)] demo_policy"
  have "mk_policy EVIDENCE_SAMPLED 1 True 30 30 = Inr demo_policy"
    by (simp add: mk_policy_def demo_policy_def)
  moreover have "?run = (fst ?run, snd ?run)" by simp
  moreover have "\<not> fst (should_persist ''BID_ASK'' (11/2) (Some 10) (Some 11) (snd ?run))"
    by code_simp
  ultimately have "\<exists>l. kept_at (fst ?run) l (quote_of (Some 10) (Some 11)) \<and> 11/2 - l < 1"
    by (rule sampled_log_determines_quotes)
  then show ?thesis by (simp add: quote_of_def)
qed

end
