(* ===== verification/Gateway.thy ===== *)
theory Gateway
  imports Program Ascii_Text
begin

text \<open>
  \<open>gateway_detection.py\<close>: what process, listener and API observations say of a running gateway, and the
  part of \<open>ntpath\<close> it compares executable paths with.
\<close>

section \<open>Windows paths\<close>

text \<open>\<open>ntpath.normcase\<close>, \<open>splitroot\<close> and \<open>normpath\<close> on ASCII paths.\<close>

abbreviation bslash :: char where "bslash \<equiv> CHR 0x5C"

definition backslashes :: "string \<Rightarrow> string" where
  "backslashes p = map (\<lambda>ch. if ch = CHR ''/'' then bslash else ch) p"

definition normcase :: "string \<Rightarrow> string" where
  "normcase p = map lower_char (backslashes p)"

definition unc_prefix :: string where
  "unc_prefix = [bslash, bslash, CHR ''?'', bslash, CHR ''u'', CHR ''n'', CHR ''c'', bslash]"

definition split_unc :: "string \<Rightarrow> nat \<Rightarrow> string \<times> string \<times> string" where
  "split_unc p start =
     (let server = takeWhile (\<lambda>ch. ch \<noteq> bslash) (drop start p); i = start + length server
      in if i \<ge> length p then (p, [], [])
         else (let share = takeWhile (\<lambda>ch. ch \<noteq> bslash) (drop (i + 1) p); j = i + 1 + length share
               in if j \<ge> length p then (p, [], []) else (take j p, [bslash], drop (j + 1) p)))"

definition splitroot :: "string \<Rightarrow> string \<times> string \<times> string" where
  "splitroot p =
     (if take 2 p = [bslash, bslash]
      then split_unc p (if map lower_char (take 8 p) = unc_prefix then 8 else 2)
      else if take 1 p = [bslash] then ([], [bslash], drop 1 p)
      else if take 1 (drop 1 p) = '':''
      then (if take 1 (drop 2 p) = [bslash] then (take 2 p, [bslash], drop 3 p) else (take 2 p, [], drop 2 p))
      else ([], [], p))"

text \<open>The components that stay, last first.\<close>

fun norm_components :: "bool \<Rightarrow> string list \<Rightarrow> string list \<Rightarrow> string list" where
  "norm_components rooted kept [] = kept"
| "norm_components rooted kept (c # cs) =
     (if c = [] \<or> c = ''.'' then norm_components rooted kept cs
      else if c = ''..''
      then (case kept of
          [] \<Rightarrow> norm_components rooted (if rooted then [] else [c]) cs
        | k # ks \<Rightarrow> norm_components rooted (if k \<noteq> ''..'' then ks else c # kept) cs)
      else norm_components rooted (c # kept) cs)"

definition normpath :: "string \<Rightarrow> string" where
  "normpath p = (case splitroot (backslashes p) of (drive, rt, rest) \<Rightarrow>
     (let comps = rev (norm_components (rt \<noteq> []) [] (split_on bslash [] rest));
          comps' = (if drive @ rt = [] \<and> comps = [] then [''.''] else comps)
      in drive @ rt @ join [bslash] comps'))"

definition same_windows_path :: "string \<Rightarrow> string \<Rightarrow> bool" where
  "same_windows_path a b \<longleftrightarrow> normcase (normpath a) = normcase (normpath b)"

section \<open>Detection\<close>

datatype gateway_state =
    RUNNING_API_VERIFIED
  | RUNNING_LISTENER_VERIFIED
  | RUNNING_PROCESS_DETECTED
  | INDETERMINATE
  | NOT_RUNNING

datatype path_status = PS_MATCH | PS_MISMATCH | PS_UNKNOWN_ACCESS_DENIED | PS_UNKNOWN | PS_NO_PROCESS

record process_observation =
  po_pid :: int
  po_get_process_path :: "string option"
  po_get_process_path_status :: string
  po_cim_path :: "string option"
  po_cim_status :: string
  po_cim_error :: "string option"

record listener_observation =
  lo_local_address :: string
  lo_local_port :: int
  lo_owning_pid :: int

record gateway_detection =
  gd_state :: gateway_state
  gd_is_running :: bool
  gd_expected_path :: string
  gd_path_status :: path_status
  gd_process_query_ok :: bool
  gd_listener_query_ok :: bool
  gd_process_pids :: "int list"
  gd_listener_pids :: "int list"
  gd_api_status :: string
  gd_api_server_version :: "int option"
  gd_diagnostics :: "jval list"

text \<open>\<open>best_path\<close>: an empty text is no path.\<close>

definition truthy_path :: "string option \<Rightarrow> string option" where
  "truthy_path p = (case p of Some (c # cs) \<Rightarrow> Some (c # cs) | _ \<Rightarrow> None)"

definition best_path :: "process_observation \<Rightarrow> string option" where
  "best_path po = (case truthy_path (po_cim_path po) of
     Some p \<Rightarrow> Some p | None \<Rightarrow> truthy_path (po_get_process_path po))"

definition known_paths :: "process_observation list \<Rightarrow> string list" where
  "known_paths ps = List.map_filter best_path ps"

definition path_status_of :: "process_observation list \<Rightarrow> string \<Rightarrow> path_status" where
  "path_status_of ps expected =
     (if ps = [] then PS_NO_PROCESS
      else if list_ex (\<lambda>p. same_windows_path p expected) (known_paths ps) then PS_MATCH
      else if known_paths ps \<noteq> [] then PS_MISMATCH
      else if list_ex (\<lambda>po. po_cim_status po = ''ACCESS_DENIED'' \<or> po_get_process_path_status po = ''ACCESS_DENIED'') ps
      then PS_UNKNOWN_ACCESS_DENIED
      else PS_UNKNOWN)"

definition denied_note :: "process_observation \<Rightarrow> jval" where
  "denied_note po = JFmt [JStr ''PID '', JInt (po_pid po),
     JStr '': CIM executable path unavailable (Access Denied); continued with other evidence'']"

definition base_state ::
  "process_observation list \<Rightarrow> listener_observation list \<Rightarrow> bool \<Rightarrow> bool \<Rightarrow> bool \<Rightarrow> string \<Rightarrow> gateway_state \<times> bool" where
  "base_state ps ls process_ok listener_ok matches api =
     (if api = ''VERIFIED'' then (RUNNING_API_VERIFIED, True)
      else if matches then (RUNNING_LISTENER_VERIFIED, True)
      else if ps \<noteq> [] then (RUNNING_PROCESS_DETECTED, True)
      else if process_ok \<and> listener_ok \<and> ls = [] then (NOT_RUNNING, False)
      else (INDETERMINATE, False))"

definition classify_gateway ::
  "string \<Rightarrow> process_observation list \<Rightarrow> listener_observation list \<Rightarrow> bool \<Rightarrow> bool \<Rightarrow> string \<Rightarrow> int option \<Rightarrow> jval list
     \<Rightarrow> gateway_detection" where
  "classify_gateway expected ps ls process_ok listener_ok api version collection_errors =
     (let process_pids = sort (remdups (map po_pid ps)); listener_pids = sort (remdups (map lo_owning_pid ls));
          matches = list_ex (\<lambda>p. p \<in> set listener_pids) process_pids;
          path_status = path_status_of ps expected;
          (state0, running0) = base_state ps ls process_ok listener_ok matches api;
          foreign = (ls \<noteq> [] \<and> \<not> matches \<and> api \<noteq> ''VERIFIED'');
          (state, running) = (if foreign \<and> ps = [] then (INDETERMINATE, False) else (state0, running0));
          notes = collection_errors
            @ map denied_note (filter (\<lambda>po. po_cim_status po = ''ACCESS_DENIED'') ps)
            @ (if foreign then [JStr ''target port is listening, but its owning PID is not a detected ibgateway process''] else [])
            @ (if (path_status = PS_UNKNOWN \<or> path_status = PS_UNKNOWN_ACCESS_DENIED) \<and> running
               then [JStr ''Gateway is running, but the executable path is not confirmed'']
               else if path_status = PS_MISMATCH
               then [JStr ''detected ibgateway executable path does not match the expected path'']
               else [])
      in \<lparr>gd_state = state, gd_is_running = running, gd_expected_path = expected, gd_path_status = path_status,
          gd_process_query_ok = process_ok, gd_listener_query_ok = listener_ok, gd_process_pids = process_pids,
          gd_listener_pids = listener_pids, gd_api_status = api, gd_api_server_version = version,
          gd_diagnostics = notes\<rparr>)"

text \<open>
  \<open>NOT_RUNNING\<close> is exactly a complete negative: both queries answered, no process, no listener, no verified
  API; and running is exactly a process or a verified API.
\<close>

lemma not_running_iff:
  "gd_state (classify_gateway expected ps ls process_ok listener_ok api version errs) = NOT_RUNNING
     \<longleftrightarrow> process_ok \<and> listener_ok \<and> ps = [] \<and> ls = [] \<and> api \<noteq> ''VERIFIED''"
  by (auto simp: classify_gateway_def base_state_def Let_def)

lemma running_iff:
  "gd_is_running (classify_gateway expected ps ls process_ok listener_ok api version errs)
     \<longleftrightarrow> api = ''VERIFIED'' \<or> ps \<noteq> []"
  by (auto simp: classify_gateway_def base_state_def Let_def list_ex_iff)

end
