(* ===== verification/Platform_Gate.thy ===== *)
theory Platform_Gate
  imports Program Ascii_Text
begin

text \<open>
  \<open>platform_gate.py\<close>: what an order-capable start must show. The evidence file is what decoding it gives, or
  the error of reading it; a file that decodes to something that is not an object raises, as \<open>payload.get\<close>
  does.
\<close>

datatype broker_capability = SIMULATION | ORDER_CAPABLE

definition capability_of :: "string \<Rightarrow> exn + broker_capability" where
  "capability_of s =
     (if s = ''simulation'' then Inr SIMULATION else if s = ''order_capable'' then Inr ORDER_CAPABLE
      else Inl (ValueErr (JFmt [JStr s, JStr '' is not a valid BrokerCapability''])))"

definition WINDOWS_REQUIRED_DRILLS :: "string list" where
  "WINDOWS_REQUIRED_DRILLS =
     [''ntfs_disk_full'', ''ntfs_flush_stall'', ''publication_force_kill'', ''wal_damage_witness_crossing'',
      ''service_force_kill_ownership'', ''startup_refusal'', ''volume_failure_domain'']"

definition LINUX_REQUIRED_DRILLS :: "string list" where
  "LINUX_REQUIRED_DRILLS =
     [''disk_full'', ''fsync_stall'', ''wal_corruption'', ''process_force_kill'', ''startup_refusal'',
      ''volume_failure_domain'']"

definition current_platform_name :: "string \<Rightarrow> string" where
  "current_platform_name os_name = (if os_name = ''nt'' then ''windows'' else ''linux'')"

definition required_drills :: "string \<Rightarrow> string list" where
  "required_drills platform = (if platform = ''windows'' then WINDOWS_REQUIRED_DRILLS else LINUX_REQUIRED_DRILLS)"

definition is_digest :: "nat \<Rightarrow> jval \<Rightarrow> bool" where
  "is_digest n v \<longleftrightarrow> length (render v) = n \<and> list_all hex_digit (render v)"

definition refused :: "jval list \<Rightarrow> exn + 'a" where
  "refused parts = Inl (RuntimeErr (JFmt parts))"

definition evidence_object :: "exn + jval \<Rightarrow> exn + payload" where
  "evidence_object file = (case file of
     Inl e \<Rightarrow> refused [JStr ''capability evidence is unreadable: '', exn_message e]
   | Inr (JObj p) \<Rightarrow> Inr p
   | Inr v \<Rightarrow> Inl (TypeErr (JStr ''object has no attribute get'')))"

definition missing_drills :: "string \<Rightarrow> payload \<Rightarrow> string list" where
  "missing_drills platform drills = sort (filter (\<lambda>d. pget drills d JNull \<noteq> JStr ''PASS'') (required_drills platform))"

definition invalid_artifacts :: "payload \<Rightarrow> string list" where
  "invalid_artifacts artifacts = sort (map fst (filter (\<lambda>(name, digest). \<not> is_digest 64 digest) artifacts))"

text \<open>\<open>v == 1\<close> on a decoded value, and membership in a set of texts, which needs a hashable value.\<close>

fun equals_one :: "jval \<Rightarrow> bool" where
  "equals_one (JInt i) = (i = 1)"
| "equals_one (JNum r) = (r = 1)"
| "equals_one (JBool b) = b"
| "equals_one v = False"

fun hashable :: "jval \<Rightarrow> bool" where
  "hashable (JList xs) = False"
| "hashable (JObj ps) = False"
| "hashable v = True"

definition check_evidence :: "string \<Rightarrow> payload \<Rightarrow> exn + payload" where
  "check_evidence platform p =
     (if \<not> equals_one (pget p ''schema_version'' JNull)
      then refused [JStr ''capability evidence schema_version must be 1'']
      else if pget p ''platform'' JNull \<noteq> JStr platform
      then refused [JStr ''capability evidence is for '', pget p ''platform'' JNull, JStr '', not '', JStr platform]
      else if \<not> hashable (pget p ''order_authorization'' JNull)
      then Inl (TypeErr (JStr ''unhashable type''))
      else if pget p ''order_authorization'' JNull \<notin> {JStr ''PAPER'', JStr ''LIVE''}
      then refused [JStr ''owner order_authorization must be PAPER or LIVE'']
      else if \<not> is_digest 40 (pget p ''exact_freeze_commit'' (JStr []))
      then refused [JStr ''exact_freeze_commit must be a 40-character git hash'']
      else if \<not> is_digest 64 (pget p ''source_tree_sha256'' (JStr []))
      then refused [JStr ''source_tree_sha256 must be a SHA-256 digest'']
      else case pget p ''fault_drills'' JNull of
        JObj drills \<Rightarrow>
          if missing_drills platform drills \<noteq> []
          then refused [JStr ''order-capable fault evidence is incomplete: '',
                 JStr (join '', '' (missing_drills platform drills))]
          else (case pget p ''artifact_sha256'' JNull of
              JObj (a # as) \<Rightarrow>
                if invalid_artifacts (a # as) \<noteq> []
                then refused [JStr ''invalid evidence artifact hashes: '', JStr (join '', '' (invalid_artifacts (a # as)))]
                else Inr p
            | _ \<Rightarrow> refused [JStr ''at least one hashed evidence artifact is required''])
      | _ \<Rightarrow> refused [JStr ''fault_drills must be an object''])"

definition validate_broker_capability ::
  "string \<Rightarrow> (exn + jval) option \<Rightarrow> string \<Rightarrow> exn + payload option" where
  "validate_broker_capability capability evidence platform =
     ebind (capability_of capability) (\<lambda>selected.
       if selected = SIMULATION then Inr None
       else case evidence of
         None \<Rightarrow> refused [JStr platform, JStr '' order-capable startup requires a capability evidence file'']
       | Some file \<Rightarrow> ebind (evidence_object file) (\<lambda>p. ebind (check_evidence platform p) (\<lambda>q. Inr (Some q))))"

text \<open>An order-capable start passed every check on its own platform's evidence.\<close>

lemma order_capable_needs_evidence:
  assumes "validate_broker_capability ''order_capable'' evidence platform = Inr r"
  obtains p drills where "evidence = Some (Inr (JObj p))" "r = Some p" "pget p ''platform'' JNull = JStr platform"
    and "pget p ''fault_drills'' JNull = JObj drills"
    and "list_all (\<lambda>d. pget drills d JNull = JStr ''PASS'') (required_drills platform)"
proof -
  obtain fl p q where f: "evidence = Some fl" "evidence_object fl = Inr p" "check_evidence platform p = Inr q" "r = Some q"
    using assms
    by (auto simp: validate_broker_capability_def capability_of_def refused_def ebind_Inr_iff split: option.splits)
  have "fl = Inr (JObj p)"
    using f(2) by (auto simp: evidence_object_def refused_def split: sum.splits jval.splits)
  moreover obtain drills where drills: "pget p ''fault_drills'' JNull = JObj drills" "missing_drills platform drills = []"
      "pget p ''platform'' JNull = JStr platform" "q = p"
    using f(3) by (auto simp: check_evidence_def refused_def split: if_splits jval.splits list.splits)
  moreover have "list_all (\<lambda>d. pget drills d JNull = JStr ''PASS'') (required_drills platform)"
  proof -
    have "set (filter (\<lambda>d. pget drills d JNull \<noteq> JStr ''PASS'') (required_drills platform)) = {}"
      using drills(2) by (metis missing_drills_def set_sort list.set(1))
    then show ?thesis by (auto simp: list_all_iff filter_empty_conv)
  qed
  ultimately show thesis
    using that f drills by simp
qed

end
