(* ===== verification/Bridge.thy ===== *)
theory Bridge
  imports Host
begin

text \<open>
  \<open>async_bridge.py\<close>: the boundary between the broker's event loop and the controller. One bounded queue, one
  consumer on the loop, one worker thread that runs the controller's methods. A step is what the loop or
  the worker does without yielding: a callback posted, a posted item arriving in the queue, the consumer
  taking the next item and giving it to the worker, the worker running its next job, the consumer coming
  back for the result. A method of the controller is one step of the worker.
\<close>

section \<open>State\<close>

type_synonym 'b item = "'b action \<times> nat option"

text \<open>What the worker is given: a method, with whether the consumer still waits for it, or the HALT of an overflow.\<close>

datatype 'b job = Call "'b item" bool | Halt_job

datatype 'b consumer = Not_started | Waiting | Busy "'b item" | Gone

fun not_alive :: "'b consumer \<Rightarrow> bool" where
  "not_alive Not_started = True"
| "not_alive Waiting = False"
| "not_alive (Busy i) = False"
| "not_alive Gone = True"

fun cancelled_idle :: "'b consumer \<Rightarrow> 'b consumer" where
  "cancelled_idle Waiting = Gone"
| "cancelled_idle c = c"

lemma consumer_tests [simp]:
  "not_alive c \<longleftrightarrow> c = Not_started \<or> c = Gone" "cancelled_idle c = (if c = Waiting then Gone else c)"
  by (cases c; simp)+

datatype answer = Value "bool option" | Failed exn | Cancelled

record 'b bridge =
  br_ctl :: "'b ctl"
  br_max_queue :: int
  br_queue :: "'b item list option"
  br_consumer :: "'b consumer"
  br_arrivals :: "'b item list"
  br_putters :: "'b item list"
  br_jobs :: "'b job list"
  br_finished :: "(exn + bool option) option"
  br_closed :: bool
  br_shut_down :: bool
  br_overflowed :: bool
  br_results :: "(nat \<times> answer) list"

definition new_bridge :: "'b ctl \<Rightarrow> int \<Rightarrow> 'b bridge" where
  "new_bridge c n = \<lparr>br_ctl = c, br_max_queue = n, br_queue = None, br_consumer = Not_started, br_arrivals = [],
     br_putters = [], br_jobs = [], br_finished = None, br_closed = False, br_shut_down = False,
     br_overflowed = False, br_results = []\<rparr>"

text \<open>A queue without a positive bound is never full.\<close>

definition queue_items :: "'b bridge \<Rightarrow> 'b item list" where
  "queue_items br = (case br_queue br of None \<Rightarrow> [] | Some q \<Rightarrow> q)"

definition at_capacity :: "'b bridge \<Rightarrow> bool" where
  "at_capacity br \<longleftrightarrow> br_max_queue br > 0 \<and> int (length (queue_items br)) \<ge> br_max_queue br"

definition in_ctl :: "('b ctl, 'a) prog \<Rightarrow> ('b bridge, 'a) prog" where
  "in_ctl m = zoom br_ctl (\<lambda>c br. br\<lparr>br_ctl := c\<rparr>) m"

section \<open>Ingress\<close>

definition require_queue :: "('b bridge, unit) prog" where
  "require_queue = reads (\<lambda>br. (br_queue br = None \<or> br_closed br, not_alive (br_consumer br)))
     (\<lambda>(off, dead).
       if off then raise (RuntimeErr (JStr ''bridge is not running''))
       else if dead
       then seqP (in_ctl (fail_closed_runtime (JStr ''controller bridge consumer is not alive'') False))
              (raise (RuntimeErr (JStr ''controller bridge consumer is not alive'')))
       else ret ())"

definition bridge_start :: "('b bridge, unit) prog" where
  "bridge_start = reads br_consumer (\<lambda>c.
     case c of Not_started \<Rightarrow> modP (\<lambda>br. br\<lparr>br_queue := Some [], br_consumer := Waiting\<rparr>) | _ \<Rightarrow> ret ())"

text \<open>The callbacks of the broker, and the commands of the strategy, with the names of their methods.\<close>

fun callback_name :: "'b action \<Rightarrow> string option" where
  "callback_name (Acked r n p) = Some ''on_ack''"
| "callback_name (Is_working r p) = Some ''on_working''"
| "callback_name (Executed ex) = Some ''on_execution''"
| "callback_name (Fee x c u) = Some ''on_fee''"
| "callback_name (Was_cancelled r) = Some ''on_cancelled''"
| "callback_name (Cancel_was_rejected r why) = Some ''on_cancel_rejected''"
| "callback_name (Was_rejected r why) = Some ''on_rejected''"
| "callback_name (Disconnected r) = Some ''on_disconnected''"
| "callback_name (Connected n) = Some ''on_connected''"
| "callback_name Market_data_lost = Some ''on_market_data_lost''"
| "callback_name Market_data_restored = Some ''on_market_data_restored''"
| "callback_name (Quoted q) = Some ''on_quote''"
| "callback_name a = None"

fun request_name :: "'b action \<Rightarrow> string option" where
  "request_name (Submit t) = Some ''submit_target''"
| "request_name (Reconcile True) = Some ''reconcile''"
| "request_name Tick = Some ''tick''"
| "request_name a = None"

definition is_callback :: "'b action \<Rightarrow> bool" where
  "is_callback a \<longleftrightarrow> callback_name a \<noteq> None"

definition method_name :: "'b action \<Rightarrow> string" where
  "method_name a = (case callback_name a of Some s \<Rightarrow> s | None \<Rightarrow> (case request_name a of Some s \<Rightarrow> s | None \<Rightarrow> []))"

text \<open>\<open>_post\<close> hands the item to the loop; \<open>arrive\<close> is the closure \<open>put\<close> run there.\<close>

definition post :: "'b action \<Rightarrow> ('b bridge, unit) prog" where
  "post a = seqP require_queue (modP (\<lambda>br. br\<lparr>br_arrivals := br_arrivals br @ [(a, None)]\<rparr>))"

definition arrive :: "('b bridge, unit) prog" where
  "arrive = reads (\<lambda>br. br) (\<lambda>br. case br_arrivals br of
     [] \<Rightarrow> ret ()
   | i # is \<Rightarrow> seqP (modP (\<lambda>br. br\<lparr>br_arrivals := is\<rparr>))
       (if \<not> at_capacity br then modP (\<lambda>br. br\<lparr>br_queue := Some (queue_items br @ [i])\<rparr>)
        else whenP (\<not> br_overflowed br)
          (modP (\<lambda>br. br\<lparr>br_overflowed := True,
             br_jobs := (if br_shut_down br then br_jobs br else br_jobs br @ [Halt_job])\<rparr>))))"

text \<open>\<open>_request\<close> up to the put, which waits for room; the puts that wait may get it in any order.\<close>

definition request :: "'b action \<Rightarrow> nat \<Rightarrow> ('b bridge, unit) prog" where
  "request a n = seqP require_queue (modP (\<lambda>br. br\<lparr>br_putters := br_putters br @ [(a, Some n)]\<rparr>))"

definition put_item :: "nat \<Rightarrow> ('b bridge, unit) prog" where
  "put_item k = reads (\<lambda>br. k < length (br_putters br) \<and> \<not> at_capacity br) (\<lambda>can. whenP can
     (modP (\<lambda>br. br\<lparr>br_queue := Some (queue_items br @ [br_putters br ! k]),
        br_putters := take k (br_putters br) @ drop (Suc k) (br_putters br)\<rparr>)))"

section \<open>The consumer and the worker\<close>

text \<open>The methods with their values.\<close>

definition call_of :: "'b action \<Rightarrow> ('b ctl, bool option) prog" where
  "call_of a = (case a of
     Submit t \<Rightarrow> bindP (submit_target t) (\<lambda>b. ret (Some b))
   | Reconcile b \<Rightarrow> bindP (reconcile b) (\<lambda>b. ret (Some b))
   | _ \<Rightarrow> bindP (method_of a) (\<lambda>_. ret None))"

definition take_item :: "('b bridge, unit) prog" where
  "take_item = reads (\<lambda>br. (br_consumer br, queue_items br)) (\<lambda>(c, q). case (c, q) of
     (Waiting, i # is) \<Rightarrow> modP (\<lambda>br. br\<lparr>br_queue := Some is, br_consumer := Busy i, br_jobs := br_jobs br @ [Call i True]\<rparr>)
   | _ \<Rightarrow> ret ())"

text \<open>A failure of the HALT is retrieved and dropped; the result of a method goes to who still waits.\<close>

definition work :: "('b bridge, unit) prog" where
  "work = reads br_jobs (\<lambda>jobs. case jobs of
     [] \<Rightarrow> ret ()
   | Halt_job # js \<Rightarrow> seqP (modP (\<lambda>br. br\<lparr>br_jobs := js\<rparr>))
       (catchP (in_ctl (halt (JStr ''controller bridge queue overflow; callback state may be lost''))) (\<lambda>e. ret ()))
   | Call i awaited # js \<Rightarrow> seqP (modP (\<lambda>br. br\<lparr>br_jobs := js\<rparr>))
       (bindP (attemptP (in_ctl (call_of (fst i))) Some)
         (\<lambda>r. whenP awaited (modP (\<lambda>br. br\<lparr>br_finished := Some r\<rparr>)))))"

definition answer_to :: "'b item \<Rightarrow> answer \<Rightarrow> ('b bridge, unit) prog" where
  "answer_to i ans = (case snd i of None \<Rightarrow> ret ()
     | Some n \<Rightarrow> modP (\<lambda>br. if dget (br_results br) n = None then br\<lparr>br_results := br_results br @ [(n, ans)]\<rparr> else br))"

definition resume :: "('b bridge, unit) prog" where
  "resume = reads (\<lambda>br. (br_consumer br, br_finished br)) (\<lambda>(c, fin). case (c, fin) of
     (Busy i, Some r) \<Rightarrow> block
       [modP (\<lambda>br. br\<lparr>br_finished := None\<rparr>),
        (case r of Inl (JournalUnavailable d) \<Rightarrow> in_ctl (fail_closed_journal (method_name (fst i)) d) | _ \<Rightarrow> ret ()),
        answer_to i (case r of Inl e \<Rightarrow> Failed e | Inr v \<Rightarrow> Value v),
        modP (\<lambda>br. br\<lparr>br_consumer := Waiting\<rparr>)]
   | _ \<Rightarrow> ret ())"

text \<open>
  \<open>close\<close> cancels the consumer and waits for it. Idle in \<open>get\<close>, the consumer ends, and the executor is shut
  down: the running job completes, the others are dropped. Waiting for a job, the cancellation is an
  exception inside the \<open>try\<close>: the job is abandoned (dropped unless it runs already), its request gets the
  cancellation, and the consumer goes on with the next item; \<open>close\<close> waits.
\<close>

fun abandon :: "'b job list \<Rightarrow> 'b job list" where
  "abandon [] = []"
| "abandon (j # js) = (case j of Call i awaited \<Rightarrow> Call i False | Halt_job \<Rightarrow> Halt_job)
     # filter (\<lambda>j. case j of Call i awaited \<Rightarrow> \<not> awaited | Halt_job \<Rightarrow> True) js"

definition bridge_close :: "('b bridge, unit) prog" where
  "bridge_close = reads (\<lambda>br. (br_closed br, br_consumer br)) (\<lambda>(closed, c).
     if closed then ret ()
     else seqP (modP (\<lambda>br. br\<lparr>br_closed := True\<rparr>))
       (case c of
          Busy i \<Rightarrow> seqP (modP (\<lambda>br. br\<lparr>br_jobs := abandon (br_jobs br), br_finished := None, br_consumer := Waiting\<rparr>))
                     (answer_to i Cancelled)
        | _ \<Rightarrow> modP (\<lambda>br. br\<lparr>br_consumer := cancelled_idle c, br_shut_down := True,
                     br_jobs := take 1 (br_jobs br)\<rparr>)))"

section \<open>The machine\<close>

datatype 'b bridge_step = Start | Post "'b action" | Request "'b action" nat | Arrive | Put nat | Take | Work | Resume | Close
  | World "'b action"

text \<open>What happens around the process meanwhile.\<close>

fun is_world :: "'b action \<Rightarrow> bool" where
  "is_world (Advance d) = True"
| "is_world (Set_clock t) = True"
| "is_world (Broker_moves b) = True"
| "is_world (Storage outs) = True"
| "is_world a = False"

datatype 'b bridge_event = Posted "'b action" | Ran "'b action"

fun step_prog :: "'b bridge_step \<Rightarrow> ('b bridge, unit) prog" where
  "step_prog Start = bridge_start"
| "step_prog (Post a) = (if is_callback a then post a else ret ())"
| "step_prog (Request a n) = (if request_name a \<noteq> None then request a n else ret ())"
| "step_prog Arrive = arrive"
| "step_prog (Put k) = put_item k"
| "step_prog Take = take_item"
| "step_prog Work = work"
| "step_prog Resume = resume"
| "step_prog Close = bridge_close"
| "step_prog (World a) = (if is_world a then in_ctl (environment_of a) else ret ())"

text \<open>What a step accepts from the broker, and what it runs on the controller.\<close>

fun step_events :: "'b bridge_step \<Rightarrow> 'b bridge \<Rightarrow> 'b bridge_event list" where
  "step_events (Post a) br = (if is_callback a \<and> isl (fst (post a br)) = False then [Posted a] else [])"
| "step_events Work br = (case br_jobs br of Call i awaited # js \<Rightarrow> [Ran (fst i)] | _ \<Rightarrow> [])"
| "step_events st br = []"

definition bridge_step :: "'b bridge_step \<Rightarrow> 'b bridge \<Rightarrow> 'b bridge" where
  "bridge_step st br = snd (step_prog st br)"

fun bridge_run :: "'b bridge_step list \<Rightarrow> 'b bridge \<Rightarrow> 'b bridge_event list \<times> 'b bridge" where
  "bridge_run [] br = ([], br)"
| "bridge_run (st # sts) br =
    (case bridge_run sts (bridge_step st br) of (events, br') \<Rightarrow> (step_events st br @ events, br'))"

declare bridge_run.simps(2) [simp del]

lemma bridge_run_Cons [simp]:
  "bridge_run (st # sts) br = (step_events st br @ fst (bridge_run sts (bridge_step st br)),
     snd (bridge_run sts (bridge_step st br)))"
  by (simp add: bridge_run.simps(2) case_prod_beta)

end
