(* ===== verification/Bridge_Facts.thy ===== *)
theory Bridge_Facts
  imports Bridge Controller_Safety Controller_Limits Controller_Facts Demo "HOL-Library.Sublist"
begin

text \<open>
  What reaches the controller through the bridge: only its own methods, so every invariant of the controller
  holds behind the bridge; in the order the broker called; and after an overflow a HALT before anything else
  but what the worker already had.
\<close>

section \<open>The controller behind the bridge\<close>

lemma wp_in_ctl: "wp (in_ctl m) Q E br = wp m (\<lambda>a c. Q a (br\<lparr>br_ctl := c\<rparr>)) (\<lambda>e c. E e (br\<lparr>br_ctl := c\<rparr>)) (br_ctl br)"
  by (simp add: in_ctl_def wp_zoom)

lemma keeps_in_ctl: "keeps I m \<Longrightarrow> keeps (\<lambda>br. I (br_ctl br)) (in_ctl m)"
  by (auto simp: keeps_def wp_in_ctl)

lemma keeps_beside: "(\<And>br. br_ctl (f br) = br_ctl br) \<Longrightarrow> keeps (\<lambda>br. I (br_ctl br)) (modP f)"
  by (simp add: keeps_modP)

text \<open>The contract of what holds behind the bridge: kept by the methods and by the world around.\<close>

locale ctl_bridge = ctl_drive I for I :: "'b ctl \<Rightarrow> bool" +
  assumes world: "is_world a \<Longrightarrow> keeps I (environment_of a)"
begin

lemma keeps_call_of: "keeps I (call_of a)"
  unfolding call_of_def by (cases a) (auto simp del: method_of.simps intro!: wp_intro keeps_method)

lemma keeps_ingress: "keeps (\<lambda>br. I (br_ctl br)) require_queue" "keeps (\<lambda>br. I (br_ctl br)) arrive"
  "keeps (\<lambda>br. I (br_ctl br)) (put_item k)" "keeps (\<lambda>br. I (br_ctl br)) bridge_start"
  by (auto simp: require_queue_def arrive_def put_item_def bridge_start_def list.case_eq_if
      intro!: wp_intro keeps_in_ctl keeps_beside split: consumer.splits)

lemma keeps_consumer: "keeps (\<lambda>br. I (br_ctl br)) take_item" "keeps (\<lambda>br. I (br_ctl br)) work"
  "keeps (\<lambda>br. I (br_ctl br)) (answer_to i ans)" "keeps (\<lambda>br. I (br_ctl br)) bridge_close"
  by (auto simp: take_item_def work_def answer_to_def bridge_close_def
      intro!: wp_intro keeps_in_ctl keeps_beside keeps_call_of split: list.splits consumer.splits job.splits)

lemma keeps_resume: "keeps (\<lambda>br. I (br_ctl br)) resume"
  unfolding resume_def
  by (auto intro!: wp_intro keeps_in_ctl keeps_beside keeps_consumer split: consumer.splits option.splits sum.splits exn.splits)

lemma bridge_step_keeps:
  assumes "I (br_ctl br)"
  shows "I (br_ctl (bridge_step st br))"
proof -
  have "keeps (\<lambda>br. I (br_ctl br)) (step_prog st)"
    by (cases st) (auto simp: post_def request_def
        intro!: keeps_ingress keeps_consumer keeps_resume keeps_seqP keeps_beside keeps_ret keeps_in_ctl world)
  from keeps_final [OF this assms] show ?thesis by (simp add: bridge_step_def)
qed

lemma bridge_keeps: "I (br_ctl br) \<Longrightarrow> I (br_ctl (snd (bridge_run sts br)))"
  by (induction sts arbitrary: br) (auto dest: bridge_step_keeps)

end

sublocale ctl_machine \<subseteq> ctl_bridge
  by unfold_locales (rule environment)

section \<open>The steps, executed\<close>

text \<open>What each step does to the fields beside the controller.\<close>

definition admitted :: "'b bridge \<Rightarrow> bool" where
  "admitted br \<longleftrightarrow> br_queue br \<noteq> None \<and> \<not> br_closed br \<and> br_consumer br \<noteq> Not_started \<and> br_consumer br \<noteq> Gone"

lemma in_ctl_run: "in_ctl m br = (fst (m (br_ctl br)), br\<lparr>br_ctl := snd (m (br_ctl br))\<rparr>)"
  by (simp add: in_ctl_def zoom_def case_prod_beta)

lemmas execute_bridge = seqP_def bindP_def reads_def ret_def raise_def modP_def whenP_def catchP_def attemptP_def in_ctl_run

lemma same_bridge [simp]: "\<exists>c. br = br\<lparr>br_ctl := c\<rparr>" "\<exists>rs. br = br\<lparr>br_results := rs\<rparr>"
  by (rule exI [of _ "br_ctl br"], simp) (rule exI [of _ "br_results br"], simp)

lemma require_queue_run:
  "admitted br \<Longrightarrow> require_queue br = (Inr (), br)"
  "\<not> admitted br \<Longrightarrow> \<exists>e c. require_queue br = (Inl e, br\<lparr>br_ctl := c\<rparr>)"
proof -
  show "admitted br \<Longrightarrow> require_queue br = (Inr (), br)"
    by (auto simp: require_queue_def admitted_def execute_bridge)
  assume "\<not> admitted br"
  then show "\<exists>e c. require_queue br = (Inl e, br\<lparr>br_ctl := c\<rparr>)"
    by (auto simp: require_queue_def admitted_def execute_bridge split: sum.splits)
qed

lemma post_step:
  "is_callback a \<Longrightarrow> admitted br \<Longrightarrow> bridge_step (Post a) br = br\<lparr>br_arrivals := br_arrivals br @ [(a, None)]\<rparr>
     \<and> step_events (Post a) br = [Posted a]"
  "\<not> (is_callback a \<and> admitted br) \<Longrightarrow> (\<exists>c. bridge_step (Post a) br = br\<lparr>br_ctl := c\<rparr>) \<and> step_events (Post a) br = []"
proof -
  show "is_callback a \<Longrightarrow> admitted br \<Longrightarrow> bridge_step (Post a) br = br\<lparr>br_arrivals := br_arrivals br @ [(a, None)]\<rparr>
     \<and> step_events (Post a) br = [Posted a]"
    by (simp add: bridge_step_def post_def require_queue_run execute_bridge)
  assume "\<not> (is_callback a \<and> admitted br)"
  then show "(\<exists>c. bridge_step (Post a) br = br\<lparr>br_ctl := c\<rparr>) \<and> step_events (Post a) br = []"
  proof (cases "is_callback a")
    case True
    with \<open>\<not> (is_callback a \<and> admitted br)\<close> obtain e c where "require_queue br = (Inl e, br\<lparr>br_ctl := c\<rparr>)"
      using require_queue_run(2) by blast
    then show ?thesis using True by (auto simp: bridge_step_def post_def execute_bridge)
  qed (simp add: bridge_step_def execute_bridge)
qed

lemma request_step:
  "(\<exists>c. bridge_step (Request a n) br = br\<lparr>br_ctl := c\<rparr>)
     \<or> request_name a \<noteq> None \<and> admitted br \<and> bridge_step (Request a n) br = br\<lparr>br_putters := br_putters br @ [(a, Some n)]\<rparr>"
proof -
  show ?thesis
  proof (cases "request_name a \<noteq> None \<and> admitted br")
    case True
    then show ?thesis by (auto simp: bridge_step_def request_def require_queue_run execute_bridge)
  next
    case False
    then show ?thesis
      using require_queue_run(2) [of br]
      by (cases "request_name a \<noteq> None") (auto simp: bridge_step_def request_def execute_bridge)
  qed
qed

lemma request_admitted:
  "request_name a \<noteq> None \<Longrightarrow> admitted br \<Longrightarrow> bridge_step (Request a n) br = br\<lparr>br_putters := br_putters br @ [(a, Some n)]\<rparr>"
  by (auto simp: bridge_step_def request_def require_queue_run execute_bridge)

lemma start_step:
  "bridge_step Start br = (if br_consumer br \<noteq> Not_started then br else br\<lparr>br_queue := Some [], br_consumer := Waiting\<rparr>)"
  by (cases "br_consumer br") (simp_all add: bridge_step_def bridge_start_def execute_bridge)

lemma arrive_step:
  "bridge_step Arrive br = (case br_arrivals br of
     [] \<Rightarrow> br
   | i # is \<Rightarrow> if \<not> at_capacity br then br\<lparr>br_arrivals := is, br_queue := Some (queue_items br @ [i])\<rparr>
       else if br_overflowed br then br\<lparr>br_arrivals := is\<rparr>
       else br\<lparr>br_arrivals := is, br_overflowed := True,
              br_jobs := (if br_shut_down br then br_jobs br else br_jobs br @ [Halt_job])\<rparr>)"
  by (simp add: bridge_step_def arrive_def execute_bridge queue_items_def split: list.splits)

lemma put_step:
  "bridge_step (Put k) br = (if k < length (br_putters br) \<and> \<not> at_capacity br
     then br\<lparr>br_queue := Some (queue_items br @ [br_putters br ! k]),
        br_putters := take k (br_putters br) @ drop (Suc k) (br_putters br)\<rparr> else br)"
  by (simp add: bridge_step_def put_item_def execute_bridge)

lemma take_step:
  "bridge_step Take br = (case (br_consumer br, queue_items br) of
     (Waiting, i # is) \<Rightarrow> br\<lparr>br_queue := Some is, br_consumer := Busy i, br_jobs := br_jobs br @ [Call i True]\<rparr>
   | _ \<Rightarrow> br)"
  by (simp add: bridge_step_def take_item_def execute_bridge split: consumer.splits list.splits)

lemma world_step: "\<exists>c. bridge_step (World a) br = br\<lparr>br_ctl := c\<rparr>"
  by (simp add: bridge_step_def in_ctl_run ret_def) blast

lemma work_step:
  "bridge_step Work br = (case br_jobs br of
     [] \<Rightarrow> br
   | Halt_job # js \<Rightarrow> br\<lparr>br_jobs := js,
        br_ctl := snd (halt (JStr ''controller bridge queue overflow; callback state may be lost'') (br_ctl br))\<rparr>
   | Call i awaited # js \<Rightarrow> br\<lparr>br_jobs := js, br_ctl := snd (call_of (fst i) (br_ctl br)),
        br_finished := (if awaited then Some (fst (call_of (fst i) (br_ctl br))) else br_finished br)\<rparr>)"
proof (cases "br_jobs br")
  case (Cons j js)
  have ignored: "catchP (in_ctl m) (\<lambda>e. ret ()) b = (Inr (), b\<lparr>br_ctl := snd (m (br_ctl b))\<rparr>)"
    for m :: "('a ctl, unit) prog" and b :: "'a bridge"
    by (cases "m (br_ctl b)") (simp add: catchP_def in_ctl_run ret_def split: sum.splits)
  have tried: "attemptP (in_ctl m) Some b = (Inr (fst (m (br_ctl b))), b\<lparr>br_ctl := snd (m (br_ctl b))\<rparr>)"
    for m :: "('a ctl, bool option) prog" and b :: "'a bridge"
    by (cases "m (br_ctl b)") (simp add: attemptP_def catchP_def bindP_def in_ctl_run ret_def split: sum.splits)
  show ?thesis
    using Cons by (cases j)
      (simp_all add: bridge_step_def work_def reads_def seqP_def bindP_def modP_def whenP_def ret_def ignored [unfolded ret_def] tried)
qed (simp add: bridge_step_def work_def reads_def ret_def)

lemma fail_closed_journal_returns: "fst (fail_closed_journal w d s) = Inr ()"
proof -
  have "wp (fail_closed_journal w d) (\<lambda>_ _. True) (\<lambda>_ _. False) s"
    by (rule wp_fail_closed_journal) simp
  then show ?thesis by (auto simp: wp_def split: sum.splits prod.splits)
qed

lemma answer_run: "\<exists>rs. answer_to i ans br = (Inr (), br\<lparr>br_results := rs\<rparr>)"
  by (auto simp: answer_to_def execute_bridge split: option.splits)

lemma resume_step:
  "bridge_step Resume br = br \<or> (\<exists>i r. br_consumer br = Busy i \<and> br_finished br = Some r
     \<and> (\<exists>c rs. bridge_step Resume br = br\<lparr>br_finished := None, br_ctl := c, br_results := rs, br_consumer := Waiting\<rparr>))"
proof -
  show ?thesis
  proof (cases "br_consumer br")
    case (Busy i)
    show ?thesis
    proof (cases "br_finished br")
      case (Some r)
      let ?br = "br\<lparr>br_finished := None\<rparr>"
      let ?m = "case r of Inl (JournalUnavailable d) \<Rightarrow> in_ctl (fail_closed_journal (method_name (fst i)) d) | _ \<Rightarrow> ret ()"
      have "\<exists>c. ?m ?br = (Inr (), ?br\<lparr>br_ctl := c\<rparr>)"
      proof (cases r)
        case (Inl e)
        then show ?thesis
          using fail_closed_journal_returns same_bridge(1) [of ?br] by (cases e) (auto simp: in_ctl_run ret_def)
      qed (use same_bridge(1) [of ?br] in \<open>simp add: ret_def\<close>)
      then obtain c where c: "?m ?br = (Inr (), ?br\<lparr>br_ctl := c\<rparr>)" ..
      obtain rs where "answer_to i (case r of Inl e \<Rightarrow> Failed e | Inr v \<Rightarrow> Value v) (?br\<lparr>br_ctl := c\<rparr>)
          = (Inr (), ?br\<lparr>br_ctl := c, br_results := rs\<rparr>)"
        using answer_run [of i _ "?br\<lparr>br_ctl := c\<rparr>"] by auto
      then have "bridge_step Resume br = br\<lparr>br_finished := None, br_ctl := c, br_results := rs, br_consumer := Waiting\<rparr>"
        using c Busy Some by (simp add: bridge_step_def resume_def reads_def seqP_def bindP_def modP_def ret_def)
      with Busy Some show ?thesis by blast
    qed (simp add: Busy bridge_step_def resume_def execute_bridge)
  qed (simp_all add: bridge_step_def resume_def execute_bridge)
qed

lemma close_step:
  "br_closed br \<Longrightarrow> bridge_step Close br = br"
  "\<forall>i. br_consumer br \<noteq> Busy i \<Longrightarrow> \<not> br_closed br \<Longrightarrow> bridge_step Close br =
     br\<lparr>br_closed := True, br_consumer := (if br_consumer br = Waiting then Gone else br_consumer br),
       br_shut_down := True, br_jobs := take 1 (br_jobs br)\<rparr>"
  "br_consumer br = Busy i \<Longrightarrow> \<not> br_closed br \<Longrightarrow> \<exists>rs. bridge_step Close br =
     br\<lparr>br_closed := True, br_jobs := abandon (br_jobs br), br_finished := None, br_consumer := Waiting, br_results := rs\<rparr>"
proof -
  show "br_closed br \<Longrightarrow> bridge_step Close br = br"
    by (simp add: bridge_step_def bridge_close_def reads_def ret_def)
next
  show "\<forall>i. br_consumer br \<noteq> Busy i \<Longrightarrow> \<not> br_closed br \<Longrightarrow> bridge_step Close br =
     br\<lparr>br_closed := True, br_consumer := (if br_consumer br = Waiting then Gone else br_consumer br),
       br_shut_down := True, br_jobs := take 1 (br_jobs br)\<rparr>"
    by (cases "br_consumer br") (simp_all add: bridge_step_def bridge_close_def execute_bridge)
next
  assume "br_consumer br = Busy i" "\<not> br_closed br"
  moreover obtain rs where "answer_to i Cancelled (br\<lparr>br_closed := True, br_jobs := abandon (br_jobs br),
      br_finished := None, br_consumer := Waiting\<rparr>) = (Inr (), br\<lparr>br_closed := True, br_jobs := abandon (br_jobs br),
      br_finished := None, br_consumer := Waiting, br_results := rs\<rparr>)"
    using answer_run by fastforce
  ultimately show "\<exists>rs. bridge_step Close br =
     br\<lparr>br_closed := True, br_jobs := abandon (br_jobs br), br_finished := None, br_consumer := Waiting, br_results := rs\<rparr>"
    by (auto simp: bridge_step_def bridge_close_def reads_def seqP_def bindP_def modP_def)
qed

section \<open>Order\<close>

fun calls :: "'b job list \<Rightarrow> 'b item list" where
  "calls [] = []"
| "calls (Call i awaited # js) = i # calls js"
| "calls (Halt_job # js) = calls js"

lemma calls_append [simp]: "calls (js @ js') = calls js @ calls js'"
  by (induction js rule: calls.induct) auto

text \<open>The callbacks on their way: given to the worker, queued, or not yet arrived.\<close>

definition callbacks :: "'b item list \<Rightarrow> 'b action list" where
  "callbacks is = filter is_callback (map fst is)"

definition on_the_way :: "'b bridge \<Rightarrow> 'b action list" where
  "on_the_way br = callbacks (calls (br_jobs br)) @ callbacks (queue_items br) @ callbacks (br_arrivals br)"

fun posted_in :: "'b bridge_event list \<Rightarrow> 'b action list" where
  "posted_in [] = []"
| "posted_in (Posted a # es) = a # posted_in es"
| "posted_in (Ran a # es) = posted_in es"

fun ran_in :: "'b bridge_event list \<Rightarrow> 'b action list" where
  "ran_in [] = []"
| "ran_in (Posted a # es) = ran_in es"
| "ran_in (Ran a # es) = a # ran_in es"

lemma events_append [simp]:
  "posted_in (es @ es') = posted_in es @ posted_in es'" "ran_in (es @ es') = ran_in es @ ran_in es'"
  by (induction es rule: posted_in.induct) auto

lemma callbacks_simps [simp]:
  "callbacks [] = []" "callbacks (i # is) = (if is_callback (fst i) then fst i # callbacks is else callbacks is)"
  "callbacks (is @ is') = callbacks is @ callbacks is'"
  by (simp_all add: callbacks_def)

lemma request_no_callback: "request_name a \<noteq> None \<Longrightarrow> \<not> is_callback a"
  by (cases a) (auto simp: is_callback_def)

text \<open>Only requests wait to be put, and nothing is on its way before the start.\<close>

definition putters_ok :: "'b bridge \<Rightarrow> bool" where
  "putters_ok br \<longleftrightarrow> (\<forall>i \<in> set (br_putters br). \<not> is_callback (fst i))
     \<and> (br_consumer br = Not_started \<longrightarrow> br_queue br = None \<and> br_arrivals br = [] \<and> br_putters br = [])"

lemma abandon_calls: "subseq (callbacks (calls (abandon js))) (callbacks (calls js))"
proof -
  have "subseq (callbacks (calls (filter P js))) (callbacks (calls js))" for P :: "'b job \<Rightarrow> bool" and js
    by (induction js rule: calls.induct) (auto intro: subseq_Cons')
  then show ?thesis
    by (cases js) (auto split: job.splits)
qed

definition lossless :: "'b bridge \<Rightarrow> bool" where
  "lossless br \<longleftrightarrow> \<not> br_overflowed br \<and> \<not> br_closed br"

text \<open>One step takes callbacks from the front and adds them at the back, losing some only on an overflow or a close.\<close>

definition in_order :: "'b bridge_event list \<Rightarrow> 'b bridge \<Rightarrow> 'b bridge \<Rightarrow> bool" where
  "in_order es br br' \<longleftrightarrow>
     subseq (filter is_callback (ran_in es) @ on_the_way br') (on_the_way br @ posted_in es)
     \<and> (lossless br' \<longrightarrow> lossless br \<and> filter is_callback (ran_in es) @ on_the_way br' = on_the_way br @ posted_in es)
     \<and> putters_ok br'"

lemma in_order_same:
  "putters_ok br \<Longrightarrow> br_jobs br' = br_jobs br \<Longrightarrow> br_queue br' = br_queue br \<Longrightarrow> br_arrivals br' = br_arrivals br
     \<Longrightarrow> (br_consumer br' = Not_started \<Longrightarrow> br_consumer br = Not_started) \<Longrightarrow> br_overflowed br' = br_overflowed br \<Longrightarrow> br_closed br' = br_closed br \<Longrightarrow> br_putters br' = br_putters br
     \<Longrightarrow> in_order [] br br'"
  by (simp add: in_order_def on_the_way_def putters_ok_def lossless_def queue_items_def)

lemma admitted_started: "admitted br \<Longrightarrow> br_consumer br \<noteq> Not_started"
  by (simp add: admitted_def)

lemmas order_defs = in_order_def on_the_way_def lossless_def putters_ok_def queue_items_def

lemma close_in_order:
  assumes "putters_ok br"
  shows "in_order [] br (bridge_step Close br)"
proof (cases "br_closed br")
  case True
  then show ?thesis using assms by (simp add: close_step(1) in_order_same)
next
  case open_still: False
  have first_job: "subseq (callbacks (calls (take (Suc 0) js))) (callbacks (calls js))" for js :: "'a job list"
    by (cases js rule: calls.cases) auto
  show ?thesis
  proof (cases "br_consumer br")
    case (Busy i)
    from close_step(3) [OF this open_still] assms abandon_calls show ?thesis
      by (auto simp: order_defs intro!: list_emb_append_mono)
  next
  qed (use assms open_still first_job in \<open>auto simp: close_step(2) order_defs intro!: list_emb_append_mono\<close>)
qed

lemma bridge_step_in_order:
  assumes "putters_ok br"
  shows "in_order (step_events st br) br (bridge_step st br)"
proof (cases st)
  case (Post a)
  show ?thesis
  proof (cases "is_callback a \<and> admitted br")
    case True
    with post_step(1) [of a br] assms Post show ?thesis
      by (auto simp: order_defs admitted_started simp del: step_events.simps)
  next
    case False
    with post_step(2) [OF False] assms Post show ?thesis
      by (auto simp del: step_events.simps intro: in_order_same)
  qed
next
  case (Request a n)
  from request_step [of a n br] show ?thesis
  proof
    assume "\<exists>c. bridge_step (Request a n) br = br\<lparr>br_ctl := c\<rparr>"
    with Request assms show ?thesis by (auto intro: in_order_same)
  next
    assume "request_name a \<noteq> None \<and> admitted br \<and> bridge_step (Request a n) br = br\<lparr>br_putters := br_putters br @ [(a, Some n)]\<rparr>"
    with Request assms request_no_callback [of a] show ?thesis by (auto simp: order_defs admitted_started)
  qed
next
  case Start
  with assms show ?thesis by (auto simp: start_step order_defs)
next
  case Arrive
  with assms show ?thesis
    by (auto simp: arrive_step order_defs split: list.splits option.splits intro!: list_emb_append_mono)
next
  case (Put k)
  with assms show ?thesis
    by (auto simp: put_step order_defs dest: in_set_takeD in_set_dropD split: option.splits)
next
  case Take
  with assms show ?thesis
    by (auto simp: take_step order_defs split: list.splits option.splits consumer.splits)
next
  case Work
  with assms show ?thesis
    by (auto simp: work_step order_defs split: list.splits job.splits)
next
  case Resume
  with resume_step [of br] assms show ?thesis by (auto intro: in_order_same)
next
  case Close
  with close_in_order [OF assms] show ?thesis by simp
next
  case (World a)
  with world_step [of a br] assms show ?thesis by (auto intro: in_order_same)
qed

lemma subseq_chain:
  assumes "subseq (r1 @ w1) (w0 @ p1)" and "subseq (r2 @ w2) (w1 @ p2)"
  shows "subseq ((r1 @ r2) @ w2) (w0 @ (p1 @ p2))"
proof -
  have "subseq (r1 @ (r2 @ w2)) (r1 @ (w1 @ p2))"
    using assms(2) by (simp only: subseq_append')
  also have "subseq (r1 @ (w1 @ p2)) ((w0 @ p1) @ p2)"
    using assms(1) by (simp only: subseq_append flip: append_assoc)
  finally show ?thesis by simp
qed

lemma equal_chain: "r1 @ w1 = w0 @ p1 \<Longrightarrow> r2 @ w2 = w1 @ p2 \<Longrightarrow> (r1 @ r2) @ w2 = w0 @ (p1 @ p2)"
  by (metis append.assoc)

lemma in_order_run:
  "putters_ok br \<Longrightarrow> in_order (fst (bridge_run sts br)) br (snd (bridge_run sts br))"
proof (induction sts arbitrary: br)
  case Nil
  then show ?case by (simp add: in_order_def)
next
  case (Cons st sts)
  have 1: "in_order (step_events st br) br (bridge_step st br)"
    by (rule bridge_step_in_order [OF Cons.prems])
  moreover have "in_order (fst (bridge_run sts (bridge_step st br))) (bridge_step st br) (snd (bridge_run sts (bridge_step st br)))"
    by (rule Cons.IH) (use 1 in \<open>simp add: in_order_def\<close>)
  ultimately show ?case
    unfolding in_order_def bridge_run_Cons fst_conv snd_conv events_append filter_append
    by (blast intro: subseq_chain equal_chain)
qed

section \<open>Overflow\<close>

lemma keeps_restored_journal: "keeps ct_journal_restored (journal_op m :: ('b ctl, 'x) prog)"
  unfolding journal_op_def in_journal_def by (intro keeps_reads keeps_zoom) simp

interpretation restored: ctl_wire ct_journal_restored
proof unfold_locales
  fix e show "keeps ct_journal_restored (emit_seq e :: ('b ctl, int) prog)"
    unfolding emit_seq_def by (rule keeps_restored_journal)
qed (simp_all add: same_ground_def keeps_restored_journal)

interpretation restored_modes: ctl_modes ct_journal_restored
  by unfold_locales simp_all

lemma keeps_world:
  assumes "is_world a" and "\<And>s t. I s \<Longrightarrow> ct_journal_restored t = ct_journal_restored s \<Longrightarrow> ct_mode t = ct_mode s
      \<Longrightarrow> ct_wire t = ct_wire s \<Longrightarrow> I t"
  shows "keeps I (environment_of a)"
  using assms(1) by (cases a) (auto simp: in_journal_def keeps_def wp_simps elim!: assms(2))

interpretation restored_bridge: ctl_bridge ct_journal_restored
  by unfold_locales (rule keeps_world, simp_all)

interpretation halted_bridge: ctl_bridge "halted_still w" for w
  by unfold_locales (rule keeps_world, simp_all add: halted_still_def)

definition now_halted :: "'b bridge \<Rightarrow> bool" where
  "now_halted br \<longleftrightarrow> (\<exists>w. halted_still w (br_ctl br))"

lemma now_halted_step: "now_halted br \<Longrightarrow> now_halted (bridge_step st br)"
  unfolding now_halted_def by (blast intro: halted_bridge.bridge_step_keeps)

lemma halt_halts:
  assumes "ct_journal_restored s"
  shows "\<exists>w. halted_still w (snd (halt why s))"
proof -
  have "wp (halt why) (\<lambda>_ t. ct_mode t = HALTED) (\<lambda>_ t. ct_mode t = HALTED) s"
    by (rule wp_halt) auto
  moreover have "keeps ct_journal_restored (halt why)"
    by (rule restored.keeps_halt)
  ultimately show ?thesis
    using assms wp_final keeps_final by (auto simp: halted_still_def)
qed

text \<open>
  How many methods can still run before the HALT of an overflow: those given to the worker before it; and
  when the executor is shut down, what is left of its jobs.
\<close>

fun halt_before :: "nat \<Rightarrow> 'b job list \<Rightarrow> bool" where
  "halt_before n [] \<longleftrightarrow> False"
| "halt_before n (Halt_job # js) \<longleftrightarrow> True"
| "halt_before n (Call i awaited # js) \<longleftrightarrow> n \<noteq> 0 \<and> halt_before (n - 1) js"

definition halts_within :: "nat \<Rightarrow> 'b bridge \<Rightarrow> bool" where
  "halts_within n br \<longleftrightarrow> now_halted br \<or> halt_before n (br_jobs br)
     \<or> br_shut_down br \<and> length (br_jobs br) \<le> n"

lemma halt_before_mono: "halt_before n js \<Longrightarrow> n \<le> m \<Longrightarrow> halt_before m js"
  by (induction n js arbitrary: m rule: halt_before.induct) auto

lemma halt_before_append: "halt_before n js \<Longrightarrow> halt_before n (js @ js')"
  by (induction n js rule: halt_before.induct) auto

lemma halt_before_last: "length js \<le> n \<Longrightarrow> halt_before n (js @ [Halt_job])"
  by (induction n js rule: halt_before.induct) auto

lemma halt_before_filter: "halt_before n js \<Longrightarrow> P Halt_job \<Longrightarrow> halt_before n (filter P js)"
  by (induction n js rule: halt_before.induct) (auto intro: halt_before_mono)

lemma halt_before_abandon: "halt_before n js \<Longrightarrow> halt_before n (abandon js)"
  by (cases js) (auto split: job.splits intro: halt_before_filter)

lemma halt_before_first: "halt_before n js \<Longrightarrow> halt_before n (take 1 js) \<or> length (take 1 js) \<le> n"
  by (cases js; cases n) (auto, metis halt_before.simps(2) job.exhaust halt_before.simps(3))

text \<open>The worker never has more than the consumer's job and one that a close abandoned.\<close>

definition awaited_jobs :: "'b bridge \<Rightarrow> nat" where
  "awaited_jobs br = (case br_consumer br of Busy i \<Rightarrow> if br_finished br = None then 1 else 0 | _ \<Rightarrow> 0)"

lemma awaited_same [simp]:
  "awaited_jobs (br\<lparr>br_arrivals := x0\<rparr>) = awaited_jobs br"
  "awaited_jobs (br\<lparr>br_queue := x1\<rparr>) = awaited_jobs br"
  "awaited_jobs (br\<lparr>br_putters := x2\<rparr>) = awaited_jobs br"
  "awaited_jobs (br\<lparr>br_ctl := x3\<rparr>) = awaited_jobs br"
  "awaited_jobs (br\<lparr>br_results := x4\<rparr>) = awaited_jobs br"
  "awaited_jobs (br\<lparr>br_overflowed := x5\<rparr>) = awaited_jobs br"
  "awaited_jobs (br\<lparr>br_jobs := x6\<rparr>) = awaited_jobs br"
  "awaited_jobs (br\<lparr>br_closed := x7\<rparr>) = awaited_jobs br"
  "awaited_jobs (br\<lparr>br_shut_down := x8\<rparr>) = awaited_jobs br"
  by (cases "br_consumer br"; simp add: awaited_jobs_def)+

definition spare :: "'b bridge \<Rightarrow> nat" where
  "spare br = (if br_closed br then 1 else 0)"

fun is_awaited :: "'b job \<Rightarrow> bool" where
  "is_awaited (Call i awaited) = awaited"
| "is_awaited Halt_job = False"

definition bridge_base :: "'b bridge \<Rightarrow> bool" where
  "bridge_base br \<longleftrightarrow> ct_journal_restored (br_ctl br)
     \<and> br_consumer br \<noteq> Not_started \<and> (br_consumer br = Waiting \<longrightarrow> br_finished br = None)
     \<and> (br_shut_down br \<longrightarrow> br_closed br \<and> br_consumer br = Gone)
     \<and> (br_consumer br = Gone \<longrightarrow> br_closed br)
     \<and> length (filter is_awaited (br_jobs br)) \<le> awaited_jobs br"

lemma abandon_awaits_none: "filter is_awaited (abandon js) = []"
  by (cases js) (auto simp: filter_empty_conv split: job.splits)

definition bridge_inv :: "'b bridge \<Rightarrow> bool" where
  "bridge_inv br \<longleftrightarrow> bridge_base br
     \<and> (if br_overflowed br then halts_within (1 + spare br) br
        else Halt_job \<notin> set (br_jobs br) \<and> length (br_jobs br) \<le> awaited_jobs br + spare br)"

lemma halts_within_mono: "halts_within n br \<Longrightarrow> n \<le> m \<Longrightarrow> halts_within m br"
  by (auto simp: halts_within_def intro: halt_before_mono)

lemma abandon_length: "length (abandon js) \<le> length js"
  by (cases js) auto

lemma work_halts:
  assumes "ct_journal_restored (br_ctl br)" and "halts_within n br"
  shows "now_halted (bridge_step Work br)
    \<or> length (ran_in (step_events Work br)) \<le> n \<and> halts_within (n - length (ran_in (step_events Work br))) (bridge_step Work br)"
proof (cases "now_halted br")
  case True
  then show ?thesis by (simp add: now_halted_step)
next
  case False
  show ?thesis
  proof (cases "br_jobs br")
    case Nil
    then show ?thesis using assms(2) by (auto simp: work_step)
  next
    case (Cons j js)
    show ?thesis
    proof (cases j)
      case Halt_job
      then show ?thesis
        using Cons halt_halts [OF assms(1)] by (simp add: work_step now_halted_def)
    next
      case (Call i awaited)
      then show ?thesis
        using Cons assms(2) False by (auto simp: work_step halts_within_def)
    qed
  qed
qed

lemma close_halts:
  assumes "halts_within n br" and "\<not> now_halted br"
  shows "halts_within n (bridge_step Close br)"
proof (cases "br_closed br")
  case True
  then show ?thesis using assms by (simp add: close_step(1))
next
  case open_still: False
  show ?thesis
  proof (cases "\<exists>i. br_consumer br = Busy i")
    case True
    then obtain i rs where "bridge_step Close br = br\<lparr>br_closed := True, br_jobs := abandon (br_jobs br),
        br_finished := None, br_consumer := Waiting, br_results := rs\<rparr>"
      using close_step(3) open_still by blast
    then show ?thesis
      using assms halt_before_abandon abandon_length [of "br_jobs br"] by (auto simp: halts_within_def)
  next
    case False
    then show ?thesis
      using assms open_still halt_before_first [of n "br_jobs br"]
      by (auto simp: close_step(2) halts_within_def)
  qed
qed

lemma now_halted_rows: "br_ctl br' = br_ctl br \<Longrightarrow> now_halted br' = now_halted br"
  by (simp add: now_halted_def)

lemma bridge_step_halts:
  assumes "ct_journal_restored (br_ctl br)" and "br_shut_down br \<longrightarrow> br_consumer br = Gone" and "halts_within n br"
  shows "now_halted (bridge_step st br)
    \<or> length (ran_in (step_events st br)) \<le> n \<and> halts_within (n - length (ran_in (step_events st br))) (bridge_step st br)"
proof (cases "now_halted br")
  case True
  then show ?thesis by (simp add: now_halted_step)
next
  case False
  have jobs_same: "halts_within n br'" if "br_jobs br' = br_jobs br \<and> br_shut_down br' = br_shut_down br" for br'
    using assms(3) False that by (auto simp: halts_within_def)
  have jobs_more: "halts_within n br'"
    if "\<not> br_shut_down br" "br_jobs br' = br_jobs br @ js" for br' js
    using assms(3) False that by (auto simp: halts_within_def intro: halt_before_append)
  show ?thesis
  proof (cases st)
    case (Post a)
    have "halts_within n (bridge_step (Post a) br)"
      by (rule jobs_same, cases "is_callback a \<and> admitted br")
         (use post_step [of a br] in \<open>auto simp del: step_events.simps\<close>)
    with Post show ?thesis by simp
  next
    case (Request a m)
    with request_step [of a m br] jobs_same show ?thesis by auto
  next
    case Start
    with jobs_same show ?thesis by (simp add: start_step)
  next
    case Arrive
    have "halts_within n (bridge_step Arrive br)"
    proof (cases "br_shut_down br")
      case True
      then show ?thesis by (intro jobs_same) (simp add: arrive_step split: list.splits)
    next
      case shut: False
      have "\<exists>js. br_jobs (bridge_step Arrive br) = br_jobs br @ js"
        using shut by (simp add: arrive_step split: list.splits)
      with jobs_more [OF shut] show ?thesis by blast
    qed
    with Arrive show ?thesis by simp
  next
    case (Put k)
    with jobs_same show ?thesis by (simp add: put_step)
  next
    case Take
    have "halts_within n (bridge_step Take br)"
    proof (cases "br_consumer br = Waiting")
      case True
      with assms(2) have "\<not> br_shut_down br" by auto
      moreover have "\<exists>js. br_jobs (bridge_step Take br) = br_jobs br @ js"
        using True by (simp add: take_step split: list.splits)
      ultimately show ?thesis using jobs_more by blast
    next
      case idle: False
      then show ?thesis by (intro jobs_same) (simp add: take_step split: consumer.splits)
    qed
    with Take show ?thesis by simp
  next
    case Work
    with work_halts [OF assms(1,3)] show ?thesis by simp
  next
    case Resume
    with resume_step [of br] jobs_same show ?thesis by auto
  next
    case Close
    with close_halts [OF assms(3) False] show ?thesis by simp
  next
    case (World a)
    with world_step [of a br] jobs_same show ?thesis by auto
  qed
qed

lemma close_cases:
  obtains (again) "bridge_step Close br = br"
    | (idle) "\<forall>i. br_consumer br \<noteq> Busy i" "bridge_step Close br =
        br\<lparr>br_closed := True, br_consumer := (if br_consumer br = Waiting then Gone else br_consumer br),
          br_shut_down := True, br_jobs := take 1 (br_jobs br)\<rparr>" "\<not> br_closed br"
    | (busy) i rs where "br_consumer br = Busy i" "bridge_step Close br =
        br\<lparr>br_closed := True, br_jobs := abandon (br_jobs br), br_finished := None, br_consumer := Waiting, br_results := rs\<rparr>"
        "\<not> br_closed br"
proof (cases "br_closed br")
  case True
  then show thesis by (rule again [OF close_step(1)])
next
  case False
  show thesis
  proof (cases "\<exists>i. br_consumer br = Busy i")
    case True
    then obtain i where i: "br_consumer br = Busy i" ..
    from close_step(3) [OF i False] busy [OF i] False show thesis by blast
  next
    case no_job: False
    then have "\<forall>i. br_consumer br \<noteq> Busy i" by blast
    from this close_step(2) [OF this False] False show thesis by (rule idle)
  qed
qed

lemma resume_cases:
  obtains (same) "bridge_step Resume br = br"
    | (answered) i r c rs where "br_consumer br = Busy i" "br_finished br = Some r" "bridge_step Resume br =
        br\<lparr>br_finished := None, br_ctl := c, br_results := rs, br_consumer := Waiting\<rparr>"
  using resume_step [of br] by blast

lemma post_cases:
  obtains (posted) "admitted br" "bridge_step (Post a) br = br\<lparr>br_arrivals := br_arrivals br @ [(a, None)]\<rparr>"
    | (refused) c where "bridge_step (Post a) br = br\<lparr>br_ctl := c\<rparr>"
  using post_step [of a br] by (cases "is_callback a \<and> admitted br") blast+

lemma bridge_base_step:
  assumes "bridge_base br"
  shows "bridge_base (bridge_step st br) \<and> (br_closed br \<longrightarrow> br_closed (bridge_step st br))
    \<and> (br_overflowed br \<longrightarrow> br_overflowed (bridge_step st br))"
proof -
  have restored_still: "ct_journal_restored (br_ctl (bridge_step st br))"
    using assms by (intro restored_bridge.bridge_step_keeps) (simp add: bridge_base_def)
  show ?thesis
  proof (cases st)
    case (Post a)
    with restored_still assms show ?thesis by (cases rule: post_cases [of br a]) (auto simp: bridge_base_def)
  next
    case (Request a n)
    with request_step [of a n br] restored_still assms show ?thesis by (auto simp: bridge_base_def)
  next
    case Start
    with assms show ?thesis by (simp add: start_step bridge_base_def)
  next
    case Arrive
    with restored_still assms show ?thesis by (auto simp: arrive_step bridge_base_def split: list.splits)
  next
    case (Put k)
    with restored_still assms show ?thesis by (auto simp: put_step bridge_base_def)
  next
    case Take
    with restored_still assms show ?thesis
      by (cases "br_consumer br"; cases "queue_items br") (auto simp: take_step bridge_base_def awaited_jobs_def)
  next
    case Work
    show ?thesis
    proof (cases "br_jobs br")
      case (Cons j js)
      show ?thesis
      proof (cases "is_awaited j")
        case True
        with Cons assms obtain i where "br_consumer br = Busy i" "br_finished br = None" "filter is_awaited js = []"
          by (auto simp: bridge_base_def awaited_jobs_def split: consumer.splits if_splits)
        with True Cons Work restored_still assms show ?thesis
          by (cases j) (auto simp: work_step bridge_base_def)
      next
        case False
        with Cons Work restored_still assms show ?thesis
          by (cases j; cases "br_consumer br") (auto simp: work_step bridge_base_def awaited_jobs_def)
      qed
    qed (use Work assms in \<open>simp add: work_step\<close>)
  next
    case Resume
    with restored_still assms show ?thesis
      by (cases rule: resume_cases [of br]) (simp_all add: bridge_base_def awaited_jobs_def)
  next
    case Close
    with restored_still assms show ?thesis
    proof (cases rule: close_cases [of br])
      case idle
      with assms have "filter is_awaited (take 1 (br_jobs br)) = []"
        by (cases "br_jobs br"; cases "br_consumer br") (auto simp: bridge_base_def awaited_jobs_def split: if_splits)
      with idle Close restored_still assms show ?thesis
        by (cases "br_consumer br") (auto simp: bridge_base_def)
    qed (auto simp: bridge_base_def abandon_awaits_none)
  next
    case (World a)
    with world_step [of a br] restored_still assms show ?thesis by (auto simp: bridge_base_def)
  qed
qed

lemma bridge_inv_step:
  assumes "bridge_inv br"
  shows "bridge_inv (bridge_step st br)"
proof -
  have base: "bridge_base br" "bridge_base (bridge_step st br)" and spare: "spare br \<le> spare (bridge_step st br)"
    and flowed: "br_overflowed br \<longrightarrow> br_overflowed (bridge_step st br)"
    using assms bridge_base_step [of br st] by (simp_all add: bridge_inv_def spare_def)
  show ?thesis
  proof (cases "br_overflowed br")
    case True
    then have within: "halts_within (1 + spare br) br" using assms by (simp add: bridge_inv_def)
    from flowed True have flowed': "br_overflowed (bridge_step st br)" by simp
    have "now_halted (bridge_step st br) \<or> halts_within (1 + spare br) (bridge_step st br)"
      using bridge_step_halts [OF _ _ within, of st] base(1)
      by (auto simp: bridge_base_def intro: halts_within_mono)
    then have "halts_within (1 + spare (bridge_step st br)) (bridge_step st br)"
      using spare by (auto simp: halts_within_def intro: halts_within_mono halt_before_mono)
    then show ?thesis using base flowed' by (simp add: bridge_inv_def)
  next
    case False
    then have jobs: "Halt_job \<notin> set (br_jobs br)" "length (br_jobs br) \<le> awaited_jobs br + spare br"
      using assms by (simp_all add: bridge_inv_def)
    note inv = bridge_inv_def spare_def
    show ?thesis
    proof (cases st)
      case Arrive
      have "length (br_jobs br) \<le> 1 + spare br"
        using jobs(2) by (auto simp: awaited_jobs_def split: consumer.splits if_splits)
      then show ?thesis
        using base Arrive False jobs halt_before_last [of "br_jobs br" "1 + spare br"]
        by (auto simp: arrive_step inv halts_within_def split: list.splits)
    next
      case (Post a)
      with base False jobs show ?thesis by (cases rule: post_cases [of br a]) (auto simp: inv)
    next
      case (Request a n)
      with request_step [of a n br] base False jobs show ?thesis by (auto simp: inv)
    next
      case Take
      with base False jobs show ?thesis
        by (auto simp: take_step inv awaited_jobs_def bridge_base_def split: consumer.splits list.splits)
    next
      case Work
      with base False jobs show ?thesis
        by (cases "br_jobs br"; cases "br_consumer br") (auto simp: work_step inv awaited_jobs_def split: job.splits if_splits)
    next
      case Resume
      with assms base False jobs show ?thesis
        by (cases rule: resume_cases [of br]) (simp_all add: inv awaited_jobs_def)
    next
      case Close
      have "Halt_job \<notin> set (abandon (br_jobs br))"
        using jobs(1) by (cases "br_jobs br") (auto split: job.splits)
      with Close base False jobs abandon_length [of "br_jobs br"] show ?thesis
        by (cases rule: close_cases [of br]; cases "br_consumer br")
           (auto simp: inv awaited_jobs_def bridge_base_def dest: in_set_takeD split: consumer.splits if_splits)
    next
      case Start
      with assms base show ?thesis by (simp add: start_step bridge_base_def)
    next
      case (Put k)
      with base False jobs show ?thesis by (simp add: put_step inv)
    next
      case (World a)
      with world_step [of a br] base False jobs show ?thesis by (auto simp: inv)
    qed
  qed
qed

lemma bridge_inv_run: "bridge_inv br \<Longrightarrow> bridge_inv (snd (bridge_run sts br))"
  by (induction sts arbitrary: br) (auto dest: bridge_inv_step)

lemma halts_within_run:
  "bridge_inv br \<Longrightarrow> halts_within n br \<Longrightarrow>
     now_halted (snd (bridge_run sts br)) \<or> length (ran_in (fst (bridge_run sts br))) \<le> n"
proof (induction sts arbitrary: br n)
  case (Cons st sts)
  have stays: "now_halted b \<Longrightarrow> now_halted (snd (bridge_run sts b))" for b :: "'a bridge"
    by (induction sts arbitrary: b) (auto dest: now_halted_step)
  have next_inv: "bridge_inv (bridge_step st br)" by (rule bridge_inv_step [OF Cons.prems(1)])
  have "now_halted (bridge_step st br)
      \<or> length (ran_in (step_events st br)) \<le> n \<and> halts_within (n - length (ran_in (step_events st br))) (bridge_step st br)"
    by (rule bridge_step_halts) (use Cons.prems in \<open>auto simp: bridge_inv_def bridge_base_def\<close>)
  then show ?case
    using Cons.IH [OF next_inv] stays by fastforce
qed simp

lemma started_bridge_inv:
  "ct_journal_restored c \<Longrightarrow> bridge_inv (bridge_step Start (new_bridge c n))"
  by (simp add: start_step new_bridge_def bridge_inv_def bridge_base_def awaited_jobs_def)

section \<open>Closing\<close>

text \<open>
  A close that cancels the consumer inside the wait for a job leaves it running, and no later step ends it:
  the wait of that close never ends.
\<close>

lemma closed_while_busy:
  assumes "br_consumer br = Busy i" and "\<not> br_closed br"
  shows "br_closed (bridge_step Close br) \<and> br_consumer (bridge_step Close br) = Waiting"
  using close_step(3) [OF assms] by auto

definition still_consuming :: "'b bridge \<Rightarrow> bool" where
  "still_consuming br \<longleftrightarrow> br_closed br \<and> br_consumer br \<noteq> Gone \<and> br_consumer br \<noteq> Not_started"

lemma still_consuming_step:
  assumes "still_consuming br"
  shows "still_consuming (bridge_step st br)"
proof (cases st)
  case (Post a)
  with assms show ?thesis by (cases rule: post_cases [of br a]) (auto simp: still_consuming_def)
next
  case (Request a n)
  with assms request_step [of a n br] show ?thesis by (auto simp: still_consuming_def)
next
  case Resume
  with assms show ?thesis by (cases rule: resume_cases [of br]) (auto simp: still_consuming_def)
next
  case Close
  with assms show ?thesis by (simp add: still_consuming_def close_step(1))
next
  case (World a)
  with assms world_step [of a br] show ?thesis by (auto simp: still_consuming_def)
next
  case Take
  with assms show ?thesis
    by (cases "br_consumer br"; cases "queue_items br") (auto simp: still_consuming_def take_step)
qed (use assms in \<open>auto simp: still_consuming_def start_step arrive_step put_step work_step split: list.splits job.splits\<close>)

lemma still_consuming_run: "still_consuming br \<Longrightarrow> still_consuming (snd (bridge_run sts br))"
  by (induction sts arbitrary: br) (auto dest: still_consuming_step)

end
