(* ===== verification/Ingress.thy ===== *)
theory Ingress
  imports Bridge_Facts
begin

text \<open>
  The properties of the engine behind the asynchronous bridge: any interleaving of callbacks, commands, the
  loop, the worker and the world around.
\<close>

text \<open>
  The bridge adds no way to the broker. Whatever is posted and requested through it, in whatever order the
  loop and the worker run, an overflow and a close included: every broker write is authorised, every order is
  within the limits, no intent is placed twice, and the journal stays well formed.
\<close>

theorem bridge_is_safe:
  fixes c :: "'b ctl"
  assumes "journal_wf (ct_journal c)" and "inj (ct_uuid c)" and "ct_wire c = []"
    and "bridge_run sts (new_bridge c n) = (events, br)"
  shows "list_all (entry_ok (ct_sha c)) (ct_wire (br_ctl br)) \<and> list_all placed_within (ct_wire (br_ctl br))
    \<and> distinct (placed_ids (ct_wire (br_ctl br))) \<and> journal_wf (ct_journal (br_ctl br))"
proof -
  have br: "br = snd (bridge_run sts (new_bridge c n))" "br_ctl (new_bridge c n) = c"
    using assms(4) by (simp_all add: new_bridge_def)
  have "wire_inv (ct_sha c) c" "limits_inv c" "once_inv (ct_uuid c) c" "rows_wf c"
    using assms by (simp_all add: wire_inv_def journal_wf_def limits_inv_def once_inv_def ids_once_def
        placed_ids_def List.map_filter_def rows_wf_def)
  then have "wire_inv (ct_sha c) (br_ctl br)" "limits_inv (br_ctl br)" "once_inv (ct_uuid c) (br_ctl br)" "rows_wf (br_ctl br)"
    unfolding br(1) using br(2) wire_process.bridge_keeps limits_machine.bridge_keeps once_machine.bridge_keeps
      rows_process.bridge_keeps by metis+
  with assms(2) show ?thesis
    by (simp add: wire_inv_def limits_inv_def once_inv_def ids_once_def rows_wf_def list_all_iff)
qed

definition demo_ingress :: "unit bridge_step list" where
  "demo_ingress = [Start, Request (Submit demo_target) 1, Post Market_data_lost, Put 0, Arrive, Take, Work]"

lemmas follow_bridge = start_step request_admitted post_step arrive_step put_step take_step work_step
  admitted_def at_capacity_def queue_items_def new_bridge_def is_callback_def

lemma submit_writes: "length (ct_wire (snd (call_of (Submit demo_target) demo_live))) = 1"
  by code_simp

lemma demo_ingress_writes:
  "length (ct_wire (br_ctl (snd (bridge_run (demo_ingress) (new_bridge demo_live 2))))) = 1"
  by (simp add: demo_ingress_def follow_bridge submit_writes del: step_events.simps(1))

theorem bridge_is_safe_witness:
  "list_all (entry_ok (ct_sha demo_live)) (ct_wire (br_ctl (snd (bridge_run demo_ingress (new_bridge demo_live 2)))))
   \<and> length (ct_wire (br_ctl (snd (bridge_run demo_ingress (new_bridge demo_live 2))))) = 1"
proof -
  have start: "journal_wf (ct_journal demo_live)" "ct_wire demo_live = []"
    by (simp_all add: demo_live_def demo_ctl_def journal_wf_open journal_wf_empty)
  have inj: "inj (ct_uuid demo_live)"
  proof -
    have "ct_uuid demo_live = (\<lambda>n. replicate n CHR ''x'')" by (simp add: demo_live_def demo_ctl_def)
    then show ?thesis by (intro injI) (metis length_replicate)
  qed
  have run: "bridge_run demo_ingress (new_bridge demo_live 2)
      = (fst (bridge_run demo_ingress (new_bridge demo_live 2)), snd (bridge_run demo_ingress (new_bridge demo_live 2)))"
    by simp
  from bridge_is_safe [OF start(1) inj start(2) run] demo_ingress_writes show ?thesis by blast
qed

text \<open>
  C16: the order of the broker is the order of the controller. The callbacks the controller has run, followed by
  those on their way, are the callbacks posted, in that order, none twice; and none is missing unless the
  queue overflowed or the bridge was closed.
\<close>

theorem callbacks_in_order:
  assumes "bridge_run sts (new_bridge c n) = (events, br)"
  shows "subseq (filter is_callback (ran_in events) @ on_the_way br) (posted_in events)
    \<and> (\<not> br_overflowed br \<and> \<not> br_closed br \<longrightarrow>
         filter is_callback (ran_in events) @ on_the_way br = posted_in events)"
proof -
  have "putters_ok (new_bridge c n)" and "on_the_way (new_bridge c n) = []"
    by (simp_all add: putters_ok_def on_the_way_def new_bridge_def queue_items_def)
  from in_order_run [OF this(1), of sts] this(2) assms show ?thesis
    by (simp add: in_order_def lossless_def)
qed

definition demo_calls :: "unit bridge_step list" where
  "demo_calls = [Start, Post (Disconnected ''gone''), Post Market_data_lost, Arrive, Take, Arrive, Work]"

theorem callbacks_in_order_witness:
  "filter is_callback (ran_in (fst (bridge_run demo_calls (new_bridge demo_live 1))))
     @ on_the_way (snd (bridge_run demo_calls (new_bridge demo_live 1))) = [Disconnected ''gone'', Market_data_lost]"
proof -
  let ?r = "bridge_run demo_calls (new_bridge demo_live 1)"
  have r: "?r = (fst ?r, snd ?r)" by simp
  have "posted_in (fst ?r) = [Disconnected ''gone'', Market_data_lost] \<and> \<not> br_overflowed (snd ?r) \<and> \<not> br_closed (snd ?r)"
    by (simp add: demo_calls_def follow_bridge del: step_events.simps(1))
  with callbacks_in_order [OF r] show ?thesis by (simp del: bridge_run_Cons)
qed

text \<open>
  C17: a lost callback stops the engine. From the moment the queue has overflowed, whatever happens next, at most
  one more method runs (the one the worker had; two when a close is under way) before the controller is
  HALTED; and it stays so.
\<close>

theorem overflow_halts:
  assumes "ct_journal_restored c" and "bridge_run (Start # sts) (new_bridge c n) = (events, br)" and "br_overflowed br"
    and "bridge_run sts' br = (events', br')"
  shows "length (ran_in events') \<le> (if br_closed br then 2 else 1) \<or> ct_mode (br_ctl br') = HALTED"
proof -
  have "bridge_inv br"
    using bridge_inv_run [OF started_bridge_inv [OF assms(1)], of sts n] assms(2) by simp
  moreover from this assms(3) have "halts_within (1 + spare br) br"
    by (simp add: bridge_inv_def)
  ultimately have "now_halted br' \<or> length (ran_in events') \<le> 1 + spare br"
    using halts_within_run [of br "1 + spare br" sts'] assms(4) by simp
  then show ?thesis
    by (auto simp: now_halted_def halted_still_def spare_def)
qed

definition demo_flood :: "unit bridge_step list" where
  "demo_flood = [Post Market_data_lost, Arrive, Take, Post Market_data_lost, Arrive, Post Market_data_restored, Arrive]"

lemma demo_flooded:
  "br_overflowed (snd (bridge_run (Start # demo_flood) (new_bridge demo_live 1)))
   \<and> \<not> br_closed (snd (bridge_run (Start # demo_flood) (new_bridge demo_live 1)))
   \<and> length (ran_in (fst (bridge_run [Work, Resume, Take, Work, Work] (snd (bridge_run (Start # demo_flood) (new_bridge demo_live 1)))))) = 2"
  by code_simp

theorem overflow_halts_witness:
  "ct_mode (br_ctl (snd (bridge_run [Work, Resume, Take, Work, Work]
     (snd (bridge_run (Start # demo_flood) (new_bridge demo_live 1)))))) = HALTED"
proof -
  let ?r = "bridge_run (Start # demo_flood) (new_bridge demo_live 1)"
  let ?r' = "bridge_run [Work, Resume, Take, Work, Work] (snd ?r)"
  have "ct_journal_restored demo_live" by (simp add: demo_live_def demo_ctl_def)
  moreover have "?r = (fst ?r, snd ?r)" "?r' = (fst ?r', snd ?r')" by (simp_all only: prod.collapse)
  ultimately show ?thesis
    using overflow_halts [of demo_live demo_flood 1 "fst ?r" "snd ?r" "[Work, Resume, Take, Work, Work]" "fst ?r'" "snd ?r'"]
      demo_flooded by auto
qed

text \<open>
  C18: closing the bridge while a method runs does not close it. The cancellation is swallowed where the
  consumer waits for the worker; after any further steps the consumer still serves the queue, so the wait of
  that \<open>close\<close> for the consumer never ends.
\<close>

theorem close_swallows_its_cancellation:
  assumes "br_consumer br = Busy i" and "\<not> br_closed br" and "bridge_run (Close # sts) br = (events, br')"
  shows "br_closed br' \<and> br_consumer br' \<noteq> Gone"
proof -
  have "still_consuming (bridge_step Close br)"
    using closed_while_busy [OF assms(1,2)] by (simp add: still_consuming_def)
  from still_consuming_run [OF this, of sts] assms(3) show ?thesis
    by (simp add: still_consuming_def)
qed

theorem close_swallows_its_cancellation_witness:
  "br_consumer (snd (bridge_run [Close, Work, Resume, Take, Work] (snd (bridge_run (Start # demo_flood) (new_bridge demo_live 1))))) \<noteq> Gone
   \<and> map callback_name (ran_in (fst (bridge_run [Close, Work, Resume, Take, Work, Work]
         (snd (bridge_run (Start # demo_flood) (new_bridge demo_live 2))))))
     = [Some ''on_market_data_lost'', Some ''on_market_data_lost'']"
proof
  let ?br = "snd (bridge_run (Start # demo_flood) (new_bridge demo_live 1))"
  let ?r = "bridge_run (Close # [Work, Resume, Take, Work]) ?br"
  have "(case br_consumer ?br of Busy i \<Rightarrow> True | _ \<Rightarrow> False)" "\<not> br_closed ?br" by code_simp+
  then obtain i where "br_consumer ?br = Busy i" "\<not> br_closed ?br" by (auto split: consumer.splits)
  moreover have "?r = (fst ?r, snd ?r)" by (simp only: prod.collapse)
  ultimately show "br_consumer (snd (bridge_run [Close, Work, Resume, Take, Work] ?br)) \<noteq> Gone"
    using close_swallows_its_cancellation [of ?br] by blast
  show "map callback_name (ran_in (fst (bridge_run [Close, Work, Resume, Take, Work, Work]
         (snd (bridge_run (Start # demo_flood) (new_bridge demo_live 2))))))
     = [Some ''on_market_data_lost'', Some ''on_market_data_lost'']"
    by code_simp
qed

end
