(* ===== verification/Evidence_Manifest.thy ===== *)
theory Evidence_Manifest
  imports Program Ascii_Text
begin

text \<open>
  \<open>b2_evidence.py\<close>: the validator of the manifests that Gate B2 may freeze. A manifest is a decoded JSON value;
  every check is a branch that raises, in the order of the source, with the place it complains about. Texts
  are ASCII; the objects are dictionaries, so their keys are distinct.
\<close>

section \<open>The schema\<close>

definition SCHEMA_VERSION :: int where "SCHEMA_VERSION = 2"

definition FREEZE_KIND :: string where "FREEZE_KIND = ''B2_READ_ONLY_EVIDENCE''"

definition REQUIRED_RISK_ASSUMPTIONS :: "string list" where
  "REQUIRED_RISK_ASSUMPTIONS = [''D1_EVENT_DRIVEN_30S'', ''D2_WRITER_LAG_ROOT_CAUSE'']"

definition TOP_LEVEL_KEYS :: "string list" where
  "TOP_LEVEL_KEYS = [''schema_version'', ''freeze_kind'', ''candidate'', ''safety_boundary'', ''ci_runs'', ''ci_artifacts'',
     ''evidence'', ''authority_evidence_ids'', ''required_failures'', ''unknowns'', ''risk_assumptions'', ''owner_acceptance'']"

definition CANDIDATE_KEYS :: "string list" where
  "CANDIDATE_KEYS = [''commit_sha'', ''tree_sha'', ''source_tree_sha256'', ''config_tree_sha256'', ''dependency_lock_sha256'']"

definition SAFETY_BOUNDARY_KEYS :: "string list" where
  "SAFETY_BOUNDARY_KEYS = [''gate_b2'', ''order_authorization'', ''trading_adapter'']"

definition CI_KEYS :: "string list" where
  "CI_KEYS = [''provider'', ''workflow'', ''run_id'', ''run_attempt'', ''commit_sha'', ''conclusion'']"

definition CI_ARTIFACT_KEYS :: "string list" where
  "CI_ARTIFACT_KEYS = [''run_id'', ''job_name'', ''artifact_id'', ''artifact_name'', ''archive_sha256'',
     ''checkout_identity_member_path'', ''evidence_id'', ''evidence_member_path'']"

definition EVIDENCE_KEYS :: "string list" where
  "EVIDENCE_KEYS = [''id'', ''claim_key'', ''evidence_kind'', ''binding'', ''relative_path'', ''sha256'', ''bytes'',
     ''captured_at_utc'', ''capture_commit'', ''verdict'', ''scope'', ''sensitivity'']"

definition UNKNOWN_KEYS :: "string list" where
  "UNKNOWN_KEYS = [''id'', ''statement'', ''status'', ''blocks_b2_read_only_freeze'', ''review_before'']"

definition RISK_KEYS :: "string list" where
  "RISK_KEYS = [''id'', ''statement'', ''failure_mode'', ''mitigation'', ''status'', ''blocks_b2_read_only_freeze'',
     ''required_review_before'']"

definition OWNER_KEYS :: "string list" where
  "OWNER_KEYS = [''owner'', ''accepted_at_utc'', ''decision'', ''gate_b2_decision'', ''order_capability'',
     ''accepted_authority_evidence_ids'', ''accepted_unknown_ids'', ''accepted_risk_assumption_ids'']"

definition EVIDENCE_KINDS :: "string list" where
  "EVIDENCE_KINDS = [''FULL_RTH_HEALTH'', ''HISTORICAL_FAILURE'', ''INCIDENT'', ''WINDOWS_LIFECYCLE'', ''CI_ARTIFACT'',
     ''DOCUMENTED_VS_OBSERVED'', ''OTHER'']"

definition BINDINGS :: "string list" where
  "BINDINGS = [''BOUND_AUTHORITY'', ''REFERENCE_ONLY'', ''UNBOUND'']"

definition VERDICTS :: "string list" where
  "VERDICTS = [''PASS'', ''FAIL'', ''PARTIALLY_VERIFIED'', ''NOT_VERIFIED'', ''OPEN'', ''INFORMATIONAL'']"

definition SENSITIVITIES :: "string list" where
  "SENSITIVITIES = [''PUBLIC_METADATA'', ''REDACTED'', ''CONTROLLED_EXTERNAL'', ''SENSITIVE_EXTERNAL'']"

definition UNKNOWN_STATUSES :: "string list" where
  "UNKNOWN_STATUSES = [''NOT_VERIFIED'', ''AMBIGUOUS'', ''NOT_GUARANTEED'', ''OPEN'']"

definition UNKNOWN_REVIEW_POINTS :: "string list" where
  "UNKNOWN_REVIEW_POINTS = [''B2_FREEZE'', ''PRODUCTION_OR_ORDER_CAPABLE'', ''NONE'']"

section \<open>Fields\<close>

text \<open>\<open>_fail\<close>; the checks that only raise; the parsers of a field: value, place, result.\<close>

definition fail_at :: "string \<Rightarrow> jval list \<Rightarrow> exn + 'a" where
  "fail_at place message = Inl (ValueErr (JFmt (JStr place # JStr '': '' # message)))"

definition demand :: "bool \<Rightarrow> string \<Rightarrow> jval list \<Rightarrow> exn + unit" where
  "demand ok place message = (if ok then Inr () else fail_at place message)"

fun all_of :: "(exn + unit) list \<Rightarrow> exn + unit" where
  "all_of [] = Inr ()"
| "all_of (c # cs) = ebind c (\<lambda>_. all_of cs)"

type_synonym 'a parser = "jval \<Rightarrow> string \<Rightarrow> exn + 'a"

definition nth_place :: "string \<Rightarrow> nat \<Rightarrow> string" where
  "nth_place place n = place @ ''['' @ str_int (int n) @ '']''"

definition entry :: "payload \<Rightarrow> string \<Rightarrow> string \<Rightarrow> 'a parser \<Rightarrow> exn + 'a" where
  "entry p place k f = ebind (pkey p k) (\<lambda>v. f v (place @ ''.'' @ k))"

definition drop_value :: "exn + 'a \<Rightarrow> exn + unit" where
  "drop_value r = ebind r (\<lambda>_. Inr ())"

definition conforms :: "'a parser \<Rightarrow> unit parser" where
  "conforms f v place = drop_value (f v place)"

fun parse_all :: "'a parser \<Rightarrow> string \<Rightarrow> nat \<Rightarrow> jval list \<Rightarrow> exn + 'a list" where
  "parse_all f place n [] = Inr []"
| "parse_all f place n (v # vs) =
     ebind (f v (nth_place place n)) (\<lambda>a. ebind (parse_all f place (Suc n) vs) (\<lambda>as. Inr (a # as)))"

fun scan_all :: "(string \<Rightarrow> jval \<Rightarrow> 'a \<Rightarrow> exn + 'a) \<Rightarrow> string \<Rightarrow> nat \<Rightarrow> jval list \<Rightarrow> 'a \<Rightarrow> exn + 'a" where
  "scan_all f place n [] acc = Inr acc"
| "scan_all f place n (v # vs) acc = ebind (f (nth_place place n) v acc) (scan_all f place (Suc n) vs)"

definition as_object :: "payload parser" where
  "as_object v place = (case v of JObj p \<Rightarrow> Inr p | _ \<Rightarrow> fail_at place [JStr ''must be an object''])"

definition as_array :: "jval list parser" where
  "as_array v place = (case v of JList xs \<Rightarrow> Inr xs | _ \<Rightarrow> fail_at place [JStr ''must be an array''])"

definition exact_keys :: "payload \<Rightarrow> string list \<Rightarrow> string \<Rightarrow> exn + unit" where
  "exact_keys p expected place =
     (let unknown = sort (filter (\<lambda>k. k \<notin> set expected) (map fst p));
          missing = sort (filter (\<lambda>k. k \<notin> set (map fst p)) expected);
          details = (if unknown \<noteq> [] then [''unknown keys='' @ join '','' unknown] else [])
            @ (if missing \<noteq> [] then [''missing keys='' @ join '','' missing] else [])
      in demand (set (map fst p) = set expected) place [JStr (join ''; '' details)])"

definition text_value :: "nat \<Rightarrow> string parser" where
  "text_value most v place = (case v of
     JStr s \<Rightarrow>
       (if strip s = [] then fail_at place [JStr ''must be a non-empty string'']
        else if s \<noteq> strip s then fail_at place [JStr ''must not have leading or trailing whitespace'']
        else if length s > most then fail_at place [JStr ''must be at most '', JInt (int most), JStr '' characters'']
        else if list_ex (\<lambda>ch. (of_char ch :: nat) < 32) s then fail_at place [JStr ''must not contain control characters'']
        else Inr s)
   | _ \<Rightarrow> fail_at place [JStr ''must be a non-empty string''])"

definition enum_value :: "string list \<Rightarrow> string parser" where
  "enum_value allowed v place = ebind (text_value 128 v place)
     (\<lambda>s. if s \<notin> set allowed then fail_at place [JStr ''unsupported value''] else Inr s)"

definition upper_or_digit :: "char \<Rightarrow> bool" where
  "upper_or_digit ch = (let c = of_char ch :: nat in 65 \<le> c \<and> c \<le> 90 \<or> 48 \<le> c \<and> c \<le> 57)"

fun IDENTIFIER :: "string \<Rightarrow> bool" where
  "IDENTIFIER [] = False"
| "IDENTIFIER (ch # s) \<longleftrightarrow> upper_or_digit ch \<and> length s \<le> 127
     \<and> list_all (\<lambda>c. upper_or_digit c \<or> c = CHR ''_'' \<or> c = CHR ''.'' \<or> c = CHR ''-'') s"

definition identifier_value :: "string parser" where
  "identifier_value v place = ebind (text_value 128 v place)
     (\<lambda>s. if \<not> IDENTIFIER s then fail_at place [JStr ''must match [A-Z0-9][A-Z0-9_.-]{0,127}''] else Inr s)"

definition HEX :: "nat \<Rightarrow> string \<Rightarrow> bool" where
  "HEX n s \<longleftrightarrow> length s = n \<and> list_all hex_digit s"

definition hex_value :: "nat \<Rightarrow> string parser" where
  "hex_value n v place = (case v of
     JStr s \<Rightarrow> if HEX n s then Inr s else fail_at place [JStr ''must be a lowercase hexadecimal digest of the required length'']
   | _ \<Rightarrow> fail_at place [JStr ''must be a lowercase hexadecimal digest of the required length''])"

definition positive_int :: "int parser" where
  "positive_int v place = (case v of
     JInt i \<Rightarrow> if i \<le> 0 then fail_at place [JStr ''must be a positive integer''] else Inr i
   | _ \<Rightarrow> fail_at place [JStr ''must be a positive integer''])"

definition bool_value :: "bool parser" where
  "bool_value v place = (case v of JBool b \<Rightarrow> Inr b | _ \<Rightarrow> fail_at place [JStr ''must be a boolean''])"

text \<open>Timestamps: the shape, then the calendar.\<close>

definition decimal_digit :: "char \<Rightarrow> bool" where
  "decimal_digit ch = (let c = of_char ch :: nat in 48 \<le> c \<and> c \<le> 57)"

definition UTC_TIMESTAMP :: "string \<Rightarrow> bool" where
  "UTC_TIMESTAMP s \<longleftrightarrow> list_all2 (\<lambda>c p. if p = CHR ''d'' then decimal_digit c else c = p) s ''dddd-dd-ddTdd:dd:ddZ''"

definition number_at :: "nat \<Rightarrow> nat \<Rightarrow> string \<Rightarrow> nat" where
  "number_at from n s = foldl (\<lambda>acc c. 10 * acc + (of_char c - 48)) 0 (take n (drop from s))"

definition days_in_month :: "nat \<Rightarrow> nat \<Rightarrow> nat" where
  "days_in_month y m =
     (if m = 2 then (if y mod 4 = 0 \<and> (y mod 100 \<noteq> 0 \<or> y mod 400 = 0) then 29 else 28)
      else if m \<in> {4, 6, 9, 11} then 30 else 31)"

definition calendar_timestamp :: "string \<Rightarrow> bool" where
  "calendar_timestamp s =
     (let y = number_at 0 4 s; m = number_at 5 2 s; d = number_at 8 2 s
      in 1 \<le> y \<and> 1 \<le> m \<and> m \<le> 12 \<and> 1 \<le> d \<and> d \<le> days_in_month y m
         \<and> number_at 11 2 s \<le> 23 \<and> number_at 14 2 s \<le> 59 \<and> number_at 17 2 s \<le> 59)"

definition utc_timestamp :: "string parser" where
  "utc_timestamp v place = ebind (text_value 4096 v place)
     (\<lambda>s. if \<not> UTC_TIMESTAMP s then fail_at place [JStr ''must be UTC YYYY-MM-DDTHH:MM:SSZ'']
          else if \<not> calendar_timestamp s then fail_at place [JStr ''invalid calendar timestamp''] else Inr s)"

text \<open>\<open>PurePosixPath\<close>: root and segments; empty and dot segments vanish.\<close>

definition posix_root :: "string \<Rightarrow> string" where
  "posix_root s = (if take 1 s \<noteq> ''/'' then [] else if take 2 s = ''//'' \<and> take 3 s \<noteq> ''///'' then ''//'' else ''/'')"

definition posix_segments :: "string \<Rightarrow> string list" where
  "posix_segments s = filter (\<lambda>x. x \<noteq> [] \<and> x \<noteq> ''.'') (split_on CHR ''/'' [] s)"

definition posix_parts :: "string \<Rightarrow> string list" where
  "posix_parts s = (if posix_root s = [] then [] else [posix_root s]) @ posix_segments s"

definition as_posix :: "string \<Rightarrow> string" where
  "as_posix s = (if posix_parts s = [] then ''.'' else posix_root s @ join ''/'' (posix_segments s))"

definition relative_path :: "string parser" where
  "relative_path v place = ebind (text_value 1024 v place)
     (\<lambda>s. if list_ex (\<lambda>c. c \<in> {CHR 0x5C, CHR '':'', CHR 0x24, CHR ''%''}) s \<or> take 1 s = ''~''
          then fail_at place [JStr ''must be a literal relative POSIX path'']
          else if posix_root s \<noteq> [] \<or> list_ex (\<lambda>x. x \<in> {[], ''.'', ''..''}) (posix_parts s)
          then fail_at place [JStr ''must not be absolute or contain empty, dot, or parent segments'']
          else if as_posix s \<noteq> s then fail_at place [JStr ''must be normalized POSIX form'']
          else Inr s)"

definition unique_identifiers :: "string list parser" where
  "unique_identifiers v place = ebind (as_array v place)
     (\<lambda>xs. if xs = [] then fail_at place [JStr ''must not be empty'']
           else ebind (parse_all identifier_value place 0 xs)
             (\<lambda>ids. if \<not> distinct ids then fail_at place [JStr ''contains duplicate ids''] else Inr ids))"

section \<open>Decoding\<close>

text \<open>
  \<open>_strict_object\<close> is called for each object when it closes, so on the values of an object before the
  object. \<open>raw\<close> is the document as written, its objects with all their pairs.
\<close>

fun first_repeat :: "string list \<Rightarrow> string list \<Rightarrow> string option" where
  "first_repeat seen [] = None"
| "first_repeat seen (k # ks) = (if k \<in> set seen then Some k else first_repeat (k # seen) ks)"

definition strict_object :: "payload \<Rightarrow> exn + payload" where
  "strict_object pairs = (case first_repeat [] (map fst pairs) of
     Some k \<Rightarrow> Inl (ValueErr (JFmt [JStr ''JSON object contains duplicate key: '', JStr k]))
   | None \<Rightarrow> Inr pairs)"

fun strict :: "jval \<Rightarrow> exn + jval"
  and strict_list :: "jval list \<Rightarrow> exn + jval list"
  and strict_pairs :: "payload \<Rightarrow> exn + payload" where
  "strict (JList xs) = ebind (strict_list xs) (\<lambda>ys. Inr (JList ys))"
| "strict (JObj ps) = ebind (strict_pairs ps) (\<lambda>qs. ebind (strict_object qs) (\<lambda>rs. Inr (JObj rs)))"
| "strict v = Inr v"
| "strict_list [] = Inr []"
| "strict_list (x # xs) = ebind (strict x) (\<lambda>y. ebind (strict_list xs) (\<lambda>ys. Inr (y # ys)))"
| "strict_pairs [] = Inr []"
| "strict_pairs (kv # ps) = ebind (strict (snd kv)) (\<lambda>y. ebind (strict_pairs ps) (\<lambda>qs. Inr ((fst kv, y) # qs)))"

text \<open>\<open>document\<close>: what the JSON parser makes of the bytes, or its error.\<close>

definition loads_manifest :: "exn + jval \<Rightarrow> exn + payload" where
  "loads_manifest document = (case document of
     Inl e \<Rightarrow> Inl (ValueErr (JFmt [JStr ''invalid JSON: '', exn_message e]))
   | Inr raw \<Rightarrow> ebind (strict raw) (\<lambda>v. case v of JObj p \<Rightarrow> Inr p | _ \<Rightarrow> fail_at ''manifest'' [JStr ''must be a JSON object'']))"

definition load_manifest :: "(string \<Rightarrow> exn + jval) \<Rightarrow> exn + string \<Rightarrow> exn + payload" where
  "load_manifest parse bytes = (case bytes of
     Inl e \<Rightarrow> Inl (ValueErr (JFmt [JStr ''cannot read manifest: '', exn_message e]))
   | Inr raw \<Rightarrow> loads_manifest (parse raw))"

section \<open>The parts of a manifest\<close>

definition validate_candidate :: "jval \<Rightarrow> exn + payload" where
  "validate_candidate v = ebind (as_object v ''candidate'') (\<lambda>c.
     ebind (all_of
       [exact_keys c CANDIDATE_KEYS ''candidate'',
        entry c ''candidate'' ''commit_sha'' (conforms (hex_value 40)),
        entry c ''candidate'' ''tree_sha'' (conforms (hex_value 40)),
        entry c ''candidate'' ''source_tree_sha256'' (conforms (hex_value 64)),
        entry c ''candidate'' ''config_tree_sha256'' (conforms (hex_value 64)),
        entry c ''candidate'' ''dependency_lock_sha256'' (conforms (hex_value 64))]) (\<lambda>_. Inr c))"

text \<open>A field that has to be exactly one text.\<close>

definition remains :: "string \<Rightarrow> jval list \<Rightarrow> unit parser" where
  "remains s message v place = demand (v = JStr s) place message"

definition must_remain :: "string \<Rightarrow> unit parser" where
  "must_remain s = remains s [JStr ''must remain '', JStr s]"

definition validate_safety_boundary :: "jval \<Rightarrow> exn + unit" where
  "validate_safety_boundary v = ebind (as_object v ''safety_boundary'') (\<lambda>b. all_of
     [exact_keys b SAFETY_BOUNDARY_KEYS ''safety_boundary'',
      entry b ''safety_boundary'' ''gate_b2'' (must_remain ''READ_ONLY_IN_PROGRESS''),
      entry b ''safety_boundary'' ''order_authorization'' (must_remain ''NONE''),
      entry b ''safety_boundary'' ''trading_adapter'' (must_remain ''NOT_IMPLEMENTED'')])"

type_synonym ci_identity = "string \<times> string \<times> int \<times> int"

definition validate_ci_run :: "string \<Rightarrow> string \<Rightarrow> jval \<Rightarrow> ci_identity list \<Rightarrow> exn + ci_identity list" where
  "validate_ci_run candidate_commit place raw identities =
     ebind (as_object raw place) (\<lambda>run.
     ebind (exact_keys run CI_KEYS place) (\<lambda>_.
     ebind (entry run place ''provider'' (enum_value [''GITHUB_ACTIONS''])) (\<lambda>provider.
     ebind (entry run place ''workflow'' (text_value 256)) (\<lambda>workflow.
     ebind (entry run place ''run_id'' positive_int) (\<lambda>run_id.
     ebind (entry run place ''run_attempt'' positive_int) (\<lambda>attempt.
     ebind (entry run place ''commit_sha'' (hex_value 40)) (\<lambda>commit.
     ebind (demand (commit = candidate_commit) (place @ ''.commit_sha'') [JStr ''must equal candidate.commit_sha'']) (\<lambda>_.
     ebind (entry run place ''conclusion'' (remains ''SUCCESS'' [JStr ''must be SUCCESS''])) (\<lambda>_.
       (let identity = (provider, workflow, run_id, attempt)
        in if identity \<in> set identities then fail_at place [JStr ''duplicate CI run identity'']
           else Inr (identities @ [identity])))))))))))"

definition validate_ci_runs :: "jval \<Rightarrow> string \<Rightarrow> exn + unit" where
  "validate_ci_runs v candidate_commit = ebind (as_array v ''ci_runs'') (\<lambda>runs.
     if runs = [] then fail_at ''ci_runs'' [JStr ''must contain exact-candidate CI'']
     else drop_value (scan_all (validate_ci_run candidate_commit) ''ci_runs'' 0 runs []))"

text \<open>Evidence: the items by id, and the PASS and FAIL verdicts of each claim.\<close>

definition unless_null :: "'a parser \<Rightarrow> unit parser" where
  "unless_null f v place = (if v = JNull then Inr () else drop_value (f v place))"

definition validate_binding :: "payload \<Rightarrow> string \<Rightarrow> string \<Rightarrow> exn + unit" where
  "validate_binding item place binding =
     ebind (pkey item ''sha256'') (\<lambda>digest. ebind (pkey item ''bytes'') (\<lambda>size. ebind (pkey item ''capture_commit'') (\<lambda>commit.
       if binding = ''BOUND_AUTHORITY''
       then all_of [drop_value (hex_value 64 digest (place @ ''.sha256'')), drop_value (positive_int size (place @ ''.bytes'')),
              drop_value (hex_value 40 commit (place @ ''.capture_commit''))]
       else if binding = ''UNBOUND''
       then demand (digest = JNull \<and> size = JNull \<and> commit = JNull) place
              [JStr ''UNBOUND evidence must use null hash, bytes, and capture_commit'']
       else all_of [unless_null (hex_value 64) digest (place @ ''.sha256''), unless_null positive_int size (place @ ''.bytes''),
              unless_null (hex_value 40) commit (place @ ''.capture_commit'')])))"

type_synonym evidence_index = "(string \<times> payload) list \<times> (string \<times> string list) list"

definition validate_item :: "string \<Rightarrow> jval \<Rightarrow> evidence_index \<Rightarrow> exn + evidence_index" where
  "validate_item place raw acc =
     ebind (as_object raw place) (\<lambda>item.
     ebind (exact_keys item EVIDENCE_KEYS place) (\<lambda>_.
     ebind (entry item place ''id'' identifier_value) (\<lambda>evidence_id.
     ebind (demand (dget (fst acc) evidence_id = None) (place @ ''.id'') [JStr ''duplicate evidence id'']) (\<lambda>_.
     ebind (entry item place ''claim_key'' identifier_value) (\<lambda>claim.
     ebind (entry item place ''evidence_kind'' (conforms (enum_value EVIDENCE_KINDS))) (\<lambda>_.
     ebind (entry item place ''binding'' (enum_value BINDINGS)) (\<lambda>binding.
     ebind (entry item place ''relative_path'' (conforms relative_path)) (\<lambda>_.
     ebind (entry item place ''captured_at_utc'' (conforms utc_timestamp)) (\<lambda>_.
     ebind (entry item place ''verdict'' (enum_value VERDICTS)) (\<lambda>verdict.
     ebind (entry item place ''scope'' (conforms (text_value 4096))) (\<lambda>_.
     ebind (entry item place ''sensitivity'' (conforms (enum_value SENSITIVITIES))) (\<lambda>_.
     ebind (validate_binding item place binding) (\<lambda>_.
       Inr (dput evidence_id item (fst acc),
         if verdict \<in> {''PASS'', ''FAIL''}
         then dput claim (set_add verdict (dget_or (snd acc) claim [])) (snd acc) else snd acc))))))))))))))"

definition verdict_conflicts :: "(string \<times> string list) list \<Rightarrow> string list" where
  "verdict_conflicts claims = sort (map fst (filter (\<lambda>(claim, verdicts). length verdicts > 1) claims))"

definition validate_evidence :: "jval \<Rightarrow> exn + (string \<times> payload) list" where
  "validate_evidence v = ebind (as_array v ''evidence'') (\<lambda>items.
     if items = [] then fail_at ''evidence'' [JStr ''must not be empty'']
     else ebind (scan_all validate_item ''evidence'' 0 items ([], [])) (\<lambda>(by_id, claims).
       if verdict_conflicts claims \<noteq> []
       then fail_at ''evidence'' [JStr ''PASS/FAIL conflict for claim_key='', JStr (join '','' (verdict_conflicts claims))]
       else Inr by_id))"

text \<open>CI artifacts: what has been bound so far, and one binding.\<close>

record ci_seen =
  cs_artifact_ids :: "int list"
  cs_run_jobs :: "(int \<times> string) list"
  cs_bound :: "string list"

definition validate_evidence_binding ::
  "(string \<times> payload) list \<Rightarrow> payload \<Rightarrow> string \<Rightarrow> ci_seen \<Rightarrow> exn + ci_seen" where
  "validate_evidence_binding by_id artifact place seen =
     ebind (pkey artifact ''evidence_id'') (\<lambda>evidence_id. ebind (pkey artifact ''evidence_member_path'') (\<lambda>member_path.
       if evidence_id = JNull \<or> member_path = JNull
       then ebind (demand (evidence_id = JNull \<and> member_path = JNull) place
              [JStr ''evidence_id and evidence_member_path must both be null or set'']) (\<lambda>_. Inr seen)
       else ebind (identifier_value evidence_id (place @ ''.evidence_id'')) (\<lambda>eid.
            ebind (demand (eid \<notin> set (cs_bound seen)) (place @ ''.evidence_id'') [JStr ''duplicate CI evidence binding'']) (\<lambda>_.
              let evidence = dget_or by_id eid [] in
              ebind (all_of
                [demand (dget by_id eid \<noteq> None \<and> pget evidence ''evidence_kind'' JNull = JStr ''CI_ARTIFACT'')
                   (place @ ''.evidence_id'') [JStr ''must reference CI_ARTIFACT evidence''],
                 demand (pget evidence ''binding'' JNull = JStr ''BOUND_AUTHORITY'')
                   (place @ ''.evidence_id'') [JStr ''must reference BOUND_AUTHORITY evidence''],
                 conforms relative_path member_path (place @ ''.evidence_member_path'')]) (\<lambda>_.
                Inr (seen\<lparr>cs_bound := cs_bound seen @ [eid]\<rparr>))))))"

definition validate_ci_artifact ::
  "int list \<Rightarrow> (string \<times> payload) list \<Rightarrow> string \<Rightarrow> jval \<Rightarrow> ci_seen \<Rightarrow> exn + ci_seen" where
  "validate_ci_artifact run_ids by_id place raw seen =
     ebind (as_object raw place) (\<lambda>artifact.
     ebind (exact_keys artifact CI_ARTIFACT_KEYS place) (\<lambda>_.
     ebind (entry artifact place ''run_id'' positive_int) (\<lambda>run_id.
     ebind (demand (run_id \<in> set run_ids) (place @ ''.run_id'') [JStr ''must reference ci_runs'']) (\<lambda>_.
     ebind (entry artifact place ''job_name'' (text_value 256)) (\<lambda>job_name.
     ebind (demand ((run_id, job_name) \<notin> set (cs_run_jobs seen)) place [JStr ''duplicate CI run/job artifact binding'']) (\<lambda>_.
     ebind (entry artifact place ''artifact_id'' positive_int) (\<lambda>artifact_id.
     ebind (demand (artifact_id \<notin> set (cs_artifact_ids seen)) (place @ ''.artifact_id'') [JStr ''duplicate artifact id'']) (\<lambda>_.
     ebind (entry artifact place ''artifact_name'' (conforms (text_value 256))) (\<lambda>_.
     ebind (entry artifact place ''archive_sha256'' (conforms (hex_value 64))) (\<lambda>_.
     ebind (entry artifact place ''checkout_identity_member_path'' (conforms relative_path)) (\<lambda>_.
       validate_evidence_binding by_id artifact place
         (seen\<lparr>cs_artifact_ids := cs_artifact_ids seen @ [artifact_id],
           cs_run_jobs := cs_run_jobs seen @ [(run_id, job_name)]\<rparr>))))))))))))"

definition is_bound_ci :: "payload \<Rightarrow> bool" where
  "is_bound_ci e \<longleftrightarrow> pget e ''evidence_kind'' JNull = JStr ''CI_ARTIFACT'' \<and> pget e ''binding'' JNull = JStr ''BOUND_AUTHORITY''"

definition validate_ci_artifacts :: "jval \<Rightarrow> int list \<Rightarrow> (string \<times> payload) list \<Rightarrow> exn + unit" where
  "validate_ci_artifacts v run_ids by_id = ebind (as_array v ''ci_artifacts'') (\<lambda>artifacts.
     if artifacts = [] then fail_at ''ci_artifacts'' [JStr ''must bind exact-checkout identity for every CI job'']
     else ebind (scan_all (validate_ci_artifact run_ids by_id) ''ci_artifacts'' 0 artifacts
            \<lparr>cs_artifact_ids = [], cs_run_jobs = [], cs_bound = []\<rparr>) (\<lambda>seen.
       demand (set (cs_bound seen) = set (map fst (filter (\<lambda>(eid, e). is_bound_ci e) by_id))) ''ci_artifacts''
         [JStr ''must bind every BOUND_AUTHORITY CI_ARTIFACT evidence exactly once'']))"

text \<open>Authority and failures.\<close>

definition field_is :: "payload \<Rightarrow> string \<Rightarrow> string \<Rightarrow> exn + bool" where
  "field_is item k s = ebind (pkey item k) (\<lambda>v. Inr (v = JStr s))"

definition validate_authority :: "(string \<times> payload) list \<Rightarrow> string \<Rightarrow> exn + unit" where
  "validate_authority by_id eid = (case dget by_id eid of
     None \<Rightarrow> fail_at ''authority_evidence_ids'' [JStr ''unknown evidence id '', JStr eid]
   | Some item \<Rightarrow> ebind (field_is item ''binding'' ''BOUND_AUTHORITY'') (\<lambda>bound.
       demand bound ''authority_evidence_ids'' [JStr eid, JStr '' is not BOUND_AUTHORITY'']))"

definition validate_failure :: "string list \<Rightarrow> (string \<times> payload) list \<Rightarrow> string \<Rightarrow> exn + unit" where
  "validate_failure authority_ids by_id eid = (case dget by_id eid of
     None \<Rightarrow> fail_at ''required_failures'' [JStr ''unknown evidence id '', JStr eid]
   | Some item \<Rightarrow>
       if eid \<notin> set authority_ids then fail_at ''required_failures'' [JStr eid, JStr '' must also be authority evidence'']
       else ebind (field_is item ''binding'' ''BOUND_AUTHORITY'') (\<lambda>bound. ebind (field_is item ''verdict'' ''FAIL'') (\<lambda>fails.
         demand (bound \<and> fails) ''required_failures'' [JStr eid, JStr '' must be a bound FAIL''])))"

text \<open>\<open>any\<close> over the named items; \<open>by_id[id]\<close> and its fields may raise.\<close>

fun any_item :: "(payload \<Rightarrow> exn + bool) \<Rightarrow> (string \<times> payload) list \<Rightarrow> string list \<Rightarrow> exn + bool" where
  "any_item f by_id [] = Inr False"
| "any_item f by_id (eid # eids) = (case dget by_id eid of
     None \<Rightarrow> Inl (KeyErr (JStr eid))
   | Some item \<Rightarrow> ebind (f item) (\<lambda>b. if b then Inr True else any_item f by_id eids))"

definition health_pass :: "payload \<Rightarrow> exn + bool" where
  "health_pass item = ebind (field_is item ''evidence_kind'' ''FULL_RTH_HEALTH'')
     (\<lambda>b. if b then field_is item ''verdict'' ''PASS'' else Inr False)"

definition validate_authority_and_failures :: "payload \<Rightarrow> (string \<times> payload) list \<Rightarrow> exn + string list \<times> string list" where
  "validate_authority_and_failures p by_id =
     ebind (pkey p ''authority_evidence_ids'') (\<lambda>a.
     ebind (unique_identifiers a ''authority_evidence_ids'') (\<lambda>authority_ids.
     ebind (pkey p ''required_failures'') (\<lambda>r.
     ebind (unique_identifiers r ''required_failures'') (\<lambda>failure_ids.
     ebind (all_of (map (validate_authority by_id) authority_ids)) (\<lambda>_.
     ebind (all_of (map (validate_failure authority_ids by_id) failure_ids)) (\<lambda>_.
     ebind (any_item (\<lambda>item. field_is item ''evidence_kind'' ''HISTORICAL_FAILURE'') by_id failure_ids) (\<lambda>historical.
     ebind (demand historical ''required_failures'' [JStr ''must preserve a HISTORICAL_FAILURE'']) (\<lambda>_.
     ebind (any_item health_pass by_id authority_ids) (\<lambda>healthy.
     ebind (demand healthy ''authority_evidence_ids'' [JStr ''must bind a FULL_RTH_HEALTH PASS'']) (\<lambda>_.
       Inr (authority_ids, failure_ids)))))))))))"

text \<open>Unknowns: the ids, and which of them block the freeze. Risk assumptions: the ids.\<close>

definition validate_unknown :: "string \<Rightarrow> jval \<Rightarrow> string list \<times> string list \<Rightarrow> exn + string list \<times> string list" where
  "validate_unknown place raw acc =
     ebind (as_object raw place) (\<lambda>item.
     ebind (exact_keys item UNKNOWN_KEYS place) (\<lambda>_.
     ebind (entry item place ''id'' identifier_value) (\<lambda>uid.
     ebind (entry item place ''statement'' (conforms (text_value 4096))) (\<lambda>_.
     ebind (entry item place ''status'' (conforms (enum_value UNKNOWN_STATUSES))) (\<lambda>_.
     ebind (entry item place ''blocks_b2_read_only_freeze'' bool_value) (\<lambda>blocks.
     ebind (entry item place ''review_before'' (enum_value UNKNOWN_REVIEW_POINTS)) (\<lambda>review.
     ebind (demand (blocks = (review = ''B2_FREEZE'')) place
       [JStr ''B2_FREEZE review and blocks_b2_read_only_freeze must agree'']) (\<lambda>_.
       Inr (fst acc @ [uid], if blocks then snd acc @ [uid] else snd acc)))))))))"

definition validate_unknowns :: "jval \<Rightarrow> exn + string list \<times> string list" where
  "validate_unknowns v = ebind (as_array v ''unknowns'') (\<lambda>items.
     if items = [] then fail_at ''unknowns'' [JStr ''must preserve at least one unknown or documented ambiguity'']
     else ebind (scan_all validate_unknown ''unknowns'' 0 items ([], [])) (\<lambda>(ids, blockers).
       ebind (demand (distinct ids) ''unknowns'' [JStr ''contains duplicate ids'']) (\<lambda>_. Inr (ids, blockers))))"

definition validate_risk_assumption :: "string \<Rightarrow> jval \<Rightarrow> string list \<Rightarrow> exn + string list" where
  "validate_risk_assumption place raw ids =
     ebind (as_object raw place) (\<lambda>item.
     ebind (exact_keys item RISK_KEYS place) (\<lambda>_.
     ebind (entry item place ''id'' identifier_value) (\<lambda>rid.
     ebind (all_of
       [entry item place ''statement'' (conforms (text_value 4096)),
        entry item place ''failure_mode'' (conforms (text_value 4096)),
        entry item place ''mitigation'' (conforms (text_value 4096)),
        entry item place ''status'' (remains ''OPEN_REVIEW_REQUIRED'' [JStr ''must be OPEN_REVIEW_REQUIRED'']),
        entry item place ''blocks_b2_read_only_freeze''
          (\<lambda>v pl. demand (v = JBool False) pl [JStr ''must be false; these assumptions do not block the read-only freeze'']),
        entry item place ''required_review_before'' (remains ''PRODUCTION_OR_ORDER_CAPABLE_PAPER_LIVE''
          [JStr ''must require review before production or order-capable Paper/Live''])]) (\<lambda>_.
       Inr (ids @ [rid])))))"

definition validate_risk_assumptions :: "jval \<Rightarrow> exn + string list" where
  "validate_risk_assumptions v = ebind (as_array v ''risk_assumptions'') (\<lambda>items.
     ebind (scan_all validate_risk_assumption ''risk_assumptions'' 0 items []) (\<lambda>ids.
     ebind (demand (distinct ids) ''risk_assumptions'' [JStr ''contains duplicate ids'']) (\<lambda>_.
       (let missing = filter (\<lambda>k. k \<notin> set ids) REQUIRED_RISK_ASSUMPTIONS
        in ebind (demand (missing = []) ''risk_assumptions'' [JStr ''missing required ids='', JStr (join '','' (sort missing))])
             (\<lambda>_. Inr ids)))))"

section \<open>The owner, and the whole\<close>

definition accepts_exactly :: "string list \<Rightarrow> unit parser" where
  "accepts_exactly expected v place = ebind (unique_identifiers v place)
     (\<lambda>ids. demand (set ids = set expected) place [JStr ''must exactly accept the manifest ids''])"

definition validate_owner_acceptance :: "jval \<Rightarrow> string list \<Rightarrow> string list \<Rightarrow> string list \<Rightarrow> bool \<Rightarrow> exn + unit" where
  "validate_owner_acceptance v authority_ids unknown_ids risk_ids required =
     (if v = JNull then demand (\<not> required) ''owner_acceptance'' [JStr ''is required for a final freeze'']
      else ebind (as_object v ''owner_acceptance'') (\<lambda>owner. all_of
        [exact_keys owner OWNER_KEYS ''owner_acceptance'',
         entry owner ''owner_acceptance'' ''owner'' (conforms (text_value 256)),
         entry owner ''owner_acceptance'' ''accepted_at_utc'' (conforms utc_timestamp),
         entry owner ''owner_acceptance'' ''decision'' (remains ''ACCEPT_EVIDENCE_SCOPE_AND_RESIDUAL_RISK''
           [JStr ''cannot accept a Gate PASS or trading capability'']),
         entry owner ''owner_acceptance'' ''gate_b2_decision'' (remains ''REMAIN_READ_ONLY_IN_PROGRESS''
           [JStr ''must preserve the current Gate B2 state'']),
         entry owner ''owner_acceptance'' ''order_capability'' (remains ''NOT_AUTHORIZED'' [JStr ''must remain NOT_AUTHORIZED'']),
         entry owner ''owner_acceptance'' ''accepted_authority_evidence_ids'' (accepts_exactly authority_ids),
         entry owner ''owner_acceptance'' ''accepted_unknown_ids'' (accepts_exactly unknown_ids),
         entry owner ''owner_acceptance'' ''accepted_risk_assumption_ids'' (accepts_exactly risk_ids)]))"

text \<open>\<open>schema_version\<close> compares as a number, but not as a boolean.\<close>

definition is_version :: "jval \<Rightarrow> bool" where
  "is_version v = (case v of JInt i \<Rightarrow> i = SCHEMA_VERSION | JNum r \<Rightarrow> r = of_int SCHEMA_VERSION | _ \<Rightarrow> False)"

text \<open>\<open>run["run_id"]\<close> of runs that were validated.\<close>

fun run_id_of :: "jval \<Rightarrow> exn + int" where
  "run_id_of (JObj run) = ebind (pkey run ''run_id'') (\<lambda>v. case v of JInt i \<Rightarrow> Inr i | _ \<Rightarrow> Inl (TypeErr v))"
| "run_id_of v = Inl (TypeErr v)"

definition validate_manifest :: "jval \<Rightarrow> bool \<Rightarrow> exn + unit" where
  "validate_manifest manifest require_owner_acceptance =
     ebind (as_object manifest ''manifest'') (\<lambda>p.
     ebind (exact_keys p TOP_LEVEL_KEYS ''manifest'') (\<lambda>_.
     ebind (pkey p ''schema_version'') (\<lambda>version.
     ebind (demand (is_version version) ''schema_version'' [JStr ''must be '', JInt SCHEMA_VERSION]) (\<lambda>_.
     ebind (pkey p ''freeze_kind'') (\<lambda>kind.
     ebind (demand (kind = JStr FREEZE_KIND) ''freeze_kind'' [JStr ''must be '', JStr FREEZE_KIND]) (\<lambda>_.
     ebind (pkey p ''candidate'') (\<lambda>c. ebind (validate_candidate c) (\<lambda>candidate.
     ebind (pkey p ''safety_boundary'') (\<lambda>b. ebind (validate_safety_boundary b) (\<lambda>_.
     ebind (pkey p ''ci_runs'') (\<lambda>runs. ebind (pkey candidate ''commit_sha'') (\<lambda>commit.
     ebind (validate_ci_runs runs (render commit)) (\<lambda>_.
     ebind (pkey p ''evidence'') (\<lambda>e. ebind (validate_evidence e) (\<lambda>by_id.
     ebind (pkey p ''ci_artifacts'') (\<lambda>artifacts. ebind (as_array runs ''ci_runs'') (\<lambda>run_list.
     ebind (parse_all (\<lambda>v _. run_id_of v) ''ci_runs'' 0 run_list) (\<lambda>run_ids.
     ebind (validate_ci_artifacts artifacts run_ids by_id) (\<lambda>_.
     ebind (validate_authority_and_failures p by_id) (\<lambda>(authority_ids, failure_ids).
     ebind (pkey p ''unknowns'') (\<lambda>u. ebind (validate_unknowns u) (\<lambda>(unknown_ids, freeze_blockers).
     ebind (pkey p ''risk_assumptions'') (\<lambda>r. ebind (validate_risk_assumptions r) (\<lambda>risk_ids.
     ebind (pkey p ''owner_acceptance'') (\<lambda>owner.
     ebind (demand (owner = JNull \<or> freeze_blockers = []) ''owner_acceptance''
       [JStr ''cannot accept a final freeze with blocking unknowns='', JStr (join '','' (sort freeze_blockers))]) (\<lambda>_.
       validate_owner_acceptance owner authority_ids unknown_ids risk_ids require_owner_acceptance))))))))))))))))))))))))))"

definition build_manifest :: "payload \<Rightarrow> exn + payload" where
  "build_manifest given = ebind (validate_manifest (JObj given) False) (\<lambda>_. Inr given)"

end
