(* ===== verification/Evidence_Facts.thy ===== *)
theory Evidence_Facts
  imports Evidence_Manifest
begin

text \<open>
  What it means that a check of \<open>Evidence_Manifest\<close> passed: each parser as a condition on the value, each loop as
  an invariant of what has been read.
\<close>

section \<open>Parsers\<close>

lemma fail_at_never [simp]: "fail_at place m \<noteq> Inr a" "Inr a \<noteq> fail_at place m"
  by (simp_all add: fail_at_def)

lemma demand_Inr [simp]: "demand ok place m = Inr u \<longleftrightarrow> ok"
  by (simp add: demand_def)

lemma all_of_Inr: "all_of cs = Inr u \<longleftrightarrow> list_all (\<lambda>c. c = Inr ()) cs"
  by (induction cs) (auto simp: ebind_Inr_iff)

lemma drop_value_Inr [simp]: "drop_value r = Inr u \<longleftrightarrow> (\<exists>a. r = Inr a)"
  by (simp add: drop_value_def ebind_Inr_iff)

lemma conforms_Inr [simp]: "conforms f v place = Inr u \<longleftrightarrow> (\<exists>a. f v place = Inr a)"
  by (simp add: conforms_def)

lemma unless_null_Inr [simp]: "unless_null f v place = Inr u \<longleftrightarrow> v = JNull \<or> (\<exists>a. f v place = Inr a)"
  by (simp add: unless_null_def)

lemma pkey_Inr: "pkey p k = Inr v \<longleftrightarrow> map_of p k = Some v"
  by (auto simp: pkey_def split: option.splits)

lemma entry_Inr: "entry p place k f = Inr a \<longleftrightarrow> (\<exists>v. map_of p k = Some v \<and> f v (place @ ''.'' @ k) = Inr a)"
  by (auto simp: entry_def ebind_Inr_iff pkey_Inr)

lemma as_object_Inr [simp]: "as_object v place = Inr p \<longleftrightarrow> v = JObj p"
  by (cases v) (auto simp: as_object_def)

lemma as_array_Inr [simp]: "as_array v place = Inr xs \<longleftrightarrow> v = JList xs"
  by (cases v) (auto simp: as_array_def)

lemma text_value_Inr: "text_value n v place = Inr s \<Longrightarrow> v = JStr s"
  by (cases v) (auto simp: text_value_def split: if_splits)

lemma enum_value_Inr: "enum_value allowed v place = Inr s \<Longrightarrow> v = JStr s \<and> s \<in> set allowed"
  by (auto simp: enum_value_def ebind_Inr_iff dest: text_value_Inr split: if_splits)

lemma identifier_value_Inr: "identifier_value v place = Inr s \<Longrightarrow> v = JStr s \<and> IDENTIFIER s"
  by (auto simp: identifier_value_def ebind_Inr_iff dest: text_value_Inr split: if_splits)

lemma hex_value_Inr [simp]: "hex_value n v place = Inr s \<longleftrightarrow> v = JStr s \<and> HEX n s"
  by (cases v) (auto simp: hex_value_def)

lemma positive_int_Inr [simp]: "positive_int v place = Inr i \<longleftrightarrow> v = JInt i \<and> 0 < i"
  by (cases v) (auto simp: positive_int_def)

lemma bool_value_Inr [simp]: "bool_value v place = Inr b \<longleftrightarrow> v = JBool b"
  by (cases v) (auto simp: bool_value_def)

lemma remains_Inr [simp]: "remains s m v place = Inr u \<longleftrightarrow> v = JStr s"
  by (simp add: remains_def)

lemma relative_path_Inr: "relative_path v place = Inr s \<Longrightarrow> v = JStr s \<and> posix_root s = []
    \<and> ''..'' \<notin> set (posix_segments s) \<and> as_posix s = s"
  by (auto simp: relative_path_def ebind_Inr_iff posix_parts_def list_ex_iff dest: text_value_Inr split: if_splits)

lemma parse_all_Inr: "parse_all f place n vs = Inr as \<Longrightarrow> list_all2 (\<lambda>v a. \<exists>pl. f v pl = Inr a) vs as"
  by (induction vs arbitrary: n as) (auto simp: ebind_Inr_iff)

lemma unique_identifiers_Inr:
  assumes "unique_identifiers v place = Inr ids"
  shows "v = JList (map JStr ids) \<and> distinct ids"
proof -
  from assms obtain xs where v: "v = JList xs" "parse_all identifier_value place 0 xs = Inr ids" and d: "distinct ids"
    by (auto simp: unique_identifiers_def ebind_Inr_iff split: if_splits)
  have "list_all2 (\<lambda>x s. x = JStr s) xs ids"
    by (rule list_all2_mono [OF parse_all_Inr [OF v(2)]]) (auto dest: identifier_value_Inr)
  then have "xs = map JStr ids"
    by (induction rule: list_all2_induct) simp_all
  with v d show ?thesis by simp
qed

lemma field_is_Inr [simp]: "field_is item k s = Inr b \<longleftrightarrow> (\<exists>v. map_of item k = Some v \<and> b = (v = JStr s))"
  by (auto simp: field_is_def ebind_Inr_iff pkey_Inr)

text \<open>A scan keeps what each step extends.\<close>

lemma scan_all_extends:
  assumes "\<And>pl v seen acc acc'. P seen acc \<Longrightarrow> f pl v acc = Inr acc' \<Longrightarrow> P (seen @ [v]) acc'"
  shows "scan_all f place n vs acc = Inr acc' \<Longrightarrow> P seen acc \<Longrightarrow> P (seen @ vs) acc'"
proof (induction vs arbitrary: n acc seen)
  case (Cons v vs)
  from Cons.prems(1) obtain acc1 where 1: "f (nth_place place n) v acc = Inr acc1"
    and 2: "scan_all f place (Suc n) vs acc1 = Inr acc'"
    by (auto simp: ebind_Inr_iff)
  from Cons.IH [OF 2 assms [OF Cons.prems(2) 1]] show ?case by simp
qed simp

lemma any_item_Inr: "any_item f by_id eids = Inr True \<Longrightarrow> \<exists>eid\<in>set eids. \<exists>item. dget by_id eid = Some item \<and> f item = Inr True"
  by (induction eids) (auto simp: ebind_Inr_iff split: option.splits if_splits)

section \<open>Reading a value\<close>

definition object_of :: "jval \<Rightarrow> payload" where
  "object_of v = (case v of JObj p \<Rightarrow> p | _ \<Rightarrow> [])"

definition elements :: "jval \<Rightarrow> jval list" where
  "elements v = (case v of JList xs \<Rightarrow> xs | _ \<Rightarrow> [])"

definition of_field :: "string \<Rightarrow> jval \<Rightarrow> jval" where
  "of_field k v = pget (object_of v) k JNull"

definition text_in :: "string \<Rightarrow> jval \<Rightarrow> string" where
  "text_in k v = (case of_field k v of JStr s \<Rightarrow> s | _ \<Rightarrow> [])"

definition int_in :: "string \<Rightarrow> jval \<Rightarrow> int" where
  "int_in k v = (case of_field k v of JInt i \<Rightarrow> i | _ \<Rightarrow> 0)"

definition section_of :: "payload \<Rightarrow> string \<Rightarrow> jval list" where
  "section_of p k = elements (pget p k JNull)"

lemma elements_JList [simp]: "elements (JList xs) = xs"
  by (simp add: elements_def)

lemma of_field_Some: "map_of p k = Some v \<Longrightarrow> of_field k (JObj p) = v"
  by (simp add: of_field_def object_of_def pget_def)

lemma object_of_JObj [simp]: "object_of (JObj p) = p"
  by (simp add: object_of_def)

lemma text_in_Some: "map_of p k = Some (JStr s) \<Longrightarrow> text_in k (JObj p) = s"
  by (simp add: text_in_def of_field_Some)

lemma text_in_JStr: "of_field k v = JStr s \<Longrightarrow> text_in k v = s"
  by (simp add: text_in_def)

lemma int_in_Some: "map_of p k = Some (JInt i) \<Longrightarrow> int_in k (JObj p) = i"
  by (simp add: int_in_def of_field_Some)

lemmas read_field = of_field_Some text_in_Some int_in_Some

section \<open>Evidence\<close>

text \<open>What binds an item to bytes.\<close>

definition pinned :: "jval \<Rightarrow> bool" where
  "pinned v \<longleftrightarrow> (\<exists>h n c. of_field ''sha256'' v = JStr h \<and> HEX 64 h \<and> of_field ''bytes'' v = JInt n \<and> 0 < n
     \<and> of_field ''capture_commit'' v = JStr c \<and> HEX 40 c)"

lemma validate_item_Inr:
  assumes "validate_item place raw acc = Inr acc'"
  shows "raw = JObj (object_of raw) \<and> of_field ''id'' raw = JStr (text_in ''id'' raw) \<and> dget (fst acc) (text_in ''id'' raw) = None
    \<and> (\<forall>k\<in>set EVIDENCE_KEYS. map_of (object_of raw) k \<noteq> None)
    \<and> (of_field ''binding'' raw = JStr ''BOUND_AUTHORITY'' \<longrightarrow> pinned raw)
    \<and> of_field ''verdict'' raw = JStr (text_in ''verdict'' raw)
    \<and> acc' = (dput (text_in ''id'' raw) (object_of raw) (fst acc),
        if text_in ''verdict'' raw \<in> {''PASS'', ''FAIL''}
        then dput (text_in ''claim_key'' raw) (set_add (text_in ''verdict'' raw) (dget_or (snd acc) (text_in ''claim_key'' raw) [])) (snd acc)
        else snd acc)"
proof -
  from assms obtain item eid claim binding verdict where raw: "raw = JObj item"
    and keys: "set (map fst item) = set EVIDENCE_KEYS" and fresh: "dget (fst acc) eid = None"
    and f: "map_of item ''id'' = Some (JStr eid)" "map_of item ''claim_key'' = Some (JStr claim)"
      "map_of item ''binding'' = Some (JStr binding)" "map_of item ''verdict'' = Some (JStr verdict)"
    and b: "validate_binding item place binding = Inr ()"
    and acc': "acc' = (dput eid item (fst acc),
        if verdict \<in> {''PASS'', ''FAIL''} then dput claim (set_add verdict (dget_or (snd acc) claim [])) (snd acc) else snd acc)"
    unfolding validate_item_def ebind_Inr_iff entry_Inr exact_keys_def Let_def demand_Inr as_object_Inr
    by (auto dest!: identifier_value_Inr enum_value_Inr)
  have "\<forall>k\<in>set EVIDENCE_KEYS. map_of item k \<noteq> None"
    using keys by (metis map_of_eq_None_iff set_map)
  moreover have "binding = ''BOUND_AUTHORITY'' \<longrightarrow> pinned raw"
    using b by (auto simp: raw validate_binding_def ebind_Inr_iff pkey_Inr all_of_Inr pinned_def read_field)
  ultimately show ?thesis
    using f fresh by (simp add: raw acc' read_field)
qed

lemma dput_fresh: "dget ps k = None \<Longrightarrow> dput k v ps = ps @ [(k, v)]"
  by (induction ps) (auto split: if_splits)

lemma set_add_set [simp]: "set (set_add x xs) = insert x (set xs)"
  by (auto simp: set_add_def)

definition graded :: "jval list \<Rightarrow> string \<Rightarrow> string set" where
  "graded seen claim = {text_in ''verdict'' v | v. v \<in> set seen \<and> text_in ''claim_key'' v = claim} \<inter> {''PASS'', ''FAIL''}"

definition evidence_read :: "jval list \<Rightarrow> evidence_index \<Rightarrow> bool" where
  "evidence_read seen acc \<longleftrightarrow>
     fst acc = map (\<lambda>v. (text_in ''id'' v, object_of v)) seen
     \<and> distinct (map (text_in ''id'') seen)
     \<and> (\<forall>v\<in>set seen. v = JObj (object_of v) \<and> of_field ''id'' v = JStr (text_in ''id'' v)
          \<and> of_field ''verdict'' v = JStr (text_in ''verdict'' v)
          \<and> (\<forall>k\<in>set EVIDENCE_KEYS. map_of (object_of v) k \<noteq> None)
          \<and> (of_field ''binding'' v = JStr ''BOUND_AUTHORITY'' \<longrightarrow> pinned v))
     \<and> (\<forall>claim. set (dget_or (snd acc) claim []) = graded seen claim)"

lemma graded_in:
  "v \<in> set seen \<Longrightarrow> text_in ''verdict'' v \<in> {''PASS'', ''FAIL''} \<Longrightarrow> text_in ''verdict'' v \<in> graded seen (text_in ''claim_key'' v)"
  by (auto simp: graded_def)

lemma graded_snoc: "graded (seen @ [v]) claim = graded seen claim \<union>
    (if text_in ''claim_key'' v = claim then {text_in ''verdict'' v} \<inter> {''PASS'', ''FAIL''} else {})"
  by (auto simp: graded_def)

lemma validate_item_reads:
  assumes "evidence_read seen acc" and "validate_item place v acc = Inr acc'"
  shows "evidence_read (seen @ [v]) acc'"
proof -
  note item = validate_item_Inr [OF assms(2)]
  have by_id: "fst acc' = map (\<lambda>v. (text_in ''id'' v, object_of v)) (seen @ [v])"
    using item assms(1) by (simp add: evidence_read_def dput_fresh)
  have "text_in ''id'' v \<notin> set (map (text_in ''id'') seen)"
    using item assms(1) by (auto simp: evidence_read_def map_of_eq_None_iff image_image)
  moreover have "set (dget_or (snd acc') claim []) = graded (seen @ [v]) claim" for claim
    using item assms(1) by (auto simp: evidence_read_def graded_snoc dget_or_dput split: if_splits)
  ultimately show ?thesis
    using by_id item assms(1) by (simp add: evidence_read_def)
qed

lemma no_conflict:
  assumes "verdict_conflicts claims = []" and "x \<in> set (dget_or claims k [])" and "y \<in> set (dget_or claims k [])"
  shows "x = y"
proof -
  obtain vs where vs: "(k, vs) \<in> set claims" "x \<in> set vs" "y \<in> set vs"
    using assms(2,3) by (cases "dget claims k") (auto simp: dget_or_def dest: map_of_SomeD)
  have "set (verdict_conflicts claims) = fst ` {(k, vs) \<in> set claims. length vs > 1}"
    by (auto simp: verdict_conflicts_def)
  with assms(1) vs(1) have "length vs \<le> 1"
    by (force simp: not_less)
  with vs(2,3) show ?thesis by (cases vs) auto
qed

text \<open>Evidence that passed: distinct ids, bound items pinned, no claim both passed and failed.\<close>

lemma validate_evidence_Inr:
  assumes "validate_evidence v = Inr by_id"
  shows "by_id = map (\<lambda>e. (text_in ''id'' e, object_of e)) (elements v) \<and> distinct (map (text_in ''id'') (elements v))
    \<and> (\<forall>e\<in>set (elements v). e = JObj (object_of e) \<and> of_field ''id'' e = JStr (text_in ''id'' e)
         \<and> of_field ''verdict'' e = JStr (text_in ''verdict'' e)
         \<and> (\<forall>k\<in>set EVIDENCE_KEYS. map_of (object_of e) k \<noteq> None)
         \<and> (of_field ''binding'' e = JStr ''BOUND_AUTHORITY'' \<longrightarrow> pinned e))
    \<and> (\<forall>e\<in>set (elements v). \<forall>e'\<in>set (elements v). text_in ''claim_key'' e = text_in ''claim_key'' e' \<longrightarrow>
         \<not> (text_in ''verdict'' e = ''PASS'' \<and> text_in ''verdict'' e' = ''FAIL''))"
proof -
  from assms obtain items acc where v: "v = JList items"
    and scan: "scan_all validate_item ''evidence'' 0 items ([], []) = Inr acc"
    and acc: "by_id = fst acc" "verdict_conflicts (snd acc) = []"
    by (auto simp: validate_evidence_def ebind_Inr_iff split: if_splits)
  have "evidence_read [] ([], [])"
    by (simp add: evidence_read_def graded_def dget_or_def)
  with scan_all_extends [where P = evidence_read and f = validate_item, OF validate_item_reads, OF _ _ scan]
  have read: "evidence_read items acc" by fastforce
  have "\<not> (text_in ''verdict'' e = ''PASS'' \<and> text_in ''verdict'' e' = ''FAIL'')"
    if "e \<in> set items" "e' \<in> set items" "text_in ''claim_key'' e = text_in ''claim_key'' e'" for e e'
  proof
    assume both: "text_in ''verdict'' e = ''PASS'' \<and> text_in ''verdict'' e' = ''FAIL''"
    then have "{''PASS'', ''FAIL''} \<subseteq> graded items (text_in ''claim_key'' e)"
      using graded_in [OF that(1)] graded_in [OF that(2)] that(3) by auto
    moreover have "set (dget_or (snd acc) (text_in ''claim_key'' e) []) = graded items (text_in ''claim_key'' e)"
      using read by (simp add: evidence_read_def)
    ultimately show False
      using no_conflict [OF acc(2), of "''PASS''" "text_in ''claim_key'' e" "''FAIL''"] by auto
  qed
  then show ?thesis
    using read by (simp add: evidence_read_def v acc(1))
qed

lemma item_by_id:
  assumes "distinct (map (text_in ''id'') items)"
  shows "dget (map (\<lambda>e. (text_in ''id'' e, object_of e)) items) eid = Some item \<longleftrightarrow>
    (\<exists>e\<in>set items. text_in ''id'' e = eid \<and> object_of e = item)"
  using assms by (induction items) (auto simp: image_iff)

section \<open>Authority and failures\<close>

lemma validate_authority_Inr:
  "validate_authority by_id eid = Inr u \<longleftrightarrow> (\<exists>item. dget by_id eid = Some item \<and> map_of item ''binding'' = Some (JStr ''BOUND_AUTHORITY''))"
  by (auto simp: validate_authority_def ebind_Inr_iff split: option.splits)

lemma validate_failure_Inr:
  "validate_failure authority_ids by_id eid = Inr u \<Longrightarrow> eid \<in> set authority_ids
     \<and> (\<exists>item. dget by_id eid = Some item \<and> map_of item ''verdict'' = Some (JStr ''FAIL''))"
  by (auto simp: validate_failure_def ebind_Inr_iff split: option.splits if_splits)

lemma validate_authority_and_failures_Inr:
  assumes "validate_authority_and_failures p by_id = Inr (authority_ids, failure_ids)"
  shows "map_of p ''authority_evidence_ids'' = Some (JList (map JStr authority_ids))
    \<and> map_of p ''required_failures'' = Some (JList (map JStr failure_ids))
    \<and> (\<forall>eid\<in>set authority_ids. \<exists>item. dget by_id eid = Some item \<and> map_of item ''binding'' = Some (JStr ''BOUND_AUTHORITY''))
    \<and> (\<forall>eid\<in>set failure_ids. eid \<in> set authority_ids
         \<and> (\<exists>item. dget by_id eid = Some item \<and> map_of item ''verdict'' = Some (JStr ''FAIL'')))
    \<and> (\<exists>eid\<in>set failure_ids. \<exists>item. dget by_id eid = Some item \<and> map_of item ''evidence_kind'' = Some (JStr ''HISTORICAL_FAILURE''))
    \<and> (\<exists>eid\<in>set authority_ids. \<exists>item. dget by_id eid = Some item \<and> map_of item ''evidence_kind'' = Some (JStr ''FULL_RTH_HEALTH'')
         \<and> map_of item ''verdict'' = Some (JStr ''PASS''))"
proof -
  from assms obtain a r where ids: "map_of p ''authority_evidence_ids'' = Some a" "unique_identifiers a ''authority_evidence_ids'' = Inr authority_ids"
      "map_of p ''required_failures'' = Some r" "unique_identifiers r ''required_failures'' = Inr failure_ids"
    and all: "list_all (\<lambda>eid. validate_authority by_id eid = Inr ()) authority_ids"
      "list_all (\<lambda>eid. validate_failure authority_ids by_id eid = Inr ()) failure_ids"
    and some: "any_item (\<lambda>item. field_is item ''evidence_kind'' ''HISTORICAL_FAILURE'') by_id failure_ids = Inr True"
      "any_item health_pass by_id authority_ids = Inr True"
    by (auto simp: validate_authority_and_failures_def ebind_Inr_iff pkey_Inr all_of_Inr list.pred_map comp_def)
  have "\<exists>eid\<in>set authority_ids. \<exists>item. dget by_id eid = Some item \<and> map_of item ''evidence_kind'' = Some (JStr ''FULL_RTH_HEALTH'')
         \<and> map_of item ''verdict'' = Some (JStr ''PASS'')"
    using any_item_Inr [OF some(2)] by (force simp: health_pass_def ebind_Inr_iff split: if_splits)
  moreover have "\<exists>eid\<in>set failure_ids. \<exists>item. dget by_id eid = Some item \<and> map_of item ''evidence_kind'' = Some (JStr ''HISTORICAL_FAILURE'')"
    using any_item_Inr [OF some(1)] by force
  moreover have "\<forall>eid\<in>set failure_ids. eid \<in> set authority_ids
         \<and> (\<exists>item. dget by_id eid = Some item \<and> map_of item ''verdict'' = Some (JStr ''FAIL''))"
    using all(2) by (auto simp: list_all_iff dest: validate_failure_Inr)
  ultimately show ?thesis
    using ids all(1) unique_identifiers_Inr [OF ids(2)] unique_identifiers_Inr [OF ids(4)]
    by (simp add: list_all_iff validate_authority_Inr)
qed

section \<open>CI artifacts\<close>

definition bound_ids :: "jval list \<Rightarrow> string list" where
  "bound_ids seen = map (text_in ''evidence_id'') (filter (\<lambda>v. of_field ''evidence_id'' v \<noteq> JNull) seen)"

definition artifacts_read :: "int list \<Rightarrow> jval list \<Rightarrow> ci_seen \<Rightarrow> bool" where
  "artifacts_read run_ids seen cs \<longleftrightarrow>
     cs_artifact_ids cs = map (int_in ''artifact_id'') seen \<and> distinct (cs_artifact_ids cs)
     \<and> cs_run_jobs cs = map (\<lambda>v. (int_in ''run_id'' v, text_in ''job_name'' v)) seen \<and> distinct (cs_run_jobs cs)
     \<and> cs_bound cs = bound_ids seen \<and> distinct (cs_bound cs)
     \<and> (\<forall>v\<in>set seen. int_in ''run_id'' v \<in> set run_ids)"

lemma validate_evidence_binding_Inr:
  assumes "validate_evidence_binding by_id artifact place seen = Inr cs"
  shows "if of_field ''evidence_id'' (JObj artifact) = JNull then cs = seen
    else text_in ''evidence_id'' (JObj artifact) \<notin> set (cs_bound seen)
      \<and> cs = seen\<lparr>cs_bound := cs_bound seen @ [text_in ''evidence_id'' (JObj artifact)]\<rparr>"
proof -
  from assms obtain eid path where f: "map_of artifact ''evidence_id'' = Some eid" "map_of artifact ''evidence_member_path'' = Some path"
    unfolding validate_evidence_binding_def ebind_Inr_iff pkey_Inr by blast
  then have found: "pkey artifact ''evidence_id'' = Inr eid" "pkey artifact ''evidence_member_path'' = Inr path"
    by (simp_all add: pkey_Inr)
  note run = assms [unfolded validate_evidence_binding_def found ebind_simps]
  show ?thesis
  proof (cases "eid = JNull \<or> path = JNull")
    case True
    with run show ?thesis by (auto simp: ebind_Inr_iff of_field_Some [OF f(1)])
  next
    case False
    with run obtain s where "identifier_value eid (place @ ''.evidence_id'') = Inr s" "s \<notin> set (cs_bound seen)"
      "cs = seen\<lparr>cs_bound := cs_bound seen @ [s]\<rparr>"
      by (simp add: ebind_Inr_iff Let_def) blast
    with False show ?thesis
      by (auto simp: of_field_Some [OF f(1)] text_in_def dest: identifier_value_Inr)
  qed
qed

lemma validate_ci_artifact_reads:
  assumes "artifacts_read run_ids seen cs" and "validate_ci_artifact run_ids by_id place v cs = Inr cs'"
  shows "artifacts_read run_ids (seen @ [v]) cs'"
proof -
  from assms(2) obtain artifact run_id job aid where v: "v = JObj artifact"
    and f: "map_of artifact ''run_id'' = Some (JInt run_id)" "map_of artifact ''job_name'' = Some (JStr job)"
      "map_of artifact ''artifact_id'' = Some (JInt aid)"
    and new: "run_id \<in> set run_ids" "(run_id, job) \<notin> set (cs_run_jobs cs)" "aid \<notin> set (cs_artifact_ids cs)"
    and b: "validate_evidence_binding by_id artifact place
      (cs\<lparr>cs_artifact_ids := cs_artifact_ids cs @ [aid], cs_run_jobs := cs_run_jobs cs @ [(run_id, job)]\<rparr>) = Inr cs'"
    unfolding validate_ci_artifact_def ebind_Inr_iff entry_Inr demand_Inr as_object_Inr
    by (auto dest!: text_value_Inr)
  from validate_evidence_binding_Inr [OF b] show ?thesis
    using assms(1) new
    by (auto simp: artifacts_read_def v int_in_Some [OF f(1)] int_in_Some [OF f(3)] text_in_Some [OF f(2)] bound_ids_def split: if_splits)
qed

lemma validate_ci_artifacts_Inr:
  assumes "validate_ci_artifacts v run_ids by_id = Inr u"
  shows "elements v \<noteq> [] \<and> distinct (map (int_in ''artifact_id'') (elements v))
    \<and> distinct (map (\<lambda>a. (int_in ''run_id'' a, text_in ''job_name'' a)) (elements v))
    \<and> (\<forall>a\<in>set (elements v). int_in ''run_id'' a \<in> set run_ids)
    \<and> distinct (bound_ids (elements v))
    \<and> set (bound_ids (elements v)) = fst ` {(eid, e) \<in> set by_id. is_bound_ci e}"
proof -
  from assms obtain artifacts cs where v: "v = JList artifacts" "artifacts \<noteq> []"
    and scan: "scan_all (validate_ci_artifact run_ids by_id) ''ci_artifacts'' 0 artifacts
      \<lparr>cs_artifact_ids = [], cs_run_jobs = [], cs_bound = []\<rparr> = Inr cs"
    and all: "set (cs_bound cs) = set (map fst (filter (\<lambda>(eid, e). is_bound_ci e) by_id))"
    by (auto simp: validate_ci_artifacts_def ebind_Inr_iff split: if_splits)
  have "artifacts_read run_ids [] \<lparr>cs_artifact_ids = [], cs_run_jobs = [], cs_bound = []\<rparr>"
    by (simp add: artifacts_read_def bound_ids_def)
  with scan_all_extends [where P = "artifacts_read run_ids" and f = "validate_ci_artifact run_ids by_id",
      OF validate_ci_artifact_reads, OF _ _ scan]
  have "artifacts_read run_ids artifacts cs" by fastforce
  then show ?thesis
    using all v by (auto simp: artifacts_read_def)
qed

section \<open>CI runs\<close>

definition run_on :: "string \<Rightarrow> jval \<Rightarrow> bool" where
  "run_on commit v \<longleftrightarrow> of_field ''commit_sha'' v = JStr commit \<and> of_field ''conclusion'' v = JStr ''SUCCESS''"

lemma validate_ci_run_Inr:
  assumes "validate_ci_run commit place v seen = Inr seen'"
  shows "run_on commit v"
proof -
  from assms obtain run where "v = JObj run" "map_of run ''commit_sha'' = Some (JStr commit)" "map_of run ''conclusion'' = Some (JStr ''SUCCESS'')"
    unfolding validate_ci_run_def ebind_Inr_iff entry_Inr demand_Inr as_object_Inr by (auto split: if_splits)
  then show ?thesis by (simp add: run_on_def of_field_Some)
qed

lemma validate_ci_runs_Inr:
  assumes "validate_ci_runs v commit = Inr u"
  shows "elements v \<noteq> [] \<and> (\<forall>r\<in>set (elements v). run_on commit r)"
proof -
  from assms obtain runs seen where v: "v = JList runs" "runs \<noteq> []"
    and scan: "scan_all (validate_ci_run commit) ''ci_runs'' 0 runs [] = Inr seen"
    by (auto simp: validate_ci_runs_def ebind_Inr_iff split: if_splits)
  have "(\<lambda>seen acc. \<forall>r\<in>set seen. run_on commit r) ([] @ runs) seen"
    by (rule scan_all_extends [OF _ scan]) (auto dest: validate_ci_run_Inr)
  with v show ?thesis by simp
qed

section \<open>Unknowns and risk assumptions\<close>

definition blocking :: "jval \<Rightarrow> bool" where
  "blocking v \<longleftrightarrow> of_field ''blocks_b2_read_only_freeze'' v \<noteq> JBool False"

definition unknowns_read :: "jval list \<Rightarrow> string list \<times> string list \<Rightarrow> bool" where
  "unknowns_read seen acc \<longleftrightarrow> fst acc = map (text_in ''id'') seen \<and> snd acc = map (text_in ''id'') (filter blocking seen)"

lemma validate_unknown_reads:
  assumes "unknowns_read seen acc" and "validate_unknown place v acc = Inr acc'"
  shows "unknowns_read (seen @ [v]) acc'"
proof -
  from assms(2) obtain item uid b where "v = JObj item" "map_of item ''id'' = Some (JStr uid)"
    "map_of item ''blocks_b2_read_only_freeze'' = Some (JBool b)"
    "acc' = (fst acc @ [uid], if b then snd acc @ [uid] else snd acc)"
    unfolding validate_unknown_def ebind_Inr_iff entry_Inr demand_Inr as_object_Inr bool_value_Inr
    by (auto dest!: identifier_value_Inr)
  with assms(1) show ?thesis
    by (simp add: unknowns_read_def blocking_def read_field)
qed

lemma validate_unknowns_Inr:
  assumes "validate_unknowns v = Inr (ids, blockers)"
  shows "elements v \<noteq> [] \<and> ids = map (text_in ''id'') (elements v) \<and> blockers = map (text_in ''id'') (filter blocking (elements v))
    \<and> distinct ids"
proof -
  from assms obtain items where v: "v = JList items" "items \<noteq> []" "distinct ids"
    and scan: "scan_all validate_unknown ''unknowns'' 0 items ([], []) = Inr (ids, blockers)"
    by (auto simp: validate_unknowns_def ebind_Inr_iff split: if_splits)
  have "unknowns_read ([] @ items) (ids, blockers)"
    by (rule scan_all_extends [OF _ scan, where P = unknowns_read, OF validate_unknown_reads]) (simp_all add: unknowns_read_def)
  with v show ?thesis by (simp add: unknowns_read_def)
qed

lemma validate_risk_assumption_Inr:
  assumes "validate_risk_assumption place v ids = Inr ids'"
  shows "ids' = ids @ [text_in ''id'' v] \<and> of_field ''status'' v = JStr ''OPEN_REVIEW_REQUIRED''"
proof -
  from assms obtain item rid where "v = JObj item" "map_of item ''id'' = Some (JStr rid)"
    "map_of item ''status'' = Some (JStr ''OPEN_REVIEW_REQUIRED'')" "ids' = ids @ [rid]"
    unfolding validate_risk_assumption_def ebind_Inr_iff entry_Inr demand_Inr as_object_Inr all_of_Inr list.pred_inject remains_Inr
    by (auto dest!: identifier_value_Inr)
  then show ?thesis by (simp add: read_field)
qed

lemma validate_risk_assumptions_Inr:
  assumes "validate_risk_assumptions v = Inr ids"
  shows "ids = map (text_in ''id'') (elements v) \<and> set REQUIRED_RISK_ASSUMPTIONS \<subseteq> set ids
    \<and> (\<forall>r\<in>set (elements v). of_field ''status'' r = JStr ''OPEN_REVIEW_REQUIRED'')"
proof -
  from assms obtain items where v: "v = JList items" "filter (\<lambda>k. k \<notin> set ids) REQUIRED_RISK_ASSUMPTIONS = []"
    and scan: "scan_all validate_risk_assumption ''risk_assumptions'' 0 items [] = Inr ids"
    by (auto simp: validate_risk_assumptions_def ebind_Inr_iff Let_def)
  have "(\<lambda>seen acc. acc = map (text_in ''id'') seen \<and> (\<forall>r\<in>set seen. of_field ''status'' r = JStr ''OPEN_REVIEW_REQUIRED'')) ([] @ items) ids"
    by (rule scan_all_extends [OF _ scan]) (auto dest: validate_risk_assumption_Inr)
  with v show ?thesis by (auto simp: filter_empty_conv)
qed

section \<open>The owner, and the whole\<close>

lemma accepts_exactly_Inr:
  "accepts_exactly expected v place = Inr u \<Longrightarrow> \<exists>ids. v = JList (map JStr ids) \<and> distinct ids \<and> set ids = set expected"
  by (auto simp: accepts_exactly_def ebind_Inr_iff dest: unique_identifiers_Inr)

lemma validate_owner_acceptance_Inr:
  assumes "validate_owner_acceptance v authority_ids unknown_ids risk_ids required = Inr u"
  shows "if v = JNull then \<not> required
    else of_field ''order_capability'' v = JStr ''NOT_AUTHORIZED'' \<and> of_field ''gate_b2_decision'' v = JStr ''REMAIN_READ_ONLY_IN_PROGRESS''
      \<and> (\<exists>ids. of_field ''accepted_authority_evidence_ids'' v = JList (map JStr ids) \<and> distinct ids \<and> set ids = set authority_ids)
      \<and> (\<exists>ids. of_field ''accepted_unknown_ids'' v = JList (map JStr ids) \<and> distinct ids \<and> set ids = set unknown_ids)
      \<and> (\<exists>ids. of_field ''accepted_risk_assumption_ids'' v = JList (map JStr ids) \<and> distinct ids \<and> set ids = set risk_ids)"
proof (cases "v = JNull")
  case False
  with assms obtain owner where "v = JObj owner"
    "list_all (\<lambda>(k, e). entry owner ''owner_acceptance'' k (accepts_exactly e) = Inr ())
       [(''accepted_authority_evidence_ids'', authority_ids), (''accepted_unknown_ids'', unknown_ids), (''accepted_risk_assumption_ids'', risk_ids)]"
    "map_of owner ''order_capability'' = Some (JStr ''NOT_AUTHORIZED'')"
    "map_of owner ''gate_b2_decision'' = Some (JStr ''REMAIN_READ_ONLY_IN_PROGRESS'')"
    by (auto simp: validate_owner_acceptance_def ebind_Inr_iff all_of_Inr entry_Inr)
  then show ?thesis
    using False by (force simp: entry_Inr of_field_Some dest: accepts_exactly_Inr)
qed (use assms in \<open>simp add: validate_owner_acceptance_def\<close>)

lemma run_id_of_Inr: "run_id_of v = Inr i \<Longrightarrow> int_in ''run_id'' v = i"
proof -
  assume "run_id_of v = Inr i"
  then obtain run x where "v = JObj run" "map_of run ''run_id'' = Some x" "(case x of JInt i \<Rightarrow> Inr i | _ \<Rightarrow> Inl (TypeErr x)) = Inr i"
    by (cases v) (auto simp: ebind_Inr_iff pkey_Inr)
  then show ?thesis by (cases x) (simp_all add: int_in_Some)
qed

text \<open>The checks that an accepted manifest has passed.\<close>

definition parts_ok :: "payload \<Rightarrow> bool \<Rightarrow> string \<Rightarrow> (string \<times> payload) list \<Rightarrow> int list \<Rightarrow> string list \<Rightarrow> string list
    \<Rightarrow> string list \<Rightarrow> string list \<Rightarrow> string list \<Rightarrow> bool" where
  "parts_ok p required commit by_id run_ids authority_ids failure_ids unknown_ids blockers risk_ids \<longleftrightarrow>
     validate_safety_boundary (pget p ''safety_boundary'' JNull) = Inr ()
     \<and> of_field ''commit_sha'' (pget p ''candidate'' JNull) = JStr commit \<and> HEX 40 commit
     \<and> validate_ci_runs (pget p ''ci_runs'' JNull) commit = Inr ()
     \<and> validate_evidence (pget p ''evidence'' JNull) = Inr by_id
     \<and> parse_all (\<lambda>v _. run_id_of v) ''ci_runs'' 0 (section_of p ''ci_runs'') = Inr run_ids
     \<and> validate_ci_artifacts (pget p ''ci_artifacts'' JNull) run_ids by_id = Inr ()
     \<and> validate_authority_and_failures p by_id = Inr (authority_ids, failure_ids)
     \<and> validate_unknowns (pget p ''unknowns'' JNull) = Inr (unknown_ids, blockers)
     \<and> validate_risk_assumptions (pget p ''risk_assumptions'' JNull) = Inr risk_ids
     \<and> (pget p ''owner_acceptance'' JNull = JNull \<or> blockers = [])
     \<and> validate_owner_acceptance (pget p ''owner_acceptance'' JNull) authority_ids unknown_ids risk_ids required = Inr ()"

lemma validate_candidate_Inr:
  "validate_candidate v = Inr c \<Longrightarrow> v = JObj c \<and> (\<exists>s. map_of c ''commit_sha'' = Some (JStr s) \<and> HEX 40 s)"
  by (auto simp: validate_candidate_def ebind_Inr_iff all_of_Inr entry_Inr)

lemma pget_Some: "map_of p k = Some v \<Longrightarrow> pget p k d = v"
  by (simp add: pget_def)

lemma accepted_parts:
  assumes "validate_manifest (JObj p) required = Inr u"
  shows "\<exists>commit by_id run_ids authority_ids failure_ids unknown_ids blockers risk_ids.
    parts_ok p required commit by_id run_ids authority_ids failure_ids unknown_ids blockers risk_ids"
proof -
  from assms obtain c candidate b runs commit e by_id artifacts run_list run_ids authority_ids failure_ids u unknown_ids blockers r risk_ids owner
    where "map_of p ''candidate'' = Some c" "validate_candidate c = Inr candidate"
      "map_of p ''safety_boundary'' = Some b" "validate_safety_boundary b = Inr ()"
      "map_of p ''ci_runs'' = Some runs" "map_of candidate ''commit_sha'' = Some commit"
      "validate_ci_runs runs (render commit) = Inr ()"
      "map_of p ''evidence'' = Some e" "validate_evidence e = Inr by_id"
      "map_of p ''ci_artifacts'' = Some artifacts" "runs = JList run_list"
      "parse_all (\<lambda>v _. run_id_of v) ''ci_runs'' 0 run_list = Inr run_ids"
      "validate_ci_artifacts artifacts run_ids by_id = Inr ()"
      "validate_authority_and_failures p by_id = Inr (authority_ids, failure_ids)"
      "map_of p ''unknowns'' = Some u" "validate_unknowns u = Inr (unknown_ids, blockers)"
      "map_of p ''risk_assumptions'' = Some r" "validate_risk_assumptions r = Inr risk_ids"
      "map_of p ''owner_acceptance'' = Some owner" "owner = JNull \<or> blockers = []"
      "validate_owner_acceptance owner authority_ids unknown_ids risk_ids required = Inr ()"
    by (simp add: validate_manifest_def ebind_Inr_iff pkey_Inr) blast
  moreover from this(1,2,6) obtain s where "commit = JStr s" "HEX 40 s" "of_field ''commit_sha'' c = JStr s"
    using validate_candidate_Inr [of c candidate] by (auto simp: of_field_Some)
  ultimately show ?thesis
    by (intro exI [of _ s] exI [of _ by_id] exI [of _ run_ids] exI [of _ authority_ids] exI [of _ failure_ids]
        exI [of _ unknown_ids] exI [of _ blockers] exI [of _ risk_ids]) (simp add: parts_ok_def section_of_def pget_Some)
qed

text \<open>The items of an accepted manifest, and what its ids stand for.\<close>

lemma accepted_items:
  assumes "parts_ok p required commit by_id run_ids as fs us bs rs" and "e \<in> set (section_of p ''evidence'')"
  shows "of_field ''id'' e = JStr (text_in ''id'' e) \<and> (of_field ''binding'' e = JStr ''BOUND_AUTHORITY'' \<longrightarrow> pinned e)"
    and "e' \<in> set (section_of p ''evidence'') \<Longrightarrow> text_in ''claim_key'' e = text_in ''claim_key'' e' \<Longrightarrow>
      \<not> (of_field ''verdict'' e = JStr ''PASS'' \<and> of_field ''verdict'' e' = JStr ''FAIL'')"
  using assms validate_evidence_Inr [of "pget p ''evidence'' JNull" by_id] text_in_JStr
  unfolding parts_ok_def section_of_def by blast+

lemma accepted_by_id:
  assumes "parts_ok p required commit by_id run_ids as fs us bs rs"
  shows "by_id = map (\<lambda>e. (text_in ''id'' e, object_of e)) (section_of p ''evidence'')"
    and "dget by_id eid = Some it \<Longrightarrow> \<exists>e\<in>set (section_of p ''evidence''). of_field ''id'' e = JStr eid
      \<and> (\<forall>k v. map_of it k = Some v \<longrightarrow> of_field k e = v)"
proof -
  have read: "by_id = map (\<lambda>e. (text_in ''id'' e, object_of e)) (section_of p ''evidence'')"
    "distinct (map (text_in ''id'') (section_of p ''evidence''))"
    using assms validate_evidence_Inr [of "pget p ''evidence'' JNull" by_id] by (simp_all add: parts_ok_def section_of_def)
  show "by_id = map (\<lambda>e. (text_in ''id'' e, object_of e)) (section_of p ''evidence'')" by (fact read(1))
  assume "dget by_id eid = Some it"
  then obtain e where e: "e \<in> set (section_of p ''evidence'')" "text_in ''id'' e = eid" "object_of e = it"
    using item_by_id [OF read(2)] unfolding read(1) by blast
  have "\<forall>k v. map_of it k = Some v \<longrightarrow> of_field k e = v"
    using e(3) by (simp add: of_field_def pget_def)
  with accepted_items(1) [OF assms e(1)] e(1,2) show "\<exists>e\<in>set (section_of p ''evidence''). of_field ''id'' e = JStr eid
      \<and> (\<forall>k v. map_of it k = Some v \<longrightarrow> of_field k e = v)" by auto
qed

section \<open>Decoding\<close>

fun unique_keys :: "jval \<Rightarrow> bool" where
  "unique_keys (JList xs) \<longleftrightarrow> (\<forall>x\<in>set xs. unique_keys x)"
| "unique_keys (JObj ps) \<longleftrightarrow> distinct (map fst ps) \<and> (\<forall>kv\<in>set ps. unique_keys (snd kv))"
| "unique_keys v = True"

lemma first_repeat_None: "first_repeat seen ks = None \<longleftrightarrow> distinct ks \<and> set ks \<inter> set seen = {}"
  by (induction ks arbitrary: seen) auto

lemma strict_object_Inr: "strict_object ps = Inr qs \<longleftrightarrow> qs = ps \<and> distinct (map fst ps)"
  by (auto simp: strict_object_def first_repeat_None split: option.splits)
    (metis first_repeat_None inf_bot_right list.set(1) option.distinct(1))

lemma strict_Inr:
  "strict v = Inr w \<longleftrightarrow> w = v \<and> unique_keys v"
  "strict_list xs = Inr ys \<longleftrightarrow> ys = xs \<and> (\<forall>x\<in>set xs. unique_keys x)"
  "strict_pairs ps = Inr qs \<longleftrightarrow> qs = ps \<and> (\<forall>kv\<in>set ps. unique_keys (snd kv))"
  by (induction v and xs and ps arbitrary: w and ys and qs rule: strict_strict_list_strict_pairs.induct)
    (auto simp: ebind_Inr_iff strict_object_Inr)

section \<open>Paths\<close>

text \<open>Walking down from a directory; \<open>dir\<close> is the path from the root.\<close>

fun walk :: "string list \<Rightarrow> string list \<Rightarrow> string list" where
  "walk dir [] = dir"
| "walk dir (c # cs) = walk (if c = [] \<or> c = ''.'' then dir else if c = ''..'' then butlast dir else dir @ [c]) cs"

lemma walk_down: "''..'' \<notin> set cs \<Longrightarrow> walk dir cs = dir @ filter (\<lambda>x. x \<noteq> [] \<and> x \<noteq> ''.'') cs"
  by (induction cs arbitrary: dir) auto

lemma split_on_no_sep: "sep \<notin> set acc \<Longrightarrow> \<forall>x\<in>set (split_on sep acc s). sep \<notin> set x"
proof (induction s arbitrary: acc)
  case (Cons a s)
  have "sep \<notin> set (if a = sep then [] else a # acc)" using Cons.prems by auto
  from Cons.IH [OF this] Cons.prems show ?case by (cases "a = sep") simp_all
qed simp

lemma split_on_word: "sep \<notin> set x \<Longrightarrow> split_on sep acc x = [rev acc @ x]"
  "sep \<notin> set x \<Longrightarrow> split_on sep acc (x @ sep # s) = (rev acc @ x) # split_on sep [] s"
  by (induction x arbitrary: acc) auto

lemma split_join: "xs \<noteq> [] \<Longrightarrow> \<forall>x\<in>set xs. sep \<notin> set x \<Longrightarrow> split_on sep [] (join [sep] xs) = xs"
  by (induction "[sep]" xs rule: join.induct) (auto simp: split_on_word)

lemma segments_no_slash: "x \<in> set (posix_segments s) \<Longrightarrow> CHR ''/'' \<notin> set x"
  using split_on_no_sep [of "CHR ''/''" "[]" s] by (auto simp: posix_segments_def)

end
