(* ===== verification/Evidence.thy ===== *)
theory Evidence
  imports Evidence_Facts
begin

text \<open>
  The properties of the manifests that the validator accepts: what the evidence supports, how CI is bound, what
  the owner accepts, and what decoding and paths can hide.
\<close>

text \<open>A manifest that passes.\<close>

definition demo_hash :: "nat \<Rightarrow> jval" where "demo_hash n = JStr (replicate n CHR ''a'')"

definition demo_item :: "string \<Rightarrow> string \<Rightarrow> string \<Rightarrow> jval" where
  "demo_item eid kind verdict = JObj [(''id'', JStr eid), (''claim_key'', JStr kind), (''evidence_kind'', JStr kind),
     (''binding'', JStr ''BOUND_AUTHORITY''), (''relative_path'', JStr ''roots/a.json''), (''sha256'', demo_hash 64),
     (''bytes'', JInt 7), (''captured_at_utc'', JStr ''2026-02-03T04:05:06Z''), (''capture_commit'', demo_hash 40),
     (''verdict'', JStr verdict), (''scope'', JStr ''one session''), (''sensitivity'', JStr ''REDACTED'')]"

definition demo_candidate :: jval where
  "demo_candidate = JObj [(''commit_sha'', demo_hash 40), (''tree_sha'', demo_hash 40), (''source_tree_sha256'', demo_hash 64),
     (''config_tree_sha256'', demo_hash 64), (''dependency_lock_sha256'', demo_hash 64)]"

definition demo_run :: "int \<Rightarrow> jval" where
  "demo_run n = JObj [(''provider'', JStr ''GITHUB_ACTIONS''), (''workflow'', JStr ''ci''), (''run_id'', JInt n), (''run_attempt'', JInt 1),
     (''commit_sha'', demo_hash 40), (''conclusion'', JStr ''SUCCESS'')]"

definition demo_artifact :: jval where
  "demo_artifact = JObj [(''run_id'', JInt 1), (''job_name'', JStr ''test''), (''artifact_id'', JInt 5), (''artifact_name'', demo_hash 40),
     (''archive_sha256'', demo_hash 64), (''checkout_identity_member_path'', JStr ''identity.json''),
     (''evidence_id'', JStr ''E3''), (''evidence_member_path'', JStr ''out/report.json'')]"

definition demo_owner :: jval where
  "demo_owner = JObj [(''owner'', JStr ''owner''), (''accepted_at_utc'', JStr ''2026-02-04T00:00:00Z''),
     (''decision'', JStr ''ACCEPT_EVIDENCE_SCOPE_AND_RESIDUAL_RISK''), (''gate_b2_decision'', JStr ''REMAIN_READ_ONLY_IN_PROGRESS''),
     (''order_capability'', JStr ''NOT_AUTHORIZED''), (''accepted_authority_evidence_ids'', JList [JStr ''E2'', JStr ''E1'']),
     (''accepted_unknown_ids'', JList [JStr ''U1'']),
     (''accepted_risk_assumption_ids'', JList [JStr ''D1_EVENT_DRIVEN_30S'', JStr ''D2_WRITER_LAG_ROOT_CAUSE''])]"

definition demo_risk :: "string \<Rightarrow> jval" where
  "demo_risk n = JObj [(''id'', JStr n), (''statement'', JStr ''s''), (''failure_mode'', JStr ''f''), (''mitigation'', JStr ''m''),
     (''status'', JStr ''OPEN_REVIEW_REQUIRED''), (''blocks_b2_read_only_freeze'', JBool False),
     (''required_review_before'', JStr ''PRODUCTION_OR_ORDER_CAPABLE_PAPER_LIVE'')]"

definition sample_manifest :: payload where
  "sample_manifest = [(''schema_version'', JInt 2), (''freeze_kind'', JStr ''B2_READ_ONLY_EVIDENCE''), (''candidate'', demo_candidate),
     (''safety_boundary'', JObj [(''gate_b2'', JStr ''READ_ONLY_IN_PROGRESS''), (''order_authorization'', JStr ''NONE''),
        (''trading_adapter'', JStr ''NOT_IMPLEMENTED'')]),
     (''ci_runs'', JList [demo_run 1]), (''ci_artifacts'', JList [demo_artifact]),
     (''evidence'', JList [demo_item ''E1'' ''FULL_RTH_HEALTH'' ''PASS'', demo_item ''E2'' ''HISTORICAL_FAILURE'' ''FAIL'',
        demo_item ''E3'' ''CI_ARTIFACT'' ''PASS'']),
     (''authority_evidence_ids'', JList [JStr ''E1'', JStr ''E2'']), (''required_failures'', JList [JStr ''E2'']),
     (''unknowns'', JList [JObj [(''id'', JStr ''U1''), (''statement'', JStr ''s''), (''status'', JStr ''OPEN''),
        (''blocks_b2_read_only_freeze'', JBool False), (''review_before'', JStr ''NONE'')]]),
     (''risk_assumptions'', JList [demo_risk ''D1_EVENT_DRIVEN_30S'', demo_risk ''D2_WRITER_LAG_ROOT_CAUSE'']),
     (''owner_acceptance'', demo_owner)]"


definition demo_items :: "jval list" where
  "demo_items = [demo_item ''E1'' ''FULL_RTH_HEALTH'' ''PASS'', demo_item ''E2'' ''HISTORICAL_FAILURE'' ''FAIL'', demo_item ''E3'' ''CI_ARTIFACT'' ''PASS'']"

definition demo_index :: "(string \<times> payload) list" where
  "demo_index = map (\<lambda>e. (text_in ''id'' e, object_of e)) demo_items"

lemma demo_parts:
  "exact_keys sample_manifest TOP_LEVEL_KEYS ''manifest'' = Inr ()"
  "validate_candidate demo_candidate = Inr (object_of demo_candidate)"
  "validate_ci_runs (JList [demo_run 1]) (replicate 40 CHR ''a'') = Inr ()"
  "validate_unknowns (pget sample_manifest ''unknowns'' JNull) = Inr ([''U1''], [])"
  by code_simp+

lemma demo_evidence: "validate_evidence (JList demo_items) = Inr demo_index"
  by code_simp

lemma demo_artifacts: "validate_ci_artifacts (JList [demo_artifact]) [1] demo_index = Inr ()"
  by code_simp

lemma demo_authority: "validate_authority_and_failures sample_manifest demo_index = Inr ([''E1'', ''E2''], [''E2''])"
  by code_simp

lemma demo_risks: "validate_risk_assumptions (JList [demo_risk ''D1_EVENT_DRIVEN_30S'', demo_risk ''D2_WRITER_LAG_ROOT_CAUSE''])
    = Inr [''D1_EVENT_DRIVEN_30S'', ''D2_WRITER_LAG_ROOT_CAUSE'']"
  by code_simp

lemma demo_acceptance: "validate_owner_acceptance demo_owner [''E1'', ''E2''] [''U1'']
    [''D1_EVENT_DRIVEN_30S'', ''D2_WRITER_LAG_ROOT_CAUSE''] required = Inr ()"
  by code_simp

lemma demo_entries:
  "pkey sample_manifest ''schema_version'' = Inr (JInt 2)" "pkey sample_manifest ''freeze_kind'' = Inr (JStr FREEZE_KIND)"
  "pkey sample_manifest ''candidate'' = Inr demo_candidate" "pkey sample_manifest ''ci_runs'' = Inr (JList [demo_run 1])"
  "pkey sample_manifest ''ci_artifacts'' = Inr (JList [demo_artifact])" "pkey sample_manifest ''evidence'' = Inr (JList demo_items)"
  "pkey sample_manifest ''unknowns'' = Inr (pget sample_manifest ''unknowns'' JNull)"
  "pkey sample_manifest ''risk_assumptions'' = Inr (JList [demo_risk ''D1_EVENT_DRIVEN_30S'', demo_risk ''D2_WRITER_LAG_ROOT_CAUSE''])"
  "pkey sample_manifest ''owner_acceptance'' = Inr demo_owner"
  "ebind (pkey sample_manifest ''safety_boundary'') validate_safety_boundary = Inr ()"
  "pkey (object_of demo_candidate) ''commit_sha'' = Inr (JStr (replicate 40 CHR ''a''))"
  "run_id_of (demo_run n) = Inr n" "demo_owner \<noteq> JNull"
  by (simp_all add: pkey_def sample_manifest_def demo_items_def FREEZE_KIND_def demo_candidate_def demo_hash_def demo_run_def demo_owner_def
      validate_safety_boundary_def SAFETY_BOUNDARY_KEYS_def exact_keys_def entry_def must_remain_def remains_def insert_commute Let_def
      as_object_def demand_def)

lemma demo_valid: "validate_manifest (JObj sample_manifest) required = Inr ()"
proof -
  from demo_entries(10) obtain b where b: "pkey sample_manifest ''safety_boundary'' = Inr b" "validate_safety_boundary b = Inr ()"
    by (auto simp: ebind_Inr_iff)
  show ?thesis
    by (simp add: validate_manifest_def as_object_def as_array_def demo_parts demo_evidence demo_artifacts demo_authority demo_risks
        demo_acceptance demo_entries b is_version_def SCHEMA_VERSION_def demand_def)
qed

section \<open>Decoding and paths\<close>

text \<open>
  Nothing is hidden in a manifest by writing a key twice: a document is accepted by the decoder exactly when
  it is an object in which no object, at any depth, repeats a key; and then it is handed on as written.
\<close>

theorem decoding_hides_nothing:
  "loads_manifest (Inr raw) = Inr p \<longleftrightarrow> raw = JObj p \<and> unique_keys raw"
  by (cases raw) (auto simp: loads_manifest_def ebind_Inr_iff strict_Inr simp del: strict.simps)

text \<open>
  a path of a manifest stays where it is put: from any directory its components lead down to exactly its
  segments, never up; and it has one spelling, its segments joined, or is the single dot.
\<close>

theorem path_stays_inside:
  assumes "relative_path v place = Inr s"
  shows "walk dir (split_on CHR ''/'' [] s) = dir @ posix_segments s
    \<and> (s = ''.'' \<or> split_on CHR ''/'' [] s = posix_segments s \<and> posix_segments s \<noteq> [])"
proof
  note path = relative_path_Inr [OF assms]
  then have "''..'' \<notin> set (split_on CHR ''/'' [] s)"
    by (auto simp: posix_segments_def)
  then show "walk dir (split_on CHR ''/'' [] s) = dir @ posix_segments s"
    by (simp add: walk_down posix_segments_def)
  show "s = ''.'' \<or> split_on CHR ''/'' [] s = posix_segments s \<and> posix_segments s \<noteq> []"
  proof (cases "posix_segments s = []")
    case True
    with path show ?thesis by (simp add: as_posix_def posix_parts_def split: if_splits)
  next
    case False
    with path have "as_posix s = join ''/'' (posix_segments s)"
      by (simp add: as_posix_def posix_parts_def)
    with path have "s = join ''/'' (posix_segments s)" by simp
    with False split_join [of "posix_segments s" "CHR ''/''"] segments_no_slash [of _ s] show ?thesis by metis
  qed
qed

theorem path_stays_inside_witness:
  "walk [''srv'', ''roots''] (split_on CHR ''/'' [] ''a/b.json'') = [''srv'', ''roots'', ''a'', ''b.json'']"
proof -
  have "relative_path (JStr ''a/b.json'') ''p'' = Inr ''a/b.json''" by code_simp
  moreover have "posix_segments ''a/b.json'' = [''a'', ''b.json'']" by code_simp
  ultimately show ?thesis using path_stays_inside [of "JStr ''a/b.json''"] by fastforce
qed

text \<open>The dot passes, although the message of the check says that it does not.\<close>

lemma dot_is_accepted: "relative_path (JStr ''.'') ''p'' = Inr ''.''"
  by code_simp

section \<open>What an accepted manifest says\<close>

text \<open>
  C27: an accepted manifest rests on evidence. Every authority it names is one of its items, bound by hash, size
  and commit; among them a full session that passed, and a historical failure that is kept as failed; and no
  claim of its evidence has both passed and failed.
\<close>

theorem evidence_supports_the_freeze:
  assumes "validate_manifest (JObj p) required = Inr ()"
  shows "(\<forall>a\<in>set (section_of p ''authority_evidence_ids''). \<exists>e\<in>set (section_of p ''evidence''). of_field ''id'' e = a \<and> pinned e)
    \<and> (\<exists>e\<in>set (section_of p ''evidence''). of_field ''id'' e \<in> set (section_of p ''authority_evidence_ids'')
         \<and> of_field ''evidence_kind'' e = JStr ''FULL_RTH_HEALTH'' \<and> of_field ''verdict'' e = JStr ''PASS'')
    \<and> (\<exists>e\<in>set (section_of p ''evidence''). of_field ''id'' e \<in> set (section_of p ''required_failures'') \<inter> set (section_of p ''authority_evidence_ids'')
         \<and> of_field ''evidence_kind'' e = JStr ''HISTORICAL_FAILURE'' \<and> of_field ''verdict'' e = JStr ''FAIL'')
    \<and> (\<forall>e\<in>set (section_of p ''evidence''). \<forall>e'\<in>set (section_of p ''evidence''). text_in ''claim_key'' e = text_in ''claim_key'' e' \<longrightarrow>
         \<not> (of_field ''verdict'' e = JStr ''PASS'' \<and> of_field ''verdict'' e' = JStr ''FAIL''))"
proof -
  from accepted_parts [OF assms] obtain commit by_id run_ids as fs us bs rs
    where ok: "parts_ok p required commit by_id run_ids as fs us bs rs" by blast
  note item = accepted_items [OF ok] and found = accepted_by_id(2) [OF ok]
  from ok have "validate_authority_and_failures p by_id = Inr (as, fs)" by (simp add: parts_ok_def)
  note af = validate_authority_and_failures_Inr [OF this]
  then have lists: "section_of p ''authority_evidence_ids'' = map JStr as" "section_of p ''required_failures'' = map JStr fs"
    by (simp_all add: section_of_def pget_Some)
  have pins: "\<exists>e\<in>set (section_of p ''evidence''). of_field ''id'' e = JStr a \<and> pinned e" if "a \<in> set as" for a
  proof -
    from af that obtain it where "dget by_id a = Some it" "map_of it ''binding'' = Some (JStr ''BOUND_AUTHORITY'')" by blast
    with found [OF this(1)] item(1) show ?thesis by blast
  qed
  from af obtain a it where it: "a \<in> set as" "dget by_id a = Some it" "map_of it ''evidence_kind'' = Some (JStr ''FULL_RTH_HEALTH'')"
    "map_of it ''verdict'' = Some (JStr ''PASS'')" by blast
  from af obtain f it' where it': "f \<in> set fs" "f \<in> set as" "dget by_id f = Some it'"
    "map_of it' ''evidence_kind'' = Some (JStr ''HISTORICAL_FAILURE'')" "map_of it' ''verdict'' = Some (JStr ''FAIL'')"
    by (metis option.inject)
  show ?thesis
    unfolding lists
  proof (intro conjI)
    show "\<exists>e\<in>set (section_of p ''evidence''). of_field ''id'' e \<in> set (map JStr as)
      \<and> of_field ''evidence_kind'' e = JStr ''FULL_RTH_HEALTH'' \<and> of_field ''verdict'' e = JStr ''PASS''"
      using found [OF it(2)] it by auto
    show "\<exists>e\<in>set (section_of p ''evidence''). of_field ''id'' e \<in> set (map JStr fs) \<inter> set (map JStr as)
      \<and> of_field ''evidence_kind'' e = JStr ''HISTORICAL_FAILURE'' \<and> of_field ''verdict'' e = JStr ''FAIL''"
      using found [OF it'(3)] it' by auto
  qed (use pins item(2) in auto)
qed

theorem evidence_supports_the_freeze_witness:
  "\<exists>e\<in>set (section_of sample_manifest ''evidence''). of_field ''id'' e \<in> set (section_of sample_manifest ''authority_evidence_ids'')
     \<and> of_field ''evidence_kind'' e = JStr ''FULL_RTH_HEALTH'' \<and> of_field ''verdict'' e = JStr ''PASS''"
  using evidence_supports_the_freeze [OF demo_valid] by blast

text \<open>
  CI is bound to the candidate. In an accepted manifest every CI run succeeded on the candidate's commit, every
  artifact belongs to one of the runs, no artifact and no job is bound twice, and the artifacts that carry
  evidence correspond one to one to the bound CI items.
\<close>

theorem ci_is_bound_once:
  assumes "validate_manifest (JObj p) required = Inr ()"
  shows "(\<exists>commit. HEX 40 commit \<and> of_field ''commit_sha'' (pget p ''candidate'' JNull) = JStr commit
       \<and> (\<forall>r\<in>set (section_of p ''ci_runs''). run_on commit r))
    \<and> (\<forall>a\<in>set (section_of p ''ci_artifacts''). \<exists>r\<in>set (section_of p ''ci_runs''). int_in ''run_id'' a = int_in ''run_id'' r)
    \<and> distinct (map (int_in ''artifact_id'') (section_of p ''ci_artifacts''))
    \<and> distinct (map (\<lambda>a. (int_in ''run_id'' a, text_in ''job_name'' a)) (section_of p ''ci_artifacts''))
    \<and> distinct (bound_ids (section_of p ''ci_artifacts''))
    \<and> set (bound_ids (section_of p ''ci_artifacts''))
        = text_in ''id'' ` {e \<in> set (section_of p ''evidence''). is_bound_ci (object_of e)}"
proof -
  from accepted_parts [OF assms] obtain commit by_id run_ids as fs us bs rs
    where ok: "parts_ok p required commit by_id run_ids as fs us bs rs" by blast
  note by_id = accepted_by_id(1) [OF ok]
  have "list_all2 (\<lambda>v i. run_id_of v = Inr i) (section_of p ''ci_runs'') run_ids"
    using ok parse_all_Inr [of "\<lambda>v _. run_id_of v" "''ci_runs''" 0 "section_of p ''ci_runs''" run_ids] by (simp add: parts_ok_def)
  then have ids: "\<forall>i\<in>set run_ids. \<exists>r\<in>set (section_of p ''ci_runs''). i = int_in ''run_id'' r"
    by (induction rule: list_all2_induct) (auto dest: run_id_of_Inr)
  have "validate_ci_artifacts (pget p ''ci_artifacts'' JNull) run_ids by_id = Inr ()" "validate_ci_runs (pget p ''ci_runs'' JNull) commit = Inr ()"
    using ok by (simp_all add: parts_ok_def)
  note artifacts = validate_ci_artifacts_Inr [OF this(1), folded section_of_def] and runs = validate_ci_runs_Inr [OF this(2), folded section_of_def]
  have "fst ` {(eid, e) \<in> set by_id. is_bound_ci e} = text_in ''id'' ` {e \<in> set (section_of p ''evidence''). is_bound_ci (object_of e)}"
    by (force simp: by_id)
  moreover have "HEX 40 commit \<and> of_field ''commit_sha'' (pget p ''candidate'' JNull) = JStr commit"
    using ok by (simp add: parts_ok_def)
  moreover have "\<forall>a\<in>set (section_of p ''ci_artifacts''). \<exists>r\<in>set (section_of p ''ci_runs''). int_in ''run_id'' a = int_in ''run_id'' r"
    using artifacts ids by blast
  ultimately show ?thesis
    using artifacts runs by blast
qed

theorem ci_is_bound_once_witness:
  "set (bound_ids (section_of sample_manifest ''ci_artifacts'')) = {''E3''}"
proof -
  have "{e \<in> set (section_of sample_manifest ''evidence''). is_bound_ci (object_of e)} = {demo_item ''E3'' ''CI_ARTIFACT'' ''PASS''}"
    by (auto simp: section_of_def sample_manifest_def demo_item_def is_bound_ci_def)
  moreover have "text_in ''id'' (demo_item ''E3'' ''CI_ARTIFACT'' ''PASS'') = ''E3''"
    by (simp add: demo_item_def text_in_def of_field_def)
  ultimately show ?thesis using ci_is_bound_once [OF demo_valid] by simp
qed

text \<open>
  the owner accepts exactly what is there. When a manifest with an acceptance passes, no unknown of it blocks
  the freeze; the accepted ids are those of its authority, of all its unknowns and of all its risk assumptions,
  the two required ones among them, all still open; and the acceptance authorises no order.
\<close>

theorem owner_accepts_what_is_there:
  assumes "validate_manifest (JObj p) required = Inr ()" and "owner = pget p ''owner_acceptance'' JNull" and "owner \<noteq> JNull"
  shows "list_all (\<lambda>u. \<not> blocking u) (section_of p ''unknowns'')
    \<and> (\<exists>ids. of_field ''accepted_authority_evidence_ids'' owner = JList ids \<and> set ids = set (section_of p ''authority_evidence_ids''))
    \<and> (\<exists>ids. of_field ''accepted_unknown_ids'' owner = JList (map JStr ids) \<and> set ids = text_in ''id'' ` set (section_of p ''unknowns''))
    \<and> (\<exists>ids. of_field ''accepted_risk_assumption_ids'' owner = JList (map JStr ids)
         \<and> set ids = text_in ''id'' ` set (section_of p ''risk_assumptions'') \<and> set REQUIRED_RISK_ASSUMPTIONS \<subseteq> set ids)
    \<and> list_all (\<lambda>r. of_field ''status'' r = JStr ''OPEN_REVIEW_REQUIRED'') (section_of p ''risk_assumptions'')
    \<and> of_field ''order_capability'' owner = JStr ''NOT_AUTHORIZED''"
proof -
  from accepted_parts [OF assms(1)] obtain commit by_id run_ids as fs us bs rs
    where ok: "parts_ok p required commit by_id run_ids as fs us bs rs" by blast
  then have "validate_unknowns (pget p ''unknowns'' JNull) = Inr (us, bs)" "bs = []"
    "validate_risk_assumptions (pget p ''risk_assumptions'' JNull) = Inr rs"
    "validate_owner_acceptance owner as us rs required = Inr ()" "validate_authority_and_failures p by_id = Inr (as, fs)"
    using assms(2,3) by (auto simp: parts_ok_def)
  note unknowns = validate_unknowns_Inr [OF this(1)] \<open>bs = []\<close> and risks = validate_risk_assumptions_Inr [OF this(3)]
    and accepted = validate_owner_acceptance_Inr [OF this(4)] and authority = validate_authority_and_failures_Inr [OF this(5)]
  have "list_all (\<lambda>u. \<not> blocking u) (section_of p ''unknowns'')"
    using unknowns by (simp add: section_of_def list_all_iff filter_empty_conv)
  moreover have "section_of p ''authority_evidence_ids'' = map JStr as"
    using authority by (simp add: section_of_def pget_Some)
  moreover from accepted assms(3) obtain i1 i2 i3 where
    "of_field ''accepted_authority_evidence_ids'' owner = JList (map JStr i1)" "set i1 = set as"
    "of_field ''accepted_unknown_ids'' owner = JList (map JStr i2)" "set i2 = set us"
    "of_field ''accepted_risk_assumption_ids'' owner = JList (map JStr i3)" "set i3 = set rs"
    by auto
  moreover have "set us = text_in ''id'' ` set (section_of p ''unknowns'')" "set rs = text_in ''id'' ` set (section_of p ''risk_assumptions'')"
    "list_all (\<lambda>r. of_field ''status'' r = JStr ''OPEN_REVIEW_REQUIRED'') (section_of p ''risk_assumptions'')"
    "set REQUIRED_RISK_ASSUMPTIONS \<subseteq> set rs"
    using unknowns risks by (auto simp: section_of_def list_all_iff)
  moreover have "of_field ''order_capability'' owner = JStr ''NOT_AUTHORIZED''"
    using accepted assms(3) by simp
  ultimately show ?thesis by (auto intro!: exI)
qed

theorem owner_accepts_what_is_there_witness:
  "\<exists>ids. of_field ''accepted_authority_evidence_ids'' demo_owner = JList ids
     \<and> set ids = set (section_of sample_manifest ''authority_evidence_ids'')"
proof -
  have "demo_owner = pget sample_manifest ''owner_acceptance'' JNull"
    by (simp add: sample_manifest_def)
  from owner_accepts_what_is_there [OF demo_valid this demo_entries(13)] show ?thesis by blast
qed

end
