(* ===== verification/Evidence_Type.thy ===== *)
theory Evidence_Type
  imports Evidence_Facts
begin

text \<open>
  Type soundness of the validator: what it has checked makes every later access succeed, so on any JSON value it
  either accepts or refuses; no lookup and no operation of it fails in another way.
\<close>

definition refuses :: "exn + 'a \<Rightarrow> bool" where
  "refuses r \<longleftrightarrow> (\<forall>e. r = Inl e \<longrightarrow> (\<exists>d. e = ValueErr d))"

lemma refuses_simps [simp]: "refuses (Inr a)" "refuses (fail_at place m)" "refuses (demand ok place m)"
  by (simp_all add: refuses_def fail_at_def demand_def)

lemma refuses_ebind: "refuses r \<Longrightarrow> (\<And>a. r = Inr a \<Longrightarrow> refuses (f a)) \<Longrightarrow> refuses (ebind r f)"
  by (cases r) (auto simp: refuses_def)

lemma refuses_drop [simp]: "refuses (drop_value r) \<longleftrightarrow> refuses r"
  by (cases r) (simp_all add: refuses_def drop_value_def)

lemma refuses_conforms: "refuses (f v place) \<Longrightarrow> refuses (conforms f v place)"
  by (simp add: conforms_def)

lemma refuses_unless_null: "refuses (f v place) \<Longrightarrow> refuses (unless_null f v place)"
  by (simp add: unless_null_def)

lemma refuses_if: "(b \<Longrightarrow> refuses x) \<Longrightarrow> (\<not> b \<Longrightarrow> refuses y) \<Longrightarrow> refuses (if b then x else y)"
  by simp

lemma refuses_all_of: "refuses (all_of [])" "refuses c \<Longrightarrow> (c = Inr () \<Longrightarrow> refuses (all_of cs)) \<Longrightarrow> refuses (all_of (c # cs))"
  by (simp_all add: refuses_ebind)

lemma refuses_pkey: "map_of p k \<noteq> None \<Longrightarrow> refuses (pkey p k)"
  by (auto simp: pkey_def)

lemma key_present: "exact_keys p expected place = Inr u \<Longrightarrow> k \<in> set expected \<Longrightarrow> map_of p k \<noteq> None"
  by (simp add: exact_keys_def Let_def map_of_eq_None_iff)

lemma key_there: "exact_keys p expected place = Inr u \<Longrightarrow> k \<in> set expected \<Longrightarrow> \<exists>v. map_of p k = Some v"
  using key_present by fastforce

lemma refuses_entry: "map_of p k \<noteq> None \<Longrightarrow> (\<And>v. refuses (f v (place @ ''.'' @ k))) \<Longrightarrow> refuses (entry p place k f)"
  by (simp add: entry_def refuses_ebind refuses_pkey)

lemma refuses_values [simp]:
  "refuses (as_object v place)" "refuses (as_array v place)" "refuses (exact_keys p ks place)" "refuses (text_value n v place)"
  "refuses (hex_value n v place)" "refuses (positive_int v place)" "refuses (bool_value v place)" "refuses (remains s m v place)"
  by (cases v; simp add: as_object_def as_array_def exact_keys_def Let_def text_value_def hex_value_def positive_int_def bool_value_def
      remains_def)+

lemma refuses_texts [simp]:
  "refuses (enum_value allowed v place)" "refuses (identifier_value v place)" "refuses (utc_timestamp v place)" "refuses (relative_path v place)"
  "refuses (must_remain s v place)"
  unfolding enum_value_def identifier_value_def utc_timestamp_def relative_path_def must_remain_def
  by (rule refuses_ebind, simp, simp)+ simp

lemma refuses_parse_all: "(\<And>v place. v \<in> set vs \<Longrightarrow> refuses (f v place)) \<Longrightarrow> refuses (parse_all f place n vs)"
  by (induction vs arbitrary: n) (auto intro!: refuses_ebind)

lemma refuses_scan_all: "(\<And>place v acc. refuses (f place v acc)) \<Longrightarrow> refuses (scan_all f place n vs acc)"
  by (induction vs arbitrary: n acc) (auto intro!: refuses_ebind)

lemma refuses_unique_identifiers [simp]: "refuses (unique_identifiers v place)"
  by (auto simp: unique_identifiers_def intro!: refuses_ebind refuses_parse_all)

lemmas refusing = refuses_ebind refuses_if refuses_all_of refuses_entry refuses_pkey refuses_conforms refuses_unless_null refuses_scan_all

section \<open>The parts\<close>

lemma refuses_candidate: "refuses (validate_candidate v)"
  unfolding validate_candidate_def
  by (intro refusing) (simp_all add: key_present CANDIDATE_KEYS_def)

lemma refuses_boundary: "refuses (validate_safety_boundary v)"
  unfolding validate_safety_boundary_def
  by (intro refusing) (simp_all add: key_present SAFETY_BOUNDARY_KEYS_def)

lemma refuses_ci_run: "refuses (validate_ci_run commit place v seen)"
  unfolding validate_ci_run_def Let_def
  by (intro refusing) (simp_all add: key_present CI_KEYS_def)

lemma refuses_ci_runs: "refuses (validate_ci_runs v commit)"
  unfolding validate_ci_runs_def
  by (intro refusing) (simp_all add: refuses_scan_all refuses_ci_run)

lemma refuses_binding: "exact_keys item EVIDENCE_KEYS pl = Inr u \<Longrightarrow> refuses (validate_binding item place binding)"
  unfolding validate_binding_def
  by (intro refusing) (simp_all add: key_present EVIDENCE_KEYS_def)

lemma refuses_item: "refuses (validate_item place v acc)"
  unfolding validate_item_def
  by (intro refusing) (simp_all add: refuses_binding, simp_all add: key_there EVIDENCE_KEYS_def)

lemma refuses_evidence: "refuses (validate_evidence v)"
  unfolding validate_evidence_def
  by (intro refusing) (simp_all add: refuses_scan_all refuses_item split: prod.splits)

lemma refuses_artifact: "refuses (validate_ci_artifact run_ids by_id place v seen)"
  unfolding validate_ci_artifact_def validate_evidence_binding_def Let_def
  by (intro refusing) (simp_all add: key_present CI_ARTIFACT_KEYS_def)

lemma refuses_artifacts: "refuses (validate_ci_artifacts v run_ids by_id)"
  unfolding validate_ci_artifacts_def
  by (intro refusing) (simp_all add: refuses_artifact)

lemma refuses_unknowns: "refuses (validate_unknowns v)"
proof -
  have "refuses (validate_unknown place raw acc)" for place raw acc
    unfolding validate_unknown_def by (intro refusing) (simp_all add: key_present UNKNOWN_KEYS_def)
  then show ?thesis
    unfolding validate_unknowns_def by (intro refusing) (simp_all add: refuses_scan_all refuses_ebind split: prod.splits)
qed

lemma refuses_risks: "refuses (validate_risk_assumptions v)"
proof -
  have "refuses (validate_risk_assumption place raw acc)" for place raw acc
    unfolding validate_risk_assumption_def by (intro refusing) (simp_all add: key_present RISK_KEYS_def)
  then show ?thesis
    unfolding validate_risk_assumptions_def Let_def by (intro refusing) simp_all
qed

lemma refuses_owner: "refuses (validate_owner_acceptance v as us rs required)"
  unfolding validate_owner_acceptance_def accepts_exactly_def
  by (intro refusing) (simp_all add: key_present OWNER_KEYS_def refuses_ebind)

text \<open>Items that passed have all their fields, so reading one of them succeeds.\<close>

lemma refuses_any_item:
  "(\<And>eid. eid \<in> set eids \<Longrightarrow> \<exists>item. dget by_id eid = Some item \<and> refuses (f item)) \<Longrightarrow> refuses (any_item f by_id eids)"
  by (induction eids) (fastforce intro!: refuses_ebind)+

lemma refuses_map_all_of: "(\<And>x. x \<in> set xs \<Longrightarrow> refuses (f x)) \<Longrightarrow> refuses (all_of (map f xs))"
  by (induction xs) (auto intro!: refuses_ebind)

lemma refuses_field_is: "map_of item k \<noteq> None \<Longrightarrow> refuses (field_is item k s)"
  by (simp add: field_is_def refuses_ebind refuses_pkey)

lemma refuses_authority:
  assumes items: "\<And>eid item. dget by_id eid = Some item \<Longrightarrow> \<forall>k\<in>set EVIDENCE_KEYS. map_of item k \<noteq> None"
    and keys: "map_of p ''authority_evidence_ids'' \<noteq> None" "map_of p ''required_failures'' \<noteq> None"
  shows "refuses (validate_authority_and_failures p by_id)"
proof -
  have field: "refuses (field_is item k s)" if "dget by_id eid = Some item" "k \<in> set EVIDENCE_KEYS" for eid item k s
    using items [OF that(1)] that(2) by (simp add: refuses_field_is)
  have authority: "refuses (validate_authority by_id eid)" for eid
    by (auto simp: validate_authority_def EVIDENCE_KEYS_def intro!: refuses_ebind field split: option.splits)
  have failure: "refuses (validate_failure as by_id eid)" for as eid
    by (auto simp: validate_failure_def EVIDENCE_KEYS_def intro!: refuses_ebind field split: option.splits)
  have historical: "refuses (any_item (\<lambda>item. field_is item ''evidence_kind'' s) by_id eids)"
    if "all_of (map (validate_failure as by_id) eids) = Inr u" for eids s u and as :: "string list"
  proof (rule refuses_any_item)
    fix eid assume "eid \<in> set eids"
    with that have "validate_failure as by_id eid = Inr ()" by (simp add: all_of_Inr list_all_iff)
    then obtain item where "dget by_id eid = Some item" using validate_failure_Inr by blast
    then show "\<exists>item. dget by_id eid = Some item \<and> refuses (field_is item ''evidence_kind'' s)"
      using field by (auto simp: EVIDENCE_KEYS_def)
  qed
  have healthy: "refuses (any_item health_pass by_id eids)"
    if "all_of (map (validate_authority by_id) eids) = Inr u" for eids u
  proof (rule refuses_any_item)
    fix eid assume "eid \<in> set eids"
    with that have "validate_authority by_id eid = Inr ()" by (simp add: all_of_Inr list_all_iff)
    then obtain item where "dget by_id eid = Some item" using validate_authority_Inr by blast
    then show "\<exists>item. dget by_id eid = Some item \<and> refuses (health_pass item)"
      using field by (auto simp: health_pass_def EVIDENCE_KEYS_def intro!: refuses_ebind)
  qed
  show ?thesis
    unfolding validate_authority_and_failures_def
    by (intro refuses_ebind refuses_pkey) (simp_all add: keys refuses_map_all_of authority failure historical healthy)
qed

lemma refuses_run_ids:
  assumes "validate_ci_runs (JList runs) commit = Inr u"
  shows "refuses (parse_all (\<lambda>v _. run_id_of v) place n runs)"
proof (rule refuses_parse_all)
  have scan: "\<exists>acc. scan_all (validate_ci_run commit) ''ci_runs'' 0 runs [] = Inr acc"
    using assms by (auto simp: validate_ci_runs_def ebind_Inr_iff split: if_splits)
  have "(\<lambda>seen acc. \<forall>r\<in>set seen. \<exists>i. run_id_of r = Inr i) ([] @ runs) acc"
    if "scan_all (validate_ci_run commit) ''ci_runs'' 0 runs [] = Inr acc" for acc
  proof (rule scan_all_extends [OF _ that])
    fix pl v seen and acc acc' :: "ci_identity list"
    assume "validate_ci_run commit pl v acc = Inr acc'" "\<forall>r\<in>set seen. \<exists>i. run_id_of r = Inr i"
    moreover from this(1) obtain run i where "v = JObj run" "map_of run ''run_id'' = Some (JInt i)"
      unfolding validate_ci_run_def ebind_Inr_iff entry_Inr as_object_Inr by auto
    ultimately show "\<forall>r\<in>set (seen @ [v]). \<exists>i. run_id_of r = Inr i"
      by (auto simp: pkey_def)
  qed simp
  with scan show "v \<in> set runs \<Longrightarrow> refuses (run_id_of v)" for v by fastforce
qed

section \<open>The whole\<close>

lemma evidence_fields:
  assumes "validate_evidence v = Inr by_id" and "dget by_id eid = Some item"
  shows "\<forall>k\<in>set EVIDENCE_KEYS. map_of item k \<noteq> None"
proof -
  note read = validate_evidence_Inr [OF assms(1)]
  then have "dget (map (\<lambda>e. (text_in ''id'' e, object_of e)) (elements v)) eid = Some item"
    using assms(2) by simp
  with read item_by_id [of "elements v" eid item] show ?thesis by blast
qed

text \<open>
  C26: the validator is total. On every JSON value, whatever its keys and types, it accepts or it raises its own
  refusal: no KeyError, no TypeError, no comparison that fails, on any path.
\<close>

theorem validator_accepts_or_refuses:
  "(\<exists>d. validate_manifest v required = Inl (ValueErr d)) \<or> validate_manifest v required = Inr ()"
proof -
  have "refuses (validate_manifest v required)"
    unfolding validate_manifest_def
    by (intro refuses_ebind refuses_pkey)
      (auto simp: key_present key_there TOP_LEVEL_KEYS_def refuses_candidate refuses_boundary refuses_ci_runs refuses_evidence refuses_artifacts
        refuses_unknowns refuses_risks refuses_owner refuses_run_ids dest!: validate_candidate_Inr
        intro!: refuses_authority refuses_ebind refuses_pkey dest: evidence_fields)
  then show ?thesis
    by (cases "validate_manifest v required") (auto simp: refuses_def)
qed

end
