(* ===== verification/Evidence_Material.thy ===== *)
theory Evidence_Material
  imports Evidence_Manifest Platform_Gate Sidecar
begin

text \<open>
  \<open>b2_evidence_material.py\<close>: the bytes behind a manifest. What git, the file system, GitHub, the hash and the
  parsers of the standard library answer is an \<open>observer\<close>; everything the module does with the answers is
  modelled. Texts and bytes are strings, a text as its UTF-8 bytes.
\<close>

definition MAX_CI_ARTIFACT_ARCHIVE_BYTES :: int where "MAX_CI_ARTIFACT_ARCHIVE_BYTES = 64 * 1024 * 1024"

definition MAX_CI_ARTIFACT_EXPANDED_BYTES :: int where "MAX_CI_ARTIFACT_EXPANDED_BYTES = 128 * 1024 * 1024"

record file_stat =
  st_dev :: int
  st_ino :: int
  st_size :: int
  st_mtime_ns :: int
  st_ctime_ns :: int

record zip_info =
  zi_filename :: string
  zi_file_size :: int
  zi_is_dir :: bool
  zi_external_attr :: int
  zi_content :: string

datatype file_kind = Regular | Directory | Other_kind

type_synonym location = "string list"

record observer =
  ob_git :: "string list \<Rightarrow> exn + (int \<times> string \<times> string)"
  ob_gh :: "string list \<Rightarrow> exn + (int \<times> string)"
  ob_utf8 :: "string \<Rightarrow> bool"
  ob_json :: "string \<Rightarrow> jval option"
  ob_sha256 :: "string \<Rightarrow> string"
  ob_instant :: "string \<Rightarrow> int option"
  ob_resolve :: "location \<Rightarrow> exn + location"
  ob_kind :: "location \<Rightarrow> file_kind"
  ob_read :: "location \<Rightarrow> exn + (file_stat \<times> string list \<times> file_stat)"
  ob_zip :: "string \<Rightarrow> exn + zip_info list"

definition material_error :: "jval list \<Rightarrow> exn + 'a" where
  "material_error parts = Inl (ValueErr (JFmt parts))"

definition require_that :: "bool \<Rightarrow> jval list \<Rightarrow> exn + unit" where
  "require_that ok parts = (if ok then Inr () else material_error parts)"

text \<open>\<open>a == b\<close> on decoded scalars: numbers compare by value, a boolean counts as 0 or 1.\<close>

fun number_of :: "jval \<Rightarrow> rat option" where
  "number_of (JInt i) = Some (of_int i)"
| "number_of (JNum r) = Some r"
| "number_of (JBool b) = Some (if b then 1 else 0)"
| "number_of v = None"

definition same_value :: "jval \<Rightarrow> jval \<Rightarrow> bool" where
  "same_value a b = (case (number_of a, number_of b) of (Some x, Some y) \<Rightarrow> x = y | _ \<Rightarrow> a = b)"

section \<open>Git\<close>

definition run_git :: "observer \<Rightarrow> string list \<Rightarrow> exn + string" where
  "run_git ob args = (case ob_git ob args of
     Inl e \<Rightarrow> material_error [JStr ''cannot execute Git: '', exn_message e]
   | Inr (code, out, err) \<Rightarrow>
       if code \<noteq> 0 then material_error [JStr (''Git '' @ join '' '' args @ '' failed: '' @ strip err)] else Inr out)"

definition git_text :: "observer \<Rightarrow> string list \<Rightarrow> exn + string" where
  "git_text ob args = ebind (run_git ob args) (\<lambda>out.
     if ob_utf8 ob out then Inr (strip out) else material_error [JStr ''Git returned non-UTF-8 metadata''])"

definition commit_identity :: "observer \<Rightarrow> string \<Rightarrow> exn + string \<times> int" where
  "commit_identity ob commit =
     ebind (git_text ob [''cat-file'', ''-t'', commit]) (\<lambda>object_type.
     ebind (require_that (object_type = ''commit'') [JStr ''candidate '', JStr commit, JStr '' is not a commit object'']) (\<lambda>_.
     ebind (git_text ob [''show'', ''-s'', ''--format=%T'', commit]) (\<lambda>tree.
     ebind (git_text ob [''show'', ''-s'', ''--format=%cI'', commit]) (\<lambda>raw_time.
       (case ob_instant ob raw_time of
          None \<Rightarrow> material_error [JStr ''Git commit has invalid committer timestamp'']
        | Some t \<Rightarrow> Inr (tree, t))))))"

definition git_paths :: "observer \<Rightarrow> string \<Rightarrow> exn + string list" where
  "git_paths ob commit = ebind (run_git ob [''ls-tree'', ''-r'', ''-z'', ''--name-only'', commit]) (\<lambda>raw.
     (let parts = filter (\<lambda>p. p \<noteq> []) (split_on (CHR 0x00) [] raw)
      in ebind (require_that (list_all (ob_utf8 ob) parts) [JStr ''candidate tree contains a non-UTF-8 path'']) (\<lambda>_.
         ebind (require_that (distinct parts) [JStr ''candidate tree returned duplicate paths'']) (\<lambda>_. Inr parts))))"

definition git_blob :: "observer \<Rightarrow> string \<Rightarrow> string \<Rightarrow> exn + string" where
  "git_blob ob commit p = run_git ob [''show'', commit @ '':'' @ p]"

fun named_blobs :: "observer \<Rightarrow> string \<Rightarrow> string list \<Rightarrow> exn + string" where
  "named_blobs ob commit [] = Inr []"
| "named_blobs ob commit (p # ps) = ebind (git_blob ob commit p) (\<lambda>blob.
     ebind (named_blobs ob commit ps) (\<lambda>rest. Inr (p @ [CHR 0x00] @ blob @ [CHR 0x00] @ rest)))"

definition digest_named_git_blobs :: "observer \<Rightarrow> string \<Rightarrow> string list \<Rightarrow> exn + string" where
  "digest_named_git_blobs ob commit ps =
     ebind (named_blobs ob commit (sort (remdups ps))) (\<lambda>bytes. Inr (ob_sha256 ob bytes))"

definition has_suffix :: "string \<Rightarrow> string \<Rightarrow> bool" where
  "has_suffix s t \<longleftrightarrow> take (length t) (rev s) = rev t"

definition is_source_path :: "string \<Rightarrow> bool" where
  "is_source_path p \<longleftrightarrow> p = ''pyproject.toml''
     \<or> has_suffix p ''.py'' \<and> hd (split_on CHR ''/'' [] p) \<in> {''src'', ''tests'', ''scripts''}"

definition is_config_path :: "string \<Rightarrow> bool" where
  "is_config_path p \<longleftrightarrow> take 7 p = ''config/'' \<and> CHR ''/'' \<notin> set (drop 7 p) \<and> has_suffix p ''.example.yml''"

text \<open>\<open>value.get(key)\<close>, which only an object has.\<close>

definition get_of :: "jval \<Rightarrow> string \<Rightarrow> jval \<Rightarrow> exn + jval" where
  "get_of v k d = (case v of JObj p \<Rightarrow> Inr (pget p k d) | _ \<Rightarrow> Inl (TypeErr (JStr ''object has no attribute get'')))"

fun all_values :: "jval \<Rightarrow> (string \<times> string) list \<Rightarrow> (string \<Rightarrow> string \<Rightarrow> jval list) \<Rightarrow> exn + unit" where
  "all_values v [] message = Inr ()"
| "all_values v ((k, s) # kvs) message = ebind (get_of v k JNull) (\<lambda>x.
     ebind (require_that (x = JStr s) (message k s)) (\<lambda>_. all_values v kvs message))"

definition derive_candidate_from_git :: "observer \<Rightarrow> string \<Rightarrow> exn + (string \<times> string) list \<times> nat" where
  "derive_candidate_from_git ob commit =
     ebind (commit_identity ob commit) (\<lambda>(tree, _).
     ebind (git_paths ob commit) (\<lambda>paths.
     ebind (require_that (''uv.lock'' \<in> set paths) [JStr ''candidate tree is missing uv.lock'']) (\<lambda>_.
     ebind (require_that (''STATE.json'' \<in> set paths) [JStr ''candidate tree is missing STATE.json'']) (\<lambda>_.
     ebind (git_blob ob commit ''STATE.json'') (\<lambda>state_raw.
     ebind (case ob_json ob state_raw of None \<Rightarrow> material_error [JStr ''candidate STATE.json is invalid JSON''] | Some v \<Rightarrow> Inr v) (\<lambda>state.
     ebind (get_of state ''tree'' (JObj [])) (\<lambda>tree_state.
     ebind (get_of state ''gate_status'' (JObj [])) (\<lambda>gate.
     ebind (digest_named_git_blobs ob commit (filter is_source_path paths)) (\<lambda>source_digest.
     ebind (digest_named_git_blobs ob commit (filter is_config_path paths)) (\<lambda>config_digest.
     ebind (git_blob ob commit ''uv.lock'') (\<lambda>lock.
       (let digests = [(''source_tree_sha256'', source_digest), (''config_tree_sha256'', config_digest),
              (''dependency_lock_sha256'', ob_sha256 ob lock)]
        in ebind (all_values tree_state digests
               (\<lambda>k _. [JStr ''candidate STATE.json '', JStr k, JStr '' does not match exact Git-object bytes''])) (\<lambda>_.
           ebind (all_values gate [(''gate_b2'', ''READ_ONLY_IN_PROGRESS''), (''order_authorization'', ''NONE''),
                 (''trading_adapter'', ''NOT_IMPLEMENTED'')]
               (\<lambda>k s. [JStr ''candidate STATE.json '', JStr k, JStr '' must remain '', JStr s])) (\<lambda>_.
             Inr ([(''commit_sha'', commit), (''tree_sha'', tree)] @ digests, length paths)))))))))))))))"

section \<open>Controlled files\<close>

fun ROOT_ALIAS :: "string \<Rightarrow> bool" where
  "ROOT_ALIAS [] = False"
| "ROOT_ALIAS (ch # s) \<longleftrightarrow> 97 \<le> (of_char ch :: nat) \<and> (of_char ch :: nat) \<le> 122 \<and> length s \<le> 63
     \<and> list_all (\<lambda>c. let n = of_char c :: nat in 97 \<le> n \<and> n \<le> 122 \<or> 48 \<le> n \<and> n \<le> 57 \<or> c = CHR ''_'' \<or> c = CHR ''-'') s"

definition load_root :: "observer \<Rightarrow> string \<times> jval \<Rightarrow> exn + string \<times> location" where
  "load_root ob kv = (case kv of (alias, raw) \<Rightarrow>
     if \<not> ROOT_ALIAS alias then material_error [JStr ''invalid controlled-root alias: '', JStr alias]
     else (case raw of
       JStr s \<Rightarrow>
         if s = [] \<or> s \<noteq> strip s then material_error [JStr ''controlled root '', JStr alias, JStr '' must be a literal path'']
         else if CHR 0x24 \<in> set s \<or> CHR ''%'' \<in> set s \<or> take 1 s = ''~''
         then material_error [JStr ''controlled root '', JStr alias, JStr '' cannot use expansion'']
         else if posix_root s = [] then material_error [JStr ''controlled root '', JStr alias, JStr '' must be absolute'']
         else (case ob_resolve ob (posix_segments s) of
             Inl e \<Rightarrow> material_error [JStr ''controlled root '', JStr alias, JStr '' is unavailable: '', exn_message e]
           | Inr p \<Rightarrow> if ob_kind ob p = Directory then Inr (alias, p)
               else material_error [JStr ''controlled root '', JStr alias, JStr '' is not a directory''])
     | _ \<Rightarrow> material_error [JStr ''controlled root '', JStr alias, JStr '' must be a literal path'']))"

fun load_roots :: "observer \<Rightarrow> payload \<Rightarrow> exn + (string \<times> location) list" where
  "load_roots ob [] = Inr []"
| "load_roots ob (kv # kvs) = ebind (load_root ob kv) (\<lambda>r. ebind (load_roots ob kvs) (\<lambda>rs. Inr (r # rs)))"

definition load_controlled_roots :: "observer \<Rightarrow> exn + string \<Rightarrow> exn + (string \<times> location) list" where
  "load_controlled_roots ob file = (case file of
     Inl e \<Rightarrow> material_error [JStr ''cannot load controlled roots: '', exn_message e]
   | Inr raw \<Rightarrow> (case ob_json ob raw of
         None \<Rightarrow> material_error [JStr ''cannot load controlled roots: '', JStr raw]
       | Some (JObj p) \<Rightarrow> if p = [] then material_error [JStr ''controlled roots must be a non-empty JSON object''] else load_roots ob p
       | Some _ \<Rightarrow> material_error [JStr ''controlled roots must be a non-empty JSON object'']))"

definition resolve_evidence_path :: "observer \<Rightarrow> string \<Rightarrow> (string \<times> location) list \<Rightarrow> exn + location" where
  "resolve_evidence_path ob relative roots = (case posix_parts relative of
     alias # part # parts \<Rightarrow>
       (case dget roots alias of
          None \<Rightarrow> material_error [JStr ''evidence path uses unapproved root alias '', JStr alias]
        | Some r \<Rightarrow> (case ob_resolve ob r of
            Inl e \<Rightarrow> material_error [JStr ''controlled root '', JStr alias, JStr '' is unavailable: '', exn_message e]
          | Inr rdir \<Rightarrow>
              if ob_kind ob rdir \<noteq> Directory then material_error [JStr ''controlled root '', JStr alias, JStr '' is not a directory'']
              else (case ob_resolve ob (rdir @ part # parts) of
                  Inl e \<Rightarrow> material_error [JStr ''evidence path '', JStr relative, JStr '' is unavailable: '', exn_message e]
                | Inr p \<Rightarrow>
                    if take (length rdir) p \<noteq> rdir then material_error [JStr ''evidence path escapes controlled root: '', JStr relative]
                    else if ob_kind ob p \<noteq> Regular then material_error [JStr ''evidence path is not a regular file: '', JStr relative]
                    else Inr p)))
   | _ \<Rightarrow> material_error [JStr ''evidence path '', JStr relative, JStr '' must begin with a controlled-root alias''])"

definition stream_file_identity :: "observer \<Rightarrow> location \<Rightarrow> exn + string \<times> nat" where
  "stream_file_identity ob p = (case ob_read ob p of
     Inl e \<Rightarrow> material_error [JStr ''cannot stream evidence file '', JStr (join ''/'' p), JStr '': '', exn_message e]
   | Inr (before, chunks, later) \<Rightarrow>
       (let bytes = concat (takeWhile (\<lambda>c. c \<noteq> []) chunks)
        in if bytes = [] then material_error [JStr ''evidence file is empty: '', JStr (join ''/'' p)]
           else if before \<noteq> later then material_error [JStr ''evidence file changed while hashing: '', JStr (join ''/'' p)]
           else if int (length bytes) \<noteq> st_size later
           then material_error [JStr ''evidence byte count changed while hashing: '', JStr (join ''/'' p)]
           else Inr (ob_sha256 ob bytes, length bytes)))"

text \<open>\<open>publish_create_only\<close> on the target and its temporary file; the temporary is always unlinked.\<close>

definition unlink_temporary :: "('a sidecar, unit) prog" where
  "unlink_temporary = reads sc_tmp (\<lambda>t. if t = Absent then ret () else os_call ''unlink'' (\<lambda>s. s\<lparr>sc_tmp := Absent\<rparr>))"

definition finally_unlink :: "('a sidecar, unit) prog \<Rightarrow> ('a sidecar, unit) prog" where
  "finally_unlink m = bindP (attemptP m Some) (\<lambda>r. seqP unlink_temporary (liftE r))"

definition file_exists :: exn where
  "file_exists = OSErr (JStr ''file exists'')"

definition publish_create_only :: "'a \<Rightarrow> ('a sidecar, unit) prog" where
  "publish_create_only raw = seqP (os_call ''mkdir'' id) (finally_unlink
     (catchP
       (block
         [reads sc_tmp (\<lambda>t. if t \<noteq> Absent then raise file_exists else os_call ''open'' (\<lambda>s. s\<lparr>sc_tmp := Unreadable\<rparr>)),
          os_call ''write'' (\<lambda>s. s\<lparr>sc_tmp := Holds raw\<rparr>),
          os_call ''fsync'' id,
          reads sc_target (\<lambda>t. if t \<noteq> Absent then raise file_exists else os_call ''link'' (\<lambda>s. s\<lparr>sc_target := sc_tmp s\<rparr>))])
       (\<lambda>e. if e = file_exists then raise (ValueErr (JStr ''refusing to overwrite existing output''))
            else (case e of OSErr m \<Rightarrow> raise (ValueErr (JFmt [JStr ''cannot publish create-only output: '', m])) | _ \<Rightarrow> raise e))))"

definition verify_capture_commit_and_time :: "observer \<Rightarrow> string \<Rightarrow> string \<Rightarrow> int \<Rightarrow> exn + unit" where
  "verify_capture_commit_and_time ob capture_commit captured_at now =
     ebind (commit_identity ob capture_commit) (\<lambda>(tree, commit_time).
       (case ob_instant ob (concat (map (\<lambda>c. if c = CHR ''Z'' then ''+00:00'' else [c]) captured_at)) of
          None \<Rightarrow> material_error [JStr ''invalid evidence capture timestamp: '', JStr captured_at]
        | Some captured \<Rightarrow>
            ebind (require_that (commit_time \<le> captured)
              [JStr ''evidence capture time '', JStr captured_at, JStr '' predates capture commit '', JStr capture_commit]) (\<lambda>_.
            require_that (captured \<le> now) [JStr ''evidence capture time is in the future: '', JStr captured_at])))"

section \<open>GitHub\<close>

definition repository_char :: "char \<Rightarrow> bool" where
  "repository_char c = (let n = of_char c :: nat in 65 \<le> n \<and> n \<le> 90 \<or> 97 \<le> n \<and> n \<le> 122 \<or> 48 \<le> n \<and> n \<le> 57
     \<or> c = CHR ''_'' \<or> c = CHR ''.'' \<or> c = CHR ''-'')"

definition REPOSITORY :: "string \<Rightarrow> bool" where
  "REPOSITORY s = (case split_on CHR ''/'' [] s of
     [owner, name] \<Rightarrow> owner \<noteq> [] \<and> name \<noteq> [] \<and> list_all repository_char owner \<and> list_all repository_char name
   | _ \<Rightarrow> False)"

definition check_repository :: "string \<Rightarrow> exn + unit" where
  "check_repository repository = require_that
     (REPOSITORY repository \<and> list_all (\<lambda>x. x \<noteq> ''.'' \<and> x \<noteq> ''..'') (split_on CHR ''/'' [] repository))
     [JStr ''GitHub repository must be owner/name'']"

definition gh_query :: "observer \<Rightarrow> string \<Rightarrow> exn + payload" where
  "gh_query ob endpoint = (case ob_gh ob [''api'', endpoint] of
     Inl e \<Rightarrow> material_error [JStr ''cannot query GitHub Actions: '', exn_message e]
   | Inr (code, out) \<Rightarrow>
       if code \<noteq> 0 then material_error [JStr ''GitHub Actions query failed'']
       else (case ob_json ob out of
           None \<Rightarrow> material_error [JStr ''GitHub Actions returned invalid JSON'']
         | Some (JObj p) \<Rightarrow> Inr p
         | Some _ \<Rightarrow> material_error [JStr ''GitHub Actions returned a non-object'']))"

definition github_lookup_with_gh :: "observer \<Rightarrow> string \<Rightarrow> int \<Rightarrow> int \<Rightarrow> exn + payload" where
  "github_lookup_with_gh ob repository run_id attempt =
     ebind (check_repository repository) (\<lambda>_.
     (let base = ''repos/'' @ repository @ ''/actions/runs/'' @ str_int run_id @ ''/attempts/'' @ str_int attempt
      in ebind (gh_query ob (base @ ''/jobs?per_page=100'')) (\<lambda>jobs.
         ebind (gh_query ob base) (\<lambda>run.
           Inr [(''run'', JObj run), (''jobs'', pget jobs ''jobs'' JNull), (''jobs_total_count'', pget jobs ''total_count'' JNull)]))))"

text \<open>The metadata of an artifact, and its archive.\<close>

definition github_artifact_lookup_with_gh :: "observer \<Rightarrow> string \<Rightarrow> int \<Rightarrow> exn + jval \<times> string option" where
  "github_artifact_lookup_with_gh ob repository artifact_id =
     ebind (check_repository repository) (\<lambda>_.
     (let base = ''repos/'' @ repository @ ''/actions/artifacts/'' @ str_int artifact_id
      in (case (ob_gh ob [''api'', base], ob_gh ob [''api'', base @ ''/zip'']) of
            (Inl e, _) \<Rightarrow> material_error [JStr ''cannot query GitHub artifact: '', exn_message e]
          | (_, Inl e) \<Rightarrow> material_error [JStr ''cannot query GitHub artifact: '', exn_message e]
          | (Inr (code, out), Inr (code', archive)) \<Rightarrow>
              if code \<noteq> 0 \<or> code' \<noteq> 0 then material_error [JStr ''GitHub artifact query failed'']
              else if int (length archive) > MAX_CI_ARTIFACT_ARCHIVE_BYTES
              then material_error [JStr ''GitHub artifact archive exceeds verification budget'']
              else (case ob_json ob out of
                  None \<Rightarrow> material_error [JStr ''GitHub artifact metadata is invalid JSON'']
                | Some (JObj p) \<Rightarrow> Inr (JObj p, Some archive)
                | Some _ \<Rightarrow> material_error [JStr ''GitHub artifact metadata is not an object'']))))"

text \<open>The fields an observation has to have; \<open>what\<close> is the text before the name of the field.\<close>

fun observed_as :: "payload \<Rightarrow> (string \<times> jval) list \<Rightarrow> jval list \<Rightarrow> jval list \<Rightarrow> exn + unit" where
  "observed_as p [] before_key after_key = Inr ()"
| "observed_as p ((k, v) # kvs) before_key after_key =
     (if same_value (pget p k JNull) v then observed_as p kvs before_key after_key else material_error (before_key @ JStr k # after_key))"

definition step_succeeded :: "jval \<Rightarrow> bool" where
  "step_succeeded v = (case v of JObj p \<Rightarrow> pget p ''conclusion'' JNull = JStr ''success'' | _ \<Rightarrow> False)"

text \<open>One observed job of a run; the state is the ids and the names seen in this run and attempt.\<close>

definition verify_job :: "payload \<Rightarrow> jval \<Rightarrow> int list \<times> string list \<Rightarrow> exn + int list \<times> string list" where
  "verify_job run v seen = (case v of
     JObj job \<Rightarrow> (case pget job ''id'' JNull of
        JInt job_id \<Rightarrow>
          if job_id \<le> 0 then material_error [JStr ''GitHub run '', pget run ''run_id'' JNull, JStr '' has invalid job id'']
          else ebind (require_that (job_id \<notin> set (fst seen)) [JStr ''GitHub run '', pget run ''run_id'' JNull, JStr '' has duplicate job id'']) (\<lambda>_.
            ebind (observed_as job
              [(''run_id'', pget run ''run_id'' JNull), (''run_attempt'', pget run ''run_attempt'' JNull), (''head_sha'', pget run ''commit_sha'' JNull),
               (''status'', JStr ''completed''), (''conclusion'', JStr ''success'')]
              [JStr ''GitHub job '', JInt job_id, JStr '' observed ''] [JStr '' does not match manifest'']) (\<lambda>_.
            (case pget job ''name'' JNull of
               JStr name \<Rightarrow>
                 if strip name = [] then material_error [JStr ''GitHub job '', JInt job_id, JStr '' has no name'']
                 else ebind (require_that (name \<notin> set (snd seen))
                   [JStr ''GitHub run '', pget run ''run_id'' JNull, JStr '' has duplicate job name '', JStr name]) (\<lambda>_.
                 ebind (require_that (case pget job ''steps'' JNull of JList steps \<Rightarrow> list_ex step_succeeded steps | _ \<Rightarrow> False)
                   [JStr ''GitHub job '', JInt job_id, JStr '' has no successful executed step'']) (\<lambda>_.
                   Inr (fst seen @ [job_id], snd seen @ [name])))
             | _ \<Rightarrow> material_error [JStr ''GitHub job '', JInt job_id, JStr '' has no name''])))
      | _ \<Rightarrow> material_error [JStr ''GitHub run '', pget run ''run_id'' JNull, JStr '' has invalid job id''])
   | _ \<Rightarrow> material_error [JStr ''GitHub run '', pget run ''run_id'' JNull, JStr '' has invalid job data''])"

fun verify_jobs :: "payload \<Rightarrow> jval list \<Rightarrow> int list \<times> string list \<Rightarrow> exn + int list \<times> string list" where
  "verify_jobs run [] seen = Inr seen"
| "verify_jobs run (v # vs) seen = ebind (verify_job run v seen) (verify_jobs run vs)"

type_synonym run_jobs = "(int \<times> string list) list"

text \<open>\<open>run["run_id"]\<close> and \<open>run["run_attempt"]\<close> of a validated run.\<close>

definition int_entry :: "payload \<Rightarrow> string \<Rightarrow> int" where
  "int_entry p k = (case pget p k JNull of JInt i \<Rightarrow> i | _ \<Rightarrow> 0)"

definition text_entry :: "payload \<Rightarrow> string \<Rightarrow> string" where
  "text_entry p k = (case pget p k JNull of JStr s \<Rightarrow> s | _ \<Rightarrow> [])"

definition verify_ci_run ::
  "(string \<Rightarrow> int \<Rightarrow> int \<Rightarrow> exn + payload) \<Rightarrow> string \<Rightarrow> payload \<Rightarrow> nat \<times> run_jobs \<Rightarrow> exn + nat \<times> run_jobs" where
  "verify_ci_run lookup repository run acc =
     (let run_id = int_entry run ''run_id'' in
      ebind (lookup repository run_id (int_entry run ''run_attempt'')) (\<lambda>observation.
      (case (pget observation ''run'' JNull, pget observation ''jobs'' JNull) of
         (JObj observed, JList jobs) \<Rightarrow>
           if jobs = [] then material_error [JStr ''GitHub run '', JInt run_id, JStr '' must include the run and at least one observed job'']
           else ebind (require_that (same_value (pget observation ''jobs_total_count'' JNull) (JInt (int (length jobs))))
             [JStr ''GitHub run '', JInt run_id, JStr '' job listing is incomplete'']) (\<lambda>_.
           ebind (observed_as observed
             [(''id'', JInt run_id), (''run_attempt'', pget run ''run_attempt'' JNull), (''head_sha'', pget run ''commit_sha'' JNull),
              (''name'', pget run ''workflow'' JNull), (''status'', JStr ''completed''), (''conclusion'', JStr ''success'')]
             [JStr ''GitHub run '', JInt run_id, JStr '' observed ''] [JStr '' does not match manifest'']) (\<lambda>_.
           ebind (verify_jobs run jobs ([], dget_or (snd acc) run_id [])) (\<lambda>(ids, names).
             Inr (fst acc + length jobs, dput run_id names (snd acc)))))
       | _ \<Rightarrow> material_error [JStr ''GitHub run '', JInt run_id, JStr '' must include the run and at least one observed job''])))"

fun verify_ci_runs ::
  "(string \<Rightarrow> int \<Rightarrow> int \<Rightarrow> exn + payload) \<Rightarrow> string \<Rightarrow> payload list \<Rightarrow> nat \<times> run_jobs \<Rightarrow> exn + nat \<times> run_jobs" where
  "verify_ci_runs lookup repository [] acc = Inr acc"
| "verify_ci_runs lookup repository (run # runs) acc =
     ebind (verify_ci_run lookup repository run acc) (verify_ci_runs lookup repository runs)"

section \<open>Artifacts\<close>

definition is_link :: "int \<Rightarrow> bool" where
  "is_link attr = ((attr div 65536) div 4096 mod 16 = 10)"

fun read_members :: "zip_info list \<Rightarrow> (string \<times> string) list \<Rightarrow> exn + (string \<times> string) list" where
  "read_members [] members = Inr members"
| "read_members (i # is) members =
     (if zi_is_dir i then read_members is members
      else if is_link (zi_external_attr i) then material_error [JStr ''GitHub artifact contains a symbolic link'']
      else if posix_root (zi_filename i) \<noteq> [] \<or> ''..'' \<in> set (posix_parts (zi_filename i)) \<or> posix_parts (zi_filename i) = []
      then material_error [JStr ''GitHub artifact contains an unsafe member path'']
      else if dget members (as_posix (zi_filename i)) \<noteq> None then material_error [JStr ''GitHub artifact contains duplicate members'']
      else read_members is (members @ [(as_posix (zi_filename i), zi_content i)]))"

definition zip_members :: "observer \<Rightarrow> string \<Rightarrow> exn + (string \<times> string) list" where
  "zip_members ob raw = (case ob_zip ob raw of
     Inl e \<Rightarrow> material_error [JStr ''GitHub artifact archive is invalid: '', exn_message e]
   | Inr infos \<Rightarrow>
       if sum_list (map zi_file_size infos) > MAX_CI_ARTIFACT_EXPANDED_BYTES
       then material_error [JStr ''GitHub artifact expanded size exceeds budget'']
       else read_members infos [])"

definition identity_fields :: "payload \<Rightarrow> string \<Rightarrow> payload \<Rightarrow> payload \<Rightarrow> (string \<times> jval) list" where
  "identity_fields candidate repository run binding =
     [(''schema_version'', JInt 1), (''commit_sha'', pget candidate ''commit_sha'' JNull), (''tree_sha'', pget candidate ''tree_sha'' JNull),
      (''repository'', JStr repository), (''run_id'', JStr (str_int (int_entry binding ''run_id''))),
      (''run_attempt'', JStr (str_int (int_entry run ''run_attempt''))), (''workflow'', pget run ''workflow'' JNull),
      (''job_name'', pget binding ''job_name'' JNull)]"

definition verify_identity ::
  "observer \<Rightarrow> payload \<Rightarrow> string \<Rightarrow> payload \<Rightarrow> payload \<Rightarrow> (string \<times> string) list \<Rightarrow> exn + unit" where
  "verify_identity ob candidate repository run binding members =
     (let who = [JStr ''GitHub artifact '', pget binding ''artifact_id'' JNull];
          expected = identity_fields candidate repository run binding in
      case dget members (text_entry binding ''checkout_identity_member_path'') of
        None \<Rightarrow> material_error (who @ [JStr '' is missing checkout identity''])
      | Some raw \<Rightarrow> (case ob_json ob raw of
          None \<Rightarrow> material_error (who @ [JStr '' checkout identity is invalid''])
        | Some (JObj identity) \<Rightarrow>
            if set (map fst identity) \<noteq> set (map fst expected) \<union> {''event''}
            then material_error (who @ [JStr '' checkout identity has invalid keys''])
            else ebind (observed_as identity expected (who @ [JStr '' checkout identity '']) [JStr '' does not match'']) (\<lambda>_.
              if \<not> hashable (pget identity ''event'' JNull) then Inl (TypeErr (JStr ''unhashable type''))
              else require_that (pget identity ''event'' JNull \<in> {JStr ''pull_request'', JStr ''push'', JStr ''workflow_dispatch''})
                (who @ [JStr '' checkout identity event is invalid'']))
        | Some _ \<Rightarrow> material_error (who @ [JStr '' checkout identity has invalid keys''])))"

text \<open>The evidence member, when the artifact carries one; the number of members verified.\<close>

definition verify_member ::
  "observer \<Rightarrow> (string \<times> payload) list \<Rightarrow> payload \<Rightarrow> (string \<times> string) list \<Rightarrow> exn + nat" where
  "verify_member ob by_id binding members = (case pget binding ''evidence_id'' JNull of
     JStr evidence_id \<Rightarrow>
       (case dget members (text_entry binding ''evidence_member_path'') of
          None \<Rightarrow> material_error [JStr ''GitHub artifact '', pget binding ''artifact_id'' JNull, JStr '' is missing evidence member '',
            pget binding ''evidence_member_path'' JNull]
        | Some member \<Rightarrow> (case dget by_id evidence_id of
            None \<Rightarrow> Inl (KeyErr (JStr evidence_id))
          | Some evidence \<Rightarrow>
              ebind (require_that (pget evidence ''sha256'' JNull = JStr (ob_sha256 ob member)
                  \<and> same_value (pget evidence ''bytes'' JNull) (JInt (int (length member))))
                [JStr ''GitHub artifact '', pget binding ''artifact_id'' JNull, JStr '' member does not match evidence '', JStr evidence_id])
              (\<lambda>_. Inr 2)))
   | _ \<Rightarrow> Inr 1)"

definition of_object :: "jval \<Rightarrow> string \<Rightarrow> jval" where
  "of_object v k = (case v of JObj p \<Rightarrow> pget p k JNull | _ \<Rightarrow> JNull)"

record artifact_totals =
  at_bound_jobs :: run_jobs
  at_members :: nat
  at_bytes :: nat

definition verify_ci_artifact ::
  "observer \<Rightarrow> (string \<Rightarrow> int \<Rightarrow> exn + jval \<times> string option) \<Rightarrow> (int \<times> payload) list \<Rightarrow> run_jobs \<Rightarrow> (string \<times> payload) list
     \<Rightarrow> payload \<Rightarrow> string \<Rightarrow> payload \<Rightarrow> artifact_totals \<Rightarrow> exn + artifact_totals" where
  "verify_ci_artifact ob lookup runs_by_id jobs_by_run by_id candidate repository binding acc =
     (let run_id = int_entry binding ''run_id''; artifact_id = int_entry binding ''artifact_id'';
          who = [JStr ''GitHub artifact '', JInt artifact_id] in
      ebind (lookup repository artifact_id) (\<lambda>observation.
      (case observation of
         (JObj metadata, Some archive) \<Rightarrow>
           ebind (require_that (int (length archive) \<le> MAX_CI_ARTIFACT_ARCHIVE_BYTES) (who @ [JStr '' exceeds verification budget''])) (\<lambda>_.
           ebind (observed_as metadata
             [(''id'', JInt artifact_id), (''name'', pget binding ''artifact_name'' JNull), (''expired'', JBool False),
              (''digest'', JStr (''sha256:'' @ text_entry binding ''archive_sha256'')), (''size_in_bytes'', JInt (int (length archive)))]
             (who @ [JStr '' observed '']) [JStr '' does not match manifest/archive'']) (\<lambda>_.
           ebind (require_that (ob_sha256 ob archive = text_entry binding ''archive_sha256'')
             (who @ [JStr '' archive digest does not match manifest''])) (\<lambda>_.
           ebind (require_that (case pget metadata ''workflow_run'' JNull of JObj w \<Rightarrow> same_value (pget w ''id'' JNull) (JInt run_id) | _ \<Rightarrow> False)
             (who @ [JStr '' does not belong to declared run''])) (\<lambda>_.
           ebind (case dget runs_by_id run_id of None \<Rightarrow> Inl (KeyErr (JInt run_id)) | Some run \<Rightarrow> Inr run) (\<lambda>run.
           ebind (require_that (same_value (of_object (pget metadata ''workflow_run'' JNull) ''head_sha'') (pget run ''commit_sha'' JNull))
             (who @ [JStr '' head SHA does not match candidate''])) (\<lambda>_.
           ebind (require_that (occurs_in (text_entry candidate ''commit_sha'') (text_entry binding ''artifact_name''))
             (who @ [JStr '' name does not bind the candidate commit''])) (\<lambda>_.
           ebind (zip_members ob archive) (\<lambda>members.
           ebind (verify_identity ob candidate repository run binding members) (\<lambda>_.
           (let job_name = text_entry binding ''job_name'' in
            ebind (require_that (job_name \<in> set (dget_or jobs_by_run run_id [])) (who @ [JStr '' does not bind an observed successful job''])) (\<lambda>_.
            ebind (verify_member ob by_id binding members) (\<lambda>n.
              Inr \<lparr>at_bound_jobs = dput run_id (set_add job_name (dget_or (at_bound_jobs acc) run_id [])) (at_bound_jobs acc),
                   at_members = at_members acc + n, at_bytes = at_bytes acc + length archive\<rparr>))))))))))))
       | _ \<Rightarrow> material_error (who @ [JStr '' observation is incomplete'']))))"

fun verify_artifacts_from ::
  "(payload \<Rightarrow> artifact_totals \<Rightarrow> exn + artifact_totals) \<Rightarrow> payload list \<Rightarrow> artifact_totals \<Rightarrow> exn + artifact_totals" where
  "verify_artifacts_from f [] acc = Inr acc"
| "verify_artifacts_from f (b # bs) acc = ebind (f b acc) (verify_artifacts_from f bs)"

text \<open>Equality of two dictionaries of sets.\<close>

definition same_jobs :: "run_jobs \<Rightarrow> run_jobs \<Rightarrow> bool" where
  "same_jobs a b \<longleftrightarrow> set (map fst a) = set (map fst b) \<and> list_all (\<lambda>k. set (dget_or a k []) = set (dget_or b k [])) (map fst a)"

definition verify_ci_artifacts ::
  "observer \<Rightarrow> (string \<Rightarrow> int \<Rightarrow> exn + jval \<times> string option) \<Rightarrow> payload list \<Rightarrow> payload list \<Rightarrow> run_jobs \<Rightarrow> (string \<times> payload) list
     \<Rightarrow> payload \<Rightarrow> string \<Rightarrow> exn + artifact_totals" where
  "verify_ci_artifacts ob lookup artifacts runs jobs_by_run by_id candidate repository =
     (let runs_by_id = foldl (\<lambda>m run. dput (int_entry run ''run_id'') run m) [] runs in
      ebind (verify_artifacts_from (verify_ci_artifact ob lookup runs_by_id jobs_by_run by_id candidate repository) artifacts
        \<lparr>at_bound_jobs = [], at_members = 0, at_bytes = 0\<rparr>) (\<lambda>totals.
      ebind (require_that (same_jobs jobs_by_run (at_bound_jobs totals))
        [JStr ''CI artifact bindings must cover every observed successful job exactly once'']) (\<lambda>_. Inr totals)))"

end
