(* ===== verification/Evidence_Packet.thy ===== *)
theory Evidence_Packet
  imports Evidence_Material
begin

text \<open>
  The rest of \<open>b2_evidence_material.py\<close>: the text of a manifest, the scan for sensitive text, and
  \<open>verify_materials\<close>, which checks a manifest against what is observed or fills the observed fields in.
\<close>

section \<open>The text of a manifest\<close>

definition hex_of :: "nat \<Rightarrow> char" where
  "hex_of n = char_of (if n < 10 then 48 + n else 87 + n)"

definition quote_char :: "char \<Rightarrow> string" where
  "quote_char c = (let n = of_char c :: nat in
     if c = CHR 0x22 then [CHR 0x5C, CHR 0x22] else if c = CHR 0x5C then [CHR 0x5C, CHR 0x5C]
     else if n = 10 then [CHR 0x5C, CHR ''n''] else if n = 13 then [CHR 0x5C, CHR ''r''] else if n = 9 then [CHR 0x5C, CHR ''t'']
     else if n = 8 then [CHR 0x5C, CHR ''b''] else if n = 12 then [CHR 0x5C, CHR ''f'']
     else if n < 32 \<or> 126 < n then CHR 0x5C # ''u00'' @ [hex_of (n div 16), hex_of (n mod 16)]
     else [c])"

definition quoted :: "string \<Rightarrow> string" where
  "quoted s = CHR 0x22 # concat (map quote_char s) @ [CHR 0x22]"

definition newline :: "nat \<Rightarrow> string" where
  "newline level = CHR 0x0A # replicate (2 * level) CHR '' ''"

definition float_text :: "rat \<Rightarrow> string" where
  "float_text r = (if of_int \<lfloor>r\<rfloor> = r then str_int \<lfloor>r\<rfloor> @ ''.0'' else str_rat r)"

definition bracket :: "string \<Rightarrow> nat \<Rightarrow> string list \<Rightarrow> string \<Rightarrow> string" where
  "bracket start level items finish =
     (if items = [] then start @ finish
      else start @ newline (Suc level) @ join ('','' @ newline (Suc level)) items @ newline level @ finish)"

fun json_text :: "nat \<Rightarrow> jval \<Rightarrow> string" where
  "json_text level JNull = ''null''"
| "json_text level (JBool b) = (if b then ''true'' else ''false'')"
| "json_text level (JInt i) = str_int i"
| "json_text level (JNum r) = float_text r"
| "json_text level (JStr s) = quoted s"
| "json_text level (JTime t) = quoted (render (JTime t))"
| "json_text level (JFmt xs) = quoted (render (JFmt xs))"
| "json_text level (JList xs) = bracket ''['' level (map (json_text (Suc level)) xs) '']''"
| "json_text level (JObj ps) =
     bracket ''{'' level
       (map (\<lambda>(k, t). quoted k @ '': '' @ t) (sort_key fst (map (\<lambda>kv. (fst kv, json_text (Suc level) (snd kv))) ps))) ''}''"

definition dumps_manifest :: "payload \<Rightarrow> exn + string" where
  "dumps_manifest p = ebind (validate_manifest (JObj p) False) (\<lambda>_. Inr (json_text 0 (JObj p) @ [CHR 0x0A]))"

section \<open>Sensitive text\<close>

definition skip_spaces :: "string \<Rightarrow> string" where
  "skip_spaces s = dropWhile is_space s"

text \<open>A word at the start of a lower-case text; what follows it.\<close>

fun after_words :: "string list \<Rightarrow> string \<Rightarrow> string list" where
  "after_words ws s = map (\<lambda>w. drop (length w) s) (filter (\<lambda>w. take (length w) s = w) ws)"

text \<open>A separator, colon or equals sign, among spaces.\<close>

definition after_separator :: "string \<Rightarrow> string list" where
  "after_separator s = (case skip_spaces s of c # t \<Rightarrow> if c = CHR '':'' \<or> c = CHR ''='' then [skip_spaces t] else [] | [] \<Rightarrow> [])"

definition starts_authorization :: "string \<Rightarrow> bool" where
  "starts_authorization s \<longleftrightarrow> list_ex (\<lambda>t. list_ex (\<lambda>u. list_ex
       (\<lambda>v. v \<noteq> [] \<and> is_space (hd v) \<and> skip_spaces v \<noteq> []) (after_words [''bearer'', ''basic''] u)) (after_separator t))
     (after_words [''authorization''] s)"

definition starts_token :: "string \<Rightarrow> bool" where
  "starts_token s \<longleftrightarrow> list_ex (\<lambda>t. list_ex (\<lambda>u. u \<noteq> []) (after_separator t))
     (after_words (concat (map (\<lambda>(a, b). [a @ b, a @ ''_'' @ b, a @ ''-'' @ b])
        [(''api'', ''key''), (''access'', ''token''), (''refresh'', ''token'')])) s)"

definition wordy_char :: "char \<Rightarrow> bool" where
  "wordy_char c = (let n = of_char c :: nat in 97 \<le> n \<and> n \<le> 122 \<or> 65 \<le> n \<and> n \<le> 90 \<or> decimal_digit c \<or> c = CHR ''_'')"

definition starts_account :: "char option \<Rightarrow> string \<Rightarrow> bool" where
  "starts_account previous s \<longleftrightarrow> (case previous of None \<Rightarrow> True | Some c \<Rightarrow> \<not> wordy_char c) \<and> take 2 s = ''du''
     \<and> 5 \<le> length (takeWhile decimal_digit (drop 2 s))
     \<and> (case dropWhile decimal_digit (drop 2 s) of [] \<Rightarrow> True | c # t \<Rightarrow> \<not> wordy_char c)"

fun sensitive_from :: "char option \<Rightarrow> string \<Rightarrow> bool" where
  "sensitive_from previous [] = False"
| "sensitive_from previous (c # s) \<longleftrightarrow> starts_authorization (c # s) \<or> starts_token (c # s) \<or> starts_account previous (c # s)
     \<or> sensitive_from (Some c) s"

definition sensitive_text :: "string \<Rightarrow> bool" where
  "sensitive_text s = sensitive_from None (map lower_char s)"

definition scan_manifest :: "payload \<Rightarrow> exn + string" where
  "scan_manifest p = ebind (dumps_manifest p) (\<lambda>raw.
     if sensitive_text raw then material_error [JStr ''candidate manifest contains sensitive-looking text''] else Inr raw)"

section \<open>Verification\<close>

record material_report =
  mr_candidate_commit :: string
  mr_candidate_tree :: string
  mr_git_file_count :: nat
  mr_evidence_files_verified :: nat
  mr_evidence_bytes_streamed :: nat
  mr_ci_runs_verified :: nat
  mr_ci_jobs_verified :: nat
  mr_ci_artifacts_verified :: nat
  mr_ci_artifact_members_verified :: nat
  mr_ci_artifact_bytes_downloaded :: nat
  mr_manifest_bytes :: nat

definition report_dict :: "material_report \<Rightarrow> payload" where
  "report_dict r = [(''schema_version'', JInt 1), (''verification_kind'', JStr ''B2_READ_ONLY_F2_MATERIAL''),
     (''candidate_commit'', JStr (mr_candidate_commit r)), (''candidate_tree'', JStr (mr_candidate_tree r)),
     (''git_file_count'', JInt (int (mr_git_file_count r))), (''evidence_files_verified'', JInt (int (mr_evidence_files_verified r))),
     (''evidence_bytes_streamed'', JInt (int (mr_evidence_bytes_streamed r))), (''ci_runs_verified'', JInt (int (mr_ci_runs_verified r))),
     (''ci_jobs_verified'', JInt (int (mr_ci_jobs_verified r))), (''ci_artifacts_verified'', JInt (int (mr_ci_artifacts_verified r))),
     (''ci_artifact_members_verified'', JInt (int (mr_ci_artifact_members_verified r))),
     (''ci_artifact_bytes_downloaded'', JInt (int (mr_ci_artifact_bytes_downloaded r))), (''manifest_bytes'', JInt (int (mr_manifest_bytes r))),
     (''gate_b2'', JStr ''READ_ONLY_IN_PROGRESS''), (''order_authorization'', JStr ''NONE''), (''result'', JStr ''PASS''),
     (''limits'', JStr ''Material identity only; evidence verdict semantics remain scope-bound. This is not Gate B2 PASS or order authorization.'')]"

text \<open>Equality of the candidate with what git gives, as dictionaries.\<close>

definition same_candidate :: "payload \<Rightarrow> (string \<times> string) list \<Rightarrow> bool" where
  "same_candidate c observed \<longleftrightarrow> set (map fst c) = set (map fst observed) \<and> list_all (\<lambda>(k, s). map_of c k = Some (JStr s)) observed"

definition update_candidate :: "payload \<Rightarrow> (string \<times> string) list \<Rightarrow> payload" where
  "update_candidate c observed = foldl (\<lambda>c (k, s). dput k (JStr s) c) c observed"

text \<open>Items that name no bytes are left alone.\<close>

definition is_skipped :: "payload \<Rightarrow> bool" where
  "is_skipped item \<longleftrightarrow> pget item ''binding'' JNull = JStr ''UNBOUND''
     \<or> pget item ''binding'' JNull = JStr ''REFERENCE_ONLY''
       \<and> list_all (\<lambda>k. pget item k JNull = JNull) [''sha256'', ''bytes'', ''capture_commit'']"

definition bytes_of_item :: "observer \<Rightarrow> (string \<times> location) list \<Rightarrow> payload \<Rightarrow> exn + string \<times> nat" where
  "bytes_of_item ob roots item =
     (let relative = render (pget item ''relative_path'' (JStr [])) in
      if take 5 relative = ''repo/''
      then (let segments = tl (posix_segments relative);
                repo_path = (if segments = [] then ''.'' else join ''/'' segments)
            in ebind (git_blob ob (render (pget item ''capture_commit'' (JStr []))) repo_path) (\<lambda>blob.
                 Inr (ob_sha256 ob blob, length blob)))
      else ebind (resolve_evidence_path ob relative roots) (stream_file_identity ob))"

definition verify_item ::
  "observer \<Rightarrow> (string \<times> location) list \<Rightarrow> int \<Rightarrow> bool \<Rightarrow> payload \<Rightarrow> exn + payload \<times> nat" where
  "verify_item ob roots now populate item =
     ebind (bytes_of_item ob roots item) (\<lambda>(digest, size).
     ebind (if populate then Inr (dput ''bytes'' (JInt (int size)) (dput ''sha256'' (JStr digest) item))
            else ebind (require_that (pget item ''sha256'' JNull = JStr digest \<and> same_value (pget item ''bytes'' JNull) (JInt (int size)))
                   [JStr ''evidence bytes do not match manifest: '', pget item ''id'' (JStr ''<unknown>'')]) (\<lambda>_. Inr item)) (\<lambda>item.
     ebind (require_that (pget item ''capture_commit'' JNull \<noteq> JNull)
       [JStr ''material evidence must declare capture_commit: '', pget item ''id'' (JStr ''<unknown>'')]) (\<lambda>_.
     ebind (verify_capture_commit_and_time ob (render (pget item ''capture_commit'' JNull)) (render (pget item ''captured_at_utc'' (JStr []))) now)
       (\<lambda>_. Inr (item, size)))))"

text \<open>All items: the items afterwards, the files verified, the bytes streamed.\<close>

fun verify_items ::
  "observer \<Rightarrow> (string \<times> location) list \<Rightarrow> int \<Rightarrow> bool \<Rightarrow> jval list \<Rightarrow> exn + jval list \<times> nat \<times> nat" where
  "verify_items ob roots now populate [] = Inr ([], 0, 0)"
| "verify_items ob roots now populate (v # vs) = (case v of
     JObj item \<Rightarrow>
       if is_skipped item
       then ebind (verify_items ob roots now populate vs) (\<lambda>(ws, files, bytes). Inr (v # ws, files, bytes))
       else ebind (verify_item ob roots now populate item) (\<lambda>(item', size).
            ebind (verify_items ob roots now populate vs) (\<lambda>(ws, files, bytes). Inr (JObj item' # ws, Suc files, size + bytes)))
   | _ \<Rightarrow> material_error [JStr ''manifest evidence entry must be an object''])"

definition objects_of :: "jval \<Rightarrow> payload list" where
  "objects_of v = (case v of JList xs \<Rightarrow> map (\<lambda>x. case x of JObj p \<Rightarrow> p | _ \<Rightarrow> []) xs | _ \<Rightarrow> [])"

definition verify_materials ::
  "observer \<Rightarrow> (string \<Rightarrow> int \<Rightarrow> int \<Rightarrow> exn + payload) \<Rightarrow> (string \<Rightarrow> int \<Rightarrow> exn + jval \<times> string option) \<Rightarrow> (string \<times> location) list
     \<Rightarrow> string \<Rightarrow> int \<Rightarrow> int \<Rightarrow> bool \<Rightarrow> payload \<Rightarrow> exn + material_report \<times> payload" where
  "verify_materials ob run_lookup artifact_lookup roots repository budget now populate p =
     ebind (require_that (budget > 0) [JStr ''manifest byte budget must be positive'']) (\<lambda>_.
     ebind (validate_manifest (JObj p) False) (\<lambda>_.
     ebind (case pget p ''candidate'' JNull of
         JObj c \<Rightarrow> if HEX 40 (render (pget c ''commit_sha'' (JStr []))) then Inr c else material_error [JStr ''manifest must declare a full candidate commit'']
       | _ \<Rightarrow> material_error [JStr ''manifest must declare a full candidate commit'']) (\<lambda>candidate.
     ebind (derive_candidate_from_git ob (render (pget candidate ''commit_sha'' JNull))) (\<lambda>(observed, git_count).
     ebind (if populate then Inr (update_candidate candidate observed)
            else ebind (require_that (same_candidate candidate observed) [JStr ''manifest candidate does not match exact Git-object identity''])
                   (\<lambda>_. Inr candidate)) (\<lambda>candidate.
     ebind (case pget p ''evidence'' JNull of JList vs \<Rightarrow> Inr vs | _ \<Rightarrow> material_error [JStr ''manifest evidence must be an array'']) (\<lambda>evidence.
     ebind (verify_items ob roots now populate evidence) (\<lambda>(evidence, files, bytes).
     (let p' = dput ''evidence'' (JList evidence) (dput ''candidate'' (JObj candidate) p) in
      ebind (validate_manifest (JObj p') False) (\<lambda>_.
      (let runs = objects_of (pget p' ''ci_runs'' JNull); artifacts = objects_of (pget p' ''ci_artifacts'' JNull);
           by_id = map (\<lambda>e. (text_entry e ''id'', e)) (objects_of (JList evidence)) in
       ebind (verify_ci_runs run_lookup repository runs (0, [])) (\<lambda>(job_count, jobs_by_run).
       ebind (verify_ci_artifacts ob artifact_lookup artifacts runs jobs_by_run by_id candidate repository) (\<lambda>totals.
       ebind (scan_manifest p') (\<lambda>raw.
       ebind (require_that (int (length raw) \<le> budget)
         [JStr ''candidate manifest is '', JInt (int (length raw)), JStr '' bytes; budget is '', JInt budget]) (\<lambda>_.
         Inr (\<lparr>mr_candidate_commit = snd (hd observed), mr_candidate_tree = snd (hd (tl observed)), mr_git_file_count = git_count,
               mr_evidence_files_verified = files, mr_evidence_bytes_streamed = bytes, mr_ci_runs_verified = length runs,
               mr_ci_jobs_verified = job_count, mr_ci_artifacts_verified = length artifacts,
               mr_ci_artifact_members_verified = at_members totals, mr_ci_artifact_bytes_downloaded = at_bytes totals,
               mr_manifest_bytes = length raw\<rparr>, p')))))))))))))))"

end
