(* ===== verification/Packet_Facts.thy ===== *)
theory Packet_Facts
  imports Evidence_Packet Evidence_Facts
begin

text \<open>
  What a report of \<open>verify_materials\<close> rests on, step by step; filling the observed fields in and checking them
  agree.
\<close>

lemma require_that_Inr [simp]: "require_that ok m = Inr u \<longleftrightarrow> ok"
  by (simp add: require_that_def material_error_def)

lemma material_error_never [simp]: "material_error m \<noteq> Inr a" "Inr a \<noteq> material_error m"
  by (simp_all add: material_error_def)

section \<open>The candidate\<close>

lemma derive_candidate_shape:
  assumes "derive_candidate_from_git ob commit = Inr (observed, n)"
  shows "\<exists>tree s c d. observed = [(''commit_sha'', commit), (''tree_sha'', tree), (''source_tree_sha256'', s), (''config_tree_sha256'', c),
    (''dependency_lock_sha256'', d)]"
  using assms by (auto simp: derive_candidate_from_git_def ebind_Inr_iff Let_def)

lemma same_candidate_update:
  assumes "distinct (map fst observed)" and "set (map fst c) \<subseteq> set (map fst observed)"
  shows "same_candidate (update_candidate c observed) observed"
proof -
  have keys: "fst ` set (update_candidate c observed) = fst ` set c \<union> fst ` set observed"
    unfolding update_candidate_def by (induction observed arbitrary: c) (simp_all add: case_prod_beta)
  have "map_of (update_candidate c observed) k = Some (JStr s)" if "(k, s) \<in> set observed" for k s
    using assms(1) that
  proof (induction observed arbitrary: c)
    case (Cons kv observed)
    have other: "k' \<notin> fst ` set observed \<Longrightarrow> map_of (foldl (\<lambda>c (k, s). dput k (JStr s) c) d observed) k' = map_of d k'" for k' and d :: payload
      by (induction observed arbitrary: d) (auto simp: update_conv')
    show ?case
    proof (cases "(k, s) \<in> set observed")
      case True
      then show ?thesis using Cons by (cases kv) (simp add: update_candidate_def)
    next
      case False
      with Cons.prems(2) have kv: "kv = (k, s)" by auto
      with Cons.prems(1) have "k \<notin> fst ` set observed" by simp
      note this kv
      then show ?thesis using other by (simp add: update_candidate_def update_conv')
    qed
  qed simp
  then show ?thesis
    using keys assms(2) by (auto simp: same_candidate_def list_all_iff)
qed

lemma candidate_keys:
  assumes "validate_manifest (JObj p) required = Inr u"
  shows "set (map fst (object_of (pget p ''candidate'' JNull))) = set CANDIDATE_KEYS"
proof -
  from assms obtain v c where "map_of p ''candidate'' = Some v" "validate_candidate v = Inr c"
    by (auto simp: validate_manifest_def ebind_Inr_iff pkey_Inr)
  then show ?thesis
    by (auto simp: validate_candidate_def ebind_Inr_iff all_of_Inr exact_keys_def Let_def pget_Some)
qed

lemma candidate_commit:
  assumes "validate_manifest (JObj p) required = Inr u"
  shows "\<exists>s. map_of (object_of (pget p ''candidate'' JNull)) ''commit_sha'' = Some (JStr s) \<and> HEX 40 s"
proof -
  from assms obtain v c where "map_of p ''candidate'' = Some v" "validate_candidate v = Inr c"
    by (auto simp: validate_manifest_def ebind_Inr_iff pkey_Inr)
  then show ?thesis
    using validate_candidate_Inr [of v c] by (auto simp: pget_Some)
qed

lemma authority_is_bound:
  assumes "validate_manifest (JObj p) required = Inr u" and "a \<in> set (section_of p ''authority_evidence_ids'')"
  shows "\<exists>e\<in>set (section_of p ''evidence''). of_field ''id'' e = a \<and> of_field ''binding'' e = JStr ''BOUND_AUTHORITY''"
proof -
  from accepted_parts [OF assms(1)] obtain commit by_id run_ids as fs us bs rs
    where ok: "parts_ok p required commit by_id run_ids as fs us bs rs" by blast
  then have "validate_authority_and_failures p by_id = Inr (as, fs)" by (simp add: parts_ok_def)
  note af = validate_authority_and_failures_Inr [OF this]
  with assms(2) obtain i where i: "a = JStr i" "i \<in> set as" by (auto simp: section_of_def pget_Some)
  with af obtain it where "dget by_id i = Some it" "map_of it ''binding'' = Some (JStr ''BOUND_AUTHORITY'')" by blast
  with accepted_by_id(2) [OF ok this(1)] i(1) show ?thesis by blast
qed

lemma pget_present: "pget p k JNull = v \<Longrightarrow> v \<noteq> JNull \<Longrightarrow> map_of p k = Some v"
  by (auto simp: pget_def split: option.splits)

section \<open>Items\<close>

lemma dput_same: "map_of p k = Some v \<Longrightarrow> dput k v p = p"
  by (induction p) (auto split: if_splits)

lemma pget_update: "pget (dput k v p) k' d = (if k' = k then v else pget p k' d)"
  by (simp add: pget_def update_conv')

lemma verify_item_checks:
  "verify_item ob roots now False item = Inr (item', sz) \<longleftrightarrow> item' = item
     \<and> (\<exists>digest. bytes_of_item ob roots item = Inr (digest, sz) \<and> pget item ''sha256'' JNull = JStr digest
          \<and> same_value (pget item ''bytes'' JNull) (JInt (int sz)) \<and> pget item ''capture_commit'' JNull \<noteq> JNull
          \<and> verify_capture_commit_and_time ob (render (pget item ''capture_commit'' JNull)) (render (pget item ''captured_at_utc'' (JStr []))) now = Inr ())"
  by (auto simp: verify_item_def ebind_Inr_iff)

lemma verify_item_fills:
  assumes "verify_item ob roots now True item = Inr (item', sz)"
  shows "\<exists>digest. item' = dput ''bytes'' (JInt (int sz)) (dput ''sha256'' (JStr digest) item)
    \<and> verify_item ob roots now False item' = Inr (item', sz)"
proof -
  from assms obtain digest where b: "bytes_of_item ob roots item = Inr (digest, sz)"
    and item': "item' = dput ''bytes'' (JInt (int sz)) (dput ''sha256'' (JStr digest) item)"
    and c: "pget item' ''capture_commit'' JNull \<noteq> JNull"
      "verify_capture_commit_and_time ob (render (pget item' ''capture_commit'' JNull)) (render (pget item' ''captured_at_utc'' (JStr []))) now = Inr ()"
    by (auto simp: verify_item_def ebind_Inr_iff)
  have "bytes_of_item ob roots item' = bytes_of_item ob roots item"
  proof -
    have same: "pget item' ''relative_path'' d = pget item ''relative_path'' d" "pget item' ''capture_commit'' d = pget item ''capture_commit'' d" for d
      by (simp_all add: item' pget_update)
    show ?thesis unfolding bytes_of_item_def same ..
  qed
  note b = b [folded this]
  then show ?thesis
    using c by (auto simp: verify_item_checks item' pget_update same_value_def)
qed

lemma filled_not_skipped:
  assumes "\<not> is_skipped item"
  shows "\<not> is_skipped (dput ''bytes'' b (dput ''sha256'' (JStr digest) item))"
  using assms by (auto simp: is_skipped_def pget_update)

lemma verify_items_fills:
  "verify_items ob roots now True vs = Inr (ws, files, bytes) \<Longrightarrow> verify_items ob roots now False ws = Inr (ws, files, bytes)"
proof (induction vs arbitrary: ws files bytes)
  case (Cons v vs)
  from Cons.prems obtain item where v: "v = JObj item"
    by (cases v) simp_all
  show ?case
  proof (cases "is_skipped item")
    case True
    with Cons v show ?thesis by (auto simp: ebind_Inr_iff)
  next
    case False
    with Cons.prems v obtain item' sz ws' f b where one: "verify_item ob roots now True item = Inr (item', sz)"
      and rest: "verify_items ob roots now True vs = Inr (ws', f, b)" and out: "ws = JObj item' # ws'" "files = Suc f" "bytes = sz + b"
      by (auto simp: ebind_Inr_iff)
    from verify_item_fills [OF one] filled_not_skipped [OF False] have "\<not> is_skipped item'" "verify_item ob roots now False item' = Inr (item', sz)"
      by auto
    with Cons.IH [OF rest] show ?thesis by (simp add: out)
  qed
qed simp

lemma verify_items_checks:
  "verify_items ob roots now False vs = Inr (ws, files, bytes) \<Longrightarrow> ws = vs
     \<and> (\<forall>v\<in>set vs. is_skipped (object_of v) \<or> (\<exists>sz. verify_item ob roots now False (object_of v) = Inr (object_of v, sz)))"
proof (induction vs arbitrary: ws files bytes)
  case (Cons v vs)
  then show ?case
    by (cases v) (auto simp: ebind_Inr_iff verify_item_checks split: if_splits)
qed simp

section \<open>The whole\<close>

definition verified_with ::
  "observer \<Rightarrow> (string \<Rightarrow> int \<Rightarrow> int \<Rightarrow> exn + payload) \<Rightarrow> (string \<Rightarrow> int \<Rightarrow> exn + jval \<times> string option) \<Rightarrow> (string \<times> location) list
     \<Rightarrow> string \<Rightarrow> int \<Rightarrow> int \<Rightarrow> bool \<Rightarrow> payload \<Rightarrow> payload \<Rightarrow> (string \<times> string) list \<Rightarrow> payload \<Rightarrow> nat \<Rightarrow> jval list \<Rightarrow> jval list \<Rightarrow> nat \<Rightarrow> nat
     \<Rightarrow> nat \<Rightarrow> run_jobs \<Rightarrow> artifact_totals \<Rightarrow> string \<Rightarrow> material_report \<Rightarrow> payload \<Rightarrow> bool" where
  "verified_with ob rl al roots repository budget now populate p c observed c' n vs ws files bytes job_count jobs totals raw r p' \<longleftrightarrow>
     budget > 0 \<and> validate_manifest (JObj p) False = Inr ()
     \<and> pget p ''candidate'' JNull = JObj c \<and> HEX 40 (render (pget c ''commit_sha'' (JStr [])))
     \<and> derive_candidate_from_git ob (render (pget c ''commit_sha'' JNull)) = Inr (observed, n)
     \<and> (if populate then c' = update_candidate c observed else same_candidate c observed \<and> c' = c)
     \<and> pget p ''evidence'' JNull = JList vs \<and> verify_items ob roots now populate vs = Inr (ws, files, bytes)
     \<and> p' = dput ''evidence'' (JList ws) (dput ''candidate'' (JObj c') p) \<and> validate_manifest (JObj p') False = Inr ()
     \<and> verify_ci_runs rl repository (objects_of (pget p' ''ci_runs'' JNull)) (0, []) = Inr (job_count, jobs)
     \<and> verify_ci_artifacts ob al (objects_of (pget p' ''ci_artifacts'' JNull)) (objects_of (pget p' ''ci_runs'' JNull)) jobs
          (map (\<lambda>e. (text_entry e ''id'', e)) (objects_of (JList ws))) c' repository = Inr totals
     \<and> scan_manifest p' = Inr raw \<and> int (length raw) \<le> budget
     \<and> r = \<lparr>mr_candidate_commit = snd (hd observed), mr_candidate_tree = snd (hd (tl observed)), mr_git_file_count = n,
          mr_evidence_files_verified = files, mr_evidence_bytes_streamed = bytes, mr_ci_runs_verified = length (objects_of (pget p' ''ci_runs'' JNull)),
          mr_ci_jobs_verified = job_count, mr_ci_artifacts_verified = length (objects_of (pget p' ''ci_artifacts'' JNull)),
          mr_ci_artifact_members_verified = at_members totals, mr_ci_artifact_bytes_downloaded = at_bytes totals, mr_manifest_bytes = length raw\<rparr>"

lemma candidate_case: "(case v of JObj c \<Rightarrow> if HEX 40 (f c) then Inr c else material_error m | _ \<Rightarrow> material_error m) = Inr c
    \<longleftrightarrow> v = JObj c \<and> HEX 40 (f c)"
  by (cases v) auto

lemma list_case: "(case v of JList vs \<Rightarrow> Inr vs | _ \<Rightarrow> material_error m) = Inr vs \<longleftrightarrow> v = JList vs"
  by (cases v) auto

lemma populate_case: "(if b then Inr x else ebind (require_that ok m) (\<lambda>_. Inr y)) = Inr z \<longleftrightarrow> (if b then z = x else ok \<and> z = y)"
  by (auto simp: ebind_Inr_iff)

lemma verify_materials_Inr:
  "verify_materials ob rl al roots repository budget now populate p = Inr (r, p') \<longleftrightarrow>
     (\<exists>c observed c' n vs ws files bytes job_count jobs totals raw.
        verified_with ob rl al roots repository budget now populate p c observed c' n vs ws files bytes job_count jobs totals raw r p')"
  by (cases populate) (simp_all add: verify_materials_def verified_with_def ebind_Inr_iff Let_def candidate_case list_case, blast+)

section \<open>Jobs\<close>

text \<open>The names of the jobs that GitHub reports for a run of the manifest.\<close>

definition observed_jobs :: "(string \<Rightarrow> int \<Rightarrow> int \<Rightarrow> exn + payload) \<Rightarrow> string \<Rightarrow> payload \<Rightarrow> string list" where
  "observed_jobs rl repository run = (case rl repository (int_entry run ''run_id'') (int_entry run ''run_attempt'') of
     Inl e \<Rightarrow> []
   | Inr observation \<Rightarrow> map (text_in ''name'') (elements (pget observation ''jobs'' JNull)))"

lemma verify_job_name: "verify_job run v seen = Inr seen' \<Longrightarrow> snd seen' = snd seen @ [text_in ''name'' v]"
  by (auto simp: verify_job_def ebind_Inr_iff text_in_def of_field_def split: jval.splits if_splits)

lemma verify_jobs_names: "verify_jobs run vs seen = Inr seen' \<Longrightarrow> snd seen' = snd seen @ map (text_in ''name'') vs"
  by (induction vs arbitrary: seen) (auto simp: ebind_Inr_iff dest!: verify_job_name)

lemma verify_ci_run_jobs:
  assumes "verify_ci_run rl repository run acc = Inr acc'"
  shows "snd acc' = dput (int_entry run ''run_id'') (dget_or (snd acc) (int_entry run ''run_id'') [] @ observed_jobs rl repository run) (snd acc)"
proof -
  from assms obtain observation where look: "rl repository (int_entry run ''run_id'') (int_entry run ''run_attempt'') = Inr observation"
    by (auto simp: verify_ci_run_def ebind_Inr_iff Let_def)
  from assms obtain observed jobs ids names where "pget observation ''run'' JNull = JObj observed" and jobs: "pget observation ''jobs'' JNull = JList jobs"
    and names: "verify_jobs run jobs ([], dget_or (snd acc) (int_entry run ''run_id'') []) = Inr (ids, names)"
    and out: "acc' = (fst acc + length jobs, dput (int_entry run ''run_id'') names (snd acc))"
    by (auto simp: verify_ci_run_def ebind_Inr_iff Let_def look split: jval.splits if_splits)
  from verify_jobs_names [OF names] show ?thesis
    by (simp add: out observed_jobs_def look jobs)
qed

lemma verify_ci_runs_jobs:
  assumes "verify_ci_runs rl repository runs acc = Inr acc'"
  shows "set (dget_or (snd acc') i []) = set (dget_or (snd acc) i []) \<union>
      (\<Union>run\<in>{run \<in> set runs. int_entry run ''run_id'' = i}. set (observed_jobs rl repository run))"
  using assms
proof (induction runs arbitrary: acc)
  case (Cons run runs)
  from Cons.prems obtain acc1 where 1: "verify_ci_run rl repository run acc = Inr acc1" and 2: "verify_ci_runs rl repository runs acc1 = Inr acc'"
    by (auto simp: ebind_Inr_iff)
  from Cons.IH [OF 2] verify_ci_run_jobs [OF 1] show ?case by auto
qed simp

lemma verify_ci_artifact_binds:
  assumes "verify_ci_artifact ob al runs_by_id jobs by_id candidate repository b acc = Inr acc'"
  shows "at_bound_jobs acc' = dput (int_entry b ''run_id'')
      (set_add (text_entry b ''job_name'') (dget_or (at_bound_jobs acc) (int_entry b ''run_id'') [])) (at_bound_jobs acc)"
    and "\<exists>metadata archive. al repository (int_entry b ''artifact_id'') = Inr (metadata, Some archive)
      \<and> ob_sha256 ob archive = text_entry b ''archive_sha256''"
proof -
  from assms obtain observation where look: "al repository (int_entry b ''artifact_id'') = Inr observation"
    by (auto simp: verify_ci_artifact_def ebind_Inr_iff Let_def)
  obtain v ar where va: "observation = (v, ar)" by (cases observation)
  note assms [unfolded verify_ci_artifact_def Let_def look ebind_simps va prod.case]
  then obtain metadata archive where o: "observation = (JObj metadata, Some archive)"
    by (cases v; cases ar) (simp_all add: va)
  note run = assms [unfolded verify_ci_artifact_def Let_def look ebind_simps o prod.case jval.case option.case ebind_Inr_iff require_that_Inr]
  from run show "at_bound_jobs acc' = dput (int_entry b ''run_id'')
      (set_add (text_entry b ''job_name'') (dget_or (at_bound_jobs acc) (int_entry b ''run_id'') [])) (at_bound_jobs acc)"
    by auto
  from run look o show "\<exists>metadata archive. al repository (int_entry b ''artifact_id'') = Inr (metadata, Some archive)
      \<and> ob_sha256 ob archive = text_entry b ''archive_sha256''"
    by blast
qed

lemma verify_artifacts_bind:
  assumes "verify_artifacts_from (verify_ci_artifact ob al runs_by_id jobs by_id candidate repository) bs acc = Inr t"
  shows "set (dget_or (at_bound_jobs t) i []) = set (dget_or (at_bound_jobs acc) i []) \<union>
      (\<lambda>b. text_entry b ''job_name'') ` {b \<in> set bs. int_entry b ''run_id'' = i}"
    and "\<forall>b\<in>set bs. \<exists>metadata archive. al repository (int_entry b ''artifact_id'') = Inr (metadata, Some archive)
      \<and> ob_sha256 ob archive = text_entry b ''archive_sha256''"
proof -
  have "set (dget_or (at_bound_jobs t) i []) = set (dget_or (at_bound_jobs acc) i []) \<union>
      (\<lambda>b. text_entry b ''job_name'') ` {b \<in> set bs. int_entry b ''run_id'' = i}
    \<and> (\<forall>b\<in>set bs. \<exists>metadata archive. al repository (int_entry b ''artifact_id'') = Inr (metadata, Some archive)
      \<and> ob_sha256 ob archive = text_entry b ''archive_sha256'')"
    using assms
  proof (induction bs arbitrary: acc)
    case (Cons b bs)
    from Cons.prems obtain acc1 where 1: "verify_ci_artifact ob al runs_by_id jobs by_id candidate repository b acc = Inr acc1"
      and 2: "verify_artifacts_from (verify_ci_artifact ob al runs_by_id jobs by_id candidate repository) bs acc1 = Inr t"
      by (auto simp: ebind_Inr_iff)
    have "set (dget_or (at_bound_jobs acc1) i []) = set (dget_or (at_bound_jobs acc) i []) \<union>
        (if int_entry b ''run_id'' = i then {text_entry b ''job_name''} else {})"
      by (simp add: verify_ci_artifact_binds(1) [OF 1])
    with Cons.IH [OF 2] verify_ci_artifact_binds(2) [OF 1] show ?case
      by (auto split: if_splits)
  qed simp
  then show "set (dget_or (at_bound_jobs t) i []) = set (dget_or (at_bound_jobs acc) i []) \<union>
      (\<lambda>b. text_entry b ''job_name'') ` {b \<in> set bs. int_entry b ''run_id'' = i}"
    and "\<forall>b\<in>set bs. \<exists>metadata archive. al repository (int_entry b ''artifact_id'') = Inr (metadata, Some archive)
      \<and> ob_sha256 ob archive = text_entry b ''archive_sha256''" by blast+
qed

lemma same_jobs_all:
  assumes "same_jobs a b"
  shows "set (dget_or a k []) = set (dget_or b k [])"
proof (cases "k \<in> set (map fst a)")
  case True
  with assms show ?thesis unfolding same_jobs_def list_all_iff by blast
next
  case False
  with assms have "k \<notin> set (map fst b)" unfolding same_jobs_def by blast
  with False show ?thesis by (simp add: dget_or_def flip: map_of_eq_None_iff)
qed

text \<open>The observed jobs are exactly the bound ones.\<close>

lemma verify_ci_artifacts_Inr:
  assumes "verify_ci_artifacts ob al artifacts runs jobs by_id candidate repository = Inr t"
    and "verify_ci_runs rl repository runs (0, []) = Inr (n, jobs)"
  shows "(\<exists>run\<in>set runs. int_entry run ''run_id'' = i \<and> name \<in> set (observed_jobs rl repository run)) \<longleftrightarrow>
      (\<exists>b\<in>set artifacts. int_entry b ''run_id'' = i \<and> text_entry b ''job_name'' = name)"
    and "\<forall>b\<in>set artifacts. \<exists>metadata archive. al repository (int_entry b ''artifact_id'') = Inr (metadata, Some archive)
      \<and> ob_sha256 ob archive = text_entry b ''archive_sha256''"
proof -
  from assms(1) obtain runs_by_id where arts: "verify_artifacts_from (verify_ci_artifact ob al runs_by_id jobs by_id candidate repository) artifacts
      \<lparr>at_bound_jobs = [], at_members = 0, at_bytes = 0\<rparr> = Inr t" and same: "same_jobs jobs (at_bound_jobs t)"
    by (auto simp: verify_ci_artifacts_def ebind_Inr_iff Let_def)
  have "set (dget_or jobs i []) = (\<Union>run\<in>{run \<in> set runs. int_entry run ''run_id'' = i}. set (observed_jobs rl repository run))"
    using verify_ci_runs_jobs [OF assms(2), of i] by simp
  moreover have "set (dget_or (at_bound_jobs t) i []) = (\<lambda>b. text_entry b ''job_name'') ` {b \<in> set artifacts. int_entry b ''run_id'' = i}"
    using verify_artifacts_bind(1) [OF arts, of i] by simp
  ultimately have "(\<Union>run\<in>{run \<in> set runs. int_entry run ''run_id'' = i}. set (observed_jobs rl repository run))
      = (\<lambda>b. text_entry b ''job_name'') ` {b \<in> set artifacts. int_entry b ''run_id'' = i}"
    using same_jobs_all [OF same, of i] by simp
  then have "name \<in> (\<Union>run\<in>{run \<in> set runs. int_entry run ''run_id'' = i}. set (observed_jobs rl repository run))
      \<longleftrightarrow> name \<in> (\<lambda>b. text_entry b ''job_name'') ` {b \<in> set artifacts. int_entry b ''run_id'' = i}" by simp
  then show "(\<exists>run\<in>set runs. int_entry run ''run_id'' = i \<and> name \<in> set (observed_jobs rl repository run)) \<longleftrightarrow>
      (\<exists>b\<in>set artifacts. int_entry b ''run_id'' = i \<and> text_entry b ''job_name'' = name)" by auto
  show "\<forall>b\<in>set artifacts. \<exists>metadata archive. al repository (int_entry b ''artifact_id'') = Inr (metadata, Some archive)
      \<and> ob_sha256 ob archive = text_entry b ''archive_sha256''"
    by (rule verify_artifacts_bind(2) [OF arts])
qed

end
