(* ===== verification/Packet_Text.thy ===== *)
theory Packet_Text
  imports Packet_Facts
begin

text \<open>
  The scan for sensitive text looks at the printed manifest. Because every text is printed between quotation
  marks, a manifest is flagged only for what stands inside one of its texts: the scan is decided text by text.
\<close>

section \<open>A scan with two registers\<close>

text \<open>The last character that is no space, and how much of \<open>du\<close> has just been read.\<close>

type_synonym scan_state = "char \<times> nat"

definition scan_step :: "char \<Rightarrow> scan_state \<Rightarrow> scan_state" where
  "scan_step c st = (if is_space c then fst st else c,
     if c = CHR ''d'' then 1 else if c = CHR ''u'' \<and> snd st = 1 then 2 else 0)"

definition scan_ok :: "char \<Rightarrow> scan_state \<Rightarrow> bool" where
  "scan_ok c st \<longleftrightarrow> \<not> ((c = CHR '':'' \<or> c = CHR ''='') \<and> (fst st = CHR ''n'' \<or> fst st = CHR ''y'')) \<and> \<not> (snd st = 2 \<and> decimal_digit c)"

fun calm :: "scan_state \<Rightarrow> string \<Rightarrow> bool" where
  "calm st [] = True"
| "calm st (c # s) \<longleftrightarrow> scan_ok c st \<and> calm (scan_step c st) s"

fun scanned :: "scan_state \<Rightarrow> string \<Rightarrow> scan_state" where
  "scanned st [] = st"
| "scanned st (c # s) = scanned (scan_step c st) s"

lemma calm_append [simp]: "calm st (a @ b) \<longleftrightarrow> calm st a \<and> calm (scanned st a) b"
  by (induction a arbitrary: st) auto

lemma scanned_append [simp]: "scanned st (a @ b) = scanned (scanned st a) b"
  by (induction a arbitrary: st) auto

text \<open>What is calm has none of the patterns.\<close>

lemma no_separator: "calm st s \<Longrightarrow> fst st = CHR ''n'' \<or> fst st = CHR ''y'' \<Longrightarrow> after_separator s = []"
proof (induction s arbitrary: st)
  case (Cons c s)
  show ?case
  proof (cases "is_space c")
    case True
    with Cons.prems have "after_separator s = []"
      by (intro Cons.IH [of "scan_step c st"]) (auto simp: scan_step_def)
    with True show ?thesis by (simp add: after_separator_def skip_spaces_def)
  next
    case False
    with Cons.prems show ?thesis by (auto simp: after_separator_def skip_spaces_def scan_ok_def)
  qed
qed (simp add: after_separator_def skip_spaces_def)

lemma after_words_iff: "t \<in> set (after_words ws s) \<longleftrightarrow> (\<exists>w\<in>set ws. s = w @ t)"
proof -
  have "take (length w) s = w \<longleftrightarrow> (\<exists>t. s = w @ t)" for w
    by (metis append_eq_conv_conj append_take_drop_id)
  then show ?thesis by (auto simp: image_iff)
qed

lemma calm_no_word:
  assumes "calm st s" and "t \<in> set (after_words ws s)"
    and "\<And>w st. w \<in> set ws \<Longrightarrow> fst (scanned st w) = CHR ''n'' \<or> fst (scanned st w) = CHR ''y''"
  shows "after_separator t = []"
proof -
  from assms(2) obtain w where w: "w \<in> set ws" "s = w @ t" using after_words_iff by blast
  with assms(1) have "calm (scanned st w) t" by simp
  from no_separator [OF this assms(3) [OF w(1)]] show ?thesis .
qed

lemma calm_not_account: "calm st s \<Longrightarrow> \<not> starts_account previous s"
proof
  assume calm: "calm st s" and acc: "starts_account previous s"
  then have du: "take 2 s = ''du''" and digits: "takeWhile decimal_digit (drop 2 s) \<noteq> []"
    unfolding starts_account_def by auto
  from digits obtain c t where ct: "drop 2 s = c # t" "decimal_digit c"
    by (cases "drop 2 s") (simp_all split: if_splits)
  have "s = ''du'' @ c # t"
    using append_take_drop_id [of 2 s] du ct(1) by simp
  with calm ct(2) show False
    by (simp add: scan_ok_def scan_step_def)
qed

lemma calm_not_sensitive: "calm st s \<Longrightarrow> \<not> sensitive_from previous s"
proof (induction s arbitrary: st previous)
  case (Cons c s)
  have "\<not> starts_authorization (c # s)"
  proof -
    have "after_separator t = []" if "t \<in> set (after_words [''authorization''] (c # s))" for t
      by (rule calm_no_word [OF Cons.prems that]) (simp add: scan_step_def is_space_def)
    then show ?thesis by (auto simp: starts_authorization_def list_ex_iff simp del: after_words.simps)
  qed
  moreover have "\<not> starts_token (c # s)"
  proof -
    have "after_separator t = []" if "t \<in> set (after_words [''apikey'', ''api_key'', ''api-key'', ''accesstoken'', ''access_token'', ''access-token'',
        ''refreshtoken'', ''refresh_token'', ''refresh-token''] (c # s))" for t
      by (rule calm_no_word [OF Cons.prems that]) (auto simp: scan_step_def is_space_def)
    then show ?thesis by (auto simp: starts_token_def list_ex_iff simp del: after_words.simps)
  qed
  moreover have "\<not> starts_account previous (c # s)"
    by (rule calm_not_account [OF Cons.prems])
  moreover have "\<not> sensitive_from (Some c) s"
    using Cons.prems by (intro Cons.IH [of "scan_step c st"]) simp
  ultimately show ?case by simp
qed simp

section \<open>Printed text, piece by piece\<close>

definition neutral :: "scan_state \<Rightarrow> bool" where
  "neutral st \<longleftrightarrow> fst st \<noteq> CHR ''n'' \<and> fst st \<noteq> CHR ''y'' \<and> snd st = 0"

definition calm_through :: "string \<Rightarrow> bool" where
  "calm_through t \<longleftrightarrow> (\<forall>st. neutral st \<longrightarrow> calm st (map lower_char t) \<and> neutral (scanned st (map lower_char t)))"

text \<open>A text is clean when its scan from its opening to its closing quotation mark finds nothing.\<close>

definition clean_text :: "string \<Rightarrow> bool" where
  "clean_text s \<longleftrightarrow> calm (CHR 0x22, 0) (map lower_char (concat (map quote_char s)) @ [CHR 0x22])"

fun clean_value :: "jval \<Rightarrow> bool" where
  "clean_value (JStr s) = clean_text s"
| "clean_value (JList xs) = (\<forall>x\<in>set xs. clean_value x)"
| "clean_value (JObj ps) = (\<forall>kv\<in>set ps. clean_text (fst kv) \<and> clean_value (snd kv))"
| "clean_value (JTime t) = False"
| "clean_value (JFmt xs) = False"
| "clean_value v = True"

lemma calm_through_append: "calm_through a \<Longrightarrow> calm_through b \<Longrightarrow> calm_through (a @ b)"
  unfolding calm_through_def map_append calm_append scanned_append by blast

lemma calm_through_Nil [simp]: "calm_through []"
  by (simp add: calm_through_def)

definition mild :: "char \<Rightarrow> bool" where
  "mild c \<longleftrightarrow> lower_char c \<noteq> CHR ''n'' \<and> lower_char c \<noteq> CHR ''y'' \<and> lower_char c \<noteq> CHR ''d''"

lemma calm_through_mild: "list_all mild t \<Longrightarrow> calm_through t"
proof (induction t)
  case (Cons c t)
  then have "calm_through t" "mild c" by simp_all
  then show ?case by (auto simp: calm_through_def neutral_def mild_def scan_ok_def scan_step_def split: if_splits)
qed simp

lemma calm_through_join: "calm_through sep \<Longrightarrow> \<forall>x\<in>set xs. calm_through x \<Longrightarrow> calm_through (join sep xs)"
  by (induction sep xs rule: join.induct) (auto intro: calm_through_append)

lemma calm_through_quoted: "clean_text s \<Longrightarrow> calm_through (quoted s)"
  by (auto simp: calm_through_def clean_text_def quoted_def neutral_def scan_ok_def scan_step_def lower_char_def is_space_def Let_def decimal_digit_def)

lemma mild_low: "(of_char c :: nat) < 65 \<Longrightarrow> mild c"
  by (auto simp: mild_def lower_char_def Let_def)

lemma mild_digit: "d < 10 \<Longrightarrow> mild (char_of (48 + d :: nat))"
  by (rule mild_low) simp

lemma calm_through_Cons: "mild c \<Longrightarrow> calm_through t \<Longrightarrow> calm_through (c # t)"
  using calm_through_append [of "[c]" t] calm_through_mild [of "[c]"] by simp

lemma mild_marks [simp]: "mild CHR '',''" "mild CHR '':''" "mild CHR '' ''" "mild CHR 0x0A" "mild CHR ''-''" "mild CHR ''.''" "mild CHR ''/''"
  "mild CHR ''0''"
  by (rule mild_low, simp)+

lemma mild_str_nat: "list_all mild (str_nat n)"
proof (induction n rule: str_nat.induct)
  case (1 n)
  show ?case
    using 1 mild_digit [of n] mild_digit [of "n mod 10"] by (subst str_nat.simps) auto
qed

lemma mild_str_int: "list_all mild (str_int i)"
  by (simp add: str_int_def mild_str_nat)

lemma mild_float: "list_all mild (float_text r)"
  by (simp add: float_text_def str_rat_def mild_str_int split: prod.splits)

lemma calm_through_newline: "calm_through (newline n)"
  by (rule calm_through_mild) (simp add: newline_def list_all_iff)

lemma calm_through_mark: "calm_through '',''" "calm_through '': ''" "calm_through ''[''" "calm_through '']''" "calm_through ''{''" "calm_through ''}''"
  by (rule calm_through_mild, simp add: mild_def lower_char_def)+

lemma calm_through_words: "calm_through ''null''" "calm_through ''true''" "calm_through ''false''"
  by (auto simp: calm_through_def neutral_def scan_ok_def scan_step_def lower_char_def is_space_def decimal_digit_def)

lemma calm_through_bracket: "calm_through a \<Longrightarrow> calm_through b \<Longrightarrow> \<forall>x\<in>set xs. calm_through x \<Longrightarrow> calm_through (bracket a n xs b)"
  unfolding bracket_def
  by (auto intro!: calm_through_append calm_through_Cons calm_through_join calm_through_newline split: if_splits)

lemma calm_through_json: "clean_value v \<Longrightarrow> calm_through (json_text n v)"
proof (induction n v rule: json_text.induct)
  case (9 n ps)
  have "\<forall>x\<in>set (map (\<lambda>(k, t). quoted k @ '': '' @ t) (sort_key fst (map (\<lambda>kv. (fst kv, json_text (Suc n) (snd kv))) ps))). calm_through x"
    using 9 by (auto intro!: calm_through_append calm_through_Cons calm_through_quoted)
  then show ?case
    unfolding json_text.simps by (intro calm_through_bracket calm_through_mark)
qed (auto simp: calm_through_words calm_through_quoted calm_through_mild mild_str_int mild_float intro!: calm_through_bracket calm_through_mark)

text \<open>Texts that are clean one by one make a manifest that passes the scan.\<close>

lemma clean_manifest_passes:
  assumes "clean_value (JObj p)"
  shows "\<not> sensitive_text (json_text n (JObj p) @ [CHR 0x0A])"
proof -
  have "calm_through (json_text n (JObj p) @ [CHR 0x0A])"
    by (intro calm_through_append calm_through_json assms calm_through_mild) (simp add: mild_def lower_char_def)
  then have "calm (CHR '' '', 0) (map lower_char (json_text n (JObj p) @ [CHR 0x0A]))"
    unfolding calm_through_def by (simp add: neutral_def)
  then show ?thesis
    unfolding sensitive_text_def by (rule calm_not_sensitive)
qed

end
