(* ===== verification/Evidence_Observed.thy ===== *)
theory Evidence_Observed
  imports Packet_Facts
begin

text \<open>
  What a verified manifest says of the world, in terms of the answers of git, of the file system and of GitHub
  alone: each predicate here names the answers a reader would look up, and no check of the verifier.
\<close>

section \<open>Git\<close>

definition git_says :: "observer \<Rightarrow> string list \<Rightarrow> string \<Rightarrow> bool" where
  "git_says ob args out \<longleftrightarrow> (\<exists>err. ob_git ob args = Inr (0, out, err))"

text \<open>A commit of git with this tree, committed at this instant.\<close>

definition git_commit :: "observer \<Rightarrow> string \<Rightarrow> string \<Rightarrow> int \<Rightarrow> bool" where
  "git_commit ob commit tree t \<longleftrightarrow>
     (\<exists>kind tree_out when_out. git_says ob [''cat-file'', ''-t'', commit] kind \<and> strip kind = ''commit''
        \<and> git_says ob [''show'', ''-s'', ''--format=%T'', commit] tree_out \<and> strip tree_out = tree
        \<and> git_says ob [''show'', ''-s'', ''--format=%cI'', commit] when_out \<and> ob_instant ob (strip when_out) = Some t)"

text \<open>The bytes of a path at a commit.\<close>

definition blob_bytes :: "observer \<Rightarrow> string \<Rightarrow> string \<Rightarrow> string" where
  "blob_bytes ob commit p = (case ob_git ob [''show'', commit @ '':'' @ p] of Inr (code, out, err) \<Rightarrow> out | Inl e \<Rightarrow> [])"

definition in_git :: "observer \<Rightarrow> string \<Rightarrow> string \<Rightarrow> bool" where
  "in_git ob commit p \<longleftrightarrow> git_says ob [''show'', commit @ '':'' @ p] (blob_bytes ob commit p)"

text \<open>The bytes whose hash names a set of files: each name and each content ends in a zero byte, in the order of the names.\<close>

definition named_bytes :: "observer \<Rightarrow> string \<Rightarrow> string list \<Rightarrow> string" where
  "named_bytes ob commit ps = concat (map (\<lambda>p. p @ [CHR 0x00] @ blob_bytes ob commit p @ [CHR 0x00]) (sort (remdups ps)))"

text \<open>
  The candidate is what the objects of git say: commit and tree; the hashes of its sources, of its example
  configurations and of its lock file, over the bytes in git; and the same three hashes in the \<open>STATE.json\<close> of the
  commit, which keeps the gate read-only.
\<close>

definition candidate_in_git :: "observer \<Rightarrow> payload \<Rightarrow> bool" where
  "candidate_in_git ob c \<longleftrightarrow> (\<exists>commit tree t listing paths state tree_state gate.
     map_of c ''commit_sha'' = Some (JStr commit) \<and> map_of c ''tree_sha'' = Some (JStr tree) \<and> git_commit ob commit tree t
     \<and> git_says ob [''ls-tree'', ''-r'', ''-z'', ''--name-only'', commit] listing
     \<and> paths = filter (\<lambda>p. p \<noteq> []) (split_on (CHR 0x00) [] listing)
     \<and> {''uv.lock'', ''STATE.json''} \<subseteq> set paths
     \<and> (\<forall>p \<in> set paths. is_source_path p \<or> is_config_path p \<or> p \<in> {''uv.lock'', ''STATE.json''} \<longrightarrow> in_git ob commit p)
     \<and> map_of c ''source_tree_sha256'' = Some (JStr (ob_sha256 ob (named_bytes ob commit (filter is_source_path paths))))
     \<and> map_of c ''config_tree_sha256'' = Some (JStr (ob_sha256 ob (named_bytes ob commit (filter is_config_path paths))))
     \<and> map_of c ''dependency_lock_sha256'' = Some (JStr (ob_sha256 ob (blob_bytes ob commit ''uv.lock'')))
     \<and> ob_json ob (blob_bytes ob commit ''STATE.json'') = Some (JObj state)
     \<and> map_of state ''tree'' = Some (JObj tree_state) \<and> map_of state ''gate_status'' = Some (JObj gate)
     \<and> (\<forall>k \<in> {''source_tree_sha256'', ''config_tree_sha256'', ''dependency_lock_sha256''}. map_of tree_state k = map_of c k)
     \<and> map_of gate ''gate_b2'' = Some (JStr ''READ_ONLY_IN_PROGRESS'')
     \<and> map_of gate ''order_authorization'' = Some (JStr ''NONE'')
     \<and> map_of gate ''trading_adapter'' = Some (JStr ''NOT_IMPLEMENTED''))"

lemma run_git_says: "run_git ob args = Inr out \<longleftrightarrow> git_says ob args out"
  by (auto simp: run_git_def git_says_def split: sum.splits if_splits)

lemma git_text_says: "git_text ob args = Inr x \<Longrightarrow> \<exists>out. git_says ob args out \<and> x = strip out"
  by (auto simp: git_text_def run_git_says ebind_Inr_iff split: if_splits)

lemma git_blob_says: "git_blob ob commit p = Inr bytes \<Longrightarrow> bytes = blob_bytes ob commit p \<and> in_git ob commit p"
  by (auto simp: git_blob_def run_git_says in_git_def blob_bytes_def git_says_def)

lemma commit_identity_says:
  assumes "commit_identity ob commit = Inr (tree, t)"
  shows "git_commit ob commit tree t"
proof -
  from assms obtain kind when_text where k: "git_text ob [''cat-file'', ''-t'', commit] = Inr kind" "kind = ''commit''"
      "git_text ob [''show'', ''-s'', ''--format=%T'', commit] = Inr tree"
      "git_text ob [''show'', ''-s'', ''--format=%cI'', commit] = Inr when_text" "ob_instant ob when_text = Some t"
    by (auto simp: commit_identity_def ebind_Inr_iff split: option.splits)
  from git_text_says [OF k(1)] git_text_says [OF k(3)] git_text_says [OF k(4)] k(2,5) show ?thesis
    unfolding git_commit_def by blast
qed

lemma named_blobs_says:
  "named_blobs ob commit ps = Inr bytes \<Longrightarrow> (\<forall>p \<in> set ps. in_git ob commit p)
     \<and> bytes = concat (map (\<lambda>p. p @ [CHR 0x00] @ blob_bytes ob commit p @ [CHR 0x00]) ps)"
  by (induction ps arbitrary: bytes) (auto simp: ebind_Inr_iff dest!: git_blob_says)

lemma digest_says:
  "digest_named_git_blobs ob commit ps = Inr d \<Longrightarrow>
     (\<forall>p \<in> set ps. in_git ob commit p) \<and> d = ob_sha256 ob (named_bytes ob commit ps)"
  by (auto simp: digest_named_git_blobs_def ebind_Inr_iff named_bytes_def dest!: named_blobs_says)

lemma all_values_map:
  "all_values v kvs message = Inr u \<Longrightarrow> kvs \<noteq> [] \<Longrightarrow>
     \<exists>p. v = JObj p \<and> (\<forall>(k, s) \<in> set kvs. map_of p k = Some (JStr s))"
proof (induction kvs)
  case (Cons kv kvs)
  obtain k s where kv: "kv = (k, s)" by (cases kv)
  with Cons.prems(1) obtain p where p: "v = JObj p" "pget p k JNull = JStr s" "all_values v kvs message = Inr u"
    by (cases v) (auto simp: ebind_Inr_iff get_of_def)
  then have "map_of p k = Some (JStr s)"
    by (simp add: pget_present)
  with Cons.IH p kv show ?case
    by (cases "kvs = []") auto
qed simp

lemma get_of_present:
  assumes "get_of v k (JObj []) = Inr x" and "x = JObj p" and "p \<noteq> []"
  shows "\<exists>obj. v = JObj obj \<and> map_of obj k = Some (JObj p)"
  using assms by (cases v) (auto simp: get_of_def pget_def split: option.splits)

lemma candidate_observed:
  assumes "derive_candidate_from_git ob commit = Inr (observed, n)" and "same_candidate c observed"
  shows "candidate_in_git ob c"
proof -
  from assms(1) obtain tree t paths state_raw v tree_v gate_v sd cd lock
    where id: "commit_identity ob commit = Inr (tree, t)" and paths: "git_paths ob commit = Inr paths"
      and there: "''uv.lock'' \<in> set paths" "''STATE.json'' \<in> set paths"
      and raw: "git_blob ob commit ''STATE.json'' = Inr state_raw" and v: "ob_json ob state_raw = Some v"
      and parts: "get_of v ''tree'' (JObj []) = Inr tree_v" "get_of v ''gate_status'' (JObj []) = Inr gate_v"
      and sd: "digest_named_git_blobs ob commit (filter is_source_path paths) = Inr sd"
      and cd: "digest_named_git_blobs ob commit (filter is_config_path paths) = Inr cd"
      and lock: "git_blob ob commit ''uv.lock'' = Inr lock"
      and tv: "all_values tree_v [(''source_tree_sha256'', sd), (''config_tree_sha256'', cd), (''dependency_lock_sha256'', ob_sha256 ob lock)]
        (\<lambda>k _. [JStr ''candidate STATE.json '', JStr k, JStr '' does not match exact Git-object bytes'']) = Inr ()"
      and gv: "all_values gate_v [(''gate_b2'', ''READ_ONLY_IN_PROGRESS''), (''order_authorization'', ''NONE''), (''trading_adapter'', ''NOT_IMPLEMENTED'')]
        (\<lambda>k s. [JStr ''candidate STATE.json '', JStr k, JStr '' must remain '', JStr s]) = Inr ()"
      and out: "observed = [(''commit_sha'', commit), (''tree_sha'', tree), (''source_tree_sha256'', sd), (''config_tree_sha256'', cd),
        (''dependency_lock_sha256'', ob_sha256 ob lock)]"
    by (auto simp: derive_candidate_from_git_def ebind_Inr_iff Let_def split: option.splits)
  from all_values_map [OF tv] obtain ts where ts: "tree_v = JObj ts" "map_of ts ''source_tree_sha256'' = Some (JStr sd)"
      "map_of ts ''config_tree_sha256'' = Some (JStr cd)" "map_of ts ''dependency_lock_sha256'' = Some (JStr (ob_sha256 ob lock))"
    by auto
  from all_values_map [OF gv] obtain gs where gs: "gate_v = JObj gs" "map_of gs ''gate_b2'' = Some (JStr ''READ_ONLY_IN_PROGRESS'')"
      "map_of gs ''order_authorization'' = Some (JStr ''NONE'')" "map_of gs ''trading_adapter'' = Some (JStr ''NOT_IMPLEMENTED'')"
    by auto
  from get_of_present [OF parts(1) ts(1)] get_of_present [OF parts(2) gs(1)] ts(2) gs(2) obtain st
    where st: "v = JObj st" "map_of st ''tree'' = Some (JObj ts)" "map_of st ''gate_status'' = Some (JObj gs)"
    by fastforce
  from paths obtain listing where listing: "git_says ob [''ls-tree'', ''-r'', ''-z'', ''--name-only'', commit] listing"
      "paths = filter (\<lambda>p. p \<noteq> []) (split_on (CHR 0x00) [] listing)"
    by (auto simp: git_paths_def ebind_Inr_iff Let_def run_git_says)
  have fields: "map_of c ''commit_sha'' = Some (JStr commit)" "map_of c ''tree_sha'' = Some (JStr tree)"
      "map_of c ''source_tree_sha256'' = Some (JStr sd)" "map_of c ''config_tree_sha256'' = Some (JStr cd)"
      "map_of c ''dependency_lock_sha256'' = Some (JStr (ob_sha256 ob lock))"
    using assms(2) by (simp_all add: same_candidate_def out)
  note sd = digest_says [OF sd] and cd = digest_says [OF cd] and lock = git_blob_says [OF lock] and raw = git_blob_says [OF raw]
  have all_in: "\<forall>p \<in> set paths. is_source_path p \<or> is_config_path p \<or> p \<in> {''uv.lock'', ''STATE.json''} \<longrightarrow> in_git ob commit p"
    using sd cd lock raw by auto
  show ?thesis
    unfolding candidate_in_git_def
    by (rule exI [of _ commit], rule exI [of _ tree], rule exI [of _ t], rule exI [of _ listing], rule exI [of _ paths],
        rule exI [of _ st], rule exI [of _ ts], rule exI [of _ gs])
       (use fields commit_identity_says [OF id] listing there all_in sd cd lock raw v st ts gs in simp)
qed

section \<open>Bytes\<close>

text \<open>A regular file below the root its alias stands for, read to its end, while it did not change.\<close>

definition file_holds :: "observer \<Rightarrow> (string \<times> location) list \<Rightarrow> string \<Rightarrow> string \<Rightarrow> bool" where
  "file_holds ob roots relative bytes \<longleftrightarrow> (\<exists>al rest r rdir loc st chunks.
     posix_parts relative = al # rest \<and> rest \<noteq> [] \<and> dget roots al = Some r \<and> ob_resolve ob r = Inr rdir
     \<and> ob_kind ob rdir = Directory \<and> ob_resolve ob (rdir @ rest) = Inr loc \<and> take (length rdir) loc = rdir \<and> ob_kind ob loc = Regular
     \<and> ob_read ob loc = Inr (st, chunks, st) \<and> bytes = concat (takeWhile (\<lambda>c. c \<noteq> []) chunks) \<and> bytes \<noteq> []
     \<and> int (length bytes) = st_size st)"

definition repository_path :: "string \<Rightarrow> string" where
  "repository_path relative = (case tl (posix_segments relative) of [] \<Rightarrow> ''.'' | s # ss \<Rightarrow> join ''/'' (s # ss))"

text \<open>The bytes an item of evidence names: at its commit in git, or in a file below a controlled root.\<close>

definition item_bytes :: "observer \<Rightarrow> (string \<times> location) list \<Rightarrow> jval \<Rightarrow> string \<Rightarrow> bool" where
  "item_bytes ob roots e bytes \<longleftrightarrow>
     (let relative = render (pget (object_of e) ''relative_path'' (JStr [])) in
      if take 5 relative = ''repo/''
      then git_says ob [''show'', render (pget (object_of e) ''capture_commit'' (JStr [])) @ '':'' @ repository_path relative] bytes
      else file_holds ob roots relative bytes)"

lemma stream_says:
  assumes "resolve_evidence_path ob relative roots = Inr loc" and "stream_file_identity ob loc = Inr (digest, n)"
  shows "\<exists>bytes. file_holds ob roots relative bytes \<and> digest = ob_sha256 ob bytes \<and> n = length bytes"
proof -
  from assms(2) obtain st chunks where s: "ob_read ob loc = Inr (st, chunks, st)"
      "concat (takeWhile (\<lambda>c. c \<noteq> []) chunks) \<noteq> []"
      "int (length (concat (takeWhile (\<lambda>c. c \<noteq> []) chunks))) = st_size st"
      "digest = ob_sha256 ob (concat (takeWhile (\<lambda>c. c \<noteq> []) chunks))" "n = length (concat (takeWhile (\<lambda>c. c \<noteq> []) chunks))"
    by (auto simp: stream_file_identity_def Let_def split: sum.splits if_splits)
  from assms(1) obtain al rest r rdir where "posix_parts relative = al # rest" "rest \<noteq> []" "dget roots al = Some r"
      "ob_resolve ob r = Inr rdir" "ob_kind ob rdir = Directory" "ob_resolve ob (rdir @ rest) = Inr loc" "take (length rdir) loc = rdir"
      "ob_kind ob loc = Regular"
    by (auto simp: resolve_evidence_path_def split: list.splits option.splits sum.splits if_splits)
  with s show ?thesis
    unfolding file_holds_def by blast
qed

lemma bytes_of_item_says:
  assumes "bytes_of_item ob roots (object_of e) = Inr (digest, n)"
  shows "\<exists>bytes. item_bytes ob roots e bytes \<and> digest = ob_sha256 ob bytes \<and> n = length bytes"
proof (cases "take 5 (render (pget (object_of e) ''relative_path'' (JStr []))) = ''repo/''")
  case True
  with assms show ?thesis
    by (auto simp: bytes_of_item_def item_bytes_def Let_def ebind_Inr_iff git_blob_def run_git_says repository_path_def
        split: if_splits list.splits)
next
  case False
  with assms obtain loc where "resolve_evidence_path ob (render (pget (object_of e) ''relative_path'' (JStr []))) roots = Inr loc"
      "stream_file_identity ob loc = Inr (digest, n)"
    by (auto simp: bytes_of_item_def Let_def ebind_Inr_iff)
  from stream_says [OF this] False show ?thesis
    by (simp add: item_bytes_def Let_def)
qed

section \<open>Time\<close>

text \<open>An instant in the text of a manifest.\<close>

definition manifest_instant :: "observer \<Rightarrow> string \<Rightarrow> int option" where
  "manifest_instant ob s = ob_instant ob (concat (map (\<lambda>c. if c = CHR ''Z'' then ''+00:00'' else [c]) s))"

definition captured_between :: "observer \<Rightarrow> int \<Rightarrow> jval \<Rightarrow> bool" where
  "captured_between ob now e \<longleftrightarrow> (\<exists>commit tree committed captured. render (of_field ''capture_commit'' e) = commit
     \<and> git_commit ob commit tree committed
     \<and> manifest_instant ob (render (pget (object_of e) ''captured_at_utc'' (JStr []))) = Some captured
     \<and> committed \<le> captured \<and> captured \<le> now)"

lemma capture_says:
  assumes "verify_capture_commit_and_time ob (render (of_field ''capture_commit'' e))
    (render (pget (object_of e) ''captured_at_utc'' (JStr []))) now = Inr ()"
  shows "captured_between ob now e"
  using assms
  by (auto simp: verify_capture_commit_and_time_def ebind_Inr_iff captured_between_def manifest_instant_def
      split: option.splits dest!: commit_identity_says)

text \<open>Every item bound as authority.\<close>

lemma bound_items_observed:
  assumes "verify_items ob roots now False vs = Inr (ws, files, bytes)" and "e \<in> set vs"
    and "of_field ''binding'' e = JStr ''BOUND_AUTHORITY''"
  shows "(\<exists>bytes. item_bytes ob roots e bytes \<and> of_field ''sha256'' e = JStr (ob_sha256 ob bytes)
      \<and> same_value (of_field ''bytes'' e) (JInt (int (length bytes)))) \<and> captured_between ob now e"
proof -
  have "\<not> is_skipped (object_of e)"
    using assms(3) by (simp add: is_skipped_def of_field_def)
  with verify_items_checks [OF assms(1)] assms(2) obtain n
    where n: "verify_item ob roots now False (object_of e) = Inr (object_of e, n)" by blast
  then obtain digest where d: "bytes_of_item ob roots (object_of e) = Inr (digest, n)" "of_field ''sha256'' e = JStr digest"
      "same_value (of_field ''bytes'' e) (JInt (int n))"
      "verify_capture_commit_and_time ob (render (of_field ''capture_commit'' e))
        (render (pget (object_of e) ''captured_at_utc'' (JStr []))) now = Inr ()"
    unfolding verify_item_checks of_field_def by blast
  from bytes_of_item_says [OF d(1)] capture_says [OF d(4)] d(2,3) show ?thesis by auto
qed

section \<open>GitHub\<close>

text \<open>GitHub's answer for a run of the manifest: this attempt of this run of the workflow on this commit, completed with success.\<close>

definition run_succeeded :: "(string \<Rightarrow> int \<Rightarrow> int \<Rightarrow> exn + payload) \<Rightarrow> string \<Rightarrow> payload \<Rightarrow> bool" where
  "run_succeeded rl repository run \<longleftrightarrow> (\<exists>observation observed.
     rl repository (int_entry run ''run_id'') (int_entry run ''run_attempt'') = Inr observation
     \<and> pget observation ''run'' JNull = JObj observed
     \<and> same_value (pget observed ''id'' JNull) (JInt (int_entry run ''run_id''))
     \<and> same_value (pget observed ''run_attempt'' JNull) (pget run ''run_attempt'' JNull)
     \<and> same_value (pget observed ''head_sha'' JNull) (pget run ''commit_sha'' JNull)
     \<and> same_value (pget observed ''name'' JNull) (pget run ''workflow'' JNull)
     \<and> same_value (pget observed ''status'' JNull) (JStr ''completed'')
     \<and> same_value (pget observed ''conclusion'' JNull) (JStr ''success''))"

lemma verify_ci_run_succeeded:
  assumes "verify_ci_run rl repository run acc = Inr acc'"
  shows "run_succeeded rl repository run"
proof -
  obtain observation where rl: "rl repository (int_entry run ''run_id'') (int_entry run ''run_attempt'') = Inr observation"
    using assms by (cases "rl repository (int_entry run ''run_id'') (int_entry run ''run_attempt'')") (auto simp: verify_ci_run_def Let_def)
  obtain observed where run: "pget observation ''run'' JNull = JObj observed"
    using assms rl by (cases "pget observation ''run'' JNull") (simp_all add: verify_ci_run_def Let_def)
  obtain jobs where jobs: "pget observation ''jobs'' JNull = JList jobs"
    using assms rl run by (cases "pget observation ''jobs'' JNull") (simp_all add: verify_ci_run_def Let_def)
  show ?thesis
    using assms rl run jobs unfolding run_succeeded_def
    by (simp add: verify_ci_run_def Let_def ebind_Inr_iff split: if_splits)
qed

lemma verify_ci_runs_succeeded:
  "verify_ci_runs rl repository runs acc = Inr acc' \<Longrightarrow> list_all (run_succeeded rl repository) runs"
proof (induction runs arbitrary: acc)
  case (Cons run runs)
  then obtain acc1 where one: "verify_ci_run rl repository run acc = Inr acc1"
      and rest: "verify_ci_runs rl repository runs acc1 = Inr acc'"
    by (auto simp: ebind_Inr_iff)
  from verify_ci_run_succeeded [OF one] have "run_succeeded rl repository run" .
  with Cons.IH [OF rest] show ?case by simp
qed simp

end
