(* ===== verification/Evidence_Report.thy ===== *)
theory Evidence_Report
  imports Packet_Text Evidence Evidence_Observed
begin

text \<open>
  The properties of the material verification: what a report proves about the manifest it was made for, that what
  the builder fills in is what the verifier checks, and how its files are found and published.
\<close>

section \<open>Files\<close>

text \<open>Evidence is read from a regular file below the root its alias stands for, wherever links lead.\<close>

lemma evidence_stays_below_its_root:
  assumes "resolve_evidence_path ob relative roots = Inr p"
  shows "\<exists>r rdir. dget roots (hd (posix_parts relative)) = Some r \<and> ob_resolve ob r = Inr rdir
    \<and> take (length rdir) p = rdir \<and> ob_kind ob p = Regular"
  using assms by (auto simp: resolve_evidence_path_def split: list.splits option.splits sum.splits if_splits)

text \<open>
  publishing never replaces. Whatever system calls fail, an existing output is never changed; a new one is
  absent or complete; and a call that returns has published it and cleaned its temporary file up.
\<close>

theorem create_only_never_replaces:
  assumes "publish_create_only raw s = (r, t)" and "sc_tmp s = Absent"
  shows "(sc_target s \<noteq> Absent \<longrightarrow> sc_target t = sc_target s \<and> r \<noteq> Inr ())
    \<and> (sc_target s = Absent \<longrightarrow> sc_target t \<in> {Absent, Holds raw})
    \<and> (r = Inr () \<longrightarrow> sc_target t = Holds raw \<and> sc_tmp t = Absent)"
proof -
  have "wp (publish_create_only raw)
    (\<lambda>_ t. sc_target s = Absent \<and> sc_target t = Holds raw \<and> sc_tmp t = Absent)
    (\<lambda>e t. if sc_target s = Absent then sc_target t \<in> {Absent, Holds raw} else sc_target t = sc_target s) s"
    using assms(2)
    by (auto simp: publish_create_only_def finally_unlink_def unlink_temporary_def os_call_def file_exists_def attemptP_def wp_simps
        split: exn.splits)
  then show ?thesis
    using assms(1) by (auto simp: wp_def split: sum.splits if_splits)
qed

theorem create_only_never_replaces_witness:
  "sc_target (snd (publish_create_only ''new'' (sidecar (Holds ''old'')))) = Holds ''old''
   \<and> sc_target (snd (publish_create_only ''new'' (sidecar Absent))) = Holds ''new''"
proof
  have "sc_tmp (sidecar c) = Absent" for c :: "string file_content" by (simp add: sidecar_def)
  from create_only_never_replaces [OF prod.collapse [symmetric] this, of "Holds ''old''" "''new''"]
  show "sc_target (snd (publish_create_only ''new'' (sidecar (Holds ''old'')))) = Holds ''old''"
    by (simp add: sidecar_def)
  show "sc_target (snd (publish_create_only ''new'' (sidecar Absent))) = Holds ''new''" by code_simp
qed

section \<open>The report\<close>

lemma built_verifies:
  assumes "verify_materials ob rl al roots repository budget now True p = Inr (r, p')"
  shows "verify_materials ob rl al roots repository budget now False p' = Inr (r, p')"
proof -
  from assms obtain c observed c' n vs ws files bytes job_count jobs totals raw
    where ok: "verified_with ob rl al roots repository budget now True p c observed c' n vs ws files bytes job_count jobs totals raw r p'"
    unfolding verify_materials_Inr by blast
  note ok = ok [unfolded verified_with_def if_True]
  let ?commit = "render (pget c ''commit_sha'' JNull)"
  from ok have derived: "derive_candidate_from_git ob ?commit = Inr (observed, n)" by blast
  from derive_candidate_shape [OF this] obtain t s1 s2 s3 where obs: "observed = [(''commit_sha'', ?commit), (''tree_sha'', t),
    (''source_tree_sha256'', s1), (''config_tree_sha256'', s2), (''dependency_lock_sha256'', s3)]" by blast
  have "set (map fst c) = set CANDIDATE_KEYS"
    using ok candidate_keys [of p False] by (simp add: object_of_def)
  then have same: "same_candidate c' observed"
    using ok same_candidate_update [of observed c] by (auto simp: obs CANDIDATE_KEYS_def)
  then have commit: "map_of c' ''commit_sha'' = Some (JStr ?commit)"
    by (simp add: same_candidate_def obs)
  moreover have "HEX 40 ?commit"
    using ok candidate_commit [of p False] by (auto simp: pget_def)
  ultimately have hex: "HEX 40 ?commit" and head: "render (pget c' ''commit_sha'' d) = ?commit" for d
    by (simp_all add: pget_def)
  have p': "p' = dput ''evidence'' (JList ws) (dput ''candidate'' (JObj c') p)" using ok by blast
  then have parts: "pget p' ''candidate'' JNull = JObj c'" "pget p' ''evidence'' JNull = JList ws"
    by (simp_all add: pget_update)
  have again: "dput ''evidence'' (JList ws) (dput ''candidate'' (JObj c') p') = p'"
    by (simp add: dput_same p' update_conv')
  have items: "verify_items ob roots now False ws = Inr (ws, files, bytes)"
    using ok verify_items_fills by blast
  have "verified_with ob rl al roots repository budget now False p' c' observed c' n ws ws files bytes job_count jobs totals raw r p'"
    unfolding verified_with_def if_False again head
    by (intro conjI refl) (use ok hex derived same parts items in blast)+
  then show ?thesis unfolding verify_materials_Inr by blast
qed

text \<open>
  C29: what the builder fills in is what the verifier checks: when a run that fills the observed fields in ends
  with a report, a run that verifies its manifest ends with the same report and the same manifest.
\<close>

theorem built_manifest_verifies:
  assumes "verify_materials ob rl al roots repository budget now True p = Inr (r, p')"
  shows "verify_materials ob rl al roots repository budget now False p' = Inr (r, p')"
  by (rule built_verifies [OF assms])

text \<open>A world in which the demonstration manifest is true.\<close>

definition demo_commit :: string where "demo_commit = replicate 40 CHR ''a''"

definition demo_git :: "string list \<Rightarrow> string" where
  "demo_git args =
     (if hd args = ''cat-file'' then ''commit''
      else if hd args = ''ls-tree'' then ''uv.lock'' @ [CHR 0x00] @ ''STATE.json'' @ [CHR 0x00]
      else if length args = 4 then (if args ! 2 = ''--format=%T'' then demo_commit else ''commit time'')
      else ''content'')"

definition demo_state :: jval where
  "demo_state = JObj
     [(''tree'', JObj [(''source_tree_sha256'', demo_hash 64), (''config_tree_sha256'', demo_hash 64), (''dependency_lock_sha256'', demo_hash 64)]),
      (''gate_status'', JObj [(''gate_b2'', JStr ''READ_ONLY_IN_PROGRESS''), (''order_authorization'', JStr ''NONE''),
        (''trading_adapter'', JStr ''NOT_IMPLEMENTED'')])]"

definition demo_identity :: jval where
  "demo_identity = JObj [(''schema_version'', JInt 1), (''commit_sha'', demo_hash 40), (''tree_sha'', demo_hash 40),
     (''repository'', JStr ''owner/name''), (''run_id'', JStr ''1''), (''run_attempt'', JStr ''1''), (''workflow'', JStr ''ci''),
     (''job_name'', JStr ''test''), (''event'', JStr ''push'')]"

definition demo_stat :: file_stat where
  "demo_stat = \<lparr>st_dev = 1, st_ino = 2, st_size = 7, st_mtime_ns = 3, st_ctime_ns = 4\<rparr>"

definition demo_member :: "string \<Rightarrow> string \<Rightarrow> zip_info" where
  "demo_member name content = \<lparr>zi_filename = name, zi_file_size = 8, zi_is_dir = False, zi_external_attr = 0, zi_content = content\<rparr>"

definition demo_observer :: observer where
  "demo_observer = \<lparr>ob_git = (\<lambda>args. Inr (0, demo_git args, [])), ob_gh = (\<lambda>args. Inr (1, [])), ob_utf8 = (\<lambda>s. True),
     ob_json = (\<lambda>s. if s = ''content'' then Some demo_state else if s = ''identity'' then Some demo_identity else None),
     ob_sha256 = (\<lambda>s. replicate 64 CHR ''a''), ob_instant = (\<lambda>s. Some (if s = ''commit time'' then 0 else 1)),
     ob_resolve = Inr, ob_kind = (\<lambda>p. if p = [''srv''] then Directory else Regular),
     ob_read = (\<lambda>p. Inr (demo_stat, [''content''], demo_stat)),
     ob_zip = (\<lambda>s. Inr [demo_member ''identity.json'' ''identity'', demo_member ''out/report.json'' ''content''])\<rparr>"

definition demo_run_lookup :: "string \<Rightarrow> int \<Rightarrow> int \<Rightarrow> exn + payload" where
  "demo_run_lookup repository run_id attempt = Inr
     [(''run'', JObj [(''id'', JInt 1), (''run_attempt'', JInt 1), (''head_sha'', demo_hash 40), (''name'', JStr ''ci''),
        (''status'', JStr ''completed''), (''conclusion'', JStr ''success'')]),
      (''jobs'', JList [JObj [(''id'', JInt 9), (''run_id'', JInt 1), (''run_attempt'', JInt 1), (''head_sha'', demo_hash 40),
        (''status'', JStr ''completed''), (''conclusion'', JStr ''success''), (''name'', JStr ''test''),
        (''steps'', JList [JObj [(''conclusion'', JStr ''success'')]])]]),
      (''jobs_total_count'', JInt 1)]"

definition demo_artifact_lookup :: "string \<Rightarrow> int \<Rightarrow> exn + jval \<times> string option" where
  "demo_artifact_lookup repository artifact_id = Inr
     (JObj [(''id'', JInt 5), (''name'', demo_hash 40), (''expired'', JBool False), (''digest'', JStr (''sha256:'' @ replicate 64 CHR ''a'')),
        (''size_in_bytes'', JInt 7), (''workflow_run'', JObj [(''id'', JInt 1), (''head_sha'', demo_hash 40)])], Some ''archive'')"

definition demo_observed :: "(string \<times> string) list" where
  "demo_observed = [(''commit_sha'', demo_commit), (''tree_sha'', demo_commit), (''source_tree_sha256'', replicate 64 CHR ''a''),
     (''config_tree_sha256'', replicate 64 CHR ''a''), (''dependency_lock_sha256'', replicate 64 CHR ''a'')]"

lemma demo_derived: "derive_candidate_from_git demo_observer demo_commit = Inr (demo_observed, 2)"
  by code_simp

lemma demo_candidate_same: "update_candidate (object_of demo_candidate) demo_observed = object_of demo_candidate"
  "same_candidate (object_of demo_candidate) demo_observed"
  by code_simp+

lemma demo_items_verified: "verify_items demo_observer [(''roots'', [''srv''])] 2 True demo_items = Inr (demo_items, 3, 21)"
  by code_simp

lemma demo_runs_verified: "verify_ci_runs demo_run_lookup ''owner/name'' (objects_of (JList [demo_run 1])) (0, []) = Inr (1, [(1, [''test''])])"
  by code_simp

lemma demo_artifacts_verified:
  "verify_ci_artifacts demo_observer demo_artifact_lookup (objects_of (JList [demo_artifact])) (objects_of (JList [demo_run 1]))
     [(1, [''test''])] (map (\<lambda>e. (text_entry e ''id'', e)) (objects_of (JList demo_items))) (object_of demo_candidate) ''owner/name''
   = Inr \<lparr>at_bound_jobs = [(1, [''test''])], at_members = 2, at_bytes = 7\<rparr>"
  by code_simp

lemma calm_plain: "fst st \<noteq> CHR ''n'' \<Longrightarrow> fst st \<noteq> CHR ''y'' \<Longrightarrow> snd st = 0 \<Longrightarrow> calm st (replicate n CHR ''a'' @ [CHR 0x22])"
  by (induction n arbitrary: st) (simp_all add: scan_ok_def scan_step_def is_space_def decimal_digit_def)

lemma clean_hash: "clean_value (demo_hash n)"
proof -
  have "concat (map quote_char (replicate n CHR ''a'')) = replicate n CHR ''a''"
    by (induction n) (simp_all add: quote_char_def)
  then show ?thesis
    using calm_plain [of "(CHR 0x22, 0)" n] by (simp add: demo_hash_def clean_text_def map_replicate lower_char_def del: replicate.simps)
qed

lemma lower_letters:
  "lower_char CHR ''A'' = CHR ''a''" "lower_char CHR ''B'' = CHR ''b''" "lower_char CHR ''C'' = CHR ''c''"
  "lower_char CHR ''D'' = CHR ''d''" "lower_char CHR ''E'' = CHR ''e''" "lower_char CHR ''F'' = CHR ''f''"
  "lower_char CHR ''G'' = CHR ''g''" "lower_char CHR ''H'' = CHR ''h''" "lower_char CHR ''I'' = CHR ''i''"
  "lower_char CHR ''J'' = CHR ''j''" "lower_char CHR ''K'' = CHR ''k''" "lower_char CHR ''L'' = CHR ''l''"
  "lower_char CHR ''M'' = CHR ''m''" "lower_char CHR ''N'' = CHR ''n''" "lower_char CHR ''O'' = CHR ''o''"
  "lower_char CHR ''P'' = CHR ''p''" "lower_char CHR ''Q'' = CHR ''q''" "lower_char CHR ''R'' = CHR ''r''"
  "lower_char CHR ''S'' = CHR ''s''" "lower_char CHR ''T'' = CHR ''t''" "lower_char CHR ''U'' = CHR ''u''"
  "lower_char CHR ''V'' = CHR ''v''" "lower_char CHR ''W'' = CHR ''w''" "lower_char CHR ''X'' = CHR ''x''"
  "lower_char CHR ''Y'' = CHR ''y''" "lower_char CHR ''Z'' = CHR ''z''"
  by code_simp+

lemma lower_others: "(of_char c :: nat) < 65 \<or> 90 < (of_char c :: nat) \<Longrightarrow> lower_char c = c"
  by (auto simp: lower_char_def Let_def)

lemma demo_texts:
  "clean_text ''id''" "clean_text ''claim_key''" "clean_text ''evidence_kind''" "clean_text ''binding''"
  "clean_text ''BOUND_AUTHORITY''" "clean_text ''relative_path''" "clean_text ''roots/a.json''"
  "clean_text ''sha256''" "clean_text ''bytes''" "clean_text ''captured_at_utc''"
  "clean_text ''2026-02-03T04:05:06Z''" "clean_text ''capture_commit''" "clean_text ''verdict''"
  "clean_text ''scope''" "clean_text ''one session''" "clean_text ''sensitivity''" "clean_text ''REDACTED''"
  "clean_text ''commit_sha''" "clean_text ''tree_sha''" "clean_text ''source_tree_sha256''"
  "clean_text ''config_tree_sha256''" "clean_text ''dependency_lock_sha256''" "clean_text ''provider''"
  "clean_text ''GITHUB_ACTIONS''" "clean_text ''workflow''" "clean_text ''ci''" "clean_text ''run_id''"
  "clean_text ''run_attempt''" "clean_text ''conclusion''" "clean_text ''SUCCESS''" "clean_text ''job_name''"
  "clean_text ''test''" "clean_text ''artifact_id''" "clean_text ''artifact_name''" "clean_text ''archive_sha256''"
  "clean_text ''checkout_identity_member_path''" "clean_text ''identity.json''" "clean_text ''evidence_id''"
  "clean_text ''E3''" "clean_text ''evidence_member_path''" "clean_text ''out/report.json''" "clean_text ''owner''"
  "clean_text ''accepted_at_utc''" "clean_text ''2026-02-04T00:00:00Z''" "clean_text ''decision''"
  "clean_text ''ACCEPT_EVIDENCE_SCOPE_AND_RESIDUAL_RISK''" "clean_text ''gate_b2_decision''"
  "clean_text ''REMAIN_READ_ONLY_IN_PROGRESS''" "clean_text ''order_capability''" "clean_text ''NOT_AUTHORIZED''"
  "clean_text ''accepted_authority_evidence_ids''" "clean_text ''E2''" "clean_text ''E1''"
  "clean_text ''accepted_unknown_ids''" "clean_text ''U1''" "clean_text ''accepted_risk_assumption_ids''"
  "clean_text ''D1_EVENT_DRIVEN_30S''" "clean_text ''D2_WRITER_LAG_ROOT_CAUSE''" "clean_text ''statement''"
  "clean_text ''s''" "clean_text ''failure_mode''" "clean_text ''f''" "clean_text ''mitigation''" "clean_text ''m''"
  "clean_text ''status''" "clean_text ''OPEN_REVIEW_REQUIRED''" "clean_text ''blocks_b2_read_only_freeze''"
  "clean_text ''required_review_before''" "clean_text ''PRODUCTION_OR_ORDER_CAPABLE_PAPER_LIVE''"
  "clean_text ''schema_version''" "clean_text ''freeze_kind''" "clean_text ''B2_READ_ONLY_EVIDENCE''"
  "clean_text ''candidate''" "clean_text ''safety_boundary''" "clean_text ''gate_b2''"
  "clean_text ''READ_ONLY_IN_PROGRESS''" "clean_text ''order_authorization''" "clean_text ''NONE''"
  "clean_text ''trading_adapter''" "clean_text ''NOT_IMPLEMENTED''" "clean_text ''ci_runs''"
  "clean_text ''ci_artifacts''" "clean_text ''evidence''" "clean_text ''FULL_RTH_HEALTH''" "clean_text ''PASS''"
  "clean_text ''HISTORICAL_FAILURE''" "clean_text ''FAIL''" "clean_text ''CI_ARTIFACT''"
  "clean_text ''authority_evidence_ids''" "clean_text ''required_failures''" "clean_text ''unknowns''"
  "clean_text ''OPEN''" "clean_text ''review_before''" "clean_text ''risk_assumptions''"
  "clean_text ''owner_acceptance''"
  by (simp_all add: clean_text_def quote_char_def scan_ok_def scan_step_def is_space_def decimal_digit_def lower_letters lower_others
      Let_def)

lemma clean_parts:
  "clean_value (JObj [])" "clean_value (JObj ((k, v) # ps)) \<longleftrightarrow> clean_text k \<and> clean_value v \<and> clean_value (JObj ps)"
  "clean_value (JList [])" "clean_value (JList (x # xs)) \<longleftrightarrow> clean_value x \<and> clean_value (JList xs)"
  "clean_value (JStr s) \<longleftrightarrow> clean_text s" "clean_value (JInt i)" "clean_value (JBool b)" "clean_value JNull"
  by auto

lemma demo_clean: "clean_value (JObj sample_manifest)"
  unfolding sample_manifest_def demo_candidate_def demo_run_def demo_artifact_def demo_item_def demo_risk_def demo_owner_def
  by (simp only: clean_parts clean_hash demo_texts simp_thms)

definition demo_raw :: string where
  "demo_raw = json_text 0 (JObj sample_manifest) @ [CHR 0x0A]"

definition demo_report :: material_report where
  "demo_report = \<lparr>mr_candidate_commit = demo_commit, mr_candidate_tree = demo_commit, mr_git_file_count = 2, mr_evidence_files_verified = 3,
     mr_evidence_bytes_streamed = 21, mr_ci_runs_verified = 1, mr_ci_jobs_verified = 1, mr_ci_artifacts_verified = 1,
     mr_ci_artifact_members_verified = 2, mr_ci_artifact_bytes_downloaded = 7, mr_manifest_bytes = length demo_raw\<rparr>"

lemma demo_scan: "scan_manifest sample_manifest = Inr demo_raw"
  by (simp add: scan_manifest_def dumps_manifest_def demo_valid demo_raw_def clean_manifest_passes [OF demo_clean, simplified])

lemma demo_sections:
  "pget sample_manifest ''candidate'' JNull = demo_candidate" "pget sample_manifest ''evidence'' JNull = JList demo_items"
  "pget sample_manifest ''ci_runs'' JNull = JList [demo_run 1]" "pget sample_manifest ''ci_artifacts'' JNull = JList [demo_artifact]"
  "demo_candidate = JObj (object_of demo_candidate)"
  "pget (object_of demo_candidate) ''commit_sha'' d = JStr demo_commit" "HEX 40 demo_commit"
  "dput ''evidence'' (JList demo_items) (dput ''candidate'' demo_candidate sample_manifest) = sample_manifest"
  by (simp_all add: sample_manifest_def demo_items_def demo_candidate_def demo_hash_def demo_commit_def HEX_def hex_digit_def list_all_iff)

lemma demo_counts: "length (objects_of (JList xs)) = length xs" "snd (hd demo_observed) = demo_commit" "snd (hd (tl demo_observed)) = demo_commit"
  by (simp_all add: objects_of_def demo_observed_def)

lemma demo_built: "verify_materials demo_observer demo_run_lookup demo_artifact_lookup [(''roots'', [''srv''])] ''owner/name''
    (int (length demo_raw) + 1) 2 True sample_manifest = Inr (demo_report, sample_manifest)"
proof -
  have "verified_with demo_observer demo_run_lookup demo_artifact_lookup [(''roots'', [''srv''])] ''owner/name''
    (int (length demo_raw) + 1) 2 True sample_manifest (object_of demo_candidate) demo_observed (object_of demo_candidate) 2 demo_items demo_items 3 21
    1 [(1, [''test''])] \<lparr>at_bound_jobs = [(1, [''test''])], at_members = 2, at_bytes = 7\<rparr> demo_raw demo_report sample_manifest"
    unfolding verified_with_def demo_sections(1-4)
    by (intro conjI) (simp_all add: demo_valid demo_sections(6-8) demo_sections(5) [symmetric] demo_derived demo_candidate_same demo_items_verified
        demo_runs_verified demo_artifacts_verified demo_scan demo_report_def demo_counts)
  then show ?thesis unfolding verify_materials_Inr by blast
qed

theorem built_manifest_verifies_witness:
  "verify_materials demo_observer demo_run_lookup demo_artifact_lookup [(''roots'', [''srv''])] ''owner/name''
     (int (length demo_raw) + 1) 2 False sample_manifest = Inr (demo_report, sample_manifest)"
  by (rule built_manifest_verifies [OF demo_built])



end
