(* ===== verification/Dm_Delay.thy ===== *)
theory Dm_Delay
  imports Program Ascii_Text
begin

text \<open>
  \<open>dm_delay.py\<close>: the disposable block device of the fsync-stall drill, and the bracket of
  \<open>scripts/run_storage_fault_drill.py\<close> that creates it and tears it down. What the host answers is a record of
  functions over an abstract world; every command, and every change of a file, is recorded with the volume in the
  order it is made. \<open>OSErr\<close> stands for \<open>OSError\<close> and \<open>subprocess.SubprocessError\<close> (a timeout), which each
  handler of the module names together; the refusals \<open>DmDelayUnsafe\<close> and \<open>DmDelayUnavailable\<close> are values.
\<close>

definition MAPPER_PREFIX :: string where "MAPPER_PREFIX = ''ibems-drill-''"

definition MAX_IMAGE_MB :: int where "MAX_IMAGE_MB = 512"

datatype refusal = DmDelayUnsafe jval | DmDelayUnavailable jval

datatype drill_action =
    Ran "string list" int
  | Made_directory string
  | Truncated string int
  | Unlinked string

record 'w machine =
  mc_posix :: bool
  mc_euid :: int
  mc_run :: "string list \<Rightarrow> 'w \<Rightarrow> (exn + int \<times> string \<times> string) \<times> 'w"
  mc_which :: "string \<Rightarrow> 'w \<Rightarrow> bool"
  mc_exists :: "string \<Rightarrow> 'w \<Rightarrow> bool"
  mc_ismount :: "string \<Rightarrow> 'w \<Rightarrow> bool"
  mc_mkdir :: "string \<Rightarrow> 'w \<Rightarrow> (exn + unit) \<times> 'w"
  mc_parent :: "string \<Rightarrow> string"
  mc_truncate :: "string \<Rightarrow> int \<Rightarrow> 'w \<Rightarrow> (exn + unit) \<times> 'w"
  mc_unlink :: "string \<Rightarrow> 'w \<Rightarrow> (exn + unit) \<times> 'w"

text \<open>The world and the record of what was done to it; a volume has both, and its own fields.\<close>

record 'w bench =
  vo_world :: 'w
  vo_trail :: "drill_action list"

record 'w volume = "'w bench" +
  vo_image :: string
  vo_mount_point :: string
  vo_size_mb :: int
  vo_delay_ms :: int
  vo_name :: string
  vo_loop :: "string option"
  vo_mounted :: bool
  vo_created :: bool
  vo_teardown_errors :: "jval list"

section \<open>Commands\<close>

text \<open>Ask the host to do something, and note it.\<close>

definition ask :: "drill_action \<Rightarrow> ('w \<Rightarrow> (exn + 'a) \<times> 'w) \<Rightarrow> (('w, 'z) bench_scheme, 'a) prog" where
  "ask action f = (\<lambda>v. case f (vo_world v) of (r, w) \<Rightarrow> (r, v\<lparr>vo_world := w, vo_trail := vo_trail v @ [action]\<rparr>))"

definition said :: "string \<Rightarrow> string \<Rightarrow> string" where
  "said out err = strip (if err \<noteq> [] then err else out)"

definition run_tool :: "'w machine \<Rightarrow> bool \<Rightarrow> int \<Rightarrow> string list \<Rightarrow>
    (('w, 'z) bench_scheme, int \<times> string \<times> string) prog" where
  "run_tool mc check timeout args = bindP (ask (Ran args timeout) (mc_run mc args)) (\<lambda>(code, out, err).
     if check \<and> code \<noteq> 0
     then raise (RuntimeErr (JFmt [JStr (join '' '' args), JStr '' failed ('', JInt code, JStr ''): '', JStr (said out err)]))
     else ret (code, out, err))"

fun without_tool :: "'w machine \<Rightarrow> 'w \<Rightarrow> string list \<Rightarrow> string option" where
  "without_tool mc w [] = None"
| "without_tool mc w (t # ts) = (if mc_which mc t w then without_tool mc w ts else Some t)"

definition availability :: "'w machine \<Rightarrow> (('w, 'z) bench_scheme, bool \<times> jval) prog" where
  "availability mc =
     (if \<not> mc_posix mc then ret (False, JStr ''dm-delay is Linux-only'')
      else if mc_euid mc \<noteq> 0 then ret (False, JStr ''creating a device-mapper target requires root'')
      else reads vo_world (\<lambda>w. case without_tool mc w [''dmsetup'', ''losetup'', ''mkfs.ext4'', ''mount'', ''umount'', ''blockdev''] of
        Some t \<Rightarrow> ret (False, JStr (t @ '' is not installed''))
      | None \<Rightarrow>
        if \<not> mc_exists mc ''/dev/mapper/control'' w
        then ret (False, JStr ''/dev/mapper/control is absent; device-mapper is not available'')
        else bindP (run_tool mc False 120 [''dmsetup'', ''targets'']) (\<lambda>(code, out, err).
          if code \<noteq> 0 then ret (False, JFmt [JStr ''dmsetup targets failed: '', JStr (said out err)])
          else if \<not> occurs_in ''delay'' out then ret (False, JStr ''the dm-delay target is not loaded (modprobe dm-delay)'')
          else ret (True, JStr []))))"

section \<open>Provisioning\<close>

definition is_namespaced :: "string \<Rightarrow> bool" where
  "is_namespaced s \<longleftrightarrow> take (length MAPPER_PREFIX) s = MAPPER_PREFIX"

text \<open>The constructor; \<open>pid\<close> names the mapper when the caller does not.\<close>

definition new_volume :: "'w \<Rightarrow> int \<Rightarrow> string \<Rightarrow> string \<Rightarrow> int \<Rightarrow> int \<Rightarrow> string option \<Rightarrow> refusal + 'w volume" where
  "new_volume w pid img mount_point size_mb delay_ms given =
     (let vname = (case given of Some s \<Rightarrow> if s = [] then MAPPER_PREFIX @ str_int pid else s | None \<Rightarrow> MAPPER_PREFIX @ str_int pid)
      in if size_mb > MAX_IMAGE_MB
         then Inl (DmDelayUnsafe (JFmt [JInt size_mb, JStr ''MB exceeds the '', JInt MAX_IMAGE_MB, JStr ''MB drill cap'']))
         else if \<not> is_namespaced vname
         then Inl (DmDelayUnsafe (JFmt [JStr ''mapper name '', JStr vname, JStr '' is not namespaced for drills'']))
         else Inr \<lparr>vo_world = w, vo_trail = [], vo_image = img, vo_mount_point = mount_point, vo_size_mb = size_mb, vo_delay_ms = delay_ms,
           vo_name = vname, vo_loop = None, vo_mounted = False, vo_created = False, vo_teardown_errors = []\<rparr>)"

definition device :: "'w volume \<Rightarrow> string" where
  "device v = ''/dev/mapper/'' @ vo_name v"

definition loop_text :: "'w volume \<Rightarrow> string" where
  "loop_text v = (case vo_loop v of None \<Rightarrow> ''None'' | Some l \<Rightarrow> l)"

definition delay_table :: "'w machine \<Rightarrow> int \<Rightarrow> ('w volume, string) prog" where
  "delay_table mc delay = reads loop_text (\<lambda>l. bindP (run_tool mc True 120 [''blockdev'', ''--getsz'', l]) (\<lambda>(code, out, err).
     ret (''0 '' @ strip out @ '' delay '' @ l @ '' 0 '' @ str_int delay @ '' '' @ l @ '' 0 '' @ str_int delay)))"

definition set_delay :: "'w machine \<Rightarrow> int \<Rightarrow> ('w volume, unit) prog" where
  "set_delay mc delay = reads vo_name (\<lambda>n.
     seqP (run_tool mc True 120 [''dmsetup'', ''suspend'', n])
     (seqP (catchP
        (bindP (delay_table mc delay) (\<lambda>t. run_tool mc True 120 [''dmsetup'', ''reload'', n, ''--table'', t]))
        (\<lambda>e. seqP (run_tool mc True 120 [''dmsetup'', ''resume'', n]) (raise e)))
     (seqP (run_tool mc True 120 [''dmsetup'', ''resume'', n]) (modP (\<lambda>v. v\<lparr>vo_delay_ms := delay\<rparr>)))))"

section \<open>Teardown\<close>

definition cleanup_error :: "jval list \<Rightarrow> ('w volume, unit) prog" where
  "cleanup_error parts = modP (\<lambda>v. v\<lparr>vo_teardown_errors := vo_teardown_errors v @ [JFmt parts]\<rparr>)"

definition os_failure :: "exn \<Rightarrow> jval option" where
  "os_failure e = (case e of OSErr d \<Rightarrow> Some d | FileNotFound d \<Rightarrow> Some d | _ \<Rightarrow> None)"

definition os_or_runtime :: "exn \<Rightarrow> jval option" where
  "os_or_runtime e = (case e of RuntimeErr d \<Rightarrow> Some d | _ \<Rightarrow> os_failure e)"

definition cleanup_call :: "'w machine \<Rightarrow> string list \<Rightarrow> ('w volume, bool) prog" where
  "cleanup_call mc args = bindP (attemptP (run_tool mc False 20 args) os_failure) (\<lambda>r. case r of
     Inl d \<Rightarrow> seqP (cleanup_error [JStr (join '' '' args), JStr '': '', d]) (ret False)
   | Inr (code, out, err) \<Rightarrow>
       if code \<noteq> 0
       then seqP (cleanup_error [JStr (join '' '' args), JStr '' failed ('', JInt code, JStr ''): '', JStr (said out err)]) (ret False)
       else ret True)"

definition or_else :: "('w volume, bool) prog \<Rightarrow> ('w volume, bool) prog \<Rightarrow> ('w volume, unit) prog" where
  "or_else m n = bindP m (\<lambda>ok. whenP (\<not> ok) (seqP n (ret ())))"

definition device_seen :: "'w machine \<Rightarrow> 'w volume \<Rightarrow> bool" where
  "device_seen mc v \<longleftrightarrow> mc_exists mc (device v) (vo_world v)"

definition mount_seen :: "'w machine \<Rightarrow> 'w volume \<Rightarrow> bool" where
  "mount_seen mc v \<longleftrightarrow> mc_ismount mc (vo_mount_point v) (vo_world v)"

definition reset_table :: "'w machine \<Rightarrow> ('w volume, unit) prog" where
  "reset_table mc = reads (\<lambda>v. (vo_created v \<or> device_seen mc v) \<and> vo_delay_ms v \<noteq> 0) (\<lambda>slow. whenP slow
     (bindP (attemptP (set_delay mc 0) os_or_runtime) (\<lambda>r. case r of
        Inl d \<Rightarrow> cleanup_error [JStr ''reset delay to 0 before unmount: '', d] | Inr _ \<Rightarrow> ret ())))"

definition unmount :: "'w machine \<Rightarrow> ('w volume, unit) prog" where
  "unmount mc = reads (\<lambda>v. vo_mounted v \<or> mount_seen mc v) (\<lambda>active. whenP active (reads vo_mount_point (\<lambda>m.
     seqP (or_else (cleanup_call mc [''umount'', m]) (cleanup_call mc [''umount'', ''-l'', m]))
     (seqP (modP (\<lambda>v. v\<lparr>vo_mounted := mount_seen mc v\<rparr>))
     (reads vo_mounted (\<lambda>still. whenP still (cleanup_error [JStr ''mount still active: '', JStr m])))))))"

definition remove_mapper :: "'w machine \<Rightarrow> ('w volume, unit) prog" where
  "remove_mapper mc = reads (\<lambda>v. vo_created v \<or> device_seen mc v) (\<lambda>present. whenP present (reads vo_name (\<lambda>n.
     seqP (or_else (cleanup_call mc [''dmsetup'', ''remove'', n]) (cleanup_call mc [''dmsetup'', ''remove'', ''--deferred'', n]))
     (seqP (modP (\<lambda>v. v\<lparr>vo_created := device_seen mc v\<rparr>))
     (reads (\<lambda>v. (vo_created v, device v)) (\<lambda>(still, d). whenP still (cleanup_error [JStr ''mapper still present: '', JStr d])))))))"

text \<open>\<open>if self.loop\<close>: an empty name is skipped, and is not \<open>None\<close> either.\<close>

definition detach_loop :: "'w machine \<Rightarrow> ('w volume, unit) prog" where
  "detach_loop mc = reads vo_loop (\<lambda>l. case l of
     None \<Rightarrow> ret ()
   | Some d \<Rightarrow> whenP (d \<noteq> []) (bindP (cleanup_call mc [''losetup'', ''-d'', d]) (\<lambda>ok.
       if ok then modP (\<lambda>v. v\<lparr>vo_loop := None\<rparr>) else cleanup_error [JStr ''loop still attached: '', JStr d])))"

definition delete_image :: "'w machine \<Rightarrow> ('w volume, unit) prog" where
  "delete_image mc = reads (\<lambda>v. (vo_loop v, vo_image v)) (\<lambda>(l, img). whenP (l = None)
     (bindP (attemptP (ask (Unlinked img) (mc_unlink mc img)) os_failure) (\<lambda>r. case r of
        Inl d \<Rightarrow> cleanup_error [JStr ''delete backing image '', JStr img, JStr '': '', d] | Inr _ \<Rightarrow> ret ())))"

definition destroy :: "'w machine \<Rightarrow> ('w volume, jval list) prog" where
  "destroy mc = seqP (block [modP (\<lambda>v. v\<lparr>vo_teardown_errors := []\<rparr>), reset_table mc, unmount mc, remove_mapper mc,
     detach_loop mc, delete_image mc]) (reads vo_teardown_errors ret)"

section \<open>Creation\<close>

text \<open>What \<open>create\<close> refuses before it touches anything.\<close>

definition create_refused :: "'w machine \<Rightarrow> 'w volume \<Rightarrow> refusal option" where
  "create_refused mc v =
     (if mc_exists mc (vo_image v) (vo_world v)
      then Some (DmDelayUnsafe (JFmt [JStr (vo_image v), JStr '' already exists; this drill only destroys images it created'']))
      else if device_seen mc v then Some (DmDelayUnsafe (JFmt [JStr (device v), JStr '' already exists; refusing to reuse it'']))
      else if mount_seen mc v then Some (DmDelayUnsafe (JFmt [JStr (vo_mount_point v), JStr '' is already a mount point'']))
      else None)"

definition provision :: "'w machine \<Rightarrow> ('w volume, unit) prog" where
  "provision mc = reads (\<lambda>v. (vo_image v, vo_mount_point v, vo_size_mb v, vo_delay_ms v, vo_name v, device v))
     (\<lambda>(img, m, mb, delay, n, d). block [
       ask (Truncated img (mb * 1024 * 1024)) (mc_truncate mc img (mb * 1024 * 1024)),
       bindP (run_tool mc True 120 [''losetup'', ''--find'', ''--show'', img]) (\<lambda>(code, out, err).
         modP (\<lambda>v. v\<lparr>vo_loop := Some (strip out)\<rparr>)),
       bindP (delay_table mc delay) (\<lambda>t. seqP (run_tool mc True 120 [''dmsetup'', ''create'', n, ''--table'', t]) (ret ())),
       modP (\<lambda>v. v\<lparr>vo_created := True\<rparr>),
       seqP (run_tool mc True 120 [''mkfs.ext4'', ''-q'', ''-F'', ''-m'', ''0'', d]) (ret ()),
       seqP (run_tool mc True 120 [''mount'', d, m]) (ret ()),
       modP (\<lambda>v. v\<lparr>vo_mounted := True\<rparr>)])"

definition create :: "'w machine \<Rightarrow> ('w volume, refusal + unit) prog" where
  "create mc = reads (create_refused mc) (\<lambda>r. case r of
     Some e \<Rightarrow> ret (Inl e)
   | None \<Rightarrow> bindP (availability mc) (\<lambda>(ok, why).
       if \<not> ok then ret (Inl (DmDelayUnavailable why))
       else reads (\<lambda>v. (vo_image v, vo_mount_point v)) (\<lambda>(img, m).
         seqP (ask (Made_directory (mc_parent mc img)) (mc_mkdir mc (mc_parent mc img)))
         (seqP (ask (Made_directory m) (mc_mkdir mc m))
         (seqP (catchP (provision mc) (\<lambda>e. seqP (destroy mc) (raise e))) (ret (Inr ())))))))"

section \<open>The drill\<close>

text \<open>What the two cases of the drill add to its result.\<close>

definition case_results :: "string \<Rightarrow> payload \<Rightarrow> payload \<Rightarrow> payload" where
  "case_results dev healthy stalling =
     [(''device'', JStr dev), (''healthy'', JObj healthy), (''stalling'', JObj stalling),
      (''fence_present'', JBool (j_truthy (pget stalling ''fence_present'' JNull))),
      (''fence'', pget stalling ''fence'' JNull),
      (''post_fault_broker_writes'', pget stalling ''post_fault_broker_writes'' JNull),
      (''passed'', JBool (j_truthy (pget healthy ''passed'' JNull) \<and> j_truthy (pget stalling ''passed'' JNull)))]"

definition inconclusive :: "jval \<Rightarrow> payload" where
  "inconclusive note = [(''passed'', JBool False), (''inconclusive'', JBool True), (''note'', note)]"

text \<open>
  The \<open>try\<close> of \<open>drill_fsync_stall_dm_delay\<close>: create, the two cases, and \<open>destroy\<close> from \<open>finally\<close>. The two cases
  run an engine on the volume; they are parameters.
\<close>

definition drill_bracket ::
  "'w machine \<Rightarrow> ('w volume, payload) prog \<Rightarrow> ('w volume, payload) prog \<Rightarrow> payload \<Rightarrow> ('w volume, payload) prog" where
  "drill_bracket mc healthy_case stalling_case result = bindP
     (catchP (bindP (create mc) (\<lambda>r. case r of
          Inl (DmDelayUnsafe d) \<Rightarrow> ret (result @ inconclusive (JFmt [JStr ''refused: '', d]))
        | Inl (DmDelayUnavailable d) \<Rightarrow> ret (result @ inconclusive d)
        | Inr _ \<Rightarrow> reads device (\<lambda>dev. bindP healthy_case (\<lambda>healthy. bindP stalling_case (\<lambda>stalling.
            ret (result @ case_results dev healthy stalling))))))
       (\<lambda>e. seqP (destroy mc) (raise e)))
     (\<lambda>result. seqP (destroy mc) (ret result))"

text \<open>Run a program of the volume on the world it was constructed in.\<close>

definition on_volume :: "'w volume \<Rightarrow> ('w volume, 'a) prog \<Rightarrow> ('w bench, 'a) prog" where
  "on_volume v m = (\<lambda>b. case m (v\<lparr>vo_world := vo_world b, vo_trail := vo_trail b\<rparr>) of
     (r, u) \<Rightarrow> (r, \<lparr>vo_world = vo_world u, vo_trail = vo_trail u\<rparr>))"

text \<open>
  The whole function; 10 is \<open>EXIT_FATAL_SHUTDOWN\<close> of \<open>execution_host.py\<close>. A volume that cannot be constructed is a
  \<open>RuntimeError\<close> outside the \<open>try\<close>.
\<close>

record drill_args =
  da_pid :: int
  da_image :: string
  da_mount :: string
  da_healthy_ms :: int
  da_stalling_ms :: int
  da_timeout :: rat

definition drill_start :: "drill_args \<Rightarrow> payload" where
  "drill_start a = [(''mechanism'', JStr ''dm-delay''), (''journal_write_timeout_seconds'', JNum (da_timeout a)),
     (''healthy_delay_ms'', JInt (da_healthy_ms a)), (''stalling_delay_ms'', JInt (da_stalling_ms a)),
     (''expected_exit_code'', JInt 10)]"

definition volume_drill ::
  "'w machine \<Rightarrow> drill_args \<Rightarrow> ('w volume, payload) prog \<Rightarrow> ('w volume, payload) prog \<Rightarrow> ('w bench, payload) prog" where
  "volume_drill mc a healthy_case stalling_case = bindP (availability mc) (\<lambda>(available, why).
     if \<not> available then ret (drill_start a @ inconclusive (JFmt [JStr ''dm-delay unusable: '', why]))
     else reads vo_world (\<lambda>w. case new_volume w (da_pid a) (da_image a) (da_mount a) 128 (da_healthy_ms a) None of
       Inl (DmDelayUnsafe d) \<Rightarrow> raise (RuntimeErr d)
     | Inl (DmDelayUnavailable d) \<Rightarrow> raise (RuntimeErr d)
     | Inr v \<Rightarrow> on_volume v (drill_bracket mc healthy_case stalling_case (drill_start a))))"

end
