(* ===== verification/Drill_Facts.thy ===== *)
theory Drill_Facts
  imports Dm_Delay
begin

text \<open>
  What the teardown of the drill's volume guarantees, and what its refusals do not: each phase as an equation
  over what the host answers, the list it returns, and the bracket around a refused volume.
\<close>

section \<open>A host whose failures are failures of the operating system\<close>

definition ordinary :: "'w machine \<Rightarrow> bool" where
  "ordinary mc \<longleftrightarrow> (\<forall>args w e. fst (mc_run mc args w) = Inl e \<longrightarrow> os_failure e \<noteq> None)
     \<and> (\<forall>p w e. fst (mc_unlink mc p w) = Inl e \<longrightarrow> os_failure e \<noteq> None)"

lemma ask_run: "ask action f v = (fst (f (vo_world v)), v\<lparr>vo_world := snd (f (vo_world v)), vo_trail := vo_trail v @ [action]\<rparr>)"
  by (simp add: ask_def split: prod.splits)

text \<open>A step that changes the world, the trail, the errors and the delay only.\<close>

definition moved :: "'w volume \<Rightarrow> 'w \<Rightarrow> drill_action list \<Rightarrow> jval list \<Rightarrow> int \<Rightarrow> 'w volume" where
  "moved v w t d delay = v\<lparr>vo_world := w, vo_trail := vo_trail v @ t, vo_teardown_errors := vo_teardown_errors v @ d,
     vo_delay_ms := delay\<rparr>"

lemma moved_simps [simp]:
  "vo_world (moved v w t d n) = w" "vo_trail (moved v w t d n) = vo_trail v @ t"
  "vo_teardown_errors (moved v w t d n) = vo_teardown_errors v @ d" "vo_delay_ms (moved v w t d n) = n"
  "vo_image (moved v w t d n) = vo_image v" "vo_mount_point (moved v w t d n) = vo_mount_point v"
  "vo_name (moved v w t d n) = vo_name v" "vo_loop (moved v w t d n) = vo_loop v"
  "vo_mounted (moved v w t d n) = vo_mounted v" "vo_created (moved v w t d n) = vo_created v"
  "device (moved v w t d n) = device v" "loop_text (moved v w t d n) = loop_text v"
  by (simp_all add: moved_def device_def loop_text_def)

lemma moved_moved [simp]: "moved (moved v w t d n) w' t' d' n' = moved v w' (t @ t') (d @ d') n'"
  by (simp add: moved_def)

lemma moved_same: "v = moved v (vo_world v) [] [] (vo_delay_ms v)"
  by (simp add: moved_def)

lemma os_failure_runtime: "os_failure e \<noteq> None \<Longrightarrow> os_or_runtime e \<noteq> None"
  by (cases e) (simp_all add: os_failure_def os_or_runtime_def)

lemma moved_eq [simp]: "moved v w t d n = moved v w' t' d' n' \<longleftrightarrow> w = w' \<and> t = t' \<and> d = d' \<and> n = n'"
proof
  assume "moved v w t d n = moved v w' t' d' n'"
  from this [THEN arg_cong, of vo_world] this [THEN arg_cong, of vo_trail] this [THEN arg_cong, of vo_teardown_errors]
    this [THEN arg_cong, of vo_delay_ms]
  show "w = w' \<and> t = t' \<and> d = d' \<and> n = n'" by simp
qed simp

lemma moved_update [simp]:
  "(moved v w t d n)\<lparr>vo_delay_ms := n'\<rparr> = moved v w t d n'"
  "(moved v w t d n)\<lparr>vo_teardown_errors := vo_teardown_errors v @ d'\<rparr> = moved v w t d' n"
  by (simp_all add: moved_def)

text \<open>What a command can end with.\<close>

lemma wp_run_tool:
  assumes "ordinary mc" and "\<And>x w. Q x (moved v w [Ran args timeout] [] (vo_delay_ms v))"
    and "\<And>e w. os_or_runtime e \<noteq> None \<Longrightarrow> (\<not> check \<Longrightarrow> os_failure e \<noteq> None) \<Longrightarrow> E e (moved v w [Ran args timeout] [] (vo_delay_ms v))"
  shows "wp (run_tool mc check timeout args) Q E v"
proof -
  obtain x w where x: "mc_run mc args (vo_world v) = (x, w)"
    by fastforce
  have e: "os_failure e \<noteq> None" if "x = Inl e" for e
    using assms(1) x that unfolding ordinary_def by (metis fst_conv)
  from x have ask: "ask (Ran args timeout) (mc_run mc args) v = (x, moved v w [Ran args timeout] [] (vo_delay_ms v))"
    by (simp add: ask_run moved_def)
  show ?thesis
  proof (cases x)
    case (Inl e)
    with e show ?thesis
      by (simp add: run_tool_def wp_bindP wp_def [of "ask _ _"] ask assms(3) os_failure_runtime)
  next
    case (Inr y)
    then show ?thesis
      by (cases y) (auto simp: run_tool_def wp_bindP wp_def [of "ask _ _"] ask wp_simps os_or_runtime_def intro!: assms(2,3))
  qed
qed

text \<open>One command of the teardown: it never raises, and a failure is noted.\<close>

lemma wp_cleanup_call:
  assumes "ordinary mc" and "\<And>ok w d. ok \<longleftrightarrow> d = [] \<Longrightarrow> Q ok (moved v w [Ran args 20] d (vo_delay_ms v))"
  shows "wp (cleanup_call mc args) Q E v"
  unfolding cleanup_call_def wp_simps
  by (rule wp_run_tool [OF assms(1)]) (auto simp: wp_simps cleanup_error_def intro!: assms(2) split: option.splits)

definition no_unlink :: "drill_action list \<Rightarrow> bool" where
  "no_unlink t \<longleftrightarrow> (\<forall>p. Unlinked p \<notin> set t)"

text \<open>The table: reloaded with the device suspended, and resumed whatever happens between.\<close>

lemma wp_set_delay:
  assumes "ordinary mc"
  shows "wp (set_delay mc delay)
     (\<lambda>_ v'. \<exists>w t. v' = moved v w (Ran [''dmsetup'', ''suspend'', vo_name v] 120 # t @ [Ran [''dmsetup'', ''resume'', vo_name v] 120]) [] delay \<and> no_unlink t)
     (\<lambda>e v'. os_or_runtime e \<noteq> None \<and> (\<exists>w t. v' = moved v w (Ran [''dmsetup'', ''suspend'', vo_name v] 120 # t) [] (vo_delay_ms v) \<and> no_unlink t)) v"
  unfolding set_delay_def delay_table_def wp_simps
  by (intro wp_run_tool [OF assms]) (auto simp: wp_simps no_unlink_def intro!: wp_run_tool [OF assms])

section \<open>The teardown\<close>

text \<open>What a phase appends, and what it leaves alone.\<close>

definition adds :: "'w volume \<Rightarrow> drill_action list \<Rightarrow> jval list \<Rightarrow> 'w volume \<Rightarrow> bool" where
  "adds v t d v' \<longleftrightarrow> vo_trail v' = vo_trail v @ t \<and> vo_teardown_errors v' = vo_teardown_errors v @ d
     \<and> vo_image v' = vo_image v \<and> vo_name v' = vo_name v \<and> vo_mount_point v' = vo_mount_point v"

lemma adds_trans: "adds v t d v' \<Longrightarrow> adds v' t' d' v'' \<Longrightarrow> adds v (t @ t') (d @ d') v''"
  by (simp add: adds_def)

lemma wp_unmount:
  assumes "ordinary mc"
  shows "wp (unmount mc)
     (\<lambda>_ v'. \<exists>t d. adds v t d v' \<and> no_unlink t \<and> (d = [] \<longrightarrow> \<not> vo_mounted v')
        \<and> vo_loop v' = vo_loop v \<and> vo_created v' = vo_created v \<and> vo_delay_ms v' = vo_delay_ms v) E v"
  unfolding unmount_def or_else_def wp_simps adds_def
  by (auto simp: wp_simps cleanup_error_def no_unlink_def intro!: wp_cleanup_call [OF assms])

lemma wp_remove_mapper:
  assumes "ordinary mc"
  shows "wp (remove_mapper mc)
     (\<lambda>_ v'. \<exists>t d. adds v t d v' \<and> no_unlink t \<and> (d = [] \<longrightarrow> \<not> vo_created v')
        \<and> vo_loop v' = vo_loop v \<and> vo_mounted v' = vo_mounted v \<and> vo_delay_ms v' = vo_delay_ms v) E v"
  unfolding remove_mapper_def or_else_def wp_simps adds_def
  by (auto simp: wp_simps cleanup_error_def no_unlink_def intro!: wp_cleanup_call [OF assms])

lemma wp_detach_loop:
  assumes "ordinary mc"
  shows "wp (detach_loop mc)
     (\<lambda>_ v'. \<exists>t d. adds v t d v' \<and> no_unlink t \<and> (d = [] \<longrightarrow> vo_loop v' = None \<or> vo_loop v' = Some [])
        \<and> (vo_loop v' = None \<longrightarrow> (case vo_loop v of None \<Rightarrow> True | Some l \<Rightarrow> Ran [''losetup'', ''-d'', l] 20 \<in> set t))
        \<and> (vo_loop v = None \<longrightarrow> vo_loop v' = None)
        \<and> vo_created v' = vo_created v \<and> vo_mounted v' = vo_mounted v \<and> vo_delay_ms v' = vo_delay_ms v) E v"
  unfolding detach_loop_def wp_simps adds_def
  by (auto simp: wp_simps cleanup_error_def no_unlink_def intro!: wp_cleanup_call [OF assms] split: option.splits)

lemma wp_delete_image:
  assumes "ordinary mc"
  shows "wp (delete_image mc)
     (\<lambda>_ v'. \<exists>d. adds v (if vo_loop v = None then [Unlinked (vo_image v)] else []) d v' \<and> vo_loop v' = vo_loop v
        \<and> vo_created v' = vo_created v \<and> vo_mounted v' = vo_mounted v \<and> vo_delay_ms v' = vo_delay_ms v) E v"
proof (cases "vo_loop v")
  case (Some l)
  then show ?thesis
    unfolding delete_image_def wp_simps adds_def by simp
next
  case None
  obtain x w where x: "mc_unlink mc (vo_image v) (vo_world v) = (x, w)"
    by fastforce
  then have "ask (Unlinked (vo_image v)) (mc_unlink mc (vo_image v)) v = (x, moved v w [Unlinked (vo_image v)] [] (vo_delay_ms v))"
    by (simp add: ask_run moved_def)
  moreover have "os_failure e \<noteq> None" if "x = Inl e" for e
    using assms x that unfolding ordinary_def by (metis fst_conv)
  ultimately show ?thesis
    using None unfolding delete_image_def wp_simps wp_def [of "ask _ _"] adds_def
    by (cases x) (auto simp: wp_simps cleanup_error_def)
qed

lemma wp_reset_adds:
  assumes "ordinary mc"
  shows "wp (reset_table mc)
     (\<lambda>_ v'. \<exists>t d. adds v t d v' \<and> no_unlink t \<and> (d = [] \<and> vo_created v \<longrightarrow> vo_delay_ms v' = 0)
        \<and> (vo_created v \<and> vo_delay_ms v \<noteq> 0 \<longrightarrow> (\<exists>t'. t = Ran [''dmsetup'', ''suspend'', vo_name v] 120 # t'))
        \<and> vo_loop v' = vo_loop v \<and> vo_created v' = vo_created v \<and> vo_mounted v' = vo_mounted v) E v"
  unfolding reset_table_def wp_simps adds_def
  by (auto simp: wp_simps cleanup_error_def no_unlink_def intro!: wp_mono [OF wp_set_delay [OF assms]] split: option.splits)

text \<open>
  The whole of it: it returns; an empty list means that nothing is left; the image goes only when no loop device is
  recorded, after the one there was has been detached.
\<close>

definition torn_down :: "'w volume \<Rightarrow> drill_action list \<Rightarrow> jval list \<Rightarrow> 'w volume \<Rightarrow> bool" where
  "torn_down v t errors v' \<longleftrightarrow> vo_trail v' = vo_trail v @ t \<and> vo_teardown_errors v' = errors
     \<and> (errors = [] \<longrightarrow> \<not> vo_mounted v' \<and> \<not> vo_created v' \<and> (vo_created v \<longrightarrow> vo_delay_ms v' = 0)
           \<and> (vo_loop v' = None \<or> vo_loop v' = Some []))
     \<and> (Unlinked (vo_image v) \<in> set t \<longleftrightarrow> vo_loop v' = None)
     \<and> (vo_loop v' = None \<longrightarrow> (case vo_loop v of None \<Rightarrow> True | Some l \<Rightarrow> Ran [''losetup'', ''-d'', l] 20 \<in> set t))
     \<and> (vo_loop v = None \<longrightarrow> vo_loop v' = None)
     \<and> (vo_created v \<and> vo_delay_ms v \<noteq> 0 \<longrightarrow> (\<exists>t'. t = Ran [''dmsetup'', ''suspend'', vo_name v] 120 # t'))"

lemma torn_down_chain:
  assumes a: "adds (v\<lparr>vo_teardown_errors := []\<rparr>) t1 d1 v1" "adds v1 t2 d2 v2" "adds v2 t3 d3 v3" "adds v3 t4 d4 v4"
      "adds v4 (if vo_loop v4 = None then [Unlinked (vo_image v4)] else []) d5 v5"
    and n: "no_unlink t1" "no_unlink t2" "no_unlink t3" "no_unlink t4"
    and loop: "vo_loop v1 = vo_loop v" "vo_loop v2 = vo_loop v1" "vo_loop v3 = vo_loop v2" "vo_loop v5 = vo_loop v4"
      "d4 = [] \<longrightarrow> vo_loop v4 = None \<or> vo_loop v4 = Some []" "vo_loop v3 = None \<longrightarrow> vo_loop v4 = None"
      "vo_loop v4 = None \<longrightarrow> (case vo_loop v3 of None \<Rightarrow> True | Some l \<Rightarrow> Ran [''losetup'', ''-d'', l] 20 \<in> set t4)"
    and made: "d3 = [] \<longrightarrow> \<not> vo_created v3" "vo_created v4 = vo_created v3" "vo_created v5 = vo_created v4"
    and mount: "d2 = [] \<longrightarrow> \<not> vo_mounted v2" "vo_mounted v3 = vo_mounted v2" "vo_mounted v4 = vo_mounted v3" "vo_mounted v5 = vo_mounted v4"
    and delay: "d1 = [] \<and> vo_created v \<longrightarrow> vo_delay_ms v1 = 0" "vo_delay_ms v2 = vo_delay_ms v1" "vo_delay_ms v3 = vo_delay_ms v2"
      "vo_delay_ms v4 = vo_delay_ms v3" "vo_delay_ms v5 = vo_delay_ms v4"
      "vo_created v \<and> vo_delay_ms v \<noteq> 0 \<longrightarrow> (\<exists>t'. t1 = Ran [''dmsetup'', ''suspend'', vo_name v] 120 # t')"
  shows "\<exists>t. torn_down v t (vo_teardown_errors v5) v5"
proof -
  define t where "t = t1 @ t2 @ t3 @ t4 @ (if vo_loop v4 = None then [Unlinked (vo_image v4)] else [])"
  have trail: "vo_trail v5 = vo_trail v @ t" and errs: "vo_teardown_errors v5 = d1 @ d2 @ d3 @ d4 @ d5"
    and img: "vo_image v4 = vo_image v"
    using a by (simp_all add: adds_def t_def)
  have unl: "Unlinked (vo_image v) \<in> set t \<longleftrightarrow> vo_loop v5 = None"
    using n img loop(4) by (simp add: t_def no_unlink_def)
  have dt: "vo_loop v5 = None \<longrightarrow> (case vo_loop v of None \<Rightarrow> True | Some l \<Rightarrow> Ran [''losetup'', ''-d'', l] 20 \<in> set t)"
    using loop by (simp add: t_def split: option.splits)
  have first: "vo_created v \<and> vo_delay_ms v \<noteq> 0 \<longrightarrow> (\<exists>t'. t = Ran [''dmsetup'', ''suspend'', vo_name v] 120 # t')"
    using delay(6) by (auto simp: t_def)
  have "torn_down v t (vo_teardown_errors v5) v5"
    unfolding torn_down_def using trail errs unl dt first loop made mount delay(1-5) by simp
  then show ?thesis ..
qed

lemma wp_destroy:
  assumes "ordinary mc"
  shows "wp (destroy mc) (\<lambda>errors v'. \<exists>t. torn_down v t errors v') (\<lambda>_ _. False) v"
  unfolding destroy_def wp_simps
  apply (rule wp_mono [OF wp_reset_adds [OF assms]], (elim exE conjE)?, simp_all)
  apply (rule wp_mono [OF wp_unmount [OF assms]], (elim exE conjE)?, simp_all)
  apply (rule wp_mono [OF wp_remove_mapper [OF assms]], (elim exE conjE)?, simp_all)
  apply (rule wp_mono [OF wp_detach_loop [OF assms]], (elim exE conjE)?, simp_all)
  apply (rule wp_mono [OF wp_delete_image [OF assms]], (elim exE conjE)?, simp_all)
  apply (erule (4) torn_down_chain)
  apply simp_all
  done

section \<open>Properties\<close>

text \<open>
  The teardown of the drill's volume always returns its list of what went wrong, whatever
  command fails, so it cannot replace the drill's own result. It starts by reloading the table when the volume was
  created slow; an empty list means nothing is mounted, no mapper and no loop device are left and the delay is
  zero; and the image is deleted exactly when no loop device is recorded at the end, which the volume's own one is only
  after \<open>losetup -d\<close> ran for it.
\<close>

theorem teardown_reports:
  assumes "ordinary mc"
  shows "\<exists>t errors v'. destroy mc v = (Inr errors, v') \<and> torn_down v t errors v'"
  using wp_destroy [OF assms, of v] by (auto simp: wp_def split: prod.splits sum.splits)

lemma drill_volume:
  "\<exists>v. new_volume w pid img m 128 delay None = Inr v \<and> vo_image v = img \<and> vo_world v = w \<and> vo_loop v = None"
  by (simp add: new_volume_def Let_def is_namespaced_def MAX_IMAGE_MB_def)

text \<open>
  C40: on a host where the drill can run, a refusal of \<open>create\<close> has changed nothing and makes the drill
  inconclusive; but the drill destroys from \<open>finally\<close>, also after a refusal, and \<open>destroy\<close> does not know that the
  volume was never created: the image that was refused because only images of this drill may be destroyed
  is deleted.
\<close>

theorem refused_image_is_deleted:
  assumes "ordinary mc" and "availability mc b = (Inr (True, why), b')" and "mc_exists mc (da_image a) (vo_world b')"
    and "new_volume (vo_world b') (da_pid a) (da_image a) (da_mount a) 128 (da_healthy_ms a) None = Inr v"
    and "msg = JFmt [JStr (da_image a), JStr '' already exists; this drill only destroys images it created'']"
  shows "create mc v = (Inr (Inl (DmDelayUnsafe msg)), v)
    \<and> (\<exists>w t. volume_drill mc a healthy_case stalling_case b
          = (Inr (drill_start a @ inconclusive (JFmt [JStr ''refused: '', msg])), \<lparr>vo_world = w, vo_trail = vo_trail b' @ t\<rparr>)
        \<and> Unlinked (da_image a) \<in> set t)"
proof -
  obtain fields: "vo_image v = da_image a" "vo_world v = vo_world b'" "vo_loop v = None"
    using drill_volume [of "vo_world b'" "da_pid a" "da_image a" "da_mount a" "da_healthy_ms a"] assms(4) by auto
  have refused: "create mc u = (Inr (Inl (DmDelayUnsafe msg)), u)"
    if "vo_image u = da_image a" "vo_world u = vo_world b'" for u
    using assms(3,5) that by (simp add: create_def create_refused_def reads_def ret_def)
  let ?v = "v\<lparr>vo_world := vo_world b', vo_trail := vo_trail b'\<rparr>"
  obtain errors t u where d: "destroy mc ?v = (Inr errors, u)" "torn_down ?v t errors u"
    using wp_destroy [OF assms(1), of ?v] by (auto simp: wp_def split: prod.splits sum.splits)
  then have "vo_trail u = vo_trail b' @ t" "Unlinked (da_image a) \<in> set t"
    using fields by (auto simp: torn_down_def)
  moreover have "volume_drill mc a healthy_case stalling_case b
      = (Inr (drill_start a @ inconclusive (JFmt [JStr ''refused: '', msg])),
         \<lparr>vo_world = vo_world u, vo_trail = vo_trail u\<rparr>)"
    using assms(2,4) d(1) refused [of ?v] fields
    by (simp add: volume_drill_def on_volume_def drill_bracket_def bindP_def catchP_def seqP_def ret_def reads_def)
  ultimately show ?thesis
    using refused [of v] fields by simp
qed

text \<open>Witnesses: a host on which the drill can run, with an image left over; its \<open>umount\<close> fails.\<close>

definition drill_host :: "string list machine" where
  "drill_host = \<lparr>mc_posix = True, mc_euid = 0,
     mc_run = (\<lambda>args w. (if take 1 args = [''umount''] then Inl (OSErr (JStr ''timed out''))
       else if args = [''dmsetup'', ''targets''] then Inr (0, ''delay            v1.4.0'', [])
       else Inr (0, ''8'', []), w)),
     mc_which = (\<lambda>_ _. True), mc_exists = (\<lambda>p w. p \<in> set w), mc_ismount = (\<lambda>_ _. False),
     mc_mkdir = (\<lambda>_ w. (Inr (), w)), mc_parent = (\<lambda>p. []), mc_truncate = (\<lambda>p _ w. (Inr (), p # w)),
     mc_unlink = (\<lambda>p w. (Inr (), removeAll p w))\<rparr>"

definition demo_volume :: "string list volume" where
  "demo_volume = \<lparr>vo_world = [''/v/fsync-stall.img''], vo_trail = [], vo_image = ''/v/fsync-stall.img'',
     vo_mount_point = ''/v/m'', vo_size_mb = 128, vo_delay_ms = 45000, vo_name = ''ibems-drill-7'',
     vo_loop = Some ''/dev/loop0'', vo_mounted = True, vo_created = True, vo_teardown_errors = []\<rparr>"

definition demo_args :: drill_args where
  "demo_args = \<lparr>da_pid = 7, da_image = ''/v/fsync-stall.img'', da_mount = ''/v/m'', da_healthy_ms = 50,
     da_stalling_ms = 45000, da_timeout = 10\<rparr>"

definition demo_bench :: "string list bench" where
  "demo_bench = \<lparr>vo_world = [''/dev/mapper/control'', ''/v/fsync-stall.img''], vo_trail = []\<rparr>"

lemma drill_host_ordinary: "ordinary drill_host"
  by (simp add: ordinary_def drill_host_def os_failure_def)

lemma drill_host_available:
  "availability drill_host demo_bench
     = (Inr (True, JStr []), demo_bench\<lparr>vo_trail := [Ran [''dmsetup'', ''targets''] 120]\<rparr>)"
proof -
  have "occurs_in ''delay'' ''delay            v1.4.0''"
    by code_simp
  then show ?thesis
    by (simp add: availability_def drill_host_def demo_bench_def run_tool_def ask_def reads_def bindP_def ret_def)
qed

lemma teardown_reports_witness:
  "\<exists>t errors v'. destroy drill_host demo_volume = (Inr errors, v') \<and> torn_down demo_volume t errors v'"
  by (rule teardown_reports [OF drill_host_ordinary])

lemma refused_image_is_deleted_witness:
  "\<exists>res w t. volume_drill drill_host demo_args (ret []) (ret []) demo_bench
      = (Inr res, \<lparr>vo_world = w, vo_trail = Ran [''dmsetup'', ''targets''] 120 # t\<rparr>)
    \<and> Unlinked ''/v/fsync-stall.img'' \<in> set t"
proof -
  let ?b = "demo_bench\<lparr>vo_trail := [Ran [''dmsetup'', ''targets''] 120]\<rparr>"
  obtain v where v: "new_volume (vo_world ?b) (da_pid demo_args) (da_image demo_args) (da_mount demo_args) 128
      (da_healthy_ms demo_args) None = Inr v"
    using drill_volume [of "vo_world ?b" "da_pid demo_args" "da_image demo_args" "da_mount demo_args"
      "da_healthy_ms demo_args"] by (elim exE conjE)
  have there: "mc_exists drill_host (da_image demo_args)
      (vo_world (demo_bench\<lparr>vo_trail := [Ran [''dmsetup'', ''targets''] 120]\<rparr>))"
    by (simp add: drill_host_def demo_args_def demo_bench_def)
  from refused_image_is_deleted [OF drill_host_ordinary drill_host_available there v refl, of "ret []" "ret []"]
  have "\<exists>res w t. volume_drill drill_host demo_args (ret []) (ret []) demo_bench
      = (Inr res, \<lparr>vo_world = w, vo_trail = vo_trail (demo_bench\<lparr>vo_trail := [Ran [''dmsetup'', ''targets''] 120]\<rparr>) @ t\<rparr>)
    \<and> Unlinked (da_image demo_args) \<in> set t"
    by blast
  moreover have "da_image demo_args = ''/v/fsync-stall.img''"
    by (simp add: demo_args_def)
  ultimately show ?thesis by simp
qed

end
