(* ===== verification/Heartbeat.thy ===== *)
theory Heartbeat
  imports Watchdog
begin

text \<open>
  \<open>event_loop_heartbeat.py\<close>: the status file of a recorder, published by a thread that cannot refresh the pulse of
  the event loop, and what the watchdog reads from it. Each operation is a program over the publisher's
  state; the calls of the loop and the turns of the thread interleave as events. Times and the answers of
  the file system are given with each operation.
\<close>

text \<open>
  What one \<open>_publish\<close> meets: the written temporary file, the monotonic times of the replacements that Windows denied,
  and the last one's answer.
\<close>

record publication =
  pb_wall :: rat
  pb_pid :: int
  pb_ticks :: "int option"
  pb_write :: "exn + unit"
  pb_start :: rat
  pb_denied :: "rat list"
  pb_replace :: "exn + unit"

record event_loop_heartbeat =
  hb_component :: string
  hb_publish_seconds :: rat
  hb_pulse_mono :: rat
  hb_pulse_wall :: rat
  hb_state :: payload
  hb_failure :: "exn option"
  hb_started :: bool
  hb_stop :: bool
  hb_alive :: bool
  hb_file :: "payload option"

definition new_heartbeat :: "string \<Rightarrow> rat \<Rightarrow> rat \<Rightarrow> rat \<Rightarrow> payload option \<Rightarrow> exn + event_loop_heartbeat" where
  "new_heartbeat component publish_seconds beat wall file =
     (if publish_seconds \<le> 0 then Inl (ValueErr (JStr ''heartbeat publish interval must be positive''))
      else Inr \<lparr>hb_component = component, hb_publish_seconds = publish_seconds, hb_pulse_mono = beat, hb_pulse_wall = wall,
        hb_state = [(''phase'', JStr ''STARTING'')], hb_failure = None, hb_started = False, hb_stop = False,
        hb_alive = False, hb_file = file\<rparr>)"

text \<open>\<open>dict.update\<close>.\<close>

definition dict_update :: "payload \<Rightarrow> payload \<Rightarrow> payload" where
  "dict_update p new = fold (\<lambda>(k, v). dput k v) new p"

section \<open>The calls of the event loop\<close>

definition raise_if_publish_failed :: "(event_loop_heartbeat, unit) prog" where
  "raise_if_publish_failed = reads hb_failure (\<lambda>f. case f of None \<Rightarrow> ret ()
     | Some e \<Rightarrow> raise (RuntimeErr (JFmt [JStr ''event-loop heartbeat publication failed: '', exn_message e])))"

definition pulse :: "rat \<Rightarrow> rat \<Rightarrow> payload \<Rightarrow> (event_loop_heartbeat, unit) prog" where
  "pulse beat wall state = seqP raise_if_publish_failed (modP (\<lambda>h. h\<lparr>hb_pulse_mono := beat, hb_pulse_wall := wall,
     hb_state := dict_update (hb_state h) state\<rparr>))"

definition update_state :: "payload \<Rightarrow> (event_loop_heartbeat, unit) prog" where
  "update_state state = seqP raise_if_publish_failed (modP (\<lambda>h. h\<lparr>hb_state := dict_update (hb_state h) state\<rparr>))"

definition finalize_progress :: "rat \<Rightarrow> string \<Rightarrow> int \<Rightarrow> int \<Rightarrow> (event_loop_heartbeat, unit) prog" where
  "finalize_progress beat stage rows segments = seqP raise_if_publish_failed (modP (\<lambda>h. h\<lparr>hb_state := dict_update (hb_state h)
     [(''phase'', JStr ''FINALIZING''), (''finalize_stage'', JStr stage), (''finalize_rows_processed'', JInt rows),
      (''finalize_segments_total'', JInt segments), (''finalize_progress_mono'', JNum beat)]\<rparr>))"

section \<open>Publication\<close>

definition heartbeat_payload :: "publication \<Rightarrow> event_loop_heartbeat \<Rightarrow> payload" where
  "heartbeat_payload pb h = dict_update (hb_state h)
     [(''component'', JStr (hb_component h)), (''pid'', JInt (pb_pid pb)), (''pid_start_ticks'', j_opt JInt (pb_ticks pb)),
      (''heartbeat_mono'', JNum (hb_pulse_mono h)), (''heartbeat_wall'', JNum (hb_pulse_wall h)),
      (''publisher_wall'', JNum (pb_wall pb)), (''operating_mode'', JStr ''READ_ONLY''), (''net_position'', JInt 0)]"

text \<open>The retries: a denied replacement is tried again until the deadline has passed.\<close>

fun replace_file :: "rat \<Rightarrow> rat list \<Rightarrow> exn + unit \<Rightarrow> exn + unit" where
  "replace_file deadline [] answer = answer"
| "replace_file deadline (t # ts) answer =
     (if t \<ge> deadline then Inl (OSErr (JStr ''PermissionError'')) else replace_file deadline ts answer)"

definition publish :: "publication \<Rightarrow> (event_loop_heartbeat, unit) prog" where
  "publish pb = seqP (liftE (pb_write pb)) (reads (\<lambda>h. (heartbeat_payload pb h, hb_publish_seconds h)) (\<lambda>(p, s).
     seqP (liftE (replace_file (pb_start pb + max 1 s) (pb_denied pb) (pb_replace pb)))
       (modP (\<lambda>h. h\<lparr>hb_file := Some p\<rparr>))))"

text \<open>One turn of the thread's loop.\<close>

definition publisher_turn :: "publication \<Rightarrow> (event_loop_heartbeat, unit) prog" where
  "publisher_turn pb = reads (\<lambda>h. hb_alive h) (\<lambda>alive. whenP alive (reads hb_stop (\<lambda>stop.
     if stop then modP (\<lambda>h. h\<lparr>hb_alive := False\<rparr>)
     else catchP (publish pb) (\<lambda>e. modP (\<lambda>h. h\<lparr>hb_failure := Some e, hb_alive := False\<rparr>)))))"

definition start_heartbeat :: "publication \<Rightarrow> (event_loop_heartbeat, unit) prog" where
  "start_heartbeat pb = reads hb_started (\<lambda>started. whenP (\<not> started)
     (seqP (publish pb) (modP (\<lambda>h. h\<lparr>hb_started := True, hb_alive := True\<rparr>))))"

text \<open>\<open>close\<close>: the thread's turns until \<open>join\<close> returns are \<open>turns\<close>.\<close>

definition close_heartbeat :: "string \<Rightarrow> publication list \<Rightarrow> publication \<Rightarrow> (event_loop_heartbeat, unit) prog" where
  "close_heartbeat phase turns pb = reads hb_started (\<lambda>started. whenP started (block
     [modP (\<lambda>h. h\<lparr>hb_state := dput ''phase'' (JStr phase) (hb_state h), hb_stop := True\<rparr>),
      forP turns publisher_turn,
      reads hb_alive (\<lambda>alive. if alive then raise (RuntimeErr (JStr ''heartbeat publisher did not stop'')) else ret ()),
      publish pb, raise_if_publish_failed]))"

definition leave_heartbeat :: "bool \<Rightarrow> publication list \<Rightarrow> publication \<Rightarrow> (event_loop_heartbeat, unit) prog" where
  "leave_heartbeat failed = close_heartbeat (if failed then ''FAILED'' else ''STOPPED'')"

section \<open>Interleavings\<close>

datatype hb_event =
    Pulse rat rat payload
  | Update payload
  | Progress rat string int int
  | Turn publication
  | Start publication
  | Leave bool "publication list" publication

fun hb_do :: "hb_event \<Rightarrow> (event_loop_heartbeat, unit) prog" where
  "hb_do (Pulse beat wall state) = pulse beat wall state"
| "hb_do (Update state) = update_state state"
| "hb_do (Progress beat stage rows segments) = finalize_progress beat stage rows segments"
| "hb_do (Turn pb) = publisher_turn pb"
| "hb_do (Start pb) = start_heartbeat pb"
| "hb_do (Leave failed turns pb) = leave_heartbeat failed turns pb"

fun hb_run :: "hb_event list \<Rightarrow> event_loop_heartbeat \<Rightarrow> event_loop_heartbeat" where
  "hb_run [] h = h"
| "hb_run (e # es) h = hb_run es (snd (hb_do e h))"

section \<open>Facts\<close>

lemma dict_update_Nil [simp]: "dict_update p [] = p"
  by (simp add: dict_update_def)

lemma dict_update_Cons [simp]: "dict_update p ((k, v) # new) = dict_update (dput k v p) new"
  by (simp add: dict_update_def)

lemma pget_put [simp]: "pget (dput k v p) k' d = (if k' = k then v else pget p k' d)"
  by (simp add: pget_def)

lemma payload_entries [simp]:
  "pget (heartbeat_payload pb h) ''heartbeat_mono'' d = JNum (hb_pulse_mono h)"
  "pget (heartbeat_payload pb h) ''pid'' d = JInt (pb_pid pb)"
  "pget (heartbeat_payload pb h) ''pid_start_ticks'' d = j_opt JInt (pb_ticks pb)"
  "pget (heartbeat_payload pb h) ''operating_mode'' d = JStr ''READ_ONLY''"
  "pget (heartbeat_payload pb h) ''phase'' d = pget (hb_state h) ''phase'' d"
  "pget (heartbeat_payload pb h) ''sync_state'' d = pget (hb_state h) ''sync_state'' d"
  "pget (heartbeat_payload pb h) ''fatal_shutdown_requested'' d = pget (hb_state h) ''fatal_shutdown_requested'' d"
  by (simp_all add: heartbeat_payload_def)

text \<open>The pulses a run contains; a pulse on file is one of them.\<close>

fun beats :: "hb_event list \<Rightarrow> rat set" where
  "beats [] = {}"
| "beats (Pulse t wall state # es) = insert t (beats es)"
| "beats (e # es) = beats es"

definition beats_in :: "rat set \<Rightarrow> event_loop_heartbeat \<Rightarrow> bool" where
  "beats_in B h \<longleftrightarrow> hb_pulse_mono h \<in> B
     \<and> (\<forall>p. hb_file h = Some p \<longrightarrow> (\<exists>t\<in>B. pget p ''heartbeat_mono'' JNull = JNum t))"

lemma keeps_failed_check [wp_intro]: "keeps I raise_if_publish_failed"
  unfolding raise_if_publish_failed_def by (intro wp_intro)

lemma keeps_publish:
  assumes "\<And>h pb. I h \<Longrightarrow> I (h\<lparr>hb_file := Some (heartbeat_payload pb h)\<rparr>)"
  shows "keeps I (publish pb)"
  unfolding publish_def by (rule keepsI) (auto simp: wp_simps assms split: sum.splits)

lemma keeps_turn:
  assumes "\<And>h pb. I h \<Longrightarrow> I (h\<lparr>hb_file := Some (heartbeat_payload pb h)\<rparr>)"
    and "\<And>h f a. I h \<Longrightarrow> I (h\<lparr>hb_failure := f, hb_alive := a\<rparr>)" and "\<And>h a. I h \<Longrightarrow> I (h\<lparr>hb_alive := a\<rparr>)"
  shows "keeps I (publisher_turn pb)"
  unfolding publisher_turn_def
  by (intro wp_intro keeps_publish keeps_modP) (simp_all add: assms)

lemma keeps_turns: "(\<And>x. keeps I (f x)) \<Longrightarrow> keeps I (forP xs f)"
  by (induction xs) (auto intro: wp_intro)

lemma beats_in_fields:
  "beats_in B h \<Longrightarrow> beats_in B (h\<lparr>hb_file := Some (heartbeat_payload pb h)\<rparr>)"
  "beats_in B (h\<lparr>hb_failure := f\<rparr>) = beats_in B h" "beats_in B (h\<lparr>hb_alive := a\<rparr>) = beats_in B h"
  "beats_in B (h\<lparr>hb_state := s\<rparr>) = beats_in B h" "beats_in B (h\<lparr>hb_stop := a\<rparr>) = beats_in B h"
  "beats_in B (h\<lparr>hb_started := a\<rparr>) = beats_in B h"
  by (auto simp: beats_in_def)

lemma keeps_beats_in: "(\<And>t wall state. e = Pulse t wall state \<Longrightarrow> t \<in> B) \<Longrightarrow> keeps (beats_in B) (hb_do e)"
proof (cases e)
  case (Pulse t wall state)
  moreover assume "\<And>t wall state. e = Pulse t wall state \<Longrightarrow> t \<in> B"
  ultimately show ?thesis
    by (auto simp: pulse_def beats_in_def intro!: wp_intro keeps_modP)
next
  case (Update x2)
  then show ?thesis
    by (auto simp: update_state_def beats_in_fields intro!: wp_intro keeps_modP)
next
  case (Progress x31 x32 x33 x34)
  then show ?thesis
    by (auto simp: finalize_progress_def beats_in_fields intro!: wp_intro keeps_modP)
next
  case (Turn x4)
  then show ?thesis
    by (auto simp: beats_in_fields intro!: keeps_turn)
next
  case (Start x5)
  then show ?thesis
    by (auto simp: start_heartbeat_def beats_in_fields intro!: wp_intro keeps_publish keeps_modP)
next
  case (Leave x61 x62 x63)
  then show ?thesis
    by (auto simp: leave_heartbeat_def close_heartbeat_def beats_in_fields
        intro!: wp_intro keeps_publish keeps_modP keeps_turns keeps_turn simp del: block.simps)
qed

lemma beats_in_run: "beats_in B h \<Longrightarrow> beats es \<subseteq> B \<Longrightarrow> beats_in B (hb_run es h)"
proof (induction es arbitrary: h)
  case (Cons e es)
  have "beats es \<subseteq> B" using Cons.prems(2) by (cases e) simp_all
  moreover have "beats_in B (snd (hb_do e h))"
    using Cons.prems by (intro keeps_final [OF keeps_beats_in]) auto
  ultimately show ?case
    by (simp add: Cons.IH)
qed simp

text \<open>A loop that makes no more calls, in a phase in which the watchdog looks at the pulse.\<close>

definition running_status :: "payload \<Rightarrow> bool" where
  "running_status p \<longleftrightarrow> \<not> j_truthy (pget p ''fatal_shutdown_requested'' JNull)
     \<and> \<not> unhashable (pget p ''phase'' JNull)
     \<and> pget p ''phase'' JNull \<notin> {JStr ''FINALIZED'', JStr ''STOPPED'', JStr ''FINALIZING''}"

text \<open>The status file of the recorder \<open>pid\<close>, with a pulse not later than \<open>t\<close>.\<close>

definition on_file :: "rat \<Rightarrow> int \<Rightarrow> int \<Rightarrow> payload \<Rightarrow> bool" where
  "on_file t pid ticks p \<longleftrightarrow> running_status p \<and> (\<exists>b\<le>t. pget p ''heartbeat_mono'' JNull = JNum b)
     \<and> pget p ''pid'' JNull = JInt pid \<and> pget p ''pid_start_ticks'' JNull = JInt ticks"

definition wedged :: "rat \<Rightarrow> int \<Rightarrow> int \<Rightarrow> event_loop_heartbeat \<Rightarrow> bool" where
  "wedged t pid ticks h \<longleftrightarrow> hb_pulse_mono h \<le> t \<and> running_status (hb_state h)
     \<and> (\<exists>p. hb_file h = Some p \<and> on_file t pid ticks p)"

definition published_by :: "int \<Rightarrow> int \<Rightarrow> publication \<Rightarrow> bool" where
  "published_by pid ticks pb \<longleftrightarrow> pb_pid pb = pid \<and> pb_ticks pb = Some ticks"

lemma running_payload: "running_status (heartbeat_payload pb h) \<longleftrightarrow> running_status (hb_state h)"
  by (simp add: running_status_def)

lemma wedged_turn:
  assumes "wedged t pid ticks h" and "published_by pid ticks pb"
  shows "wedged t pid ticks (snd (publisher_turn pb h))"
proof -
  have fields: "wedged t pid ticks (h\<lparr>hb_failure := f\<rparr>) = wedged t pid ticks h"
    "wedged t pid ticks (h\<lparr>hb_alive := a\<rparr>) = wedged t pid ticks h"
    "wedged t pid ticks h \<Longrightarrow> wedged t pid ticks (h\<lparr>hb_file := Some (heartbeat_payload pb h)\<rparr>)" for h f a
    using assms(2) by (auto simp: wedged_def on_file_def running_payload published_by_def)
  have "keeps (wedged t pid ticks) (publish pb)"
    unfolding publish_def by (rule keepsI) (auto simp: wp_simps fields split: sum.splits)
  then have "keeps (wedged t pid ticks) (publisher_turn pb)"
    unfolding publisher_turn_def by (intro wp_intro keeps_modP) (simp_all add: fields)
  from keeps_final [OF this assms(1)] show ?thesis .
qed

lemma wedged_turns:
  "wedged t pid ticks h \<Longrightarrow> list_all (published_by pid ticks) pbs \<Longrightarrow> wedged t pid ticks (hb_run (map Turn pbs) h)"
  by (induction pbs arbitrary: h) (simp_all add: wedged_turn)

text \<open>The watchdog beside the publisher: before each reading of the file some turns of the thread.\<close>

type_synonym poll = "publication list \<times> os_view \<times> rat"

definition poll_time :: "poll \<Rightarrow> rat" where
  "poll_time x = (case x of (pbs, os, reading) \<Rightarrow> reading)"

fun polled :: "poll list \<Rightarrow> event_loop_heartbeat \<Rightarrow> cycle list" where
  "polled [] h = []"
| "polled ((pbs, os, reading) # xs) h =
     (let h' = hb_run (map Turn pbs) h
      in \<lparr>cy_os = os, cy_now = reading, cy_status = hb_file h'\<rparr> # polled xs h')"

text \<open>What makes a poll one of the stuck recorder: after the timeout, its turns, its process.\<close>

definition stuck_poll :: "rat \<Rightarrow> int \<Rightarrow> int \<Rightarrow> poll \<Rightarrow> bool" where
  "stuck_poll late pid ticks x \<longleftrightarrow> (case x of (pbs, os, reading) \<Rightarrow>
     late < reading \<and> list_all (published_by pid ticks) pbs \<and> os_ticks os pid = Some ticks)"

lemma stale_is_degraded:
  assumes "on_file t pid ticks p" and "t + wc_heartbeat_timeout_seconds (wd_config w) < reading"
  shows "\<exists>reason. evaluate_status reading (Some p) w = degraded reading reason ''CRITICAL'' w"
  using assms by (auto simp: on_file_def running_status_def evaluate_status_def evaluate_running_def Let_def bindP_def liftE_def reads_def)

text \<open>The verdict of one such reading, and what it leaves.\<close>

definition grace_over :: "watchdog_config \<Rightarrow> rat option \<Rightarrow> rat \<Rightarrow> bool" where
  "grace_over cfg since reading \<longleftrightarrow>
     (case since of None \<Rightarrow> False | Some t0 \<Rightarrow> t0 + wc_grace_seconds_before_kill cfg \<le> reading)"

lemma degraded_verdict:
  "\<exists>v. degraded reading reason sev w
      = (Inr v, w\<lparr>wd_unhealthy_since := Some (case wd_unhealthy_since w of None \<Rightarrow> reading | Some t0 \<Rightarrow> t0)\<rparr>)
    \<and> \<not> vd_healthy v \<and> vd_should_kill v = grace_over (wd_config w) (wd_unhealthy_since w) reading"
  by (cases "wd_unhealthy_since w")
     (auto simp: degraded_def grace_over_def reads_def ret_def seqP_def bindP_def modP_def Let_def algebra_simps)

lemma stuck_reading:
  assumes "on_file t pid ticks p" and "t + wc_heartbeat_timeout_seconds (wd_config w) < reading"
    and "pid \<noteq> 0" and "os_ticks os pid = Some ticks"
  shows "\<exists>v u. watchdog_once os reading (Some p) w = (Inr v, u) \<and> \<not> vd_healthy v
    \<and> vd_should_kill v = grace_over (wd_config w) (wd_unhealthy_since w) reading
    \<and> wd_unhealthy_since u = Some (case wd_unhealthy_since w of None \<Rightarrow> reading | Some t0 \<Rightarrow> t0)
    \<and> wd_config u = wd_config w
    \<and> wd_signals u = wd_signals w @ (if vd_should_kill v then fencing_signals os pid else [])"
proof -
  let ?w = "w\<lparr>wd_unhealthy_since := Some (case wd_unhealthy_since w of None \<Rightarrow> reading | Some t0 \<Rightarrow> t0)\<rparr>"
  obtain v where v: "evaluate_status reading (Some p) w = (Inr v, ?w)" "\<not> vd_healthy v"
      "vd_should_kill v = grace_over (wd_config w) (wd_unhealthy_since w) reading"
    using stale_is_degraded [OF assms(1,2)] degraded_verdict by metis
  have "pget p ''pid'' JNull = JInt pid" "pget p ''pid_start_ticks'' JNull = JInt ticks"
    using assms(1) by (simp_all add: on_file_def)
  from watchdog_once_acts [OF v(1) _ this assms(3,4)] obtain u
    where u: "watchdog_once os reading (Some p) w = (Inr v, u)"
      "wd_signals u = wd_signals w @ (if vd_should_kill v then fencing_signals os pid else [])"
    by (auto simp: wp_def split: prod.splits sum.splits)
  from watchdog_once_evaluates [OF u(1)] v(1) have "wd_unhealthy_since u = wd_unhealthy_since ?w"
      "wd_config u = wd_config ?w"
    by auto
  with u v(2,3) show ?thesis by simp
qed

text \<open>The signals of the readings for which the grace period since \<open>t0\<close> is over.\<close>

definition kills_after :: "rat \<Rightarrow> int \<Rightarrow> poll list \<Rightarrow> (int \<times> signal) list" where
  "kills_after deadline pid xs =
     concat (map (\<lambda>(pbs, os, reading). if deadline \<le> reading then fencing_signals os pid else []) xs)"

lemma stuck_polls:
  assumes "wedged t pid ticks h" and "pid \<noteq> 0" and "wd_unhealthy_since w = Some t0"
    and "list_all (stuck_poll (t + wc_heartbeat_timeout_seconds (wd_config w)) pid ticks) xs"
    and "watch (polled xs h) w = (vs, u)"
  shows "length vs = length xs \<and> list_all (\<lambda>(c, v). \<not> vd_healthy v) vs
    \<and> wd_signals u = wd_signals w @ kills_after (t0 + wc_grace_seconds_before_kill (wd_config w)) pid xs"
  using assms
proof (induction xs arbitrary: h w vs)
  case Nil
  then show ?case by (simp add: kills_after_def)
next
  case (Cons x xs)
  obtain pbs os reading where x: "x = (pbs, os, reading)" by (cases x)
  let ?h = "hb_run (map Turn pbs) h"
  have here: "t + wc_heartbeat_timeout_seconds (wd_config w) < reading" "list_all (published_by pid ticks) pbs"
      "os_ticks os pid = Some ticks"
    using Cons.prems(4) by (simp_all add: x stuck_poll_def)
  have wedged: "wedged t pid ticks ?h"
    by (rule wedged_turns [OF Cons.prems(1) here(2)])
  then obtain p where p: "hb_file ?h = Some p" "on_file t pid ticks p"
    by (auto simp: wedged_def)
  obtain v w1 where once: "watchdog_once os reading (Some p) w = (Inr v, w1)" "\<not> vd_healthy v"
      "vd_should_kill v = grace_over (wd_config w) (wd_unhealthy_since w) reading"
      "wd_unhealthy_since w1 = Some t0" "wd_config w1 = wd_config w"
      "wd_signals w1 = wd_signals w @ (if vd_should_kill v then fencing_signals os pid else [])"
    using stuck_reading [OF p(2) here(1) Cons.prems(2) here(3)] Cons.prems(3) by auto
  obtain ws where rest: "watch (polled xs ?h) w1 = (ws, u)" and vs: "length vs = Suc (length ws)"
      "list_all (\<lambda>(c, v). \<not> vd_healthy v) vs = list_all (\<lambda>(c, v). \<not> vd_healthy v) ws"
    using Cons.prems(5) once(1,2) p(1) by (auto simp: x Let_def split: prod.splits)
  from Cons.IH [OF wedged Cons.prems(2) once(4) _ rest] Cons.prems(4)
  have "length ws = length xs" "list_all (\<lambda>(c, v). \<not> vd_healthy v) ws"
    "wd_signals u = wd_signals w1 @ kills_after (t0 + wc_grace_seconds_before_kill (wd_config w)) pid xs"
    by (simp_all add: once(5))
  with once(3,6) Cons.prems(3) vs show ?case
    by (simp add: x kills_after_def grace_over_def)
qed

section \<open>Properties\<close>

text \<open>
  The published pulse is never invented: whatever the loop calls and the thread publishes, in
  any order and with any failures, the pulse in the status file is one that the loop made, or the one of the construction.
\<close>

theorem pulse_is_never_invented:
  assumes "hb_file h = None" and "hb_file (hb_run es h) = Some p"
  shows "\<exists>t\<in>insert (hb_pulse_mono h) (beats es). pget p ''heartbeat_mono'' JNull = JNum t"
proof -
  have "beats_in (insert (hb_pulse_mono h) (beats es)) (hb_run es h)"
    using assms(1) by (intro beats_in_run) (auto simp: beats_in_def)
  with assms(2) show ?thesis by (simp add: beats_in_def)
qed

text \<open>
  C39: a stuck loop is fenced. The last pulse is not later than \<open>t\<close>, the phase is one of a running recorder,
  and from then on only the publisher thread acts, as often as it likes and with any failures. The
  watchdog, healthy so far, polls the status file any number of times, first at \<open>reading\<close>, never before the
  timeout is over. Then every poll returns and finds the recorder unhealthy, and the signals sent are exactly
  those that fence the recorder's own process, at each later poll that is a grace period or more after the
  first one.
\<close>

theorem stuck_loop_is_fenced:
  assumes "hb_file h0 = None" and "h = hb_run es h0" and "\<forall>b\<in>insert (hb_pulse_mono h0) (beats es). b \<le> t"
    and "hb_file h = Some p" and "running_status p" and "running_status (hb_state h)"
    and "pget p ''pid'' JNull = JInt pid" and "pget p ''pid_start_ticks'' JNull = JInt ticks" and "pid \<noteq> 0"
    and "wd_unhealthy_since w = None"
    and "\<forall>(pbs, os, r) \<in> set ((turns, os0, reading) # polls).
      t + wc_heartbeat_timeout_seconds (wd_config w) < r \<and> os_ticks os pid = Some ticks
      \<and> (\<forall>pb \<in> set pbs. pb_pid pb = pid \<and> pb_ticks pb = Some ticks)"
    and "watch (polled ((turns, os0, reading) # polls) h) w = (vs, u)"
  shows "length vs = Suc (length polls) \<and> (\<forall>(c, v) \<in> set vs. \<not> vd_healthy v)
    \<and> wd_signals u = wd_signals w @ concat (map (\<lambda>(pbs, os, r).
        if reading + wc_grace_seconds_before_kill (wd_config w) \<le> r then fencing_signals os pid else []) polls)"
proof -
  have "beats_in (insert (hb_pulse_mono h0) (beats es)) h"
    unfolding assms(2) using assms(1) by (intro beats_in_run) (auto simp: beats_in_def)
  with assms(3-8) have wedged: "wedged t pid ticks h"
    by (fastforce simp: wedged_def on_file_def beats_in_def)
  have stuck: "list_all (stuck_poll (t + wc_heartbeat_timeout_seconds (wd_config w)) pid ticks)
      ((turns, os0, reading) # polls)"
    using assms(11) by (fastforce simp: stuck_poll_def list_all_iff published_by_def)
  let ?h = "hb_run (map Turn turns) h"
  have wedged': "wedged t pid ticks ?h"
    using stuck by (intro wedged_turns wedged) (simp add: stuck_poll_def)
  then obtain q where q: "hb_file ?h = Some q" "on_file t pid ticks q"
    by (auto simp: wedged_def)
  have first: "t + wc_heartbeat_timeout_seconds (wd_config w) < reading" "os_ticks os0 pid = Some ticks"
    using assms(11) by simp_all
  obtain v w1 where once: "watchdog_once os0 reading (Some q) w = (Inr v, w1)" "\<not> vd_healthy v"
      "wd_unhealthy_since w1 = Some reading" "wd_config w1 = wd_config w" "wd_signals w1 = wd_signals w"
    using stuck_reading [OF q(2) first(1) assms(9) first(2)] assms(10) by (auto simp: grace_over_def)
  obtain ws where rest: "watch (polled polls ?h) w1 = (ws, u)"
      and vs: "\<exists>c. vs = (c, v) # ws"
    using assms(12) once(1) q(1) by (auto simp: Let_def split: prod.splits)
  from stuck_polls [OF wedged' assms(9) once(3) _ rest] stuck
  have "length ws = length polls" "list_all (\<lambda>(c, v). \<not> vd_healthy v) ws"
    "wd_signals u = wd_signals w @ kills_after (reading + wc_grace_seconds_before_kill (wd_config w)) pid polls"
    by (simp_all add: once(4,5))
  with vs once(2) show ?thesis
    by (auto simp: kills_after_def list_all_iff)
qed

text \<open>
  The status of a recorder names no \<open>sync_state\<close>, so that the watchdog, which asks each status for one, warns about every
  recorder that is running and healthy.
\<close>

lemma healthy_recorder_is_reported:
  assumes "pget (hb_state h) ''sync_state'' JNull = JNull" and "running_status (hb_state h)"
    and "reading - hb_pulse_mono h \<le> wc_heartbeat_timeout_seconds (wd_config w)"
  shows "\<exists>v w'. evaluate_status reading (Some (heartbeat_payload pb h)) w = (Inr v, w') \<and> vd_healthy v \<and> vd_should_alert v
    \<and> vd_severity v = ''WARN''"
proof -
  define q where "q = heartbeat_payload pb h"
  have q: "\<not> j_truthy (pget q ''fatal_shutdown_requested'' JNull)" "\<not> unhashable (pget q ''phase'' JNull)" "pget q ''phase'' JNull \<noteq> JStr ''FINALIZED''"
      "pget q ''phase'' JNull \<noteq> JStr ''STOPPED''" "pget q ''phase'' JNull \<noteq> JStr ''FINALIZING''"
    using assms(2) by (simp_all add: q_def running_status_def)
  have fields: "pget q ''heartbeat_mono'' JNull = JNum (hb_pulse_mono h)" "pget q ''operating_mode'' JNull = JStr ''READ_ONLY''"
      "pget q ''sync_state'' JNull = JNull"
    using assms(1) by (simp_all add: q_def)
  have "\<exists>v w'. evaluate_running reading q w = (Inr v, w') \<and> vd_healthy v \<and> vd_should_alert v \<and> vd_severity v = ''WARN''"
    using assms(3) by (simp add: evaluate_running_def fields Let_def bindP_def liftE_def reads_def seqP_def recovered_def modP_def ret_def fine_def)
  then show ?thesis
    unfolding q_def [symmetric] evaluate_status_def using q by (simp add: Let_def)
qed

text \<open>Witnesses: a recorder that starts and then never pulses again.\<close>

definition demo_pb :: publication where
  "demo_pb = \<lparr>pb_wall = 0, pb_pid = 7, pb_ticks = Some 1, pb_write = Inr (), pb_start = 0, pb_denied = [0], pb_replace = Inr ()\<rparr>"

definition demo_beat :: event_loop_heartbeat where
  "demo_beat = \<lparr>hb_component = ''r'', hb_publish_seconds = 1, hb_pulse_mono = 0, hb_pulse_wall = 0,
     hb_state = [(''phase'', JStr ''CAPTURING'')], hb_failure = None, hb_started = False, hb_stop = False, hb_alive = False,
     hb_file = None\<rparr>"

definition beat_watchdog :: watchdog where
  "beat_watchdog = \<lparr>wd_config = default_watchdog_config, wd_unhealthy_since = None, wd_alerts = [], wd_signals = []\<rparr>"

lemma demo_started:
  "hb_run [Start demo_pb] demo_beat
     = demo_beat\<lparr>hb_file := Some (heartbeat_payload demo_pb demo_beat), hb_started := True, hb_alive := True\<rparr>"
  by (simp add: start_heartbeat_def publish_def demo_pb_def demo_beat_def reads_def whenP_def seqP_def bindP_def liftE_def
      modP_def ret_def)

lemma demo_running: "running_status (hb_state demo_beat)"
  by (simp add: running_status_def demo_beat_def unhashable_def)

lemma pulse_is_never_invented_witness:
  "\<exists>t\<in>insert 0 (beats [Start demo_pb]). pget (heartbeat_payload demo_pb demo_beat) ''heartbeat_mono'' JNull = JNum t"
  using pulse_is_never_invented [of demo_beat "[Start demo_pb]" "heartbeat_payload demo_pb demo_beat"]
  by (simp add: demo_started del: hb_run.simps) (simp add: demo_beat_def)

definition beat_os :: os_view where
  "beat_os = \<lparr>os_is_nt = False, os_ticks = (\<lambda>pid. if pid = 7 then Some 1 else None),
     os_ticks_later = (\<lambda>_. Some 1), os_term = (\<lambda>_. Delivered), os_kill = (\<lambda>_. Delivered)\<rparr>"

text \<open>Polls at 31, 40 and 61 seconds; the grace period is 30 seconds.\<close>

lemma stuck_loop_is_fenced_witness:
  "wd_signals (snd (watch (polled [([demo_pb], beat_os, 31), ([demo_pb], beat_os, 40), ([], beat_os, 61)]
     (hb_run [Start demo_pb] demo_beat)) beat_watchdog)) = [(7, SIGTERM), (7, SIGKILL)]"
proof -
  let ?h = "hb_run [Start demo_pb] demo_beat"
  let ?ps = "[([demo_pb], beat_os, 40), ([], beat_os, 61)] :: poll list"
  have h: "hb_file ?h = Some (heartbeat_payload demo_pb demo_beat)" "hb_state ?h = hb_state demo_beat"
    by (simp_all only: demo_started) simp_all
  have start: "hb_file demo_beat = None" "\<forall>b\<in>insert (hb_pulse_mono demo_beat) (beats [Start demo_pb]). b \<le> 0"
    by (simp_all add: demo_beat_def)
  have run: "running_status (heartbeat_payload demo_pb demo_beat)" "running_status (hb_state ?h)"
    using demo_running h(2) by (simp_all add: running_payload)
  have ids: "pget (heartbeat_payload demo_pb demo_beat) ''pid'' JNull = JInt 7"
    "pget (heartbeat_payload demo_pb demo_beat) ''pid_start_ticks'' JNull = JInt 1" "(7 :: int) \<noteq> 0"
    "wd_unhealthy_since beat_watchdog = None"
    by (simp_all add: demo_pb_def beat_watchdog_def)
  have polls: "\<forall>(pbs, os, r) \<in> set (([demo_pb], beat_os, 31) # ?ps).
      0 + wc_heartbeat_timeout_seconds (wd_config beat_watchdog) < r \<and> os_ticks os 7 = Some 1
      \<and> (\<forall>pb \<in> set pbs. pb_pid pb = 7 \<and> pb_ticks pb = Some 1)"
    by (simp add: beat_watchdog_def default_watchdog_config_def beat_os_def demo_pb_def)
  from stuck_loop_is_fenced [OF start(1) refl start(2) h(1) run ids polls prod.collapse [symmetric]]
  show ?thesis
    by (simp add: beat_watchdog_def default_watchdog_config_def beat_os_def fencing_signals_def)
qed

end
