(* ===== verification/Gate_Registry.thy ===== *)
theory Gate_Registry
  imports Evidence_Manifest
begin

text \<open>
  \<open>gate.py\<close>: the requirements of Gate B1 and the gate section of \<open>STATE.json\<close> that is derived from them.
\<close>

definition OPEN :: string where "OPEN = ''OPEN''"

definition PARTIAL :: string where "PARTIAL = ''PARTIAL''"

definition READY_FOR_FREEZE :: string where "READY_FOR_FREEZE = ''READY_FOR_FREEZE''"

definition VALID_STATUSES :: "string list" where "VALID_STATUSES = [OPEN, PARTIAL, READY_FOR_FREEZE]"

record requirement =
  rq_id :: string
  rq_title :: string
  rq_status :: string
  rq_evidence :: string
  rq_note :: string

definition new_requirement :: "requirement \<Rightarrow> exn + requirement" where
  "new_requirement r = (if rq_status r \<notin> set VALID_STATUSES
     then Inl (ValueErr (JFmt [JStr (rq_id r), JStr '': unknown status '', JStr (rq_status r)])) else Inr r)"

definition B1_REQUIREMENTS :: "requirement list" where
  "B1_REQUIREMENTS = [
  \<lparr>rq_id = ''B1.0'', rq_title = ''reproducible environment'', rq_status = READY_FOR_FREEZE,
      rq_evidence = ''uv.lock + gate manifest resolved_environment_sha256'',
      rq_note = ''''\<rparr>,
  \<lparr>rq_id = ''B1.1'', rq_title = ''single-writer process ownership'', rq_status = READY_FOR_FREEZE,
      rq_evidence = ''tests/test_journal_ownership.py (two real processes, SIGKILL)'',
      rq_note = ''''\<rparr>,
  \<lparr>rq_id = ''B1.2'', rq_title = ''calendar fail-closed outside verified coverage'', rq_status = READY_FOR_FREEZE,
      rq_evidence = ''tests/test_calendar_coverage.py'',
      rq_note = ''''\<rparr>,
  \<lparr>rq_id = ''B1.3a'', rq_title = ''fatal host exit and frozen supervisor policy'', rq_status = READY_FOR_FREEZE,
      rq_evidence = ''tests/test_fatal_fence.py, deploy/, tests/test_supervisor.py'',
      rq_note = ''''\<rparr>,
  \<lparr>rq_id = ''B1.3b'', rq_title = ''durable fatal fence survives repair and restart'', rq_status = READY_FOR_FREEZE,
      rq_evidence = ''tests/test_fatal_fence.py::test_a_repaired_journal_still_refuses_to_trade'',
      rq_note = ''''\<rparr>,
  \<lparr>rq_id = ''B1.4'', rq_title = ''real storage faults on a constrained volume'', rq_status = READY_FOR_FREEZE,
      rq_evidence = ''scripts/run_storage_fault_drill.py, artifacts/gate_b1_storage/, '' @ 
        ''.github/workflows/b1-freeze-campaign.yml'',
      rq_note = ''All three real-storage mechanisms have passed in engineering runs: disk_full (real ENOSPC -> '' @ 
        ''fence -> exit 10), wal_corruption (measured rollback plus forced witness crossing -> exit 15 + '' @ 
        ''fence), and fsync_stall (real dm-delay, healthy control then 45s live stall -> 30s journal '' @ 
        ''timeout -> fence -> exit 10 with zero post-fault broker writes). Final attestation must bind '' @ 
        ''one exact unified freeze campaign; the exact run and artifact digest live in its durable '' @ 
        ''evidence snapshot.''\<rparr>,
  \<lparr>rq_id = ''B1.5'', rq_title = ''owner risk acceptance bound to an exact freeze'', rq_status = READY_FOR_FREEZE,
      rq_evidence = ''docs/GATE_B1_SIGNOFF_TEMPLATE.md, scripts/finalize_gate_b1.py, '' @ 
        ''src/ib_execution/attestation.py, tests/test_attestation.py'',
      rq_note = ''B1 technical evidence is produced by the frozen test/fault campaign and adversarial code '' @ 
        ''review. The human step is explicitly owner risk acceptance, not a claim that the owner '' @ 
        ''independently audited every line of code. The owner must accept the B1 scope, invariant-19 '' @ 
        ''overnight limits, the Linux-only Windows gap, and the deferral of real-IB behavior to B2; the '' @ 
        ''owner must also state whether any additional B1-level hazard is known. Gate B1 becomes PASS '' @ 
        ''only when that exact-freeze owner acceptance and durable evidence snapshot exist and the '' @ 
        ''attestation diff contains metadata only. PASS is re-derived on every STATE.json regeneration; '' @ 
        ''it is never carried forward by hand.''\<rparr>,
  \<lparr>rq_id = ''B1.6'', rq_title = ''out-of-band witness that committed events still exist'', rq_status = READY_FOR_FREEZE,
      rq_evidence = ''src/ib_execution/journal_witness.py, tests/test_journal_witness.py, artifacts/gate_b1_storage/ '' @ 
        ''(forced_crossing -> exit 15 + fence)'',
      rq_note = ''''\<rparr>]"

definition requirement_ids :: "string list" where
  "requirement_ids = map rq_id B1_REQUIREMENTS"

definition open_requirements :: "requirement list" where
  "open_requirements = filter (\<lambda>r. rq_status r \<noteq> READY_FOR_FREEZE) B1_REQUIREMENTS"

definition ready_for_freeze :: bool where
  "ready_for_freeze \<longleftrightarrow> open_requirements = []"

definition as_dict :: "requirement \<Rightarrow> jval" where
  "as_dict r = JObj [(''id'', JStr (rq_id r)), (''title'', JStr (rq_title r)), (''status'', JStr (rq_status r)),
     (''evidence'', JStr (rq_evidence r)), (''note'', JStr (rq_note r))]"

definition as_state :: "string option \<Rightarrow> string option \<Rightarrow> payload" where
  "as_state signed_off_commit attested_freeze_commit =
     (let covers_worktree = (signed_off_commit \<noteq> None \<and> ready_for_freeze)
      in [(''gate_b1_attested_freeze'', j_opt JStr attested_freeze_commit),
          (''gate_b1_covers_worktree'', JBool covers_worktree),
          (''gate_b2'', JStr ''READ_ONLY_IN_PROGRESS''),
          (''order_authorization'', JStr ''NONE''),
          (''trading_adapter'', JStr ''NOT_IMPLEMENTED''),
          (''ready_for_freeze'', JBool ready_for_freeze),
          (''requirements'', JList (map as_dict B1_REQUIREMENTS))])"

lemma registry_is_valid: "list_all (\<lambda>r. new_requirement r = Inr r) B1_REQUIREMENTS"
  by (simp add: B1_REQUIREMENTS_def new_requirement_def VALID_STATUSES_def)

lemma registry_is_ready: ready_for_freeze
  by (simp add: ready_for_freeze_def open_requirements_def B1_REQUIREMENTS_def)

end
