(* ===== verification/Attestation.thy ===== *)
theory Attestation
  imports Gate_Registry Evidence_Material
begin

text \<open>
  \<open>attestation.py\<close> and the derivation of \<open>provenance.py\<close>: whether Gate B1 passed, recomputed from the sign-off,
  the evidence snapshot and the Git history. Git, the hash, the decoders and the worktree are the fields of a \<open>checkout\<close>;
  paths are relative to the root. The two regular expressions of the module are matched as a backtracking matcher does.
\<close>

definition SIGNOFF_PREFIX :: string where "SIGNOFF_PREFIX = ''GATE_B1_SIGNOFF_''"

definition EVIDENCE_PREFIX :: string where "EVIDENCE_PREFIX = ''GATE_B1_EVIDENCE_''"

definition STATE_FILENAME :: string where "STATE_FILENAME = ''STATE.json''"

definition ARTIFACT_DIGEST :: "string \<Rightarrow> bool" where
  "ARTIFACT_DIGEST s \<longleftrightarrow> take 7 s = ''sha256:'' \<and> HEX 64 (drop 7 s)"

record checkout = observer +
  co_exists :: "string \<Rightarrow> bool"
  co_read :: "string \<Rightarrow> string option"
  co_docs :: "string list option"

record attestation =
  at_freeze_commit :: string
  at_signoff_path :: string
  at_evidence_path :: string
  at_evidence_sha256 :: string

record historical_attestation = attestation +
  at_attestation_commit :: string

section \<open>Texts\<close>

text \<open>\<open>\s*\<close> before a continuation: as many as possible, then fewer.\<close>

fun after_spaces :: "(string \<Rightarrow> 'a option) \<Rightarrow> string \<Rightarrow> 'a option" where
  "after_spaces k [] = k []"
| "after_spaces k (c # s) = (if is_space c
     then (case after_spaces k s of Some v \<Rightarrow> Some v | None \<Rightarrow> k (c # s)) else k (c # s))"

definition newline_char :: char where "newline_char = CHR 0x0A"

definition at_line_end :: "string \<Rightarrow> unit option" where
  "at_line_end s = (if s = [] \<or> hd s = newline_char then Some () else None)"

text \<open>A lazy group of characters: as few as possible before what follows.\<close>

fun lazy_group :: "(char \<Rightarrow> bool) \<Rightarrow> (string \<Rightarrow> unit option) \<Rightarrow> string \<Rightarrow> string option" where
  "lazy_group ok k [] = (if k [] = Some () then Some [] else None)"
| "lazy_group ok k (c # s) = (if k (c # s) = Some () then Some []
     else if ok c then map_option (Cons c) (lazy_group ok k s) else None)"

definition then_bar :: "(string \<Rightarrow> 'a option) \<Rightarrow> string \<Rightarrow> 'a option" where
  "then_bar k s = (if take 1 s = ''|'' then k (drop 1 s) else None)"

definition row_value :: "string \<Rightarrow> string \<Rightarrow> string option" where
  "row_value label = then_bar (after_spaces (\<lambda>s.
     if take (length label) s = label
     then after_spaces (then_bar (after_spaces (lazy_group (\<lambda>c. c \<noteq> newline_char)
            (after_spaces (then_bar (after_spaces at_line_end)))))) (drop (length label) s)
     else None))"

text \<open>\<open>re.search\<close> of an expression that starts with \<open>^\<close>; the flag says that a line starts here.\<close>

fun search_lines :: "(string \<Rightarrow> 'a option) \<Rightarrow> bool \<Rightarrow> string \<Rightarrow> 'a option" where
  "search_lines k start [] = (if start then k [] else None)"
| "search_lines k start (c # s) = (case (if start then k (c # s) else None) of
     Some v \<Rightarrow> Some v | None \<Rightarrow> search_lines k (c = newline_char) s)"

definition table_value :: "string \<Rightarrow> string \<Rightarrow> string" where
  "table_value text label = (case search_lines (row_value label) True text of None \<Rightarrow> [] | Some v \<Rightarrow> strip v)"

definition scalar_value :: "string \<Rightarrow> string \<Rightarrow> string option" where
  "scalar_value label s = (if take (length label + 1) s = label @ '':''
     then after_spaces (\<lambda>s. case s of [] \<Rightarrow> None
       | c # t \<Rightarrow> if c \<noteq> CHR ''#'' \<and> c \<noteq> newline_char
           then map_option (Cons c) (lazy_group (\<lambda>c. c \<noteq> CHR ''#'' \<and> c \<noteq> newline_char)
             (after_spaces (\<lambda>r. if take 1 r = ''#'' then Some () else at_line_end r)) t)
           else None) (drop (length label + 1) s)
     else None)"

definition config_scalar_text :: "string \<Rightarrow> string \<Rightarrow> string" where
  "config_scalar_text text label = (case search_lines (scalar_value label) True text of None \<Rightarrow> [] | Some v \<Rightarrow> strip v)"

definition strip_ticks :: "string \<Rightarrow> string" where
  "strip_ticks s = rev (dropWhile (\<lambda>c. c = CHR 0x60) (rev (dropWhile (\<lambda>c. c = CHR 0x60) s)))"

definition line_break :: "char \<Rightarrow> bool" where
  "line_break c \<longleftrightarrow> (let n = of_char c :: nat in 10 \<le> n \<and> n \<le> 13 \<or> 28 \<le> n \<and> n \<le> 30)"

text \<open>\<open>splitlines\<close> on ASCII, with the line read so far.\<close>

fun split_lines :: "string \<Rightarrow> string \<Rightarrow> string list" where
  "split_lines acc [] = (if acc = [] then [] else [rev acc])"
| "split_lines acc (c # s) =
     (if c = CHR 0x0D \<and> take 1 s = [newline_char] then rev acc # split_lines [] (drop 1 s)
      else if line_break c then rev acc # split_lines [] s
      else split_lines (c # acc) s)"

text \<open>\<open>text.split(sep, 1)[1]\<close>, where there is one; \<open>text.count(word)\<close>.\<close>

fun after_first :: "string \<Rightarrow> string \<Rightarrow> string option" where
  "after_first sep [] = None"
| "after_first sep (c # s) = (if take (length sep) (c # s) = sep then Some (drop (length sep) (c # s)) else after_first sep s)"

fun occurrences :: "string \<Rightarrow> string \<Rightarrow> nat" where
  "occurrences word [] = 0"
| "occurrences word (c # s) = (if take (length word) (c # s) = word
     then Suc (occurrences word (drop (length word - 1) s)) else occurrences word s)"

section \<open>Git\<close>

definition signoff_of :: "string \<Rightarrow> string" where
  "signoff_of freeze = ''docs/'' @ SIGNOFF_PREFIX @ take 12 freeze @ ''.md''"

definition evidence_of :: "string \<Rightarrow> string" where
  "evidence_of freeze = ''docs/'' @ EVIDENCE_PREFIX @ take 12 freeze @ ''.json''"

definition allowed_attestation_paths :: "string \<Rightarrow> string set" where
  "allowed_attestation_paths freeze = {STATE_FILENAME, signoff_of freeze, evidence_of freeze}"

definition blob_at :: "checkout \<Rightarrow> string \<Rightarrow> string \<Rightarrow> exn + string option" where
  "blob_at co ref path = ebind (ob_git co [''show'', ref @ '':'' @ path]) (\<lambda>(code, out, _).
     Inr (if code = 0 then Some out else None))"

definition status_path :: "string \<Rightarrow> string" where
  "status_path line = (let path = drop 3 line in case after_first '' -> '' path of None \<Rightarrow> path | Some renamed \<Rightarrow> renamed)"

definition changed_worktree_paths :: "checkout \<Rightarrow> exn + string set option" where
  "changed_worktree_paths co = ebind (ob_git co [''status'', ''--porcelain'', ''--untracked-files=all'']) (\<lambda>(code, out, _).
     Inr (if code \<noteq> 0 then None else Some (set (map status_path (filter (\<lambda>l. length l \<ge> 4) (split_lines [] out))))))"

definition is_ancestor :: "checkout \<Rightarrow> string \<Rightarrow> string \<Rightarrow> exn + bool" where
  "is_ancestor co a b = ebind (ob_git co [''merge-base'', ''--is-ancestor'', a, b]) (\<lambda>(code, _). Inr (code = 0))"

definition changed_between :: "checkout \<Rightarrow> string \<Rightarrow> string \<Rightarrow> exn + string set option" where
  "changed_between co a b = ebind (ob_git co [''diff'', ''--name-only'', a @ ''..'' @ b]) (\<lambda>(code, out, _).
     Inr (if code \<noteq> 0 then None else Some (set (filter (\<lambda>l. l \<noteq> []) (split_lines [] out)))))"

section \<open>The evidence snapshot\<close>

text \<open>Checks in order; the first that fails decides, and a check after it is not evaluated.\<close>

fun every :: "(exn + bool) list \<Rightarrow> exn + bool" where
  "every [] = Inr True"
| "every (c # cs) = ebind c (\<lambda>b. if b then every cs else Inr False)"

definition has_value :: "jval \<Rightarrow> string \<Rightarrow> jval \<Rightarrow> exn + bool" where
  "has_value v k x = ebind (get_of v k JNull) (\<lambda>y. Inr (same_value y x))"

definition has_true :: "jval \<Rightarrow> string \<Rightarrow> exn + bool" where
  "has_true v k = ebind (get_of v k JNull) (\<lambda>y. Inr (y = JBool True))"

definition sub_object :: "jval \<Rightarrow> string \<Rightarrow> exn + jval" where
  "sub_object v k = get_of v k (JObj [])"

definition str_of :: "jval \<Rightarrow> string" where
  "str_of v = render v"

fun positive_id :: "jval \<Rightarrow> bool" where
  "positive_id (JInt n) = (0 < n)"
| "positive_id (JBool b) = b"
| "positive_id v = False"

definition workflow_ok :: "jval \<Rightarrow> string \<Rightarrow> exn + bool" where
  "workflow_ok workflow freeze = every
     [has_value workflow ''name'' (JStr ''b1-freeze-campaign''),
      has_value workflow ''artifact_name'' (JStr (''gate-b1-freeze-'' @ freeze)),
      ebind (get_of workflow ''run_id'' JNull) (\<lambda>y. Inr (positive_id y)),
      ebind (get_of workflow ''artifact_digest'' (JStr [])) (\<lambda>y. Inr (ARTIFACT_DIGEST (str_of y)))]"

definition same_tree :: "jval \<Rightarrow> jval \<Rightarrow> string \<Rightarrow> exn + bool" where
  "same_tree formal storage k = ebind (get_of formal k (JStr [])) (\<lambda>y.
     if HEX 64 (str_of y) then ebind (get_of storage k JNull) (\<lambda>z. Inr (z = JStr (str_of y))) else Inr False)"

definition manifests_ok :: "checkout \<Rightarrow> jval \<Rightarrow> string \<Rightarrow> string \<Rightarrow> string \<Rightarrow> jval \<Rightarrow> jval \<Rightarrow> exn + bool" where
  "manifests_ok co data freeze formal_raw storage_raw formal storage = ebind (sub_object data ''manifest_sha256'') (\<lambda>hashes. every
     [has_value hashes ''formal'' (JStr (ob_sha256 co formal_raw)), has_value hashes ''storage'' (JStr (ob_sha256 co storage_raw)),
      Inr (HEX 64 (ob_sha256 co formal_raw) \<and> HEX 64 (ob_sha256 co storage_raw)),
      has_value formal ''commit_sha'' (JStr freeze), has_value storage ''commit_sha'' (JStr freeze),
      has_true formal ''passed'', has_true formal ''worktree_clean'', has_true storage ''passed'', has_true storage ''worktree_clean'',
      has_value storage ''inconclusive'' (JList []),
      same_tree formal storage ''source_tree_sha256'', same_tree formal storage ''dependency_lock_sha256'',
      same_tree formal storage ''resolved_environment_sha256''])"

definition REQUIRED_TEXTS :: "string list" where
  "REQUIRED_TEXTS = [''deterministic'', ''property_default'', ''property_gate'', ''process_crash'',
     ''deterministic_soak_auditor'', ''dm_targets'', ''storage_domains'']"

text \<open>\<open>set(evidence_text) == required\<close> and \<open>evidence_text.values()\<close>: a list may have the elements, but not the values.\<close>

fun set_element :: "jval \<Rightarrow> bool" where
  "set_element (JList xs) = False"
| "set_element (JObj p) = False"
| "set_element v = True"

definition names_required :: "jval \<Rightarrow> exn + payload option" where
  "names_required v = (case v of
     JObj p \<Rightarrow> Inr (if set (map fst p) = set REQUIRED_TEXTS then Some p else None)
   | JStr s \<Rightarrow> Inr None
   | JList xs \<Rightarrow> if \<not> list_all set_element xs then Inl (TypeErr (JStr ''unhashable type''))
       else if set xs = JStr ` set REQUIRED_TEXTS then Inl (TypeErr (JStr ''list object has no attribute values'')) else Inr None
   | _ \<Rightarrow> Inl (TypeErr (JStr ''object is not iterable'')))"

definition text_ok :: "checkout \<Rightarrow> jval \<Rightarrow> bool" where
  "text_ok co v = (case v of JObj q \<Rightarrow> (case pget q ''text'' JNull of
       JStr t \<Rightarrow> pget q ''sha256'' JNull = JStr (ob_sha256 co t) | _ \<Rightarrow> False) | _ \<Rightarrow> False)"

text \<open>The texts that passed: their entries and their content.\<close>

definition part_of :: "payload \<Rightarrow> string \<Rightarrow> string \<Rightarrow> jval" where
  "part_of texts name k = (case pget texts name JNull of JObj q \<Rightarrow> pget q k JNull | _ \<Rightarrow> JNull)"

definition text_of :: "payload \<Rightarrow> string \<Rightarrow> string" where
  "text_of texts name = (case part_of texts name ''text'' of JStr t \<Rightarrow> t | _ \<Rightarrow> [])"

definition path_of :: "payload \<Rightarrow> string \<Rightarrow> string" where
  "path_of texts name = (case pget texts name JNull of JObj q \<Rightarrow> str_of (pget q ''path'' (JStr [])) | _ \<Rightarrow> [])"

definition bound_in :: "jval \<Rightarrow> payload \<Rightarrow> string \<Rightarrow> string \<Rightarrow> exn + bool" where
  "bound_in hashes texts name k = ebind (get_of hashes k JNull) (\<lambda>h. Inr (part_of texts name ''sha256'' = h))"

definition texts_bound :: "jval \<Rightarrow> jval \<Rightarrow> payload \<Rightarrow> exn + bool" where
  "texts_bound data formal texts = ebind (sub_object formal ''artifact_hashes'') (\<lambda>artifact_hashes.
     ebind (every [bound_in artifact_hashes texts ''deterministic'' ''deterministic.txt'',
       bound_in artifact_hashes texts ''property_default'' ''property_default.txt'',
       bound_in artifact_hashes texts ''property_gate'' ''property_gate.txt'']) (\<lambda>ok. if \<not> ok then Inr False
     else ebind (sub_object data ''supplemental_sha256'') (\<lambda>supplemental.
       every (map (\<lambda>name. bound_in supplemental texts name (''artifacts/'' @ path_of texts name))
         [''process_crash'', ''deterministic_soak_auditor'', ''dm_targets'', ''storage_domains'']))))"

definition delay_row :: "string \<Rightarrow> unit option" where
  "delay_row s = (if take 5 s = ''delay'' \<and> list_ex is_space (take 1 (drop 5 s)) then Some () else None)"

definition texts_say :: "payload \<Rightarrow> bool" where
  "texts_say texts \<longleftrightarrow> occurrences ''1500 passing, 0 failing'' (text_of texts ''property_gate'') \<ge> 2
     \<and> occurs_in ''PASS: 20 seeds x 50 actions'' (text_of texts ''deterministic_soak_auditor'')
     \<and> search_lines delay_row True (text_of texts ''dm_targets'') \<noteq> None"

definition drills_ok :: "jval \<Rightarrow> exn + bool" where
  "drills_ok storage =
     ebind (sub_object storage ''drills'') (\<lambda>drills.
     ebind (sub_object drills ''disk_full'') (\<lambda>disk.
     ebind (sub_object drills ''wal_corruption'') (\<lambda>wal.
     ebind (sub_object drills ''fsync_stall'') (\<lambda>fsync.
     ebind (every [has_true disk ''passed'', has_value disk ''exit_code'' (JInt 10), has_true disk ''fence_present'']) (\<lambda>ok.
     if \<not> ok then Inr False
     else ebind (sub_object wal ''forced_crossing'') (\<lambda>crossing.
     ebind (every [has_true wal ''passed'', has_true crossing ''passed'', has_value crossing ''exit_code'' (JInt 15)]) (\<lambda>ok.
     if \<not> ok then Inr False
     else ebind (sub_object fsync ''stalling'') (\<lambda>stalling. ebind (sub_object fsync ''healthy'') (\<lambda>healthy. every
       [has_true fsync ''passed'', has_value fsync ''mechanism'' (JStr ''dm-delay''), has_true healthy ''passed'',
        has_value healthy ''broker_write_count'' (JInt 1), has_true stalling ''passed'', has_value stalling ''exit_code'' (JInt 10),
        has_value stalling ''post_fault_broker_writes'' (JInt 0), has_true stalling ''fence_present''])))))))))"

text \<open>The rest of \<open>_evidence_data_is_valid\<close>, once the two manifests are decoded, and before that.\<close>

definition snapshot_ok :: "checkout \<Rightarrow> jval \<Rightarrow> string \<Rightarrow> string \<Rightarrow> string \<Rightarrow> jval \<Rightarrow> jval \<Rightarrow> exn + bool" where
  "snapshot_ok co data freeze formal_raw storage_raw formal storage =
     ebind (manifests_ok co data freeze formal_raw storage_raw formal storage) (\<lambda>ok. if \<not> ok then Inr False
     else ebind (sub_object data ''evidence_text'') (\<lambda>t. ebind (names_required t) (\<lambda>named. (case named of
        None \<Rightarrow> Inr False
      | Some texts \<Rightarrow> if \<not> list_all (\<lambda>kv. text_ok co (snd kv)) texts then Inr False
          else every [texts_bound data formal texts, Inr (texts_say texts), drills_ok storage,
            ebind (sub_object data ''scope_limits'') (\<lambda>scope.
              has_value scope ''windows_real_faults'' (JStr ''NOT_RUN_ACCEPTED_NON_BLOCKER''))]))))"

definition raw_manifests_ok :: "checkout \<Rightarrow> jval \<Rightarrow> string \<Rightarrow> jval \<Rightarrow> jval \<Rightarrow> exn + bool" where
  "raw_manifests_ok co data freeze f s = (case (f, s) of
     (JStr formal_raw, JStr storage_raw) \<Rightarrow>
       (case (ob_json co formal_raw, ob_json co storage_raw) of
          (Some formal, Some storage) \<Rightarrow> snapshot_ok co data freeze formal_raw storage_raw formal storage
        | _ \<Rightarrow> Inr False)
   | _ \<Rightarrow> Inr False)"

definition evidence_data_is_valid :: "checkout \<Rightarrow> jval \<Rightarrow> string \<Rightarrow> exn + bool" where
  "evidence_data_is_valid co data freeze =
     ebind (every [has_value data ''schema_version'' (JInt 1), has_value data ''freeze_commit'' (JStr freeze),
       ebind (sub_object data ''workflow'') (\<lambda>w. workflow_ok w freeze)]) (\<lambda>ok. if \<not> ok then Inr False
     else ebind (get_of data ''formal_manifest_raw'' JNull) (\<lambda>f. ebind (get_of data ''storage_manifest_raw'' JNull) (\<lambda>s.
       raw_manifests_ok co data freeze f s)))"

end
