(* ===== verification/Sign_Off.thy ===== *)
theory Sign_Off
  imports Attestation
begin

text \<open>
  \<open>attestation.py\<close>, continued: the owner's sign-off, the validation of a freeze against the checkout and against
  history, and the gate status that \<open>provenance.py\<close> derives and compares with the recorded one.
\<close>

section \<open>The sign-off\<close>

text \<open>The two texts that stand for a missing entry: an em dash (in UTF-8) and \<open>TBD\<close>.\<close>

definition is_blank :: "string \<Rightarrow> bool" where
  "is_blank s \<longleftrightarrow> s \<in> {[], [CHR 0xE2, CHR 0x80, CHR 0x94], ''TBD''}"

definition OWNER_DECISIONS :: "(string \<times> string) list" where
  "OWNER_DECISIONS = [(''B1 scope acceptance'', ''ACCEPT''), (''Overnight risk acceptance'', ''ACCEPT''),
     (''Windows gap acceptance'', ''ACCEPT''), (''Real IB scope'', ''DEFER_TO_B2''),
     (''Additional B1-level hazard identified'', ''NO''), (''Decision'', ''PASS'')]"

definition frozen_risk :: "string \<Rightarrow> (string \<times> string) list" where
  "frozen_risk risk_config_text =
     [(''Accepted max_position_shares'', config_scalar_text risk_config_text ''max_position_shares''),
      (''Recorded overnight_gap_stress_pct'', config_scalar_text risk_config_text ''overnight_gap_stress_pct''),
      (''Recorded max_overnight_loss'', config_scalar_text risk_config_text ''max_overnight_loss'')]"

definition states_all :: "string \<Rightarrow> (string \<times> string) list \<Rightarrow> bool" where
  "states_all text kvs \<longleftrightarrow> list_all (\<lambda>(k, v). strip_ticks (table_value text k) = v) kvs"

definition item_of :: "jval \<Rightarrow> string \<Rightarrow> exn + jval" where
  "item_of v k = (case v of JObj p \<Rightarrow> pkey p k | _ \<Rightarrow> Inl (TypeErr (JStr ''object is not subscriptable'')))"

definition signoff_is_valid :: "checkout \<Rightarrow> string \<Rightarrow> string \<Rightarrow> jval \<Rightarrow> string \<Rightarrow> string \<Rightarrow> exn + bool" where
  "signoff_is_valid co text evidence_bytes evidence_data risk_config_text freeze = every
     [Inr (table_value text ''`commit_sha`'' = freeze),
      Inr (\<not> is_blank (table_value text ''Owner'')), Inr (\<not> is_blank (table_value text ''Accepted at (UTC)'')),
      Inr (states_all text OWNER_DECISIONS),
      Inr (list_all (\<lambda>kv. snd kv \<noteq> []) (frozen_risk risk_config_text)), Inr (states_all text (frozen_risk risk_config_text)),
      Inr (table_value text ''Evidence snapshot sha256'' = ob_sha256 co evidence_bytes),
      ebind (item_of evidence_data ''workflow'') (\<lambda>workflow. every
        [ebind (item_of workflow ''run_id'') (\<lambda>r. Inr (table_value text ''Freeze campaign run'' = str_of r)),
         ebind (item_of workflow ''artifact_digest'') (\<lambda>d. Inr (JStr (table_value text ''Freeze artifact digest'') = d))])]"

text \<open>The three inputs, decoded, and both checks.\<close>

definition inputs_valid :: "checkout \<Rightarrow> string \<Rightarrow> string \<Rightarrow> string \<Rightarrow> string \<Rightarrow> exn + bool" where
  "inputs_valid co freeze signoff_bytes evidence_bytes risk_bytes =
     (if \<not> (ob_utf8 co signoff_bytes \<and> ob_utf8 co evidence_bytes \<and> ob_utf8 co risk_bytes) then Inr False
      else (case ob_json co evidence_bytes of
        None \<Rightarrow> Inr False
      | Some data \<Rightarrow> every [evidence_data_is_valid co data freeze,
          signoff_is_valid co signoff_bytes evidence_bytes data risk_bytes freeze]))"

section \<open>Coverage of the worktree\<close>

definition committed_or_worktree :: "checkout \<Rightarrow> string \<Rightarrow> string \<Rightarrow> exn + string option" where
  "committed_or_worktree co current path = ebind (blob_at co current path) (\<lambda>b.
     Inr (case b of Some x \<Rightarrow> Some x | None \<Rightarrow> co_read co path))"

definition metadata_only :: "checkout \<Rightarrow> string \<Rightarrow> string \<Rightarrow> exn + bool" where
  "metadata_only co freeze current =
     (if current = freeze then Inr True
      else ebind (is_ancestor co freeze current) (\<lambda>ok. if \<not> ok then Inr False
      else ebind (changed_between co freeze current) (\<lambda>diff. Inr (case diff of
          None \<Rightarrow> False
        | Some committed \<Rightarrow> committed \<subseteq> allowed_attestation_paths freeze
            \<and> signoff_of freeze \<in> committed \<and> evidence_of freeze \<in> committed))))"

definition validate_freeze :: "checkout \<Rightarrow> string \<Rightarrow> exn + attestation option" where
  "validate_freeze co freeze =
     (if \<not> HEX 40 freeze \<or> \<not> co_exists co (signoff_of freeze) \<or> \<not> co_exists co (evidence_of freeze) then Inr None
      else ebind (ob_git co [''rev-parse'', ''HEAD'']) (\<lambda>(code, out, _). if code \<noteq> 0 then Inr None
      else let current = strip out in
        ebind (committed_or_worktree co current (signoff_of freeze)) (\<lambda>signoff_blob.
        ebind (committed_or_worktree co current (evidence_of freeze)) (\<lambda>evidence_bytes.
        ebind (committed_or_worktree co current ''config/risk.example.yml'') (\<lambda>risk_blob.
          (case (signoff_blob, evidence_bytes, risk_blob) of
             (Some text, Some evidence, Some risk) \<Rightarrow>
               ebind (inputs_valid co freeze text evidence risk) (\<lambda>ok. if \<not> ok then Inr None
               else ebind (metadata_only co freeze current) (\<lambda>ok. if \<not> ok then Inr None
               else ebind (changed_worktree_paths co) (\<lambda>dirty. Inr (case dirty of
                  None \<Rightarrow> None
                | Some paths \<Rightarrow> if paths \<subseteq> allowed_attestation_paths freeze
                    then Some \<lparr>at_freeze_commit = freeze, at_signoff_path = signoff_of freeze,
                      at_evidence_path = evidence_of freeze, at_evidence_sha256 = ob_sha256 co evidence\<rparr> else None))))
           | _ \<Rightarrow> Inr None))))))"

definition signoff_suffix :: "string \<Rightarrow> string option" where
  "signoff_suffix name = (let n = length SIGNOFF_PREFIX; middle = take (length name - n - 3) (drop n name)
     in if take n name = SIGNOFF_PREFIX \<and> has_suffix name ''.md'' \<and> HEX 12 middle then Some middle else None)"

fun valid_freezes :: "checkout \<Rightarrow> string list \<Rightarrow> exn + string list" where
  "valid_freezes co [] = Inr []"
| "valid_freezes co (name # names) = (case signoff_suffix name of
     None \<Rightarrow> valid_freezes co names
   | Some suffix \<Rightarrow> (case co_read co (''docs/'' @ name) of
       None \<Rightarrow> valid_freezes co names
     | Some text \<Rightarrow>
         if \<not> ob_utf8 co text then Inl (ValueErr (JStr ''UnicodeDecodeError''))
         else let freeze = table_value text ''`commit_sha`'' in
           if take (length suffix) freeze \<noteq> suffix then valid_freezes co names
           else ebind (validate_freeze co freeze) (\<lambda>r. case r of
               None \<Rightarrow> valid_freezes co names
             | Some _ \<Rightarrow> ebind (valid_freezes co names) (\<lambda>rest. Inr (freeze # rest)))))"

definition derive_signed_off_commit :: "checkout \<Rightarrow> exn + string option" where
  "derive_signed_off_commit co = (case co_docs co of
     None \<Rightarrow> Inr None
   | Some names \<Rightarrow> ebind (valid_freezes co (sort names)) (\<lambda>valid. (case sort (remdups valid) of
       [] \<Rightarrow> Inr None
     | [x] \<Rightarrow> Inr (Some x)
     | unique \<Rightarrow> Inl (RuntimeErr (JFmt [JStr ''multiple valid Gate B1 attestations: '', sorted_list unique])))))"

section \<open>History\<close>

definition historical_at :: "checkout \<Rightarrow> string \<Rightarrow> string \<Rightarrow> exn + historical_attestation option" where
  "historical_at co freeze commit =
     (if \<not> HEX 40 commit then Inr None
      else ebind (is_ancestor co freeze commit) (\<lambda>after. if \<not> after then Inr None
      else ebind (is_ancestor co commit ''HEAD'') (\<lambda>reached. if \<not> reached then Inr None
      else ebind (changed_between co freeze commit) (\<lambda>diff. (case diff of
          None \<Rightarrow> Inr None
        | Some committed \<Rightarrow>
          if \<not> {signoff_of freeze, evidence_of freeze} \<subseteq> committed \<or> \<not> committed \<subseteq> allowed_attestation_paths freeze then Inr None
          else ebind (blob_at co commit (signoff_of freeze)) (\<lambda>signoff_bytes.
            ebind (blob_at co commit (evidence_of freeze)) (\<lambda>evidence_bytes.
            ebind (blob_at co freeze ''config/risk.example.yml'') (\<lambda>risk_bytes.
              (case (signoff_bytes, evidence_bytes, risk_bytes) of
                 (Some text, Some evidence, Some risk) \<Rightarrow>
                   ebind (inputs_valid co freeze text evidence risk) (\<lambda>ok. Inr (if \<not> ok then None
                     else Some \<lparr>at_freeze_commit = freeze, at_signoff_path = signoff_of freeze,
                       at_evidence_path = evidence_of freeze, at_evidence_sha256 = ob_sha256 co evidence,
                       at_attestation_commit = commit\<rparr>))
               | _ \<Rightarrow> Inr None)))))))))"

fun first_historical :: "checkout \<Rightarrow> string \<Rightarrow> string list \<Rightarrow> exn + historical_attestation option" where
  "first_historical co freeze [] = Inr None"
| "first_historical co freeze (c # cs) = ebind (historical_at co freeze c) (\<lambda>r. case r of
     None \<Rightarrow> first_historical co freeze cs | Some a \<Rightarrow> Inr (Some a))"

definition validate_historical :: "checkout \<Rightarrow> string \<Rightarrow> exn + historical_attestation option" where
  "validate_historical co freeze = (if \<not> HEX 40 freeze then Inr None
     else ebind (ob_git co [''log'', ''--format=%H'', ''--diff-filter=A'', ''--'', signoff_of freeze]) (\<lambda>(code, out, _).
       if code \<noteq> 0 then Inr None else first_historical co freeze (split_lines [] out)))"

definition docs_suffix :: "string \<Rightarrow> string option" where
  "docs_suffix path = (if take 5 path = ''docs/'' then signoff_suffix (drop 5 path) else None)"

fun historical_records :: "checkout \<Rightarrow> string list \<Rightarrow> exn + historical_attestation list" where
  "historical_records co [] = Inr []"
| "historical_records co (path # paths) = (case docs_suffix path of
     None \<Rightarrow> historical_records co paths
   | Some suffix \<Rightarrow> ebind (blob_at co ''HEAD'' path) (\<lambda>b. case b of
       None \<Rightarrow> historical_records co paths
     | Some text \<Rightarrow>
         if \<not> ob_utf8 co text \<or> take (length suffix) (table_value text ''`commit_sha`'') \<noteq> suffix then historical_records co paths
         else ebind (validate_historical co (table_value text ''`commit_sha`'')) (\<lambda>r. case r of
             None \<Rightarrow> historical_records co paths
           | Some a \<Rightarrow> ebind (historical_records co paths) (\<lambda>rest. Inr (a # rest)))))"

definition not_after :: "checkout \<Rightarrow> historical_attestation \<Rightarrow> historical_attestation \<Rightarrow> exn + bool" where
  "not_after co candidate other = (if at_attestation_commit other = at_attestation_commit candidate then Inr True
     else is_ancestor co (at_attestation_commit other) (at_attestation_commit candidate))"

fun latest_of :: "checkout \<Rightarrow> historical_attestation list \<Rightarrow> historical_attestation list \<Rightarrow> exn + historical_attestation list" where
  "latest_of co all [] = Inr []"
| "latest_of co all (c # cs) = ebind (every (map (not_after co c) all)) (\<lambda>ok.
     ebind (latest_of co all cs) (\<lambda>rest. Inr (if ok then c # rest else rest)))"

definition derive_historical_attested_freeze :: "checkout \<Rightarrow> exn + historical_attestation option" where
  "derive_historical_attested_freeze co =
     ebind (ob_git co [''ls-tree'', ''-r'', ''--name-only'', ''HEAD'', ''docs'']) (\<lambda>(code, out, _). if code \<noteq> 0 then Inr None
     else ebind (historical_records co (split_lines [] out)) (\<lambda>records.
       let unique = map snd (fold (\<lambda>a. dput (at_freeze_commit a) a) records []) in
       (case unique of
          [] \<Rightarrow> Inr None
        | [a] \<Rightarrow> Inr (Some a)
        | _ \<Rightarrow> ebind (latest_of co unique unique) (\<lambda>latest. (case latest of
            [a] \<Rightarrow> Inr (Some a)
          | _ \<Rightarrow> Inl (RuntimeErr (JFmt [JStr ''multiple incomparable historical Gate B1 attestations: '',
              sorted_list (map at_freeze_commit unique)])))))))"

section \<open>The gate status\<close>

definition derived_gate_status :: "checkout \<Rightarrow> exn + payload" where
  "derived_gate_status co = ebind (derive_signed_off_commit co) (\<lambda>signed_off.
     ebind (derive_historical_attested_freeze co) (\<lambda>historical.
       Inr (as_state signed_off (map_option at_freeze_commit historical))))"

text \<open>Equality of decoded values: numbers by value, objects whatever the order of their keys.\<close>

fun canonical :: "jval \<Rightarrow> jval" where
  "canonical (JInt n) = JNum (of_int n)"
| "canonical (JBool b) = JNum (if b then 1 else 0)"
| "canonical (JList xs) = JList (map canonical xs)"
| "canonical (JObj p) = JObj (sort_key fst (map (\<lambda>kv. (fst kv, canonical (snd kv))) p))"
| "canonical v = v"

text \<open>\<open>stale_fields\<close>: the recorded state is that of \<open>STATE.json\<close>, \<open>tree\<close> the recomputed part that is a function of the worktree.\<close>

fun stale_in :: "string \<Rightarrow> jval \<Rightarrow> payload \<Rightarrow> exn + (string \<times> jval \<times> jval) list" where
  "stale_in prefix recorded [] = Inr []"
| "stale_in prefix recorded ((k, v) # kvs) = ebind (get_of recorded k JNull) (\<lambda>r.
     ebind (stale_in prefix recorded kvs) (\<lambda>rest.
       Inr (if canonical r = canonical v then rest else (prefix @ k, r, v) # rest)))"

definition stale_fields :: "checkout \<Rightarrow> payload \<Rightarrow> jval option \<Rightarrow> exn + (string \<times> jval \<times> jval) list" where
  "stale_fields co tree recorded = (case recorded of
     None \<Rightarrow> Inr [(''STATE.json'', JStr ''missing'', JStr ''expected'')]
   | Some state \<Rightarrow> ebind (sub_object state ''tree'') (\<lambda>recorded_tree.
       ebind (stale_in [] recorded_tree tree) (\<lambda>stale.
       ebind (derived_gate_status co) (\<lambda>expected.
       ebind (sub_object state ''gate_status'') (\<lambda>recorded_gate.
       ebind (stale_in ''gate_status.'' recorded_gate expected) (\<lambda>stale_gate. Inr (stale @ stale_gate)))))))"

end
