(* ===== verification/Gate_Facts.thy ===== *)
theory Gate_Facts
  imports Sign_Off
begin

text \<open>
  What it means that the checks of an attestation passed: the evidence, the sign-off, the validation against the
  checkout.
\<close>

section \<open>Checks that passed\<close>

lemma every_True [simp]: "every cs = Inr True \<longleftrightarrow> list_all (\<lambda>c. c = Inr True) cs"
proof (induction cs)
  case (Cons c cs)
  then show ?case by (cases c) (auto simp: ebind_def)
qed simp

declare every.simps [simp del]

lemma ebind_check [simp]: "ebind c (\<lambda>ok. if \<not> ok then Inr False else k) = Inr True \<longleftrightarrow> c = Inr True \<and> k = Inr True"
  by (cases c) (auto simp: ebind_def)

fun at_path :: "jval \<Rightarrow> string list \<Rightarrow> jval" where
  "at_path v [] = v"
| "at_path v (k # ks) = (case v of JObj p \<Rightarrow> at_path (pget p k JNull) ks | _ \<Rightarrow> JNull)"

lemma has_value_at: "has_value v k x = Inr True \<Longrightarrow> same_value (at_path v [k]) x"
  by (cases v) (auto simp: has_value_def get_of_def ebind_def)

lemma has_true_at: "has_true v k = Inr True \<Longrightarrow> at_path v [k] = JBool True"
  by (cases v) (auto simp: has_true_def get_of_def ebind_def)

lemma at_path_Nil_obj: "at_path (JObj []) (k # ks) = JNull"
  by (induction ks arbitrary: k) simp_all

lemma sub_object_at:
  assumes "sub_object v k = Inr w" and "at_path w (l # ls) \<noteq> JNull"
  shows "at_path v (k # l # ls) = at_path w (l # ls)"
proof (cases v)
  case (JObj p)
  with assms show ?thesis
    by (cases "map_of p k") (auto simp: sub_object_def get_of_def pget_def at_path_Nil_obj at_path.simps(2) [of "JObj p" k] simp del: at_path.simps)
qed (use assms in \<open>auto simp: sub_object_def get_of_def\<close>)

lemma sub_value_at:
  "sub_object v k = Inr w \<Longrightarrow> has_value w l x = Inr True \<Longrightarrow> x \<noteq> JNull \<Longrightarrow> same_value (at_path v [k, l]) x"
  using sub_object_at [of v k w l "[]"] has_value_at [of w l x] by (cases "at_path w [l] = JNull") (auto simp: same_value_def)

section \<open>The evidence\<close>

text \<open>Every flag, exit code and count of the three storage drills.\<close>

definition drills_passed :: "jval \<Rightarrow> bool" where
  "drills_passed storage \<longleftrightarrow> at_path storage [''drills'', ''disk_full'', ''passed''] = JBool True
     \<and> same_value (at_path storage [''drills'', ''disk_full'', ''exit_code'']) (JInt 10)
     \<and> at_path storage [''drills'', ''disk_full'', ''fence_present''] = JBool True
     \<and> at_path storage [''drills'', ''wal_corruption'', ''passed''] = JBool True
     \<and> at_path storage [''drills'', ''wal_corruption'', ''forced_crossing'', ''passed''] = JBool True
     \<and> same_value (at_path storage [''drills'', ''wal_corruption'', ''forced_crossing'', ''exit_code'']) (JInt 15)
     \<and> at_path storage [''drills'', ''fsync_stall'', ''passed''] = JBool True
     \<and> same_value (at_path storage [''drills'', ''fsync_stall'', ''mechanism'']) (JStr ''dm-delay'')
     \<and> at_path storage [''drills'', ''fsync_stall'', ''healthy'', ''passed''] = JBool True
     \<and> same_value (at_path storage [''drills'', ''fsync_stall'', ''healthy'', ''broker_write_count'']) (JInt 1)
     \<and> at_path storage [''drills'', ''fsync_stall'', ''stalling'', ''passed''] = JBool True
     \<and> same_value (at_path storage [''drills'', ''fsync_stall'', ''stalling'', ''exit_code'']) (JInt 10)
     \<and> same_value (at_path storage [''drills'', ''fsync_stall'', ''stalling'', ''post_fault_broker_writes'']) (JInt 0)
     \<and> at_path storage [''drills'', ''fsync_stall'', ''stalling'', ''fence_present''] = JBool True"

lemma same_value_null [simp]: "\<not> same_value JNull (JInt n)" "\<not> same_value JNull (JStr x)"
  by (simp_all add: same_value_def)

lemma drills_ok_passed:
  assumes "drills_ok storage = Inr True"
  shows "drills_passed storage"
proof -
  from assms obtain drills disk wal fsync crossing stalling healthy
    where subs: "sub_object storage ''drills'' = Inr drills" "sub_object drills ''disk_full'' = Inr disk"
      "sub_object drills ''wal_corruption'' = Inr wal" "sub_object drills ''fsync_stall'' = Inr fsync"
      "sub_object wal ''forced_crossing'' = Inr crossing" "sub_object fsync ''stalling'' = Inr stalling"
      "sub_object fsync ''healthy'' = Inr healthy"
    and vals: "has_true disk ''passed'' = Inr True" "has_value disk ''exit_code'' (JInt 10) = Inr True" "has_true disk ''fence_present'' = Inr True"
      "has_value crossing ''exit_code'' (JInt 15) = Inr True" "has_value healthy ''broker_write_count'' (JInt 1) = Inr True"
      "has_value stalling ''exit_code'' (JInt 10) = Inr True" "has_value stalling ''post_fault_broker_writes'' (JInt 0) = Inr True"
      "has_true stalling ''fence_present'' = Inr True"
    and flags: "has_true wal ''passed'' = Inr True" "has_true crossing ''passed'' = Inr True" "has_true fsync ''passed'' = Inr True"
      "has_true healthy ''passed'' = Inr True" "has_true stalling ''passed'' = Inr True"
      "has_value fsync ''mechanism'' (JStr ''dm-delay'') = Inr True"
    by (auto simp: drills_ok_def ebind_Inr_iff split: if_splits)
  note deep = sub_object_at [OF subs(1)] sub_object_at [OF subs(2)] sub_object_at [OF subs(3)] sub_object_at [OF subs(4)]
    sub_object_at [OF subs(5)] sub_object_at [OF subs(6)] sub_object_at [OF subs(7)]
  note leaf = vals(1,3,8) [THEN has_true_at] vals(2,4,5,6,7) [THEN has_value_at]
    flags(1-5) [THEN has_true_at] flags(6) [THEN has_value_at]
  have non_null: "same_value v (JInt n) \<Longrightarrow> v \<noteq> JNull" "same_value v (JStr x) \<Longrightarrow> v \<noteq> JNull" for v n x
    by auto
  show ?thesis
    unfolding drills_passed_def using leaf leaf(4-8) [THEN non_null(1)] leaf(14) [THEN non_null(2)]
    by (simp add: deep del: at_path.simps)
qed

lemma raw_manifests_passed:
  "raw_manifests_ok co data freeze f s = Inr True \<Longrightarrow> \<exists>raw storage. s = JStr raw \<and> ob_json co raw = Some storage
     \<and> has_value storage ''commit_sha'' (JStr freeze) = Inr True \<and> drills_ok storage = Inr True"
  by (auto simp: raw_manifests_ok_def snapshot_ok_def manifests_ok_def ebind_Inr_iff
      split: jval.split_asm option.split_asm if_split_asm)

lemma valid_evidence:
  assumes "evidence_data_is_valid co data freeze = Inr True"
  shows "\<exists>raw storage. at_path data [''storage_manifest_raw''] = JStr raw \<and> ob_json co raw = Some storage
    \<and> same_value (at_path storage [''commit_sha'']) (JStr freeze) \<and> drills_passed storage"
proof -
  from assms obtain f s where "get_of data ''storage_manifest_raw'' JNull = Inr s" "raw_manifests_ok co data freeze f s = Inr True"
    unfolding evidence_data_is_valid_def ebind_check by (auto simp: ebind_Inr_iff)
  with raw_manifests_passed [OF this(2)] show ?thesis
    using has_value_at drills_ok_passed by (cases data) (fastforce simp: get_of_def)+
qed

section \<open>The sign-off\<close>

lemma valid_signoff:
  "signoff_is_valid co text evidence data risk freeze = Inr True \<Longrightarrow>
     table_value text ''`commit_sha`'' = freeze \<and> states_all text OWNER_DECISIONS \<and> states_all text (frozen_risk risk)
     \<and> table_value text ''Evidence snapshot sha256'' = ob_sha256 co evidence"
  by (simp add: signoff_is_valid_def)

text \<open>An exact freeze that its owner accepted, on its evidence.\<close>

definition accepted_freeze :: "checkout \<Rightarrow> string \<Rightarrow> string \<Rightarrow> string \<Rightarrow> bool" where
  "accepted_freeze co freeze text evidence \<longleftrightarrow>
     table_value text ''`commit_sha`'' = freeze \<and> states_all text OWNER_DECISIONS
     \<and> table_value text ''Evidence snapshot sha256'' = ob_sha256 co evidence
     \<and> (\<exists>data raw storage. ob_json co evidence = Some data \<and> at_path data [''storage_manifest_raw''] = JStr raw
          \<and> ob_json co raw = Some storage \<and> same_value (at_path storage [''commit_sha'']) (JStr freeze) \<and> drills_passed storage)"

lemma inputs_valid_accepted:
  assumes "inputs_valid co freeze text evidence risk = Inr True"
  shows "accepted_freeze co freeze text evidence"
proof -
  from assms obtain data where "ob_json co evidence = Some data" "evidence_data_is_valid co data freeze = Inr True"
      "signoff_is_valid co text evidence data risk freeze = Inr True"
    by (auto simp: inputs_valid_def split: if_splits option.splits)
  with valid_evidence [of co data freeze] valid_signoff [of co "text" evidence data risk freeze] show ?thesis
    unfolding accepted_freeze_def by blast
qed

section \<open>The worktree\<close>

lemma ebind_none [simp]:
  "ebind c (\<lambda>ok. if \<not> ok then Inr None else k) = Inr (Some a) \<longleftrightarrow> c = Inr True \<and> k = Inr (Some a)"
  by (cases c) (auto simp: ebind_def)

lemma case_none [simp]:
  "(case x of None \<Rightarrow> Inr None | Some y \<Rightarrow> g y) = Inr (Some a) \<longleftrightarrow> (\<exists>y. x = Some y \<and> g y = Inr (Some a))"
  "(case x of None \<Rightarrow> None | Some y \<Rightarrow> h y) = Some b \<longleftrightarrow> (\<exists>y. x = Some y \<and> h y = Some b)"
  by (cases x; simp)+

lemma validate_freeze_iff:
  "validate_freeze co freeze = Inr (Some a) \<longleftrightarrow> HEX 40 freeze \<and> co_exists co (signoff_of freeze) \<and> co_exists co (evidence_of freeze)
     \<and> (\<exists>out err signoff evidence risk paths. ob_git co [''rev-parse'', ''HEAD''] = Inr (0, out, err)
       \<and> committed_or_worktree co (strip out) (signoff_of freeze) = Inr (Some signoff)
       \<and> committed_or_worktree co (strip out) (evidence_of freeze) = Inr (Some evidence)
       \<and> committed_or_worktree co (strip out) ''config/risk.example.yml'' = Inr (Some risk)
       \<and> inputs_valid co freeze signoff evidence risk = Inr True
       \<and> metadata_only co freeze (strip out) = Inr True
       \<and> changed_worktree_paths co = Inr (Some paths) \<and> paths \<subseteq> allowed_attestation_paths freeze
       \<and> a = \<lparr>at_freeze_commit = freeze, at_signoff_path = signoff_of freeze, at_evidence_path = evidence_of freeze,
           at_evidence_sha256 = ob_sha256 co evidence\<rparr>)" (is "?l \<longleftrightarrow> ?r")
proof
  assume ?l
  then show ?r
    unfolding validate_freeze_def Let_def
    by (auto simp: ebind_Inr_iff [of "ob_git _ _"] ebind_Inr_iff [of "committed_or_worktree _ _ _"] ebind_Inr_iff [of "changed_worktree_paths _"]
        split: if_split_asm)
next
  assume ?r
  then show ?l
    unfolding validate_freeze_def Let_def by auto
qed

lemma valid_freezes_sound: "valid_freezes co names = Inr fs \<Longrightarrow> f \<in> set fs \<Longrightarrow> \<exists>a. validate_freeze co f = Inr (Some a)"
  by (induction co names arbitrary: fs rule: valid_freezes.induct)
     (auto simp: ebind_Inr_iff Let_def split: option.split_asm if_split_asm)

lemma only_one:
  "(case xs of [] \<Rightarrow> Inr None | [x] \<Rightarrow> Inr (Some x) | x # y # ys \<Rightarrow> Inl (e x y ys)) = Inr (Some f) \<longleftrightarrow> xs = [f]"
  by (auto split: list.splits)

lemma signed_off_is_valid:
  assumes "derive_signed_off_commit co = Inr (Some f)"
  shows "\<exists>a. validate_freeze co f = Inr (Some a)"
proof -
  from assms obtain names valid where v: "valid_freezes co (sort names) = Inr valid" "sort (remdups valid) = [f]"
    by (auto simp: derive_signed_off_commit_def ebind_Inr_iff only_one)
  then have "f \<in> set valid" by (metis list.set_intros(1) set_remdups set_sort)
  with v(1) show ?thesis by (rule valid_freezes_sound)
qed

text \<open>A rename is seen at its new path only: the file that it removed is not among the changed paths.\<close>

lemma renamed_source_is_dropped:
  "status_path ''R  src/ib_execution/risk.py -> STATE.json'' = STATE_FILENAME"
  by (simp add: status_path_def STATE_FILENAME_def)

end
