(* ===== verification/Table_Text.thy ===== *)
theory Table_Text
  imports Sign_Off
begin

text \<open>
  The tables of a sign-off, as they are written, one row a line: reading a field with the module's regular expression gives back
  what was written there.
\<close>

definition table_row :: "string \<times> string \<Rightarrow> string" where
  "table_row kv = ''| '' @ fst kv @ '' | '' @ snd kv @ '' |'' @ [newline_char]"

text \<open>A text that a cell of a row keeps: on one line, without bars and without spaces at its ends.\<close>

definition cell :: "string \<Rightarrow> bool" where
  "cell s \<longleftrightarrow> s \<noteq> [] \<and> \<not> is_space (hd s) \<and> \<not> is_space (last s) \<and> CHR ''|'' \<notin> set s \<and> newline_char \<notin> set s"

lemma space_chars [simp]: "is_space CHR '' ''" "is_space newline_char" "\<not> is_space CHR ''|''"
  by (simp_all add: is_space_def newline_char_def)

section \<open>Spaces before a continuation\<close>

lemma after_spaces_id: "s = [] \<or> \<not> is_space (hd s) \<Longrightarrow> after_spaces k s = k s"
  by (cases s) simp_all

lemma after_spaces_one:
  "is_space c \<Longrightarrow> s = [] \<or> \<not> is_space (hd s) \<Longrightarrow> after_spaces k (c # s) = (case k s of Some v \<Rightarrow> Some v | None \<Rightarrow> k (c # s))"
  by (simp add: after_spaces_id)

declare after_spaces.simps(2) [simp del]

lemma bar_first: "then_bar k s = (case s of [] \<Rightarrow> None | c # t \<Rightarrow> if c = CHR ''|'' then k t else None)"
  by (cases s) (simp_all add: then_bar_def)

lemma no_bar_after_cell:
  assumes "t \<noteq> []" and "\<not> is_space (last t)" and "CHR ''|'' \<notin> set t"
  shows "after_spaces (then_bar k) (t @ rest) = None"
  using assms
proof (induction t)
  case (Cons c t)
  then show ?case
    by (cases "t = []") (auto simp: after_spaces.simps(2) bar_first split: if_splits)
qed simp

section \<open>One row\<close>

lemma line_ends: "after_spaces at_line_end (newline_char # rest) = Some ()"
  by (cases "after_spaces at_line_end rest") (simp_all add: at_line_end_def after_spaces.simps(2))

lemma row_ends: "after_spaces (then_bar (after_spaces at_line_end)) ('' |'' @ newline_char # rest) = Some ()"
  by (simp add: after_spaces_one bar_first line_ends)

lemma group_is_cell:
  assumes "v = [] \<or> \<not> is_space (last v)" and "CHR ''|'' \<notin> set v" and "newline_char \<notin> set v"
  shows "lazy_group (\<lambda>c. c \<noteq> newline_char) (after_spaces (then_bar (after_spaces at_line_end))) (v @ '' |'' @ newline_char # rest) = Some v"
  using assms
proof (induction v)
  case Nil
  then show ?case using row_ends [of rest] by simp
next
  case (Cons c v)
  have "after_spaces (then_bar (after_spaces at_line_end)) ((c # v) @ '' |'' @ newline_char # rest) = None"
    using Cons.prems by (intro no_bar_after_cell) auto
  moreover have "lazy_group (\<lambda>c. c \<noteq> newline_char) (after_spaces (then_bar (after_spaces at_line_end))) (v @ '' |'' @ newline_char # rest) = Some v"
    using Cons by (auto split: if_splits)
  ultimately show ?case
    using Cons.prems(3) by auto
qed

lemma row_value_hit:
  assumes "cell k" and "cell v"
  shows "row_value k (table_row (k, v) @ rest) = Some v"
proof -
  have v: "v \<noteq> [] \<and> \<not> is_space (hd v)" "k \<noteq> [] \<and> \<not> is_space (hd k)" using assms by (auto simp: cell_def)
  have g: "lazy_group (\<lambda>c. c \<noteq> newline_char) (after_spaces (then_bar (after_spaces at_line_end))) (v @ '' |'' @ newline_char # rest) = Some v"
    using assms(2) by (intro group_is_cell) (auto simp: cell_def)
  have "after_spaces (lazy_group (\<lambda>c. c \<noteq> newline_char) (after_spaces (then_bar (after_spaces at_line_end)))) ('' '' @ v @ '' |'' @ newline_char # rest) = Some v"
    using v(1) g by (simp add: after_spaces_one)
  then show ?thesis
    using v(2) by (simp add: row_value_def table_row_def bar_first after_spaces_one)
qed

lemma row_value_miss:
  assumes "cell k" and "cell k'" and "k \<noteq> k'"
  shows "row_value k (table_row (k', v) @ rest) = None"
proof -
  define r where "r = '' | '' @ v @ '' |'' @ newline_char # rest"
  let ?next = "after_spaces (then_bar (after_spaces (lazy_group (\<lambda>c. c \<noteq> newline_char)
      (after_spaces (then_bar (after_spaces at_line_end))))))"
  let ?f = "\<lambda>s. if take (length k) s = k then ?next (drop (length k) s) else None"
  have ends: "k \<noteq> []" "\<not> is_space (hd k)" "\<not> is_space (last k)" "CHR ''|'' \<notin> set k"
    "k' \<noteq> []" "\<not> is_space (hd k')" "\<not> is_space (last k')" "CHR ''|'' \<notin> set k'"
    using assms(1,2) by (auto simp: cell_def)
  have none: "?f (k' @ r) = None"
  proof (cases "take (length k) (k' @ r) = k")
    case True
    show ?thesis
    proof (cases "length k \<le> length k'")
      case True
      with \<open>take (length k) (k' @ r) = k\<close> obtain t where t: "k' = k @ t"
        by (metis append_take_drop_id take_append diff_is_0_eq take0 append_Nil2)
      with assms(3) ends(7,8) have "?next (t @ r) = None"
        by (intro no_bar_after_cell) auto
      with t show ?thesis by simp
    next
      case False
      with True obtain m where k: "k = k' @ take (Suc m) r"
        by (metis Suc_diff_Suc not_le take_all_iff take_append nat_le_linear)
      with ends(3,4) show ?thesis
        by (cases m) (simp_all add: r_def)
    qed
  qed auto
  moreover have "?f ('' '' @ k' @ r) = None"
  proof -
    have "take (length k) ('' '' @ k' @ r) \<noteq> k"
      using ends(1,2) by (cases k) auto
    then show ?thesis by simp
  qed
  ultimately have "after_spaces ?f ('' '' @ k' @ r) = None"
    using ends(5,6) by (simp only: append_Cons append_Nil) (simp add: after_spaces_one)
  then show ?thesis
    by (simp add: row_value_def table_row_def bar_first r_def)
qed

section \<open>Tables\<close>

lemma search_skips_line:
  "newline_char \<notin> set l \<Longrightarrow> search_lines k False (l @ newline_char # s) = search_lines k True s"
  by (induction l) auto

lemma search_row:
  assumes "cell k'" and "newline_char \<notin> set v" and "row_value k (table_row (k', v) @ rest) = None"
  shows "search_lines (row_value k) True (table_row (k', v) @ rest) = search_lines (row_value k) True rest"
proof -
  let ?l = "'' '' @ k' @ '' | '' @ v @ '' |''"
  have row: "table_row (k', v) @ rest = CHR ''|'' # ?l @ newline_char # rest"
    by (simp add: table_row_def)
  have "newline_char \<notin> set ?l"
    using assms(1,2) by (auto simp: cell_def newline_char_def)
  from search_skips_line [OF this] show ?thesis
    using assms(3) unfolding row by (simp add: newline_char_def)
qed

lemma row_nonempty: "\<exists>c s. table_row kv @ rest = c # s"
  by (simp add: table_row_def)

text \<open>
  Reading a field of a table gives what the first row with that label says, and nothing when no row
  has the label.
\<close>

theorem table_reads_rows:
  assumes "list_all (\<lambda>(k, v). cell k \<and> cell v) rows" and "cell label"
  shows "table_value (concat (map table_row rows)) label = (case map_of rows label of None \<Rightarrow> [] | Some v \<Rightarrow> v)"
proof -
  have "search_lines (row_value label) True (concat (map table_row rows)) = map_of rows label"
    using assms(1)
  proof (induction rows)
    case Nil
    show ?case by (simp add: row_value_def then_bar_def)
  next
    case (Cons kv rows)
    obtain k v where kv: "kv = (k, v)" by (cases kv)
    with Cons.prems have c: "cell k" "cell v" "newline_char \<notin> set v" by (auto simp: cell_def)
    show ?case
    proof (cases "k = label")
      case True
      obtain ch s where s: "table_row (k, v) @ concat (map table_row rows) = ch # s"
        using row_nonempty by blast
      with row_value_hit [OF c(1,2), of "concat (map table_row rows)"] True kv show ?thesis
        by simp
    next
      case False
      with search_row [OF c(1,3)] row_value_miss [OF assms(2) c(1)] Cons kv show ?thesis
        by auto
    qed
  qed
  moreover have "strip v = v" if "map_of rows label = Some v" for v
  proof -
    from map_of_SomeD [OF that] assms(1) have "cell v" by (auto simp: list_all_iff)
    then have "dropWhile is_space v = v" "dropWhile is_space (rev v) = rev v"
      by (simp_all add: cell_def dropWhile_eq_self_iff hd_rev)
    then show ?thesis by (simp add: strip_def)
  qed
  ultimately show ?thesis
    by (auto simp: table_value_def split: option.splits)
qed

end
