(* ===== verification/Gate_Status.thy ===== *)
theory Gate_Status
  imports Gate_Facts Table_Text
begin

text \<open>
  What a Gate B1 status says when it says that the worktree is covered, and the agreement of the two validations, of
  the checkout and of history, at the commit that records the attestation; then a checkout in which Gate B1 covers the
  worktree, one commit after its freeze, as their witness. Its hash is constant, and a JSON document is one letter.
\<close>

section \<open>Properties\<close>

text \<open>
  C37: a gate section that says the worktree is covered says this: the registry is ready, and for one
  freeze the files of its attestation, read at HEAD, show an owner who accepted this freeze on this evidence, with
  every flag, exit code and count of the storage drills as it must be, on this commit. The freeze is HEAD or
  an ancestor of it; the paths \<open>git diff --name-only\<close> gives between the two, and those \<open>git status\<close> gives
  for the worktree, are paths of the attestation or \<open>STATE.json\<close>. These are net differences: a commit in
  between that was reverted, and the source of a rename, are not among them.
\<close>

theorem coverage_means_accepted:
  assumes "derived_gate_status co = Inr state" and "pget state ''gate_b1_covers_worktree'' JNull = JBool True"
  shows "ready_for_freeze \<and> (\<exists>freeze out err signoff evidence paths. HEX 40 freeze
    \<and> ob_git co [''rev-parse'', ''HEAD''] = Inr (0, out, err)
    \<and> committed_or_worktree co (strip out) (signoff_of freeze) = Inr (Some signoff)
    \<and> committed_or_worktree co (strip out) (evidence_of freeze) = Inr (Some evidence)
    \<and> accepted_freeze co freeze signoff evidence
    \<and> (strip out \<noteq> freeze \<longrightarrow> is_ancestor co freeze (strip out) = Inr True
         \<and> (\<exists>committed. changed_between co freeze (strip out) = Inr (Some committed)
              \<and> committed \<subseteq> allowed_attestation_paths freeze))
    \<and> changed_worktree_paths co = Inr (Some paths) \<and> paths \<subseteq> allowed_attestation_paths freeze)"
proof -
  from assms obtain f where f: "derive_signed_off_commit co = Inr (Some f)" and r: ready_for_freeze
    by (auto simp: derived_gate_status_def ebind_Inr_iff as_state_def Let_def)
  from signed_off_is_valid [OF f] obtain a where "validate_freeze co f = Inr (Some a)" ..
  then obtain out err signoff evidence risk paths where v: "HEX 40 f" "ob_git co [''rev-parse'', ''HEAD''] = Inr (0, out, err)"
      "committed_or_worktree co (strip out) (signoff_of f) = Inr (Some signoff)"
      "committed_or_worktree co (strip out) (evidence_of f) = Inr (Some evidence)"
      "inputs_valid co f signoff evidence risk = Inr True" "metadata_only co f (strip out) = Inr True"
      "changed_worktree_paths co = Inr (Some paths)" "paths \<subseteq> allowed_attestation_paths f"
    unfolding validate_freeze_iff by blast
  have "strip out \<noteq> f \<longrightarrow> is_ancestor co f (strip out) = Inr True
      \<and> (\<exists>committed. changed_between co f (strip out) = Inr (Some committed) \<and> committed \<subseteq> allowed_attestation_paths f)"
    using v(6) unfolding metadata_only_def by (auto simp: ebind_Inr_iff [of "changed_between _ _ _"] split: option.split_asm if_split_asm)
  with r v inputs_valid_accepted [OF v(5)] show ?thesis by blast
qed

text \<open>
  C38: both validations agree at the commit that records the attestation: with HEAD at that commit,
  a clean worktree, and a Git whose trees agree outside a diff, the checkout covers the freeze exactly when history
  attests it there, with the same paths and the same digest.
\<close>

theorem validations_agree:
  assumes "ob_git co [''rev-parse'', ''HEAD''] = Inr (0, out, err)" and "strip out = head" and "HEX 40 head" and "head \<noteq> freeze"
    and "HEX 40 freeze" and "changed_worktree_paths co = Inr (Some {})"
    and "is_ancestor co head ''HEAD'' = Inr True"
    and "co_exists co (signoff_of freeze)" and "co_exists co (evidence_of freeze)"
    and "is_ancestor co freeze head = Inr True" and "changed_between co freeze head = Inr (Some committed)"
    and "\<forall>p. p \<notin> committed \<longrightarrow> blob_at co freeze p = blob_at co head p"
    and "\<forall>p\<in>{signoff_of freeze, evidence_of freeze, ''config/risk.example.yml''}. \<exists>b. blob_at co head p = Inr (Some b)"
  shows "validate_freeze co freeze = Inr (Some a)
    \<longleftrightarrow> (\<exists>b. historical_at co freeze head = Inr (Some b) \<and> attestation.truncate b = a \<and> at_attestation_commit b = head)"
proof -
  from assms(13) obtain s e r where blobs: "blob_at co head (signoff_of freeze) = Inr (Some s)"
      "blob_at co head (evidence_of freeze) = Inr (Some e)" "blob_at co head ''config/risk.example.yml'' = Inr (Some r)"
    by auto
  then have now: "committed_or_worktree co head (signoff_of freeze) = Inr (Some s)"
      "committed_or_worktree co head (evidence_of freeze) = Inr (Some e)"
      "committed_or_worktree co head ''config/risk.example.yml'' = Inr (Some r)"
    by (simp_all add: committed_or_worktree_def)
  let ?meta = "committed \<subseteq> allowed_attestation_paths freeze \<and> signoff_of freeze \<in> committed \<and> evidence_of freeze \<in> committed"
  have meta: "metadata_only co freeze head = Inr True \<longleftrightarrow> ?meta"
    using assms(4,10,11) by (simp add: metadata_only_def)
  have config: "blob_at co freeze ''config/risk.example.yml'' = Inr (Some r)" if "committed \<subseteq> allowed_attestation_paths freeze"
  proof -
    have "''config/risk.example.yml'' \<notin> allowed_attestation_paths freeze"
      by (simp add: allowed_attestation_paths_def signoff_of_def evidence_of_def STATE_FILENAME_def)
    with that assms(12) have "blob_at co freeze ''config/risk.example.yml'' = blob_at co head ''config/risk.example.yml''"
      by blast
    with blobs(3) show ?thesis by simp
  qed
  let ?a = "\<lparr>at_freeze_commit = freeze, at_signoff_path = signoff_of freeze, at_evidence_path = evidence_of freeze,
      at_evidence_sha256 = ob_sha256 co e\<rparr>"
  have "validate_freeze co freeze = Inr (Some a) \<longleftrightarrow> ?meta \<and> inputs_valid co freeze s e r = Inr True \<and> a = ?a"
    unfolding validate_freeze_iff using assms(1,2,5,6,8,9) now meta by auto
  moreover have "(\<exists>b. historical_at co freeze head = Inr (Some b) \<and> attestation.truncate b = a \<and> at_attestation_commit b = head)
      \<longleftrightarrow> ?meta \<and> inputs_valid co freeze s e r = Inr True \<and> a = ?a"
  proof (cases ?meta)
    case True
    with config assms(3,7,10,11) blobs have "historical_at co freeze head = ebind (inputs_valid co freeze s e r) (\<lambda>ok. Inr (if \<not> ok then None
        else Some \<lparr>at_freeze_commit = freeze, at_signoff_path = signoff_of freeze, at_evidence_path = evidence_of freeze,
          at_evidence_sha256 = ob_sha256 co e, at_attestation_commit = head\<rparr>))"
      by (simp add: historical_at_def)
    with True show ?thesis
      by (cases "inputs_valid co freeze s e r") (auto simp: attestation.truncate_def)
  next
    case False
    with assms(3,7,10,11) show ?thesis by (auto simp: historical_at_def)
  qed
  ultimately show ?thesis by simp
qed

section \<open>A checkout\<close>

definition demo_freeze :: string where "demo_freeze = replicate 40 CHR ''a''"

definition demo_head :: string where "demo_head = replicate 40 CHR ''b''"

definition demo_digest :: string where "demo_digest = replicate 64 CHR ''c''"

definition demo_rows :: "(string \<times> string) list" where
  "demo_rows = [(''`commit_sha`'', demo_freeze), (''Owner'', ''x''), (''Accepted at (UTC)'', ''t'')] @ OWNER_DECISIONS
     @ [(''Accepted max_position_shares'', ''5''), (''Recorded overnight_gap_stress_pct'', ''5''), (''Recorded max_overnight_loss'', ''5''),
        (''Evidence snapshot sha256'', demo_digest), (''Freeze campaign run'', ''1''), (''Freeze artifact digest'', ''sha256:'' @ demo_digest)]"

definition demo_signoff :: string where "demo_signoff = concat (map table_row demo_rows)"

definition gate_risk :: string where
  "gate_risk = ''max_position_shares: 5'' @ [newline_char] @ ''overnight_gap_stress_pct: 5'' @ [newline_char] @ ''max_overnight_loss: 5''"

definition demo_tree :: "payload" where
  "demo_tree = [(''source_tree_sha256'', JStr demo_digest), (''dependency_lock_sha256'', JStr demo_digest),
     (''resolved_environment_sha256'', JStr demo_digest), (''commit_sha'', JStr demo_freeze), (''passed'', JBool True),
     (''worktree_clean'', JBool True)]"

definition demo_formal :: jval where
  "demo_formal = JObj (demo_tree @ [(''artifact_hashes'', JObj [(''deterministic.txt'', JStr demo_digest),
     (''property_default.txt'', JStr demo_digest), (''property_gate.txt'', JStr demo_digest)])])"

definition demo_storage :: jval where
  "demo_storage = JObj (demo_tree @ [(''inconclusive'', JList []), (''drills'', JObj
     [(''disk_full'', JObj [(''passed'', JBool True), (''exit_code'', JInt 10), (''fence_present'', JBool True)]),
      (''wal_corruption'', JObj [(''passed'', JBool True), (''forced_crossing'', JObj [(''passed'', JBool True), (''exit_code'', JInt 15)])]),
      (''fsync_stall'', JObj [(''passed'', JBool True), (''mechanism'', JStr ''dm-delay''),
         (''healthy'', JObj [(''passed'', JBool True), (''broker_write_count'', JInt 1)]),
         (''stalling'', JObj [(''passed'', JBool True), (''exit_code'', JInt 10), (''post_fault_broker_writes'', JInt 0),
            (''fence_present'', JBool True)])])])])"

definition demo_text :: "string \<Rightarrow> jval" where
  "demo_text t = JObj [(''text'', JStr t), (''sha256'', JStr demo_digest), (''path'', JStr ''p'')]"

definition demo_texts :: payload where
  "demo_texts = [(''deterministic'', demo_text []), (''property_default'', demo_text []),
     (''property_gate'', demo_text (''1500 passing, 0 failing'' @ ''1500 passing, 0 failing'')), (''process_crash'', demo_text []),
     (''deterministic_soak_auditor'', demo_text ''PASS: 20 seeds x 50 actions''), (''dm_targets'', demo_text ''delay v''),
     (''storage_domains'', demo_text [])]"

definition gate_run :: jval where
  "gate_run = JObj [(''name'', JStr ''b1-freeze-campaign''), (''artifact_name'', JStr (''gate-b1-freeze-'' @ demo_freeze)),
     (''run_id'', JInt 1), (''artifact_digest'', JStr (''sha256:'' @ demo_digest))]"

definition demo_evidence :: jval where
  "demo_evidence = JObj [(''schema_version'', JInt 1), (''freeze_commit'', JStr demo_freeze),
     (''workflow'', gate_run),
     (''formal_manifest_raw'', JStr ''f''), (''storage_manifest_raw'', JStr ''s''),
     (''manifest_sha256'', JObj [(''formal'', JStr demo_digest), (''storage'', JStr demo_digest)]),
     (''evidence_text'', JObj demo_texts), (''supplemental_sha256'', JObj [(''artifacts/p'', JStr demo_digest)]),
     (''scope_limits'', JObj [(''windows_real_faults'', JStr ''NOT_RUN_ACCEPTED_NON_BLOCKER'')])]"

definition demo_documents :: "string \<Rightarrow> jval option" where
  "demo_documents s = (if s = ''e'' then Some demo_evidence else if s = ''f'' then Some demo_formal
     else if s = ''s'' then Some demo_storage else None)"

definition demo_blob :: "string \<Rightarrow> string option" where
  "demo_blob path = (if path = signoff_of demo_freeze then Some demo_signoff else if path = evidence_of demo_freeze then Some ''e''
     else if path = ''config/risk.example.yml'' then Some gate_risk else None)"

definition gate_git :: "string list \<Rightarrow> exn + (int \<times> string \<times> string)" where
  "gate_git args = Inr (if args = [''rev-parse'', ''HEAD''] then (0, demo_head, [])
     else if take 1 args = [''show''] then (case demo_blob (drop 41 (args ! 1)) of Some b \<Rightarrow> (0, b, []) | None \<Rightarrow> (1, [], []))
     else if take 1 args = [''merge-base''] then (0, [], [])
     else if take 1 args = [''diff''] then (0, signoff_of demo_freeze @ [newline_char] @ evidence_of demo_freeze, [])
     else if take 1 args = [''status''] then (0, [], []) else (1, [], []))"

definition demo_checkout :: checkout where
  "demo_checkout = \<lparr>ob_git = gate_git, ob_gh = (\<lambda>_. Inl AssertionErr), ob_utf8 = (\<lambda>_. True), ob_json = demo_documents,
     ob_sha256 = (\<lambda>_. demo_digest), ob_instant = (\<lambda>_. None), ob_resolve = (\<lambda>_. Inl AssertionErr), ob_kind = (\<lambda>_. Other_kind),
     ob_read = (\<lambda>_. Inl AssertionErr), ob_zip = (\<lambda>_. Inl AssertionErr), co_exists = (\<lambda>_. True), co_read = demo_blob,
     co_docs = Some [SIGNOFF_PREFIX @ take 12 demo_freeze @ ''.md'']\<rparr>"

lemma demo_simps [simp]: "ob_git demo_checkout = gate_git" "ob_utf8 demo_checkout s" "ob_json demo_checkout = demo_documents"
  "ob_sha256 demo_checkout s = demo_digest" "co_exists demo_checkout p" "co_read demo_checkout = demo_blob"
  "co_docs demo_checkout = Some [SIGNOFF_PREFIX @ take 12 demo_freeze @ ''.md'']"
  by (simp_all add: demo_checkout_def)

lemma demo_hex [simp]: "HEX 64 demo_digest" "HEX 40 demo_freeze" "HEX 40 demo_head"
  by (simp_all add: demo_digest_def demo_freeze_def demo_head_def HEX_def list_all_iff hex_digit_def)

section \<open>The evidence\<close>

lemma demo_workflow: "workflow_ok gate_run demo_freeze = Inr True"
  by (simp add: gate_run_def workflow_ok_def has_value_def get_of_def same_value_def ARTIFACT_DIGEST_def str_of_def)

lemma demo_manifests: "manifests_ok demo_checkout demo_evidence demo_freeze ''f'' ''s'' demo_formal demo_storage = Inr True"
  by (simp add: manifests_ok_def demo_evidence_def demo_formal_def demo_storage_def demo_tree_def sub_object_def get_of_def
      has_value_def has_true_def same_tree_def same_value_def str_of_def)

lemma demo_drills: "drills_ok demo_storage = Inr True"
  by (simp add: drills_ok_def demo_storage_def demo_tree_def sub_object_def get_of_def has_value_def has_true_def same_value_def)

lemma demo_bound: "texts_bound demo_evidence demo_formal demo_texts = Inr True"
  by (simp add: texts_bound_def demo_evidence_def demo_formal_def demo_tree_def demo_texts_def demo_text_def sub_object_def get_of_def
      bound_in_def part_of_def path_of_def str_of_def)

lemma demo_says: "texts_say demo_texts"
  by (simp add: texts_say_def text_of_def part_of_def demo_texts_def demo_text_def delay_row_def is_space_def)

lemma demo_snapshot: "snapshot_ok demo_checkout demo_evidence demo_freeze ''f'' ''s'' demo_formal demo_storage = Inr True"
proof -
  have "sub_object demo_evidence ''evidence_text'' = Inr (JObj demo_texts)"
    by (simp add: demo_evidence_def sub_object_def get_of_def)
  moreover have "names_required (JObj demo_texts) = Inr (Some demo_texts)"
    by (simp add: names_required_def demo_texts_def REQUIRED_TEXTS_def)
  moreover have "list_all (\<lambda>kv. text_ok demo_checkout (snd kv)) demo_texts"
    by (simp add: demo_texts_def demo_text_def text_ok_def)
  moreover have "ebind (sub_object demo_evidence ''scope_limits'') (\<lambda>scope.
      has_value scope ''windows_real_faults'' (JStr ''NOT_RUN_ACCEPTED_NON_BLOCKER'')) = Inr True"
    by (simp add: demo_evidence_def sub_object_def get_of_def has_value_def same_value_def)
  ultimately show ?thesis
    unfolding snapshot_ok_def by (simp add: demo_manifests demo_drills demo_bound demo_says)
qed

lemma demo_evidence_valid: "evidence_data_is_valid demo_checkout demo_evidence demo_freeze = Inr True"
proof -
  have "raw_manifests_ok demo_checkout demo_evidence demo_freeze (JStr ''f'') (JStr ''s'') = Inr True"
    by (simp add: raw_manifests_ok_def demo_documents_def demo_snapshot)
  moreover have "get_of demo_evidence ''formal_manifest_raw'' JNull = Inr (JStr ''f'')"
      "get_of demo_evidence ''storage_manifest_raw'' JNull = Inr (JStr ''s'')" "sub_object demo_evidence ''workflow'' = Inr gate_run"
      "has_value demo_evidence ''schema_version'' (JInt 1) = Inr True" "has_value demo_evidence ''freeze_commit'' (JStr demo_freeze) = Inr True"
    by (simp_all add: demo_evidence_def sub_object_def get_of_def has_value_def same_value_def)
  ultimately show ?thesis
    unfolding evidence_data_is_valid_def ebind_check by (simp add: demo_workflow)
qed

section \<open>The sign-off\<close>

lemma demo_cells: "list_all (\<lambda>(k, v). cell k \<and> cell v) demo_rows"
proof -
  have "cell demo_digest" "cell demo_freeze" "cell (''sha256:'' @ demo_digest)"
    by (simp_all add: cell_def demo_digest_def demo_freeze_def is_space_def newline_char_def)
  then show ?thesis
    by (simp add: demo_rows_def OWNER_DECISIONS_def cell_def is_space_def newline_char_def)
qed

lemma demo_reads: "cell label \<Longrightarrow> table_value demo_signoff label = (case map_of demo_rows label of None \<Rightarrow> [] | Some v \<Rightarrow> v)"
  unfolding demo_signoff_def by (rule table_reads_rows [OF demo_cells])

lemma gate_risk_values: "frozen_risk gate_risk = [(''Accepted max_position_shares'', ''5''),
    (''Recorded overnight_gap_stress_pct'', ''5''), (''Recorded max_overnight_loss'', ''5'')]"
  by (simp add: frozen_risk_def config_scalar_text_def gate_risk_def scalar_value_def newline_char_def at_line_end_def is_space_def strip_def
      after_spaces.simps)

lemma one_text: "str_int 1 = ''1''"
  by code_simp

lemma demo_signoff_valid: "signoff_is_valid demo_checkout demo_signoff ''e'' demo_evidence gate_risk demo_freeze = Inr True"
  by (simp add: signoff_is_valid_def gate_risk_values states_all_def OWNER_DECISIONS_def demo_reads cell_def is_space_def newline_char_def
      demo_rows_def is_blank_def strip_ticks_def demo_evidence_def gate_run_def item_of_def pkey_def str_of_def one_text)


section \<open>The checkout\<close>

lemma demo_shown: "blob_at demo_checkout demo_head path = Inr (demo_blob path)" "blob_at demo_checkout demo_freeze path = Inr (demo_blob path)"
  by (simp_all add: blob_at_def gate_git_def demo_head_def demo_freeze_def numeral_eq_Suc split: option.splits)

lemma demo_blobs [simp]: "demo_blob (signoff_of demo_freeze) = Some demo_signoff" "demo_blob (evidence_of demo_freeze) = Some ''e''"
  "demo_blob ''config/risk.example.yml'' = Some gate_risk"
  by (simp_all add: demo_blob_def signoff_of_def evidence_of_def SIGNOFF_PREFIX_def EVIDENCE_PREFIX_def)

lemma demo_inputs: "inputs_valid demo_checkout demo_freeze demo_signoff ''e'' gate_risk = Inr True"
  by (simp add: inputs_valid_def demo_documents_def demo_evidence_valid demo_signoff_valid)

lemma demo_differs: "demo_head \<noteq> demo_freeze"
  by (simp add: demo_head_def demo_freeze_def numeral_eq_Suc)

lemma demo_ancestor: "is_ancestor demo_checkout a b = Inr True"
  by (simp add: is_ancestor_def gate_git_def)

lemma gate_clean: "changed_worktree_paths demo_checkout = Inr (Some {})"
  by (simp add: changed_worktree_paths_def gate_git_def)

lemma demo_rev: "ob_git demo_checkout [''rev-parse'', ''HEAD''] = Inr (0, demo_head, [])"
  by (simp add: gate_git_def)

lemma demo_strip: "strip demo_head = demo_head"
  by (simp add: strip_def demo_head_def is_space_def)

lemma demo_paths: "signoff_of demo_freeze = ''docs/GATE_B1_SIGNOFF_aaaaaaaaaaaa.md''"
    "evidence_of demo_freeze = ''docs/GATE_B1_EVIDENCE_aaaaaaaaaaaa.json''"
  by (simp_all add: signoff_of_def evidence_of_def SIGNOFF_PREFIX_def EVIDENCE_PREFIX_def demo_freeze_def numeral_eq_Suc)

lemma demo_diff: "changed_between demo_checkout a b = Inr (Some {signoff_of demo_freeze, evidence_of demo_freeze})"
  by (auto simp: changed_between_def gate_git_def demo_paths line_break_def newline_char_def)

lemma demo_metadata: "metadata_only demo_checkout demo_freeze demo_head = Inr True"
  by (simp add: metadata_only_def demo_differs demo_ancestor demo_diff allowed_attestation_paths_def)

lemma demo_current: "committed_or_worktree demo_checkout demo_head path = Inr (demo_blob path)"
  by (simp add: committed_or_worktree_def demo_shown split: option.splits)

lemma demo_validated: "validate_freeze demo_checkout demo_freeze = Inr (Some \<lparr>at_freeze_commit = demo_freeze,
    at_signoff_path = signoff_of demo_freeze, at_evidence_path = evidence_of demo_freeze, at_evidence_sha256 = demo_digest\<rparr>)"
  unfolding validate_freeze_iff using demo_rev gate_clean
  by (simp add: demo_strip demo_current demo_inputs demo_metadata)

lemma demo_length: "length demo_freeze = 40"
  by (simp add: demo_freeze_def)

lemma demo_suffix: "signoff_suffix (SIGNOFF_PREFIX @ take 12 demo_freeze @ ''.md'') = Some (take 12 demo_freeze)"
  by (simp add: signoff_suffix_def Let_def has_suffix_def HEX_def SIGNOFF_PREFIX_def demo_freeze_def list_all_iff hex_digit_def)

lemma demo_signed_off: "derive_signed_off_commit demo_checkout = Inr (Some demo_freeze)"
proof -
  have kept: "demo_blob (''docs/'' @ SIGNOFF_PREFIX @ take 12 demo_freeze @ ''.md'') = Some demo_signoff"
    using demo_blobs(1) by (simp add: signoff_of_def)
  have commit: "table_value demo_signoff ''`commit_sha`'' = demo_freeze"
    by (simp add: demo_reads cell_def is_space_def newline_char_def demo_rows_def)
  have "valid_freezes demo_checkout [SIGNOFF_PREFIX @ take 12 demo_freeze @ ''.md''] = Inr [demo_freeze]"
    using kept by (simp add: demo_length demo_suffix commit demo_validated Let_def del: append_Cons append_Nil)
  then show ?thesis
    by (simp add: derive_signed_off_commit_def)
qed

lemma demo_status: "derived_gate_status demo_checkout = Inr (as_state (Some demo_freeze) None)"
  by (simp add: derived_gate_status_def demo_signed_off derive_historical_attested_freeze_def gate_git_def)

section \<open>Witnesses\<close>

lemma coverage_means_accepted_witness:
  "\<exists>freeze signoff evidence. HEX 40 freeze \<and> accepted_freeze demo_checkout freeze signoff evidence"
  using coverage_means_accepted [OF demo_status] registry_is_ready by (auto simp: as_state_def Let_def)

lemma validations_agree_witness:
  "\<exists>b. historical_at demo_checkout demo_freeze demo_head = Inr (Some b) \<and> at_attestation_commit b = demo_head"
  using validations_agree [OF demo_rev demo_strip _ demo_differs _ gate_clean demo_ancestor _ _ demo_ancestor demo_diff]
    demo_validated by (simp add: demo_shown) blast

lemma table_reads_rows_witness: "table_value demo_signoff ''Owner'' = ''x''"
  using table_reads_rows [OF demo_cells, of "''Owner''"]
  by (simp add: demo_signoff_def cell_def is_space_def newline_char_def demo_rows_def)

end
