(* ===== verification/Spec2Isabelle.thy ===== *)
theory Spec2Isabelle
  imports Contracts Lifecycle Audits Supervision Sessions Reanalysis Capture Recovery Recorder_Modes Gateway
    Platform_Gate Ingress Evidence Evidence_Type Evidence_Report Drill_Facts Heartbeat Gate_Status
begin

text \<open>
  Verification of the trading process of ib-execution: a single-account, single-writer execution engine
  whose every broker write is preceded by durable evidence (\<open>src/src/ib_execution/\<close>).

  The program. A strategy submits a target position. The controller (\<open>controller.py\<close>) records it in an
  append-only journal (\<open>journal.py\<close>), decides, asks the risk engine (\<open>risk.py\<close>), makes the order intent and
  the send attempt durable, pins the attempt in a witness file on another volume
  (\<open>journal_witness.py\<close>), and only then calls the broker (\<open>broker_protocol.py\<close>). Broker callbacks, a timer
  and reconciliation against the broker's snapshot drive the order states. When something cannot be
  explained it goes HALTED, durably; when the journal is lost it fails closed and raises a fence on
  another volume (\<open>fatal_fence.py\<close>). The execution host (\<open>execution_host.py\<close>) refuses to start on a fence,
  on a witness that does not verify, or outside the calendar's coverage (\<open>calendar.py\<close>). The operator
  acknowledges a HALT with \<open>ack_halt.py\<close>.

  The theories, in import order.
  \<^item> \<open>Prelude\<close>, \<open>Program\<close>: JSON values, Python dictionaries and sets, rounding; programs with state and
    exceptions (a raise keeps the mutations made before it), their weakest preconditions and invariants.
  \<^item> \<open>Clock\<close> (\<open>clock.py\<close>), \<open>Models\<close> (\<open>models.py\<close>): time, civil dates; enumerations and records with their
    payload conversions.
  \<^item> \<open>Journal\<close>, \<open>Journal_Facts\<close> (\<open>journal.py\<close>): rows, uniqueness tables, transactions, an adversarial
    storage; the interface of a write that returned and of one that raised; the HALT latch as a locale.
  \<^item> \<open>Risk\<close>, \<open>Risk_Facts\<close> (\<open>risk.py\<close>); \<open>Calendar\<close> (\<open>calendar.py\<close>).
  \<^item> \<open>Sidecar\<close> (\<open>durable_io.py\<close>, \<open>failure_domain.py\<close>), \<open>Fence\<close> (\<open>fatal_fence.py\<close>), \<open>Witness\<close>
    (\<open>journal_witness.py\<close>), \<open>Ack_Halt\<close> (\<open>ack_halt.py\<close>).
  \<^item> \<open>Controller_State\<close>, \<open>Controller_Gate\<close>, \<open>Controller_Send\<close>, \<open>Controller_Reconcile\<close>, \<open>Controller_Events\<close>
    (\<open>controller.py\<close>): the fields of \<open>Controller\<close> as the record \<open>ctl\<close>, its methods as programs over it
    under their names. \<open>Host\<close> (\<open>execution_host.py\<close>): gates, construction, supervision, and the machine: the
    datatype \<open>action\<close> (every public method and every step of the environment) and \<open>reachable\<close>.
  \<^item> \<open>Controller_Steps\<close>: the traversal of the controller as locales, from elementary steps
    (\<open>ctl_base\<close>) to every action (\<open>ctl_machine\<close>), with \<open>ctl_calm\<close> for what only the risk engine and the
    quotes can change. \<open>Controller_Wire\<close>, \<open>Controller_Safety\<close>,
    \<open>Controller_Limits\<close>: its interpretations on the invariants. \<open>Controller_Facts\<close>: what single operations
    guarantee. \<open>Controller_Reconciled\<close>: what a reconciliation establishes, followed from the snapshot the
    broker gave to the end of the targets' evaluation by the locale \<open>ctl_books\<close>.
  \<^item> \<open>Demo\<close>: concrete processes for the witnesses. \<open>Contracts\<close>: the properties of single components.
    \<open>Lifecycle\<close>: the properties of boot, start, reconciliation and halting.
  \<^item> \<open>Auditor\<close> (\<open>auditor.py\<close>): the offline auditor, one scan per check; \<open>Auditor_Facts\<close>: what a clean
    scan decides, once as a locale and interpreted on the checks; \<open>Audits\<close>: its properties, also over the
    journals of the process.
  \<^item> \<open>Watchdog\<close> (\<open>watchdog.py\<close>), with its properties in \<open>Supervision\<close>; \<open>Fake_Broker\<close>
    (\<open>fake_broker.py\<close>), the broker interface implemented, with its books and the closed system in
    \<open>Sessions\<close>. This theory: the properties of the whole process.

  \<^item> \<open>Bridge\<close> (\<open>async_bridge.py\<close>): the queue, the consumer and the worker between the event loop and the
    controller, as interleaved steps; \<open>Bridge_Facts\<close>: the controller's invariants behind it, order, overflow;
    \<open>Ingress\<close>: its properties.
  \<^item> \<open>Market_Liveness\<close> (\<open>market_liveness.py\<close>), \<open>Liveness_Facts\<close>: the live judge of the feed and its incident
    tracker, their histories. \<open>Health_V4\<close>, \<open>Health_Evidence\<close> (\<open>recorder_health_v4.py\<close>), \<open>Health_Facts\<close>: the offline
    verdict on a recorded session and the evidence around it. Their properties are in \<open>Recording\<close> and
    \<open>Reanalysis\<close>. \<open>Ascii_Text\<close>: text operations shared by several components.
  \<^item> \<open>Raw_Log\<close> (\<open>quote_recorder.py\<close>, \<open>RawEventLog\<close>): the recorder's bounded queue, the writer and its
    segments, one round of the writer and one call of the owner per step; \<open>Raw_Log_Facts\<close>: what a round does,
    whatever system call fails, and the invariant of a run; \<open>Capture\<close>: its properties. \<open>Recovery\<close>
    (\<open>quote_recorder.py\<close>): the limiter, the scheduler of repairs and the reconnect budget.
    \<open>Evidence_Manifest\<close> (\<open>b2_evidence.py\<close>): the validator of the manifests a gate may freeze; \<open>Evidence_Facts\<close>:
    what each passed check means; \<open>Evidence_Type\<close>: it never fails but by refusing; \<open>Evidence\<close>: its properties.
    \<open>Evidence_Material\<close>, \<open>Evidence_Packet\<close> (\<open>b2_evidence_material.py\<close>): the bytes behind a manifest;
    \<open>Packet_Facts\<close>, \<open>Packet_Text\<close>: what a report rests on, the scan text by text; \<open>Evidence_Observed\<close>: the same
    in the answers of git, the file system and GitHub alone; \<open>Evidence_Report\<close>: its properties.
    \<open>Gate_Registry\<close> (\<open>gate.py\<close>), \<open>Attestation\<close>, \<open>Sign_Off\<close> (\<open>attestation.py\<close>, the derivation of
    \<open>provenance.py\<close>): whether Gate B1 passed, from a sign-off, an evidence snapshot and the Git history;
    \<open>Gate_Facts\<close>: what passed checks mean; \<open>Table_Text\<close>: a written table reads back; \<open>Gate_Status\<close>: its properties.
    \<open>Heartbeat\<close> (\<open>event_loop_heartbeat.py\<close>): the status a recorder publishes, and the watchdog on it.
    \<open>Dm_Delay\<close> (\<open>dm_delay.py\<close>), \<open>Drill_Facts\<close>: the disposable volume of the storage drill, its teardown, and the
    whole drill around it, whose two cases are parameters.
    \<open>Recorder_Modes\<close> (\<open>recorder_modes.py\<close>), \<open>Gateway\<close> (\<open>gateway_detection.py\<close>), \<open>Platform_Gate\<close>
    (\<open>platform_gate.py\<close>): each with its properties.

  Conventions. The history of broker writes (\<open>ct_wire\<close>) is never read by the program; each entry is the
  state as it was at the call. A process dies by \<open>Restart\<close>, which keeps a prefix of the journal's rows
  (all of them when the storage behaved). Storage, operating-system calls, the broker and the clock
  are adversaries: scripts of outcomes, arbitrary programs over the broker's state, arbitrary times. Loops
  over lists are structural recursion, so nothing needs fuel; the self-test's breaker loop runs the
  source's fixed number of rounds.

  Parameters: the hash (\<open>ct_sha\<close>), the supply of UUIDs (\<open>ct_uuid\<close>, injective where a property needs it),
  the broker (\<open>ct_ops\<close>), the process environment, what the platform check and the process lock answer.

  Not modelled: threads below the controller's methods (a journal request is one step, a method run by
  the worker of \<open>Bridge\<close> is one step), signals, argument parsing, printing, the content of the status file, SQLite and the operating system
  beyond their documented effect, the text of tracebacks, float rounding (prices and ratios are exact
  rationals). The recorder's session loop on the third-party IB package and its schema 3 report, the
  tree digests of the release gate and the adapter are separate programs and are listed as such in the
  manifest.
\<close>

section \<open>Broker writes\<close>

text \<open>
  C1: every broker write ever made, over any history of calls, callbacks, timers, storage failures,
  crashes and restarts, was authorised: the link connected, the state synced, the journal healthy, the
  mode permitting it (nothing while HALTED, no opening order outside NORMAL, only target 0 in
  FLATTEN_ONLY), the target not expired, the intent durable before its send attempt and the attempt
  durable before the call, and the witness, when there is one, pinning exactly that attempt.
\<close>

theorem every_write_is_authorised:
  assumes "reachable s0 s" and "numbered (j_rows (ct_journal s0))" and "ct_wire s0 = []"
  shows "list_all (entry_ok (ct_sha s0)) (ct_wire s)"
proof -
  have "wire_inv (ct_sha s0) s0"
    using assms(2,3) by (simp add: wire_inv_def)
  with assms(1) have "wire_inv (ct_sha s0) s"
    by (rule wire_process.invariant)
  then show ?thesis by (simp add: wire_inv_def list_all_iff)
qed

lemma demo_writes: "length (ct_wire (run [Submit demo_target] demo_live)) = 1"
  by code_simp

lemma demo_live_fields [simp]:
  "ct_wire demo_live = []" "j_rows (ct_journal demo_live) = []" "ct_sha demo_live = (\<lambda>_. ''h'')"
  "ct_uuid demo_live = (\<lambda>n. replicate n CHR ''x'')" "ct_journal_restored demo_live"
  by (simp_all add: demo_live_def demo_ctl_def open_journal_def empty_db_def)

theorem every_write_is_authorised_witness:
  "list_all (entry_ok (\<lambda>_. ''h'')) (ct_wire (run [Submit demo_target] demo_live))
   \<and> length (ct_wire (run [Submit demo_target] demo_live)) = 1"
  using every_write_is_authorised [OF reachable_run [of demo_live "[Submit demo_target]"]] demo_writes
  by simp



text \<open>
  C3: no order is sent twice: over any history, restarts included, the intent ids of the orders placed
  are pairwise different, given that the supply of fresh ids does not repeat one.
\<close>

theorem no_intent_placed_twice:
  assumes "reachable s0 s" and "inj (ct_uuid s0)" and "ct_wire s0 = []"
  shows "distinct (placed_ids (ct_wire s))"
proof -
  have "once_inv (ct_uuid s0) s0"
    using assms(2,3) by (simp add: once_inv_def ids_once_def placed_ids_def List.map_filter_def)
  with assms(1) have "once_inv (ct_uuid s0) s"
    by (rule once_machine.invariant)
  then show ?thesis by (simp add: once_inv_def ids_once_def)
qed

theorem no_intent_placed_twice_witness:
  "distinct (placed_ids (ct_wire (run [Submit demo_target, Tick, Tick] demo_live)))"
proof (rule no_intent_placed_twice [OF reachable_run])
  show "inj (ct_uuid demo_live)"
    by (rule injI) (metis demo_live_fields(4) length_replicate)
qed simp

text \<open>
  C4: the journal stays well formed over any history, a lost WAL tail included: sequence numbers are
  consecutive from 1, no decision is accepted twice, no execution is booked twice.
\<close>

theorem journal_stays_well_formed:
  assumes "reachable s0 s" and "journal_wf (ct_journal s0)"
  shows "numbered (j_rows (ct_journal s)) \<and> distinct (accepted_ids (j_rows (ct_journal s)))
    \<and> distinct (booked_ids (j_rows (ct_journal s)))"
proof -
  have "rows_wf s"
    using rows_process.invariant [OF assms(1)] assms(2) by (simp add: rows_wf_def)
  then show ?thesis by (simp add: rows_wf_def journal_wf_def)
qed

theorem journal_stays_well_formed_witness:
  "distinct (accepted_ids (j_rows (ct_journal (run [Submit demo_target, Submit demo_target] demo_live))))"
proof -
  have "journal_wf (ct_journal demo_live)"
    by (simp add: demo_live_def journal_wf_open journal_wf_empty)
  from journal_stays_well_formed [OF reachable_run this] show ?thesis by blast
qed

section \<open>Failing closed\<close>

text \<open>
  C6: once the journal handle is dead (closed, failed, or its writer gone), no sequence of methods of
  the process makes a single broker write or brings the handle back.
\<close>

theorem dead_journal_stops_all_writes:
  fixes s :: "'b ctl"
  assumes "\<not> is_healthy (ct_journal s)"
  shows "ct_wire (run_methods acts s) = ct_wire s \<and> \<not> is_healthy (ct_journal (run_methods acts s))"
proof -
  have "journal_dead (ct_wire s) (run_methods acts s)"
    by (rule run_methods_keeps [OF dead_modes.keeps_method]) (simp add: journal_dead_def assms)
  then show ?thesis by (simp add: journal_dead_def)
qed

theorem dead_journal_stops_all_writes_witness:
  "ct_wire (run_methods [Connected 1, Reconcile True, Submit demo_target, Tick] demo_ctl) = []"
  using dead_journal_stops_all_writes [of demo_ctl "[Connected 1, Reconcile True, Submit demo_target, Tick]"]
  by (simp add: demo_ctl_def empty_db_def is_healthy_def)

text \<open>
  C5: HALTED is a latch. In a process restored from its journal, no sequence of methods, the operator's
  acknowledgement included, leaves HALTED or makes a broker write.
\<close>

theorem halted_is_a_latch:
  fixes s :: "'b ctl"
  assumes "ct_journal_restored s" and "ct_mode s = HALTED"
  shows "ct_mode (run_methods acts s) = HALTED \<and> ct_wire (run_methods acts s) = ct_wire s"
proof -
  have "halted_still (ct_wire s) (run_methods acts s)"
    by (rule run_methods_keeps [OF halted_drive.keeps_method]) (simp add: halted_still_def assms)
  then show ?thesis by (simp add: halted_still_def)
qed

theorem halted_is_a_latch_witness:
  "ct_mode (run_methods [Acknowledge ''op'' ''why'', Reconcile True, Submit demo_target]
     (demo_live\<lparr>ct_mode := HALTED\<rparr>)) = HALTED"
  using halted_is_a_latch [of "demo_live\<lparr>ct_mode := HALTED\<rparr>"] by simp

text \<open>
  C7: the journal is append-only: whatever sequence of methods runs, and whatever they raise, every row
  that was there stays there, unchanged and in place, under the same journal identity.
\<close>

theorem journal_is_append_only:
  fixes s :: "'b ctl"
  shows "\<exists>es. j_rows (ct_journal (run_methods acts s)) = j_rows (ct_journal s) @ es
    \<and> j_identity (ct_journal (run_methods acts s)) = j_identity (ct_journal s)"
proof -
  have "grown_from (ct_journal s) (run_methods acts s)"
    by (rule run_methods_keeps [OF grown_modes.keeps_method]) (simp add: grown_from_def)
  then show ?thesis by (auto simp: grown_from_def journal_ext_def)
qed

text \<open>
  C8: the loss of the journal always ends closed: the handler returns, with the mode HALTED, the link
  degraded, the state unverified, the shutdown requested, and the fence on disk or its failure noted.
\<close>

theorem journal_loss_fails_closed:
  fixes s :: "'b ctl"
  assumes "fail_closed_journal context d s = (r, t)"
  shows "r = Inr () \<and> ct_mode t = HALTED \<and> ct_link t = DEGRADED \<and> ct_sync t = UNVERIFIED
    \<and> ct_fatal_shutdown_requested t \<and> ct_journal_failure t \<noteq> None
    \<and> fence_settled t"
proof -
  have "wp (fail_closed_journal context d) (\<lambda>_ t. closed_down t \<and> ct_journal_failure t \<noteq> None)
      (\<lambda>_ _. False) s"
    by (rule wp_fail_closed_journal) simp
  with assms show ?thesis by (auto simp: wp_def closed_down_def split: sum.splits)
qed

theorem journal_loss_fails_closed_witness:
  "ct_mode (snd (fail_closed_journal ''tick'' (JStr ''disk'') demo_live)) = HALTED"
  using journal_loss_fails_closed [of "''tick''" "JStr ''disk''" demo_live
      "fst (fail_closed_journal ''tick'' (JStr ''disk'') demo_live)"
      "snd (fail_closed_journal ''tick'' (JStr ''disk'') demo_live)"]
  by simp

section \<open>Starting\<close>

text \<open>
  C9: a fence of any kind (raised, acknowledged, or unreadable) stops every start before anything is
  touched: the host raises, and journal, broker and sidecars are as they were.
\<close>

theorem fence_blocks_every_start:
  fixes s :: "'b ctl"
  assumes "ct_fence s = Some f" and "fenced f"
  shows "\<exists>e. host_start hc s = (Inl e, s)"
proof -
  have "\<exists>e. gate_fence s = Inl e"
    using assms by (auto simp: gate_fence_def require_clear_def fenced_def)
  then obtain e where e: "gate_fence s = Inl e" ..
  have "wp (host_start hc) (\<lambda>_ _. False) (\<lambda>_ t. t = s) s"
    by (auto simp: host_start_def wp_reads wp_seqP wp_bindP wp_liftE wp_block_Cons e split: sum.splits
        simp del: block.simps)
  then show ?thesis by (auto simp: wp_def split: prod.splits sum.splits)
qed

theorem fence_blocks_every_start_witness:
  "snd (host_start demo_host (demo_ctl\<lparr>ct_fence := Some (demo_fence\<lparr>ff_file := sidecar Unreadable\<rparr>)\<rparr>))
   = demo_ctl\<lparr>ct_fence := Some (demo_fence\<lparr>ff_file := sidecar Unreadable\<rparr>)\<rparr>"
  using fence_blocks_every_start [of "demo_ctl\<lparr>ct_fence := Some (demo_fence\<lparr>ff_file := sidecar Unreadable\<rparr>)\<rparr>"
      "demo_fence\<lparr>ff_file := sidecar Unreadable\<rparr>" demo_host]
  by (auto simp: fenced_iff sidecar_def)

end
